(* ===== verification/Prelude.thy ===== *)
theory Prelude
  imports Main "HOL-Library.AList" "HOL-Library.Multiset"
begin

text \<open>
  The vocabulary every component theory shares: Go errors as values, Go maps as
  association lists (the list order is the iteration order Go happens to pick, so a lemma
  about all lists is a lemma about all orders), the functions of \<open>strings\<close>, \<open>strconv\<close>
  and \<open>path/filepath\<close> the program calls, 64-bit wrap-around, and the collections of facts
  the component proofs are run with.
\<close>

named_theorems gomap_simps \<open>lookups in Go maps after updates, deletions and range loops\<close>
named_theorems iface_simps \<open>unfolding of interface values and of state-threading helpers\<close>

section \<open>Go errors\<close>

text \<open>
  \<open>fmt.Errorf\<close> keeps its format and its arguments; \<open>%w\<close> and \<open>%v\<close> of an error nest it.
  \<open>ExtErr\<close> is an error handed over by code outside the repository, \<open>Panic\<close> a run-time panic.
\<close>

datatype goarg = AStr string | AInt int | AErr goerr
  and goerr = Errorf string "goarg list" | ExtErr string | Panic string

type_synonym 'a res = "goerr + 'a"

text \<open>A Go function that returns a pointer and an error: both are kept.\<close>

type_synonym 'a ret = "'a option \<times> goerr option"

type_synonym gtime = int

text \<open>An operation on a state \<open>'w\<close>: it returns a value and the state after it.\<close>

type_synonym ('a, 'w) act = "'w \<Rightarrow> 'a \<times> 'w"

text \<open>An operation that leaves the part \<open>g\<close> of the state as it is.\<close>

definition keeps :: "('w \<Rightarrow> 'b) \<Rightarrow> ('a, 'w) act \<Rightarrow> bool" where
  "keeps g a \<longleftrightarrow> (\<forall>w. g (snd (a w)) = g w)"

lemma keepsD: "keeps g a \<Longrightarrow> a w = (r, w') \<Longrightarrow> g w' = g w"
  by (metis keeps_def snd_conv)

lemma keepsI: "(\<And>w r w'. a w = (r, w') \<Longrightarrow> g w' = g w) \<Longrightarrow> keeps g a"
  unfolding keeps_def by (metis prod.collapse)

fun is_ok :: "'a res \<Rightarrow> bool" where
  "is_ok (Inr _) = True"
| "is_ok (Inl _) = False"

lemma is_ok_iff: "is_ok r \<longleftrightarrow> (\<exists>v. r = Inr v)"
  by (cases r) auto

lemma not_is_ok_iff: "\<not> is_ok r \<longleftrightarrow> (\<exists>e. r = Inl e)"
  by (cases r) auto

subsection \<open>Rendering an error as text\<close>

definition digit_char :: "nat \<Rightarrow> char" where
  "digit_char n = char_of (48 + n)"

fun nat_digits :: "nat \<Rightarrow> string" where
  "nat_digits n = (if n < 10 then [digit_char n] else nat_digits (n div 10) @ [digit_char (n mod 10)])"

declare nat_digits.simps [simp del]

definition itoa :: "int \<Rightarrow> string" where
  "itoa i = (if i < 0 then CHR ''-'' # nat_digits (nat (- i)) else nat_digits (nat i))"

definition hex_digit :: "nat \<Rightarrow> char" where
  "hex_digit n = (if n < 10 then char_of (48 + n) else char_of (87 + n))"

definition hex_byte :: "char \<Rightarrow> string" where
  "hex_byte c = (let n = of_char c :: nat in [hex_digit (n div 16), hex_digit (n mod 16)])"

text \<open>\<open>hex.EncodeToString\<close>\<close>

definition hex_encode :: "string \<Rightarrow> string" where
  "hex_encode s = concat (map hex_byte s)"

lemma length_hex_encode [simp]: "length (hex_encode s) = 2 * length s"
  by (induction s) (auto simp: hex_encode_def hex_byte_def Let_def)

definition quote_char :: "char \<Rightarrow> string" where
  "quote_char c =
     (let n = of_char c in
      if n = (34::nat) then [char_of (92::nat), c]
      else if n = 92 then [c, c]
      else if n = 10 then [char_of (92::nat), CHR ''n'']
      else if n = 9 then [char_of (92::nat), CHR ''t'']
      else if n = 13 then [char_of (92::nat), CHR ''r'']
      else if n < 32 \<or> n = 127 then
        [char_of (92::nat), CHR ''x'', hex_digit (n div 16), hex_digit (n mod 16)]
      else [c])"

definition go_quote :: "string \<Rightarrow> string" where
  "go_quote s = CHR 0x22 # concat (map quote_char s) @ [CHR 0x22]"

fun expand_fmt :: "string \<Rightarrow> string list \<Rightarrow> string" where
  "expand_fmt [] as = []"
| "expand_fmt [c] as = [c]"
| "expand_fmt (c # v # cs) as =
     (if c = CHR ''%'' then
        (if v = CHR ''%'' then CHR ''%'' # expand_fmt cs as
         else case as of
           [] \<Rightarrow> ''%!'' @ v # ''(MISSING)'' @ expand_fmt cs as
         | a # as' \<Rightarrow> (if v = CHR ''q'' then go_quote a else a) @ expand_fmt cs as')
      else c # expand_fmt (v # cs) as)"

primrec arg_text :: "goarg \<Rightarrow> string" and err_text :: "goerr \<Rightarrow> string" where
  "arg_text (AStr s) = s"
| "arg_text (AInt i) = itoa i"
| "arg_text (AErr e) = err_text e"
| "err_text (Errorf f as) = expand_fmt f (map arg_text as)"
| "err_text (ExtErr s) = s"
| "err_text (Panic s) = s"

declare expand_fmt.simps [simp del] arg_text.simps [simp del] err_text.simps [simp del]

section \<open>Go maps\<close>

type_synonym 'v gomap = "(string \<times> 'v) list"

abbreviation gm_get :: "'v gomap \<Rightarrow> string \<Rightarrow> 'v option" where
  "gm_get m k \<equiv> map_of m k"

abbreviation gm_set :: "string \<Rightarrow> 'v \<Rightarrow> 'v gomap \<Rightarrow> 'v gomap" where
  "gm_set \<equiv> AList.update"

abbreviation gm_del :: "string \<Rightarrow> 'v gomap \<Rightarrow> 'v gomap" where
  "gm_del \<equiv> AList.delete"

abbreviation gm_wf :: "'v gomap \<Rightarrow> bool" where
  "gm_wf m \<equiv> distinct (map fst m)"

text \<open>\<open>m[k]\<close> on a map of strings: the zero value when the key is missing.\<close>

definition gm_str :: "string gomap \<Rightarrow> string \<Rightarrow> string" where
  "gm_str m k = (case gm_get m k of None \<Rightarrow> '''' | Some v \<Rightarrow> v)"

text \<open>\<open>for k, v := range src { dst[k] = v }\<close>\<close>

fun gm_range_into :: "'v gomap \<Rightarrow> 'v gomap \<Rightarrow> 'v gomap" where
  "gm_range_into [] dst = dst"
| "gm_range_into ((k, v) # src) dst = gm_range_into src (gm_set k v dst)"

lemma gm_get_set [gomap_simps, simp]: "map_of (gm_set k v m) = (map_of m)(k \<mapsto> v)"
  by (rule update_conv')

lemma gm_get_del [gomap_simps, simp]: "map_of (gm_del k m) = (map_of m)(k := None)"
  by (simp add: delete_conv')

lemma gm_wf_set [simp]: "gm_wf m \<Longrightarrow> gm_wf (gm_set k v m)"
  by (rule distinct_update)

lemma gm_wf_del [simp]: "gm_wf m \<Longrightarrow> gm_wf (gm_del k m)"
  by (rule distinct_delete)

lemma gm_set_entries: "set (gm_set k v m) \<subseteq> insert (k, v) (set m)"
  by (induction m) auto

lemma gm_del_entries: "set (gm_del k m) \<subseteq> set m"
  by (auto simp: AList.delete_eq)

lemma gm_wf_range_into [simp]: "gm_wf dst \<Longrightarrow> gm_wf (gm_range_into src dst)"
  by (induction src dst rule: gm_range_into.induct) auto

lemma gm_get_range_into [gomap_simps]:
  "gm_wf src \<Longrightarrow> map_of (gm_range_into src dst) = map_of dst ++ map_of src"
proof (induction src dst rule: gm_range_into.induct)
  case (2 k v src dst)
  have "map_of src k = None"
    using "2.prems" by (simp add: map_of_eq_None_iff)
  with 2 show ?case by (auto simp: map_add_def fun_eq_iff split: option.splits)
qed simp

lemma gm_values_listing:
  "gm_wf m \<Longrightarrow> map snd m = map (the \<circ> map_of m) (map fst m)"
  by (simp add: map_eq_conv) (metis eq_key_imp_eq_value map_of_eq_Some_iff option.sel prod.collapse)

text \<open>\<open>lists_values m vs\<close>: a range loop over the abstract map \<open>m\<close> visits exactly the values \<open>vs\<close>.\<close>

definition lists_values :: "(string \<rightharpoonup> 'v) \<Rightarrow> 'v list \<Rightarrow> bool" where
  "lists_values m vs \<longleftrightarrow> (\<exists>ks. distinct ks \<and> set ks = dom m \<and> vs = map (the \<circ> m) ks)"

lemma lists_values_gomap: "gm_wf m \<Longrightarrow> lists_values (map_of m) (map snd m)"
  unfolding lists_values_def
  by (rule exI [of _ "map fst m"]) (simp add: gm_values_listing dom_map_of_conv_image_fst)

lemma lists_values_set: "lists_values m vs \<Longrightarrow> set vs = ran m"
  by (force simp: lists_values_def ran_def dom_def image_iff)

lemma lists_values_mset:
  assumes "lists_values m vs" and "lists_values m us"
  shows "mset vs = mset us"
proof -
  from assms obtain ks js where ks: "distinct ks" "set ks = dom m" "vs = map (the \<circ> m) ks"
    and js: "distinct js" "set js = dom m" "us = map (the \<circ> m) js"
    unfolding lists_values_def by blast
  then have "mset ks = mset js"
    by (simp add: set_eq_iff_mset_eq_distinct [symmetric])
  then have "image_mset (the \<circ> m) (mset ks) = image_mset (the \<circ> m) (mset js)"
    by simp
  then show ?thesis using ks js by simp
qed

lemma lists_values_count:
  assumes "lists_values m vs"
  shows "length (filter P vs) = card {n. \<exists>v. m n = Some v \<and> P v}"
proof -
  from assms obtain ks where ks: "distinct ks" "set ks = dom m" "vs = map (the \<circ> m) ks"
    unfolding lists_values_def by blast
  have "{n. \<exists>v. m n = Some v \<and> P v} = set (filter (\<lambda>k. P (the (m k))) ks)"
    using ks(2) by auto
  then have "card {n. \<exists>v. m n = Some v \<and> P v} = length (filter (\<lambda>k. P (the (m k))) ks)"
    using distinct_card [OF distinct_filter [OF ks(1)]] by metis
  then show ?thesis using ks(3) by (simp add: filter_map comp_def)
qed

end
