(* ===== verification/ApiTypes.thy ===== *)
theory ApiTypes
  imports Prelude
begin

text \<open>
  The objects of \<open>pkg/api/v1alpha1/types.go\<close>, one record per struct and one datatype per
  enumeration. A nil pointer is \<open>None\<close>, a nil slice or map is the empty list, \<open>time.Time\<close>
  is a number of nanoseconds with 0 for the zero time. An embedded or nested struct is a nested record.
\<close>

datatype SandboxState = Pending | Creating | Running | Stopped | Error | Ready | Destroying
  | Destroyed | Paused

primrec state_text :: "SandboxState \<Rightarrow> string" where
  "state_text Pending = ''Pending''"
| "state_text Creating = ''Creating''"
| "state_text Running = ''Running''"
| "state_text Stopped = ''Stopped''"
| "state_text Error = ''Error''"
| "state_text Ready = ''Ready''"
| "state_text Destroying = ''Destroying''"
| "state_text Destroyed = ''Destroyed''"
| "state_text Paused = ''Paused''"

record ObjectMeta =
  om_Name :: string
  om_Version :: string
  om_Labels :: "string gomap"
  om_CreatedAt :: gtime
  om_UpdatedAt :: gtime

record TypeMeta =
  tm_APIVersion :: string
  tm_Kind :: string

record GPUSpec =
  gpu_Count :: int
  gpu_Driver :: string

record Resources =
  res_CPU :: string
  res_Memory :: string
  res_Disk :: string
  res_GPU :: "GPUSpec option"

record SetupStep =
  ss_Run :: string

record Toolchain =
  tc_Name :: string
  tc_Image :: string

record WorkspaceSpec =
  ws_MountPath :: string
  ws_Source :: string
  ws_ReadOnly :: bool

text \<open>\<open>NetworkPolicy\<close> is a string type: a blueprint may hold any string.\<close>

record NetworkSpec =
  net_Expose :: "int list"
  net_Policy :: string
  net_AllowDNS :: bool

record DeviceMapping =
  dm_HostPath :: string
  dm_ContainerPath :: string
  dm_Permissions :: string
  dm_Optional :: bool

record ProbeConfig =
  pc_Type :: string
  pc_Command :: "string list"
  pc_Path :: string
  pc_Port :: int
  pc_InitialDelaySec :: int
  pc_PeriodSec :: int
  pc_TimeoutSec :: int
  pc_SuccessThreshold :: int
  pc_FailureThreshold :: int

record SecretRef =
  sr_Name :: string
  sr_Source :: string

record BlueprintSpec =
  bs_Extends :: string
  bs_Base :: string
  bs_Runtime :: string
  bs_Resources :: Resources
  bs_Env :: "string gomap"
  bs_Secrets :: "SecretRef list"
  bs_Setup :: "SetupStep list"
  bs_Toolchains :: "Toolchain list"
  bs_Workspace :: WorkspaceSpec
  bs_Network :: NetworkSpec
  bs_Devices :: "DeviceMapping list"
  bs_ReadinessProbe :: "ProbeConfig option"

record Blueprint =
  bp_Type :: TypeMeta
  bp_Metadata :: ObjectMeta
  bp_Spec :: BlueprintSpec

record SandboxSpec =
  sp_BlueprintRef :: string
  sp_BlueprintPath :: string
  sp_Resources :: Resources
  sp_Workspace :: WorkspaceSpec
  sp_Team :: string
  sp_Priority :: int

record SandboxStatus =
  st_State :: SandboxState
  st_RuntimeID :: string
  st_IP :: string
  st_StartedAt :: "gtime option"
  st_ReadyAt :: "gtime option"
  st_StoppedAt :: "gtime option"
  st_Message :: string
  st_ProbeError :: string

record Sandbox =
  sb_Type :: TypeMeta
  sb_Metadata :: ObjectMeta
  sb_Spec :: SandboxSpec
  sb_Status :: SandboxStatus

datatype SessionState = SessActive | SessCompleted | SessFailed

primrec session_state_text :: "SessionState \<Rightarrow> string" where
  "session_state_text SessActive = ''Active''"
| "session_state_text SessCompleted = ''Completed''"
| "session_state_text SessFailed = ''Failed''"

record Session =
  se_Type :: TypeMeta
  se_Metadata :: ObjectMeta
  se_Sandbox :: string
  se_State :: SessionState
  se_StartedAt :: "gtime option"
  se_EndedAt :: "gtime option"
  se_ExecCount :: int

datatype MatrixState = MxActive | MxStopped | MxDestroyed

primrec matrix_state_text :: "MatrixState \<Rightarrow> string" where
  "matrix_state_text MxActive = ''Active''"
| "matrix_state_text MxStopped = ''Stopped''"
| "matrix_state_text MxDestroyed = ''Destroyed''"

record MatrixMember =
  mm_Name :: string
  mm_Blueprint :: string

record ShardingConfig =
  sc_Strategy :: string
  sc_KeyField :: string

record AggregationConfig =
  ac_Strategy :: string
  ac_TimeoutSec :: int

record TaskResult =
  tr_MemberName :: string
  tr_TaskID :: string
  tr_Status :: string
  tr_Output :: string
  tr_Error :: string
  tr_CompletedAt :: "gtime option"

record Matrix =
  mx_Type :: TypeMeta
  mx_Metadata :: ObjectMeta
  mx_Team :: string
  mx_Members :: "MatrixMember list"
  mx_State :: MatrixState
  mx_Sharding :: "ShardingConfig option"
  mx_Aggregation :: "AggregationConfig option"
  mx_Results :: "TaskResult list"

text \<open>\<open>Role\<close> is a string type; the three declared roles are constants of it.\<close>

type_synonym Role = string

abbreviation RoleAdmin :: Role where "RoleAdmin \<equiv> ''admin''"
abbreviation RoleOperator :: Role where "RoleOperator \<equiv> ''operator''"
abbreviation RoleViewer :: Role where "RoleViewer \<equiv> ''viewer''"

record User =
  u_Name :: string
  u_Role :: Role
  u_Token :: string

record AuditEntry =
  ae_Timestamp :: gtime
  ae_User :: string
  ae_Action :: string
  ae_Resource :: string
  ae_Result :: string
  ae_Detail :: string

record TeamMember =
  tmb_UserName :: string
  tmb_Role :: Role

record ResourceQuota =
  rq_MaxSandboxes :: int
  rq_MaxCPU :: string
  rq_MaxMemory :: string
  rq_MaxDisk :: string
  rq_MaxGPUs :: int
  rq_MaxMatrices :: int
  rq_MaxSessions :: int

record Team =
  t_Name :: string
  t_DisplayName :: string
  t_Members :: "TeamMember list"
  t_Quota :: ResourceQuota
  t_CreatedAt :: gtime

section \<open>Keys, zero values and the active states\<close>

definition sandbox_key :: "Sandbox \<Rightarrow> string" where
  "sandbox_key sb = om_Name (sb_Metadata sb)"

definition session_key :: "Session \<Rightarrow> string" where
  "session_key s = om_Name (se_Metadata s)"

definition matrix_key :: "Matrix \<Rightarrow> string" where
  "matrix_key m = om_Name (mx_Metadata m)"

definition team_key :: "Team \<Rightarrow> string" where
  "team_key t = t_Name t"

definition zero_status :: SandboxStatus where
  "zero_status = \<lparr>st_State = Pending, st_RuntimeID = '''', st_IP = '''', st_StartedAt = None,
     st_ReadyAt = None, st_StoppedAt = None, st_Message = '''', st_ProbeError = ''''\<rparr>"

definition zero_workspace :: WorkspaceSpec where
  "zero_workspace = \<lparr>ws_MountPath = '''', ws_Source = '''', ws_ReadOnly = False\<rparr>"

definition zero_resources :: Resources where
  "zero_resources = \<lparr>res_CPU = '''', res_Memory = '''', res_Disk = '''', res_GPU = None\<rparr>"

text \<open>The test \<open>State != Running && State != Ready\<close> that guards every use of a live sandbox.\<close>

definition is_live :: "Sandbox \<Rightarrow> bool" where
  "is_live sb \<longleftrightarrow> st_State (sb_Status sb) = Running \<or> st_State (sb_Status sb) = Ready"

definition with_state :: "SandboxState \<Rightarrow> Sandbox \<Rightarrow> Sandbox" where
  "with_state x sb = sb\<lparr>sb_Status := (sb_Status sb)\<lparr>st_State := x\<rparr>\<rparr>"

definition with_error :: "string \<Rightarrow> Sandbox \<Rightarrow> Sandbox" where
  "with_error msg sb = sb\<lparr>sb_Status := (sb_Status sb)\<lparr>st_State := Error, st_Message := msg\<rparr>\<rparr>"

lemma sandbox_key_upd [simp]:
  "sandbox_key (sb\<lparr>sb_Status := x\<rparr>) = sandbox_key sb"
  "sandbox_key (sb\<lparr>sb_Spec := y\<rparr>) = sandbox_key sb"
  "sandbox_key (with_state z sb) = sandbox_key sb"
  "sandbox_key (with_error m sb) = sandbox_key sb"
  "sandbox_key (sb\<lparr>sb_Metadata := (sb_Metadata sb)\<lparr>om_UpdatedAt := t\<rparr>\<rparr>) = sandbox_key sb"
  by (simp_all add: sandbox_key_def with_state_def with_error_def)

lemma session_key_upd [simp]:
  "session_key (s\<lparr>se_State := x\<rparr>) = session_key s"
  "session_key (s\<lparr>se_EndedAt := y\<rparr>) = session_key s"
  "session_key (s\<lparr>se_ExecCount := z\<rparr>) = session_key s"
  "session_key (s\<lparr>se_Metadata := (se_Metadata s)\<lparr>om_UpdatedAt := t\<rparr>\<rparr>) = session_key s"
  by (simp_all add: session_key_def)

end
