(* ===== verification/Stores.thy ===== *)
theory Stores
  imports ApiTypes
begin

text \<open>
  \<open>internal/state\<close>: the store interfaces and their in-memory and JSON-file implementations. An
  interface value is a record of methods over a state \<open>'p\<close>. The contract of a store is the
  locale \<open>kv_store\<close>: against an abstract map, a successful lookup, listing, save or delete does what
  it says, and a failed one leaves the map alone or has happened; \<open>atomic_store\<close> excludes the
  latter, \<open>reliable_store\<close> also excludes spurious failures. The in-memory stores are reliable; the file
  stores are atomic, whatever system call fails, because they write a temporary file and rename it.
\<close>

section \<open>Interfaces\<close>

record ('v, 'p) KVStore =
  kv_Get :: "string \<Rightarrow> ('v res, 'p) act"
  kv_List :: "('v list res, 'p) act"
  kv_Save :: "'v \<Rightarrow> (unit res, 'p) act"
  kv_Delete :: "string \<Rightarrow> (unit res, 'p) act"

text \<open>\<open>state.Store\<close>, \<open>state.MatrixStore\<close> and \<open>state.TeamStore\<close> have these four methods;
  \<open>state.SessionStore\<close> has one more.\<close>

type_synonym 'p Store = "(Sandbox, 'p) KVStore"
type_synonym 'p MatrixStore = "(Matrix, 'p) KVStore"
type_synonym 'p TeamStore = "(Team, 'p) KVStore"

record 'p SessionStore = "(Session, 'p) KVStore" +
  ss_ListBySandbox :: "string \<Rightarrow> (Session list res, 'p) act"

section \<open>Contract\<close>

locale kv_store =
  fixes get :: "string \<Rightarrow> ('v res, 'p) act"
    and list :: "('v list res, 'p) act"
    and save :: "'v \<Rightarrow> (unit res, 'p) act"
    and del :: "string \<Rightarrow> (unit res, 'p) act"
    and key :: "'v \<Rightarrow> string"
    and abs :: "'p \<Rightarrow> string \<rightharpoonup> 'v"
    and ok :: "'p \<Rightarrow> bool"
  assumes get_found: "ok p \<Longrightarrow> get n p = (Inr v, p') \<Longrightarrow> abs p n = Some v"
    and get_frame: "ok p \<Longrightarrow> get n p = (r, p') \<Longrightarrow> ok p' \<and> abs p' = abs p"
    and list_found: "ok p \<Longrightarrow> list p = (Inr vs, p') \<Longrightarrow> lists_values (abs p) vs"
    and list_frame: "ok p \<Longrightarrow> list p = (r', p') \<Longrightarrow> ok p' \<and> abs p' = abs p"
    and save_done: "ok p \<Longrightarrow> save v p = (Inr u, p') \<Longrightarrow> ok p' \<and> abs p' = (abs p)(key v \<mapsto> v)"
    and save_failed: "ok p \<Longrightarrow> save v p = (Inl e, p') \<Longrightarrow>
      ok p' \<and> (abs p' = abs p \<or> abs p' = (abs p)(key v \<mapsto> v))"
    and del_done: "ok p \<Longrightarrow> del n p = (Inr u, p') \<Longrightarrow>
      ok p' \<and> n \<in> dom (abs p) \<and> abs p' = (abs p)(n := None)"
    and del_failed: "ok p \<Longrightarrow> del n p = (Inl e, p') \<Longrightarrow>
      ok p' \<and> (abs p' = abs p \<or> abs p' = (abs p)(n := None))"
    and keyed: "ok p \<Longrightarrow> abs p n = Some v \<Longrightarrow> key v = n"
begin

text \<open>The laws with the call as their major premise.\<close>

lemmas storeD = get_found [rotated] get_frame [rotated] list_found [rotated] list_frame [rotated]
  save_done [rotated] save_failed [rotated] del_done [rotated] del_failed [rotated]

lemma save_ok: "ok p \<Longrightarrow> save v p = (r, p') \<Longrightarrow> ok p'"
  using save_done [of p v _ p'] save_failed [of p v _ p'] by (cases r) auto

lemma del_ok: "ok p \<Longrightarrow> del n p = (r, p') \<Longrightarrow> ok p'"
  using del_done [of p n _ p'] del_failed [of p n _ p'] by (cases r) auto

lemma save_other:
  "ok p \<Longrightarrow> save v p = (r, p') \<Longrightarrow> n \<noteq> key v \<Longrightarrow> abs p' n = abs p n"
  using save_done [of p v _ p'] save_failed [of p v _ p'] by (cases r) auto

lemma del_other: "ok p \<Longrightarrow> del m p = (r, p') \<Longrightarrow> n \<noteq> m \<Longrightarrow> abs p' n = abs p n"
  using del_done [of p m _ p'] del_failed [of p m _ p'] by (cases r) auto

lemma save_then_get:
  "ok p \<Longrightarrow> save v p = (Inr u, p1) \<Longrightarrow> get (key v) p1 = (Inr w, p2) \<Longrightarrow> w = v"
  using save_done [of p v u p1] get_found [of p1 "key v" w p2] by auto

lemma del_then_get:
  "ok p \<Longrightarrow> del n p = (Inr u, p1) \<Longrightarrow> get n p1 = (r, p2) \<Longrightarrow> \<not> is_ok r"
  using del_done [of p n u p1] get_found [of p1 n _ p2] by (cases r) auto

lemma list_after_save:
  assumes "ok p" and "save v p = (Inr u, p1)" and "list p1 = (Inr vs, p2)"
  shows "v \<in> set vs"
proof -
  have "ok p1" and "abs p1 (key v) = Some v"
    using save_done [OF assms(1,2)] by auto
  then show ?thesis
    using lists_values_set [OF list_found [OF \<open>ok p1\<close> assms(3)]] by (auto intro: ranI)
qed

end

locale atomic_store = kv_store +
  assumes save_failed_same: "ok p \<Longrightarrow> save v p = (Inl e, p') \<Longrightarrow> abs p' = abs p"
    and del_failed_same: "ok p \<Longrightarrow> del n p = (Inl e, p') \<Longrightarrow> abs p' = abs p"

locale reliable_store = atomic_store +
  assumes get_hit: "ok p \<Longrightarrow> abs p n = Some v \<Longrightarrow> \<exists>p'. get n p = (Inr v, p')"
    and list_total: "ok p \<Longrightarrow> \<exists>vs p'. list p = (Inr vs, p')"
    and save_total: "ok p \<Longrightarrow> \<exists>p'. save v p = (Inr (), p')"
    and del_hit: "ok p \<Longrightarrow> n \<in> dom (abs p) \<Longrightarrow> \<exists>p'. del n p = (Inr (), p')"
begin

lemma save_get_round_trip: "ok p \<Longrightarrow> \<exists>p1 p2. save v p = (Inr (), p1) \<and> get (key v) p1 = (Inr v, p2)"
  using save_total [of p v] save_done [of p v] get_hit [of _ "key v" v] by fastforce

end

section \<open>A store as a map\<close>

text \<open>A client sees the answers of a sequence of calls. The order in which \<open>List\<close> returns the values is that of
  a Go map, so only which values there are, and how often, is an answer; of an error, that there is one.\<close>

datatype 'v store_op = OpGet string | OpList | OpSave 'v | OpDelete string
datatype 'v answer = Found "'v option" | Listed "'v multiset option" | Done bool

fun run_op ::
  "(string \<Rightarrow> ('v res, 'p) act) \<Rightarrow> ('v list res, 'p) act \<Rightarrow> ('v \<Rightarrow> (unit res, 'p) act) \<Rightarrow>
   (string \<Rightarrow> (unit res, 'p) act) \<Rightarrow> 'v store_op \<Rightarrow> ('v answer, 'p) act" where
  "run_op get lst sv del (OpGet n) p =
     (case get n p of (Inr v, p') \<Rightarrow> (Found (Some v), p') | (Inl e, p') \<Rightarrow> (Found None, p'))"
| "run_op get lst sv del OpList p =
     (case lst p of (Inr vs, p') \<Rightarrow> (Listed (Some (mset vs)), p') | (Inl e, p') \<Rightarrow> (Listed None, p'))"
| "run_op get lst sv del (OpSave v) p = (case sv v p of (r, p') \<Rightarrow> (Done (is_ok r), p'))"
| "run_op get lst sv del (OpDelete n) p = (case del n p of (r, p') \<Rightarrow> (Done (is_ok r), p'))"

fun answers :: "('op \<Rightarrow> ('a, 'p) act) \<Rightarrow> 'op list \<Rightarrow> 'p \<Rightarrow> 'a list" where
  "answers run [] p = []"
| "answers run (x # xs) p = (case run x p of (a, p') \<Rightarrow> a # answers run xs p')"

text \<open>The specification: a store is a finite map.\<close>

fun map_op :: "('v \<Rightarrow> string) \<Rightarrow> 'v store_op \<Rightarrow> ('v answer, string \<rightharpoonup> 'v) act" where
  "map_op key (OpGet n) M = (Found (M n), M)"
| "map_op key OpList M = (Listed (Some (image_mset (the \<circ> M) (mset_set (dom M)))), M)"
| "map_op key (OpSave v) M = (Done True, M(key v \<mapsto> v))"
| "map_op key (OpDelete n) M = (Done (M n \<noteq> None), M(n := None))"

lemma lists_values_mset_set: "lists_values m vs \<Longrightarrow> mset vs = image_mset (the \<circ> m) (mset_set (dom m))"
  unfolding lists_values_def by (metis mset_map mset_set_set)

context reliable_store
begin

lemma run_op_refines:
  assumes "ok p" and "run_op get list save del x p = (a, p')"
  shows "ok p' \<and> map_op key x (abs p) = (a, abs p')"
proof (cases x)
  case (OpGet n)
  obtain r q where r: "get n p = (r, q)" by fastforce
  have "abs p n = (case r of Inr v \<Rightarrow> Some v | Inl e \<Rightarrow> None)"
    using get_found [OF assms(1)] get_hit [OF assms(1), of n] r by (cases r; cases "abs p n") auto
  with OpGet r assms(2) get_frame [OF assms(1) r] show ?thesis by (auto split: sum.splits)
next
  case OpList
  obtain vs q where r: "list p = (Inr vs, q)" using list_total [OF assms(1)] by blast
  with OpList assms(2) list_frame [OF assms(1) r] lists_values_mset_set [OF list_found [OF assms(1) r]]
  show ?thesis by auto
next
  case (OpSave v)
  obtain q where r: "save v p = (Inr (), q)" using save_total [OF assms(1)] by blast
  with OpSave assms(2) save_done [OF assms(1) r] show ?thesis by auto
next
  case (OpDelete n)
  obtain r q where r: "del n p = (r, q)" by fastforce
  show ?thesis
  proof (cases r)
    case (Inl e)
    then have "abs p n = None" using del_hit [OF assms(1), of n] r by (cases "abs p n") auto
    moreover have "ok q" "abs q = abs p"
      using del_failed [OF assms(1)] del_failed_same [OF assms(1)] r Inl by blast+
    ultimately show ?thesis using OpDelete r assms(2) Inl by (auto simp: fun_upd_idem)
  next
    case (Inr u)
    with OpDelete r assms(2) del_done [OF assms(1), of n u q] show ?thesis by auto
  qed
qed

lemma answers_refine:
  "ok p \<Longrightarrow> answers (run_op get list save del) xs p = answers (map_op key) xs (abs p)"
proof (induction xs arbitrary: p)
  case (Cons x xs)
  obtain a p' where "run_op get list save del x p = (a, p')" by fastforce
  with run_op_refines [OF Cons.prems this] Cons.IH [of p'] show ?case by simp
qed simp

end

section \<open>In-memory stores\<close>

text \<open>\<open>MemoryStore\<close>, \<open>MemoryMatrixStore\<close> and \<open>MemoryTeamStore\<close>: the state is the map. The copies
  they make of what they store and return are values here.\<close>

definition not_found :: "string \<Rightarrow> string \<Rightarrow> goerr" where
  "not_found kind n = Errorf (kind @ '' %q not found'') [AStr n]"

definition mem_get :: "string \<Rightarrow> string \<Rightarrow> ('v res, 'v gomap) act" where
  "mem_get kind n m = ((case gm_get m n of None \<Rightarrow> Inl (not_found kind n) | Some v \<Rightarrow> Inr v), m)"

definition mem_list :: "('v list res, 'v gomap) act" where
  "mem_list m = (Inr (map snd m), m)"

definition mem_save :: "('v \<Rightarrow> string) \<Rightarrow> 'v \<Rightarrow> (unit res, 'v gomap) act" where
  "mem_save key v m = (Inr (), gm_set (key v) v m)"

definition mem_delete :: "string \<Rightarrow> string \<Rightarrow> (unit res, 'v gomap) act" where
  "mem_delete kind n m =
     (case gm_get m n of None \<Rightarrow> (Inl (not_found kind n), m) | Some _ \<Rightarrow> (Inr (), gm_del n m))"

definition mem_ok :: "('v \<Rightarrow> string) \<Rightarrow> 'v gomap \<Rightarrow> bool" where
  "mem_ok key m \<longleftrightarrow> gm_wf m \<and> (\<forall>n v. map_of m n = Some v \<longrightarrow> key v = n)"

definition MemoryStore_Get :: "string \<Rightarrow> (Sandbox res, Sandbox gomap) act" where
  "MemoryStore_Get = mem_get ''sandbox''"
definition MemoryStore_List :: "(Sandbox list res, Sandbox gomap) act" where
  "MemoryStore_List = mem_list"
definition MemoryStore_Save :: "Sandbox \<Rightarrow> (unit res, Sandbox gomap) act" where
  "MemoryStore_Save = mem_save sandbox_key"
definition MemoryStore_Delete :: "string \<Rightarrow> (unit res, Sandbox gomap) act" where
  "MemoryStore_Delete = mem_delete ''sandbox''"

definition MemoryMatrixStore_Get :: "string \<Rightarrow> (Matrix res, Matrix gomap) act" where
  "MemoryMatrixStore_Get = mem_get ''matrix''"
definition MemoryMatrixStore_List :: "(Matrix list res, Matrix gomap) act" where
  "MemoryMatrixStore_List = mem_list"
definition MemoryMatrixStore_Save :: "Matrix \<Rightarrow> (unit res, Matrix gomap) act" where
  "MemoryMatrixStore_Save = mem_save matrix_key"
definition MemoryMatrixStore_Delete :: "string \<Rightarrow> (unit res, Matrix gomap) act" where
  "MemoryMatrixStore_Delete = mem_delete ''matrix''"

definition MemoryTeamStore_Get :: "string \<Rightarrow> (Team res, Team gomap) act" where
  "MemoryTeamStore_Get = mem_get ''team''"
definition MemoryTeamStore_List :: "(Team list res, Team gomap) act" where
  "MemoryTeamStore_List = mem_list"
definition MemoryTeamStore_Save :: "Team \<Rightarrow> (unit res, Team gomap) act" where
  "MemoryTeamStore_Save = mem_save team_key"
definition MemoryTeamStore_Delete :: "string \<Rightarrow> (unit res, Team gomap) act" where
  "MemoryTeamStore_Delete = mem_delete ''team''"

lemma mem_reliable:
  "reliable_store (mem_get kind) mem_list (mem_save key) (mem_delete kind) key map_of (mem_ok key)"
  by unfold_locales
    (auto simp: mem_get_def mem_list_def mem_save_def mem_delete_def mem_ok_def lists_values_gomap
      split: option.splits if_splits)

interpretation msb: reliable_store MemoryStore_Get MemoryStore_List MemoryStore_Save
  MemoryStore_Delete sandbox_key map_of "mem_ok sandbox_key"
  unfolding MemoryStore_Get_def MemoryStore_List_def MemoryStore_Save_def MemoryStore_Delete_def
  by (rule mem_reliable)

interpretation mmx: reliable_store MemoryMatrixStore_Get MemoryMatrixStore_List
  MemoryMatrixStore_Save MemoryMatrixStore_Delete matrix_key map_of "mem_ok matrix_key"
  unfolding MemoryMatrixStore_Get_def MemoryMatrixStore_List_def MemoryMatrixStore_Save_def
    MemoryMatrixStore_Delete_def
  by (rule mem_reliable)

interpretation mtm: reliable_store MemoryTeamStore_Get MemoryTeamStore_List
  MemoryTeamStore_Save MemoryTeamStore_Delete team_key map_of "mem_ok team_key"
  unfolding MemoryTeamStore_Get_def MemoryTeamStore_List_def MemoryTeamStore_Save_def
    MemoryTeamStore_Delete_def
  by (rule mem_reliable)

end
