(* ===== verification/GoStrings.thy ===== *)
theory GoStrings
  imports Prelude
begin

text \<open>
  The functions of Go's \<open>strings\<close> and \<open>path/filepath\<close> packages that the program calls, on
  byte strings, for a Unix host. White space is the ASCII white space; paths are cleaned by the
  rules of \<open>filepath.Clean\<close> (empty and \<open>.\<close> elements dropped, \<open>..\<close> resolved against
  the element before it).
\<close>

section \<open>strings\<close>

definition HasPrefix :: "string \<Rightarrow> string \<Rightarrow> bool" where
  "HasPrefix s p \<longleftrightarrow> take (length p) s = p"

definition HasSuffix :: "string \<Rightarrow> string \<Rightarrow> bool" where
  "HasSuffix s p \<longleftrightarrow> length p \<le> length s \<and> drop (length s - length p) s = p"

definition TrimPrefix :: "string \<Rightarrow> string \<Rightarrow> string" where
  "TrimPrefix s p = (if HasPrefix s p then drop (length p) s else s)"

definition TrimSuffix :: "string \<Rightarrow> string \<Rightarrow> string" where
  "TrimSuffix s p = (if HasSuffix s p then take (length s - length p) s else s)"

fun Contains :: "string \<Rightarrow> string \<Rightarrow> bool" where
  "Contains [] sub = (sub = [])"
| "Contains (c # cs) sub = (HasPrefix (c # cs) sub \<or> Contains cs sub)"

definition is_space :: "char \<Rightarrow> bool" where
  "is_space c \<longleftrightarrow> c \<in> {CHR '' '', CHR 0x09, CHR 0x0A, CHR 0x0B, CHR 0x0C, CHR 0x0D}"

definition TrimSpace :: "string \<Rightarrow> string" where
  "TrimSpace s = rev (dropWhile is_space (rev (dropWhile is_space s)))"

text \<open>\<open>strings.SplitN(s, sep, n)\<close> for a one-byte separator and \<open>n > 0\<close>.\<close>

fun SplitN :: "string \<Rightarrow> char \<Rightarrow> nat \<Rightarrow> string list" where
  "SplitN s c 0 = []"
| "SplitN s c (Suc 0) = [s]"
| "SplitN s c (Suc (Suc n)) =
     (case dropWhile (\<lambda>x. x \<noteq> c) s of
        [] \<Rightarrow> [s]
      | _ # rest \<Rightarrow> takeWhile (\<lambda>x. x \<noteq> c) s # SplitN rest c (Suc n))"

text \<open>\<open>strings.Split(s, sep)\<close> for a one-byte separator.\<close>

fun Split_acc :: "string \<Rightarrow> char \<Rightarrow> string \<Rightarrow> string list" where
  "Split_acc [] c acc = [rev acc]"
| "Split_acc (x # xs) c acc = (if x = c then rev acc # Split_acc xs c [] else Split_acc xs c (x # acc))"

definition Split :: "string \<Rightarrow> char \<Rightarrow> string list" where
  "Split s c = Split_acc s c []"

text \<open>\<open>strings.Fields\<close>: the maximal runs of non-space bytes.\<close>

fun Fields_acc :: "string \<Rightarrow> string \<Rightarrow> string list" where
  "Fields_acc [] acc = (if acc = [] then [] else [rev acc])"
| "Fields_acc (x # xs) acc =
     (if is_space x then (if acc = [] then Fields_acc xs [] else rev acc # Fields_acc xs [])
      else Fields_acc xs (x # acc))"

definition Fields :: "string \<Rightarrow> string list" where
  "Fields s = Fields_acc s []"

definition to_upper :: "char \<Rightarrow> char" where
  "to_upper c = (let n = of_char c :: nat in if 97 \<le> n \<and> n \<le> 122 then char_of (n - 32) else c)"

definition ToUpper :: "string \<Rightarrow> string" where
  "ToUpper = map to_upper"

lemma HasPrefix_append [simp]: "HasPrefix (p @ s) p"
  by (simp add: HasPrefix_def)

lemma HasPrefix_iff: "HasPrefix s p \<longleftrightarrow> (\<exists>t. s = p @ t)"
  by (auto simp: HasPrefix_def) (metis append_take_drop_id)

lemma TrimPrefix_append [simp]: "TrimPrefix (p @ s) p = s"
  by (simp add: TrimPrefix_def)

lemma HasSuffix_append [simp]: "HasSuffix (s @ p) p"
  by (simp add: HasSuffix_def)

lemma HasSuffix_iff: "HasSuffix s p \<longleftrightarrow> (\<exists>t. s = t @ p)"
  by (auto simp: HasSuffix_def) (metis append_take_drop_id)

lemma TrimSuffix_append [simp]: "TrimSuffix (s @ p) p = s"
  by (simp add: TrimSuffix_def)

lemma Contains_iff: "Contains s sub \<longleftrightarrow> (\<exists>a b. s = a @ sub @ b)"
proof (induction s sub rule: Contains.induct)
  case (2 c cs sub)
  have "(\<exists>a b. c # cs = a @ sub @ b) \<longleftrightarrow>
        (\<exists>b. c # cs = sub @ b) \<or> (\<exists>a b. cs = a @ sub @ b)"
    by (metis append_Cons append_Nil list.exhaust list.inject)
  with 2 show ?case by (auto simp: HasPrefix_iff)
qed auto

lemma SplitN_length: "length (SplitN s c n) \<le> n"
  by (induction s c n rule: SplitN.induct) (auto split: list.splits)

lemma Split_acc_not_empty [simp]: "Split_acc s c acc \<noteq> []"
  by (induction s c acc rule: Split_acc.induct) auto

lemma Split_acc_no_sep: "c \<notin> set acc \<Longrightarrow> x \<in> set (Split_acc s c acc) \<Longrightarrow> c \<notin> set x"
  by (induction s c acc rule: Split_acc.induct) (auto split: if_splits)

lemma Split_no_sep: "x \<in> set (Split s c) \<Longrightarrow> c \<notin> set x"
  unfolding Split_def by (rule Split_acc_no_sep) auto

section \<open>path/filepath\<close>

abbreviation slash :: char where
  "slash \<equiv> CHR 0x2F"

definition IsAbs :: "string \<Rightarrow> bool" where
  "IsAbs p = HasPrefix p ''/''"

text \<open>One element of the path against the stack of elements kept so far (innermost first).\<close>

definition clean_step :: "bool \<Rightarrow> string \<Rightarrow> string list \<Rightarrow> string list" where
  "clean_step rooted e st =
     (if e = '''' \<or> e = ''.'' then st
      else if e = ''..'' then
        (case st of
           [] \<Rightarrow> (if rooted then [] else [''..''])
         | t # ts \<Rightarrow> (if t = ''..'' then ''..'' # st else ts))
      else e # st)"

definition clean_elems :: "bool \<Rightarrow> string list \<Rightarrow> string list" where
  "clean_elems rooted es = rev (fold (clean_step rooted) es [])"

fun join_slash :: "string list \<Rightarrow> string" where
  "join_slash [] = ''''"
| "join_slash [e] = e"
| "join_slash (e # es) = e @ slash # join_slash es"

definition Clean :: "string \<Rightarrow> string" where
  "Clean p =
     (let rooted = IsAbs p; es = clean_elems rooted (Split p slash) in
      if rooted then slash # join_slash es
      else if es = [] then ''.'' else join_slash es)"

text \<open>\<open>filepath.Dir\<close>: clean what stands before the last slash, the slash included.\<close>

definition Dir :: "string \<Rightarrow> string" where
  "Dir p = Clean (rev (dropWhile (\<lambda>c. c \<noteq> slash) (rev p)))"

text \<open>\<open>filepath.Base\<close>: the element after the last slash, trailing slashes stripped first.\<close>

definition Base :: "string \<Rightarrow> string" where
  "Base p =
     (if p = '''' then ''.''
      else let q = rev (dropWhile (\<lambda>c. c = slash) (rev p)) in
        if q = '''' then ''/'' else rev (takeWhile (\<lambda>c. c \<noteq> slash) (rev q)))"

definition Join :: "string list \<Rightarrow> string" where
  "Join es = (let ne = filter (\<lambda>e. e \<noteq> '''') es in
     if ne = [] then '''' else Clean (join_slash ne))"

text \<open>In a rooted path nothing is left of \<open>..\<close>; in a relative one it stands only in front.\<close>

lemma clean_step_rooted:
  "''..'' \<notin> set st \<Longrightarrow> ''..'' \<notin> set (clean_step True e st)"
  by (auto simp: clean_step_def split: list.splits)

lemma clean_elems_rooted: "''..'' \<notin> set (clean_elems True es)"
proof -
  have "''..'' \<notin> set st \<Longrightarrow> ''..'' \<notin> set (fold (clean_step True) es st)" for st
    by (induction es arbitrary: st) (simp_all add: clean_step_rooted)
  then show ?thesis by (simp add: clean_elems_def)
qed

definition path_elem :: "string \<Rightarrow> bool" where
  "path_elem e \<longleftrightarrow> e \<noteq> '''' \<and> slash \<notin> set e"

lemma clean_step_elem:
  "list_all path_elem st \<Longrightarrow> slash \<notin> set e \<Longrightarrow> list_all path_elem (clean_step r e st)"
  by (auto simp: path_elem_def clean_step_def split: list.splits)

lemma fold_clean_step_elem:
  "list_all path_elem st \<Longrightarrow> \<forall>e \<in> set es. slash \<notin> set e \<Longrightarrow>
   list_all path_elem (fold (clean_step r) es st)"
proof (induction es arbitrary: st)
  case (Cons e es)
  have "list_all path_elem (clean_step r e st)"
    using Cons.prems by (intro clean_step_elem) auto
  then have "list_all path_elem (fold (clean_step r) es (clean_step r e st))"
    using Cons.prems by (intro Cons.IH) auto
  then show ?case by simp
qed simp

lemma clean_elems_elem:
  "\<forall>e \<in> set es. slash \<notin> set e \<Longrightarrow> list_all path_elem (clean_elems r es)"
  unfolding clean_elems_def using fold_clean_step_elem [of "[]" es r] by simp

lemma clean_elems_Split: "list_all path_elem (clean_elems r (Split p slash))"
  by (rule clean_elems_elem) (auto dest: Split_no_sep)

lemma join_slash_contains: "e \<in> set es \<Longrightarrow> \<exists>a b. join_slash es = a @ e @ b"
proof (induction es rule: join_slash.induct)
  case (3 e1 e2 es)
  show ?case
  proof (cases "e = e1")
    case True
    then show ?thesis by (metis append_Nil join_slash.simps(3))
  next
    case False
    with 3 obtain a b where "join_slash (e2 # es) = a @ e @ b" by auto
    then have "join_slash (e1 # e2 # es) = (e1 @ slash # a) @ e @ b" by simp
    then show ?thesis by blast
  qed
qed (auto, metis append_Nil append_Nil2)

lemma join_slash_Split_acc:
  "\<forall>e \<in> set es. slash \<notin> set e \<Longrightarrow> es \<noteq> [] \<Longrightarrow> slash \<notin> set acc \<Longrightarrow>
   Split_acc (join_slash es) slash acc = (rev acc @ hd es) # tl es"
proof (induction es arbitrary: acc rule: join_slash.induct)
  case (2 e)
  have "Split_acc e slash acc = [rev acc @ e]"
    using "2.prems" by (induction e arbitrary: acc) auto
  then show ?case by simp
next
  case (3 e e' es)
  have "Split_acc (xs @ slash # rest) slash acc = (rev acc @ xs) # Split_acc rest slash []"
    if "slash \<notin> set xs" for xs rest acc
    using that by (induction xs arbitrary: acc) auto
  with 3 show ?case by simp
qed simp

lemma Split_join_slash:
  "\<forall>e \<in> set es. slash \<notin> set e \<Longrightarrow> es \<noteq> [] \<Longrightarrow> Split (join_slash es) slash = es"
  using join_slash_Split_acc [of es "[]"] by (simp add: Split_def)

end
