(* ===== verification/FileStores.thy ===== *)
theory FileStores
  imports Stores GoStrings
begin

text \<open>
  The JSON-file stores of \<open>internal/state\<close>: \<open>FileStore\<close>, \<open>FileMatrixStore\<close>,
  \<open>FileSessionStore\<close> and \<open>FileTeamStore\<close> are four copies of one algorithm (load the file, change
  the map, write a temporary file, rename it over the state file), which differ in the value type, the
  key and the words of their messages; the algorithm is written once (\<open>fs_*\<close>) and each Go method is
  an instance of it. The state is the part of the disk a store owns: its state file, the
  temporary files in the same directory, and a list of booleans that says which of the coming
  system calls fail. The content of a file is what \<open>encoding/json\<close> makes of it: bytes that do not parse,
  the document \<open>null\<close>, or an object whose values may be \<open>null\<close> (a nil pointer once decoded).
  The writing of the file is also given call by call as a step relation, in which a crash may happen
  between any two calls.
\<close>

datatype 'v fcontent = Corrupt | JNull | JDoc "'v option gomap"

record 'v disk =
  dk_state :: "'v fcontent option"
  dk_temps :: "(nat \<times> 'v fcontent) list"
  dk_next :: nat
  dk_faults :: "bool list"

text \<open>Does the next system call fail?\<close>

definition fault :: "(bool, 'v disk) act" where
  "fault d = (case dk_faults d of [] \<Rightarrow> (False, d) | b # bs \<Rightarrow> (b, d\<lparr>dk_faults := bs\<rparr>))"

lemma fault_frame [simp]:
  "fault d = (b, d') \<Longrightarrow> dk_state d' = dk_state d"
  "fault d = (b, d') \<Longrightarrow> dk_temps d' = dk_temps d"
  "fault d = (b, d') \<Longrightarrow> dk_next d' = dk_next d"
  by (auto simp: fault_def split: list.splits)

definition os_error :: goerr where
  "os_error = ExtErr ''system call failed''"

definition nil_deref :: goerr where
  "nil_deref = Panic ''invalid memory address or nil pointer dereference''"

section \<open>The algorithm\<close>

text \<open>\<open>NewFileStoreWithPath\<close>: make the directory, seed a missing file with an empty object.
  \<open>WriteFile\<close> creates the file and then writes it.\<close>

definition fs_new :: "string \<Rightarrow> string \<Rightarrow> (unit res, 'v disk) act" where
  "fs_new noun path d =
     (case fault d of
        (True, d1) \<Rightarrow> (Inl (Errorf (''creating '' @ noun @ '' directory %s: %w'') [AStr (Dir path), AErr os_error]), d1)
      | (False, d1) \<Rightarrow> (case fault d1 of
          (True, d2) \<Rightarrow> (Inr (), d2)
        | (False, d2) \<Rightarrow>
            if dk_state d2 \<noteq> None then (Inr (), d2)
            else (case fault d2 of
                (True, d3) \<Rightarrow>
                  (Inl (Errorf (''initializing '' @ noun @ '' file %s: %w'') [AStr path, AErr os_error]), d3)
              | (False, d3) \<Rightarrow> (case fault (d3\<lparr>dk_state := Some Corrupt\<rparr>) of
                  (True, d4) \<Rightarrow>
                    (Inl (Errorf (''initializing '' @ noun @ '' file %s: %w'') [AStr path, AErr os_error]), d4)
                | (False, d4) \<Rightarrow> (Inr (), d4\<lparr>dk_state := Some (JDoc [])\<rparr>)))))"

definition fs_load :: "string \<Rightarrow> ('v option gomap res, 'v disk) act" where
  "fs_load noun d =
     (case fault d of
        (True, d') \<Rightarrow> (Inl (Errorf (''reading '' @ noun @ '' file: %w'') [AErr os_error]), d')
      | (False, d') \<Rightarrow>
         ((case dk_state d' of
             None \<Rightarrow> Inl (Errorf (''reading '' @ noun @ '' file: %w'') [AErr os_error])
           | Some Corrupt \<Rightarrow> Inl (Errorf (''parsing '' @ noun @ '' file: %w'') [AErr (ExtErr ''invalid JSON'')])
           | Some JNull \<Rightarrow> Inr []
           | Some (JDoc m) \<Rightarrow> Inr m), d'))"

definition fs_remove :: "nat \<Rightarrow> 'v disk \<Rightarrow> 'v disk" where
  "fs_remove t d =
     (case fault d of
        (True, d') \<Rightarrow> d'
      | (False, d') \<Rightarrow> d'\<lparr>dk_temps := AList.delete t (dk_temps d')\<rparr>)"

abbreviation marshal_err :: "string \<Rightarrow> goerr" where
  "marshal_err noun \<equiv> Errorf (''marshaling '' @ noun @ '': %w'') [AErr os_error]"
abbreviation create_temp_err :: goerr where
  "create_temp_err \<equiv> Errorf ''creating temp file: %w'' [AErr os_error]"
abbreviation write_temp_err :: goerr where
  "write_temp_err \<equiv> Errorf ''writing temp file: %w'' [AErr os_error]"
abbreviation close_temp_err :: goerr where
  "close_temp_err \<equiv> Errorf ''closing temp file: %w'' [AErr os_error]"
abbreviation rename_err :: "string \<Rightarrow> goerr" where
  "rename_err noun \<equiv> Errorf (''renaming temp file to '' @ noun @ '' file: %w'') [AErr os_error]"

definition set_temp :: "nat \<Rightarrow> 'v fcontent \<Rightarrow> 'v disk \<Rightarrow> 'v disk" where
  "set_temp t c d = d\<lparr>dk_temps := AList.update t c (dk_temps d)\<rparr>"

definition fs_save :: "string \<Rightarrow> 'v option gomap \<Rightarrow> (unit res, 'v disk) act" where
  "fs_save noun m d =
     (case fault d of
        (True, d1) \<Rightarrow> (Inl (marshal_err noun), d1)
      | (False, d1) \<Rightarrow> (case fault d1 of
          (True, d2) \<Rightarrow> (Inl create_temp_err, d2)
        | (False, d2) \<Rightarrow>
           (let t = dk_next d2; d3 = set_temp t Corrupt (d2\<lparr>dk_next := Suc t\<rparr>) in
            case fault d3 of
              (True, d4) \<Rightarrow> (Inl write_temp_err, fs_remove t d4)
            | (False, d4) \<Rightarrow> (case fault (set_temp t (JDoc m) d4) of
                (True, d5) \<Rightarrow> (Inl close_temp_err, fs_remove t d5)
              | (False, d5) \<Rightarrow> (case fault d5 of
                  (True, d6) \<Rightarrow> (Inl (rename_err noun), fs_remove t d6)
                | (False, d6) \<Rightarrow>
                    (Inr (), d6\<lparr>dk_state := Some (JDoc m),
                      dk_temps := AList.delete t (dk_temps d6)\<rparr>))))))"

definition fs_get :: "string \<Rightarrow> string \<Rightarrow> string \<Rightarrow> ('v res, 'v disk) act" where
  "fs_get kind noun n d =
     (case fs_load noun d of
        (Inl e, d') \<Rightarrow> (Inl e, d')
      | (Inr m, d') \<Rightarrow>
          ((case gm_get m n of
              None \<Rightarrow> Inl (not_found kind n)
            | Some None \<Rightarrow> Inl nil_deref
            | Some (Some v) \<Rightarrow> Inr v), d'))"

text \<open>The loops of \<open>List\<close> and \<open>ListSessionsBySandbox\<close> dereference every entry they visit.\<close>

fun deref_filter :: "('v \<Rightarrow> bool) \<Rightarrow> 'v option gomap \<Rightarrow> 'v list res" where
  "deref_filter f [] = Inr []"
| "deref_filter f ((k, None) # m) = Inl nil_deref"
| "deref_filter f ((k, Some v) # m) =
     (case deref_filter f m of Inl e \<Rightarrow> Inl e | Inr vs \<Rightarrow> Inr (if f v then v # vs else vs))"

definition fs_list :: "string \<Rightarrow> ('v \<Rightarrow> bool) \<Rightarrow> ('v list res, 'v disk) act" where
  "fs_list noun f d =
     (case fs_load noun d of
        (Inl e, d') \<Rightarrow> (Inl e, d')
      | (Inr m, d') \<Rightarrow> (deref_filter f m, d'))"

definition fs_put :: "string \<Rightarrow> ('v \<Rightarrow> string) \<Rightarrow> 'v \<Rightarrow> (unit res, 'v disk) act" where
  "fs_put noun key v d =
     (case fs_load noun d of
        (Inl e, d') \<Rightarrow> (Inl e, d')
      | (Inr m, d') \<Rightarrow> fs_save noun (gm_set (key v) (Some v) m) d')"

definition fs_delete :: "string \<Rightarrow> string \<Rightarrow> string \<Rightarrow> (unit res, 'v disk) act" where
  "fs_delete kind noun n d =
     (case fs_load noun d of
        (Inl e, d') \<Rightarrow> (Inl e, d')
      | (Inr m, d') \<Rightarrow>
          (case gm_get m n of
             None \<Rightarrow> (Inl (not_found kind n), d')
           | Some _ \<Rightarrow> fs_save noun (gm_del n m) d'))"

section \<open>The four stores\<close>

definition NewFileStoreWithPath :: "string \<Rightarrow> (unit res, Sandbox disk) act" where
  "NewFileStoreWithPath = fs_new ''state''"
definition FileStore_load :: "(Sandbox option gomap res, Sandbox disk) act" where
  "FileStore_load = fs_load ''state''"
definition FileStore_save :: "Sandbox option gomap \<Rightarrow> (unit res, Sandbox disk) act" where
  "FileStore_save = fs_save ''state''"
definition FileStore_Get :: "string \<Rightarrow> (Sandbox res, Sandbox disk) act" where
  "FileStore_Get = fs_get ''sandbox'' ''state''"
definition FileStore_List :: "(Sandbox list res, Sandbox disk) act" where
  "FileStore_List = fs_list ''state'' (\<lambda>_. True)"
definition FileStore_Save :: "Sandbox \<Rightarrow> (unit res, Sandbox disk) act" where
  "FileStore_Save = fs_put ''state'' sandbox_key"
definition FileStore_Delete :: "string \<Rightarrow> (unit res, Sandbox disk) act" where
  "FileStore_Delete = fs_delete ''sandbox'' ''state''"

definition NewFileMatrixStoreWithPath :: "string \<Rightarrow> (unit res, Matrix disk) act" where
  "NewFileMatrixStoreWithPath = fs_new ''matrices''"
definition FileMatrixStore_load :: "(Matrix option gomap res, Matrix disk) act" where
  "FileMatrixStore_load = fs_load ''matrices''"
definition FileMatrixStore_save :: "Matrix option gomap \<Rightarrow> (unit res, Matrix disk) act" where
  "FileMatrixStore_save = fs_save ''matrices''"
definition FileMatrixStore_Get :: "string \<Rightarrow> (Matrix res, Matrix disk) act" where
  "FileMatrixStore_Get = fs_get ''matrix'' ''matrices''"
definition FileMatrixStore_List :: "(Matrix list res, Matrix disk) act" where
  "FileMatrixStore_List = fs_list ''matrices'' (\<lambda>_. True)"
definition FileMatrixStore_Save :: "Matrix \<Rightarrow> (unit res, Matrix disk) act" where
  "FileMatrixStore_Save = fs_put ''matrices'' matrix_key"
definition FileMatrixStore_Delete :: "string \<Rightarrow> (unit res, Matrix disk) act" where
  "FileMatrixStore_Delete = fs_delete ''matrix'' ''matrices''"

definition NewFileSessionStoreWithPath :: "string \<Rightarrow> (unit res, Session disk) act" where
  "NewFileSessionStoreWithPath = fs_new ''sessions''"
definition FileSessionStore_load :: "(Session option gomap res, Session disk) act" where
  "FileSessionStore_load = fs_load ''sessions''"
definition FileSessionStore_save :: "Session option gomap \<Rightarrow> (unit res, Session disk) act" where
  "FileSessionStore_save = fs_save ''sessions''"
definition FileSessionStore_Get :: "string \<Rightarrow> (Session res, Session disk) act" where
  "FileSessionStore_Get = fs_get ''session'' ''sessions''"
definition FileSessionStore_List :: "(Session list res, Session disk) act" where
  "FileSessionStore_List = fs_list ''sessions'' (\<lambda>_. True)"
definition FileSessionStore_ListBySandbox :: "string \<Rightarrow> (Session list res, Session disk) act" where
  "FileSessionStore_ListBySandbox sn = fs_list ''sessions'' (\<lambda>s. se_Sandbox s = sn)"
definition FileSessionStore_Save :: "Session \<Rightarrow> (unit res, Session disk) act" where
  "FileSessionStore_Save = fs_put ''sessions'' session_key"
definition FileSessionStore_Delete :: "string \<Rightarrow> (unit res, Session disk) act" where
  "FileSessionStore_Delete = fs_delete ''session'' ''sessions''"

definition NewFileTeamStoreWithPath :: "string \<Rightarrow> (unit res, Team disk) act" where
  "NewFileTeamStoreWithPath = fs_new ''teams''"
definition FileTeamStore_load :: "(Team option gomap res, Team disk) act" where
  "FileTeamStore_load = fs_load ''teams''"
definition FileTeamStore_save :: "Team option gomap \<Rightarrow> (unit res, Team disk) act" where
  "FileTeamStore_save = fs_save ''teams''"
definition FileTeamStore_Get :: "string \<Rightarrow> (Team res, Team disk) act" where
  "FileTeamStore_Get = fs_get ''team'' ''teams''"
definition FileTeamStore_List :: "(Team list res, Team disk) act" where
  "FileTeamStore_List = fs_list ''teams'' (\<lambda>_. True)"
definition FileTeamStore_Save :: "Team \<Rightarrow> (unit res, Team disk) act" where
  "FileTeamStore_Save = fs_put ''teams'' team_key"
definition FileTeamStore_Delete :: "string \<Rightarrow> (unit res, Team disk) act" where
  "FileTeamStore_Delete = fs_delete ''team'' ''teams''"

section \<open>The contract holds\<close>

text \<open>The stored map, and well-formedness of the file: an object with no null entry, each
  value under its own key.\<close>

definition fs_abs :: "'v disk \<Rightarrow> string \<rightharpoonup> 'v" where
  "fs_abs d = (case dk_state d of
     Some (JDoc m) \<Rightarrow> (\<lambda>n. case map_of m n of Some (Some v) \<Rightarrow> Some v | _ \<Rightarrow> None)
   | _ \<Rightarrow> Map.empty)"

definition doc_ok :: "('v \<Rightarrow> string) \<Rightarrow> 'v option gomap \<Rightarrow> bool" where
  "doc_ok key m \<longleftrightarrow> gm_wf m \<and> (\<forall>n x. map_of m n = Some x \<longrightarrow> (\<exists>v. x = Some v \<and> key v = n))"

definition fs_ok :: "('v \<Rightarrow> string) \<Rightarrow> 'v disk \<Rightarrow> bool" where
  "fs_ok key d \<longleftrightarrow> (case dk_state d of Some (JDoc m) \<Rightarrow> doc_ok key m | Some JNull \<Rightarrow> True | _ \<Rightarrow> False)"

lemma fs_remove_frame [simp]: "dk_state (fs_remove t d) = dk_state d"
  by (auto simp: fs_remove_def split: prod.splits bool.splits)

lemma set_temp_frame [simp]: "dk_state (set_temp t c d) = dk_state d"
  by (simp add: set_temp_def)

lemma fs_load_frame: "fs_load noun d = (r, d') \<Longrightarrow> dk_state d' = dk_state d"
  by (auto simp: fs_load_def split: prod.splits bool.splits)

lemma fs_load_doc:
  assumes "fs_ok key d" and "fs_load noun d = (Inr m, d')"
  shows "doc_ok key m"
    and "fs_abs d = (\<lambda>n. case map_of m n of Some (Some v) \<Rightarrow> Some v | _ \<Rightarrow> None)"
  using assms
  by (auto simp: fs_load_def fs_ok_def fs_abs_def doc_ok_def
      split: prod.splits bool.splits option.splits fcontent.splits)

text \<open>Writing the file either replaces the whole document or changes nothing of it.\<close>

lemma fs_save_result:
  "fs_save noun m d = (r, d') \<Longrightarrow> dk_state d' = (if is_ok r then Some (JDoc m) else dk_state d)"
  unfolding fs_save_def Let_def
  by (auto split: prod.splits bool.splits)

lemma fs_abs_cong: "dk_state d = dk_state d' \<Longrightarrow> fs_abs d = fs_abs d'"
  by (simp add: fs_abs_def)

lemma fs_ok_cong: "dk_state d = dk_state d' \<Longrightarrow> fs_ok key d = fs_ok key d'"
  by (simp add: fs_ok_def)

lemma doc_ok_set: "doc_ok key m \<Longrightarrow> doc_ok key (gm_set (key v) (Some v) m)"
  by (auto simp: doc_ok_def split: if_splits)

lemma doc_ok_del: "doc_ok key m \<Longrightarrow> doc_ok key (gm_del n m)"
  by (auto simp: doc_ok_def split: if_splits)

lemma deref_filter_ok:
  "\<forall>x \<in> set (map snd m). x \<noteq> None \<Longrightarrow>
   deref_filter f m = Inr (filter f (map (the \<circ> snd) m))"
  by (induction f m rule: deref_filter.induct) auto

lemma doc_ok_no_null: "doc_ok key m \<Longrightarrow> \<forall>x \<in> set (map snd m). x \<noteq> None"
  by (auto simp: doc_ok_def) (metis map_of_is_SomeI option.distinct(1))

lemma doc_listing:
  assumes "doc_ok key m"
  shows "lists_values (\<lambda>n. case map_of m n of Some (Some v) \<Rightarrow> Some v | _ \<Rightarrow> None)
    (map (the \<circ> snd) m)" (is "lists_values ?a _")
  unfolding lists_values_def
proof (intro exI conjI)
  show "distinct (map fst m)" using assms by (simp add: doc_ok_def)
  have "map_of m n \<noteq> Some None" for n using assms unfolding doc_ok_def by blast
  then have "dom ?a = dom (map_of m)"
    by (auto simp: dom_def split: option.splits)
  then show "set (map fst m) = dom ?a" by (simp add: dom_map_of_conv_image_fst)
  have "the x = the (?a k)" if "(k, x) \<in> set m" for k x
  proof -
    have k: "map_of m k = Some x" using assms that by (simp add: doc_ok_def)
    with assms obtain v where "x = Some v" unfolding doc_ok_def by blast
    with k show ?thesis by simp
  qed
  then show "map (the \<circ> snd) m = map (the \<circ> ?a) (map fst m)" by auto
qed

lemma fs_frame:
  assumes "fs_ok key p" and "dk_state p' = dk_state p"
  shows "fs_ok key p'" and "fs_abs p' = fs_abs p"
  using assms by (metis fs_ok_cong) (metis assms(2) fs_abs_cong)

lemma fs_get_state: "fs_get kind noun n p = (r, p') \<Longrightarrow> dk_state p' = dk_state p"
  by (auto simp: fs_get_def dest: fs_load_frame split: prod.splits sum.splits)

lemma fs_get_found:
  assumes "fs_ok key p" and "fs_get kind noun n p = (Inr v, p')"
  shows "fs_abs p n = Some v"
  using assms fs_load_doc [OF assms(1), of noun]
  by (auto simp: fs_get_def split: prod.splits sum.splits option.splits)

lemma fs_list_state: "fs_list noun f p = (r, p') \<Longrightarrow> dk_state p' = dk_state p"
  by (auto simp: fs_list_def dest: fs_load_frame split: prod.splits sum.splits)

lemma fs_list_found:
  assumes "fs_ok key p" and "fs_list noun f p = (Inr vs, p')"
  obtains us where "lists_values (fs_abs p) us" and "vs = filter f us"
proof -
  obtain m d' where m: "fs_load noun p = (Inr m, d')" "deref_filter f m = Inr vs"
    using assms by (auto simp: fs_list_def split: prod.splits sum.splits)
  note doc = fs_load_doc [OF assms(1) m(1)]
  show thesis
  proof (rule that)
    show "lists_values (fs_abs p) (map (the \<circ> snd) m)"
      using doc by (simp add: doc_listing)
    show "vs = filter f (map (the \<circ> snd) m)"
      using m(2) deref_filter_ok [OF doc_ok_no_null [OF doc(1)], of f] by simp
  qed
qed

lemma fs_put_done:
  assumes "fs_ok key p" and "fs_put noun key v p = (Inr u, p')"
  shows "fs_ok key p' \<and> fs_abs p' = (fs_abs p)(key v \<mapsto> v)"
proof -
  obtain m d' where m: "fs_load noun p = (Inr m, d')"
    "fs_save noun (gm_set (key v) (Some v) m) d' = (Inr u, p')"
    using assms by (auto simp: fs_put_def split: prod.splits sum.splits)
  then have "dk_state p' = Some (JDoc (gm_set (key v) (Some v) m))"
    using fs_save_result by fastforce
  with fs_load_doc [OF assms(1) m(1)] show ?thesis
    by (auto simp: fs_ok_def fs_abs_def doc_ok_set fun_eq_iff)
qed

lemma fs_put_failed: "fs_put noun key v p = (Inl e, p') \<Longrightarrow> dk_state p' = dk_state p"
  by (auto simp: fs_put_def dest!: fs_load_frame fs_save_result split: prod.splits sum.splits)

lemma fs_delete_done:
  assumes "fs_ok key p" and "fs_delete kind noun n p = (Inr u, p')"
  shows "fs_ok key p' \<and> n \<in> dom (fs_abs p) \<and> fs_abs p' = (fs_abs p)(n := None)"
proof -
  obtain m d' x where m: "fs_load noun p = (Inr m, d')" "map_of m n = Some x"
    "fs_save noun (gm_del n m) d' = (Inr u, p')"
    using assms by (auto simp: fs_delete_def split: prod.splits sum.splits option.splits)
  note doc = fs_load_doc [OF assms(1) m(1)]
  from m have "dk_state p' = Some (JDoc (gm_del n m))"
    using fs_save_result by fastforce
  moreover have "n \<in> dom (fs_abs p)"
    using doc m(2) unfolding doc_ok_def by fastforce
  ultimately show ?thesis
    using doc by (auto simp: fs_ok_def fs_abs_def doc_ok_del fun_eq_iff)
qed

lemma fs_delete_failed: "fs_delete kind noun n p = (Inl e, p') \<Longrightarrow> dk_state p' = dk_state p"
  by (auto simp: fs_delete_def dest!: fs_load_frame fs_save_result
      split: prod.splits sum.splits option.splits)

lemma fs_keyed: "fs_ok key p \<Longrightarrow> fs_abs p n = Some v \<Longrightarrow> key v = n"
  by (auto simp: fs_abs_def fs_ok_def doc_ok_def split: option.splits fcontent.splits)

lemma fs_atomic:
  "atomic_store (fs_get kind noun) (fs_list noun (\<lambda>_. True)) (fs_put noun key) (fs_delete kind noun)
     key fs_abs (fs_ok key)"
proof (unfold_locales, goal_cases)
  case 1 then show ?case by (rule fs_get_found)
next
  case 2 then show ?case by (metis fs_frame fs_get_state)
next
  case (3 p vs p')
  then show ?case by (auto elim: fs_list_found)
next
  case 4 then show ?case by (metis fs_frame fs_list_state)
next
  case 5 then show ?case by (rule fs_put_done)
next
  case 6 then show ?case by (metis fs_frame fs_put_failed)
next
  case 7 then show ?case by (rule fs_delete_done)
next
  case 8 then show ?case by (metis fs_frame fs_delete_failed)
next
  case 9 then show ?case by (rule fs_keyed)
next
  case 10 then show ?case by (metis fs_frame(2) fs_put_failed)
next
  case 11 then show ?case by (metis fs_frame(2) fs_delete_failed)
qed

text \<open>On a disk where nothing fails the store never fails either.\<close>

definition fs_good :: "('v \<Rightarrow> string) \<Rightarrow> 'v disk \<Rightarrow> bool" where
  "fs_good key d \<longleftrightarrow> fs_ok key d \<and> dk_faults d = []"

lemma fault_none: "dk_faults d = [] \<Longrightarrow> fault d = (False, d)"
  by (simp add: fault_def)

lemma fs_load_good:
  assumes "fs_good key d"
  obtains m where "fs_load noun d = (Inr m, d)" and "doc_ok key m"
    and "fs_abs d = (\<lambda>n. case map_of m n of Some (Some v) \<Rightarrow> Some v | _ \<Rightarrow> None)"
proof -
  have "\<exists>m. fs_load noun d = (Inr m, d)"
    using assms by (auto simp: fs_good_def fs_ok_def fs_load_def fault_none
        split: option.splits fcontent.splits)
  then obtain m where m: "fs_load noun d = (Inr m, d)" by blast
  with fs_load_doc [OF _ m, of key] assms that show thesis by (auto simp: fs_good_def)
qed

lemma fs_save_good:
  "dk_faults d = [] \<Longrightarrow> \<exists>d'. fs_save noun m d = (Inr (), d') \<and> dk_faults d' = []"
  by (simp add: fs_save_def fault_none set_temp_def Let_def)

lemma fs_good_cong: "fs_good key d \<Longrightarrow> dk_state d' = dk_state d \<Longrightarrow> dk_faults d' = [] \<Longrightarrow> fs_good key d'"
  by (simp add: fs_good_def fs_ok_def)

lemma fs_get_good:
  assumes "fs_good key d"
  shows "fs_get kind noun n d =
     ((case fs_abs d n of Some v \<Rightarrow> Inr v | None \<Rightarrow> Inl (not_found kind n)), d)"
proof -
  obtain m where m: "fs_load noun d = (Inr m, d)" "doc_ok key m"
    "fs_abs d = (\<lambda>n. case map_of m n of Some (Some v) \<Rightarrow> Some v | _ \<Rightarrow> None)"
    by (rule fs_load_good [OF assms])
  have "map_of m n \<noteq> Some None" using m(2) unfolding doc_ok_def by blast
  with m show ?thesis by (auto simp: fs_get_def split: option.splits)
qed

lemma fs_list_good: "fs_good key d \<Longrightarrow> \<exists>vs. fs_list noun f d = (Inr vs, d)"
  by (rule fs_load_good [of key d noun])
    (auto simp: fs_list_def deref_filter_ok doc_ok_no_null)

lemma fs_put_good:
  assumes "fs_good key d"
  shows "\<exists>d'. fs_put noun key v d = (Inr (), d') \<and> fs_good key d'"
proof -
  obtain m where m: "fs_load noun d = (Inr m, d)" by (rule fs_load_good [OF assms])
  then obtain d' where d': "fs_put noun key v d = (Inr (), d')" "dk_faults d' = []"
    using fs_save_good [of d noun "gm_set (key v) (Some v) m"] assms
    by (auto simp: fs_put_def fs_good_def)
  then show ?thesis using fs_put_done [OF _ d'(1)] assms by (auto simp: fs_good_def)
qed

lemma fs_delete_good:
  assumes "fs_good key d"
  shows "if n \<in> dom (fs_abs d) then \<exists>d'. fs_delete kind noun n d = (Inr (), d') \<and> fs_good key d'
     else fs_delete kind noun n d = (Inl (not_found kind n), d)"
proof -
  obtain m where m: "fs_load noun d = (Inr m, d)" "doc_ok key m"
    "fs_abs d = (\<lambda>n. case map_of m n of Some (Some v) \<Rightarrow> Some v | _ \<Rightarrow> None)"
    by (rule fs_load_good [OF assms])
  show ?thesis
  proof (cases "n \<in> dom (fs_abs d)")
    case True
    then obtain v where "map_of m n = Some v" using m(3) by (auto split: option.splits)
    then obtain d' where d': "fs_delete kind noun n d = (Inr (), d')" "dk_faults d' = []"
      using m(1) fs_save_good [of d noun "gm_del n m"] assms by (auto simp: fs_delete_def fs_good_def)
    then show ?thesis using True fs_delete_done [OF _ d'(1)] assms by (auto simp: fs_good_def)
  next
    case False
    then have "map_of m n = None" using m(2,3) by (auto simp: doc_ok_def dom_def split: option.splits)
    with m(1) False show ?thesis by (simp add: fs_delete_def)
  qed
qed

lemma fs_put_total: "fs_good key d \<Longrightarrow> fs_put noun key v d \<noteq> (Inl e, d')"
  using fs_put_good [of key d noun v] by auto

lemma fs_delete_miss:
  "fs_good key d \<Longrightarrow> fs_delete kind noun n d = (Inl e, d') \<Longrightarrow> d' = d"
  using fs_delete_good [of key d n kind noun] by (auto split: if_splits)

lemma fs_good_ok: "fs_good key d \<Longrightarrow> fs_ok key d"
  by (simp add: fs_good_def)

lemma fs_put_good_done:
  assumes "fs_good key d" and "fs_put noun key v d = (Inr u, d')"
  shows "fs_good key d' \<and> fs_abs d' = (fs_abs d)(key v \<mapsto> v)"
  using assms fs_put_good [OF assms(1), of noun v] fs_put_done [OF fs_good_ok [OF assms(1)] assms(2)]
  by auto

lemma fs_delete_good_done:
  assumes "fs_good key d" and "fs_delete kind noun n d = (Inr u, d')"
  shows "fs_good key d' \<and> n \<in> dom (fs_abs d) \<and> fs_abs d' = (fs_abs d)(n := None)"
  using assms fs_delete_good [OF assms(1), of n kind noun]
    fs_delete_done [OF fs_good_ok [OF assms(1)] assms(2)]
  by (auto split: if_splits)

lemma fs_reliable:
  "reliable_store (fs_get kind noun) (fs_list noun (\<lambda>_. True)) (fs_put noun key) (fs_delete kind noun)
     key fs_abs (fs_good key)"
proof (unfold_locales, goal_cases)
  case 1 then show ?case by (metis fs_get_found fs_good_ok)
next
  case 2 then show ?case by (simp add: fs_get_good)
next
  case 3 then show ?case by (auto elim: fs_list_found [OF fs_good_ok])
next
  case (4 p r p') then show ?case using fs_list_good [of key p noun "\<lambda>_. True"] by auto
next
  case 5 then show ?case by (rule fs_put_good_done)
next
  case 6 then show ?case by (simp add: fs_put_total)
next
  case 7 then show ?case by (rule fs_delete_good_done)
next
  case 8 then show ?case using fs_delete_miss by metis
next
  case 9 then show ?case by (metis fs_keyed fs_good_ok)
next
  case 10 then show ?case by (simp add: fs_put_total)
next
  case 11 then show ?case using fs_delete_miss by metis
next
  case 12 then show ?case by (simp add: fs_get_good)
next
  case (13 p) then show ?case using fs_list_good [of key p noun "\<lambda>_. True"] by auto
next
  case 14 then show ?case by (metis fs_put_good)
next
  case (15 p n) then show ?case using fs_delete_good [of key p n kind noun] by auto
qed

text \<open>The four stores as interface values.\<close>

definition file_store :: "Sandbox disk Store" where
  "file_store = \<lparr>kv_Get = FileStore_Get, kv_List = FileStore_List, kv_Save = FileStore_Save,
     kv_Delete = FileStore_Delete\<rparr>"

definition file_matrix_store :: "Matrix disk MatrixStore" where
  "file_matrix_store = \<lparr>kv_Get = FileMatrixStore_Get, kv_List = FileMatrixStore_List,
     kv_Save = FileMatrixStore_Save, kv_Delete = FileMatrixStore_Delete\<rparr>"

definition file_session_store :: "Session disk SessionStore" where
  "file_session_store = \<lparr>kv_Get = FileSessionStore_Get, kv_List = FileSessionStore_List,
     kv_Save = FileSessionStore_Save, kv_Delete = FileSessionStore_Delete,
     ss_ListBySandbox = FileSessionStore_ListBySandbox\<rparr>"

definition file_team_store :: "Team disk TeamStore" where
  "file_team_store = \<lparr>kv_Get = FileTeamStore_Get, kv_List = FileTeamStore_List,
     kv_Save = FileTeamStore_Save, kv_Delete = FileTeamStore_Delete\<rparr>"

lemmas file_store_defs =
  FileStore_Get_def FileStore_List_def FileStore_Save_def FileStore_Delete_def
  FileMatrixStore_Get_def FileMatrixStore_List_def FileMatrixStore_Save_def
  FileMatrixStore_Delete_def FileSessionStore_Get_def FileSessionStore_List_def
  FileSessionStore_Save_def FileSessionStore_Delete_def FileTeamStore_Get_def
  FileTeamStore_List_def FileTeamStore_Save_def FileTeamStore_Delete_def
  file_store_def file_matrix_store_def file_session_store_def file_team_store_def

interpretation fsb: atomic_store FileStore_Get FileStore_List FileStore_Save FileStore_Delete
  sandbox_key fs_abs "fs_ok sandbox_key"
  unfolding file_store_defs by (rule fs_atomic)

interpretation fmx: atomic_store FileMatrixStore_Get FileMatrixStore_List FileMatrixStore_Save
  FileMatrixStore_Delete matrix_key fs_abs "fs_ok matrix_key"
  unfolding file_store_defs by (rule fs_atomic)

interpretation fse: atomic_store FileSessionStore_Get FileSessionStore_List FileSessionStore_Save
  FileSessionStore_Delete session_key fs_abs "fs_ok session_key"
  unfolding file_store_defs by (rule fs_atomic)

interpretation ftm: atomic_store FileTeamStore_Get FileTeamStore_List FileTeamStore_Save
  FileTeamStore_Delete team_key fs_abs "fs_ok team_key"
  unfolding file_store_defs by (rule fs_atomic)

section \<open>Writing the file, system call by system call\<close>

datatype save_pc = SMarshal | SCreate | SWrite nat | SClose nat | SRename nat
  | SRemove nat goerr | SDone "unit res"

text \<open>\<open>write_part\<close> is a \<open>write\<close> that has put only a part of the bytes on disk.\<close>

inductive save_step ::
    "string \<Rightarrow> 'v option gomap \<Rightarrow> save_pc \<times> 'v disk \<Rightarrow> save_pc \<times> 'v disk \<Rightarrow> bool"
  for noun m where
  marshal: "fault d = (False, d') \<Longrightarrow> save_step noun m (SMarshal, d) (SCreate, d')"
| marshal_fail: "fault d = (True, d') \<Longrightarrow>
    save_step noun m (SMarshal, d) (SDone (Inl (marshal_err noun)), d')"
| create: "fault d = (False, d') \<Longrightarrow>
    save_step noun m (SCreate, d)
      (SWrite (dk_next d'), set_temp (dk_next d') Corrupt (d'\<lparr>dk_next := Suc (dk_next d')\<rparr>))"
| create_fail: "fault d = (True, d') \<Longrightarrow>
    save_step noun m (SCreate, d) (SDone (Inl create_temp_err), d')"
| write_part: "save_step noun m (SWrite t, d) (SWrite t, set_temp t Corrupt d)"
| write_all: "fault d = (False, d') \<Longrightarrow>
    save_step noun m (SWrite t, d) (SClose t, set_temp t (JDoc m) d')"
| write_fail: "fault d = (True, d') \<Longrightarrow>
    save_step noun m (SWrite t, d) (SRemove t write_temp_err, d')"
| close: "fault d = (False, d') \<Longrightarrow> save_step noun m (SClose t, d) (SRename t, d')"
| close_fail: "fault d = (True, d') \<Longrightarrow>
    save_step noun m (SClose t, d) (SRemove t close_temp_err, d')"
| rename: "fault d = (False, d') \<Longrightarrow>
    save_step noun m (SRename t, d)
      (SDone (Inr ()), d'\<lparr>dk_state := Some (JDoc m), dk_temps := AList.delete t (dk_temps d')\<rparr>)"
| rename_fail: "fault d = (True, d') \<Longrightarrow>
    save_step noun m (SRename t, d) (SRemove t (rename_err noun), d')"
| remove: "save_step noun m (SRemove t e, d) (SDone (Inl e), fs_remove t d)"

inductive_cases save_step_doneE: "save_step noun m (SDone r, d) c"

text \<open>The state file is replaced by the rename and by nothing else.\<close>

definition save_inv :: "'v fcontent option \<Rightarrow> 'v option gomap \<Rightarrow> save_pc \<times> 'v disk \<Rightarrow> bool" where
  "save_inv old m c \<longleftrightarrow>
     dk_state (snd c) = (if fst c = SDone (Inr ()) then Some (JDoc m) else old)"

lemma save_step_inv: "save_step noun m c c' \<Longrightarrow> save_inv old m c \<Longrightarrow> save_inv old m c'"
  by (induction rule: save_step.induct) (auto simp: save_inv_def)

lemma save_steps_inv:
  "(save_step noun m)\<^sup>*\<^sup>* c c' \<Longrightarrow> save_inv old m c \<Longrightarrow> save_inv old m c'"
  by (induction rule: rtranclp_induct) (auto intro: save_step_inv)

text \<open>The function \<open>save\<close> is a run of these steps to the end.\<close>

lemma save_runI:
  "save_step noun m c c' \<Longrightarrow> (save_step noun m)\<^sup>*\<^sup>* c' c'' \<Longrightarrow> (save_step noun m)\<^sup>*\<^sup>* c c''"
  by (rule converse_rtranclp_into_rtranclp)

lemma save_run_written:
  assumes "fault d = (False, d1)" and "fault d1 = (False, d2)"
    and "fault (set_temp (dk_next d2) Corrupt (d2\<lparr>dk_next := Suc (dk_next d2)\<rparr>)) = (False, d4)"
  shows "(save_step noun m)\<^sup>*\<^sup>* (SMarshal, d) (SClose (dk_next d2), set_temp (dk_next d2) (JDoc m) d4)"
  using save_runI [OF marshal [OF assms(1)] save_runI [OF create [OF assms(2)]
    save_runI [OF write_all [OF assms(3)] rtranclp.rtrancl_refl]]] .

lemma fs_save_is_run:
  assumes "fs_save noun m d = (r, d')"
  shows "(save_step noun m)\<^sup>*\<^sup>* (SMarshal, d) (SDone r, d')"
  using assms unfolding fs_save_def Let_def
  by (auto split: prod.splits bool.splits simp del: fault_frame append.simps
      intro: save_step.intros [THEN save_runI] save_run_written [THEN rtranclp_trans])

section \<open>Properties\<close>

definition empty_disk :: "'v disk" where
  "empty_disk = \<lparr>dk_state = Some (JDoc []), dk_temps = [], dk_next = 0, dk_faults = []\<rparr>"

definition sample_sandbox :: "string \<Rightarrow> Sandbox" where
  "sample_sandbox n = \<lparr>sb_Type = \<lparr>tm_APIVersion = ''smx/v1alpha1'', tm_Kind = ''Sandbox''\<rparr>,
     sb_Metadata = \<lparr>om_Name = n, om_Version = '''', om_Labels = [], om_CreatedAt = 0, om_UpdatedAt = 0\<rparr>,
     sb_Spec = \<lparr>sp_BlueprintRef = ''go'', sp_BlueprintPath = ''go.yaml'', sp_Resources = zero_resources,
       sp_Workspace = zero_workspace, sp_Team = '''', sp_Priority = 0\<rparr>,
     sb_Status = zero_status\<rparr>"

lemma empty_disk_good: "fs_good key empty_disk" and empty_disk_abs: "fs_abs empty_disk = Map.empty"
  by (simp_all add: empty_disk_def fs_good_def fs_ok_def doc_ok_def fs_abs_def)



text \<open>C4. Crash safety of writing a state file. Stop the writing of a new content after any of its
  system calls, between two of them or in the middle of a write: the state file is the old one,
  whole, unless the rename has happened, and then it is the new one, whole.\<close>

theorem save_crash_safe:
  assumes "(save_step ''state'' m)\<^sup>*\<^sup>* (SMarshal, d) (pc, d')"
  shows "dk_state d' = (if pc = SDone (Inr ()) then Some (JDoc m) else dk_state d)"
  using save_steps_inv [OF assms, of "dk_state d"] by (simp add: save_inv_def)

theorem save_crash_safe_witness:
  "dk_state (set_temp 0 Corrupt (empty_disk\<lparr>dk_next := 1\<rparr>)) = Some (JDoc ([] :: Sandbox option gomap))"
proof -
  have "(save_step ''state'' [(''a'', Some (sample_sandbox ''a''))])\<^sup>*\<^sup>* (SMarshal, empty_disk)
      (SWrite 0, set_temp 0 Corrupt (empty_disk\<lparr>dk_next := 1\<rparr>))"
    using save_runI [OF marshal [of empty_disk empty_disk] save_runI [OF create [of empty_disk empty_disk] rtranclp.rtrancl_refl]]
    by (simp add: empty_disk_def fault_def)
  from save_crash_safe [OF this] show ?thesis by (simp add: empty_disk_def)
qed

text \<open>\<open>FileStore.save\<close> is one complete run of that sequence of system calls, whichever of
  them fail, and returns what the run returns.\<close>

theorem save_refines_steps:
  "(save_step ''state'' m)\<^sup>*\<^sup>* (SMarshal, d) (SDone (fst (FileStore_save m d)), snd (FileStore_save m d))"
  using fs_save_is_run [of "''state''" m d] by (simp add: FileStore_save_def)

text \<open>When \<open>FileStore.Save\<close> returns an error, whichever system call caused it, the state file
  is as it was.\<close>

theorem failed_save_keeps_state:
  assumes "FileStore_Save sb d = (Inl e, d')"
  shows "dk_state d' = dk_state d"
  using fs_put_failed assms by (auto simp: FileStore_Save_def)

theorem failed_save_keeps_state_witness:
  "FileStore_Save (sample_sandbox ''a'') (empty_disk\<lparr>dk_faults := [False, False, False, True]\<rparr>) =
     (Inl write_temp_err, empty_disk\<lparr>dk_next := 1\<rparr>) \<and>
   dk_state (empty_disk\<lparr>dk_next := 1\<rparr> :: Sandbox disk) = dk_state (empty_disk\<lparr>dk_faults := [False, False, False, True]\<rparr>)"
proof -
  have "FileStore_Save (sample_sandbox ''a'') (empty_disk\<lparr>dk_faults := [False, False, False, True]\<rparr>) =
     (Inl write_temp_err, empty_disk\<lparr>dk_next := 1\<rparr>)" by code_simp
  with failed_save_keeps_state [OF this] show ?thesis by simp
qed

end
