(* ===== verification/DbStores.thy ===== *)
theory DbStores
  imports FileStores
begin

text \<open>
  \<open>internal/state/boltstore.go\<close>, \<open>etcdstore.go\<close> and \<open>distributed.go\<close>: the stores over a BoltDB file and over an etcd cluster, and the
  choice between them. The two databases are parameters (\<open>BoltDB\<close>, \<open>EtcdClient\<close>), as is the JSON encoding of a value to
  \<open>'b\<close> (\<open>Codec\<close>). What is relied on of a database is a locale: \<open>bolt_db\<close> says that a transaction takes effect as a
  whole or not at all, \<open>etcd_cluster\<close> that a call that fails, as after a timeout, may have taken effect. So the Bolt store is an
  \<open>atomic_store\<close> and the etcd stores are only a \<open>kv_store\<close>. Between two calls nobody else writes to the database.
\<close>

record ('v, 'b) Codec =
  cd_Marshal :: "'v \<Rightarrow> 'b res"
  cd_Unmarshal :: "'b \<Rightarrow> 'v res"

text \<open>The loop of the listing methods: every value is decoded, also those that are left out of the result.\<close>

fun decode_all :: "('b \<Rightarrow> 'v res) \<Rightarrow> string \<Rightarrow> ('v \<Rightarrow> bool) \<Rightarrow> (string \<times> 'b) list \<Rightarrow> 'v list res" where
  "decode_all un kind f [] = Inr []"
| "decode_all un kind f ((k, data) # kvs) =
     (case un data of
        Inl e \<Rightarrow> Inl (Errorf (''unmarshaling '' @ kind @ '' %s: %w'') [AStr k, AErr e])
      | Inr v \<Rightarrow> (case decode_all un kind f kvs of Inl e \<Rightarrow> Inl e | Inr vs \<Rightarrow> Inr (if f v then v # vs else vs)))"

section \<open>Bolt\<close>

text \<open>\<open>bb_View\<close> hands out what a reading transaction sees; \<open>bb_Update\<close> runs a function as a transaction.\<close>

record ('t, 'b, 'd) BoltDB =
  bb_View :: "('t res, 'd) act"
  bb_Update :: "('t \<Rightarrow> unit res \<times> 't) \<Rightarrow> (unit res, 'd) act"
  tx_Bucket :: "'t \<Rightarrow> string \<Rightarrow> bool"
  tx_CreateBucket :: "string \<Rightarrow> (unit res, 't) act"
  tx_Get :: "'t \<Rightarrow> string \<Rightarrow> string \<Rightarrow> 'b option"
  tx_ForEach :: "'t \<Rightarrow> string \<Rightarrow> (string \<times> 'b) list"
  tx_Put :: "string \<Rightarrow> string \<Rightarrow> 'b \<Rightarrow> (unit res, 't) act"
  tx_Delete :: "string \<Rightarrow> string \<Rightarrow> (unit res, 't) act"

text \<open>A method of a bucket that is not there is called on a nil pointer.\<close>

definition bolt_read :: "('t, 'b, 'd) BoltDB \<Rightarrow> string \<Rightarrow> ('t \<Rightarrow> 'a res) \<Rightarrow> ('a res, 'd) act" where
  "bolt_read db bucket f d =
     (case bb_View db d of
        (Inl e, d') \<Rightarrow> (Inl e, d')
      | (Inr t, d') \<Rightarrow> (if tx_Bucket db t bucket then f t else Inl nil_deref, d'))"

definition bolt_get :: "('t, 'b, 'd) BoltDB \<Rightarrow> ('v, 'b) Codec \<Rightarrow> string \<Rightarrow> string \<Rightarrow> string \<Rightarrow> ('v res, 'd) act" where
  "bolt_get db js kind bucket n =
     bolt_read db bucket (\<lambda>t. case tx_Get db t bucket n of None \<Rightarrow> Inl (not_found kind n) | Some data \<Rightarrow> cd_Unmarshal js data)"

definition bolt_list :: "('t, 'b, 'd) BoltDB \<Rightarrow> ('v, 'b) Codec \<Rightarrow> string \<Rightarrow> string \<Rightarrow> ('v \<Rightarrow> bool) \<Rightarrow> ('v list res, 'd) act" where
  "bolt_list db js kind bucket f =
     bolt_read db bucket (\<lambda>t. decode_all (cd_Unmarshal js) kind f (tx_ForEach db t bucket))"

definition bolt_save ::
  "('t, 'b, 'd) BoltDB \<Rightarrow> ('v, 'b) Codec \<Rightarrow> string \<Rightarrow> string \<Rightarrow> ('v \<Rightarrow> string) \<Rightarrow> 'v \<Rightarrow> (unit res, 'd) act" where
  "bolt_save db js kind bucket key v d =
     (case cd_Marshal js v of
        Inl e \<Rightarrow> (Inl (Errorf (''marshaling '' @ kind @ '': %w'') [AErr e]), d)
      | Inr data \<Rightarrow> bb_Update db (\<lambda>t. if tx_Bucket db t bucket then tx_Put db bucket (key v) data t else (Inl nil_deref, t)) d)"

definition bolt_delete :: "('t, 'b, 'd) BoltDB \<Rightarrow> string \<Rightarrow> string \<Rightarrow> string \<Rightarrow> (unit res, 'd) act" where
  "bolt_delete db kind bucket n =
     bb_Update db (\<lambda>t.
       if \<not> tx_Bucket db t bucket then (Inl nil_deref, t)
       else case tx_Get db t bucket n of None \<Rightarrow> (Inl (not_found kind n), t) | Some _ \<Rightarrow> tx_Delete db bucket n t)"

definition bucketSandboxes :: string where
  "bucketSandboxes = ''sandboxes''"
definition bucketSessions :: string where
  "bucketSessions = ''sessions''"

definition BoltStore_Get :: "('t, 'b, 'd) BoltDB \<Rightarrow> (Sandbox, 'b) Codec \<Rightarrow> string \<Rightarrow> (Sandbox res, 'd) act" where
  "BoltStore_Get db js = bolt_get db js ''sandbox'' bucketSandboxes"
definition BoltStore_List :: "('t, 'b, 'd) BoltDB \<Rightarrow> (Sandbox, 'b) Codec \<Rightarrow> (Sandbox list res, 'd) act" where
  "BoltStore_List db js = bolt_list db js ''sandbox'' bucketSandboxes (\<lambda>_. True)"
definition BoltStore_Save :: "('t, 'b, 'd) BoltDB \<Rightarrow> (Sandbox, 'b) Codec \<Rightarrow> Sandbox \<Rightarrow> (unit res, 'd) act" where
  "BoltStore_Save db js = bolt_save db js ''sandbox'' bucketSandboxes sandbox_key"
definition BoltStore_Delete :: "('t, 'b, 'd) BoltDB \<Rightarrow> string \<Rightarrow> (unit res, 'd) act" where
  "BoltStore_Delete db = bolt_delete db ''sandbox'' bucketSandboxes"
definition BoltStore_GetSession :: "('t, 'b, 'd) BoltDB \<Rightarrow> (Session, 'b) Codec \<Rightarrow> string \<Rightarrow> (Session res, 'd) act" where
  "BoltStore_GetSession db js = bolt_get db js ''session'' bucketSessions"
definition BoltStore_ListSessions :: "('t, 'b, 'd) BoltDB \<Rightarrow> (Session, 'b) Codec \<Rightarrow> (Session list res, 'd) act" where
  "BoltStore_ListSessions db js = bolt_list db js ''session'' bucketSessions (\<lambda>_. True)"
definition BoltStore_ListSessionsBySandbox ::
  "('t, 'b, 'd) BoltDB \<Rightarrow> (Session, 'b) Codec \<Rightarrow> string \<Rightarrow> (Session list res, 'd) act" where
  "BoltStore_ListSessionsBySandbox db js sn = bolt_list db js ''session'' bucketSessions (\<lambda>s. se_Sandbox s = sn)"
definition BoltStore_SaveSession :: "('t, 'b, 'd) BoltDB \<Rightarrow> (Session, 'b) Codec \<Rightarrow> Session \<Rightarrow> (unit res, 'd) act" where
  "BoltStore_SaveSession db js = bolt_save db js ''session'' bucketSessions session_key"
definition BoltStore_DeleteSession :: "('t, 'b, 'd) BoltDB \<Rightarrow> string \<Rightarrow> (unit res, 'd) act" where
  "BoltStore_DeleteSession db = bolt_delete db ''session'' bucketSessions"

text \<open>Opening: the directory, the file, the two buckets; a file whose buckets cannot be made is closed again.\<close>

record ('t, 'b, 'd) BoltEnv =
  be_Home :: "string res"
  be_MkdirAll :: "string \<Rightarrow> (unit res, 'd) act"
  be_Open :: "string \<Rightarrow> (('t, 'b, 'd) BoltDB res, 'd) act"
  be_Close :: "('t, 'b, 'd) BoltDB \<Rightarrow> (unit res, 'd) act"

definition create_buckets :: "('t, 'b, 'd) BoltDB \<Rightarrow> 't \<Rightarrow> unit res \<times> 't" where
  "create_buckets db t =
     (case tx_CreateBucket db bucketSandboxes t of
        (Inl e, t1) \<Rightarrow> (Inl (Errorf ''creating sandboxes bucket: %w'' [AErr e]), t1)
      | (Inr _, t1) \<Rightarrow>
          (case tx_CreateBucket db bucketSessions t1 of
             (Inl e, t2) \<Rightarrow> (Inl (Errorf ''creating sessions bucket: %w'' [AErr e]), t2)
           | (Inr _, t2) \<Rightarrow> (Inr (), t2)))"

definition NewBoltStoreWithPath :: "('t, 'b, 'd) BoltEnv \<Rightarrow> string \<Rightarrow> (('t, 'b, 'd) BoltDB res, 'd) act" where
  "NewBoltStoreWithPath env path d =
     (case be_MkdirAll env (Dir path) d of
        (Inl e, d1) \<Rightarrow> (Inl (Errorf ''creating state directory %s: %w'' [AStr (Dir path), AErr e]), d1)
      | (Inr _, d1) \<Rightarrow>
          (case be_Open env path d1 of
             (Inl e, d2) \<Rightarrow> (Inl (Errorf ''opening bolt database %s: %w'' [AStr path, AErr e]), d2)
           | (Inr db, d2) \<Rightarrow>
               (case bb_Update db (create_buckets db) d2 of
                  (Inl e, d3) \<Rightarrow> (Inl e, snd (be_Close env db d3))
                | (Inr _, d3) \<Rightarrow> (Inr db, d3))))"

definition defaultBoltPath :: "('t, 'b, 'd) BoltEnv \<Rightarrow> string res" where
  "defaultBoltPath env =
     (case be_Home env of
        Inl e \<Rightarrow> Inl (Errorf ''resolving home directory: %w'' [AErr e])
      | Inr home \<Rightarrow> Inr (Join [home, ''.sandboxmatrix'', ''state.db'']))"

definition NewBoltStore :: "('t, 'b, 'd) BoltEnv \<Rightarrow> (('t, 'b, 'd) BoltDB res, 'd) act" where
  "NewBoltStore env d =
     (case defaultBoltPath env of Inl e \<Rightarrow> (Inl e, d) | Inr p \<Rightarrow> NewBoltStoreWithPath env p d)"

section \<open>etcd\<close>

record ('b, 'd) EtcdClient =
  et_Get :: "string \<Rightarrow> ((string \<times> 'b) list res, 'd) act"
  et_GetPrefix :: "string \<Rightarrow> ((string \<times> 'b) list res, 'd) act"
  et_Put :: "string \<Rightarrow> 'b \<Rightarrow> (unit res, 'd) act"
  et_Delete :: "string \<Rightarrow> (int res, 'd) act"

record ('b, 'd) EtcdStore =
  es_client :: "('b, 'd) EtcdClient"
  es_prefix :: string

definition defaultEtcdPrefix :: string where
  "defaultEtcdPrefix = ''/sandboxmatrix/''"

definition etcd_get ::
  "('b, 'd) EtcdClient \<Rightarrow> ('v, 'b) Codec \<Rightarrow> string \<Rightarrow> string \<Rightarrow> string \<Rightarrow> ('v res, 'd) act" where
  "etcd_get cl js kind prefix n d =
     (case et_Get cl (prefix @ n) d of
        (Inl e, d') \<Rightarrow> (Inl (Errorf (''etcd get '' @ kind @ '' %q: %w'') [AStr n, AErr e]), d')
      | (Inr [], d') \<Rightarrow> (Inl (not_found kind n), d')
      | (Inr ((k, data) # _), d') \<Rightarrow>
          ((case cd_Unmarshal js data of
              Inl e \<Rightarrow> Inl (Errorf (''unmarshaling '' @ kind @ '' %q: %w'') [AStr n, AErr e])
            | Inr v \<Rightarrow> Inr v), d'))"

definition etcd_list ::
  "('b, 'd) EtcdClient \<Rightarrow> ('v, 'b) Codec \<Rightarrow> string \<Rightarrow> string \<Rightarrow> string \<Rightarrow> ('v list res, 'd) act" where
  "etcd_list cl js kind kinds prefix d =
     (case et_GetPrefix cl prefix d of
        (Inl e, d') \<Rightarrow> (Inl (Errorf (''etcd list '' @ kinds @ '': %w'') [AErr e]), d')
      | (Inr kvs, d') \<Rightarrow> (decode_all (cd_Unmarshal js) kind (\<lambda>_. True) kvs, d'))"

definition etcd_save ::
  "('b, 'd) EtcdClient \<Rightarrow> ('v, 'b) Codec \<Rightarrow> string \<Rightarrow> string \<Rightarrow> ('v \<Rightarrow> string) \<Rightarrow> 'v \<Rightarrow> (unit res, 'd) act" where
  "etcd_save cl js kind prefix key v d =
     (case cd_Marshal js v of
        Inl e \<Rightarrow> (Inl (Errorf (''marshaling '' @ kind @ '': %w'') [AErr e]), d)
      | Inr data \<Rightarrow>
          (case et_Put cl (prefix @ key v) data d of
             (Inl e, d') \<Rightarrow> (Inl (Errorf (''etcd put '' @ kind @ '' %q: %w'') [AStr (key v), AErr e]), d')
           | (Inr _, d') \<Rightarrow> (Inr (), d')))"

definition etcd_delete :: "('b, 'd) EtcdClient \<Rightarrow> string \<Rightarrow> string \<Rightarrow> string \<Rightarrow> (unit res, 'd) act" where
  "etcd_delete cl kind prefix n d =
     (case et_Delete cl (prefix @ n) d of
        (Inl e, d') \<Rightarrow> (Inl (Errorf (''etcd delete '' @ kind @ '' %q: %w'') [AStr n, AErr e]), d')
      | (Inr deleted, d') \<Rightarrow> (if deleted = 0 then Inl (not_found kind n) else Inr (), d'))"

definition sandboxPrefix :: "('b, 'd) EtcdStore \<Rightarrow> string" where
  "sandboxPrefix s = es_prefix s @ ''sandboxes/''"
definition sessionPrefix :: "('b, 'd) EtcdStore \<Rightarrow> string" where
  "sessionPrefix s = es_prefix s @ ''sessions/''"
definition matrixPrefix :: "('b, 'd) EtcdStore \<Rightarrow> string" where
  "matrixPrefix s = es_prefix s @ ''matrices/''"

definition EtcdStore_Get :: "('b, 'd) EtcdStore \<Rightarrow> (Sandbox, 'b) Codec \<Rightarrow> string \<Rightarrow> (Sandbox res, 'd) act" where
  "EtcdStore_Get s js = etcd_get (es_client s) js ''sandbox'' (sandboxPrefix s)"
definition EtcdStore_List :: "('b, 'd) EtcdStore \<Rightarrow> (Sandbox, 'b) Codec \<Rightarrow> (Sandbox list res, 'd) act" where
  "EtcdStore_List s js = etcd_list (es_client s) js ''sandbox'' ''sandboxes'' (sandboxPrefix s)"
definition EtcdStore_Save :: "('b, 'd) EtcdStore \<Rightarrow> (Sandbox, 'b) Codec \<Rightarrow> Sandbox \<Rightarrow> (unit res, 'd) act" where
  "EtcdStore_Save s js = etcd_save (es_client s) js ''sandbox'' (sandboxPrefix s) sandbox_key"
definition EtcdStore_Delete :: "('b, 'd) EtcdStore \<Rightarrow> string \<Rightarrow> (unit res, 'd) act" where
  "EtcdStore_Delete s = etcd_delete (es_client s) ''sandbox'' (sandboxPrefix s)"
definition EtcdStore_GetSession :: "('b, 'd) EtcdStore \<Rightarrow> (Session, 'b) Codec \<Rightarrow> string \<Rightarrow> (Session res, 'd) act" where
  "EtcdStore_GetSession s js = etcd_get (es_client s) js ''session'' (sessionPrefix s)"
definition EtcdStore_ListSessions :: "('b, 'd) EtcdStore \<Rightarrow> (Session, 'b) Codec \<Rightarrow> (Session list res, 'd) act" where
  "EtcdStore_ListSessions s js = etcd_list (es_client s) js ''session'' ''sessions'' (sessionPrefix s)"

text \<open>The listing by sandbox filters on the side of the client.\<close>

definition EtcdStore_ListSessionsBySandbox ::
  "('b, 'd) EtcdStore \<Rightarrow> (Session, 'b) Codec \<Rightarrow> string \<Rightarrow> (Session list res, 'd) act" where
  "EtcdStore_ListSessionsBySandbox s js sn d =
     (case EtcdStore_ListSessions s js d of
        (Inl e, d') \<Rightarrow> (Inl e, d')
      | (Inr all, d') \<Rightarrow> (Inr (filter (\<lambda>x. se_Sandbox x = sn) all), d'))"

definition EtcdStore_SaveSession :: "('b, 'd) EtcdStore \<Rightarrow> (Session, 'b) Codec \<Rightarrow> Session \<Rightarrow> (unit res, 'd) act" where
  "EtcdStore_SaveSession s js = etcd_save (es_client s) js ''session'' (sessionPrefix s) session_key"
definition EtcdStore_DeleteSession :: "('b, 'd) EtcdStore \<Rightarrow> string \<Rightarrow> (unit res, 'd) act" where
  "EtcdStore_DeleteSession s = etcd_delete (es_client s) ''session'' (sessionPrefix s)"
definition EtcdMatrixStore_Get :: "('b, 'd) EtcdStore \<Rightarrow> (Matrix, 'b) Codec \<Rightarrow> string \<Rightarrow> (Matrix res, 'd) act" where
  "EtcdMatrixStore_Get s js = etcd_get (es_client s) js ''matrix'' (matrixPrefix s)"
definition EtcdMatrixStore_List :: "('b, 'd) EtcdStore \<Rightarrow> (Matrix, 'b) Codec \<Rightarrow> (Matrix list res, 'd) act" where
  "EtcdMatrixStore_List s js = etcd_list (es_client s) js ''matrix'' ''matrices'' (matrixPrefix s)"
definition EtcdMatrixStore_Save :: "('b, 'd) EtcdStore \<Rightarrow> (Matrix, 'b) Codec \<Rightarrow> Matrix \<Rightarrow> (unit res, 'd) act" where
  "EtcdMatrixStore_Save s js = etcd_save (es_client s) js ''matrix'' (matrixPrefix s) matrix_key"
definition EtcdMatrixStore_Delete :: "('b, 'd) EtcdStore \<Rightarrow> string \<Rightarrow> (unit res, 'd) act" where
  "EtcdMatrixStore_Delete s = etcd_delete (es_client s) ''matrix'' (matrixPrefix s)"

definition NewEtcdStoreWithPrefix ::
  "(string list \<Rightarrow> ('b, 'd) EtcdClient res) \<Rightarrow> string list \<Rightarrow> string \<Rightarrow> ('b, 'd) EtcdStore res" where
  "NewEtcdStoreWithPrefix dial endpoints prefix =
     (case dial (if endpoints = [] then [''localhost:2379''] else endpoints) of
        Inl e \<Rightarrow> Inl (Errorf ''creating etcd client: %w'' [AErr e])
      | Inr cl \<Rightarrow> Inr \<lparr>es_client = cl, es_prefix = prefix\<rparr>)"

definition NewEtcdStore :: "(string list \<Rightarrow> ('b, 'd) EtcdClient res) \<Rightarrow> string list \<Rightarrow> ('b, 'd) EtcdStore res" where
  "NewEtcdStore dial endpoints = NewEtcdStoreWithPrefix dial endpoints defaultEtcdPrefix"

section \<open>Choosing a store\<close>

record StoreConfig =
  sf_Backend :: string
  sf_EtcdEndpoints :: "string list"
  sf_FilePath :: string
  sf_BoltPath :: string

text \<open>The constructor that is called with its argument; \<open>Existing i\<close> reuses the store that is handed in at position \<open>i\<close>.\<close>

datatype store_source =
    FileDefault | FileAt string | BoltDefault | BoltAt string | EtcdAt "string list" | Existing nat

definition file_source :: "StoreConfig \<Rightarrow> store_source" where
  "file_source cfg = (if sf_FilePath cfg \<noteq> [] then FileAt (sf_FilePath cfg) else FileDefault)"

definition bolt_source :: "StoreConfig \<Rightarrow> store_source" where
  "bolt_source cfg = (if sf_BoltPath cfg \<noteq> [] then BoltAt (sf_BoltPath cfg) else BoltDefault)"

definition NewFromConfig :: "StoreConfig \<Rightarrow> store_source res" where
  "NewFromConfig cfg =
     (if sf_Backend cfg = ''file'' \<or> sf_Backend cfg = [] then Inr (file_source cfg)
      else if sf_Backend cfg = ''bolt'' then Inr (bolt_source cfg)
      else if sf_Backend cfg = ''etcd'' then Inr (EtcdAt (sf_EtcdEndpoints cfg))
      else Inl (Errorf ''unknown store backend %q'' [AStr (sf_Backend cfg)]))"

text \<open>\<open>existing\<close> says of each store that is handed in whether it also is a session store.\<close>

fun first_session_store :: "nat \<Rightarrow> bool list \<Rightarrow> nat option" where
  "first_session_store i [] = None"
| "first_session_store i (b # bs) = (if b then Some i else first_session_store (Suc i) bs)"

definition NewSessionStoreFromConfig :: "StoreConfig \<Rightarrow> bool list \<Rightarrow> store_source res" where
  "NewSessionStoreFromConfig cfg existing =
     (if sf_Backend cfg = ''file'' \<or> sf_Backend cfg = [] then Inr (file_source cfg)
      else if sf_Backend cfg = ''bolt'' then
        Inr (case first_session_store 0 existing of Some i \<Rightarrow> Existing i | None \<Rightarrow> bolt_source cfg)
      else if sf_Backend cfg = ''etcd'' then Inr (EtcdAt (sf_EtcdEndpoints cfg))
      else Inl (Errorf ''unknown session store backend %q'' [AStr (sf_Backend cfg)]))"

definition NewMatrixStoreFromConfig :: "StoreConfig \<Rightarrow> store_source res" where
  "NewMatrixStoreFromConfig cfg =
     (if sf_Backend cfg = ''file'' \<or> sf_Backend cfg = [] then Inr (file_source cfg)
      else if sf_Backend cfg = ''bolt'' then Inr (file_source cfg)
      else if sf_Backend cfg = ''etcd'' then Inr (EtcdAt (sf_EtcdEndpoints cfg))
      else Inl (Errorf ''unknown matrix store backend %q'' [AStr (sf_Backend cfg)]))"

section \<open>What the stores rely on\<close>

text \<open>Decoding gives back what was encoded.\<close>

locale codec =
  fixes js :: "('v, 'b) Codec"
  assumes decode_encode: "cd_Marshal js v = Inr data \<Longrightarrow> cd_Unmarshal js data = Inr v"

text \<open>\<open>cont d b\<close> is the content of bucket \<open>b\<close>, if there is such a bucket, and \<open>tcont\<close> the same inside a transaction.\<close>

locale bolt_db =
  fixes db :: "('t, 'b, 'd) BoltDB"
    and cont :: "'d \<Rightarrow> string \<Rightarrow> (string \<rightharpoonup> 'b) option"
    and tcont :: "'t \<Rightarrow> string \<Rightarrow> (string \<rightharpoonup> 'b) option"
  assumes view_keeps: "keeps cont (bb_View db)"
    and view_sees: "bb_View db d = (Inr t, d') \<Longrightarrow> tcont t = cont d"
    and committed: "bb_Update db f d = (Inr u, d') \<Longrightarrow> \<exists>t t'. tcont t = cont d \<and> f t = (Inr (), t') \<and> cont d' = tcont t'"
    and rolled_back: "bb_Update db f d = (Inl e, d') \<Longrightarrow> cont d' = cont d"
    and bucket_there: "tx_Bucket db t b \<longleftrightarrow> tcont t b \<noteq> None"
    and get_sees: "tcont t b = Some m \<Longrightarrow> tx_Get db t b k = m k"
    and each_sees: "tcont t b = Some m \<Longrightarrow> gm_wf (tx_ForEach db t b) \<and> map_of (tx_ForEach db t b) = m"
    and put_sets: "tcont t b = Some m \<Longrightarrow> tx_Put db b k data t = (Inr u, t') \<Longrightarrow> tcont t' = (tcont t)(b \<mapsto> m(k \<mapsto> data))"
    and delete_removes: "tcont t b = Some m \<Longrightarrow> tx_Delete db b k t = (Inr u, t') \<Longrightarrow> tcont t' = (tcont t)(b \<mapsto> m(k := None))"

locale etcd_cluster =
  fixes cl :: "('b, 'd) EtcdClient"
    and cont :: "'d \<Rightarrow> string \<rightharpoonup> 'b"
  assumes reads_keep: "keeps cont (et_Get cl k)" "keeps cont (et_GetPrefix cl k)"
    and get_finds: "et_Get cl k d = (Inr kvs, d') \<Longrightarrow> kvs = (case cont d k of None \<Rightarrow> [] | Some data \<Rightarrow> [(k, data)])"
    and prefix_finds: "et_GetPrefix cl p d = (Inr kvs, d') \<Longrightarrow> gm_wf kvs \<and> map_of kvs = cont d |` {k. HasPrefix k p}"
    and put_done: "et_Put cl k data d = (Inr u, d') \<Longrightarrow> cont d' = (cont d)(k \<mapsto> data)"
    and put_unknown: "et_Put cl k data d = (Inl e, d') \<Longrightarrow> cont d' = cont d \<or> cont d' = (cont d)(k \<mapsto> data)"
    and delete_done: "et_Delete cl k d = (Inr n, d') \<Longrightarrow> n = (if cont d k = None then 0 else 1) \<and> cont d' = (cont d)(k := None)"
    and delete_unknown: "et_Delete cl k d = (Inl e, d') \<Longrightarrow> cont d' = cont d \<or> cont d' = (cont d)(k := None)"

text \<open>What a map from keys to encoded values stands for, and that it holds what was saved under its key.\<close>

definition decoded :: "('v, 'b) Codec \<Rightarrow> (string \<rightharpoonup> 'b) \<Rightarrow> string \<rightharpoonup> 'v" where
  "decoded js m n = (case m n of None \<Rightarrow> None | Some data \<Rightarrow> (case cd_Unmarshal js data of Inl _ \<Rightarrow> None | Inr v \<Rightarrow> Some v))"

definition sound_content :: "('v, 'b) Codec \<Rightarrow> ('v \<Rightarrow> string) \<Rightarrow> (string \<rightharpoonup> 'b) \<Rightarrow> bool" where
  "sound_content js key m \<longleftrightarrow> (\<forall>n data. m n = Some data \<longrightarrow> (\<exists>v. cd_Unmarshal js data = Inr v \<and> key v = n))"

lemma decoded_Some: "decoded js m n = Some v \<longleftrightarrow> (\<exists>data. m n = Some data \<and> cd_Unmarshal js data = Inr v)"
  by (auto simp: decoded_def split: option.splits sum.splits)

lemma decoded_None: "sound_content js key m \<Longrightarrow> decoded js m n = None \<longleftrightarrow> m n = None"
  by (force simp: decoded_def sound_content_def split: option.splits sum.splits)

lemma sound_upd:
  "sound_content js key m \<Longrightarrow> cd_Unmarshal js data = Inr v \<Longrightarrow> key v = n \<Longrightarrow>
   sound_content js key (m(n \<mapsto> data)) \<and> decoded js (m(n \<mapsto> data)) = (decoded js m)(n \<mapsto> v)"
  by (auto simp: sound_content_def decoded_def fun_eq_iff)

lemma sound_del:
  "sound_content js key m \<Longrightarrow> sound_content js key (m(n := None)) \<and> decoded js (m(n := None)) = (decoded js m)(n := None)"
  by (auto simp: sound_content_def decoded_def fun_eq_iff)

lemma decode_all_found:
  "decode_all un kind f kvs = Inr vs \<Longrightarrow> vs = filter f (map (\<lambda>(k, data). case un data of Inr v \<Rightarrow> v | Inl e \<Rightarrow> undefined) kvs) \<and>
    (\<forall>(k, data) \<in> set kvs. is_ok (un data))"
  by (induction un kind f kvs arbitrary: vs rule: decode_all.induct) (auto split: sum.splits)


lemma decoded_key: "sound_content js key m \<Longrightarrow> decoded js m n = Some v \<Longrightarrow> key v = n"
  unfolding sound_content_def decoded_Some by fastforce

lemma decode_all_lists:
  assumes wf: "gm_wf kvs" and pre: "\<And>k. k \<in> fst ` set kvs \<Longrightarrow> HasPrefix k P"
    and d: "decode_all (cd_Unmarshal js) kind (\<lambda>_. True) kvs = Inr vs"
  shows "lists_values (decoded js (\<lambda>n. map_of kvs (P @ n))) vs"
proof -
  let ?m = "\<lambda>n. map_of kvs (P @ n)" and ?ks = "map (drop (length P) \<circ> fst) kvs"
  have k: "P @ drop (length P) k = k" if "k \<in> fst ` set kvs" for k
    using pre [OF that] by (auto simp: HasPrefix_iff)
  have inj: "inj_on (drop (length P)) (fst ` set kvs)" by (rule inj_onI) (metis k)
  have vs: "vs = map (\<lambda>(k, data). case cd_Unmarshal js data of Inr v \<Rightarrow> v | Inl e \<Rightarrow> undefined) kvs"
    and good: "\<forall>(k, data) \<in> set kvs. is_ok (cd_Unmarshal js data)"
    using decode_all_found [OF d] by auto
  have at: "decoded js ?m (drop (length P) k) = Some (case cd_Unmarshal js data of Inr v \<Rightarrow> v | Inl e \<Rightarrow> undefined)"
    if "(k, data) \<in> set kvs" for k data
  proof -
    have "map_of kvs k = Some data" using wf that by simp
    moreover have "P @ drop (length P) k = k" using k that by force
    ultimately show ?thesis using good that by (auto simp: decoded_def is_ok_iff)
  qed
  show ?thesis
    unfolding lists_values_def
  proof (intro exI [of _ ?ks] conjI)
    show "distinct ?ks" using wf inj by (simp add: distinct_map comp_inj_on)
    show "set ?ks = dom (decoded js ?m)"
    proof (intro set_eqI iffI)
      fix n assume "n \<in> set ?ks"
      then show "n \<in> dom (decoded js ?m)" using at by force
    next
      fix n assume "n \<in> dom (decoded js ?m)"
      then obtain data where "map_of kvs (P @ n) = Some data" by (auto simp: decoded_Some)
      then have "(P @ n, data) \<in> set kvs" by (rule map_of_SomeD)
      then show "n \<in> set ?ks" by (force simp: image_iff)
    qed
    show "vs = map (the \<circ> decoded js ?m) ?ks" unfolding vs using at by force
  qed
qed

text \<open>The values in a bucket, and those under a prefix.\<close>

definition bucket_abs :: "('d \<Rightarrow> string \<Rightarrow> (string \<rightharpoonup> 'b) option) \<Rightarrow> ('v, 'b) Codec \<Rightarrow> string \<Rightarrow> 'd \<Rightarrow> string \<rightharpoonup> 'v" where
  "bucket_abs cont js bucket d = (case cont d bucket of None \<Rightarrow> (\<lambda>_. None) | Some m \<Rightarrow> decoded js m)"

definition bucket_ok ::
  "('d \<Rightarrow> string \<Rightarrow> (string \<rightharpoonup> 'b) option) \<Rightarrow> ('v, 'b) Codec \<Rightarrow> ('v \<Rightarrow> string) \<Rightarrow> string \<Rightarrow> 'd \<Rightarrow> bool" where
  "bucket_ok cont js key bucket d \<longleftrightarrow> (\<exists>m. cont d bucket = Some m \<and> sound_content js key m)"

definition under :: "('d \<Rightarrow> string \<rightharpoonup> 'b) \<Rightarrow> string \<Rightarrow> 'd \<Rightarrow> string \<rightharpoonup> 'b" where
  "under cont prefix d n = cont d (prefix @ n)"

definition prefix_abs :: "('d \<Rightarrow> string \<rightharpoonup> 'b) \<Rightarrow> ('v, 'b) Codec \<Rightarrow> string \<Rightarrow> 'd \<Rightarrow> string \<rightharpoonup> 'v" where
  "prefix_abs cont js prefix d = decoded js (under cont prefix d)"

definition prefix_ok :: "('d \<Rightarrow> string \<rightharpoonup> 'b) \<Rightarrow> ('v, 'b) Codec \<Rightarrow> ('v \<Rightarrow> string) \<Rightarrow> string \<Rightarrow> 'd \<Rightarrow> bool" where
  "prefix_ok cont js key prefix d \<longleftrightarrow> sound_content js key (under cont prefix d)"

section \<open>The Bolt store\<close>

locale bolt_bucket = bolt_db db cont tcont + codec js
  for db :: "('t, 'b, 'd) BoltDB" and cont :: "'d \<Rightarrow> string \<Rightarrow> (string \<rightharpoonup> 'b) option"
    and tcont :: "'t \<Rightarrow> string \<Rightarrow> (string \<rightharpoonup> 'b) option" and js :: "('v, 'b) Codec" +
  fixes bucket :: string and key :: "'v \<Rightarrow> string"
begin

abbreviation bvals where "bvals \<equiv> bucket_abs cont js bucket"
abbreviation bgood where "bgood \<equiv> bucket_ok cont js key bucket"

lemma same_content: "cont d' = cont d \<Longrightarrow> bvals d' = bvals d \<and> bgood d' = bgood d"
  by (simp add: bucket_abs_def bucket_ok_def)

lemma read_keeps: "bolt_read db bucket f d = (r, d') \<Longrightarrow> cont d' = cont d"
  using keepsD [OF view_keeps] by (auto simp: bolt_read_def split: prod.splits sum.splits)

lemma read_sees:
  assumes "cont d bucket = Some m" and "bolt_read db bucket f d = (Inr v, d')"
  shows "\<exists>t. tcont t bucket = Some m \<and> f t = Inr v"
proof -
  obtain t where t: "bb_View db d = (Inr t, d')" "(if tx_Bucket db t bucket then f t else Inl nil_deref) = Inr v"
    using assms(2) by (auto simp: bolt_read_def split: prod.splits sum.splits)
  from view_sees [OF t(1)] t(2) assms(1) show ?thesis by (intro exI [of _ t]) (simp split: if_splits)
qed

lemma bolt_atomic:
  "atomic_store (bolt_get db js kind bucket) (bolt_list db js kind bucket (\<lambda>_. True)) (bolt_save db js kind bucket key)
     (bolt_delete db kind bucket) key bvals bgood"
proof (unfold_locales, goal_cases)
  case (1 p n v p')
  then obtain m where m: "cont p bucket = Some m" by (auto simp: bucket_ok_def)
  from read_sees [OF m 1(2) [unfolded bolt_get_def]] obtain t where "tcont t bucket = Some m"
    "(case tx_Get db t bucket n of None \<Rightarrow> Inl (not_found kind n) | Some data \<Rightarrow> cd_Unmarshal js data) = Inr v" by blast
  with m show ?case by (auto simp: bucket_abs_def decoded_Some get_sees split: option.splits)
next
  case (2 p n r p')
  from same_content [OF read_keeps [OF 2(2) [unfolded bolt_get_def]]] 2(1) show ?case by simp
next
  case (3 p vs p')
  then obtain m where m: "cont p bucket = Some m" by (auto simp: bucket_ok_def)
  from read_sees [OF m 3(2) [unfolded bolt_list_def]] obtain t where t: "tcont t bucket = Some m"
    "decode_all (cd_Unmarshal js) kind (\<lambda>_. True) (tx_ForEach db t bucket) = Inr vs" by blast
  with decode_all_lists [where P = "[]", OF _ _ t(2)] each_sees [OF t(1)] m show ?case
    by (simp add: bucket_abs_def HasPrefix_iff)
next
  case (4 p r p')
  from same_content [OF read_keeps [OF 4(2) [unfolded bolt_list_def]]] 4(1) show ?case by simp
next
  case (5 p v u p')
  then obtain m data where m: "cont p bucket = Some m" "sound_content js key m" "cd_Marshal js v = Inr data"
    by (auto simp: bucket_ok_def bolt_save_def split: sum.splits)
  with 5(2) have "bb_Update db (\<lambda>t. if tx_Bucket db t bucket then tx_Put db bucket (key v) data t else (Inl nil_deref, t)) p = (Inr u, p')"
    by (simp add: bolt_save_def)
  from committed [OF this] obtain t t' where t: "tcont t = cont p" "cont p' = tcont t'"
    "(if tx_Bucket db t bucket then tx_Put db bucket (key v) data t else (Inl nil_deref, t)) = (Inr (), t')" by blast
  then have "cont p' = (cont p)(bucket \<mapsto> m(key v \<mapsto> data))"
    using put_sets [of t bucket m "key v" data "()" t'] m(1) by (auto split: if_splits)
  with sound_upd [OF m(2) decode_encode [OF m(3)] refl] m(1) show ?case
    unfolding bucket_abs_def bucket_ok_def by simp
next
  case (6 p v e p')
  then have "cont p' = cont p" using rolled_back by (auto simp: bolt_save_def split: sum.splits)
  with same_content [of p' p] 6(1) show ?case by simp
next
  case (7 p n u p')
  then obtain m where m: "cont p bucket = Some m" "sound_content js key m" by (auto simp: bucket_ok_def)
  from committed [OF 7(2) [unfolded bolt_delete_def]] obtain t t' where t: "tcont t = cont p" "cont p' = tcont t'"
    "(if \<not> tx_Bucket db t bucket then (Inl nil_deref, t)
       else case tx_Get db t bucket n of None \<Rightarrow> (Inl (not_found kind n), t) | Some _ \<Rightarrow> tx_Delete db bucket n t) = (Inr (), t')"
    by blast
  have g: "tx_Get db t bucket n = m n" using get_sees [of t bucket m] t(1) m(1) by simp
  from t(3) have there: "m n \<noteq> None" and r: "tx_Delete db bucket n t = (Inr (), t')"
    unfolding g by (auto split: if_splits option.splits)
  have "cont p' = (cont p)(bucket \<mapsto> m(n := None))" using delete_removes [OF _ r, of m] t m(1) by simp
  moreover have "n \<in> dom (decoded js m)" using there decoded_None [OF m(2)] by (simp add: domIff)
  ultimately show ?case using sound_del [OF m(2)] m(1) by (simp add: bucket_abs_def bucket_ok_def)
next
  case (8 p n e p')
  from same_content [OF rolled_back [OF 8(2) [unfolded bolt_delete_def]]] 8(1) show ?case by simp
next
  case (9 p n v)
  then show ?case by (auto simp: bucket_abs_def bucket_ok_def dest: decoded_key)
next
  case (10 p v e p')
  then have "cont p' = cont p" using rolled_back by (auto simp: bolt_save_def split: sum.splits)
  with same_content [of p' p] show ?case by simp
next
  case (11 p n e p')
  from same_content [OF rolled_back [OF 11(2) [unfolded bolt_delete_def]]] show ?case by simp
qed

end

section \<open>The etcd stores\<close>

locale etcd_prefix = etcd_cluster cl cont + codec js
  for cl :: "('b, 'd) EtcdClient" and cont :: "'d \<Rightarrow> string \<rightharpoonup> 'b" and js :: "('v, 'b) Codec" +
  fixes prefix :: string and key :: "'v \<Rightarrow> string"
begin

abbreviation sub where "sub \<equiv> under cont prefix"
abbreviation pvals where "pvals \<equiv> prefix_abs cont js prefix"
abbreviation pgood where "pgood \<equiv> prefix_ok cont js key prefix"

lemma under_upd: "cont d' = (cont d)(prefix @ n := x) \<Longrightarrow> sub d' = (sub d)(n := x)"
  by (simp add: under_def fun_eq_iff)

lemma same_under: "cont d' = cont d \<Longrightarrow> pvals d' = pvals d \<and> pgood d' = pgood d"
  by (simp add: prefix_abs_def prefix_ok_def under_def [abs_def])

lemma stored:
  "pgood d \<Longrightarrow> cd_Marshal js v = Inr data \<Longrightarrow> cont d' = (cont d)(prefix @ key v \<mapsto> data) \<Longrightarrow>
   pgood d' \<and> pvals d' = (pvals d)(key v \<mapsto> v)"
  unfolding prefix_ok_def prefix_abs_def using sound_upd [OF _ decode_encode refl] by (simp add: under_upd)

lemma removed:
  "pgood d \<Longrightarrow> cont d' = (cont d)(prefix @ n := None) \<Longrightarrow> pgood d' \<and> pvals d' = (pvals d)(n := None)"
  unfolding prefix_ok_def prefix_abs_def using sound_del by (simp add: under_upd)

lemma get_keeps: "etcd_get cl js kind prefix n d = (r, d') \<Longrightarrow> cont d' = cont d"
  using keepsD [OF reads_keep(1)] by (auto simp: etcd_get_def split: prod.splits sum.splits list.splits)

lemma list_keeps: "etcd_list cl js kind kinds prefix d = (r, d') \<Longrightarrow> cont d' = cont d"
  using keepsD [OF reads_keep(2)] by (auto simp: etcd_list_def split: prod.splits sum.splits)

lemma etcd_kv:
  "kv_store (etcd_get cl js kind prefix) (etcd_list cl js kind kinds prefix) (etcd_save cl js kind prefix key)
     (etcd_delete cl kind prefix) key pvals pgood"
proof (unfold_locales, goal_cases)
  case (1 p n v p')
  then obtain kvs where g: "et_Get cl (prefix @ n) p = (Inr kvs, p')"
    by (auto simp: etcd_get_def split: prod.splits sum.splits list.splits)
  from get_finds [OF g] 1(2) g show ?case
    by (auto simp: etcd_get_def prefix_abs_def under_def decoded_Some split: option.splits sum.splits)
next
  case (2 p n r p')
  then show ?case using same_under [OF get_keeps] by simp
next
  case (3 p vs p')
  then obtain kvs where g: "et_GetPrefix cl prefix p = (Inr kvs, p')" "decode_all (cd_Unmarshal js) kind (\<lambda>_. True) kvs = Inr vs"
    by (auto simp: etcd_list_def split: prod.splits sum.splits)
  note f = prefix_finds [OF g(1)]
  have pre: "HasPrefix k prefix" if "k \<in> fst ` set kvs" for k
  proof -
    have "map_of kvs k \<noteq> None" using that by (simp add: map_of_eq_None_iff)
    with f show ?thesis by (auto simp: restrict_map_def split: if_splits)
  qed
  have "(\<lambda>n. map_of kvs (prefix @ n)) = sub p" using f by (simp add: under_def fun_eq_iff HasPrefix_iff)
  with decode_all_lists [OF _ pre g(2)] f show ?case by (simp add: prefix_abs_def)
next
  case (4 p r p')
  then show ?case using same_under [OF list_keeps] by simp
next
  case (5 p v u p')
  then obtain data where "cd_Marshal js v = Inr data" "et_Put cl (prefix @ key v) data p = (Inr (), p')"
    by (auto simp: etcd_save_def split: prod.splits sum.splits)
  with stored [OF 5(1)] put_done show ?case by blast
next
  case (6 p v e p')
  show ?case
  proof (cases "cd_Marshal js v")
    case (Inl x)
    with 6 show ?thesis by (simp add: etcd_save_def)
  next
    case (Inr data)
    with 6(2) obtain x where "et_Put cl (prefix @ key v) data p = (Inl x, p')"
      by (auto simp: etcd_save_def split: prod.splits sum.splits)
    from put_unknown [OF this] stored [OF 6(1) Inr] same_under [of p' p] 6(1) show ?thesis by blast
  qed
next
  case (7 p n u p')
  then obtain k where "et_Delete cl (prefix @ n) p = (Inr k, p')" "k \<noteq> 0"
    by (auto simp: etcd_delete_def split: prod.splits sum.splits if_splits)
  with delete_done [of "prefix @ n" p k p'] have d: "sub p n \<noteq> None" "cont p' = (cont p)(prefix @ n := None)"
    by (auto simp: under_def split: if_splits)
  moreover have "n \<in> dom (pvals p)" using decoded_None [of js key "sub p" n] 7(1) d(1)
    by (simp add: prefix_abs_def prefix_ok_def domIff)
  ultimately show ?case using removed [OF 7(1)] by blast
next
  case (8 p n e p')
  then consider (err) x where "et_Delete cl (prefix @ n) p = (Inl x, p')" | (miss) "et_Delete cl (prefix @ n) p = (Inr 0, p')"
    by (auto simp: etcd_delete_def split: prod.splits sum.splits if_splits)
  then show ?case
  proof cases
    case err
    from delete_unknown [OF this] removed [OF 8(1)] same_under [of p' p] 8(1) show ?thesis by blast
  next
    case miss
    with delete_done [OF miss] removed [OF 8(1)] show ?thesis by blast
  qed
next
  case (9 p n v)
  then show ?case by (auto simp: prefix_abs_def prefix_ok_def dest: decoded_key)
qed

end

section \<open>Small databases\<close>

text \<open>A value of the three kinds, encoded as itself.\<close>

datatype jvalue = VSandbox Sandbox | VSession Session | VMatrix Matrix

definition bad_type :: goerr where
  "bad_type = ExtErr ''json: cannot unmarshal''"

definition js_sandbox :: "(Sandbox, jvalue) Codec" where
  "js_sandbox = \<lparr>cd_Marshal = Inr \<circ> VSandbox, cd_Unmarshal = (\<lambda>x. case x of VSandbox v \<Rightarrow> Inr v | _ \<Rightarrow> Inl bad_type)\<rparr>"
definition js_session :: "(Session, jvalue) Codec" where
  "js_session = \<lparr>cd_Marshal = Inr \<circ> VSession, cd_Unmarshal = (\<lambda>x. case x of VSession v \<Rightarrow> Inr v | _ \<Rightarrow> Inl bad_type)\<rparr>"
definition js_matrix :: "(Matrix, jvalue) Codec" where
  "js_matrix = \<lparr>cd_Marshal = Inr \<circ> VMatrix, cd_Unmarshal = (\<lambda>x. case x of VMatrix v \<Rightarrow> Inr v | _ \<Rightarrow> Inl bad_type)\<rparr>"

interpretation jsb: codec js_sandbox
  by unfold_locales (auto simp: js_sandbox_def)
interpretation jse: codec js_session
  by unfold_locales (auto simp: js_session_def)
interpretation jmx: codec js_matrix
  by unfold_locales (auto simp: js_matrix_def)

text \<open>A Bolt file: buckets of keys; the empty key is refused, as \<open>bbolt\<close> does.\<close>

type_synonym bolt_file = "jvalue gomap gomap"

definition mem_bolt :: "(bolt_file, jvalue, bolt_file) BoltDB" where
  "mem_bolt =
     \<lparr>bb_View = (\<lambda>d. (Inr d, d)),
      bb_Update = (\<lambda>f d. case f d of (Inr _, t) \<Rightarrow> (Inr (), t) | (Inl e, _) \<Rightarrow> (Inl e, d)),
      tx_Bucket = (\<lambda>t b. gm_get t b \<noteq> None),
      tx_CreateBucket = (\<lambda>b t. (Inr (), case gm_get t b of None \<Rightarrow> gm_set b [] t | Some _ \<Rightarrow> t)),
      tx_Get = (\<lambda>t b k. case gm_get t b of None \<Rightarrow> None | Some m \<Rightarrow> gm_get m k),
      tx_ForEach = (\<lambda>t b. case gm_get t b of None \<Rightarrow> [] | Some m \<Rightarrow> AList.clearjunk m),
      tx_Put = (\<lambda>b k data t. case gm_get t b of
          None \<Rightarrow> (Inl (ExtErr ''bucket not found''), t)
        | Some m \<Rightarrow> if k = [] then (Inl (ExtErr ''key required''), t) else (Inr (), gm_set b (gm_set k data m) t)),
      tx_Delete = (\<lambda>b k t. case gm_get t b of
          None \<Rightarrow> (Inl (ExtErr ''bucket not found''), t)
        | Some m \<Rightarrow> (Inr (), gm_set b (AList.delete k m) t))\<rparr>"

definition bolt_content :: "bolt_file \<Rightarrow> string \<Rightarrow> (string \<rightharpoonup> jvalue) option" where
  "bolt_content d b = map_option map_of (gm_get d b)"

interpretation mbolt: bolt_db mem_bolt bolt_content bolt_content
proof (unfold_locales, goal_cases)
  case 3 then show ?case by (fastforce simp: mem_bolt_def split: prod.splits sum.splits)
next
  case 4 then show ?case by (auto simp: mem_bolt_def split: prod.splits sum.splits)
next
  case (7 t b m)
  then show ?case by (auto simp: mem_bolt_def bolt_content_def map_of_clearjunk distinct_clearjunk split: option.splits)
next
  case (8 t b m k data u t')
  then show ?case by (auto simp: mem_bolt_def bolt_content_def fun_eq_iff update_conv' split: option.splits if_splits)
next
  case (9 t b m k u t')
  then show ?case by (auto simp: mem_bolt_def bolt_content_def fun_eq_iff update_conv' delete_conv' split: option.splits)
qed (auto simp: mem_bolt_def bolt_content_def keeps_def split: option.splits)

interpretation bsb: bolt_bucket mem_bolt bolt_content bolt_content js_sandbox bucketSandboxes sandbox_key ..
interpretation bse: bolt_bucket mem_bolt bolt_content bolt_content js_session bucketSessions session_key ..

text \<open>An etcd cluster: one map, and a list that says for each of the coming writes whether its answer gets lost.\<close>

record etcd_state =
  ec_kv :: "jvalue gomap"
  ec_lost :: "bool list"

definition etcd_answer :: "'a \<Rightarrow> ('a res, etcd_state) act" where
  "etcd_answer x d =
     (case ec_lost d of
        True # bs \<Rightarrow> (Inl (ExtErr ''context deadline exceeded''), d\<lparr>ec_lost := bs\<rparr>)
      | _ # bs \<Rightarrow> (Inr x, d\<lparr>ec_lost := bs\<rparr>)
      | [] \<Rightarrow> (Inr x, d))"

definition mem_etcd :: "(jvalue, etcd_state) EtcdClient" where
  "mem_etcd =
     \<lparr>et_Get = (\<lambda>k d. (Inr (case gm_get (ec_kv d) k of None \<Rightarrow> [] | Some v \<Rightarrow> [(k, v)]), d)),
      et_GetPrefix = (\<lambda>p d. (Inr (filter (\<lambda>(k, v). HasPrefix k p) (AList.clearjunk (ec_kv d))), d)),
      et_Put = (\<lambda>k v d. etcd_answer () (d\<lparr>ec_kv := gm_set k v (ec_kv d)\<rparr>)),
      et_Delete = (\<lambda>k d. etcd_answer (if gm_get (ec_kv d) k = None then 0 else 1) (d\<lparr>ec_kv := AList.delete k (ec_kv d)\<rparr>))\<rparr>"

lemma etcd_answer_keeps: "etcd_answer x d = (r, d') \<Longrightarrow> ec_kv d' = ec_kv d \<and> (\<forall>y. r = Inr y \<longrightarrow> y = x)"
  by (auto simp: etcd_answer_def split: list.splits bool.splits)

lemma map_of_prefixed:
  assumes "gm_wf m"
  shows "map_of (filter (\<lambda>(k, v). P k) m) = map_of m |` {k. P k}"
proof
  fix k
  have "map_of (filter (\<lambda>(k, v). P k) m) k = Some v \<longleftrightarrow> (map_of m |` {k. P k}) k = Some v" for v
  proof -
    have "gm_wf (filter (\<lambda>(k, v). P k) m)" using assms by (simp add: distinct_map_filter)
    then show ?thesis using assms by (auto simp: restrict_map_def)
  qed
  then show "map_of (filter (\<lambda>(k, v). P k) m) k = (map_of m |` {k. P k}) k"
    by (metis not_Some_eq)
qed

interpretation metcd: etcd_cluster mem_etcd "\<lambda>d. map_of (ec_kv d)"
proof (unfold_locales, goal_cases)
  case (4 p d kvs d')
  then show ?case
    using map_of_prefixed [OF distinct_clearjunk [of "ec_kv d"], of "\<lambda>k. HasPrefix k p"]
    by (auto simp: mem_etcd_def map_of_clearjunk distinct_map_filter distinct_clearjunk)
next
  case (5 k data d u d')
  then have "etcd_answer () (d\<lparr>ec_kv := gm_set k data (ec_kv d)\<rparr>) = (Inr u, d')" by (simp add: mem_etcd_def)
  from etcd_answer_keeps [OF this] show ?case by (simp add: update_conv')
next
  case (6 k data d e d')
  then have "etcd_answer () (d\<lparr>ec_kv := gm_set k data (ec_kv d)\<rparr>) = (Inl e, d')" by (simp add: mem_etcd_def)
  from etcd_answer_keeps [OF this] show ?case by (simp add: update_conv')
next
  case (7 k d n d')
  then have "etcd_answer (if gm_get (ec_kv d) k = None then 0 else 1) (d\<lparr>ec_kv := AList.delete k (ec_kv d)\<rparr>) = (Inr n, d')"
    by (simp add: mem_etcd_def)
  from etcd_answer_keeps [OF this] show ?case by (simp add: delete_conv')
next
  case (8 k d e d')
  then have "etcd_answer (if gm_get (ec_kv d) k = None then 0 else 1 :: int) (d\<lparr>ec_kv := AList.delete k (ec_kv d)\<rparr>) = (Inl e, d')"
    by (simp add: mem_etcd_def)
  from etcd_answer_keeps [OF this] show ?case by (simp add: delete_conv')
qed (auto simp: mem_etcd_def keeps_def split: option.splits)

interpretation esb: etcd_prefix mem_etcd "\<lambda>d. map_of (ec_kv d)" js_sandbox "''/sandboxmatrix/sandboxes/''" sandbox_key ..
interpretation ese: etcd_prefix mem_etcd "\<lambda>d. map_of (ec_kv d)" js_session "''/sandboxmatrix/sessions/''" session_key ..
interpretation emx: etcd_prefix mem_etcd "\<lambda>d. map_of (ec_kv d)" js_matrix "''/sandboxmatrix/matrices/''" matrix_key ..

section \<open>Properties\<close>

text \<open>C27. The Bolt store meets the contract of an atomic store twice, for sandboxes and for sessions: what is found is what was last
  saved under that name, a listing has every value once, and an operation that fails, at whatever step, has changed nothing.\<close>

theorem bolt_store_atomic:
  assumes "bolt_db db cont tcont" and "codec js" and "codec js'"
  shows "atomic_store (BoltStore_Get db js) (BoltStore_List db js) (BoltStore_Save db js) (BoltStore_Delete db) sandbox_key
      (bucket_abs cont js bucketSandboxes) (bucket_ok cont js sandbox_key bucketSandboxes) \<and>
    atomic_store (BoltStore_GetSession db js') (BoltStore_ListSessions db js') (BoltStore_SaveSession db js') (BoltStore_DeleteSession db)
      session_key (bucket_abs cont js' bucketSessions) (bucket_ok cont js' session_key bucketSessions)"
  unfolding BoltStore_Get_def BoltStore_List_def BoltStore_Save_def BoltStore_Delete_def BoltStore_GetSession_def
    BoltStore_ListSessions_def BoltStore_SaveSession_def BoltStore_DeleteSession_def
  by (intro conjI; rule bolt_bucket.bolt_atomic [OF bolt_bucket.intro]; rule assms)

lemma decoded_empty: "decoded js (\<lambda>n. None) = (\<lambda>n. None)"
  by (simp add: decoded_def fun_eq_iff)

definition fresh_bolt :: bolt_file where
  "fresh_bolt = snd (create_buckets mem_bolt [])"

theorem bolt_store_atomic_witness:
  "bucket_abs bolt_content js_sandbox bucketSandboxes
     (snd (BoltStore_Save mem_bolt js_sandbox (sample_sandbox ''a'') fresh_bolt)) ''a'' = Some (sample_sandbox ''a'') \<and>
   bucket_abs bolt_content js_sandbox bucketSandboxes
     (snd (BoltStore_Save mem_bolt js_sandbox (sample_sandbox []) fresh_bolt)) = Map.empty"
proof
  note A = bolt_store_atomic [OF mbolt.bolt_db_axioms jsb.codec_axioms jse.codec_axioms, THEN conjunct1]
  note K = A [THEN atomic_store.axioms(1)]
  have fresh: "fresh_bolt = [(''sandboxes'', []), (''sessions'', [])]"
    by (simp add: fresh_bolt_def create_buckets_def mem_bolt_def bucketSandboxes_def bucketSessions_def)
  have ok: "bucket_ok bolt_content js_sandbox sandbox_key bucketSandboxes fresh_bolt"
    by (simp add: bucket_ok_def fresh bolt_content_def bucketSandboxes_def sound_content_def)
  obtain r d where s: "BoltStore_Save mem_bolt js_sandbox (sample_sandbox ''a'') fresh_bolt = (r, d)" by fastforce
  then have "r = Inr ()"
    by (auto simp: BoltStore_Save_def bolt_save_def js_sandbox_def mem_bolt_def fresh bucketSandboxes_def sample_sandbox_def sandbox_key_def)
  with kv_store.save_done [OF K ok] s
  show "bucket_abs bolt_content js_sandbox bucketSandboxes
     (snd (BoltStore_Save mem_bolt js_sandbox (sample_sandbox ''a'') fresh_bolt)) ''a'' = Some (sample_sandbox ''a'')"
    by (simp add: sample_sandbox_def sandbox_key_def)
  obtain r d where e: "BoltStore_Save mem_bolt js_sandbox (sample_sandbox []) fresh_bolt = (r, d)" by fastforce
  then obtain x where "r = Inl x"
    by (auto simp: BoltStore_Save_def bolt_save_def js_sandbox_def mem_bolt_def fresh bucketSandboxes_def sample_sandbox_def sandbox_key_def)
  with atomic_store.save_failed_same [OF A ok] e
  show "bucket_abs bolt_content js_sandbox bucketSandboxes
     (snd (BoltStore_Save mem_bolt js_sandbox (sample_sandbox []) fresh_bolt)) = Map.empty"
    by (simp add: bucket_abs_def fresh bolt_content_def bucketSandboxes_def decoded_empty)
qed

text \<open>C28. The three stores of an etcd cluster each meet the contract of a store whose failed writes may have happened.\<close>

theorem etcd_store_contract:
  assumes "etcd_cluster (es_client s) cont" and "codec js" and "codec js'" and "codec js''"
  shows "kv_store (EtcdStore_Get s js) (EtcdStore_List s js) (EtcdStore_Save s js) (EtcdStore_Delete s) sandbox_key
      (prefix_abs cont js (sandboxPrefix s)) (prefix_ok cont js sandbox_key (sandboxPrefix s)) \<and>
    kv_store (EtcdStore_GetSession s js') (EtcdStore_ListSessions s js') (EtcdStore_SaveSession s js') (EtcdStore_DeleteSession s) session_key
      (prefix_abs cont js' (sessionPrefix s)) (prefix_ok cont js' session_key (sessionPrefix s)) \<and>
    kv_store (EtcdMatrixStore_Get s js'') (EtcdMatrixStore_List s js'') (EtcdMatrixStore_Save s js'') (EtcdMatrixStore_Delete s) matrix_key
      (prefix_abs cont js'' (matrixPrefix s)) (prefix_ok cont js'' matrix_key (matrixPrefix s))"
  unfolding EtcdStore_Get_def EtcdStore_List_def EtcdStore_Save_def EtcdStore_Delete_def EtcdStore_GetSession_def
    EtcdStore_ListSessions_def EtcdStore_SaveSession_def EtcdStore_DeleteSession_def EtcdMatrixStore_Get_def
    EtcdMatrixStore_List_def EtcdMatrixStore_Save_def EtcdMatrixStore_Delete_def
  by (intro conjI; rule etcd_prefix.etcd_kv [OF etcd_prefix.intro]; rule assms)

definition demo_etcd :: "(jvalue, etcd_state) EtcdStore" where
  "demo_etcd = \<lparr>es_client = mem_etcd, es_prefix = defaultEtcdPrefix\<rparr>"

theorem etcd_store_contract_witness:
  "prefix_abs (\<lambda>d. map_of (ec_kv d)) js_sandbox (sandboxPrefix demo_etcd)
     (snd (EtcdStore_Save demo_etcd js_sandbox (sample_sandbox ''a'') \<lparr>ec_kv = [], ec_lost = []\<rparr>)) ''a'' = Some (sample_sandbox ''a'')"
proof -
  let ?d = "\<lparr>ec_kv = [], ec_lost = []\<rparr>"
  have "etcd_cluster (es_client demo_etcd) (\<lambda>d. map_of (ec_kv d))" using metcd.etcd_cluster_axioms by (simp add: demo_etcd_def)
  note K = etcd_store_contract [OF this jsb.codec_axioms jse.codec_axioms jmx.codec_axioms, THEN conjunct1]
  have ok: "prefix_ok (\<lambda>d. map_of (ec_kv d)) js_sandbox sandbox_key (sandboxPrefix demo_etcd) ?d"
    by (simp add: prefix_ok_def under_def sound_content_def)
  obtain r d where s: "EtcdStore_Save demo_etcd js_sandbox (sample_sandbox ''a'') ?d = (r, d)" by fastforce
  then have "r = Inr ()"
    by (auto simp: EtcdStore_Save_def etcd_save_def js_sandbox_def demo_etcd_def mem_etcd_def etcd_answer_def)
  with kv_store.save_done [OF K ok] s show ?thesis by (simp add: sample_sandbox_def sandbox_key_def)
qed

lemma other_prefix:
  assumes "cont d' = cont d \<or> cont d' = (cont d)(P @ k := x)" and "\<And>a b. P @ a \<noteq> Q @ b"
  shows "prefix_abs cont js Q d' = prefix_abs cont js Q d"
proof -
  have "under cont Q d' = under cont Q d"
    using assms(1) assms(2) [symmetric] by (auto simp: under_def fun_eq_iff)
  then show ?thesis by (simp add: prefix_abs_def)
qed

lemma etcd_writes:
  assumes "etcd_cluster cl cont"
  shows "\<exists>x. cont (snd (etcd_save cl js kind P key v d)) = cont d \<or> cont (snd (etcd_save cl js kind P key v d)) = (cont d)(P @ key v := x)"
    and "\<exists>x. cont (snd (etcd_delete cl kind P n d)) = cont d \<or> cont (snd (etcd_delete cl kind P n d)) = (cont d)(P @ n := x)"
proof -
  note put = etcd_cluster.put_done [OF assms] etcd_cluster.put_unknown [OF assms]
  note del = etcd_cluster.delete_done [OF assms] etcd_cluster.delete_unknown [OF assms]
  show "\<exists>x. cont (snd (etcd_save cl js kind P key v d)) = cont d \<or> cont (snd (etcd_save cl js kind P key v d)) = (cont d)(P @ key v := x)"
  proof (cases "cd_Marshal js v")
    case (Inr data)
    obtain r d' where r: "et_Put cl (P @ key v) data d = (r, d')" by fastforce
    then have e: "snd (etcd_save cl js kind P key v d) = d'" using Inr by (simp add: etcd_save_def split: sum.splits)
    have "cont d' = cont d \<or> cont d' = (cont d)(P @ key v := Some data)"
      using put(1) [of "P @ key v" data d _ d'] put(2) [of "P @ key v" data d _ d'] r by (cases r) simp_all
    then show ?thesis unfolding e by (rule exI)
  qed (simp add: etcd_save_def)
  obtain r d' where r: "et_Delete cl (P @ n) d = (r, d')" by fastforce
  then have e: "snd (etcd_delete cl kind P n d) = d'" by (simp add: etcd_delete_def split: sum.splits)
  have "cont d' = cont d \<or> cont d' = (cont d)(P @ n := None)"
  proof (cases r)
    case (Inl e)
    with r show ?thesis using del(2) by simp
  next
    case (Inr k)
    with r have "et_Delete cl (P @ n) d = (Inr k, d')" by simp
    from del(1) [OF this] show ?thesis by (simp only: simp_thms)
  qed
  then show "\<exists>x. cont (snd (etcd_delete cl kind P n d)) = cont d \<or> cont (snd (etcd_delete cl kind P n d)) = (cont d)(P @ n := x)"
    unfolding e by (rule exI)
qed

text \<open>The stores of one cluster do not get in each other's way: saving or deleting a sandbox, whatever its name and whether the call
  succeeds or not, leaves every session and every matrix as it is.\<close>

theorem etcd_stores_independent:
  assumes "etcd_cluster (es_client s) cont" and "d' = snd (EtcdStore_Save s js sb d) \<or> d' = snd (EtcdStore_Delete s n d)"
  shows "prefix_abs cont js' (sessionPrefix s) d' = prefix_abs cont js' (sessionPrefix s) d \<and>
    prefix_abs cont js'' (matrixPrefix s) d' = prefix_abs cont js'' (matrixPrefix s) d"
proof -
  have "\<exists>k x. cont d' = cont d \<or> cont d' = (cont d)(sandboxPrefix s @ k := x)"
    using assms(2)
  proof
    assume d: "d' = snd (EtcdStore_Save s js sb d)"
    show ?thesis unfolding d EtcdStore_Save_def by (rule exI [of _ "sandbox_key sb"]) (rule etcd_writes(1) [OF assms(1)])
  next
    assume d: "d' = snd (EtcdStore_Delete s n d)"
    show ?thesis unfolding d EtcdStore_Delete_def by (rule exI [of _ n]) (rule etcd_writes(2) [OF assms(1)])
  qed
  then obtain k x where c: "cont d' = cont d \<or> cont d' = (cont d)(sandboxPrefix s @ k := x)" by (elim exE)
  have "sandboxPrefix s @ a \<noteq> sessionPrefix s @ b" "sandboxPrefix s @ a \<noteq> matrixPrefix s @ b" for a b
    by (simp_all add: sandboxPrefix_def sessionPrefix_def matrixPrefix_def)
  then show ?thesis by (intro conjI other_prefix [OF c])
qed

theorem etcd_stores_independent_witness:
  "prefix_abs (\<lambda>d. map_of (ec_kv d)) js_session (sessionPrefix demo_etcd)
     (snd (EtcdStore_Delete demo_etcd ''../sessions/1'' \<lparr>ec_kv = [], ec_lost = [True]\<rparr>)) ''1'' =
   prefix_abs (\<lambda>d. map_of (ec_kv d)) js_session (sessionPrefix demo_etcd) \<lparr>ec_kv = [], ec_lost = [True]\<rparr> ''1''"
proof -
  have "etcd_cluster (es_client demo_etcd) (\<lambda>d. map_of (ec_kv d))" using metcd.etcd_cluster_axioms by (simp add: demo_etcd_def)
  from etcd_stores_independent [OF this disjI2 [OF refl], THEN conjunct1] show ?thesis by (rule fun_cong)
qed

text \<open>With a path for the file stores, all three kinds of store are put into one file, where each rewrites what the others wrote.\<close>

lemma one_file_for_all:
  "sf_Backend cfg \<in> {''file'', ''bolt'', []} \<Longrightarrow> sf_FilePath cfg \<noteq> [] \<Longrightarrow>
   NewMatrixStoreFromConfig cfg = Inr (FileAt (sf_FilePath cfg)) \<and>
   (sf_Backend cfg \<noteq> ''bolt'' \<longrightarrow> NewFromConfig cfg = NewMatrixStoreFromConfig cfg \<and>
     NewSessionStoreFromConfig cfg ex = NewMatrixStoreFromConfig cfg)"
  by (auto simp: NewMatrixStoreFromConfig_def NewFromConfig_def NewSessionStoreFromConfig_def file_source_def)

end
