(* ===== verification/BlueprintFiles.thy ===== *)
theory BlueprintFiles
  imports ApiTypes GoStrings
begin

text \<open>
  \<open>pkg/blueprint/parser.go\<close>: reading a blueprint file with its chain of \<open>extends\<close>, merging a
  child over its parent, and validation. The file system is a function from paths to contents
  and the YAML decoder (\<open>gopkg.in/yaml.v3\<close>, not part of the repository) is the field
  \<open>yaml_Unmarshal\<close> of the host environment; nothing is assumed of either.
\<close>

record HostEnv =
  os_ReadFile :: "string \<Rightarrow> string res"
  os_Getenv :: "string \<Rightarrow> string"
  os_IsNotExist :: "string \<Rightarrow> bool"
  yaml_Unmarshal :: "string \<Rightarrow> Blueprint res"

abbreviation (input) expectedAPIVersion :: string where "expectedAPIVersion \<equiv> ''smx/v1alpha1''"
abbreviation (input) expectedKind :: string where "expectedKind \<equiv> ''Blueprint''"

definition maxExtendsDepth :: nat where
  "maxExtendsDepth = 5"

definition validatePath :: "string \<Rightarrow> goerr option" where
  "validatePath p =
     (if Contains (Clean p) ''..'' then Some (Errorf ''path traversal not allowed: %s'' [AStr p])
      else None)"

definition Parse :: "HostEnv \<Rightarrow> string \<Rightarrow> Blueprint res" where
  "Parse env data = (case yaml_Unmarshal env data of
     Inl e \<Rightarrow> Inl (Errorf ''parse blueprint YAML: %w'' [AErr e]) | Inr bp \<Rightarrow> Inr bp)"

definition merge_resources :: "Resources \<Rightarrow> Resources \<Rightarrow> Resources" where
  "merge_resources p c =
     \<lparr>res_CPU = (if res_CPU c \<noteq> '''' then res_CPU c else res_CPU p),
      res_Memory = (if res_Memory c \<noteq> '''' then res_Memory c else res_Memory p),
      res_Disk = (if res_Disk c \<noteq> '''' then res_Disk c else res_Disk p),
      res_GPU = (if res_GPU c \<noteq> None then res_GPU c else res_GPU p)\<rparr>"

definition mergeBlueprints :: "Blueprint \<Rightarrow> Blueprint \<Rightarrow> Blueprint" where
  "mergeBlueprints parent child =
     (let p = bp_Spec parent; c = bp_Spec child in
      \<lparr>bp_Type = bp_Type parent,
       bp_Metadata = bp_Metadata child,
       bp_Spec =
         \<lparr>bs_Extends = '''',
          bs_Base = (if bs_Base c \<noteq> '''' then bs_Base c else bs_Base p),
          bs_Runtime = (if bs_Runtime c \<noteq> '''' then bs_Runtime c else bs_Runtime p),
          bs_Resources = merge_resources (bs_Resources p) (bs_Resources c),
          bs_Env = (if bs_Env c \<noteq> [] then gm_range_into (bs_Env c) (bs_Env p) else bs_Env p),
          bs_Secrets = bs_Secrets p @ bs_Secrets c,
          bs_Setup = bs_Setup p @ bs_Setup c,
          bs_Toolchains = bs_Toolchains p @ bs_Toolchains c,
          bs_Workspace = (if ws_MountPath (bs_Workspace c) \<noteq> '''' then bs_Workspace c
                          else bs_Workspace p),
          bs_Network = (if net_Policy (bs_Network c) \<noteq> '''' \<or> net_Expose (bs_Network c) \<noteq> []
                        then bs_Network c else bs_Network p),
          bs_Devices = bs_Devices p @ bs_Devices c,
          bs_ReadinessProbe = (if bs_ReadinessProbe c \<noteq> None then bs_ReadinessProbe c
                               else bs_ReadinessProbe p)\<rparr>\<rparr>)"

text \<open>The path of the parent: relative to the directory of the child.\<close>

definition parent_path :: "Blueprint \<Rightarrow> string \<Rightarrow> string" where
  "parent_path child childPath =
     (let e = bs_Extends (bp_Spec child) in
      if IsAbs e then e else Join [Dir childPath, e])"

text \<open>The two functions call each other; \<open>depth\<close> grows at every file, up to \<open>maxExtendsDepth\<close>.\<close>

function parseFileWithDepth :: "HostEnv \<Rightarrow> string \<Rightarrow> nat \<Rightarrow> Blueprint res"
  and resolveExtends :: "HostEnv \<Rightarrow> Blueprint \<Rightarrow> string \<Rightarrow> nat \<Rightarrow> Blueprint res" where
  "parseFileWithDepth env path depth =
     (case validatePath path of Some e \<Rightarrow> Inl e | None \<Rightarrow>
      case os_ReadFile env path of Inl e \<Rightarrow> Inl (Errorf ''read blueprint file: %w'' [AErr e])
      | Inr data \<Rightarrow>
      case Parse env data of Inl e \<Rightarrow> Inl e
      | Inr bp \<Rightarrow>
        if bs_Extends (bp_Spec bp) \<noteq> '''' then resolveExtends env bp path depth else Inr bp)"
| "resolveExtends env child childPath depth =
     (if depth \<ge> maxExtendsDepth then
        Inl (Errorf ''extends depth exceeds maximum (%d): possible circular reference''
               [AInt (int maxExtendsDepth)])
      else
        case parseFileWithDepth env (parent_path child childPath) (depth + 1) of
          Inl e \<Rightarrow> Inl (Errorf ''resolve extends %q: %w'' [AStr (bs_Extends (bp_Spec child)), AErr e])
        | Inr parent \<Rightarrow> Inr (mergeBlueprints parent child))"
  by pat_completeness auto
termination
  by (relation "measure (\<lambda>x. case x of
        Inl (env, path, depth) \<Rightarrow> 2 * (Suc maxExtendsDepth - depth) + 1
      | Inr (env, child, path, depth) \<Rightarrow> 2 * (Suc maxExtendsDepth - depth))")
    (auto simp: maxExtendsDepth_def)

declare parseFileWithDepth.simps [simp del] resolveExtends.simps [simp del]

definition ParseFile :: "HostEnv \<Rightarrow> string \<Rightarrow> Blueprint res" where
  "ParseFile env path = parseFileWithDepth env path 0"

section \<open>Validation\<close>

definition err_if :: "bool \<Rightarrow> goerr \<Rightarrow> goerr list" where
  "err_if b e = (if b then [e] else [])"

fun device_errs :: "nat \<Rightarrow> DeviceMapping list \<Rightarrow> goerr list" where
  "device_errs i [] = []"
| "device_errs i (d # ds) =
     err_if (dm_HostPath d = '''') (Errorf ''spec.devices[%d].hostPath is required'' [AInt (int i)])
     @ device_errs (Suc i) ds"

definition probe_errs :: "ProbeConfig \<Rightarrow> goerr list" where
  "probe_errs p =
     (if pc_Type p = ''exec'' then
        err_if (pc_Command p = []) (Errorf ''spec.readinessProbe: exec probe requires a command'' [])
      else if pc_Type p = ''http'' then
        err_if (pc_Port p = 0) (Errorf ''spec.readinessProbe: http probe requires a port'' [])
      else if pc_Type p = ''tcp'' then
        err_if (pc_Port p = 0) (Errorf ''spec.readinessProbe: tcp probe requires a port'' [])
      else if pc_Type p = '''' then [Errorf ''spec.readinessProbe.type is required'' []]
      else [Errorf ''spec.readinessProbe.type must be exec, http, or tcp'' []])"

definition default_driver :: "GPUSpec \<Rightarrow> GPUSpec" where
  "default_driver g = (if gpu_Driver g = '''' then g\<lparr>gpu_Driver := ''nvidia''\<rparr> else g)"

text \<open>\<open>Validate\<close> collects the errors and fills in the GPU driver of the blueprint it is given.\<close>

definition Validate :: "Blueprint \<Rightarrow> goerr list \<times> Blueprint" where
  "Validate bp =
     (let s = bp_Spec bp; r = bs_Resources s in
      (err_if (tm_APIVersion (bp_Type bp) \<noteq> expectedAPIVersion)
         (Errorf ''apiVersion must be %q, got %q''
            [AStr expectedAPIVersion, AStr (tm_APIVersion (bp_Type bp))])
       @ err_if (tm_Kind (bp_Type bp) \<noteq> expectedKind)
         (Errorf ''kind must be %q, got %q'' [AStr expectedKind, AStr (tm_Kind (bp_Type bp))])
       @ err_if (om_Name (bp_Metadata bp) = '''') (Errorf ''metadata.name is required'' [])
       @ err_if (bs_Base s = '''') (Errorf ''spec.base is required'' [])
       @ err_if (bs_Runtime s = '''') (Errorf ''spec.runtime is required'' [])
       @ err_if (bs_Runtime s = ''firecracker'')
         (Errorf ''spec.runtime: firecracker is a stub and not yet implemented; use docker or gvisor'' [])
       @ (case res_GPU r of None \<Rightarrow> []
          | Some g \<Rightarrow> err_if (gpu_Count g \<le> 0)
              (Errorf ''spec.resources.gpu.count must be greater than 0'' []))
       @ device_errs 0 (bs_Devices s)
       @ (case bs_ReadinessProbe s of None \<Rightarrow> [] | Some p \<Rightarrow> probe_errs p),
       bp\<lparr>bp_Spec := s\<lparr>bs_Resources := r\<lparr>res_GPU := map_option default_driver (res_GPU r)\<rparr>\<rparr>\<rparr>))"

definition ValidateFile :: "HostEnv \<Rightarrow> string \<Rightarrow> Blueprint option \<times> goerr list" where
  "ValidateFile env path =
     (case validatePath path of Some e \<Rightarrow> (None, [e]) | None \<Rightarrow>
      case ParseFile env path of Inl e \<Rightarrow> (None, [e])
      | Inr bp \<Rightarrow> (case Validate bp of (errs, bp') \<Rightarrow> (Some bp', errs)))"

section \<open>Specifications\<close>

text \<open>What a valid blueprint is, as a predicate, with the parts the validation checks.\<close>

definition probe_valid :: "ProbeConfig \<Rightarrow> bool" where
  "probe_valid p \<longleftrightarrow>
     (pc_Type p = ''exec'' \<and> pc_Command p \<noteq> []) \<or>
     (pc_Type p \<in> {''http'', ''tcp''} \<and> pc_Port p \<noteq> 0)"

definition blueprint_valid :: "Blueprint \<Rightarrow> bool" where
  "blueprint_valid bp \<longleftrightarrow>
     tm_APIVersion (bp_Type bp) = expectedAPIVersion \<and> tm_Kind (bp_Type bp) = expectedKind \<and>
     om_Name (bp_Metadata bp) \<noteq> '''' \<and> bs_Base (bp_Spec bp) \<noteq> '''' \<and>
     bs_Runtime (bp_Spec bp) \<notin> {'''', ''firecracker''} \<and>
     (\<forall>g. res_GPU (bs_Resources (bp_Spec bp)) = Some g \<longrightarrow> gpu_Count g > 0) \<and>
     (\<forall>d \<in> set (bs_Devices (bp_Spec bp)). dm_HostPath d \<noteq> '''') \<and>
     (\<forall>p. bs_ReadinessProbe (bp_Spec bp) = Some p \<longrightarrow> probe_valid p)"

lemma err_if_Nil [simp]: "err_if b e = [] \<longleftrightarrow> \<not> b"
  by (simp add: err_if_def)

lemma device_errs_Nil: "device_errs i ds = [] \<longleftrightarrow> (\<forall>d \<in> set ds. dm_HostPath d \<noteq> '''')"
  by (induction i ds rule: device_errs.induct) auto

lemma probe_errs_Nil: "probe_errs p = [] \<longleftrightarrow> probe_valid p"
  by (auto simp: probe_errs_def probe_valid_def)

lemma Validate_iff: "fst (Validate bp) = [] \<longleftrightarrow> blueprint_valid bp"
  by (auto simp: Validate_def Let_def blueprint_valid_def device_errs_Nil probe_errs_Nil
      split: option.splits)

lemma default_driver_count [simp]: "gpu_Count (default_driver g) = gpu_Count g"
  by (simp add: default_driver_def)

lemma Validate_valid: "blueprint_valid (snd (Validate bp)) \<longleftrightarrow> blueprint_valid bp"
  by (cases "res_GPU (bs_Resources (bp_Spec bp))")
    (auto simp: Validate_def Let_def blueprint_valid_def)

text \<open>\<open>inherits env path chain\<close>: the files found from \<open>path\<close> along \<open>extends\<close>, child first; the last
  one extends nothing.\<close>

inductive inherits :: "HostEnv \<Rightarrow> string \<Rightarrow> Blueprint list \<Rightarrow> bool" for env where
  root: "validatePath path = None \<Longrightarrow> os_ReadFile env path = Inr data \<Longrightarrow>
    yaml_Unmarshal env data = Inr bp \<Longrightarrow> bs_Extends (bp_Spec bp) = '''' \<Longrightarrow> inherits env path [bp]"
| child: "validatePath path = None \<Longrightarrow> os_ReadFile env path = Inr data \<Longrightarrow>
    yaml_Unmarshal env data = Inr bp \<Longrightarrow> bs_Extends (bp_Spec bp) \<noteq> '''' \<Longrightarrow>
    inherits env (parent_path bp path) chain \<Longrightarrow> inherits env path (bp # chain)"

inductive_cases inheritsE: "inherits env path chain"
inductive_simps inherits_Cons: "inherits env path (bp # chain)"

fun merge_chain :: "Blueprint list \<Rightarrow> Blueprint" where
  "merge_chain [] = undefined"
| "merge_chain [bp] = bp"
| "merge_chain (bp # b # bs) = mergeBlueprints (merge_chain (b # bs)) bp"

lemma inherits_not_Nil [simp]: "\<not> inherits env path []"
  by (auto elim: inheritsE)

lemma parse_chain_sound:
  "parseFileWithDepth env path depth = Inr bp \<Longrightarrow> depth \<le> maxExtendsDepth \<Longrightarrow>
     \<exists>chain. inherits env path chain \<and> length chain + depth \<le> Suc maxExtendsDepth \<and>
       merge_chain chain = bp"
  "resolveExtends env child path depth = Inr bp \<Longrightarrow>
     \<exists>chain. inherits env (parent_path child path) chain \<and>
       length chain + depth \<le> maxExtendsDepth \<and> mergeBlueprints (merge_chain chain) child = bp"
proof (induction env path depth and env child path depth arbitrary: bp and bp
    rule: parseFileWithDepth_resolveExtends.induct)
  case (1 env path depth)
  then obtain data b where b: "validatePath path = None" "os_ReadFile env path = Inr data"
    "Parse env data = Inr b"
    and r: "if bs_Extends (bp_Spec b) = '''' then bp = b else resolveExtends env b path depth = Inr bp"
    by (auto simp: parseFileWithDepth.simps [of env path] split: option.splits sum.splits if_splits)
  have y: "yaml_Unmarshal env data = Inr b"
    using b(3) by (auto simp: Parse_def split: sum.splits)
  show ?case
  proof (cases "bs_Extends (bp_Spec b) = ''''")
    case True
    with b y r "1.prems" show ?thesis
      by (intro exI [of _ "[bp]"]) (auto intro: inherits.root)
  next
    case False
    with r 1(1) [OF b] obtain chain where c: "inherits env (parent_path b path) chain"
      "length chain + depth \<le> maxExtendsDepth" "mergeBlueprints (merge_chain chain) b = bp"
      by auto
    then have "merge_chain (b # chain) = bp" by (cases chain) auto
    with c False b y show ?thesis
      by (intro exI [of _ "b # chain"]) (auto intro: inherits.child)
  qed
next
  case (2 env child path depth)
  then obtain p where p: "\<not> depth \<ge> maxExtendsDepth"
    "parseFileWithDepth env (parent_path child path) (depth + 1) = Inr p"
    "bp = mergeBlueprints p child"
    by (auto simp: resolveExtends.simps [of env child] split: sum.splits if_splits)
  with 2(1) [OF p(1) p(2)] show ?case by auto
qed

lemma parse_chain_complete:
  "inherits env path chain \<Longrightarrow> length chain + depth \<le> Suc maxExtendsDepth \<Longrightarrow>
   parseFileWithDepth env path depth = Inr (merge_chain chain)"
proof (induction arbitrary: depth rule: inherits.induct)
  case (root path data bp)
  then show ?case by (simp add: parseFileWithDepth.simps Parse_def)
next
  case (child path data bp chain)
  then have "parseFileWithDepth env (parent_path bp path) (depth + 1) = Inr (merge_chain chain)"
    by (intro child.IH) simp
  moreover have "depth < maxExtendsDepth" "chain \<noteq> []"
    using child by (cases chain; auto)+
  ultimately show ?case using child
    by (cases chain) (simp_all add: parseFileWithDepth.simps [of env path] Parse_def resolveExtends.simps)
qed

lemma merged_no_extends:
  "inherits env path chain \<Longrightarrow> bs_Extends (bp_Spec (merge_chain chain)) = ''''"
  by (induction rule: inherits.induct) (auto simp: mergeBlueprints_def Let_def neq_Nil_conv elim: inheritsE)

lemma merge_env:
  "gm_wf (bs_Env (bp_Spec child)) \<Longrightarrow>
   map_of (bs_Env (bp_Spec (mergeBlueprints parent child))) =
   map_of (bs_Env (bp_Spec parent)) ++ map_of (bs_Env (bp_Spec child))"
  by (auto simp: mergeBlueprints_def Let_def gm_get_range_into)

text \<open>An accepted path stays below where it starts: cleaned, none of its elements is \<open>..\<close>.\<close>

lemma validatePath_confined:
  assumes "validatePath p = None"
  shows "''..'' \<notin> set (clean_elems (IsAbs p) (Split p slash))"
proof
  assume "''..'' \<in> set (clean_elems (IsAbs p) (Split p slash))"
  then obtain a b where "join_slash (clean_elems (IsAbs p) (Split p slash)) = a @ ''..'' @ b"
    and "clean_elems (IsAbs p) (Split p slash) \<noteq> []"
    using join_slash_contains by fastforce
  then have "Clean p = a @ ''..'' @ b \<or> Clean p = (slash # a) @ ''..'' @ b"
    by (cases "IsAbs p") (simp_all add: Clean_def)
  then have "Contains (Clean p) ''..''" unfolding Contains_iff by blast
  with assms show False by (simp add: validatePath_def)
qed

section \<open>Properties\<close>

definition base_file :: "string \<Rightarrow> Blueprint" where
  "base_file e =
     \<lparr>bp_Type = \<lparr>tm_APIVersion = ''smx/v1alpha1'', tm_Kind = ''Blueprint''\<rparr>,
      bp_Metadata = \<lparr>om_Name = ''base'', om_Version = '''', om_Labels = [], om_CreatedAt = 0, om_UpdatedAt = 0\<rparr>,
      bp_Spec = \<lparr>bs_Extends = e, bs_Base = ''alpine'', bs_Runtime = ''docker'', bs_Resources = zero_resources,
        bs_Env = [(''A'', ''1'')], bs_Secrets = [], bs_Setup = [], bs_Toolchains = [], bs_Workspace = zero_workspace,
        bs_Network = \<lparr>net_Expose = [], net_Policy = '''', net_AllowDNS = False\<rparr>, bs_Devices = [],
        bs_ReadinessProbe = None\<rparr>\<rparr>"

text \<open>Files \<open>base.yaml\<close> (extends nothing), \<open>dev.yaml\<close> (extends it) and \<open>loop.yaml\<close> (extends itself).\<close>

definition sample_files :: HostEnv where
  "sample_files = \<lparr>os_ReadFile = Inr, os_Getenv = (\<lambda>v. ''''), os_IsNotExist = (\<lambda>p. False),
     yaml_Unmarshal = (\<lambda>data. if data = ''base.yaml'' then Inr (base_file '''')
       else if data = ''dev.yaml'' then Inr (base_file ''base.yaml'')
       else if data = ''loop.yaml'' then Inr (base_file ''loop.yaml'') else Inl (ExtErr ''bad yaml''))\<rparr>"

text \<open>C9. Reading a blueprint file succeeds exactly when following \<open>extends\<close> from it ends after at most
  six files, each with an accepted path, readable and parseable; the result is those files merged, every
  child over its parent.\<close>

theorem ParseFile_iff_chain:
  "ParseFile env path = Inr bp \<longleftrightarrow>
   (\<exists>chain. inherits env path chain \<and> length chain \<le> Suc maxExtendsDepth \<and> merge_chain chain = bp)"
  using parse_chain_sound(1) [of env path 0 bp] parse_chain_complete [of env path _ 0]
  by (auto simp: ParseFile_def)

text \<open>A blueprint that was read extends nothing any more.\<close>

theorem ParseFile_flat: 
  assumes "ParseFile env path = Inr bp"
  shows "bs_Extends (bp_Spec bp) = ''''"
  using parse_chain_sound(1) [of env path 0 bp] merged_no_extends assms by (auto simp: ParseFile_def)

theorem ParseFile_flat_witness:
  "\<exists>bp. ParseFile sample_files ''dev.yaml'' = Inr bp \<and> bs_Extends (bp_Spec bp) = ''''"
proof -
  have "is_ok (ParseFile sample_files ''dev.yaml'')" by code_simp
  then obtain bp where "ParseFile sample_files ''dev.yaml'' = Inr bp" by (auto simp: is_ok_iff)
  with ParseFile_flat [OF this] show ?thesis by blast
qed

text \<open>A file whose parent is itself has no chain.\<close>

lemma no_loop: "inherits env path chain \<Longrightarrow> os_ReadFile env path = Inr data \<Longrightarrow> yaml_Unmarshal env data = Inr bp \<Longrightarrow>
  bs_Extends (bp_Spec bp) \<noteq> '''' \<Longrightarrow> parent_path bp path \<noteq> path"
proof (induction "length chain" arbitrary: chain)
  case (Suc n)
  show ?case
  proof
    assume loop: "parent_path bp path = path"
    from Suc.prems(1) show False
    proof (cases rule: inherits.cases)
      case (child data' bp' chain')
      with Suc loop show False by auto
    qed (use Suc in auto)
  qed
qed simp

text \<open>A file that extends itself is rejected: the depth bound ends the recursion and the
  result is an error.\<close>

theorem self_extending_rejected:
  assumes "os_ReadFile env path = Inr data" and "yaml_Unmarshal env data = Inr bp"
    and "bs_Extends (bp_Spec bp) \<noteq> ''''" and "parent_path bp path = path"
  shows "\<not> is_ok (ParseFile env path)"
  using parse_chain_sound(1) [of env path 0] no_loop assms by (auto simp: ParseFile_def is_ok_iff)

theorem self_extending_rejected_witness: "\<not> is_ok (ParseFile sample_files ''loop.yaml'')"
proof (rule self_extending_rejected)
  show "os_ReadFile sample_files ''loop.yaml'' = Inr ''loop.yaml''"
    "yaml_Unmarshal sample_files ''loop.yaml'' = Inr (base_file ''loop.yaml'')"
    by (simp_all add: sample_files_def)
  show "bs_Extends (bp_Spec (base_file ''loop.yaml'')) \<noteq> ''''" by (simp add: base_file_def)
  show "parent_path (base_file ''loop.yaml'') ''loop.yaml'' = ''loop.yaml''" by code_simp
qed

text \<open>\<open>Validate\<close> returns no error exactly for the valid blueprints: version and kind as expected,
  a name, a base image, a runtime other than the Firecracker stub, a positive number of GPUs, a host path for every
  device and a probe whose type has what it needs.\<close>

theorem Validate_accepts_iff:
  "fst (Validate bp) = [] \<longleftrightarrow> blueprint_valid bp"
  by (rule Validate_iff)

text \<open>Path confinement: when a blueprint file is read, its cleaned path has no element \<open>..\<close>, so
  it does not lead above where it starts.\<close>

theorem accepted_path_confined:
  assumes "is_ok (ParseFile env path)"
  shows "''..'' \<notin> set (clean_elems (IsAbs path) (Split path slash))"
proof (rule validatePath_confined)
  show "validatePath path = None"
    using assms by (auto simp: ParseFile_def parseFileWithDepth.simps [of env path] split: option.splits)
qed

theorem accepted_path_confined_witness:
  "''..'' \<notin> set (clean_elems (IsAbs ''dev.yaml'') (Split ''dev.yaml'' slash))"
  by (rule accepted_path_confined [of sample_files]) code_simp

text \<open>The environment of a merged blueprint is that of the parent overridden by that of the
  child.\<close>

theorem merge_child_wins:
  assumes "gm_wf (bs_Env (bp_Spec child))"
  shows "map_of (bs_Env (bp_Spec (mergeBlueprints parent child))) =
    map_of (bs_Env (bp_Spec parent)) ++ map_of (bs_Env (bp_Spec child))"
  by (rule merge_env [OF assms])

theorem merge_child_wins_witness:
  "map_of (bs_Env (bp_Spec (mergeBlueprints (base_file '''') (base_file ''base.yaml'')))) ''A'' = Some ''1''"
  using merge_child_wins [of "base_file ''base.yaml''" "base_file ''''"] by (simp add: base_file_def)

end
