(* ===== verification/GoFloat.thy ===== *)
theory GoFloat
  imports GoStrings Complex_Main
begin

text \<open>
  Go's numbers. \<open>int64\<close> arithmetic is on \<open>int\<close> with the wrap-around written out
  (\<open>wrap64\<close>). A \<open>float64\<close> is a rational, an infinity or NaN; every operation rounds its exact
  result to the nearest binary64 value, ties to even (\<open>rnd\<close>). The two zeros are one value: the
  program never divides by a zero it has not tested. Conversion of a float outside the range of
  \<open>int64\<close> is implementation-defined in Go; the value here is that of the amd64 compiler.
  \<open>ParseFloat\<close> accepts decimal notation, infinities and NaN (not hexadecimal floats, nor
  underscores between digits).
\<close>

section \<open>64-bit integers\<close>

definition wrap64 :: "int \<Rightarrow> int" where
  "wrap64 x = (x + 2 ^ 63) mod 2 ^ 64 - 2 ^ 63"

definition in_int64 :: "int \<Rightarrow> bool" where
  "in_int64 x \<longleftrightarrow> - (2 ^ 63) \<le> x \<and> x < 2 ^ 63"

lemma wrap64_in_range: "in_int64 (wrap64 x)"
  by (simp add: wrap64_def in_int64_def)

lemma wrap64_id: "in_int64 x \<Longrightarrow> wrap64 x = x"
  by (simp add: wrap64_def in_int64_def)

lemma wrap64_overflow:
  assumes "2 ^ 63 \<le> x" and "x < 2 ^ 64"
  shows "wrap64 x = x - 2 ^ 64"
proof -
  have "(x + 2 ^ 63) mod 2 ^ 64 = (x + 2 ^ 63 - 2 ^ 64) mod 2 ^ 64"
    by (metis mod_add_self2 diff_add_cancel)
  also have "\<dots> = x + 2 ^ 63 - 2 ^ 64"
    using assms by (intro mod_pos_pos_trivial) auto
  finally show ?thesis by (simp add: wrap64_def)
qed

text \<open>\<open>strconv.ParseInt(s, 10, 64)\<close> and the digits it reads.\<close>

definition is_digit :: "char \<Rightarrow> bool" where
  "is_digit c \<longleftrightarrow> 48 \<le> (of_char c :: nat) \<and> (of_char c :: nat) \<le> 57"

definition digit_val :: "char \<Rightarrow> nat" where
  "digit_val c = of_char c - 48"

definition digits_val :: "string \<Rightarrow> nat" where
  "digits_val s = foldl (\<lambda>a c. a * 10 + digit_val c) 0 s"

fun split_sign :: "string \<Rightarrow> bool \<times> string" where
  "split_sign [] = (False, [])"
| "split_sign (c # cs) =
     (if c = CHR ''-'' then (True, cs) else if c = CHR ''+'' then (False, cs) else (False, c # cs))"

definition ParseInt :: "string \<Rightarrow> int option" where
  "ParseInt s =
     (let (neg, ds) = split_sign s;
          v = (if neg then - int (digits_val ds) else int (digits_val ds)) in
      if ds \<noteq> [] \<and> list_all is_digit ds \<and> in_int64 v then Some v else None)"

text \<open>The value \<open>ParseInt\<close> and \<open>Atoi\<close> return next to an error: 0 for a syntax error, the nearest bound for
  a range error.\<close>

definition ParseInt_val :: "string \<Rightarrow> int" where
  "ParseInt_val s =
     (let (neg, ds) = split_sign s in
      case ParseInt s of
        Some v \<Rightarrow> v
      | None \<Rightarrow> if ds \<noteq> [] \<and> list_all is_digit ds then (if neg then - (2 ^ 63) else 2 ^ 63 - 1) else 0)"

section \<open>float64\<close>

datatype f64 = NaN | PInf | NInf | Fin rat

fun bitlen :: "nat \<Rightarrow> nat" where
  "bitlen n = (if n = 0 then 0 else Suc (bitlen (n div 2)))"

declare bitlen.simps [simp del]

lemma bitlen_bounds: "0 < n \<Longrightarrow> 2 ^ (bitlen n - 1) \<le> n \<and> n < 2 ^ bitlen n"
proof (induction n rule: bitlen.induct)
  case (1 n)
  show ?case
  proof (cases "n div 2 = 0")
    case True
    with 1 have "n = 1" by auto
    then show ?thesis by (simp add: bitlen.simps)
  next
    case False
    with 1 have IH: "2 ^ (bitlen (n div 2) - 1) \<le> n div 2" "n div 2 < 2 ^ bitlen (n div 2)"
      by auto
    have b: "bitlen n = Suc (bitlen (n div 2))" and "0 < bitlen (n div 2)"
      using "1.prems" False by (simp_all add: bitlen.simps [of n] bitlen.simps [of "n div 2"])
    then have "(2::nat) ^ bitlen (n div 2) = 2 * 2 ^ (bitlen (n div 2) - 1)"
      by (simp flip: power_Suc)
    with IH b show ?thesis by simp linarith
  qed
qed

text \<open>The exponent of the binade of a positive rational: \<open>2 powi ilog2 a \<le> a < 2 powi (ilog2 a + 1)\<close>.\<close>

definition ilog2 :: "rat \<Rightarrow> int" where
  "ilog2 a =
     (let (n, d) = quotient_of a; e = int (bitlen (nat n)) - int (bitlen (nat d)) in
      if 2 powi e \<le> a then e else e - 1)"

definition round_even :: "rat \<Rightarrow> int" where
  "round_even x =
     (let f = \<lfloor>x\<rfloor>; r = x - of_int f in
      if r < 1 / 2 then f else if r > 1 / 2 then f + 1 else if even f then f else f + 1)"

definition ulp_exp :: "rat \<Rightarrow> int" where
  "ulp_exp a = max (ilog2 a - 52) (- 1074)"

definition rnd_pos :: "rat \<Rightarrow> rat" where
  "rnd_pos a = of_int (round_even (a / 2 powi ulp_exp a)) * 2 powi ulp_exp a"

definition rnd :: "rat \<Rightarrow> f64" where
  "rnd q =
     (if q = 0 then Fin 0
      else let v = rnd_pos \<bar>q\<bar> in
        if v \<ge> 2 ^ 1024 then (if q > 0 then PInf else NInf)
        else Fin (if q > 0 then v else - v))"

fun flt :: "f64 \<Rightarrow> f64 \<Rightarrow> bool" where
  "flt (Fin a) (Fin b) = (a < b)"
| "flt NInf (Fin b) = True"
| "flt NInf PInf = True"
| "flt (Fin a) PInf = True"
| "flt _ _ = False"

fun fneg :: "f64 \<Rightarrow> f64" where
  "fneg NaN = NaN"
| "fneg PInf = NInf"
| "fneg NInf = PInf"
| "fneg (Fin a) = Fin (- a)"

fun fadd :: "f64 \<Rightarrow> f64 \<Rightarrow> f64" where
  "fadd (Fin a) (Fin b) = rnd (a + b)"
| "fadd NaN _ = NaN"
| "fadd _ NaN = NaN"
| "fadd PInf NInf = NaN"
| "fadd NInf PInf = NaN"
| "fadd PInf _ = PInf"
| "fadd _ PInf = PInf"
| "fadd NInf _ = NInf"
| "fadd _ NInf = NInf"

fun fsign :: "f64 \<Rightarrow> int" where
  "fsign NaN = 0"
| "fsign PInf = 1"
| "fsign NInf = - 1"
| "fsign (Fin a) = (if a > 0 then 1 else if a < 0 then - 1 else 0)"

definition finf :: "int \<Rightarrow> f64" where
  "finf s = (if s > 0 then PInf else if s < 0 then NInf else NaN)"

fun fmul :: "f64 \<Rightarrow> f64 \<Rightarrow> f64" where
  "fmul (Fin a) (Fin b) = rnd (a * b)"
| "fmul NaN _ = NaN"
| "fmul _ NaN = NaN"
| "fmul x y = finf (fsign x * fsign y)"

fun fdiv :: "f64 \<Rightarrow> f64 \<Rightarrow> f64" where
  "fdiv NaN _ = NaN"
| "fdiv _ NaN = NaN"
| "fdiv (Fin a) (Fin b) = (if b = 0 then finf (fsign (Fin a)) else rnd (a / b))"
| "fdiv (Fin a) _ = Fin 0"
| "fdiv x (Fin b) = finf (fsign x * (if b < 0 then - 1 else 1))"
| "fdiv _ _ = NaN"

text \<open>\<open>float64(i)\<close>, \<open>int64(f)\<close> (towards zero) and \<open>math.Round\<close> (half away from zero).\<close>

definition f64_of_int :: "int \<Rightarrow> f64" where
  "f64_of_int i = rnd (of_int i)"

fun int64_of_f64 :: "f64 \<Rightarrow> int" where
  "int64_of_f64 (Fin q) =
     (let t = (if q \<ge> 0 then \<lfloor>q\<rfloor> else - \<lfloor>- q\<rfloor>) in if in_int64 t then t else - (2 ^ 63))"
| "int64_of_f64 _ = - (2 ^ 63)"

fun math_Round :: "f64 \<Rightarrow> f64" where
  "math_Round (Fin q) = Fin (of_int (if q \<ge> 0 then \<lfloor>q + 1 / 2\<rfloor> else - \<lfloor>- q + 1 / 2\<rfloor>))"
| "math_Round x = x"

lemma int64_of_f64_range: "in_int64 (int64_of_f64 x)"
  by (cases x) (auto simp: Let_def in_int64_def)

section \<open>Reading a float\<close>

definition to_lower :: "char \<Rightarrow> char" where
  "to_lower c = (let n = of_char c :: nat in if 65 \<le> n \<and> n \<le> 90 then char_of (n + 32) else c)"

text \<open>Mantissa digits, optional fraction, optional exponent; at least one mantissa digit.\<close>

definition parse_exponent :: "string \<Rightarrow> int option" where
  "parse_exponent s =
     (let (neg, ds) = split_sign s in
      if ds \<noteq> [] \<and> list_all is_digit ds
      then Some (if neg then - int (digits_val ds) else int (digits_val ds)) else None)"

definition pow10 :: "int \<Rightarrow> rat" where
  "pow10 e = (if e \<ge> 0 then 10 ^ nat e else 1 / 10 ^ nat (- e))"

definition parse_decimal :: "string \<Rightarrow> rat option" where
  "parse_decimal s =
     (let ip = takeWhile is_digit s; r = dropWhile is_digit s;
          fp = (case r of c # cs \<Rightarrow> if c = CHR ''.'' then takeWhile is_digit cs else [] | [] \<Rightarrow> []);
          r2 = (case r of c # cs \<Rightarrow> if c = CHR ''.'' then dropWhile is_digit cs else r | [] \<Rightarrow> []);
          e = (case r2 of [] \<Rightarrow> Some 0
               | c # cs \<Rightarrow> if to_lower c = CHR ''e'' then parse_exponent cs else None) in
      if ip @ fp = [] then None
      else case e of None \<Rightarrow> None
        | Some x \<Rightarrow> Some (of_nat (digits_val (ip @ fp)) * pow10 (x - int (length fp))))"

text \<open>A value that rounds to an infinity is the range error of \<open>strconv\<close>: no value is returned.\<close>

definition ParseFloat :: "string \<Rightarrow> f64 option" where
  "ParseFloat s =
     (let (neg, b) = split_sign s; l = map to_lower b in
      if map to_lower s = ''nan'' then Some NaN
      else if l = ''inf'' \<or> l = ''infinity'' then Some (if neg then NInf else PInf)
      else case parse_decimal b of
          None \<Rightarrow> None
        | Some q \<Rightarrow> (case rnd (if neg then - q else q) of Fin v \<Rightarrow> Some (Fin v) | _ \<Rightarrow> None))"

section \<open>Integers below \<open>2 ^ 53\<close> are exact\<close>

lemma ilog2_nat: "0 < n \<Longrightarrow> ilog2 (of_nat n) = int (bitlen n) - 1"
proof -
  assume n: "0 < n"
  have q: "quotient_of (of_nat n) = (int n, 1)"
    by simp
  have b1: "bitlen (Suc 0) = 1" by (simp add: bitlen.simps)
  have "0 < bitlen n" using n by (simp add: bitlen.simps)
  then have "int (bitlen n) - 1 = int (bitlen n - 1)" by simp
  then have "(2::rat) powi (int (bitlen n) - 1) = of_nat (2 ^ (bitlen n - 1))"
    by (simp only: power_int_of_nat of_nat_power of_nat_numeral)
  also have "\<dots> \<le> of_nat n" using bitlen_bounds [OF n] by (simp only: of_nat_le_iff)
  finally show ?thesis by (simp add: ilog2_def q b1)
qed

lemma bitlen_le: "0 < n \<Longrightarrow> n < 2 ^ k \<Longrightarrow> bitlen n \<le> k"
proof (rule ccontr)
  assume n: "0 < n" "n < 2 ^ k" and "\<not> bitlen n \<le> k"
  then have "(2::nat) ^ k \<le> 2 ^ (bitlen n - 1)" by (intro power_increasing) auto
  with bitlen_bounds [OF n(1)] n(2) show False by linarith
qed

lemma round_even_int [simp]: "round_even (of_int i) = i"
  by (simp add: round_even_def)

lemma rnd_pos_nat:
  assumes "0 < n" and "n < 2 ^ 53"
  shows "rnd_pos (of_nat n) = of_nat n"
proof -
  define u where "u = ulp_exp (of_nat n)"
  have "bitlen n \<le> 53" using assms by (rule bitlen_le)
  then have u: "u = - int (53 - bitlen n)"
    using ilog2_nat [OF assms(1)] by (simp add: u_def ulp_exp_def)
  have "(of_nat n :: rat) / 2 powi u = of_int (int n * 2 ^ (53 - bitlen n))"
    by (simp add: u power_int_minus power_int_of_nat field_simps)
  then have "rnd_pos (of_nat n) = of_int (int n * 2 ^ (53 - bitlen n)) * 2 powi u"
    unfolding rnd_pos_def u_def [symmetric] by (simp only: round_even_int)
  also have "\<dots> = of_nat n"
    by (simp add: u power_int_minus power_int_of_nat)
  finally show ?thesis .
qed

lemma rnd_int:
  assumes "\<bar>i\<bar> < 2 ^ 53"
  shows "rnd (of_int i) = Fin (of_int i)"
proof (cases "i = 0")
  case False
  have "rnd_pos \<bar>of_int i\<bar> = \<bar>of_int i\<bar>"
    using rnd_pos_nat [of "nat \<bar>i\<bar>"] False assms by simp
  moreover have "(\<bar>of_int i\<bar> :: rat) < 2 ^ 1024"
  proof -
    have "(\<bar>of_int i\<bar> :: rat) < 2 ^ 53" using assms by (metis of_int_abs of_int_less_iff of_int_numeral of_int_power)
    also have "\<dots> \<le> 2 ^ 1024" by (rule power_increasing) auto
    finally show ?thesis .
  qed
  ultimately show ?thesis using False by (auto simp: rnd_def Let_def)
qed (simp add: rnd_def)

lemma f64_of_small_int: "\<bar>i\<bar> < 2 ^ 53 \<Longrightarrow> f64_of_int i = Fin (of_int i)"
  by (simp add: f64_of_int_def rnd_int)

section \<open>Reading what was printed\<close>

lemma digit_char_val: "n < 10 \<Longrightarrow> digit_val (digit_char n) = n \<and> is_digit (digit_char n)"
  by (simp add: digit_val_def digit_char_def is_digit_def)

lemma nat_digits_props: "digits_val (nat_digits n) = n \<and> list_all is_digit (nat_digits n) \<and> nat_digits n \<noteq> []"
proof (induction n rule: nat_digits.induct)
  case (1 n)
  show ?case
  proof (cases "n < 10")
    case True
    then show ?thesis by (simp add: nat_digits.simps [of n] digits_val_def digit_char_val)
  next
    case False
    with 1 show ?thesis
      by (simp add: nat_digits.simps [of n] digits_val_def digit_char_val)
  qed
qed

lemmas nat_digits_val [simp] = nat_digits_props [THEN conjunct1]
lemmas nat_digits_digits [simp] = nat_digits_props [THEN conjunct2, THEN conjunct1]
lemmas nat_digits_not_Nil [simp] = nat_digits_props [THEN conjunct2, THEN conjunct2]

lemma split_sign_digit: "is_digit c \<Longrightarrow> split_sign (c # cs) = (False, c # cs)"
  by (auto simp: is_digit_def)

lemma nat_digits_Cons: obtains c cs where "nat_digits n = c # cs" and "is_digit c"
  using nat_digits_props [of n] by (cases "nat_digits n") auto

lemma split_sign_nat_digits [simp]: "split_sign (nat_digits n @ s) = (False, nat_digits n @ s)"
  by (rule nat_digits_Cons [of n]) (simp del: split_sign.simps add: split_sign_digit)

lemma itoa_nat: "itoa (int n) = nat_digits n"
  by (simp add: itoa_def)

lemma ParseInt_itoa: "in_int64 i \<Longrightarrow> ParseInt (itoa i) = Some i"
  using split_sign_nat_digits [of "nat i" "[]"]
  by (auto simp: ParseInt_def itoa_def)

lemma takeWhile_digits [simp]:
  "takeWhile is_digit (nat_digits n @ s) = nat_digits n @ takeWhile is_digit s"
  "dropWhile is_digit (nat_digits n @ s) = dropWhile is_digit s"
  "takeWhile is_digit (nat_digits n) = nat_digits n"
  "dropWhile is_digit (nat_digits n) = []"
  using nat_digits_digits [of n]
  by (simp_all add: list_all_iff takeWhile_append2 dropWhile_append2 takeWhile_eq_all_conv dropWhile_eq_Nil_conv)

lemma ParseFloat_nat_digits:
  assumes "n < 2 ^ 53"
  shows "ParseFloat (nat_digits n) = Some (Fin (of_nat n))"
proof -
  obtain c cs where c: "nat_digits n = c # cs" "is_digit c" by (rule nat_digits_Cons)
  have nc: "to_lower c = c" "c \<noteq> CHR ''n''" "c \<noteq> CHR ''i''"
    using c(2) by (auto simp: is_digit_def to_lower_def Let_def)
  have d: "parse_decimal (nat_digits n) = Some (of_nat n)"
    by (simp add: parse_decimal_def pow10_def)
  have r: "rnd (of_nat n) = Fin (of_nat n)"
    using rnd_int [of "int n"] assms by simp
  show ?thesis
    using split_sign_nat_digits [of n "[]"] c(1) nc d r by (simp add: ParseFloat_def)
qed

end
