(* ===== verification/RuntimeApi.thy ===== *)
theory RuntimeApi
  imports ApiTypes GoFloat
begin

text \<open>
  \<open>internal/runtime/runtime.go\<close>: the configuration structs and the \<open>Runtime\<close> interface. An
  interface value is a record of its methods; each method takes and returns the state \<open>'w\<close> of
  the backend. What the controller and its clients rely on of a backend, how each method
  changes the set of containers that exist, is the locale \<open>container_runtime\<close>; the Firecracker
  stub is shown to meet it here, the Docker backend in its own theory.
\<close>

record NetworkConfig =
  nc_Mode :: string
  nc_DNS :: "string list"

record GPUConfig =
  gc_Count :: int
  gc_Driver :: string

record RtDevice =
  rd_HostPath :: string
  rd_ContainerPath :: string
  rd_Permissions :: string

record Mount =
  mt_Source :: string
  mt_Target :: string
  mt_ReadOnly :: bool

record PortMapping =
  pm_HostPort :: int
  pm_ContainerPort :: int
  pm_Protocol :: string

record CreateConfig =
  cc_Name :: string
  cc_Image :: string
  cc_CPU :: string
  cc_Memory :: string
  cc_Disk :: string
  cc_GPU :: "GPUConfig option"
  cc_Devices :: "RtDevice list"
  cc_Mounts :: "Mount list"
  cc_Ports :: "PortMapping list"
  cc_Env :: "string gomap"
  cc_Cmd :: "string list"
  cc_Labels :: "string gomap"
  cc_Network :: NetworkConfig

text \<open>The two writers are there or nil; what the command writes to them comes back in the result.\<close>

record ExecConfig =
  ec_Cmd :: "string list"
  ec_Env :: "string gomap"
  ec_Dir :: string
  ec_Stdin :: "string option"
  ec_Stdout :: bool
  ec_Stderr :: bool
  ec_TTY :: bool

record ExecResult =
  er_ExitCode :: int
  er_Stdout :: string
  er_Stderr :: string

record Info =
  in_ID :: string
  in_Name :: string
  in_Image :: string
  in_State :: string
  in_IP :: string
  in_Ports :: "PortMapping list"
  in_Labels :: "string gomap"

record SnapshotInfo =
  si_ID :: string
  si_Tag :: string
  si_SandboxID :: string
  si_CreatedAt :: gtime
  si_Size :: int

record ResourceUpdate =
  ru_CPUQuota :: int
  ru_Memory :: int

record Stats =
  sx_CPUUsage :: f64
  sx_MemoryUsage :: nat
  sx_MemoryLimit :: nat
  sx_DiskUsage :: nat

record HostResources =
  hr_TotalCPUs :: int
  hr_TotalMemory :: int
  hr_UsedMemory :: int
  hr_AvailMemory :: int
  hr_CPUPercent :: f64
  hr_LoadAvg1 :: f64

text \<open>\<open>SandboxPriority\<close> is an \<open>int\<close> type with four declared constants.\<close>

abbreviation (input) PriorityLow :: int where "PriorityLow \<equiv> 0"
abbreviation (input) PriorityNormal :: int where "PriorityNormal \<equiv> 1"
abbreviation (input) PriorityHigh :: int where "PriorityHigh \<equiv> 2"
abbreviation (input) PriorityCritical :: int where "PriorityCritical \<equiv> 3"

text \<open>
  \<open>Exec\<close> returns its result next to the error. \<open>rt_InspectImage\<close> is the optional
  \<open>ImageChecker\<close> interface: \<open>None\<close> when the type assertion fails.
\<close>

record 'w Runtime =
  rt_Name :: string
  rt_Create :: "CreateConfig \<Rightarrow> (string res, 'w) act"
  rt_Start :: "string \<Rightarrow> (unit res, 'w) act"
  rt_Stop :: "string \<Rightarrow> (unit res, 'w) act"
  rt_Destroy :: "string \<Rightarrow> (unit res, 'w) act"
  rt_Exec :: "string \<Rightarrow> ExecConfig \<Rightarrow> (ExecResult \<times> goerr option, 'w) act"
  rt_Info :: "string \<Rightarrow> (Info res, 'w) act"
  rt_Stats :: "string \<Rightarrow> (Stats res, 'w) act"
  rt_List :: "(Info list res, 'w) act"
  rt_Snapshot :: "string \<Rightarrow> string \<Rightarrow> (string res, 'w) act"
  rt_Restore :: "string \<Rightarrow> CreateConfig \<Rightarrow> (string res, 'w) act"
  rt_ListSnapshots :: "string \<Rightarrow> (SnapshotInfo list res, 'w) act"
  rt_DeleteSnapshot :: "string \<Rightarrow> (unit res, 'w) act"
  rt_CreateNetwork :: "string \<Rightarrow> bool \<Rightarrow> (unit res, 'w) act"
  rt_DeleteNetwork :: "string \<Rightarrow> (unit res, 'w) act"
  rt_CopyToContainer :: "string \<Rightarrow> string \<Rightarrow> string \<Rightarrow> (unit res, 'w) act"
  rt_CopyFromContainer :: "string \<Rightarrow> string \<Rightarrow> (string res, 'w) act"
  rt_Pause :: "string \<Rightarrow> (unit res, 'w) act"
  rt_Unpause :: "string \<Rightarrow> (unit res, 'w) act"
  rt_UpdateResources :: "string \<Rightarrow> ResourceUpdate \<Rightarrow> (unit res, 'w) act"
  rt_HostInfo :: "(HostResources res, 'w) act"
  rt_InspectImage :: "(string \<Rightarrow> (string res, 'w) act) option"

section \<open>What clients rely on of a backend\<close>

text \<open>
  \<open>live w\<close> are the IDs of the containers that exist, \<open>used w\<close> those ever handed out: an ID is never
  given twice. An operation that neither creates nor removes a container keeps both.
\<close>

locale container_runtime =
  fixes rt :: "'w Runtime"
    and live :: "'w \<Rightarrow> string set"
    and used :: "'w \<Rightarrow> string set"
  assumes live_used: "live w \<subseteq> used w"
    and create_fresh: "rt_Create rt cfg w = (Inr i, w') \<Longrightarrow>
      i \<notin> used w \<and> i \<noteq> '''' \<and> live w' = insert i (live w) \<and> used w' = insert i (used w)"
    and create_fail: "rt_Create rt cfg w = (Inl e, w') \<Longrightarrow> live w' = live w \<and> used w' = used w"
    and restore_fresh: "rt_Restore rt snap cfg w = (Inr i, w') \<Longrightarrow>
      i \<notin> used w \<and> i \<noteq> '''' \<and> live w' = insert i (live w) \<and> used w' = insert i (used w)"
    and restore_fail: "rt_Restore rt snap cfg w = (Inl e, w') \<Longrightarrow> live w' = live w \<and> used w' = used w"
    and destroy_gone: "rt_Destroy rt i w = (Inr (), w') \<Longrightarrow> live w' = live w - {i} \<and> used w' = used w"
    and destroy_fail: "rt_Destroy rt i w = (Inl e, w') \<Longrightarrow> live w' = live w \<and> used w' = used w"
    and start_frame: "keeps (\<lambda>w. (live w, used w)) (rt_Start rt i)"
    and stop_frame: "keeps (\<lambda>w. (live w, used w)) (rt_Stop rt i)"
    and exec_frame: "keeps (\<lambda>w. (live w, used w)) (rt_Exec rt i ec)"
    and info_frame: "keeps (\<lambda>w. (live w, used w)) (rt_Info rt i)"
    and list_containers_frame: "keeps (\<lambda>w. (live w, used w)) (rt_List rt)"
    and create_net_frame: "keeps (\<lambda>w. (live w, used w)) (rt_CreateNetwork rt n b)"
    and delete_net_frame: "keeps (\<lambda>w. (live w, used w)) (rt_DeleteNetwork rt n)"
    and inspect_frame: "rt_InspectImage rt = Some f \<Longrightarrow> keeps (\<lambda>w. (live w, used w)) (f t)"
begin

lemma live_start: "rt_Start rt i w = (r, w') \<Longrightarrow> live w' = live w \<and> used w' = used w"
  using keepsD [OF start_frame] by fastforce

lemma live_stop: "rt_Stop rt i w = (r, w') \<Longrightarrow> live w' = live w \<and> used w' = used w"
  using keepsD [OF stop_frame] by fastforce

lemma live_info: "rt_Info rt i w = (r, w') \<Longrightarrow> live w' = live w \<and> used w' = used w"
  using keepsD [OF info_frame] by fastforce

lemma live_exec: "rt_Exec rt i ec w = (r, w') \<Longrightarrow> live w' = live w \<and> used w' = used w"
  using keepsD [OF exec_frame] by fastforce

lemma live_list: "rt_List rt w = (r, w') \<Longrightarrow> live w' = live w \<and> used w' = used w"
  using keepsD [OF list_containers_frame] by fastforce

lemma live_inspect:
  "rt_InspectImage rt = Some f \<Longrightarrow> f t w = (r, w') \<Longrightarrow> live w' = live w \<and> used w' = used w"
  using keepsD [OF inspect_frame] by fastforce

lemma live_networks:
  "rt_CreateNetwork rt n b w = (r, w') \<Longrightarrow> live w' = live w \<and> used w' = used w"
  "rt_DeleteNetwork rt n w = (r', w') \<Longrightarrow> live w' = live w \<and> used w' = used w"
  using keepsD [OF create_net_frame] keepsD [OF delete_net_frame] by fastforce+

end

section \<open>The Firecracker stub\<close>

text \<open>\<open>internal/runtime/firecracker\<close>: every operation returns \<open>ErrNotImplemented\<close>.\<close>

definition ErrNotImplemented :: goerr where
  "ErrNotImplemented =
     Errorf ''firecracker runtime is not implemented: requires Linux with KVM support'' []"

definition firecracker :: "unit Runtime" where
  "firecracker =
     \<lparr>rt_Name = ''firecracker'',
      rt_Create = (\<lambda>_ w. (Inl ErrNotImplemented, w)),
      rt_Start = (\<lambda>_ w. (Inl ErrNotImplemented, w)),
      rt_Stop = (\<lambda>_ w. (Inl ErrNotImplemented, w)),
      rt_Destroy = (\<lambda>_ w. (Inl ErrNotImplemented, w)),
      rt_Exec = (\<lambda>_ _ w. ((\<lparr>er_ExitCode = - 1, er_Stdout = '''', er_Stderr = ''''\<rparr>,
        Some ErrNotImplemented), w)),
      rt_Info = (\<lambda>_ w. (Inl ErrNotImplemented, w)),
      rt_Stats = (\<lambda>_ w. (Inl ErrNotImplemented, w)),
      rt_List = (\<lambda>w. (Inl ErrNotImplemented, w)),
      rt_Snapshot = (\<lambda>_ _ w. (Inl ErrNotImplemented, w)),
      rt_Restore = (\<lambda>_ _ w. (Inl ErrNotImplemented, w)),
      rt_ListSnapshots = (\<lambda>_ w. (Inl ErrNotImplemented, w)),
      rt_DeleteSnapshot = (\<lambda>_ w. (Inl ErrNotImplemented, w)),
      rt_CreateNetwork = (\<lambda>_ _ w. (Inl ErrNotImplemented, w)),
      rt_DeleteNetwork = (\<lambda>_ w. (Inl ErrNotImplemented, w)),
      rt_CopyToContainer = (\<lambda>_ _ _ w. (Inl ErrNotImplemented, w)),
      rt_CopyFromContainer = (\<lambda>_ _ w. (Inl ErrNotImplemented, w)),
      rt_Pause = (\<lambda>_ w. (Inl ErrNotImplemented, w)),
      rt_Unpause = (\<lambda>_ w. (Inl ErrNotImplemented, w)),
      rt_UpdateResources = (\<lambda>_ _ w. (Inl ErrNotImplemented, w)),
      rt_HostInfo = (\<lambda>w. (Inl ErrNotImplemented, w)),
      rt_InspectImage = None\<rparr>"

interpretation fc: container_runtime firecracker "\<lambda>_. {}" "\<lambda>_. {}"
  by unfold_locales (auto simp: firecracker_def keeps_def)

end
