(* ===== verification/Probe.thy ===== *)
theory Probe
  imports RuntimeApi
begin

text \<open>
  \<open>internal/probe/probe.go\<close>: the readiness probe of a sandbox. The request context, HTTP and TCP
  are operations on the state \<open>'w\<close> the container backend works on: \<open>ctx_Err\<close> is the
  non-blocking look at \<open>ctx.Done()\<close>, \<open>ctx_Wait d\<close> the blocking \<open>select\<close> between
  \<open>ctx.Done()\<close> and \<open>time.After(d)\<close>. The polling loop always ends: every failure brings it nearer
  to the failure threshold, every success to the success threshold.
\<close>

record 'w NetEnv =
  ctx_Err :: "(goerr option, 'w) act"
  ctx_Wait :: "int \<Rightarrow> (goerr option, 'w) act"
  http_NewRequest :: "string \<Rightarrow> goerr option"
  http_Do :: "int \<Rightarrow> string \<Rightarrow> (int res, 'w) act"
  tcp_Dial :: "int \<Rightarrow> string \<Rightarrow> (unit res, 'w) act"

abbreviation second :: int where "second \<equiv> 1000000000"

definition execProbe :: "'w Runtime \<Rightarrow> string \<Rightarrow> string list \<Rightarrow> (goerr option, 'w) act" where
  "execProbe rt runtimeID command w =
     (if command = [] then (Some (Errorf ''exec probe requires a command'' []), w)
      else case rt_Exec rt runtimeID
          \<lparr>ec_Cmd = command, ec_Env = [], ec_Dir = '''', ec_Stdin = None, ec_Stdout = True,
           ec_Stderr = False, ec_TTY = False\<rparr> w of
        ((result, err), w') \<Rightarrow>
          (case err of
             Some e \<Rightarrow> (Some (Errorf ''exec probe error: %w'' [AErr e]), w')
           | None \<Rightarrow>
               let output = TrimSpace (er_Stdout result) in
               if er_ExitCode result \<noteq> 0 then
                 (Some (Errorf ''exec probe exit code %d (output: %s)''
                    [AInt (er_ExitCode result), AStr output]), w')
               else (None, w')))"

definition httpProbe :: "'w NetEnv \<Rightarrow> int \<Rightarrow> string \<Rightarrow> int \<Rightarrow> string \<Rightarrow> (goerr option, 'w) act" where
  "httpProbe net timeout ip port path w =
     (if port = 0 then (Some (Errorf ''http probe requires a port'' []), w)
      else let path = (if path = '''' then ''/'' else path);
               url = ''http://'' @ ip @ '':'' @ itoa port @ path in
        case http_NewRequest net url of
          Some e \<Rightarrow> (Some (Errorf ''create http request: %w'' [AErr e]), w)
        | None \<Rightarrow> (case http_Do net timeout url w of
            (Inl e, w') \<Rightarrow> (Some (Errorf ''http probe error: %w'' [AErr e]), w')
          | (Inr code, w') \<Rightarrow>
              if code < 200 \<or> code \<ge> 400 then
                (Some (Errorf ''http probe returned status %d'' [AInt code]), w')
              else (None, w')))"

definition tcpProbe :: "'w NetEnv \<Rightarrow> int \<Rightarrow> string \<Rightarrow> int \<Rightarrow> (goerr option, 'w) act" where
  "tcpProbe net timeout ip port w =
     (if port = 0 then (Some (Errorf ''tcp probe requires a port'' []), w)
      else case tcp_Dial net timeout (ip @ '':'' @ itoa port) w of
        (Inl e, w') \<Rightarrow> (Some (Errorf ''tcp probe error: %w'' [AErr e]), w')
      | (Inr _, w') \<Rightarrow> (None, w'))"

definition runOnce ::
  "'w Runtime \<Rightarrow> 'w NetEnv \<Rightarrow> string \<Rightarrow> string \<Rightarrow> ProbeConfig \<Rightarrow> int \<Rightarrow> (goerr option, 'w) act" where
  "runOnce rt net runtimeID ip cfg timeout w =
     (if pc_Type cfg = ''exec'' then execProbe rt runtimeID (pc_Command cfg) w
      else if pc_Type cfg = ''http'' then httpProbe net timeout ip (pc_Port cfg) (pc_Path cfg) w
      else if pc_Type cfg = ''tcp'' then tcpProbe net timeout ip (pc_Port cfg) w
      else (Some (Errorf ''unknown probe type: %q'' [AStr (pc_Type cfg)]), w))"

text \<open>The loop, over the single probe \<open>once\<close>, the look at the context and the wait between probes.\<close>

function probe_loop ::
  "(goerr option, 'w) act \<Rightarrow> (goerr option, 'w) act \<Rightarrow> (goerr option, 'w) act \<Rightarrow> int \<Rightarrow> int \<Rightarrow>
   int \<Rightarrow> int \<Rightarrow> (goerr option, 'w) act" where
  "probe_loop check once wait st ft c f w =
     (case check w of (Some e, w1) \<Rightarrow> (Some e, w1) | (None, w1) \<Rightarrow>
      case once w1 of
        (None, w2) \<Rightarrow>
          if c + 1 \<ge> st then (None, w2)
          else (case wait w2 of (Some e, w3) \<Rightarrow> (Some e, w3)
            | (None, w3) \<Rightarrow> probe_loop check once wait st ft (c + 1) f w3)
      | (Some err, w2) \<Rightarrow>
          if f + 1 \<ge> ft then
            (Some (Errorf ''probe failed after %d attempts: %w'' [AInt (f + 1), AErr err]), w2)
          else (case wait w2 of (Some e, w3) \<Rightarrow> (Some e, w3)
            | (None, w3) \<Rightarrow> probe_loop check once wait st ft 0 (f + 1) w3))"
  by pat_completeness auto
termination
  by (relation "measures [\<lambda>(check, once, wait, st, ft, c, f, w). nat (ft - f),
      \<lambda>(check, once, wait, st, ft, c, f, w). nat (st - c)]") auto

declare probe_loop.simps [simp del]

definition or_default :: "int \<Rightarrow> int \<Rightarrow> int" where
  "or_default d x = (if x \<le> 0 then d else x)"

definition WaitForReady ::
  "'w Runtime \<Rightarrow> 'w NetEnv \<Rightarrow> string \<Rightarrow> string \<Rightarrow> ProbeConfig option \<Rightarrow> (goerr option, 'w) act" where
  "WaitForReady rt net runtimeID ip cfg0 w =
     (case cfg0 of None \<Rightarrow> (None, w) | Some cfg \<Rightarrow>
      let initialDelay = wrap64 (pc_InitialDelaySec cfg * second);
          period = wrap64 (pc_PeriodSec cfg * second);
          period = (if period = 0 then 2 * second else period);
          timeout = wrap64 (pc_TimeoutSec cfg * second);
          timeout = (if timeout = 0 then 5 * second else timeout);
          successThreshold = or_default 1 (pc_SuccessThreshold cfg);
          failureThreshold = or_default 30 (pc_FailureThreshold cfg) in
      case (if initialDelay > 0 then ctx_Wait net initialDelay w else (None, w)) of
        (Some e, w1) \<Rightarrow> (Some e, w1)
      | (None, w1) \<Rightarrow>
          probe_loop (ctx_Err net) (runOnce rt net runtimeID ip cfg timeout) (ctx_Wait net period)
            successThreshold failureThreshold 0 0 w1)"

section \<open>What a verdict means\<close>

text \<open>\<open>attempts check once wait w outs w'\<close>: from \<open>w\<close> to \<open>w'\<close> the probe was run once per element of
  \<open>outs\<close>, with these outcomes, the context being alive in between.\<close>

inductive attempts ::
  "(goerr option, 'w) act \<Rightarrow> (goerr option, 'w) act \<Rightarrow> (goerr option, 'w) act \<Rightarrow>
   'w \<Rightarrow> bool list \<Rightarrow> 'w \<Rightarrow> bool" for check once wait where
  last_one: "check w = (None, w1) \<Longrightarrow> once w1 = (r, w2) \<Longrightarrow>
    attempts check once wait w [r = None] w2"
| one_more: "check w = (None, w1) \<Longrightarrow> once w1 = (r, w2) \<Longrightarrow> wait w2 = (None, w3) \<Longrightarrow>
    attempts check once wait w3 outs w' \<Longrightarrow> attempts check once wait w ((r = None) # outs) w'"

lemma attempts_last:
  assumes "check w = (None, w1)" and "once w1 = (r, w2)" and "b \<longleftrightarrow> r = None"
  shows "attempts check once wait w [b] w2"
  using assms by (auto intro: attempts.last_one)

lemma attempts_more:
  assumes "check w = (None, w1)" and "once w1 = (r, w2)" and "wait w2 = (None, w3)"
    and "attempts check once wait w3 outs w'" and "b \<longleftrightarrow> r = None"
  shows "attempts check once wait w (b # outs) w'"
  using assms by (auto intro: attempts.one_more)

definition trailing_successes :: "nat \<Rightarrow> bool list \<Rightarrow> bool" where
  "trailing_successes n outs \<longleftrightarrow> (\<exists>pre. outs = pre @ replicate n True)"

lemma trailing_Cons: "trailing_successes n outs \<Longrightarrow> trailing_successes n (b # outs)"
  unfolding trailing_successes_def by (metis append_Cons)

lemma replicate_shift: "replicate (Suc n) x @ xs = replicate n x @ x # xs"
  by (metis append_Cons append_Nil append_assoc replicate_Suc replicate_app_Cons_same)

lemma probe_loop_ready_cases:
  assumes "probe_loop check once wait st ft c f w = (None, w')"
  obtains (passed) w1 where "check w = (None, w1)" "once w1 = (None, w')" "c + 1 \<ge> st"
  | (again) w1 w2 w3 where "check w = (None, w1)" "once w1 = (None, w2)" "\<not> c + 1 \<ge> st"
      "wait w2 = (None, w3)" "probe_loop check once wait st ft (c + 1) f w3 = (None, w')"
  | (retry) w1 err w2 w3 where "check w = (None, w1)" "once w1 = (Some err, w2)" "\<not> f + 1 \<ge> ft"
      "wait w2 = (None, w3)" "probe_loop check once wait st ft 0 (f + 1) w3 = (None, w')"
  using assms
  by (subst (asm) probe_loop.simps) (auto split: prod.splits option.splits if_splits)

lemma probe_budget:
  assumes "0 \<le> c" "c < st" "f < ft"
  shows "1 + c \<le> (ft - f) * (st :: int)"
proof -
  have "1 * st \<le> (ft - f) * st" using assms by (intro mult_right_mono) auto
  with assms show ?thesis by linarith
qed

lemma probe_loop_ready:
  assumes "probe_loop check once wait st ft c f w = (None, w')" and "0 \<le> c" "c < st" "f < ft"
  shows "\<exists>outs. attempts check once wait w outs w' \<and>
     trailing_successes (nat st) (replicate (nat c) True @ outs) \<and>
     f + int (count_list outs False) < ft \<and> int (length outs) + c \<le> (ft - f) * st"
  using assms
proof (induction check once wait st ft c f w rule: probe_loop.induct)
  case (1 check once wait st ft c f w)
  from "1.prems"(1) show ?case
  proof (cases rule: probe_loop_ready_cases)
    case (passed w1)
    have "attempts check once wait w [True] w'"
      by (rule attempts_last) (use passed in auto)
    moreover have "trailing_successes (nat st) (replicate (nat c) True @ [True])"
      using "1.prems" passed(3) unfolding trailing_successes_def
      by (intro exI [of _ "[]"]) (simp add: replicate_append_same Suc_nat_eq_nat_zadd1 flip: replicate_Suc)
    moreover have "1 + c \<le> (ft - f) * st"
      using "1.prems" by (intro probe_budget)
    ultimately show ?thesis using "1.prems" passed(3) by (intro exI [of _ "[True]"]) auto
  next
    case (again w1 w2 w3)
    have "\<exists>outs. attempts check once wait w3 outs w' \<and>
        trailing_successes (nat st) (replicate (nat (c + 1)) True @ outs) \<and>
        f + int (count_list outs False) < ft \<and> int (length outs) + (c + 1) \<le> (ft - f) * st"
      using again "1.prems" by (intro "1.IH"(1)) auto
    then obtain outs where o: "attempts check once wait w3 outs w'"
      "trailing_successes (nat st) (replicate (Suc (nat c)) True @ outs)"
      "f + int (count_list outs False) < ft" "int (length outs) + (c + 1) \<le> (ft - f) * st"
      using "1.prems"(2) by (auto simp: Suc_nat_eq_nat_zadd1 add.commute)
    have "attempts check once wait w (True # outs) w'"
      by (rule attempts_more) (use again o(1) in auto)
    with o show ?thesis
      by (intro exI [of _ "True # outs"]) (auto simp: replicate_app_Cons_same)
  next
    case (retry w1 err w2 w3)
    have "\<exists>outs. attempts check once wait w3 outs w' \<and>
        trailing_successes (nat st) (replicate (nat 0) True @ outs) \<and>
        f + 1 + int (count_list outs False) < ft \<and> int (length outs) + 0 \<le> (ft - (f + 1)) * st"
      using retry "1.prems" by (intro "1.IH"(2)) auto
    then obtain outs where o: "attempts check once wait w3 outs w'" "trailing_successes (nat st) outs"
      "f + 1 + int (count_list outs False) < ft" "int (length outs) \<le> (ft - (f + 1)) * st"
      by auto
    have "attempts check once wait w (False # outs) w'"
      by (rule attempts_more) (use retry o(1) in auto)
    moreover have "trailing_successes (nat st) (replicate (nat c) True @ False # outs)"
      using o(2) by (auto simp: trailing_successes_def)
    moreover have "int (length (False # outs)) + c \<le> (ft - f) * st"
      using o(4) "1.prems"(3) by (simp add: algebra_simps)
    ultimately show ?thesis using o(3) by (intro exI [of _ "False # outs"]) auto
  qed
qed

section \<open>Probing does not touch the containers\<close>

lemma probe_loop_cases:
  assumes "probe_loop check once wait st ft c f w = (r, w')"
  obtains (ctx) e where "check w = (Some e, w')" "r = Some e"
  | (stop) w1 x where "check w = (None, w1)" "once w1 = (x, w')"
  | (wait) w1 x w2 e where "check w = (None, w1)" "once w1 = (x, w2)" "wait w2 = (Some e, w')"
  | (pass) w1 w2 w3 where "check w = (None, w1)" "once w1 = (None, w2)" "\<not> c + 1 \<ge> st"
      "wait w2 = (None, w3)" "probe_loop check once wait st ft (c + 1) f w3 = (r, w')"
  | (fail) w1 e w2 w3 where "check w = (None, w1)" "once w1 = (Some e, w2)" "\<not> f + 1 \<ge> ft"
      "wait w2 = (None, w3)" "probe_loop check once wait st ft 0 (f + 1) w3 = (r, w')"
  using assms
  by (subst (asm) probe_loop.simps) (auto split: prod.splits option.splits if_splits)

lemma probe_loop_keeps:
  assumes "probe_loop check once wait st ft c f w = (r, w')"
    and "keeps g check" "keeps g once" "keeps g wait"
  shows "g w' = g w"
  using assms(1)
proof (induction "(nat (ft - f), nat (st - c))" arbitrary: c f w
    rule: wf_induct_rule [OF wf_lex_prod [OF wf_less wf_less]])
  case (1 c f w)
  note k = keepsD [OF assms(2)] keepsD [OF assms(3)] keepsD [OF assms(4)]
  from 1(2) show ?case
  proof (cases rule: probe_loop_cases)
    case (pass w1 w2 w3)
    then have "g w' = g w3" by (intro 1(1)) auto
    with pass show ?thesis by (metis k)
  next
    case (fail w1 e w2 w3)
    then have "g w' = g w3" by (intro 1(1)) auto
    with fail show ?thesis by (metis k)
  qed (metis k)+
qed

locale probe_env = container_runtime rt live used
  for rt :: "'w Runtime" and live :: "'w \<Rightarrow> string set" and used :: "'w \<Rightarrow> string set" +
  fixes net :: "'w NetEnv"
  assumes ctx_Err_frame: "keeps (\<lambda>w. (live w, used w)) (ctx_Err net)"
    and ctx_Wait_frame: "keeps (\<lambda>w. (live w, used w)) (ctx_Wait net d)"
    and http_Do_frame: "keeps (\<lambda>w. (live w, used w)) (http_Do net d url)"
    and tcp_Dial_frame: "keeps (\<lambda>w. (live w, used w)) (tcp_Dial net d addr)"
begin

lemma runOnce_keeps: "keeps (\<lambda>w. (live w, used w)) (runOnce rt net i ip cfg t)"
proof -
  let ?k = "\<lambda>w. (live w, used w)"
  have "keeps ?k (execProbe rt i cmd)" for cmd
    by (auto simp: keeps_def execProbe_def Let_def dest!: live_exec split: prod.splits option.splits)
  moreover have "keeps ?k (httpProbe net t ip port path)" for port path
    by (auto simp: keeps_def httpProbe_def Let_def dest!: keepsD [OF http_Do_frame]
        split: prod.splits option.splits sum.splits)
  moreover have "keeps ?k (tcpProbe net t ip port)" for port
    by (auto simp: keeps_def tcpProbe_def dest!: keepsD [OF tcp_Dial_frame]
        split: prod.splits sum.splits)
  ultimately show ?thesis by (simp add: keeps_def runOnce_def)
qed

lemma probe_loop_live:
  "probe_loop (ctx_Err net) (runOnce rt net i ip cfg t) (ctx_Wait net d) st ft c f w = (r, w') \<Longrightarrow>
   (live w', used w') = (live w, used w)"
  by (erule probe_loop_keeps [where g = "\<lambda>w. (live w, used w)"])
    (rule ctx_Err_frame runOnce_keeps ctx_Wait_frame)+

lemma WaitForReady_live:
  "WaitForReady rt net i ip cfg w = (r, w') \<Longrightarrow> live w' = live w \<and> used w' = used w"
  by (auto simp: WaitForReady_def Let_def split: prod.splits option.splits if_splits
      dest!: keepsD [OF ctx_Wait_frame] probe_loop_live)

end

section \<open>Properties\<close>

lemma probe_loop_healthy:
  assumes "\<And>w. fst (check w) = None" "\<And>w. fst (once w) = None" "\<And>w. fst (wait w) = None"
  shows "fst (probe_loop check once wait st ft c f w) = None"
proof (induction "nat (st - c)" arbitrary: c w rule: less_induct)
  case less
  obtain w1 w2 w3 where w: "check w = (None, w1)" "once w1 = (None, w2)" "wait w2 = (None, w3)"
    using assms by (metis prod.collapse)
  show ?case
  proof (cases "c + 1 \<ge> st")
    case True
    with w show ?thesis by (simp add: probe_loop.simps)
  next
    case False
    then have "fst (probe_loop check once wait st ft (c + 1) f w3) = None" by (intro less) simp
    with w False show ?thesis by (simp add: probe_loop.simps [of check once wait st ft c])
  qed
qed

definition sample_net :: "unit NetEnv" where
  "sample_net = \<lparr>ctx_Err = Pair None, ctx_Wait = (\<lambda>d. Pair None), http_NewRequest = (\<lambda>u. None),
     http_Do = (\<lambda>d u. Pair (Inr 204)), tcp_Dial = (\<lambda>d a. Pair (Inr ()))\<rparr>"

definition sample_probe :: ProbeConfig where
  "sample_probe = \<lparr>pc_Type = ''http'', pc_Command = [], pc_Path = ''/health'', pc_Port = 80, pc_InitialDelaySec = 1,
     pc_PeriodSec = 0, pc_TimeoutSec = 0, pc_SuccessThreshold = 2, pc_FailureThreshold = 3\<rparr>"

text \<open>C11. When \<open>WaitForReady\<close> reports a sandbox ready, the probe was run a number of times with the context
  alive in between, the last \<open>successThreshold\<close> runs all succeeded, fewer than \<open>failureThreshold\<close> failed, and there
  were at most the product of the two.\<close>

theorem ready_verdict_sound:
  assumes "WaitForReady rt net i ip (Some cfg) w = (None, w')"
  shows "\<exists>w1 outs. attempts (ctx_Err net)
      (runOnce rt net i ip cfg (if wrap64 (pc_TimeoutSec cfg * second) = 0 then 5 * second else wrap64 (pc_TimeoutSec cfg * second)))
      (ctx_Wait net (if wrap64 (pc_PeriodSec cfg * second) = 0 then 2 * second else wrap64 (pc_PeriodSec cfg * second)))
      w1 outs w' \<and>
    trailing_successes (nat (or_default 1 (pc_SuccessThreshold cfg))) outs \<and>
    int (count_list outs False) < or_default 30 (pc_FailureThreshold cfg) \<and>
    int (length outs) \<le> or_default 30 (pc_FailureThreshold cfg) * or_default 1 (pc_SuccessThreshold cfg)"
proof -
  obtain w1 where w1: "probe_loop (ctx_Err net)
      (runOnce rt net i ip cfg (if wrap64 (pc_TimeoutSec cfg * second) = 0 then 5 * second else wrap64 (pc_TimeoutSec cfg * second)))
      (ctx_Wait net (if wrap64 (pc_PeriodSec cfg * second) = 0 then 2 * second else wrap64 (pc_PeriodSec cfg * second)))
      (or_default 1 (pc_SuccessThreshold cfg)) (or_default 30 (pc_FailureThreshold cfg)) 0 0 w1 = (None, w')"
    using assms by (auto simp: WaitForReady_def Let_def split: prod.splits option.splits if_splits)
  from probe_loop_ready [OF this] show ?thesis by (auto simp: or_default_def)
qed

theorem ready_verdict_sound_witness:
  "\<exists>w1 outs. attempts (ctx_Err sample_net) (runOnce firecracker sample_net ''c0'' ''10.0.0.2'' sample_probe (5 * second))
     (ctx_Wait sample_net (2 * second)) w1 outs () \<and> trailing_successes 2 outs \<and> length outs \<le> 6"
proof -
  have "WaitForReady firecracker sample_net ''c0'' ''10.0.0.2'' (Some sample_probe) () = (None, ())"
    by code_simp
  from ready_verdict_sound [OF this] show ?thesis
    by (auto simp: sample_probe_def or_default_def wrap64_def)
qed

text \<open>C13. A sandbox whose probe always succeeds is reported ready, whatever the thresholds, the delay and the
  period, as long as the context is not cancelled.\<close>

theorem healthy_becomes_ready:
  assumes "\<And>w. fst (ctx_Err net w) = None" and "\<And>d w. fst (ctx_Wait net d w) = None"
    and "\<And>t w. fst (runOnce rt net i ip cfg t w) = None"
  shows "fst (WaitForReady rt net i ip (Some cfg) w) = None"
  using assms by (auto simp: WaitForReady_def Let_def probe_loop_healthy split: prod.splits option.splits)
     (metis fst_conv option.distinct(1))+

theorem healthy_becomes_ready_witness:
  "fst (WaitForReady firecracker sample_net ''c0'' ''10.0.0.2'' (Some sample_probe) ()) = None"
  by (rule healthy_becomes_ready)
    (simp_all add: sample_net_def sample_probe_def runOnce_def httpProbe_def Let_def)

end
