(* ===== verification/Quota.thy ===== *)
theory Quota
  imports Stores GoFloat
begin

text \<open>
  \<open>internal/quota/manager.go\<close>: reading resource quantities, summing a team's usage and checking a
  request against the team's limits. Integer sums wrap at 64 bits and CPU sums are
  \<open>float64\<close>, as in the code. A limit that is zero or empty, and a resource that is not requested, is
  not checked.
\<close>

record QuotaRequest =
  qr_Sandboxes :: int
  qr_CPU :: string
  qr_Memory :: string
  qr_Disk :: string
  qr_GPUs :: int
  qr_Matrices :: int
  qr_Sessions :: int

definition QuotaExceededError :: "string \<Rightarrow> string \<Rightarrow> string \<Rightarrow> string \<Rightarrow> string \<Rightarrow> goerr" where
  "QuotaExceededError team resource limit current request =
     Errorf ''quota exceeded for team %q: %s limit is %s (current: %s, requested: %s)''
       [AStr team, AStr resource, AStr limit, AStr current, AStr request]"

record ResourceUsage =
  us_Sandboxes :: int
  us_CPUCores :: f64
  us_MemoryBytes :: int
  us_DiskBytes :: int
  us_GPUs :: int
  us_Matrices :: int
  us_Sessions :: int

record 'p Manager =
  qm_teams :: "'p TeamStore"
  qm_sandboxes :: "'p Store"
  qm_matrices :: "'p MatrixStore option"
  qm_sessions :: "'p SessionStore option"

section \<open>Quantities\<close>

text \<open>The error of \<open>strconv.ParseFloat\<close>: a syntax error or a range error.\<close>

definition float_err :: "string \<Rightarrow> goerr" where
  "float_err s = Errorf ''strconv.ParseFloat: parsing %q: %s''
     [AStr s, AStr (if parse_decimal (snd (split_sign s)) = None then ''invalid syntax''
                    else ''value out of range'')]"

text \<open>The suffix of a quantity (upper case): how many bytes it counts and how long it is.\<close>

definition suffix_multiplier :: "string \<Rightarrow> (int \<times> nat) option" where
  "suffix_multiplier upper =
     (if HasSuffix upper ''TI'' then Some (2 ^ 40, 2)
      else if HasSuffix upper ''GI'' then Some (2 ^ 30, 2)
      else if HasSuffix upper ''MI'' then Some (2 ^ 20, 2)
      else if HasSuffix upper ''KI'' then Some (2 ^ 10, 2)
      else if HasSuffix upper ''T'' then Some (1000000000000, 1)
      else if HasSuffix upper ''G'' then Some (1000000000, 1)
      else if HasSuffix upper ''M'' then Some (1000000, 1)
      else if HasSuffix upper ''K'' then Some (1000, 1)
      else None)"

definition ParseResourceValue :: "string \<Rightarrow> int res" where
  "ParseResourceValue val0 =
     (let val = TrimSpace val0 in
      if val = '''' then Inl (Errorf ''empty resource value'' [])
      else case ParseInt val of Some n \<Rightarrow> Inr n | None \<Rightarrow>
      case ParseFloat val of Some n \<Rightarrow> Inr (int64_of_f64 n) | None \<Rightarrow>
      case suffix_multiplier (ToUpper val) of
        None \<Rightarrow> Inl (Errorf ''unrecognized resource value %q'' [AStr val])
      | Some (multiplier, k) \<Rightarrow>
          let numStr = take (length val - k) val in
          (case ParseFloat numStr of
             None \<Rightarrow> Inl (Errorf ''parse numeric part of %q: %w'' [AStr val, AErr (float_err numStr)])
           | Some n \<Rightarrow> Inr (int64_of_f64 (math_Round (fmul n (f64_of_int multiplier))))))"

definition parseCPU :: "string \<Rightarrow> f64 res" where
  "parseCPU val0 =
     (let val = TrimSpace val0 in
      if val = '''' then Inl (Errorf ''empty CPU value'' [])
      else case ParseFloat val of
        None \<Rightarrow> Inl (Errorf ''parse CPU value %q: %w'' [AStr val, AErr (float_err val)])
      | Some n \<Rightarrow> Inr n)"

text \<open>\<open>%.Nf\<close> and \<open>strconv.FormatFloat(x, 'f', N, 64)\<close>.\<close>

definition pad_left :: "nat \<Rightarrow> string \<Rightarrow> string" where
  "pad_left n s = replicate (n - length s) (CHR ''0'') @ s"

fun fmt_fixed :: "nat \<Rightarrow> f64 \<Rightarrow> string" where
  "fmt_fixed p NaN = ''NaN''"
| "fmt_fixed p PInf = ''+Inf''"
| "fmt_fixed p NInf = ''-Inf''"
| "fmt_fixed p (Fin q) =
     (let s = pad_left (Suc p) (nat_digits (nat (round_even (\<bar>q\<bar> * 10 ^ p)))) in
      (if q < 0 then ''-'' else '''') @ take (length s - p) s
        @ (if p = 0 then '''' else CHR ''.'' # drop (length s - p) s))"

definition formatBytes :: "int \<Rightarrow> string" where
  "formatBytes b =
     (if b \<ge> 1000000000 then fmt_fixed 1 (fdiv (f64_of_int b) (f64_of_int 1000000000)) @ ''G''
      else if b \<ge> 1000000 then fmt_fixed 1 (fdiv (f64_of_int b) (f64_of_int 1000000)) @ ''M''
      else if b \<ge> 1000 then fmt_fixed 1 (fdiv (f64_of_int b) (f64_of_int 1000)) @ ''K''
      else itoa b)"

section \<open>Usage\<close>

definition zero_usage :: ResourceUsage where
  "zero_usage = \<lparr>us_Sandboxes = 0, us_CPUCores = Fin 0, us_MemoryBytes = 0, us_DiskBytes = 0,
     us_GPUs = 0, us_Matrices = 0, us_Sessions = 0\<rparr>"

definition add_quantity :: "string \<Rightarrow> int \<Rightarrow> int" where
  "add_quantity s n =
     (if s \<noteq> '''' then (case ParseResourceValue s of Inr v \<Rightarrow> wrap64 (n + v) | Inl _ \<Rightarrow> n) else n)"

definition add_cpu :: "string \<Rightarrow> f64 \<Rightarrow> f64" where
  "add_cpu s x =
     (if s \<noteq> '''' then (case parseCPU s of Inr v \<Rightarrow> fadd x v | Inl _ \<Rightarrow> x) else x)"

definition add_sandbox :: "Sandbox \<Rightarrow> ResourceUsage \<Rightarrow> ResourceUsage" where
  "add_sandbox sb u =
     (let r = sp_Resources (sb_Spec sb) in
      u\<lparr>us_Sandboxes := wrap64 (us_Sandboxes u + 1),
        us_CPUCores := add_cpu (res_CPU r) (us_CPUCores u),
        us_MemoryBytes := add_quantity (res_Memory r) (us_MemoryBytes u),
        us_DiskBytes := add_quantity (res_Disk r) (us_DiskBytes u),
        us_GPUs := (case res_GPU r of None \<Rightarrow> us_GPUs u | Some g \<Rightarrow> wrap64 (us_GPUs u + gpu_Count g))\<rparr>)"

text \<open>The loop over the sandboxes: those of other teams are skipped.\<close>

fun add_sandboxes :: "string \<Rightarrow> Sandbox list \<Rightarrow> ResourceUsage \<Rightarrow> ResourceUsage" where
  "add_sandboxes team [] u = u"
| "add_sandboxes team (sb # sbs) u =
     add_sandboxes team sbs (if sp_Team (sb_Spec sb) \<noteq> team then u else add_sandbox sb u)"

fun count_wrap :: "('a \<Rightarrow> bool) \<Rightarrow> 'a list \<Rightarrow> int \<Rightarrow> int" where
  "count_wrap P [] n = n"
| "count_wrap P (x # xs) n = count_wrap P xs (if P x then wrap64 (n + 1) else n)"

definition GetUsage :: "'p Manager \<Rightarrow> string \<Rightarrow> (ResourceUsage res, 'p) act" where
  "GetUsage m team p =
     (case kv_List (qm_sandboxes m) p of
        (Inl e, p1) \<Rightarrow> (Inl (Errorf ''list sandboxes: %w'' [AErr e]), p1)
      | (Inr sbs, p1) \<Rightarrow>
        let u1 = add_sandboxes team sbs zero_usage in
        case (case qm_matrices m of None \<Rightarrow> (Inr [], p1) | Some ms \<Rightarrow> kv_List ms p1) of
          (Inl e, p2) \<Rightarrow> (Inl (Errorf ''list matrices: %w'' [AErr e]), p2)
        | (Inr mxs, p2) \<Rightarrow>
          let u2 = u1\<lparr>us_Matrices := count_wrap (\<lambda>mx. mx_Team mx = team) mxs 0\<rparr> in
          case (case qm_sessions m of None \<Rightarrow> (Inr [], p2) | Some ss \<Rightarrow> kv_List ss p2) of
            (Inl e, p3) \<Rightarrow> (Inl (Errorf ''list sessions: %w'' [AErr e]), p3)
          | (Inr ses, p3) \<Rightarrow>
            let teamSandboxes = map sandbox_key (filter (\<lambda>sb. sp_Team (sb_Spec sb) = team) sbs) in
            (Inr (u2\<lparr>us_Sessions := count_wrap
               (\<lambda>s. se_State s = SessActive \<and> se_Sandbox s \<in> set teamSandboxes) ses 0\<rparr>), p3))"

section \<open>Checking a request\<close>

text \<open>One check of \<open>CheckQuota\<close>: a count against a count limit, and a byte quantity against its limit.\<close>

definition check_count :: "string \<Rightarrow> string \<Rightarrow> int \<Rightarrow> int \<Rightarrow> int \<Rightarrow> goerr option" where
  "check_count team resource limit current request =
     (if limit > 0 \<and> request > 0 \<and> wrap64 (current + request) > limit
      then Some (QuotaExceededError team resource (itoa limit) (itoa current) (itoa request))
      else None)"

definition check_cpu :: "string \<Rightarrow> string \<Rightarrow> f64 \<Rightarrow> string \<Rightarrow> goerr option" where
  "check_cpu team limit current request =
     (if limit \<noteq> '''' \<and> request \<noteq> '''' then
        (case parseCPU limit of
           Inl e \<Rightarrow> Some (Errorf ''parse team max CPU %q: %w'' [AStr limit, AErr e])
         | Inr maxv \<Rightarrow> (case parseCPU request of
             Inl e \<Rightarrow> Some (Errorf ''parse requested CPU %q: %w'' [AStr request, AErr e])
           | Inr reqv \<Rightarrow>
               if flt maxv (fadd current reqv)
               then Some (QuotaExceededError team ''cpu'' limit (fmt_fixed 2 current) request)
               else None))
      else None)"

definition check_bytes :: "string \<Rightarrow> string \<Rightarrow> string \<Rightarrow> int \<Rightarrow> string \<Rightarrow> goerr option" where
  "check_bytes team resource limit current request =
     (if limit \<noteq> '''' \<and> request \<noteq> '''' then
        (case ParseResourceValue limit of
           Inl e \<Rightarrow> Some (Errorf (''parse team max '' @ resource @ '' %q: %w'') [AStr limit, AErr e])
         | Inr maxv \<Rightarrow> (case ParseResourceValue request of
             Inl e \<Rightarrow> Some (Errorf (''parse requested '' @ resource @ '' %q: %w'') [AStr request, AErr e])
           | Inr reqv \<Rightarrow>
               if wrap64 (current + reqv) > maxv
               then Some (QuotaExceededError team resource limit (formatBytes current) request)
               else None))
      else None)"

text \<open>The checks in the order of the code; the first that fails is returned.\<close>

definition check_limits :: "string \<Rightarrow> ResourceQuota \<Rightarrow> ResourceUsage \<Rightarrow> QuotaRequest \<Rightarrow> goerr option" where
  "check_limits team q u r =
     (case check_count team ''sandboxes'' (rq_MaxSandboxes q) (us_Sandboxes u) (qr_Sandboxes r) of
        Some e \<Rightarrow> Some e | None \<Rightarrow>
      case check_cpu team (rq_MaxCPU q) (us_CPUCores u) (qr_CPU r) of Some e \<Rightarrow> Some e | None \<Rightarrow>
      case check_bytes team ''memory'' (rq_MaxMemory q) (us_MemoryBytes u) (qr_Memory r) of
        Some e \<Rightarrow> Some e | None \<Rightarrow>
      case check_bytes team ''disk'' (rq_MaxDisk q) (us_DiskBytes u) (qr_Disk r) of
        Some e \<Rightarrow> Some e | None \<Rightarrow>
      case check_count team ''gpus'' (rq_MaxGPUs q) (us_GPUs u) (qr_GPUs r) of
        Some e \<Rightarrow> Some e | None \<Rightarrow>
      case check_count team ''matrices'' (rq_MaxMatrices q) (us_Matrices u) (qr_Matrices r) of
        Some e \<Rightarrow> Some e | None \<Rightarrow>
      check_count team ''sessions'' (rq_MaxSessions q) (us_Sessions u) (qr_Sessions r))"

definition CheckQuota :: "'p Manager \<Rightarrow> string \<Rightarrow> QuotaRequest \<Rightarrow> (unit res, 'p) act" where
  "CheckQuota m teamName request p =
     (case kv_Get (qm_teams m) teamName p of
        (Inl e, p1) \<Rightarrow> (Inl (Errorf ''get team %q: %w'' [AStr teamName, AErr e]), p1)
      | (Inr team, p1) \<Rightarrow>
        (case GetUsage m teamName p1 of
           (Inl e, p2) \<Rightarrow> (Inl (Errorf ''get usage for team %q: %w'' [AStr teamName, AErr e]), p2)
         | (Inr usage, p2) \<Rightarrow>
             (case check_limits teamName (t_Quota team) usage request of
                Some e \<Rightarrow> (Inl e, p2) | None \<Rightarrow> (Inr (), p2))))"

section \<open>What the sums are\<close>

lemma wrap64_add: "wrap64 (wrap64 a + b) = wrap64 (a + b)"
proof -
  have "(wrap64 a + b + 2 ^ 63) mod 2 ^ 64 = (a + b + 2 ^ 63) mod 2 ^ 64"
    unfolding wrap64_def by (simp add: mod_simps algebra_simps)
  then show ?thesis by (simp add: wrap64_def)
qed

lemma count_wrap_sum: "in_int64 n \<Longrightarrow>
  count_wrap P xs n = wrap64 (n + int (length (filter P xs)))"
proof (induction P xs n rule: count_wrap.induct)
  case (2 P x xs n)
  have "in_int64 (if P x then wrap64 (n + 1) else n)"
    using 2 by (simp add: wrap64_in_range)
  with 2 show ?case by (simp add: wrap64_add algebra_simps)
qed (simp add: wrap64_id)

lemma count_wrap_length:
  "int (length xs) < 2 ^ 63 \<Longrightarrow> count_wrap P xs 0 = int (length (filter P xs))"
proof -
  assume a: "int (length xs) < 2 ^ 63"
  have "int (length (filter P xs)) < 2 ^ 63"
    using a length_filter_le [of P xs] by linarith
  then have "in_int64 (int (length (filter P xs)))"
    by (simp add: in_int64_def)
  then show ?thesis by (simp add: count_wrap_sum in_int64_def wrap64_id)
qed

definition quantity_of :: "string \<Rightarrow> int" where
  "quantity_of s = (if s = '''' then 0 else case ParseResourceValue s of Inr v \<Rightarrow> v | Inl _ \<Rightarrow> 0)"

definition team_sandboxes :: "string \<Rightarrow> Sandbox list \<Rightarrow> Sandbox list" where
  "team_sandboxes team sbs = filter (\<lambda>sb. sp_Team (sb_Spec sb) = team) sbs"

definition total :: "(Sandbox \<Rightarrow> int) \<Rightarrow> Sandbox list \<Rightarrow> int" where
  "total f sbs = sum_list (map f sbs)"

definition gpus_of :: "Sandbox \<Rightarrow> int" where
  "gpus_of sb = (case res_GPU (sp_Resources (sb_Spec sb)) of None \<Rightarrow> 0 | Some g \<Rightarrow> gpu_Count g)"

lemma add_quantity_sum: "in_int64 n \<Longrightarrow> add_quantity s n = wrap64 (n + quantity_of s)"
  by (auto simp: add_quantity_def quantity_of_def wrap64_id split: sum.splits)

definition usage_ok :: "ResourceUsage \<Rightarrow> bool" where
  "usage_ok u \<longleftrightarrow> in_int64 (us_Sandboxes u) \<and> in_int64 (us_MemoryBytes u) \<and>
     in_int64 (us_DiskBytes u) \<and> in_int64 (us_GPUs u)"

lemma add_sandbox_ok: "usage_ok u \<Longrightarrow> usage_ok (add_sandbox sb u)"
  by (auto simp: usage_ok_def add_sandbox_def Let_def add_quantity_def wrap64_in_range
      split: option.splits sum.splits)

lemma add_sandboxes_sums:
  "usage_ok u \<Longrightarrow>
   us_Sandboxes (add_sandboxes team sbs u) =
     wrap64 (us_Sandboxes u + int (length (team_sandboxes team sbs))) \<and>
   us_MemoryBytes (add_sandboxes team sbs u) = wrap64 (us_MemoryBytes u +
     total (\<lambda>sb. quantity_of (res_Memory (sp_Resources (sb_Spec sb)))) (team_sandboxes team sbs)) \<and>
   us_DiskBytes (add_sandboxes team sbs u) = wrap64 (us_DiskBytes u +
     total (\<lambda>sb. quantity_of (res_Disk (sp_Resources (sb_Spec sb)))) (team_sandboxes team sbs)) \<and>
   us_GPUs (add_sandboxes team sbs u) = wrap64 (us_GPUs u + total gpus_of (team_sandboxes team sbs))"
proof (induction team sbs u rule: add_sandboxes.induct)
  case (1 team u)
  then show ?case by (simp add: team_sandboxes_def total_def usage_ok_def wrap64_id)
next
  case (2 team sb sbs u)
  show ?case
  proof (cases "sp_Team (sb_Spec sb) = team")
    case True
    have "usage_ok (add_sandbox sb u)" using 2(2) by (rule add_sandbox_ok)
    with 2 True show ?thesis
      by (auto simp: team_sandboxes_def total_def add_sandbox_def Let_def add_quantity_sum
          usage_ok_def wrap64_add gpus_of_def wrap64_id algebra_simps split: option.splits)
  next
    case False
    with 2 show ?thesis by (simp add: team_sandboxes_def)
  qed
qed

section \<open>Limits\<close>

lemma check_count_None:
  "check_count team res limit cur req = None \<longleftrightarrow>
   limit \<le> 0 \<or> req \<le> 0 \<or> wrap64 (cur + req) \<le> limit"
  by (auto simp: check_count_def)

lemma check_bytes_None:
  "check_bytes team res limit cur req = None \<longleftrightarrow>
   limit = '''' \<or> req = '''' \<or>
   (\<exists>l r. ParseResourceValue limit = Inr l \<and> ParseResourceValue req = Inr r \<and> wrap64 (cur + r) \<le> l)"
  by (auto simp: check_bytes_def split: sum.splits)

lemma check_limits_None:
  "check_limits team q u r = None \<longleftrightarrow>
     check_count team ''sandboxes'' (rq_MaxSandboxes q) (us_Sandboxes u) (qr_Sandboxes r) = None \<and>
     check_cpu team (rq_MaxCPU q) (us_CPUCores u) (qr_CPU r) = None \<and>
     check_bytes team ''memory'' (rq_MaxMemory q) (us_MemoryBytes u) (qr_Memory r) = None \<and>
     check_bytes team ''disk'' (rq_MaxDisk q) (us_DiskBytes u) (qr_Disk r) = None \<and>
     check_count team ''gpus'' (rq_MaxGPUs q) (us_GPUs u) (qr_GPUs r) = None \<and>
     check_count team ''matrices'' (rq_MaxMatrices q) (us_Matrices u) (qr_Matrices r) = None \<and>
     check_count team ''sessions'' (rq_MaxSessions q) (us_Sessions u) (qr_Sessions r) = None"
  by (auto simp: check_limits_def split: option.splits)

section \<open>Quantities read back\<close>

lemma is_digit_not_space: "is_digit c \<Longrightarrow> \<not> is_space c"
  by (auto simp: is_digit_def is_space_def)

lemma TrimSpace_id:
  assumes "s \<noteq> []" "\<not> is_space (hd s)" "\<not> is_space (last s)"
  shows "TrimSpace s = s"
proof -
  have "dropWhile is_space s = s" using assms by (cases s) auto
  moreover have "dropWhile is_space (rev s) = rev s"
    using assms by (cases "rev s") (auto simp: hd_rev last_rev)
  ultimately show ?thesis by (simp add: TrimSpace_def)
qed

lemma nat_digits_hd: "is_digit (hd (nat_digits n @ s))"
  by (rule nat_digits_Cons [of n]) simp

lemma last_digit: "is_digit (last (nat_digits n))"
  using nat_digits_digits [of n] by (simp add: list_all_iff)

lemma parse_decimal_suffix:
  "\<not> is_digit c \<Longrightarrow> c \<noteq> CHR ''.'' \<Longrightarrow> to_lower c \<noteq> CHR ''e'' \<Longrightarrow>
   parse_decimal (nat_digits n @ c # cs) = None"
  by (simp add: parse_decimal_def)

lemma ParseInt_suffix: "\<not> is_digit c \<Longrightarrow> ParseInt (nat_digits n @ c # cs) = None"
  by (simp add: ParseInt_def)

lemma ParseFloat_suffix:
  assumes "\<not> is_digit c" "c \<noteq> CHR ''.''" "to_lower c \<noteq> CHR ''e''"
  shows "ParseFloat (nat_digits n @ c # cs) = None"
proof -
  obtain d ds where d: "nat_digits n = d # ds" "is_digit d" by (rule nat_digits_Cons)
  have "to_lower d = d" "d \<noteq> CHR ''n''" "d \<noteq> CHR ''i''"
    using d(2) by (auto simp: is_digit_def to_lower_def Let_def)
  with parse_decimal_suffix [OF assms, of n cs] d(1) split_sign_nat_digits [of n "c # cs"] show ?thesis
    by (simp add: ParseFloat_def)
qed

lemma int64_of_int:
  "in_int64 i \<Longrightarrow> 0 \<le> i \<Longrightarrow> int64_of_f64 (math_Round (Fin (of_int i))) = i"
proof -
  assume i: "in_int64 i" "0 \<le> i"
  have "\<lfloor>(of_int i :: rat) + 1 / 2\<rfloor> = i" by (rule floor_unique) auto
  then have "math_Round (Fin (of_int i)) = Fin (of_int i)" using i(2)
    by (simp only: math_Round.simps of_int_0_le_iff if_True)
  with i show ?thesis by (simp add: Let_def)
qed

lemma ParseResourceValue_suffix:
  assumes "suffix_multiplier (ToUpper (nat_digits n @ c # cs)) = Some (k, Suc (length cs))"
    and "\<not> is_digit c" "c \<noteq> CHR ''.''" "to_lower c \<noteq> CHR ''e''" "\<not> is_space (last (c # cs))"
    and "0 \<le> k" "int n * k < 2 ^ 53" "n < 2 ^ 53" "k < 2 ^ 53"
  shows "ParseResourceValue (nat_digits n @ c # cs) = Inr (int n * k)"
proof -
  have trim: "TrimSpace (nat_digits n @ c # cs) = nat_digits n @ c # cs"
    using assms(5) is_digit_not_space [OF nat_digits_hd] by (intro TrimSpace_id) auto
  have "\<bar>int n * k\<bar> < 2 ^ 53" using assms by simp
  then have "rnd (of_nat n * of_int k) = Fin (of_int (int n * k))"
    using rnd_int by fastforce
  then have "fmul (Fin (of_nat n)) (f64_of_int k) = Fin (of_int (int n * k))"
    using assms by (simp add: f64_of_small_int)
  moreover have pos: "0 \<le> int n * k" using assms(6) by simp
  moreover have "in_int64 (int n * k)"
    using assms(7) order_trans [OF _ pos, of "- (2 ^ 63)"] unfolding in_int64_def by simp
  ultimately have "int64_of_f64 (math_Round (fmul (Fin (of_nat n)) (f64_of_int k))) = int n * k"
    using int64_of_int [of "int n * k"] by metis
  then show ?thesis
    using assms(1,2,8) ParseFloat_suffix [OF assms(2-4), of n cs] ParseFloat_nat_digits [of n] trim
    by (simp add: ParseResourceValue_def ParseInt_suffix)
qed

section \<open>Properties\<close>

text \<open>What fits in a quota, without machine integers: the reference for the checks.\<close>

definition count_fits :: "int \<Rightarrow> int \<Rightarrow> int \<Rightarrow> bool" where
  "count_fits limit current request \<longleftrightarrow> (0 < limit \<longrightarrow> 0 < request \<longrightarrow> current + request \<le> limit)"

definition bytes_fit :: "string \<Rightarrow> int \<Rightarrow> string \<Rightarrow> bool" where
  "bytes_fit limit current request \<longleftrightarrow> (limit \<noteq> '''' \<longrightarrow> request \<noteq> '''' \<longrightarrow>
     is_ok (ParseResourceValue limit) \<and> is_ok (ParseResourceValue request) \<and>
     current + quantity_of request \<le> quantity_of limit)"

definition cpu_fits :: "string \<Rightarrow> f64 \<Rightarrow> string \<Rightarrow> bool" where
  "cpu_fits limit current request \<longleftrightarrow> (limit \<noteq> '''' \<longrightarrow> request \<noteq> '''' \<longrightarrow>
     (\<exists>l r. parseCPU limit = Inr l \<and> parseCPU request = Inr r \<and> \<not> flt l (fadd current r)))"

definition fits :: "ResourceQuota \<Rightarrow> ResourceUsage \<Rightarrow> QuotaRequest \<Rightarrow> bool" where
  "fits q u r \<longleftrightarrow>
     count_fits (rq_MaxSandboxes q) (us_Sandboxes u) (qr_Sandboxes r) \<and>
     cpu_fits (rq_MaxCPU q) (us_CPUCores u) (qr_CPU r) \<and>
     bytes_fit (rq_MaxMemory q) (us_MemoryBytes u) (qr_Memory r) \<and>
     bytes_fit (rq_MaxDisk q) (us_DiskBytes u) (qr_Disk r) \<and>
     count_fits (rq_MaxGPUs q) (us_GPUs u) (qr_GPUs r) \<and>
     count_fits (rq_MaxMatrices q) (us_Matrices u) (qr_Matrices r) \<and>
     count_fits (rq_MaxSessions q) (us_Sessions u) (qr_Sessions r)"

definition no_overflow :: "ResourceUsage \<Rightarrow> QuotaRequest \<Rightarrow> bool" where
  "no_overflow u r \<longleftrightarrow>
     in_int64 (us_Sandboxes u + qr_Sandboxes r) \<and> in_int64 (us_GPUs u + qr_GPUs r) \<and>
     in_int64 (us_Matrices u + qr_Matrices r) \<and> in_int64 (us_Sessions u + qr_Sessions r) \<and>
     in_int64 (us_MemoryBytes u + quantity_of (qr_Memory r)) \<and>
     in_int64 (us_DiskBytes u + quantity_of (qr_Disk r))"

lemma check_count_fits:
  "in_int64 (current + request) \<Longrightarrow> check_count team res limit current request = None \<longleftrightarrow> count_fits limit current request"
  by (auto simp: check_count_None count_fits_def wrap64_id)

lemma check_bytes_fit:
  "in_int64 (current + quantity_of request) \<Longrightarrow>
   check_bytes team res limit current request = None \<longleftrightarrow> bytes_fit limit current request"
  by (auto simp: check_bytes_None bytes_fit_def quantity_of_def wrap64_id is_ok_iff)

lemma check_cpu_fits: "check_cpu team limit current request = None \<longleftrightarrow> cpu_fits limit current request"
  by (auto simp: check_cpu_def cpu_fits_def split: sum.splits)


definition small_quota :: ResourceQuota where
  "small_quota = \<lparr>rq_MaxSandboxes = 3, rq_MaxCPU = '''', rq_MaxMemory = ''8'', rq_MaxDisk = '''',
     rq_MaxGPUs = 0, rq_MaxMatrices = 1, rq_MaxSessions = 5\<rparr>"

definition small_usage :: ResourceUsage where
  "small_usage = zero_usage\<lparr>us_Sandboxes := 2, us_MemoryBytes := 3\<rparr>"

definition small_request :: "string \<Rightarrow> QuotaRequest" where
  "small_request mem = \<lparr>qr_Sandboxes = 1, qr_CPU = '''', qr_Memory = mem, qr_Disk = '''', qr_GPUs = 0,
     qr_Matrices = 0, qr_Sessions = 0\<rparr>"


text \<open>A request for \<open>NaN\<close> CPUs passes the CPU check of every team, whatever its limit and its usage.\<close>

theorem nan_cpu_accepted:
  assumes "is_ok (parseCPU limit)"
  shows "check_cpu team limit current ''NaN'' = None"
proof -
  have "parseCPU ''NaN'' = Inr NaN" by code_simp
  moreover have "fadd current NaN = NaN" by (cases current) auto
  moreover have "\<not> flt x NaN" for x by (cases x) auto
  ultimately show ?thesis using assms by (auto simp: check_cpu_def is_ok_iff split: sum.splits)
qed


theorem nan_cpu_accepted_witness: "check_cpu ''red'' ''2'' (Fin 1) ''NaN'' = None"
  by (rule nan_cpu_accepted) code_simp

text \<open>The suffixes of a quantity and what they stand for.\<close>

definition suffixes :: "(string \<times> int) list" where
  "suffixes = [(''Ki'', 2 ^ 10), (''Mi'', 2 ^ 20), (''Gi'', 2 ^ 30), (''Ti'', 2 ^ 40),
     (''K'', 1000), (''M'', 1000000), (''G'', 1000000000), (''T'', 1000000000000)]"

lemma HasSuffix_two:
  "HasSuffix (xs @ [a, b]) [c, d] \<longleftrightarrow> a = c \<and> b = d" "HasSuffix (xs @ [a, b]) [d] \<longleftrightarrow> b = d"
  "HasSuffix (xs @ [e, a, b]) [c, d] \<longleftrightarrow> a = c \<and> b = d" "HasSuffix (xs @ [e, a, b]) [d] \<longleftrightarrow> b = d"
  by (auto simp: HasSuffix_def)

lemma upper_letters:
  "to_upper (CHR ''i'') = CHR ''I''" "to_upper (CHR ''K'') = CHR ''K''" "to_upper (CHR ''M'') = CHR ''M''"
  "to_upper (CHR ''G'') = CHR ''G''" "to_upper (CHR ''T'') = CHR ''T''"
  by code_simp+

lemma lower_letters:
  "to_lower (CHR ''K'') = CHR ''k''" "to_lower (CHR ''M'') = CHR ''m''"
  "to_lower (CHR ''G'') = CHR ''g''" "to_lower (CHR ''T'') = CHR ''t''"
  by code_simp+

text \<open>In front of the suffix there is a digit, also once everything is in upper case.\<close>

lemma upper_digits:
  obtains pre d where "ToUpper (nat_digits n @ s) = pre @ d # ToUpper s" and "is_digit d"
proof -
  have "nat_digits n \<noteq> []" by simp
  then have "nat_digits n = butlast (nat_digits n) @ [last (nat_digits n)]" by simp
  moreover have "to_upper c = c" if "is_digit c" for c
    using that by (auto simp: is_digit_def to_upper_def Let_def)
  ultimately show thesis
    using that [of "map to_upper (butlast (nat_digits n))" "last (nat_digits n)"] last_digit [of n]
    by (metis ToUpper_def append.assoc append_Cons append_Nil list.map(1) list.map(2) map_append)
qed

lemma suffix_known:
  assumes "(suf, k) \<in> set suffixes"
  shows "suffix_multiplier (ToUpper (nat_digits n @ suf)) = Some (k, length suf)"
proof -
  obtain pre d where d: "ToUpper (nat_digits n @ suf) = pre @ d # ToUpper suf" "is_digit d"
    by (rule upper_digits)
  then have nd: "d \<noteq> CHR ''T''" "d \<noteq> CHR ''G''" "d \<noteq> CHR ''M''" "d \<noteq> CHR ''K''"
    by (auto simp: is_digit_def)
  have "list_all (\<lambda>(suf, k). suffix_multiplier (pre @ d # ToUpper suf) = Some (k, length suf)) suffixes"
    unfolding suffixes_def suffix_multiplier_def
    by (simp only: list.pred_inject case_prod_conv ToUpper_def list.map upper_letters HasSuffix_two)
      (simp add: nd)
  with assms d(1) show ?thesis by (auto simp: list_all_iff)
qed

text \<open>C14. A whole number written with one of the eight suffixes is read back as that number of units, up to
  \<open>2^53\<close> bytes.\<close>

theorem quantity_round_trip:
  assumes "(suf, k) \<in> set suffixes" and "int n * k < 2 ^ 53" and "n < 2 ^ 53"
  shows "ParseResourceValue (nat_digits n @ suf) = Inr (int n * k)"
proof -
  obtain c cs where c: "suf = c # cs" using assms(1) by (auto simp: suffixes_def)
  have "\<not> is_digit c" "c \<noteq> CHR ''.''" "to_lower c \<noteq> CHR ''e''" "\<not> is_space (last (c # cs))" "0 \<le> k" "k < 2 ^ 53"
    using assms(1) c by (auto simp: suffixes_def is_digit_def lower_letters is_space_def)
  with suffix_known [OF assms(1), of n] assms(2,3) c show ?thesis
    by (simp add: ParseResourceValue_suffix)
qed

theorem quantity_round_trip_witness:
  "ParseResourceValue (nat_digits 16 @ ''Gi'') = Inr 17179869184"
  using quantity_round_trip [of "''Gi''" "2 ^ 30" 16] by (simp add: suffixes_def)

end
