(* ===== verification/Controller.thy ===== *)
theory Controller
  imports BlueprintFiles Probe Quota
begin

text \<open>
  \<open>internal/controller/controller.go\<close>: the operations on sandboxes. A \<open>Controller\<close> holds the
  interfaces it was built with; its state is the state of the backend (\<open>c_rt\<close>), of the stores
  (\<open>c_ps\<close>), the readings of the clock and of the random source to come, and the Prometheus values
  the operations maintain. The operations that change a sandbox run under \<open>c.mu\<close>, so each is one
  step of the system.
\<close>

section \<open>State\<close>

record ('w, 'p) cstate =
  c_rt :: 'w
  c_ps :: 'p
  c_clock :: "nat \<Rightarrow> gtime"
  c_tick :: nat
  c_rand :: "nat \<Rightarrow> string"
  c_draw :: nat
  c_SandboxesActive :: int
  c_SessionsActive :: int
  c_OpsTotal :: "(string \<times> string) list"
  c_ExecTotal :: "(string \<times> string) list"

record ('w, 'p) Controller =
  ct_runtime :: "'w Runtime"
  ct_store :: "'p Store"
  ct_sessions :: "'p SessionStore option"
  ct_matrices :: "'p MatrixStore option"
  ct_quotaChecker :: "(string \<Rightarrow> QuotaRequest \<Rightarrow> (unit res, 'p) act) option"
  ct_host :: HostEnv
  ct_net :: "'w NetEnv"

definition on_rt :: "('a, 'w) act \<Rightarrow> ('a, ('w, 'p) cstate) act" where
  "on_rt a s = (case a (c_rt s) of (r, w) \<Rightarrow> (r, s\<lparr>c_rt := w\<rparr>))"

definition on_ps :: "('a, 'p) act \<Rightarrow> ('a, ('w, 'p) cstate) act" where
  "on_ps a s = (case a (c_ps s) of (r, p) \<Rightarrow> (r, s\<lparr>c_ps := p\<rparr>))"

text \<open>\<open>time.Now()\<close>\<close>

definition now :: "(gtime, ('w, 'p) cstate) act" where
  "now s = (c_clock s (c_tick s), s\<lparr>c_tick := Suc (c_tick s)\<rparr>)"

definition recordOp :: "string \<Rightarrow> string \<Rightarrow> ('w, 'p) cstate \<Rightarrow> ('w, 'p) cstate" where
  "recordOp op result s = s\<lparr>c_OpsTotal := (op, result) # c_OpsTotal s\<rparr>"

definition recordExec :: "string \<Rightarrow> string \<Rightarrow> ('w, 'p) cstate \<Rightarrow> ('w, 'p) cstate" where
  "recordExec name result s = s\<lparr>c_ExecTotal := (name, result) # c_ExecTotal s\<rparr>"

definition active_add :: "int \<Rightarrow> ('w, 'p) cstate \<Rightarrow> ('w, 'p) cstate" where
  "active_add k s = s\<lparr>c_SandboxesActive := c_SandboxesActive s + k\<rparr>"

abbreviation st_get :: "('w, 'p) Controller \<Rightarrow> string \<Rightarrow> (Sandbox res, ('w, 'p) cstate) act" where
  "st_get c n \<equiv> on_ps (kv_Get (ct_store c) n)"
abbreviation st_save :: "('w, 'p) Controller \<Rightarrow> Sandbox \<Rightarrow> (unit res, ('w, 'p) cstate) act" where
  "st_save c sb \<equiv> on_ps (kv_Save (ct_store c) sb)"

section \<open>Configuration of a container\<close>

record CreateOptions =
  co_Name :: string
  co_BlueprintPath :: string
  co_WorkspaceDir :: string
  co_NetworkName :: string
  co_Env :: "string gomap"
  co_Team :: string

fun buildDeviceConfig :: "HostEnv \<Rightarrow> DeviceMapping list \<Rightarrow> RtDevice list" where
  "buildDeviceConfig h [] = []"
| "buildDeviceConfig h (d # ds) =
     (if dm_Optional d \<and> os_IsNotExist h (dm_HostPath d) then buildDeviceConfig h ds
      else \<lparr>rd_HostPath = dm_HostPath d,
            rd_ContainerPath = (if dm_ContainerPath d = '''' then dm_HostPath d else dm_ContainerPath d),
            rd_Permissions = (if dm_Permissions d = '''' then ''rwm'' else dm_Permissions d)\<rparr>
           # buildDeviceConfig h ds)"

definition secret_value :: "HostEnv \<Rightarrow> string \<Rightarrow> string" where
  "secret_value h src =
     (if HasPrefix src ''env:'' then os_Getenv h (TrimPrefix src ''env:'')
      else if HasPrefix src ''file:'' then
        (case os_ReadFile h (TrimPrefix src ''file:'') of Inr data \<Rightarrow> TrimSpace data | Inl _ \<Rightarrow> '''')
      else src)"

definition resolveSecrets :: "HostEnv \<Rightarrow> SecretRef list \<Rightarrow> string gomap" where
  "resolveSecrets h secrets =
     fold (\<lambda>s m. gm_set (sr_Name s) (secret_value h (sr_Source s)) m) secrets []"

definition image_Tag :: "Blueprint \<Rightarrow> string" where
  "image_Tag bp =
     (let version = om_Version (bp_Metadata bp) in
      ''smx-built/'' @ om_Name (bp_Metadata bp) @ '':''
        @ (if version = '''' then ''latest'' else version))"

definition CachedImage :: "('w, 'p) Controller \<Rightarrow> Blueprint \<Rightarrow> (string option, ('w, 'p) cstate) act" where
  "CachedImage c bp s =
     (case rt_InspectImage (ct_runtime c) of
        None \<Rightarrow> (None, s)
      | Some inspect \<Rightarrow> (case on_rt (inspect (image_Tag bp)) s of
          (Inl _, s') \<Rightarrow> (None, s')
        | (Inr imageID, s') \<Rightarrow> (if imageID = '''' then None else Some (image_Tag bp), s')))"

definition network_mode :: "string \<Rightarrow> string \<Rightarrow> string" where
  "network_mode networkName policy =
     (if networkName \<noteq> '''' then networkName
      else if policy = ''none'' then ''none''
      else if policy = ''host'' then ''host''
      else if policy = ''isolate'' then ''none''
      else if policy = ''bridge'' \<or> policy = '''' then ''bridge''
      else policy)"

definition gpu_config :: "GPUSpec \<Rightarrow> GPUConfig" where
  "gpu_config g = \<lparr>gc_Count = gpu_Count g, gc_Driver = gpu_Driver g\<rparr>"

definition create_env :: "HostEnv \<Rightarrow> Blueprint \<Rightarrow> CreateOptions \<Rightarrow> string gomap" where
  "create_env h bp opts =
     gm_range_into (co_Env opts)
       (gm_range_into (resolveSecrets h (bs_Secrets (bp_Spec bp)))
         (gm_range_into (bs_Env (bp_Spec bp)) []))"

definition create_mounts :: "Blueprint \<Rightarrow> CreateOptions \<Rightarrow> Mount list" where
  "create_mounts bp opts =
     (if co_WorkspaceDir opts \<noteq> '''' then
        let ws = bs_Workspace (bp_Spec bp) in
        [\<lparr>mt_Source = co_WorkspaceDir opts,
          mt_Target = (if ws_MountPath ws = '''' then ''/workspace'' else ws_MountPath ws),
          mt_ReadOnly = ws_ReadOnly ws\<rparr>]
      else [])"

definition create_config :: "HostEnv \<Rightarrow> Blueprint \<Rightarrow> CreateOptions \<Rightarrow> string \<Rightarrow> CreateConfig" where
  "create_config h bp opts img =
     (let sp = bp_Spec bp; r = bs_Resources sp in
      \<lparr>cc_Name = ''smx-'' @ co_Name opts,
       cc_Image = img,
       cc_CPU = res_CPU r,
       cc_Memory = res_Memory r,
       cc_Disk = '''',
       cc_GPU = map_option gpu_config (res_GPU r),
       cc_Devices = buildDeviceConfig h (bs_Devices sp),
       cc_Mounts = create_mounts bp opts,
       cc_Ports = map (\<lambda>port. \<lparr>pm_HostPort = 0, pm_ContainerPort = port, pm_Protocol = ''tcp''\<rparr>)
         (net_Expose (bs_Network sp)),
       cc_Env = create_env h bp opts,
       cc_Cmd = [],
       cc_Labels = [(''sandboxmatrix/sandbox'', co_Name opts),
         (''sandboxmatrix/blueprint'', om_Name (bp_Metadata bp))],
       cc_Network = \<lparr>nc_Mode = network_mode (co_NetworkName opts) (net_Policy (bs_Network sp)),
         nc_DNS = (if net_AllowDNS (bs_Network sp) then [''8.8.8.8'', ''8.8.4.4''] else [])\<rparr>\<rparr>)"

definition workspace_allowed :: "string \<Rightarrow> bool" where
  "workspace_allowed dir \<longleftrightarrow>
     (let cleaned = Clean dir in
      dir = '''' \<or> \<not> IsAbs cleaned \<or>
      list_ex (HasPrefix cleaned) [''/home/'', ''/Users/'', ''/tmp/'', ''/workspace/'', ''/opt/''])"

definition new_sandbox :: "Blueprint \<Rightarrow> CreateOptions \<Rightarrow> gtime \<Rightarrow> Sandbox" where
  "new_sandbox bp opts t =
     \<lparr>sb_Type = \<lparr>tm_APIVersion = ''smx/v1alpha1'', tm_Kind = ''Sandbox''\<rparr>,
      sb_Metadata = \<lparr>om_Name = co_Name opts, om_Version = '''',
        om_Labels = [(''blueprint'', om_Name (bp_Metadata bp))], om_CreatedAt = t, om_UpdatedAt = t\<rparr>,
      sb_Spec = \<lparr>sp_BlueprintRef = om_Name (bp_Metadata bp), sp_BlueprintPath = co_BlueprintPath opts,
        sp_Resources = bs_Resources (bp_Spec bp),
        sp_Workspace = (if co_WorkspaceDir opts \<noteq> '''' then
          \<lparr>ws_MountPath = ws_MountPath (bs_Workspace (bp_Spec bp)), ws_Source = co_WorkspaceDir opts,
           ws_ReadOnly = ws_ReadOnly (bs_Workspace (bp_Spec bp))\<rparr> else zero_workspace),
        sp_Team = co_Team opts, sp_Priority = 0\<rparr>,
      sb_Status = zero_status\<lparr>st_State := Creating\<rparr>\<rparr>"

definition quota_request :: "Blueprint \<Rightarrow> QuotaRequest" where
  "quota_request bp =
     (let r = bs_Resources (bp_Spec bp) in
      \<lparr>qr_Sandboxes = 1, qr_CPU = res_CPU r, qr_Memory = res_Memory r, qr_Disk = res_Disk r,
       qr_GPUs = (case res_GPU r of None \<Rightarrow> 0 | Some g \<Rightarrow> gpu_Count g),
       qr_Matrices = 0, qr_Sessions = 0\<rparr>)"

section \<open>Create\<close>

text \<open>Save the record and go on, whatever the store says (\<open>_ = c.store.Save(sb)\<close>); destroy likewise.\<close>

definition save_quietly :: "('w, 'p) Controller \<Rightarrow> Sandbox \<Rightarrow> ('w, 'p) cstate \<Rightarrow> ('w, 'p) cstate" where
  "save_quietly c sb s = snd (st_save c sb s)"

definition destroy_quietly :: "('w, 'p) Controller \<Rightarrow> string \<Rightarrow> ('w, 'p) cstate \<Rightarrow> ('w, 'p) cstate" where
  "destroy_quietly c i s = snd (on_rt (rt_Destroy (ct_runtime c) i) s)"

text \<open>\<open>startAndTrack\<close>: the record it was given comes back updated.\<close>

definition startAndTrack ::
  "('w, 'p) Controller \<Rightarrow> string \<Rightarrow> Sandbox \<Rightarrow> (goerr option \<times> Sandbox, ('w, 'p) cstate) act" where
  "startAndTrack c runtimeID sb s =
     (case on_rt (rt_Start (ct_runtime c) runtimeID) s of
        (Inl e, s1) \<Rightarrow>
          let sb' = with_error (err_text e) sb in
          ((Some (Errorf ''start runtime: %w'' [AErr e]), sb'),
           save_quietly c sb' (destroy_quietly c runtimeID s1))
      | (Inr _, s1) \<Rightarrow>
          (case now s1 of (startedAt, s2) \<Rightarrow>
           let sb1 = sb\<lparr>sb_Status := (sb_Status sb)\<lparr>st_State := Running, st_RuntimeID := runtimeID,
                          st_StartedAt := Some startedAt\<rparr>,
                        sb_Metadata := (sb_Metadata sb)\<lparr>om_UpdatedAt := startedAt\<rparr>\<rparr> in
           case on_rt (rt_Info (ct_runtime c) runtimeID) s2 of
             (Inr info, s3) \<Rightarrow>
               ((None, sb1\<lparr>sb_Status := (sb_Status sb1)\<lparr>st_IP := in_IP info\<rparr>\<rparr>), s3)
           | (Inl _, s3) \<Rightarrow> ((None, sb1), s3)))"

text \<open>The checks that come before anything is written: duplicate name, blueprint, quota.\<close>

definition Create_check :: "('w, 'p) Controller \<Rightarrow> CreateOptions \<Rightarrow> (Blueprint res, ('w, 'p) cstate) act" where
  "Create_check c opts s =
     (case st_get c (co_Name opts) s of
        (Inr _, s1) \<Rightarrow> (Inl (Errorf ''sandbox %q already exists'' [AStr (co_Name opts)]), s1)
      | (Inl _, s1) \<Rightarrow>
        (case ValidateFile (ct_host c) (co_BlueprintPath opts) of
           (_, e # _) \<Rightarrow> (Inl (Errorf ''invalid blueprint: %v'' [AErr e]), s1)
         | (None, []) \<Rightarrow> (Inl (Panic ''invalid memory address or nil pointer dereference''), s1)
         | (Some bp, []) \<Rightarrow>
           (case ct_quotaChecker c of
              Some check \<Rightarrow>
                if co_Team opts \<noteq> '''' then
                  (case on_ps (check (co_Team opts) (quota_request bp)) s1 of
                     (Inl e, s2) \<Rightarrow> (Inl (Errorf ''quota check: %w'' [AErr e]), s2)
                   | (Inr _, s2) \<Rightarrow> (Inr bp, s2))
                else (Inr bp, s1)
            | None \<Rightarrow> (Inr bp, s1))))"

text \<open>The setup steps, the \<open>i\<close>-th being the head of the list: on the first that fails, the container
  is destroyed and the record saved as failed.\<close>

fun run_setup ::
  "('w, 'p) Controller \<Rightarrow> string \<Rightarrow> Sandbox \<Rightarrow> nat \<Rightarrow> SetupStep list \<Rightarrow>
   (goerr option, ('w, 'p) cstate) act" where
  "run_setup c runtimeID sb i [] s = (None, s)"
| "run_setup c runtimeID sb i (step # steps) s =
     (case on_rt (rt_Exec (ct_runtime c) runtimeID
        \<lparr>ec_Cmd = [''sh'', ''-c'', ss_Run step], ec_Env = [], ec_Dir = '''', ec_Stdin = None, ec_Stdout = False,
         ec_Stderr = False, ec_TTY = False\<rparr>) s of
        ((result, Some e), s1) \<Rightarrow>
          let err = Errorf ''setup step %d failed: %w'' [AInt (int i + 1), AErr e] in
          (Some err, save_quietly c (with_error (err_text err) sb) (destroy_quietly c runtimeID s1))
      | ((result, None), s1) \<Rightarrow>
          if er_ExitCode result \<noteq> 0 then
            let err = Errorf ''setup step %d exited with code %d: %s''
                  [AInt (int i + 1), AInt (er_ExitCode result), AStr (ss_Run step)] in
            (Some err, save_quietly c (with_error (err_text err) sb) (destroy_quietly c runtimeID s1))
          else run_setup c runtimeID sb (Suc i) steps s1)"

definition probe_failed :: "goerr \<Rightarrow> Sandbox \<Rightarrow> Sandbox" where
  "probe_failed e sb =
     sb\<lparr>sb_Status := (sb_Status sb)\<lparr>st_ProbeError := err_text e, st_State := Error,
       st_Message := ''readiness probe failed: '' @ err_text e\<rparr>\<rparr>"

definition ready_at :: "gtime \<Rightarrow> Sandbox \<Rightarrow> Sandbox" where
  "ready_at t sb = sb\<lparr>sb_Status := (sb_Status sb)\<lparr>st_ReadyAt := Some t, st_State := Ready\<rparr>\<rparr>"

text \<open>The readiness probe, when the blueprint has one: the failure, and the record afterwards.\<close>

definition run_probe ::
  "('w, 'p) Controller \<Rightarrow> string \<Rightarrow> Sandbox \<Rightarrow> ProbeConfig option \<Rightarrow>
   (goerr option \<times> Sandbox, ('w, 'p) cstate) act" where
  "run_probe c runtimeID sb cfg s =
     (if cfg = None then ((None, sb), s)
      else
        (case on_rt (WaitForReady (ct_runtime c) (ct_net c) runtimeID (st_IP (sb_Status sb)) cfg)
                (save_quietly c sb s) of
           (Some e, s1) \<Rightarrow>
             let sb' = probe_failed e sb in
             ((Some (Errorf ''readiness probe failed: %w'' [AErr e]), sb'),
              save_quietly c sb' (destroy_quietly c runtimeID s1))
         | (None, s1) \<Rightarrow> (case now s1 of (readyAt, s2) \<Rightarrow> ((None, ready_at readyAt sb), s2))))"

text \<open>From the first save of the record to the end.\<close>

definition Create_finish ::
  "('w, 'p) Controller \<Rightarrow> string \<Rightarrow> Sandbox \<Rightarrow> (Sandbox ret, ('w, 'p) cstate) act" where
  "Create_finish c op sb s =
     (case st_save c sb s of
        (Inl e, s1) \<Rightarrow> ((None, Some (Errorf ''save state: %w'' [AErr e])), recordOp op ''error'' s1)
      | (Inr _, s1) \<Rightarrow> ((Some sb, None), recordOp op ''success'' (active_add 1 s1)))"

definition Create_launch ::
  "('w, 'p) Controller \<Rightarrow> Blueprint \<Rightarrow> CreateConfig \<Rightarrow> bool \<Rightarrow> Sandbox \<Rightarrow>
   (Sandbox ret, ('w, 'p) cstate) act" where
  "Create_launch c bp cfg usedCache sb s =
     (case st_save c sb s of
        (Inl e, s1) \<Rightarrow> ((None, Some (Errorf ''save state: %w'' [AErr e])), recordOp ''create'' ''error'' s1)
      | (Inr _, s1) \<Rightarrow>
     (case on_rt (rt_Create (ct_runtime c) cfg) s1 of
        (Inl e, s2) \<Rightarrow>
          ((None, Some (Errorf ''create runtime: %w'' [AErr e])),
           recordOp ''create'' ''error'' (save_quietly c (with_error (err_text e) sb) s2))
      | (Inr runtimeID, s2) \<Rightarrow>
     (case startAndTrack c runtimeID sb s2 of
        ((Some e, sb1), s3) \<Rightarrow> ((None, Some e), recordOp ''create'' ''error'' s3)
      | ((None, sb1), s3) \<Rightarrow>
     (case run_setup c runtimeID sb1 0 (if usedCache then [] else bs_Setup (bp_Spec bp)) s3 of
        (Some e, s4) \<Rightarrow> ((None, Some e), recordOp ''create'' ''error'' s4)
      | (None, s4) \<Rightarrow>
     (case run_probe c runtimeID sb1 (bs_ReadinessProbe (bp_Spec bp)) s4 of
        ((Some e, sb2), s5) \<Rightarrow> ((Some sb2, Some e), recordOp ''create'' ''error'' s5)
      | ((None, sb2), s5) \<Rightarrow> Create_finish c ''create'' sb2 s5)))))"

definition Create :: "('w, 'p) Controller \<Rightarrow> CreateOptions \<Rightarrow> (Sandbox ret, ('w, 'p) cstate) act" where
  "Create c opts s =
     (case Create_check c opts s of
        (Inl e, s1) \<Rightarrow> ((None, Some e), recordOp ''create'' ''error'' s1)
      | (Inr bp, s1) \<Rightarrow>
        (case CachedImage c bp s1 of (cached, s2) \<Rightarrow>
         let img = (case cached of Some tag \<Rightarrow> tag | None \<Rightarrow> bs_Base (bp_Spec bp)) in
         if \<not> workspace_allowed (co_WorkspaceDir opts) then
           ((None, Some (Errorf ''workspace path %q is not in an allowed directory''
              [AStr (co_WorkspaceDir opts)])), recordOp ''create'' ''error'' s2)
         else
           (case now s2 of (t, s3) \<Rightarrow>
              Create_launch c bp (create_config (ct_host c) bp opts img) (cached \<noteq> None)
                (new_sandbox bp opts t) s3)))"

section \<open>Stop, Start, Destroy, Exec\<close>

definition not_in_state :: "string \<Rightarrow> string \<Rightarrow> Sandbox \<Rightarrow> goerr" where
  "not_in_state what name sb =
     Errorf (''sandbox %q is not '' @ what @ '' (state: %s)'')
       [AStr name, AStr (state_text (st_State (sb_Status sb)))]"

definition stopped_at :: "gtime \<Rightarrow> Sandbox \<Rightarrow> Sandbox" where
  "stopped_at t sb =
     sb\<lparr>sb_Status := (sb_Status sb)\<lparr>st_State := Stopped, st_StoppedAt := Some t\<rparr>,
        sb_Metadata := (sb_Metadata sb)\<lparr>om_UpdatedAt := t\<rparr>\<rparr>"

definition started_at :: "gtime \<Rightarrow> Sandbox \<Rightarrow> Sandbox" where
  "started_at t sb =
     sb\<lparr>sb_Status := (sb_Status sb)\<lparr>st_State := Running, st_StartedAt := Some t, st_StoppedAt := None\<rparr>,
        sb_Metadata := (sb_Metadata sb)\<lparr>om_UpdatedAt := t\<rparr>\<rparr>"

definition Stop :: "('w, 'p) Controller \<Rightarrow> string \<Rightarrow> (unit res, ('w, 'p) cstate) act" where
  "Stop c name s =
     (case st_get c name s of
        (Inl e, s1) \<Rightarrow> (Inl e, recordOp ''stop'' ''error'' s1)
      | (Inr sb, s1) \<Rightarrow>
        if \<not> is_live sb then (Inl (not_in_state ''running'' name sb), recordOp ''stop'' ''error'' s1)
        else (case on_rt (rt_Stop (ct_runtime c) (st_RuntimeID (sb_Status sb))) s1 of
          (Inl e, s2) \<Rightarrow> (Inl (Errorf ''stop runtime: %w'' [AErr e]), recordOp ''stop'' ''error'' s2)
        | (Inr _, s2) \<Rightarrow>
          (case now s2 of (t, s3) \<Rightarrow>
           case st_save c (stopped_at t sb) s3 of
             (Inl e, s4) \<Rightarrow> (Inl e, recordOp ''stop'' ''error'' s4)
           | (Inr _, s4) \<Rightarrow> (Inr (), recordOp ''stop'' ''success'' (active_add (- 1) s4)))))"

definition Start :: "('w, 'p) Controller \<Rightarrow> string \<Rightarrow> (unit res, ('w, 'p) cstate) act" where
  "Start c name s =
     (case st_get c name s of
        (Inl e, s1) \<Rightarrow> (Inl e, recordOp ''start'' ''error'' s1)
      | (Inr sb, s1) \<Rightarrow>
        if st_State (sb_Status sb) \<noteq> Stopped
        then (Inl (not_in_state ''stopped'' name sb), recordOp ''start'' ''error'' s1)
        else (case on_rt (rt_Start (ct_runtime c) (st_RuntimeID (sb_Status sb))) s1 of
          (Inl e, s2) \<Rightarrow> (Inl (Errorf ''start runtime: %w'' [AErr e]), recordOp ''start'' ''error'' s2)
        | (Inr _, s2) \<Rightarrow>
          (case now s2 of (t, s3) \<Rightarrow>
           case st_save c (started_at t sb) s3 of
             (Inl e, s4) \<Rightarrow> (Inl e, recordOp ''start'' ''error'' s4)
           | (Inr _, s4) \<Rightarrow> (Inr (), recordOp ''start'' ''success'' (active_add 1 s4)))))"

definition Destroy :: "('w, 'p) Controller \<Rightarrow> string \<Rightarrow> (unit res, ('w, 'p) cstate) act" where
  "Destroy c name s =
     (case st_get c name s of
        (Inl e, s1) \<Rightarrow> (Inl e, recordOp ''destroy'' ''error'' s1)
      | (Inr sb, s1) \<Rightarrow>
        (case (if st_RuntimeID (sb_Status sb) \<noteq> ''''
               then on_rt (rt_Destroy (ct_runtime c) (st_RuntimeID (sb_Status sb))) s1
               else (Inr (), s1)) of
           (Inl e, s2) \<Rightarrow> (Inl (Errorf ''destroy runtime: %w'' [AErr e]), recordOp ''destroy'' ''error'' s2)
         | (Inr _, s2) \<Rightarrow>
             on_ps (kv_Delete (ct_store c) name)
               (recordOp ''destroy'' ''success'' (if is_live sb then active_add (- 1) s2 else s2))))"

definition zero_exec :: ExecResult where
  "zero_exec = \<lparr>er_ExitCode = - 1, er_Stdout = '''', er_Stderr = ''''\<rparr>"

definition Exec ::
  "('w, 'p) Controller \<Rightarrow> string \<Rightarrow> ExecConfig \<Rightarrow> (ExecResult \<times> goerr option, ('w, 'p) cstate) act" where
  "Exec c name cfg s =
     (case st_get c name s of
        (Inl e, s1) \<Rightarrow> ((zero_exec, Some e), recordExec name ''error'' s1)
      | (Inr sb, s1) \<Rightarrow>
        if \<not> is_live sb then ((zero_exec, Some (not_in_state ''running'' name sb)), recordExec name ''error'' s1)
        else (case on_rt (rt_Exec (ct_runtime c) (st_RuntimeID (sb_Status sb)) cfg) s1 of
          ((result, err), s2) \<Rightarrow>
            ((result, err), recordExec name (if err = None then ''success'' else ''error'') s2)))"

section \<open>Snapshots\<close>

definition no_runtime_id :: "string \<Rightarrow> goerr" where
  "no_runtime_id name = Errorf ''sandbox %q has no runtime ID'' [AStr name]"

definition Snapshot :: "('w, 'p) Controller \<Rightarrow> string \<Rightarrow> string \<Rightarrow> (string res, ('w, 'p) cstate) act" where
  "Snapshot c name tag s =
     (case st_get c name s of
        (Inl e, s1) \<Rightarrow> (Inl e, recordOp ''snapshot'' ''error'' s1)
      | (Inr sb, s1) \<Rightarrow>
        if st_RuntimeID (sb_Status sb) = '''' then (Inl (no_runtime_id name), recordOp ''snapshot'' ''error'' s1)
        else (case on_rt (rt_Snapshot (ct_runtime c) (st_RuntimeID (sb_Status sb)) tag) s1 of
          (Inl e, s2) \<Rightarrow> (Inl (Errorf ''snapshot runtime: %w'' [AErr e]), recordOp ''snapshot'' ''error'' s2)
        | (Inr i, s2) \<Rightarrow> (Inr i, recordOp ''snapshot'' ''success'' s2)))"

definition restore_config :: "HostEnv \<Rightarrow> Sandbox \<Rightarrow> string \<Rightarrow> string \<Rightarrow> CreateConfig" where
  "restore_config h src snapshotID newName =
     (let r = sp_Resources (sb_Spec src) in
      \<lparr>cc_Name = ''smx-'' @ newName,
       cc_Image = snapshotID,
       cc_CPU = res_CPU r,
       cc_Memory = res_Memory r,
       cc_Disk = '''',
       cc_GPU = map_option gpu_config (res_GPU r),
       cc_Devices =
         (if sp_BlueprintPath (sb_Spec src) \<noteq> '''' then
            (case ParseFile h (sp_BlueprintPath (sb_Spec src)) of
               Inr bp \<Rightarrow> buildDeviceConfig h (bs_Devices (bp_Spec bp)) | Inl _ \<Rightarrow> [])
          else []),
       cc_Mounts = [], cc_Ports = [], cc_Env = [], cc_Cmd = [],
       cc_Labels = [(''sandboxmatrix/sandbox'', newName),
         (''sandboxmatrix/blueprint'', sp_BlueprintRef (sb_Spec src)), (''sandboxmatrix/restored'', ''true'')],
       cc_Network = \<lparr>nc_Mode = '''', nc_DNS = []\<rparr>\<rparr>)"

definition restored_sandbox :: "Sandbox \<Rightarrow> string \<Rightarrow> string \<Rightarrow> gtime \<Rightarrow> Sandbox" where
  "restored_sandbox src name newName t =
     \<lparr>sb_Type = \<lparr>tm_APIVersion = ''smx/v1alpha1'', tm_Kind = ''Sandbox''\<rparr>,
      sb_Metadata = \<lparr>om_Name = newName, om_Version = '''',
        om_Labels = [(''blueprint'', sp_BlueprintRef (sb_Spec src)), (''restored'', ''true''),
          (''restored-from'', name)],
        om_CreatedAt = t, om_UpdatedAt = t\<rparr>,
      sb_Spec = \<lparr>sp_BlueprintRef = sp_BlueprintRef (sb_Spec src),
        sp_BlueprintPath = sp_BlueprintPath (sb_Spec src),
        sp_Resources = sp_Resources (sb_Spec src), sp_Workspace = sp_Workspace (sb_Spec src),
        sp_Team = '''', sp_Priority = 0\<rparr>,
      sb_Status = zero_status\<lparr>st_State := Creating\<rparr>\<rparr>"

definition Restore_launch ::
  "('w, 'p) Controller \<Rightarrow> string \<Rightarrow> CreateConfig \<Rightarrow> Sandbox \<Rightarrow> (Sandbox ret, ('w, 'p) cstate) act" where
  "Restore_launch c snapshotID cfg sb s =
     (case st_save c sb s of
        (Inl e, s1) \<Rightarrow> ((None, Some (Errorf ''save state: %w'' [AErr e])), recordOp ''restore'' ''error'' s1)
      | (Inr _, s1) \<Rightarrow>
     (case on_rt (rt_Restore (ct_runtime c) snapshotID cfg) s1 of
        (Inl e, s2) \<Rightarrow>
          ((None, Some (Errorf ''restore runtime: %w'' [AErr e])),
           recordOp ''restore'' ''error'' (save_quietly c (with_error (err_text e) sb) s2))
      | (Inr runtimeID, s2) \<Rightarrow>
     (case startAndTrack c runtimeID sb s2 of
        ((Some e, sb1), s3) \<Rightarrow> ((None, Some e), recordOp ''restore'' ''error'' s3)
      | ((None, sb1), s3) \<Rightarrow> Create_finish c ''restore'' sb1 s3)))"

definition Restore ::
  "('w, 'p) Controller \<Rightarrow> string \<Rightarrow> string \<Rightarrow> string \<Rightarrow> (Sandbox ret, ('w, 'p) cstate) act" where
  "Restore c name snapshotID newName s =
     (case st_get c name s of
        (Inl e, s1) \<Rightarrow> ((None, Some e), recordOp ''restore'' ''error'' s1)
      | (Inr src, s1) \<Rightarrow>
        (case st_get c newName s1 of
           (Inr _, s2) \<Rightarrow> ((None, Some (Errorf ''sandbox %q already exists'' [AStr newName])),
             recordOp ''restore'' ''error'' s2)
         | (Inl _, s2) \<Rightarrow>
           (case now s2 of (t, s3) \<Rightarrow>
              Restore_launch c snapshotID (restore_config (ct_host c) src snapshotID newName)
                (restored_sandbox src name newName t) s3)))"

definition ListSnapshots :: "('w, 'p) Controller \<Rightarrow> string \<Rightarrow> (SnapshotInfo list res, ('w, 'p) cstate) act" where
  "ListSnapshots c name s =
     (case st_get c name s of
        (Inl e, s1) \<Rightarrow> (Inl e, s1)
      | (Inr sb, s1) \<Rightarrow>
        if st_RuntimeID (sb_Status sb) = '''' then (Inl (no_runtime_id name), s1)
        else on_rt (rt_ListSnapshots (ct_runtime c) (st_RuntimeID (sb_Status sb))) s1)"

definition DeleteSnapshot :: "('w, 'p) Controller \<Rightarrow> string \<Rightarrow> (unit res, ('w, 'p) cstate) act" where
  "DeleteSnapshot c snapshotID = on_rt (rt_DeleteSnapshot (ct_runtime c) snapshotID)"

definition Stats_of :: "('w, 'p) Controller \<Rightarrow> string \<Rightarrow> (Stats res, ('w, 'p) cstate) act" where
  "Stats_of c name s =
     (case st_get c name s of
        (Inl e, s1) \<Rightarrow> (Inl e, s1)
      | (Inr sb, s1) \<Rightarrow>
        if \<not> is_live sb then (Inl (Errorf ''sandbox %q is not running'' [AStr name]), s1)
        else on_rt (rt_Stats (ct_runtime c) (st_RuntimeID (sb_Status sb))) s1)"

definition Get :: "('w, 'p) Controller \<Rightarrow> string \<Rightarrow> (Sandbox res, ('w, 'p) cstate) act" where
  "Get c name = st_get c name"

definition List :: "('w, 'p) Controller \<Rightarrow> (Sandbox list res, ('w, 'p) cstate) act" where
  "List c = on_ps (kv_List (ct_store c))"

end
