(* ===== verification/ControllerSpec.thy ===== *)
theory ControllerSpec
  imports Controller
begin

text \<open>
  What the sandbox operations of the controller guarantee. The locale \<open>controller_env\<close> collects the
  contracts of the collaborators: the backend and the probes keep the set of containers as
  \<open>container_runtime\<close> and \<open>probe_env\<close> say, the store is a \<open>kv_store\<close>, the quota checker only reads.
  \<open>controller_reliable\<close> adds that the store works and that an existing container can be
  destroyed. Each operation gets one lemma that says how it changes the record map, the set of
  containers and the \<open>SandboxesActive\<close> gauge.
\<close>

section \<open>Unfolding the state threading\<close>

lemma on_rt_eq [iface_simps]:
  "on_rt a s = (r, s') \<longleftrightarrow> (\<exists>w. a (c_rt s) = (r, w) \<and> s' = s\<lparr>c_rt := w\<rparr>)"
  by (auto simp: on_rt_def split: prod.splits)

lemma on_ps_eq [iface_simps]:
  "on_ps a s = (r, s') \<longleftrightarrow> (\<exists>p. a (c_ps s) = (r, p) \<and> s' = s\<lparr>c_ps := p\<rparr>)"
  by (auto simp: on_ps_def split: prod.splits)

lemma now_eq [iface_simps]:
  "now s = (t, s') \<longleftrightarrow> t = c_clock s (c_tick s) \<and> s' = s\<lparr>c_tick := Suc (c_tick s)\<rparr>"
  by (auto simp: now_def)

lemma frame_simps [simp]:
  "c_rt (recordOp op r s) = c_rt s" "c_ps (recordOp op r s) = c_ps s"
  "c_SandboxesActive (recordOp op r s) = c_SandboxesActive s"
  "c_rt (recordExec op r s) = c_rt s" "c_ps (recordExec op r s) = c_ps s"
  "c_SandboxesActive (recordExec op r s) = c_SandboxesActive s"
  "c_rt (active_add k s) = c_rt s" "c_ps (active_add k s) = c_ps s"
  "c_SandboxesActive (active_add k s) = c_SandboxesActive s + k"
  "c_rt (save_quietly c sb s) = c_rt s" "c_ps (destroy_quietly c i s) = c_ps s"
  "c_SandboxesActive (save_quietly c sb s) = c_SandboxesActive s"
  "c_SandboxesActive (destroy_quietly c i s) = c_SandboxesActive s"
  by (simp_all add: recordOp_def recordExec_def active_add_def save_quietly_def destroy_quietly_def
      on_ps_def on_rt_def split: prod.splits)

lemma sandbox_record_simps [simp]:
  "sandbox_key (probe_failed e sb) = sandbox_key sb"
  "sandbox_key (ready_at t sb) = sandbox_key sb"
  "sandbox_key (stopped_at t sb) = sandbox_key sb"
  "sandbox_key (started_at t sb) = sandbox_key sb"
  "sb_Spec (probe_failed e sb) = sb_Spec sb" "sb_Spec (ready_at t sb) = sb_Spec sb"
  "sb_Spec (with_error m sb) = sb_Spec sb"
  "sb_Spec (stopped_at t sb) = sb_Spec sb" "sb_Spec (started_at t sb) = sb_Spec sb"
  "st_RuntimeID (sb_Status (ready_at t sb)) = st_RuntimeID (sb_Status sb)"
  "st_RuntimeID (sb_Status (probe_failed e sb)) = st_RuntimeID (sb_Status sb)"
  "st_RuntimeID (sb_Status (with_error m sb)) = st_RuntimeID (sb_Status sb)"
  "st_RuntimeID (sb_Status (stopped_at t sb)) = st_RuntimeID (sb_Status sb)"
  "st_RuntimeID (sb_Status (started_at t sb)) = st_RuntimeID (sb_Status sb)"
  "st_State (sb_Status (with_error m sb)) = Error"
  "st_State (sb_Status (probe_failed e sb)) = Error"
  "st_State (sb_Status (ready_at t sb)) = Ready"
  "st_State (sb_Status (stopped_at t sb)) = Stopped"
  "st_State (sb_Status (started_at t sb)) = Running"
  by (simp_all add: sandbox_key_def probe_failed_def ready_at_def with_error_def stopped_at_def
      started_at_def)

lemma new_sandbox_simps [simp]:
  "sandbox_key (new_sandbox bp opts t) = co_Name opts"
  "sandbox_key (restored_sandbox src n m t) = m"
  "st_RuntimeID (sb_Status (new_sandbox bp opts t)) = ''''"
  "st_RuntimeID (sb_Status (restored_sandbox src n m t)) = ''''"
  "sp_Team (sb_Spec (new_sandbox bp opts t)) = co_Team opts"
  "sp_Resources (sb_Spec (new_sandbox bp opts t)) = bs_Resources (bp_Spec bp)"
  "sp_Team (sb_Spec (restored_sandbox src n m t)) = ''''"
  by (simp_all add: sandbox_key_def new_sandbox_def restored_sandbox_def zero_status_def)

text \<open>\<open>Create_check\<close> reads the store and asks the quota checker; it goes on only when the name is not
  found, the blueprint is valid and the quota is granted.\<close>

lemma Create_check_run:
  assumes "Create_check c opts s = (r, s')"
  shows "\<exists>x p1. kv_Get (ct_store c) (co_Name opts) (c_ps s) = (x, p1) \<and>
    (s' = s\<lparr>c_ps := p1\<rparr> \<or>
     (\<exists>q rq y p2. ct_quotaChecker c = Some q \<and> q (co_Team opts) rq p1 = (y, p2) \<and> s' = s\<lparr>c_ps := p2\<rparr>))"
proof -
  obtain x p1 where g: "kv_Get (ct_store c) (co_Name opts) (c_ps s) = (x, p1)" by fastforce
  with assms show ?thesis
    by (auto simp: Create_check_def on_ps_def split: sum.splits list.splits option.splits
        prod.splits if_splits)
qed

section \<open>The collaborators\<close>

locale controller_env =
  probe_env "ct_runtime c" live used "ct_net c" +
  kv_store "kv_Get (ct_store c)" "kv_List (ct_store c)" "kv_Save (ct_store c)"
    "kv_Delete (ct_store c)" sandbox_key abs ok
  for c :: "('w, 'p) Controller" and live :: "'w \<Rightarrow> string set" and used :: "'w \<Rightarrow> string set"
    and abs :: "'p \<Rightarrow> string \<rightharpoonup> Sandbox" and ok :: "'p \<Rightarrow> bool" +
  assumes quota_frame: "ct_quotaChecker c = Some q \<Longrightarrow> ok p \<Longrightarrow> q t r p = (x, p') \<Longrightarrow>
      ok p' \<and> abs p' = abs p"
begin

text \<open>The checks before the first write change neither records nor containers.\<close>

lemma Create_check_frame:
  assumes "Create_check c opts s = (r, s')" and "ok (c_ps s)"
  shows "ok (c_ps s')" and "abs (c_ps s') = abs (c_ps s)" and "c_rt s' = c_rt s"
    and "c_SandboxesActive s' = c_SandboxesActive s"
proof -
  from Create_check_run [OF assms(1)] show "c_rt s' = c_rt s"
    and "c_SandboxesActive s' = c_SandboxesActive s" by auto
  from Create_check_run [OF assms(1)] assms(2) show "ok (c_ps s')" "abs (c_ps s') = abs (c_ps s)"
    by (auto dest: get_frame quota_frame) (metis get_frame quota_frame)+
qed

lemma CachedImage_frame:
  assumes "CachedImage c bp s = (r, s')"
  shows "c_ps s' = c_ps s" and "live (c_rt s') = live (c_rt s)" and "used (c_rt s') = used (c_rt s)"
    and "c_SandboxesActive s' = c_SandboxesActive s"
  using assms
  by (auto simp: CachedImage_def iface_simps dest: live_inspect
      split: option.splits prod.splits sum.splits)

end

text \<open>
  \<open>launched live used recs n sp s r s'\<close>: how a launch ends. On success one new container runs, it is the one
  the record names, and the gauge went up; on failure the containers are as before and the
  record is marked as failed.
\<close>

definition launched ::
  "('w \<Rightarrow> string set) \<Rightarrow> ('w \<Rightarrow> string set) \<Rightarrow> ('p \<Rightarrow> string \<rightharpoonup> Sandbox) \<Rightarrow> string \<Rightarrow> SandboxSpec \<Rightarrow>
   ('w, 'p) cstate \<Rightarrow> Sandbox ret \<Rightarrow> ('w, 'p) cstate \<Rightarrow> bool" where
  "launched live used recs n sp s r s' \<longleftrightarrow>
     (case snd r of
        None \<Rightarrow> \<exists>sb. fst r = Some sb \<and> sandbox_key sb = n \<and> sb_Spec sb = sp \<and> is_live sb \<and>
          st_RuntimeID (sb_Status sb) \<notin> used (c_rt s) \<and> st_RuntimeID (sb_Status sb) \<noteq> '''' \<and>
          live (c_rt s') = insert (st_RuntimeID (sb_Status sb)) (live (c_rt s)) \<and>
          used (c_rt s') = insert (st_RuntimeID (sb_Status sb)) (used (c_rt s)) \<and>
          recs (c_ps s') = (recs (c_ps s))(n \<mapsto> sb) \<and>
          c_SandboxesActive s' = c_SandboxesActive s + 1
      | Some e \<Rightarrow> live (c_rt s') = live (c_rt s) \<and> c_SandboxesActive s' = c_SandboxesActive s \<and>
          used (c_rt s) \<subseteq> used (c_rt s') \<and>
          (\<exists>sb. sandbox_key sb = n \<and> sb_Spec sb = sp \<and> st_State (sb_Status sb) = Error \<and>
            (st_RuntimeID (sb_Status sb) = '''' \<or>
             st_RuntimeID (sb_Status sb) \<in> used (c_rt s') - used (c_rt s)) \<and>
            recs (c_ps s') = (recs (c_ps s))(n \<mapsto> sb)))"

definition launching ::
  "('w \<Rightarrow> string set) \<Rightarrow> ('w \<Rightarrow> string set) \<Rightarrow> ('p \<Rightarrow> string \<rightharpoonup> Sandbox) \<Rightarrow> string \<Rightarrow> SandboxSpec \<Rightarrow> string \<Rightarrow> Sandbox \<Rightarrow>
   ('w, 'p) cstate \<Rightarrow> ('w, 'p) cstate \<Rightarrow> bool" where
  "launching live used recs n sp i sb s s' \<longleftrightarrow>
     sandbox_key sb = n \<and> sb_Spec sb = sp \<and> st_State (sb_Status sb) = Running \<and>
     st_RuntimeID (sb_Status sb) = i \<and> i \<noteq> '''' \<and> i \<notin> live (c_rt s) \<and> i \<notin> used (c_rt s) \<and>
     live (c_rt s') = insert i (live (c_rt s)) \<and> used (c_rt s') = insert i (used (c_rt s)) \<and>
     (\<exists>x. recs (c_ps s') = (recs (c_ps s))(n \<mapsto> x)) \<and>
     c_SandboxesActive s' = c_SandboxesActive s"

text \<open>Nothing that matters changed.\<close>

definition unchanged ::
  "('w \<Rightarrow> string set) \<Rightarrow> ('w \<Rightarrow> string set) \<Rightarrow> ('p \<Rightarrow> string \<rightharpoonup> Sandbox) \<Rightarrow> ('w, 'p) cstate \<Rightarrow> ('w, 'p) cstate \<Rightarrow> bool" where
  "unchanged live used recs s s' \<longleftrightarrow> live (c_rt s') = live (c_rt s) \<and> used (c_rt s') = used (c_rt s) \<and>
     recs (c_ps s') = recs (c_ps s) \<and> c_SandboxesActive s' = c_SandboxesActive s"

lemma launched_cong:
  "unchanged live used recs s s0 \<Longrightarrow> launched live used recs n sp s0 r s' = launched live used recs n sp s r s'"
  by (cases "snd r") (simp_all add: launched_def unchanged_def)

text \<open>A working store, and a backend that can remove the containers it has.\<close>

locale controller_reliable = controller_env +
  reliable_store "kv_Get (ct_store c)" "kv_List (ct_store c)" "kv_Save (ct_store c)"
    "kv_Delete (ct_store c)" sandbox_key abs ok +
  assumes destroy_hit: "i \<in> live w \<Longrightarrow> \<exists>w'. rt_Destroy (ct_runtime c) i w = (Inr (), w')"
begin

lemma st_save_run:
  assumes "ok (c_ps s)"
  obtains p where "st_save c sb s = (Inr (), s\<lparr>c_ps := p\<rparr>)" and "ok p"
    and "abs p = (abs (c_ps s))(sandbox_key sb \<mapsto> sb)"
  using save_total [OF assms, of sb] save_done [OF assms, of sb]
  by (auto simp: on_ps_def)

lemma save_quietly_run:
  assumes "ok (c_ps s)"
  shows "ok (c_ps (save_quietly c sb s))"
    and "abs (c_ps (save_quietly c sb s)) = (abs (c_ps s))(sandbox_key sb \<mapsto> sb)"
  by (rule st_save_run [OF assms, of sb], simp add: save_quietly_def)+

lemma destroy_quietly_run:
  assumes "i \<in> live (c_rt s)"
  shows "live (c_rt (destroy_quietly c i s)) = live (c_rt s) - {i}"
    and "used (c_rt (destroy_quietly c i s)) = used (c_rt s)"
  using destroy_hit [OF assms] destroy_gone by (auto simp: destroy_quietly_def on_rt_def)

text \<open>Leaving a launch: the container is gone and the record says so.\<close>

lemma abort_run:
  assumes "s' = save_quietly c sb (destroy_quietly c i s)" and "ok (c_ps s)" and "i \<in> live (c_rt s)"
  shows "ok (c_ps s')" and "abs (c_ps s') = (abs (c_ps s))(sandbox_key sb \<mapsto> sb)"
    and "live (c_rt s') = live (c_rt s) - {i}" and "c_SandboxesActive s' = c_SandboxesActive s"
    and "used (c_rt s') = used (c_rt s)"
  using assms(2) destroy_quietly_run [OF assms(3)] save_quietly_run [of "destroy_quietly c i s" sb]
  by (simp_all add: assms(1))

lemma startAndTrack_run:
  assumes "startAndTrack c i sb s = ((e, sb'), s')" and "ok (c_ps s)" and "i \<in> live (c_rt s)"
  shows "ok (c_ps s') \<and> sandbox_key sb' = sandbox_key sb \<and> sb_Spec sb' = sb_Spec sb \<and>
    c_SandboxesActive s' = c_SandboxesActive s \<and> used (c_rt s') = used (c_rt s) \<and>
    (if e = None then live (c_rt s') = live (c_rt s) \<and> abs (c_ps s') = abs (c_ps s) \<and>
       st_State (sb_Status sb') = Running \<and> st_RuntimeID (sb_Status sb') = i
     else live (c_rt s') = live (c_rt s) - {i} \<and>
       abs (c_ps s') = (abs (c_ps s))(sandbox_key sb \<mapsto> sb') \<and> st_State (sb_Status sb') = Error \<and>
       st_RuntimeID (sb_Status sb') = st_RuntimeID (sb_Status sb))"
proof -
  obtain r w where st: "rt_Start (ct_runtime c) i (c_rt s) = (r, w)" by fastforce
  have lw: "live w = live (c_rt s)" "used w = used (c_rt s)" using live_start [OF st] by auto
  show ?thesis
  proof (cases r)
    case (Inl err)
    then have "e \<noteq> None" "sb' = with_error (err_text err) sb"
      "s' = save_quietly c sb' (destroy_quietly c i (s\<lparr>c_rt := w\<rparr>))"
      using assms(1) st by (auto simp: startAndTrack_def on_rt_def Let_def)
    with abort_run [OF this(3)] assms(2,3) lw show ?thesis by simp
  next
    case (Inr u)
    with assms st lw show ?thesis
      by (auto simp: startAndTrack_def on_rt_def now_def Let_def sandbox_key_def dest!: live_info
          split: sum.splits prod.splits)
  qed
qed

lemma run_setup_run:
  assumes "run_setup c i sb k steps s = (e, s')" and "ok (c_ps s)" and "i \<in> live (c_rt s)"
  shows "ok (c_ps s') \<and> c_SandboxesActive s' = c_SandboxesActive s \<and> used (c_rt s') = used (c_rt s) \<and>
    (if e = None then live (c_rt s') = live (c_rt s) \<and> abs (c_ps s') = abs (c_ps s)
     else live (c_rt s') = live (c_rt s) - {i} \<and>
       (\<exists>m. abs (c_ps s') = (abs (c_ps s))(sandbox_key sb \<mapsto> with_error m sb)))"
  using assms
proof (induction steps arbitrary: k s)
  case (Cons step steps)
  obtain result err w where ex: "rt_Exec (ct_runtime c) i \<lparr>ec_Cmd = [''sh'', ''-c'', ss_Run step],
      ec_Env = [], ec_Dir = '''', ec_Stdin = None, ec_Stdout = False,
         ec_Stderr = False, ec_TTY = False\<rparr> (c_rt s) = ((result, err), w)"
    by (metis prod.exhaust)
  have lw: "live w = live (c_rt s)" "used w = used (c_rt s)" using live_exec [OF ex] by auto
  let ?s = "s\<lparr>c_rt := w\<rparr>"
  show ?case
  proof (cases "err = None \<and> er_ExitCode result = 0")
    case True
    then have "run_setup c i sb (Suc k) steps ?s = (e, s')"
      using Cons.prems(1) ex by (simp add: on_rt_def)
    from Cons.IH [OF this] Cons.prems(2,3) lw show ?thesis by (simp split: if_splits)
  next
    case False
    then obtain m where "e \<noteq> None" "s' = save_quietly c (with_error m sb) (destroy_quietly c i ?s)"
      using Cons.prems(1) ex by (auto simp: on_rt_def Let_def split: option.splits if_splits)
    with abort_run [OF this(2)] Cons.prems(2,3) lw show ?thesis by auto
  qed
qed simp

lemma run_probe_run:
  assumes "run_probe c i sb cfg s = ((e, sb'), s')" and "ok (c_ps s)" and "i \<in> live (c_rt s)"
  shows "ok (c_ps s') \<and> c_SandboxesActive s' = c_SandboxesActive s \<and> used (c_rt s') = used (c_rt s) \<and>
    sandbox_key sb' = sandbox_key sb \<and> sb_Spec sb' = sb_Spec sb \<and>
    st_RuntimeID (sb_Status sb') = st_RuntimeID (sb_Status sb) \<and>
    (if e = None then live (c_rt s') = live (c_rt s) \<and>
       (abs (c_ps s') = abs (c_ps s) \<or> abs (c_ps s') = (abs (c_ps s))(sandbox_key sb \<mapsto> sb)) \<and>
       (if cfg = None then sb' = sb else st_State (sb_Status sb') = Ready)
     else live (c_rt s') = live (c_rt s) - {i} \<and> st_State (sb_Status sb') = Error \<and>
       abs (c_ps s') = (abs (c_ps s))(sandbox_key sb \<mapsto> sb'))"
proof (cases "cfg = None")
  case True
  with assms show ?thesis by (simp add: run_probe_def)
next
  case False
  let ?s = "save_quietly c sb s"
  obtain x w where wf: "WaitForReady (ct_runtime c) (ct_net c) i (st_IP (sb_Status sb)) cfg (c_rt ?s) = (x, w)"
    by fastforce
  have lw: "live w = live (c_rt s)" "used w = used (c_rt s)" using WaitForReady_live [OF wf] by auto
  note sv = save_quietly_run [OF assms(2), of sb]
  show ?thesis
  proof (cases x)
    case None
    then have "e = None" "sb' = ready_at (c_clock (?s\<lparr>c_rt := w\<rparr>) (c_tick (?s\<lparr>c_rt := w\<rparr>))) sb"
      "s' = ?s\<lparr>c_rt := w, c_tick := Suc (c_tick ?s)\<rparr>"
      using assms(1) False wf by (auto simp: run_probe_def on_rt_def now_def)
    with False lw sv show ?thesis by auto
  next
    case (Some err)
    then have "e \<noteq> None" "sb' = probe_failed err sb"
      "s' = save_quietly c sb' (destroy_quietly c i (?s\<lparr>c_rt := w\<rparr>))"
      using assms(1) False wf by (auto simp: run_probe_def on_rt_def Let_def)
    with abort_run [OF this(3)] assms(2,3) lw sv show ?thesis by auto
  qed
qed

lemma Create_finish_run:
  assumes "Create_finish c op sb s = ((r, e), s')" and "ok (c_ps s)"
  shows "ok (c_ps s') \<and> r = Some sb \<and> e = None \<and> c_rt s' = c_rt s \<and>
    abs (c_ps s') = (abs (c_ps s))(sandbox_key sb \<mapsto> sb) \<and>
    c_SandboxesActive s' = c_SandboxesActive s + 1"
  by (rule st_save_run [OF assms(2), of sb]) (use assms(1) in \<open>auto simp: Create_finish_def\<close>)

lemma fresh_container:
  assumes "rt_Create (ct_runtime c) cfg (c_rt s) = (Inr i, w) \<or>
    rt_Restore (ct_runtime c) snap cfg (c_rt s) = (Inr i, w)"
  shows "i \<notin> live (c_rt s) \<and> i \<notin> used (c_rt s) \<and> i \<noteq> '''' \<and>
    live w = insert i (live (c_rt s)) \<and> used w = insert i (used (c_rt s))"
  using assms create_fresh restore_fresh live_used by blast

lemma failed_backend:
  assumes "rt_Create (ct_runtime c) cfg (c_rt s) = (Inl e, w) \<or>
    rt_Restore (ct_runtime c) snap cfg (c_rt s) = (Inl e, w)"
  shows "live w = live (c_rt s) \<and> used w = used (c_rt s)"
  using assms create_fail restore_fail by blast

text \<open>Saving the record first, then a backend call that yields no container.\<close>

lemma launched_no_container:
  assumes "ok (c_ps s)" and "st_save c sb s = (Inr u, s1)" and "live w = live (c_rt s) \<and> used w = used (c_rt s)"
    and "st_RuntimeID (sb_Status sb) = ''''"
  shows "launched live used abs (sandbox_key sb) (sb_Spec sb) s (r, Some e)
    (recordOp op res (save_quietly c (with_error m sb) (s1\<lparr>c_rt := w\<rparr>)))
    \<and> ok (c_ps (recordOp op res (save_quietly c (with_error m sb) (s1\<lparr>c_rt := w\<rparr>))))"
proof -
  obtain p where p: "s1 = s\<lparr>c_ps := p\<rparr>" "ok p" "abs p = (abs (c_ps s))(sandbox_key sb \<mapsto> sb)"
    using st_save_run [OF assms(1), of sb] assms(2) by auto
  have "ok (c_ps (s1\<lparr>c_rt := w\<rparr>))" using p by simp
  from save_quietly_run [OF this, of "with_error m sb"] p assms(3,4) show ?thesis
    by (auto simp: launched_def intro!: exI [of _ "with_error m sb"])
qed

text \<open>
  \<open>launching n sp i sb s s'\<close>: the state in the middle of a launch that began in \<open>s\<close>. The new
  container \<open>i\<close> exists and \<open>sb\<close> is the record that describes it.
\<close>

lemma launch_tail:
  assumes mid: "launching live used abs n sp i sb s s3" and "ok (c_ps s3)"
    and su: "run_setup c i sb 0 steps s3 = (e2, s4)"
    and probe: "run_probe c i sb cfg s4 = ((e3, sb2), s5)"
    and run: "(r, s') = (case e2 of Some e \<Rightarrow> ((None, Some e), recordOp op ''error'' s4)
       | None \<Rightarrow> (case e3 of Some e \<Rightarrow> ((Some sb2, Some e), recordOp op ''error'' s5)
       | None \<Rightarrow> Create_finish c op sb2 s5))"
  shows "ok (c_ps s') \<and> launched live used abs n sp s r s'"
proof -
  note m = mid [unfolded launching_def]
  have L3: "i \<in> live (c_rt s3)" using m by simp
  note Se = run_setup_run [OF su \<open>ok (c_ps s3)\<close> L3]
  show ?thesis
  proof (cases e2)
    case (Some e)
    with Se obtain x where "abs (c_ps s4) = (abs (c_ps s3))(sandbox_key sb \<mapsto> with_error x sb)"
      by auto
    with Some Se m run show ?thesis by (auto simp: launched_def intro!: exI [of _ "with_error x sb"])
  next
    case None
    with Se L3 have "ok (c_ps s4)" "i \<in> live (c_rt s4)" by auto
    note Pr = run_probe_run [OF probe this]
    show ?thesis
    proof (cases e3)
      case (Some e)
      with None Se Pr m run show ?thesis by (auto simp: launched_def intro!: exI [of _ sb2])
    next
      case e3: None
      then obtain r1 r2 where fin: "Create_finish c op sb2 s5 = ((r1, r2), s')" and "r = (r1, r2)"
        using run None by (metis option.simps(4) prod.exhaust)
      from e3 Pr m have "is_live sb2" by (auto simp: is_live_def split: if_splits)
      with Create_finish_run [OF fin] Pr Se None e3 m \<open>r = (r1, r2)\<close> show ?thesis
        by (auto simp: launched_def)
    qed
  qed
qed

lemma launch_started:
  assumes "st_save c sb s = (Inr (), s\<lparr>c_ps := p\<rparr>)" "ok p"
      "abs p = (abs (c_ps s))(sandbox_key sb \<mapsto> sb)"
    and fresh: "i \<notin> live (c_rt s) \<and> i \<notin> used (c_rt s) \<and> i \<noteq> '''' \<and>
      live w = insert i (live (c_rt s)) \<and> used w = insert i (used (c_rt s))"
    and st: "startAndTrack c i sb (s\<lparr>c_ps := p, c_rt := w\<rparr>) = ((e, sb1), s3)"
    and "st_RuntimeID (sb_Status sb) = ''''"
  shows "ok (c_ps s3)"
    and "e = None \<Longrightarrow> launching live used abs (sandbox_key sb) (sb_Spec sb) i sb1 s s3"
    and "e \<noteq> None \<Longrightarrow> launched live used abs (sandbox_key sb) (sb_Spec sb) s (r, e) (recordOp op res s3)"
  using assms startAndTrack_run [OF st]
  by (auto simp: launching_def launched_def)

lemma Create_launch_run:
  assumes "Create_launch c bp cfg uc sb s = (r, s')" and "ok (c_ps s)"
    and "st_RuntimeID (sb_Status sb) = ''''"
  shows "ok (c_ps s') \<and> launched live used abs (sandbox_key sb) (sb_Spec sb) s r s'"
proof -
  obtain p where p: "st_save c sb s = (Inr (), s\<lparr>c_ps := p\<rparr>)" "ok p"
    "abs p = (abs (c_ps s))(sandbox_key sb \<mapsto> sb)"
    by (rule st_save_run [OF assms(2)])
  obtain x w where x: "rt_Create (ct_runtime c) cfg (c_rt s) = (x, w)" by fastforce
  show ?thesis
  proof (cases x)
    case (Inl e)
    have "live w = live (c_rt s) \<and> used w = used (c_rt s)" using x Inl by (intro failed_backend) auto
    from launched_no_container [OF assms(2) p(1) this assms(3)] assms(1) p(1) x Inl show ?thesis
      by (auto simp: Create_launch_def on_rt_def)
  next
    case (Inr i)
    have f: "i \<notin> live (c_rt s) \<and> i \<notin> used (c_rt s) \<and> i \<noteq> '''' \<and>
        live w = insert i (live (c_rt s)) \<and> used w = insert i (used (c_rt s))"
      using x Inr by (intro fresh_container) auto
    obtain e1 sb1 s3 where st: "startAndTrack c i sb (s\<lparr>c_ps := p, c_rt := w\<rparr>) = ((e1, sb1), s3)"
      by (metis prod.exhaust)
    note go = launch_started [OF p f st assms(3)]
    obtain e2 s4 where se: "run_setup c i sb1 0 (if uc then [] else bs_Setup (bp_Spec bp)) s3 = (e2, s4)"
      by fastforce
    obtain e3 sb2 s5 where pr: "run_probe c i sb1 (bs_ReadinessProbe (bp_Spec bp)) s4 = ((e3, sb2), s5)"
      by (metis prod.exhaust)
    note unf = Create_launch_def on_rt_def p(1) x Inr st se pr
    show ?thesis
    proof (cases e1)
      case None
      have "(r, s') = (case e2 of Some e \<Rightarrow> ((None, Some e), recordOp ''create'' ''error'' s4)
        | None \<Rightarrow> (case e3 of Some e \<Rightarrow> ((Some sb2, Some e), recordOp ''create'' ''error'' s5)
        | None \<Rightarrow> Create_finish c ''create'' sb2 s5))"
        using assms(1) None by (auto simp: unf split: option.splits)
      from launch_tail [OF go(2) go(1) se pr this] f None show ?thesis by simp
    next
      case (Some e)
      with assms(1) f go(1,3) show ?thesis by (auto simp: unf)
    qed
  qed
qed

lemma Restore_launch_run:
  assumes "Restore_launch c snap cfg sb s = (r, s')" and "ok (c_ps s)"
    and "st_RuntimeID (sb_Status sb) = ''''"
  shows "ok (c_ps s') \<and> launched live used abs (sandbox_key sb) (sb_Spec sb) s r s'"
proof -
  obtain p where p: "st_save c sb s = (Inr (), s\<lparr>c_ps := p\<rparr>)" "ok p"
    "abs p = (abs (c_ps s))(sandbox_key sb \<mapsto> sb)"
    by (rule st_save_run [OF assms(2)])
  obtain x w where x: "rt_Restore (ct_runtime c) snap cfg (c_rt s) = (x, w)" by fastforce
  show ?thesis
  proof (cases x)
    case (Inl e)
    have "live w = live (c_rt s) \<and> used w = used (c_rt s)" using x Inl by (intro failed_backend) auto
    from launched_no_container [OF assms(2) p(1) this assms(3)] assms(1) p(1) x Inl show ?thesis
      by (auto simp: Restore_launch_def on_rt_def)
  next
    case (Inr i)
    have f: "i \<notin> live (c_rt s) \<and> i \<notin> used (c_rt s) \<and> i \<noteq> '''' \<and>
        live w = insert i (live (c_rt s)) \<and> used w = insert i (used (c_rt s))"
      using x Inr by (intro fresh_container) auto
    obtain e1 sb1 s3 where st: "startAndTrack c i sb (s\<lparr>c_ps := p, c_rt := w\<rparr>) = ((e1, sb1), s3)"
      by (metis prod.exhaust)
    note go = launch_started [OF p f st assms(3)]
    note unf = Restore_launch_def on_rt_def p(1) x Inr st
    show ?thesis
    proof (cases e1)
      case None
      have none: "run_setup c i sb1 0 [] s3 = (None, s3)" "run_probe c i sb1 None s3 = ((None, sb1), s3)"
        by (simp_all add: run_probe_def)
      have "(r, s') = Create_finish c ''restore'' sb1 s3"
        using assms(1) None by (auto simp: unf)
      then show ?thesis
        using launch_tail [OF go(2) go(1) none, of r s' "''restore''"] f None by simp
    next
      case (Some e)
      with assms(1) f go(1,3) show ?thesis by (auto simp: unf)
    qed
  qed
qed

section \<open>The operations\<close>

lemma get_miss: "ok p \<Longrightarrow> kv_Get (ct_store c) n p = (Inl e, p') \<Longrightarrow> abs p n = None"
  using get_hit [of p n] by (cases "abs p n") auto

lemma Create_check_absent:
  assumes "Create_check c opts s = (Inr bp, s')" and "ok (c_ps s)"
  shows "abs (c_ps s) (co_Name opts) = None"
proof -
  obtain x p1 where x: "kv_Get (ct_store c) (co_Name opts) (c_ps s) = (x, p1)" by fastforce
  with assms(1) obtain e where "x = Inl e"
    by (cases x) (auto simp: Create_check_def on_ps_def)
  with x assms(2) get_miss show ?thesis by blast
qed

lemma Create_run:
  assumes "Create c opts s = (r, s')" and "ok (c_ps s)"
  shows "ok (c_ps s')"
    and "(unchanged live used abs s s' \<and> snd r \<noteq> None) \<or>
      (\<exists>sp. sp_Team sp = co_Team opts \<and> abs (c_ps s) (co_Name opts) = None \<and>
        launched live used abs (co_Name opts) sp s r s')"
proof -
  obtain x s1 where x: "Create_check c opts s = (x, s1)" by fastforce
  note ck = Create_check_frame [OF x assms(2)]
  have "ok (c_ps s') \<and> ((unchanged live used abs s s' \<and> snd r \<noteq> None) \<or>
      (\<exists>sp. sp_Team sp = co_Team opts \<and> abs (c_ps s) (co_Name opts) = None \<and> launched live used abs (co_Name opts) sp s r s'))"
  proof (cases x)
    case (Inl e)
    with assms(1) x ck show ?thesis by (auto simp: Create_def unchanged_def)
  next
    case (Inr bp)
    obtain y s2 where y: "CachedImage c bp s1 = (y, s2)" by fastforce
    note ci = CachedImage_frame [OF y]
    show ?thesis
    proof (cases "workspace_allowed (co_WorkspaceDir opts)")
      case True
      let ?s3 = "s2\<lparr>c_tick := Suc (c_tick s2)\<rparr>"
      let ?sb = "new_sandbox bp opts (c_clock s2 (c_tick s2))"
      obtain cfg where "Create_launch c bp cfg (y \<noteq> None) ?sb ?s3 = (r, s')"
        using assms(1) x Inr y True by (auto simp: Create_def now_def Let_def)
      note run = Create_launch_run [OF this]
      have "unchanged live used abs s ?s3" "ok (c_ps ?s3)" using ck ci by (simp_all add: unchanged_def)
      with run have "ok (c_ps s')" "launched live used abs (co_Name opts) (sb_Spec ?sb) s r s'"
        by (simp_all add: launched_cong)
      moreover have "sp_Team (sb_Spec ?sb) = co_Team opts" by simp
      moreover have "abs (c_ps s) (co_Name opts) = None"
        using Create_check_absent x Inr assms(2) by blast
      ultimately show ?thesis by blast
    next
      case False
      with assms(1) x Inr y ck ci show ?thesis by (auto simp: Create_def Let_def unchanged_def)
    qed
  qed
  then show "ok (c_ps s')" "(unchanged live used abs s s' \<and> snd r \<noteq> None) \<or>
      (\<exists>sp. sp_Team sp = co_Team opts \<and> abs (c_ps s) (co_Name opts) = None \<and> launched live used abs (co_Name opts) sp s r s')" by auto
qed

lemma Restore_run:
  assumes "Restore c n snap m s = (r, s')" and "ok (c_ps s)"
  shows "ok (c_ps s') \<and> ((unchanged live used abs s s' \<and> snd r \<noteq> None) \<or>
      (\<exists>sp. sp_Team sp = '''' \<and> abs (c_ps s) m = None \<and> launched live used abs m sp s r s'))"
proof -
  obtain x p1 where x: "kv_Get (ct_store c) n (c_ps s) = (x, p1)" by fastforce
  obtain y p2 where y: "kv_Get (ct_store c) m p1 = (y, p2)" by fastforce
  have fr: "ok p1" "abs p1 = abs (c_ps s)" "ok p2" "abs p2 = abs (c_ps s)"
    using get_frame [OF assms(2) x] get_frame [OF _ y] by auto
  show ?thesis
  proof (cases "\<exists>src e. x = Inr src \<and> y = Inl e")
    case False
    with assms(1) x y fr show ?thesis
      by (auto simp: Restore_def on_ps_def unchanged_def split: sum.splits)
  next
    case True
    then obtain src e where e: "x = Inr src" "y = Inl e" by blast
    let ?s3 = "s\<lparr>c_ps := p2, c_tick := Suc (c_tick s)\<rparr>"
    let ?sb = "restored_sandbox src n m (c_clock s (c_tick s))"
    have "Restore_launch c snap (restore_config (ct_host c) src snap m) ?sb ?s3 = (r, s')"
      using assms(1) x y e by (simp add: Restore_def on_ps_def now_def)
    note run = Restore_launch_run [OF this]
    have "unchanged live used abs s ?s3" using fr by (simp add: unchanged_def)
    with run fr have "ok (c_ps s')" "launched live used abs m (sb_Spec ?sb) s r s'"
      by (simp_all add: launched_cong)
    moreover have "sp_Team (sb_Spec ?sb) = ''''" by simp
    moreover have "abs (c_ps s) m = None" using get_miss y e fr by metis
    ultimately show ?thesis by blast
  qed
qed

text \<open>Stop and start both look the sandbox up, call the backend, take the time and save the record.\<close>

lemma transition_run:
  assumes "ok (c_ps s)" and "kv_Get (ct_store c) n (c_ps s) = (Inr sb, p1)"
    and "live w = live (c_rt s) \<and> used w = used (c_rt s)" and "now (s\<lparr>c_ps := p1, c_rt := w\<rparr>) = (t, s3)"
    and "sandbox_key (f t sb) = sandbox_key sb"
  obtains p where "st_save c (f t sb) s3 = (Inr (), s3\<lparr>c_ps := p\<rparr>)" "ok p"
    "abs (c_ps s) n = Some sb" "abs p = (abs (c_ps s))(n \<mapsto> f t sb)"
    "live (c_rt s3) = live (c_rt s)" "used (c_rt s3) = used (c_rt s)"
    "c_SandboxesActive s3 = c_SandboxesActive s"
proof -
  have s3: "c_ps s3 = p1" "c_rt s3 = w" "c_SandboxesActive s3 = c_SandboxesActive s"
    using assms(4) by (auto simp: now_eq)
  have fr: "ok p1" "abs p1 = abs (c_ps s)" using get_frame [OF assms(1,2)] by auto
  have found: "abs (c_ps s) n = Some sb" using get_found [OF assms(1,2)] .
  have "sandbox_key sb = n" using keyed [OF assms(1) found] .
  then show thesis
    using st_save_run [of s3 "f t sb"] that found fr s3 assms(3,5) by metis
qed

lemma Stop_run:
  assumes "Stop c n s = (r, s')" and "ok (c_ps s)"
  shows "ok (c_ps s') \<and> live (c_rt s') = live (c_rt s) \<and> used (c_rt s') = used (c_rt s) \<and>
    (case r of
       Inl e \<Rightarrow> abs (c_ps s') = abs (c_ps s) \<and> c_SandboxesActive s' = c_SandboxesActive s
     | Inr _ \<Rightarrow> \<exists>sb t. abs (c_ps s) n = Some sb \<and> is_live sb \<and>
         abs (c_ps s') = (abs (c_ps s))(n \<mapsto> stopped_at t sb) \<and>
         c_SandboxesActive s' = c_SandboxesActive s - 1)"
proof -
  obtain x p1 where x: "kv_Get (ct_store c) n (c_ps s) = (x, p1)" by fastforce
  note fr = get_frame [OF assms(2) x]
  show ?thesis
  proof (cases "\<exists>sb. x = Inr sb \<and> is_live sb")
    case False
    with assms(1) x fr show ?thesis by (auto simp: Stop_def on_ps_def split: sum.splits)
  next
    case True
    then obtain sb where sb: "x = Inr sb" "is_live sb" by blast
    obtain y w where y: "rt_Stop (ct_runtime c) (st_RuntimeID (sb_Status sb)) (c_rt s) = (y, w)" by fastforce
    have lw: "live w = live (c_rt s) \<and> used w = used (c_rt s)" using live_stop [OF y] .
    obtain t s3 where s3: "now (s\<lparr>c_ps := p1, c_rt := w\<rparr>) = (t, s3)" by fastforce
    note unf = Stop_def on_ps_def [of "kv_Get _ _"] on_rt_def x sb y s3
    show ?thesis
    proof (cases y)
      case (Inl e)
      then obtain e' where "r = Inl e'" "s' = recordOp ''stop'' ''error'' (s\<lparr>c_ps := p1, c_rt := w\<rparr>)"
        using assms(1) by (auto simp: unf)
      with fr lw show ?thesis by simp
    next
      case (Inr u)
      from transition_run [OF assms(2) x [unfolded sb(1)] lw s3, of stopped_at] obtain p where
        p: "st_save c (stopped_at t sb) s3 = (Inr (), s3\<lparr>c_ps := p\<rparr>)" "ok p"
          "abs (c_ps s) n = Some sb" "abs p = (abs (c_ps s))(n \<mapsto> stopped_at t sb)"
          "live (c_rt s3) = live (c_rt s)" "used (c_rt s3) = used (c_rt s)"
          "c_SandboxesActive s3 = c_SandboxesActive s" by auto
      then have "r = Inr ()" "s' = recordOp ''stop'' ''success'' (active_add (- 1) (s3\<lparr>c_ps := p\<rparr>))"
        using assms(1) Inr by (auto simp: unf)
      with p sb show ?thesis by auto
    qed
  qed
qed

lemma Start_run:
  assumes "Start c n s = (r, s')" and "ok (c_ps s)"
  shows "ok (c_ps s') \<and> live (c_rt s') = live (c_rt s) \<and> used (c_rt s') = used (c_rt s) \<and>
    (case r of
       Inl e \<Rightarrow> abs (c_ps s') = abs (c_ps s) \<and> c_SandboxesActive s' = c_SandboxesActive s
     | Inr _ \<Rightarrow> \<exists>sb t. abs (c_ps s) n = Some sb \<and> st_State (sb_Status sb) = Stopped \<and>
         abs (c_ps s') = (abs (c_ps s))(n \<mapsto> started_at t sb) \<and>
         c_SandboxesActive s' = c_SandboxesActive s + 1)"
proof -
  obtain x p1 where x: "kv_Get (ct_store c) n (c_ps s) = (x, p1)" by fastforce
  note fr = get_frame [OF assms(2) x]
  show ?thesis
  proof (cases "\<exists>sb. x = Inr sb \<and> st_State (sb_Status sb) = Stopped")
    case False
    with assms(1) x fr show ?thesis by (auto simp: Start_def on_ps_def split: sum.splits)
  next
    case True
    then obtain sb where sb: "x = Inr sb" "st_State (sb_Status sb) = Stopped" by blast
    obtain y w where y: "rt_Start (ct_runtime c) (st_RuntimeID (sb_Status sb)) (c_rt s) = (y, w)" by fastforce
    have lw: "live w = live (c_rt s) \<and> used w = used (c_rt s)" using live_start [OF y] .
    obtain t s3 where s3: "now (s\<lparr>c_ps := p1, c_rt := w\<rparr>) = (t, s3)" by fastforce
    note unf = Start_def on_ps_def [of "kv_Get _ _"] on_rt_def x sb y s3
    show ?thesis
    proof (cases y)
      case (Inl e)
      then obtain e' where "r = Inl e'" "s' = recordOp ''start'' ''error'' (s\<lparr>c_ps := p1, c_rt := w\<rparr>)"
        using assms(1) by (auto simp: unf)
      with fr lw show ?thesis by simp
    next
      case (Inr u)
      from transition_run [OF assms(2) x [unfolded sb(1)] lw s3, of started_at] obtain p where
        p: "st_save c (started_at t sb) s3 = (Inr (), s3\<lparr>c_ps := p\<rparr>)" "ok p"
          "abs (c_ps s) n = Some sb" "abs p = (abs (c_ps s))(n \<mapsto> started_at t sb)"
          "live (c_rt s3) = live (c_rt s)" "used (c_rt s3) = used (c_rt s)"
          "c_SandboxesActive s3 = c_SandboxesActive s" by auto
      then have "r = Inr ()" "s' = recordOp ''start'' ''success'' (active_add 1 (s3\<lparr>c_ps := p\<rparr>))"
        using assms(1) Inr by (auto simp: unf)
      with p sb show ?thesis by auto
    qed
  qed
qed

lemma Destroy_run:
  assumes "Destroy c n s = (r, s')" and "ok (c_ps s)"
  shows "ok (c_ps s') \<and>
    (case r of
       Inl e \<Rightarrow> unchanged live used abs s s'
     | Inr _ \<Rightarrow> \<exists>sb. abs (c_ps s) n = Some sb \<and> abs (c_ps s') = (abs (c_ps s))(n := None) \<and>
         live (c_rt s') = (if st_RuntimeID (sb_Status sb) = '''' then live (c_rt s)
                           else live (c_rt s) - {st_RuntimeID (sb_Status sb)}) \<and>
         used (c_rt s') = used (c_rt s) \<and>
         c_SandboxesActive s' = c_SandboxesActive s - (if is_live sb then 1 else 0))"
proof -
  obtain x p1 where x: "kv_Get (ct_store c) n (c_ps s) = (x, p1)" by fastforce
  note fr = get_frame [OF assms(2) x]
  show ?thesis
  proof (cases x)
    case (Inl e)
    with assms(1) x fr show ?thesis by (auto simp: Destroy_def on_ps_def unchanged_def)
  next
    case (Inr sb)
    have found: "abs (c_ps s) n = Some sb" using get_found [OF assms(2)] x Inr by simp
    obtain y w where y: "(if st_RuntimeID (sb_Status sb) \<noteq> ''''
        then rt_Destroy (ct_runtime c) (st_RuntimeID (sb_Status sb)) (c_rt s) else (Inr (), c_rt s)) = (y, w)"
      by fastforce
    have del: "kv_Delete (ct_store c) n p1 = (Inr (), snd (kv_Delete (ct_store c) n p1))"
      using del_hit [of p1 n] fr found by (metis domI snd_conv)
    note dd = del_done [OF _ del]
    note unf = Destroy_def on_ps_def on_rt_def x Inr
    show ?thesis
    proof (cases y)
      case (Inl e)
      with assms(1) y fr show ?thesis
        by (auto simp: unf unchanged_def dest!: destroy_fail split: if_splits)
    next
      case y': (Inr u)
      then have "live w = (if st_RuntimeID (sb_Status sb) = '''' then live (c_rt s)
        else live (c_rt s) - {st_RuntimeID (sb_Status sb)}) \<and> used w = used (c_rt s)"
        using y destroy_gone [of "st_RuntimeID (sb_Status sb)" "c_rt s" w] by (auto split: if_splits)
      moreover have "r = Inr ()" "s' = (recordOp ''destroy'' ''success'' (if is_live sb
          then active_add (- 1) (s\<lparr>c_ps := p1, c_rt := w\<rparr>) else s\<lparr>c_ps := p1, c_rt := w\<rparr>))
          \<lparr>c_ps := snd (kv_Delete (ct_store c) n p1)\<rparr>"
        using assms(1) y y' del
        by (auto simp: unf recordOp_def active_add_def split: if_splits prod.splits)
      ultimately show ?thesis using dd fr found by auto
    qed
  qed
qed

lemma Destroy_total:
  assumes "ok (c_ps s)" and "abs (c_ps s) n = Some sb" and "st_RuntimeID (sb_Status sb) \<noteq> ''''" and "st_RuntimeID (sb_Status sb) \<in> live (c_rt s)"
  shows "\<exists>s'. Destroy c n s = (Inr (), s')"
proof -
  obtain x p1 where x: "kv_Get (ct_store c) n (c_ps s) = (x, p1)" by fastforce
  have "x = Inr sb" using get_hit [OF assms(1,2)] x by auto
  moreover obtain w where "rt_Destroy (ct_runtime c) (st_RuntimeID (sb_Status sb)) (c_rt s) = (Inr (), w)"
    using destroy_hit [OF assms(4)] by blast
  moreover obtain p2 where "kv_Delete (ct_store c) n p1 = (Inr (), p2)"
    using del_hit [of p1 n] get_frame [OF assms(1) x] assms(2) by (metis domI)
  ultimately show ?thesis using x assms(3)
    by (simp add: Destroy_def on_ps_def on_rt_def recordOp_def active_add_def)
qed

lemma absent:
  assumes "ok (c_ps s)" and "abs (c_ps s) n = None"
  shows "\<not> is_ok (fst (Get c n s))" and "\<not> is_ok (fst (Destroy c n s))"
proof -
  obtain x p1 where x: "kv_Get (ct_store c) n (c_ps s) = (x, p1)" by fastforce
  then obtain e where "x = Inl e" using get_found [of "c_ps s" n _ p1] assms by (cases x) auto
  with x show "\<not> is_ok (fst (Get c n s))" "\<not> is_ok (fst (Destroy c n s))"
    by (simp_all add: Get_def Destroy_def on_ps_def)
qed

end

end
