(* ===== verification/Lifecycle.thy ===== *)
theory Lifecycle
  imports ControllerSpec
begin

text \<open>
  The controller as a whole: sequences of requests, the invariant that ties the records, the
  containers and the \<open>SandboxesActive\<close> gauge together, and the abstract life cycle of one sandbox that
  every request refines.
\<close>

datatype request = ReqCreate CreateOptions | ReqStop string | ReqStart string | ReqDestroy string
  | ReqRestore string string string

fun perform :: "('w, 'p) Controller \<Rightarrow> request \<Rightarrow> ('w, 'p) cstate \<Rightarrow> ('w, 'p) cstate" where
  "perform c (ReqCreate opts) s = snd (Create c opts s)"
| "perform c (ReqStop n) s = snd (Stop c n s)"
| "perform c (ReqStart n) s = snd (Start c n s)"
| "perform c (ReqDestroy n) s = snd (Destroy c n s)"
| "perform c (ReqRestore n snap m) s = snd (Restore c n snap m s)"

definition serve :: "('w, 'p) Controller \<Rightarrow> request list \<Rightarrow> ('w, 'p) cstate \<Rightarrow> ('w, 'p) cstate" where
  "serve c reqs s = fold (perform c) reqs s"

section \<open>Effects\<close>

text \<open>How a request may change the records: one new record, one changed record, one record less.
  The container IDs \<open>L\<close> that exist and \<open>U\<close> that were ever used, and the gauge, go with it.\<close>

abbreviation rid :: "Sandbox \<Rightarrow> string" where
  "rid sb \<equiv> st_RuntimeID (sb_Status sb)"

abbreviation sstate :: "Sandbox \<Rightarrow> SandboxState" where
  "sstate sb \<equiv> st_State (sb_Status sb)"

definition holds_container :: "Sandbox \<Rightarrow> bool" where
  "holds_container sb \<longleftrightarrow> is_live sb \<or> sstate sb = Stopped"

type_synonym view = "(string \<rightharpoonup> Sandbox) \<times> string set \<times> string set \<times> int"

inductive effect :: "view \<Rightarrow> view \<Rightarrow> bool" where
  same: "effect (M, L, U, k) (M, L, U, k)"
| launch: "M n = None \<Longrightarrow> is_live sb \<Longrightarrow> rid sb \<notin> U \<Longrightarrow> rid sb \<noteq> '''' \<Longrightarrow>
    effect (M, L, U, k) (M(n \<mapsto> sb), insert (rid sb) L, insert (rid sb) U, k + 1)"
| launch_failed: "M n = None \<Longrightarrow> sstate sb = Error \<Longrightarrow> U \<subseteq> U' \<Longrightarrow> rid sb = '''' \<or> rid sb \<in> U' - U \<Longrightarrow>
    effect (M, L, U, k) (M(n \<mapsto> sb), L, U', k)"
| stop: "M n = Some sb \<Longrightarrow> is_live sb \<Longrightarrow>
    effect (M, L, U, k) (M(n \<mapsto> stopped_at t sb), L, U, k - 1)"
| start: "M n = Some sb \<Longrightarrow> sstate sb = Stopped \<Longrightarrow>
    effect (M, L, U, k) (M(n \<mapsto> started_at t sb), L, U, k + 1)"
| destroy: "M n = Some sb \<Longrightarrow>
    effect (M, L, U, k) (M(n := None), if rid sb = '''' then L else L - {rid sb}, U,
      k - (if is_live sb then 1 else 0))"

inductive_cases effectE: "effect v v'"

definition view_of ::
  "('w \<Rightarrow> string set) \<Rightarrow> ('w \<Rightarrow> string set) \<Rightarrow> ('p \<Rightarrow> string \<rightharpoonup> Sandbox) \<Rightarrow> ('w, 'p) cstate \<Rightarrow> view" where
  "view_of live used recs s = (recs (c_ps s), live (c_rt s), used (c_rt s), c_SandboxesActive s)"

lemma launched_effect:
  assumes "launched live used recs n sp s r s'" and "recs (c_ps s) n = None"
  shows "effect (view_of live used recs s) (view_of live used recs s')"
proof (cases "snd r")
  case None
  with assms show ?thesis by (auto simp: launched_def view_of_def intro!: effect.launch)
next
  case (Some e)
  with assms show ?thesis by (auto simp: launched_def view_of_def intro!: effect.launch_failed)
qed

lemma unchanged_effect:
  "unchanged live used recs s s' \<Longrightarrow> effect (view_of live used recs s) (view_of live used recs s')"
  by (simp add: unchanged_def view_of_def effect.same)

context controller_reliable
begin

lemma perform_effect:
  assumes "ok (c_ps s)"
  shows "ok (c_ps (perform c req s)) \<and>
    effect (view_of live used abs s) (view_of live used abs (perform c req s))"
proof (cases req)
  case (ReqCreate opts)
  obtain r s' where r: "Create c opts s = (r, s')" by fastforce
  from Create_run [OF r assms] ReqCreate r show ?thesis
    by (auto intro: launched_effect unchanged_effect)
next
  case (ReqStop n)
  obtain r s' where r: "Stop c n s = (r, s')" by fastforce
  from Stop_run [OF r assms] ReqStop r show ?thesis
    by (cases r) (auto simp: view_of_def intro: effect.same effect.stop)
next
  case (ReqStart n)
  obtain r s' where r: "Start c n s = (r, s')" by fastforce
  from Start_run [OF r assms] ReqStart r show ?thesis
    by (cases r) (auto simp: view_of_def intro: effect.same effect.start)
next
  case (ReqDestroy n)
  obtain r s' where r: "Destroy c n s = (r, s')" by fastforce
  from Destroy_run [OF r assms] ReqDestroy r show ?thesis
  proof (cases r)
    case (Inr u)
    with Destroy_run [OF r assms] obtain sb where "abs (c_ps s) n = Some sb" by auto
    from effect.destroy [of "abs (c_ps s)", OF this] Destroy_run [OF r assms] Inr ReqDestroy r this
    show ?thesis by (auto simp: view_of_def)
  qed (auto intro: unchanged_effect)
next
  case (ReqRestore n snap m)
  obtain r s' where r: "Restore c n snap m s = (r, s')" by fastforce
  from Restore_run [OF r assms] ReqRestore r show ?thesis
    by (auto intro: launched_effect unchanged_effect)
qed

lemma serve_effects:
  "ok (c_ps s) \<Longrightarrow> ok (c_ps (serve c reqs s)) \<and>
   effect\<^sup>*\<^sup>* (view_of live used abs s) (view_of live used abs (serve c reqs s))"
proof (induction reqs arbitrary: s)
  case (Cons req reqs)
  have "effect (view_of live used abs s) (view_of live used abs (perform c req s))"
    using perform_effect [OF Cons.prems] by blast
  moreover have "ok (c_ps (perform c req s))" using perform_effect [OF Cons.prems] by blast
  ultimately show ?case using Cons.IH [of "perform c req s"]
    by (auto simp: serve_def intro: converse_rtranclp_into_rtranclp)
qed (simp add: serve_def)

end

section \<open>The invariant\<close>

text \<open>
  Every record that stands for a container names one that exists, no two records name the same,
  and the gauge counts the records in state Running or Ready.
\<close>

definition actives :: "(string \<rightharpoonup> Sandbox) \<Rightarrow> string set" where
  "actives M = {n. \<exists>sb. M n = Some sb \<and> is_live sb}"

definition ids_known :: "(string \<rightharpoonup> Sandbox) \<Rightarrow> string set \<Rightarrow> bool" where
  "ids_known M U \<longleftrightarrow> (\<forall>n sb. M n = Some sb \<longrightarrow> rid sb = '''' \<or> rid sb \<in> U)"

definition ids_held :: "(string \<rightharpoonup> Sandbox) \<Rightarrow> string set \<Rightarrow> bool" where
  "ids_held M L \<longleftrightarrow> (\<forall>n sb. M n = Some sb \<longrightarrow> holds_container sb \<longrightarrow> rid sb \<noteq> '''' \<and> rid sb \<in> L)"

definition ids_distinct :: "(string \<rightharpoonup> Sandbox) \<Rightarrow> bool" where
  "ids_distinct M \<longleftrightarrow>
     (\<forall>n m a b. M n = Some a \<longrightarrow> M m = Some b \<longrightarrow> n \<noteq> m \<longrightarrow> rid a \<noteq> '''' \<longrightarrow> rid a \<noteq> rid b)"

fun view_inv :: "view \<Rightarrow> bool" where
  "view_inv (M, L, U, k) \<longleftrightarrow> finite (dom M) \<and> L \<subseteq> U \<and> ids_known M U \<and> ids_held M L \<and>
     ids_distinct M \<and> k = int (card (actives M))"

text \<open>Containers that no record names (the empty string is no container ID).\<close>

fun orphans :: "view \<Rightarrow> string set" where
  "orphans (M, L, U, k) = L - insert '''' {rid sb |sb n. M n = Some sb}"

lemma actives_upd [simp]:
  "actives (M(n \<mapsto> sb)) = (if is_live sb then insert n (actives M) else actives M - {n})"
  "actives (M(n := None)) = actives M - {n}"
  by (auto simp: actives_def)

lemma actives_finite: "finite (dom M) \<Longrightarrow> finite (actives M)"
  by (rule finite_subset [of _ "dom M"]) (auto simp: actives_def)

lemma actives_iff: "M n = Some sb \<Longrightarrow> n \<in> actives M \<longleftrightarrow> is_live sb"
  by (simp add: actives_def)

lemma actives_none: "M n = None \<Longrightarrow> n \<notin> actives M"
  by (simp add: actives_def)

lemma card_remove: "finite A \<Longrightarrow> n \<in> A \<Longrightarrow> int (card (A - {n})) = int (card A) - 1"
  using card_Suc_Diff1 [of A n] by simp

lemma holds_simps [simp]:
  "holds_container (stopped_at t sb)" "holds_container (started_at t sb)"
  "is_live (started_at t sb)" "\<not> is_live (stopped_at t sb)"
  by (simp_all add: holds_container_def is_live_def)

lemma live_holds: "is_live sb \<Longrightarrow> holds_container sb"
  by (simp add: holds_container_def)

lemma error_not_held: "sstate sb = Error \<Longrightarrow> \<not> holds_container sb \<and> \<not> is_live sb"
  by (simp add: holds_container_def is_live_def)

lemma same_id_distinct:
  "ids_distinct M \<Longrightarrow> M n = Some a \<Longrightarrow> rid b = rid a \<Longrightarrow> ids_distinct (M(n \<mapsto> b))"
  unfolding ids_distinct_def by (auto split: if_splits)

lemma fresh_id_distinct:
  assumes "ids_distinct M" and "ids_known M U" and "rid b = '''' \<or> rid b \<notin> U"
  shows "ids_distinct (M(n \<mapsto> b))"
  using assms unfolding ids_distinct_def ids_known_def by (auto split: if_splits) metis+

lemma effect_inv: "effect v v' \<Longrightarrow> view_inv v \<Longrightarrow> view_inv v'"
proof (induction rule: effect.induct)
  case (launch M n sb U L k)
  then have "n \<notin> actives M" "finite (actives M)"
    by (auto simp: actives_none actives_finite)
  with launch show ?case
    by (auto simp: fresh_id_distinct ids_known_def ids_held_def split: if_splits)
next
  case (launch_failed M n sb U U' L k)
  then have "actives M - {n} = actives M" by (auto dest: actives_none)
  with launch_failed show ?case
    by (auto simp: fresh_id_distinct [of _ U] error_not_held ids_known_def ids_held_def split: if_splits)
      blast+
next
  case (stop M n sb L U k t)
  then have "int (card (actives M - {n})) = int (card (actives M)) - 1"
    by (intro card_remove) (auto simp: actives_iff actives_finite)
  with stop show ?case
    by (auto simp: same_id_distinct ids_known_def ids_held_def live_holds split: if_splits)
next
  case (start M n sb L U k t)
  then have "n \<notin> actives M" "finite (actives M)" "holds_container sb"
    by (auto simp: actives_iff actives_finite is_live_def holds_container_def)
  with start show ?case
    by (auto simp: same_id_distinct ids_known_def ids_held_def split: if_splits)
next
  case (destroy M n sb L U k)
  have "int (card (actives M - {n})) = int (card (actives M)) - (if is_live sb then 1 else 0)"
    using destroy card_remove [of "actives M" n] by (cases "is_live sb") (auto simp: actives_iff actives_finite)
  with destroy show ?case
    by (auto simp: ids_known_def ids_held_def ids_distinct_def split: if_splits)
qed simp

lemma effects_inv: "effect\<^sup>*\<^sup>* v v' \<Longrightarrow> view_inv v \<Longrightarrow> view_inv v'"
  by (induction rule: rtranclp_induct) (auto intro: effect_inv)

lemma effect_orphans: "effect v v' \<Longrightarrow> orphans v' \<subseteq> orphans v"
proof (induction rule: effect.induct)
  case (launch M n sb U L k)
  then show ?case by (auto; metis option.distinct(1))
next
  case (launch_failed M n sb U U' L k)
  then show ?case by (auto; metis option.distinct(1))
next
  case (stop M n sb L U k t)
  then show ?case by (auto; metis option.inject sandbox_record_simps(13))
next
  case (start M n sb L U k t)
  then show ?case by (auto; metis option.inject sandbox_record_simps(14))
next
  case (destroy M n sb L U k)
  then show ?case by (auto split: if_splits; metis option.inject)
qed simp

lemma effects_orphans: "effect\<^sup>*\<^sup>* v v' \<Longrightarrow> orphans v' \<subseteq> orphans v"
  by (induction rule: rtranclp_induct) (auto dest: effect_orphans)

section \<open>The life cycle of one sandbox\<close>

inductive lifecycle :: "SandboxState option \<Rightarrow> SandboxState option \<Rightarrow> bool" where
  created: "lifecycle None (Some Running)"
| created_ready: "lifecycle None (Some Ready)"
| create_failed: "lifecycle None (Some Error)"
| stopped: "x = Running \<or> x = Ready \<Longrightarrow> lifecycle (Some x) (Some Stopped)"
| restarted: "lifecycle (Some Stopped) (Some Running)"
| destroyed: "lifecycle (Some x) None"

inductive_simps lifecycle_from: "lifecycle (Some x) y"

definition phase :: "(string \<rightharpoonup> Sandbox) \<Rightarrow> string \<Rightarrow> SandboxState option" where
  "phase M n = map_option (\<lambda>sb. st_State (sb_Status sb)) (M n)"

text \<open>A request moves at most one sandbox, and that one along its life cycle.\<close>

definition refines :: "(string \<rightharpoonup> Sandbox) \<Rightarrow> (string \<rightharpoonup> Sandbox) \<Rightarrow> bool" where
  "refines M M' \<longleftrightarrow> M' = M \<or>
     (\<exists>n. (\<forall>m. m \<noteq> n \<longrightarrow> M' m = M m) \<and> lifecycle (phase M n) (phase M' n))"

lemma effect_refines: "effect v v' \<Longrightarrow> refines (fst v) (fst v')"
proof (induction rule: effect.induct)
  case (launch M n sb U L k)
  then show ?case unfolding refines_def
    by (intro disjI2 exI [of _ n]) (auto simp: phase_def is_live_def intro: lifecycle.intros)
next
  case (launch_failed M n sb U U' L k)
  then show ?case unfolding refines_def
    by (intro disjI2 exI [of _ n]) (auto simp: phase_def intro: lifecycle.intros)
next
  case (stop M n sb L U k t)
  then show ?case unfolding refines_def
    by (intro disjI2 exI [of _ n]) (auto simp: phase_def is_live_def intro: lifecycle.intros)
next
  case (start M n sb L U k t)
  then show ?case unfolding refines_def
    by (intro disjI2 exI [of _ n]) (auto simp: phase_def intro: lifecycle.intros)
next
  case (destroy M n sb L U k)
  then show ?case unfolding refines_def
    by (intro disjI2 exI [of _ n]) (auto simp: phase_def intro: lifecycle.intros)
qed (simp add: refines_def)

end
