(* ===== verification/SandboxOps.thy ===== *)
theory SandboxOps
  imports Lifecycle
begin

text \<open>
  The rest of \<open>internal/controller\<close>: file operations inside a sandbox (\<open>controller.go\<close>), sessions
  (\<open>session.go\<close>), matrices (\<open>matrix.go\<close>) and the reconciliation of the store with the containers
  the backend still has (\<open>reconciler.go\<close>).
\<close>

section \<open>Files in a sandbox\<close>

record FileInfo =
  fi_Name :: string
  fi_Path :: string
  fi_Size :: int
  fi_IsDir :: bool
  fi_ModTime :: string

definition validateFilePath :: "string \<Rightarrow> goerr option" where
  "validateFilePath path =
     (if path = '''' then Some (Errorf ''path is required'' [])
      else if \<not> IsAbs path then Some (Errorf ''path must be absolute'' [])
      else if Contains path ''..'' then Some (Errorf (''path must not contain '..'' @ [CHR 0x27]) [])
      else None)"

definition runningSandboxID :: "('w, 'p) Controller \<Rightarrow> string \<Rightarrow> (string res, ('w, 'p) cstate) act" where
  "runningSandboxID c name s =
     (case st_get c name s of
        (Inl e, s1) \<Rightarrow> (Inl e, s1)
      | (Inr sb, s1) \<Rightarrow>
          if \<not> is_live sb then (Inl (not_in_state ''running'' name sb), s1)
          else (Inr (st_RuntimeID (sb_Status sb)), s1))"

definition WriteFile :: "('w, 'p) Controller \<Rightarrow> string \<Rightarrow> string \<Rightarrow> string \<Rightarrow> (unit res, ('w, 'p) cstate) act" where
  "WriteFile c name path content s =
     (case validateFilePath path of Some e \<Rightarrow> (Inl e, s) | None \<Rightarrow>
      case runningSandboxID c name s of
        (Inl e, s1) \<Rightarrow> (Inl e, s1)
      | (Inr i, s1) \<Rightarrow> on_rt (rt_CopyToContainer (ct_runtime c) i path content) s1)"

definition ReadFile :: "('w, 'p) Controller \<Rightarrow> string \<Rightarrow> string \<Rightarrow> (string res, ('w, 'p) cstate) act" where
  "ReadFile c name path s =
     (case validateFilePath path of Some e \<Rightarrow> (Inl e, s) | None \<Rightarrow>
      case runningSandboxID c name s of
        (Inl e, s1) \<Rightarrow> (Inl e, s1)
      | (Inr i, s1) \<Rightarrow> on_rt (rt_CopyFromContainer (ct_runtime c) i path) s1)"

text \<open>\<open>time.Unix(t, 0).UTC().Format(time.RFC3339)\<close>, for the years 0 to 9999: the proleptic Gregorian
  calendar counted from 1 March of year 0.\<close>

definition pad2 :: "int \<Rightarrow> string" where
  "pad2 n = pad_left 2 (itoa n)"

definition civil_date :: "int \<Rightarrow> int \<times> int \<times> int" where
  "civil_date days =
     (let z = days + 719468; era = z div 146097; doe = z mod 146097;
          yoe = (doe - doe div 1460 + doe div 36524 - doe div 146096) div 365;
          doy = doe - (365 * yoe + yoe div 4 - yoe div 100);
          mp = (5 * doy + 2) div 153;
          d = doy - (153 * mp + 2) div 5 + 1;
          m = (if mp < 10 then mp + 3 else mp - 9) in
      (yoe + era * 400 + (if m \<le> 2 then 1 else 0), m, d))"

definition rfc3339 :: "int \<Rightarrow> string" where
  "rfc3339 t =
     (let (y, m, d) = civil_date (t div 86400); r = t mod 86400 in
      pad_left 4 (itoa y) @ ''-'' @ pad2 m @ ''-'' @ pad2 d @ ''T'' @ pad2 (r div 3600) @ '':''
        @ pad2 (r div 60 mod 60) @ '':'' @ pad2 (r mod 60) @ ''Z'')"

abbreviation tab :: char where "tab \<equiv> CHR 0x09"
abbreviation newline :: char where "newline \<equiv> CHR 0x0A"

definition stat_command :: "string \<Rightarrow> string" where
  "stat_command path =
     ''stat -c '%n'' @ [tab] @ ''%s'' @ [tab] @ ''%F'' @ [tab] @ ''%Y' '' @ path @ ''/* '' @ path
       @ ''/.* 2>/dev/null || true''"

fun parse_stat_lines :: "string \<Rightarrow> string list \<Rightarrow> FileInfo list" where
  "parse_stat_lines path [] = []"
| "parse_stat_lines path (raw # rest) =
     (let line = TrimSpace raw in
      if line = '''' then parse_stat_lines path rest
      else case SplitN line tab 4 of
        [p0, p1, p2, p3] \<Rightarrow>
          let fname = Base p0 in
          if fname = ''.'' \<or> fname = ''..'' then parse_stat_lines path rest
          else \<lparr>fi_Name = fname, fi_Path = Join [path, fname], fi_Size = ParseInt_val p1,
                fi_IsDir = Contains p2 ''directory'', fi_ModTime = rfc3339 (ParseInt_val p3)\<rparr>
               # parse_stat_lines path rest
      | _ \<Rightarrow> parse_stat_lines path rest)"

definition ListFiles :: "('w, 'p) Controller \<Rightarrow> string \<Rightarrow> string \<Rightarrow> (FileInfo list res, ('w, 'p) cstate) act" where
  "ListFiles c name path s =
     (case validateFilePath path of Some e \<Rightarrow> (Inl e, s) | None \<Rightarrow>
      case runningSandboxID c name s of
        (Inl e, s1) \<Rightarrow> (Inl e, s1)
      | (Inr i, s1) \<Rightarrow>
        (case on_rt (rt_Exec (ct_runtime c) i \<lparr>ec_Cmd = [''sh'', ''-c'', stat_command path], ec_Env = [],
               ec_Dir = '''', ec_Stdin = None, ec_Stdout = True, ec_Stderr = True, ec_TTY = False\<rparr>) s1 of
           ((result, Some e), s2) \<Rightarrow> (Inl (Errorf ''list files: %w'' [AErr e]), s2)
         | ((result, None), s2) \<Rightarrow>
             if er_ExitCode result \<noteq> 0 then
               (Inl (Errorf ''list files failed (exit %d): %s''
                  [AInt (er_ExitCode result), AStr (er_Stderr result)]), s2)
             else (Inr (parse_stat_lines path (Split (er_Stdout result) newline)), s2)))"

section \<open>Sessions\<close>

definition errSessionsNotConfigured :: goerr where
  "errSessionsNotConfigured = Errorf ''sessions not configured'' []"

text \<open>16 random bytes, in hexadecimal, after the name of the sandbox.\<close>

definition generateSessionID :: "string \<Rightarrow> (string, ('w, 'p) cstate) act" where
  "generateSessionID sandboxName s =
     (sandboxName @ ''-'' @ hex_encode (c_rand s (c_draw s)), s\<lparr>c_draw := Suc (c_draw s)\<rparr>)"

definition new_session :: "string \<Rightarrow> string \<Rightarrow> gtime \<Rightarrow> Session" where
  "new_session i sandboxName t =
     \<lparr>se_Type = \<lparr>tm_APIVersion = ''smx/v1alpha1'', tm_Kind = ''Session''\<rparr>,
      se_Metadata = \<lparr>om_Name = i, om_Version = '''', om_Labels = [], om_CreatedAt = t, om_UpdatedAt = t\<rparr>,
      se_Sandbox = sandboxName, se_State = SessActive, se_StartedAt = Some t, se_EndedAt = None,
      se_ExecCount = 0\<rparr>"

definition sessions_add :: "int \<Rightarrow> ('w, 'p) cstate \<Rightarrow> ('w, 'p) cstate" where
  "sessions_add k s = s\<lparr>c_SessionsActive := c_SessionsActive s + k\<rparr>"

definition StartSession :: "('w, 'p) Controller \<Rightarrow> string \<Rightarrow> (Session res, ('w, 'p) cstate) act" where
  "StartSession c sandboxName s =
     (case ct_sessions c of None \<Rightarrow> (Inl errSessionsNotConfigured, s) | Some ss \<Rightarrow>
      case st_get c sandboxName s of
        (Inl e, s1) \<Rightarrow> (Inl (Errorf ''sandbox %q not found: %w'' [AStr sandboxName, AErr e]), s1)
      | (Inr sb, s1) \<Rightarrow>
          if \<not> is_live sb then (Inl (not_in_state ''running'' sandboxName sb), s1)
          else (case now s1 of (t, s2) \<Rightarrow>
            case generateSessionID sandboxName s2 of (i, s3) \<Rightarrow>
            case on_ps (kv_Save ss (new_session i sandboxName t)) s3 of
              (Inl e, s4) \<Rightarrow> (Inl (Errorf ''save session: %w'' [AErr e]), s4)
            | (Inr _, s4) \<Rightarrow> (Inr (new_session i sandboxName t), sessions_add 1 s4)))"

definition session_not_active :: "string \<Rightarrow> Session \<Rightarrow> goerr" where
  "session_not_active i se =
     Errorf ''session %q is not active (state: %s)'' [AStr i, AStr (session_state_text (se_State se))]"

definition ended_at :: "gtime \<Rightarrow> Session \<Rightarrow> Session" where
  "ended_at t se = se\<lparr>se_State := SessCompleted, se_EndedAt := Some t,
     se_Metadata := (se_Metadata se)\<lparr>om_UpdatedAt := t\<rparr>\<rparr>"

text \<open>The gauge goes down before the record is saved, also when the save then fails.\<close>

definition EndSession :: "('w, 'p) Controller \<Rightarrow> string \<Rightarrow> (unit res, ('w, 'p) cstate) act" where
  "EndSession c i s =
     (case ct_sessions c of None \<Rightarrow> (Inl errSessionsNotConfigured, s) | Some ss \<Rightarrow>
      case on_ps (kv_Get ss i) s of
        (Inl e, s1) \<Rightarrow> (Inl (Errorf ''session %q not found: %w'' [AStr i, AErr e]), s1)
      | (Inr se, s1) \<Rightarrow>
          if se_State se \<noteq> SessActive then (Inl (session_not_active i se), s1)
          else (case now s1 of (t, s2) \<Rightarrow> on_ps (kv_Save ss (ended_at t se)) (sessions_add (- 1) s2)))"

definition GetSession :: "('w, 'p) Controller \<Rightarrow> string \<Rightarrow> (Session res, ('w, 'p) cstate) act" where
  "GetSession c i s =
     (case ct_sessions c of None \<Rightarrow> (Inl errSessionsNotConfigured, s) | Some ss \<Rightarrow> on_ps (kv_Get ss i) s)"

definition ListSessions :: "('w, 'p) Controller \<Rightarrow> string \<Rightarrow> (Session list res, ('w, 'p) cstate) act" where
  "ListSessions c sandboxName s =
     (case ct_sessions c of None \<Rightarrow> (Inl errSessionsNotConfigured, s)
      | Some ss \<Rightarrow> if sandboxName \<noteq> '''' then on_ps (ss_ListBySandbox ss sandboxName) s
                   else on_ps (kv_List ss) s)"

definition counted_at :: "gtime \<Rightarrow> Session \<Rightarrow> Session" where
  "counted_at t se = se\<lparr>se_ExecCount := wrap64 (se_ExecCount se + 1),
     se_Metadata := (se_Metadata se)\<lparr>om_UpdatedAt := t\<rparr>\<rparr>"

definition ExecInSession ::
  "('w, 'p) Controller \<Rightarrow> string \<Rightarrow> ExecConfig \<Rightarrow> (ExecResult \<times> goerr option, ('w, 'p) cstate) act" where
  "ExecInSession c i cfg s =
     (case ct_sessions c of None \<Rightarrow> ((zero_exec, Some errSessionsNotConfigured), s) | Some ss \<Rightarrow>
      case on_ps (kv_Get ss i) s of
        (Inl e, s1) \<Rightarrow> ((zero_exec, Some (Errorf ''session %q not found: %w'' [AStr i, AErr e])), s1)
      | (Inr se, s1) \<Rightarrow>
          if se_State se \<noteq> SessActive then ((zero_exec, Some (session_not_active i se)), s1)
          else (case Exec c (se_Sandbox se) cfg s1 of
             ((result, Some e), s2) \<Rightarrow> ((result, Some e), s2)
           | ((result, None), s2) \<Rightarrow>
               (case now s2 of (t, s3) \<Rightarrow>
                case on_ps (kv_Save ss (counted_at t se)) s3 of
                  (Inl e, s4) \<Rightarrow> ((result, Some (Errorf
                      ''command succeeded but session update failed: %w'' [AErr e])), s4)
                | (Inr _, s4) \<Rightarrow> ((result, None), s4))))"

section \<open>Matrices\<close>

definition matrixNetworkName :: "string \<Rightarrow> string" where
  "matrixNetworkName name = ''smx-matrix-'' @ name"

definition member_sandbox :: "string \<Rightarrow> MatrixMember \<Rightarrow> string" where
  "member_sandbox name m = name @ ''-'' @ mm_Name m"

definition no_matrix_store :: goerr where
  "no_matrix_store = Errorf ''matrix store not configured'' []"

text \<open>The cleanup loop: destroy the members that come before the first one with the failed name.\<close>

fun cleanup_members ::
  "('w, 'p) Controller \<Rightarrow> string \<Rightarrow> string \<Rightarrow> MatrixMember list \<Rightarrow> ('w, 'p) cstate \<Rightarrow> ('w, 'p) cstate" where
  "cleanup_members c name failed [] s = s"
| "cleanup_members c name failed (m # ms) s =
     (if member_sandbox name m = failed then s
      else cleanup_members c name failed ms (snd (Destroy c (member_sandbox name m) s)))"

definition member_options :: "string \<Rightarrow> string \<Rightarrow> MatrixMember \<Rightarrow> CreateOptions" where
  "member_options name team m =
     \<lparr>co_Name = member_sandbox name m, co_BlueprintPath = mm_Blueprint m, co_WorkspaceDir = '''',
      co_NetworkName = matrixNetworkName name, co_Env = [], co_Team = team\<rparr>"

fun create_members ::
  "('w, 'p) Controller \<Rightarrow> string \<Rightarrow> string \<Rightarrow> MatrixMember list \<Rightarrow> MatrixMember list \<Rightarrow>
   (goerr option, ('w, 'p) cstate) act" where
  "create_members c name team members [] s = (None, s)"
| "create_members c name team members (m # ms) s =
     (case Create c (member_options name team m) s of
        ((_, None), s1) \<Rightarrow> create_members c name team members ms s1
      | ((_, Some e), s1) \<Rightarrow>
          (Some (Errorf ''create member sandbox %q: %w'' [AStr (member_sandbox name m), AErr e]),
           snd (on_rt (rt_DeleteNetwork (ct_runtime c) (matrixNetworkName name))
             (cleanup_members c name (member_sandbox name m) members s1))))"

definition new_matrix :: "string \<Rightarrow> string \<Rightarrow> MatrixMember list \<Rightarrow> gtime \<Rightarrow> Matrix" where
  "new_matrix name team members t =
     \<lparr>mx_Type = \<lparr>tm_APIVersion = ''smx/v1alpha1'', tm_Kind = ''Matrix''\<rparr>,
      mx_Metadata = \<lparr>om_Name = name, om_Version = '''', om_Labels = [], om_CreatedAt = t, om_UpdatedAt = t\<rparr>,
      mx_Team = team, mx_Members = members, mx_State = MxActive, mx_Sharding = None,
      mx_Aggregation = None, mx_Results = []\<rparr>"

definition matrix_quota_request :: "MatrixMember list \<Rightarrow> QuotaRequest" where
  "matrix_quota_request members =
     \<lparr>qr_Sandboxes = int (length members), qr_CPU = '''', qr_Memory = '''', qr_Disk = '''', qr_GPUs = 0,
      qr_Matrices = 1, qr_Sessions = 0\<rparr>"

definition matrix_quota :: "('w, 'p) Controller \<Rightarrow> string \<Rightarrow> MatrixMember list \<Rightarrow> (unit res, ('w, 'p) cstate) act" where
  "matrix_quota c team members s =
     (case ct_quotaChecker c of
        Some check \<Rightarrow> if team \<noteq> '''' then on_ps (check team (matrix_quota_request members)) s else (Inr (), s)
      | None \<Rightarrow> (Inr (), s))"

text \<open>\<open>team\<close> is the team of the options, the empty string when there are none.\<close>

definition CreateMatrix ::
  "('w, 'p) Controller \<Rightarrow> string \<Rightarrow> MatrixMember list \<Rightarrow> string \<Rightarrow> (Matrix res, ('w, 'p) cstate) act" where
  "CreateMatrix c name members team s =
     (case ct_matrices c of None \<Rightarrow> (Inl no_matrix_store, s) | Some ms \<Rightarrow>
      case on_ps (kv_Get ms name) s of
        (Inr _, s1) \<Rightarrow> (Inl (Errorf ''matrix %q already exists'' [AStr name]), s1)
      | (Inl _, s1) \<Rightarrow>
     (case matrix_quota c team members s1 of
        (Inl e, s2) \<Rightarrow> (Inl (Errorf ''quota check: %w'' [AErr e]), s2)
      | (Inr _, s2) \<Rightarrow>
     (case on_rt (rt_CreateNetwork (ct_runtime c) (matrixNetworkName name) True) s2 of
        (Inl e, s3) \<Rightarrow> (Inl (Errorf ''create matrix network: %w'' [AErr e]), s3)
      | (Inr _, s3) \<Rightarrow>
     (case now s3 of (t, s4) \<Rightarrow>
      case create_members c name team members members s4 of
        (Some e, s5) \<Rightarrow> (Inl e, s5)
      | (None, s5) \<Rightarrow>
     (case on_ps (kv_Save ms (new_matrix name team members t)) s5 of
        (Inl e, s6) \<Rightarrow> (Inl (Errorf ''save matrix: %w'' [AErr e]), s6)
      | (Inr _, s6) \<Rightarrow> (Inr (new_matrix name team members t), s6))))))"

text \<open>The member loops of the other operations go on after an error and keep the first one.\<close>

fun each_member ::
  "(string \<Rightarrow> (unit res, 's) act) \<Rightarrow> string \<Rightarrow> string \<Rightarrow> MatrixMember list \<Rightarrow> goerr option \<Rightarrow>
   (goerr option, 's) act" where
  "each_member op verb name [] first s = (first, s)"
| "each_member op verb name (m # ms) first s =
     (case op (member_sandbox name m) s of
        (Inr _, s1) \<Rightarrow> each_member op verb name ms first s1
      | (Inl e, s1) \<Rightarrow>
          each_member op verb name ms
            (if first = None then Some (Errorf (verb @ '' member %q: %w'')
               [AStr (member_sandbox name m), AErr e]) else first) s1)"

definition matrix_not :: "string \<Rightarrow> string \<Rightarrow> Matrix \<Rightarrow> goerr" where
  "matrix_not what name mx =
     Errorf (''matrix %q is not '' @ what @ '' (state: %s)'')
       [AStr name, AStr (matrix_state_text (mx_State mx))]"

definition matrix_at :: "MatrixState \<Rightarrow> gtime \<Rightarrow> Matrix \<Rightarrow> Matrix" where
  "matrix_at x t mx = mx\<lparr>mx_State := x, mx_Metadata := (mx_Metadata mx)\<lparr>om_UpdatedAt := t\<rparr>\<rparr>"

definition StopMatrix :: "('w, 'p) Controller \<Rightarrow> string \<Rightarrow> (unit res, ('w, 'p) cstate) act" where
  "StopMatrix c name s =
     (case ct_matrices c of None \<Rightarrow> (Inl no_matrix_store, s) | Some ms \<Rightarrow>
      case on_ps (kv_Get ms name) s of
        (Inl e, s1) \<Rightarrow> (Inl e, s1)
      | (Inr mx, s1) \<Rightarrow>
          if mx_State mx \<noteq> MxActive then (Inl (matrix_not ''active'' name mx), s1)
          else (case each_member (Stop c) ''stop'' name (mx_Members mx) None s1 of
            (Some e, s2) \<Rightarrow> (Inl e, s2)
          | (None, s2) \<Rightarrow> (case now s2 of (t, s3) \<Rightarrow> on_ps (kv_Save ms (matrix_at MxStopped t mx)) s3)))"

definition StartMatrix :: "('w, 'p) Controller \<Rightarrow> string \<Rightarrow> (unit res, ('w, 'p) cstate) act" where
  "StartMatrix c name s =
     (case ct_matrices c of None \<Rightarrow> (Inl no_matrix_store, s) | Some ms \<Rightarrow>
      case on_ps (kv_Get ms name) s of
        (Inl e, s1) \<Rightarrow> (Inl e, s1)
      | (Inr mx, s1) \<Rightarrow>
          if mx_State mx \<noteq> MxStopped then (Inl (matrix_not ''stopped'' name mx), s1)
          else (case each_member (Start c) ''start'' name (mx_Members mx) None s1 of
            (Some e, s2) \<Rightarrow> (Inl e, s2)
          | (None, s2) \<Rightarrow> (case now s2 of (t, s3) \<Rightarrow> on_ps (kv_Save ms (matrix_at MxActive t mx)) s3)))"

definition DestroyMatrix :: "('w, 'p) Controller \<Rightarrow> string \<Rightarrow> (unit res, ('w, 'p) cstate) act" where
  "DestroyMatrix c name s =
     (case ct_matrices c of None \<Rightarrow> (Inl no_matrix_store, s) | Some ms \<Rightarrow>
      case on_ps (kv_Get ms name) s of
        (Inl e, s1) \<Rightarrow> (Inl e, s1)
      | (Inr mx, s1) \<Rightarrow>
          (case each_member (Destroy c) ''destroy'' name (mx_Members mx) None s1 of (first, s2) \<Rightarrow>
           case on_ps (kv_Delete ms name)
                  (snd (on_rt (rt_DeleteNetwork (ct_runtime c) (matrixNetworkName name)) s2)) of
             (d, s3) \<Rightarrow>
               ((case first of Some e \<Rightarrow> Inl e | None \<Rightarrow> (case d of Inl e \<Rightarrow> Inl e | Inr _ \<Rightarrow> Inr ())), s3)))"

definition GetMatrix :: "('w, 'p) Controller \<Rightarrow> string \<Rightarrow> (Matrix res, ('w, 'p) cstate) act" where
  "GetMatrix c name s =
     (case ct_matrices c of None \<Rightarrow> (Inl no_matrix_store, s) | Some ms \<Rightarrow> on_ps (kv_Get ms name) s)"

definition ListMatrices :: "('w, 'p) Controller \<Rightarrow> (Matrix list res, ('w, 'p) cstate) act" where
  "ListMatrices c s =
     (case ct_matrices c of None \<Rightarrow> (Inl no_matrix_store, s) | Some ms \<Rightarrow> on_ps (kv_List ms) s)"

section \<open>Reconciliation\<close>

definition mapContainerState :: "string \<Rightarrow> SandboxState" where
  "mapContainerState d =
     (if d = ''running'' then Running else if d = ''exited'' then Stopped
      else if d = ''created'' then Pending else Error)"

definition reconciled :: "Info \<Rightarrow> gtime \<Rightarrow> Sandbox" where
  "reconciled info t =
     (let name = gm_str (in_Labels info) ''sandboxmatrix/sandbox'';
          ref = gm_str (in_Labels info) ''sandboxmatrix/blueprint'' in
      \<lparr>sb_Type = \<lparr>tm_APIVersion = ''smx/v1alpha1'', tm_Kind = ''Sandbox''\<rparr>,
       sb_Metadata = \<lparr>om_Name = name, om_Version = '''',
         om_Labels = [(''blueprint'', ref), (''reconciled'', ''true'')], om_CreatedAt = t, om_UpdatedAt = t\<rparr>,
       sb_Spec = \<lparr>sp_BlueprintRef = ref, sp_BlueprintPath = '''', sp_Resources = zero_resources,
         sp_Workspace = zero_workspace, sp_Team = '''', sp_Priority = 0\<rparr>,
       sb_Status = zero_status\<lparr>st_State := mapContainerState (in_State info), st_RuntimeID := in_ID info,
         st_IP := in_IP info\<rparr>\<rparr>)"

fun reconcile_each :: "('w, 'p) Controller \<Rightarrow> Info list \<Rightarrow> (unit res, ('w, 'p) cstate) act" where
  "reconcile_each c [] s = (Inr (), s)"
| "reconcile_each c (info # infos) s =
     (let name = gm_str (in_Labels info) ''sandboxmatrix/sandbox'' in
      if name = '''' then reconcile_each c infos s
      else case st_get c name s of
        (Inr _, s1) \<Rightarrow> reconcile_each c infos s1
      | (Inl _, s1) \<Rightarrow>
          (case now s1 of (t, s2) \<Rightarrow>
           case st_save c (reconciled info t) s2 of
             (Inl e, s3) \<Rightarrow> (Inl (Errorf ''reconcile: save sandbox %q: %w'' [AStr name, AErr e]), s3)
           | (Inr _, s3) \<Rightarrow> reconcile_each c infos s3))"

definition Reconcile :: "('w, 'p) Controller \<Rightarrow> (unit res, ('w, 'p) cstate) act" where
  "Reconcile c s =
     (case on_rt (rt_List (ct_runtime c)) s of
        (Inl e, s1) \<Rightarrow> (Inl (Errorf ''reconcile: list runtime containers: %w'' [AErr e]), s1)
      | (Inr infos, s1) \<Rightarrow> reconcile_each c infos s1)"

end
