(* ===== verification/MatrixSpec.thy ===== *)
theory MatrixSpec
  imports SandboxOps
begin

text \<open>
  What creating a matrix and reconciling guarantee. A matrix is created member by member; when a
  member fails, those created before it are destroyed again. The proof follows the set \<open>F\<close> of
  sandboxes that a call has added so far: \<open>extra F v v'\<close> says that the view \<open>v'\<close> is \<open>v\<close> plus
  the records of \<open>F\<close>, their containers, and their number on the gauge.
\<close>

section \<open>Added sandboxes\<close>

definition held_ids :: "(string \<rightharpoonup> Sandbox) \<Rightarrow> string set" where
  "held_ids F = {rid sb |sb n. F n = Some sb}"

fun extra :: "(string \<rightharpoonup> Sandbox) \<Rightarrow> view \<Rightarrow> view \<Rightarrow> bool" where
  "extra F (M0, L0, U0, k0) (M, L, U, k) \<longleftrightarrow>
     finite (dom F) \<and> dom F \<inter> dom M0 = {} \<and> M = M0 ++ F \<and> L = L0 \<union> held_ids F \<and> L0 \<subseteq> U \<and>
     (\<forall>n sb. F n = Some sb \<longrightarrow> is_live sb \<and> rid sb \<noteq> '''' \<and> rid sb \<notin> L0 \<and> rid sb \<in> U) \<and>
     ids_distinct F \<and> k = k0 + int (card (dom F))"

lemma extra_empty: "L \<subseteq> U \<Longrightarrow> extra Map.empty (M, L, U0, k) (M, L, U, k)"
  by (simp add: ids_distinct_def held_ids_def)

lemma held_ids_upd:
  "F n = None \<Longrightarrow> held_ids (F(n \<mapsto> sb)) = insert (rid sb) (held_ids F)"
  by (auto simp: held_ids_def split: if_splits) (metis option.distinct(1))

lemma held_ids_del:
  assumes "ids_distinct F" "F n = Some sb" "rid sb \<noteq> ''''"
  shows "held_ids (F(n := None)) = held_ids F - {rid sb}"
proof
  show "held_ids (F(n := None)) \<subseteq> held_ids F - {rid sb}"
  proof
    fix i assume "i \<in> held_ids (F(n := None))"
    then obtain m b where mb: "m \<noteq> n" "F m = Some b" "i = rid b"
      by (auto simp: held_ids_def split: if_splits)
    then have "rid sb \<noteq> rid b" using assms unfolding ids_distinct_def by metis
    with mb show "i \<in> held_ids F - {rid sb}" by (auto simp: held_ids_def)
  qed
  show "held_ids F - {rid sb} \<subseteq> held_ids (F(n := None))"
  proof
    fix i assume "i \<in> held_ids F - {rid sb}"
    then obtain m b where "F m = Some b" "i = rid b" "i \<noteq> rid sb" by (auto simp: held_ids_def)
    then have "(F(n := None)) m = Some b" using assms(2) by auto
    with \<open>i = rid b\<close> show "i \<in> held_ids (F(n := None))" unfolding held_ids_def by blast
  qed
qed

lemma extra_add:
  assumes "extra F (M0, L0, U0, k0) (M, L, U, k)" and "M n = None" "is_live sb" "rid sb \<notin> U" "rid sb \<noteq> ''''"
  shows "extra (F(n \<mapsto> sb)) (M0, L0, U0, k0) (M(n \<mapsto> sb), insert (rid sb) L, insert (rid sb) U, k + 1)"
proof -
  have F: "F n = None" and M0: "M0 n = None"
    using assms(1,2) by (auto simp: map_add_None)
  have "ids_distinct (F(n \<mapsto> sb))"
    using assms by (intro fresh_id_distinct [of _ U]) (auto simp: ids_known_def)
  moreover have "card (insert n (dom F)) = Suc (card (dom F))"
    using F assms(1) by (intro card_insert_disjoint) auto
  ultimately show ?thesis using assms F M0
    by (auto simp: held_ids_upd map_add_upd split: if_splits)
qed

lemma extra_remove:
  assumes "extra F (M0, L0, U0, k0) (M, L, U, k)" and "F n = Some sb"
  shows "extra (F(n := None)) (M0, L0, U0, k0) (M(n := None), L - {rid sb}, U, k - 1)"
proof -
  have M0: "M0 n = None" using assms by auto
  have "(M0 ++ F)(n := None) = M0 ++ F(n := None)"
    using M0 by (auto simp: map_add_def fun_eq_iff split: option.splits)
  moreover have "int (card (dom F - {n})) = int (card (dom F)) - 1"
    using assms by (intro card_remove) auto
  moreover have "ids_distinct (F(n := None))"
    using assms(1) by (auto simp: ids_distinct_def split: if_splits)
  moreover have "L0 \<union> held_ids F - {rid sb} = L0 \<union> held_ids (F(n := None))"
    using assms held_ids_del [of F n sb] by auto
  ultimately show ?thesis using assms by (auto split: if_splits)
qed

text \<open>A record that is not one of the added ones may be written meanwhile.\<close>

lemma extra_base:
  assumes "extra F (M0, L0, U0, k0) (M, L, U, k)" and "M n = None" and "U \<subseteq> U'"
  shows "extra F (M0(n \<mapsto> x), L0, U0', k0) (M(n \<mapsto> x), L, U', k)"
proof -
  have "F n = None" using assms(1,2) by (auto simp: map_add_None)
  then have "(M0 ++ F)(n \<mapsto> x) = M0(n \<mapsto> x) ++ F"
    by (auto simp: map_add_def fun_eq_iff split: option.splits)
  with assms \<open>F n = None\<close> show ?thesis by (auto simp: dom_def)
qed

lemma extra_fresh: "extra F v0 (M, L, U, k) \<Longrightarrow> M n = None \<Longrightarrow> F n = None \<and> fst v0 n = None"
  by (cases v0) (auto simp: map_add_None)

lemma extra_found:
  "extra F v0 (M, L, U, k) \<Longrightarrow> F n = Some sb \<Longrightarrow> M n = Some sb \<and> rid sb \<noteq> '''' \<and> rid sb \<in> L \<and> is_live sb"
  by (cases v0) (auto simp: held_ids_def)

text \<open>What is left of \<open>F\<close> once it is empty: the base itself.\<close>

lemma extra_none:
  "extra Map.empty (M0, L0, U0, k0) (M, L, U, k) \<Longrightarrow> M = M0 \<and> L = L0 \<and> k = k0"
  by (simp add: extra.simps held_ids_def)

text \<open>\<open>undone name members v v'\<close>: after a failed creation there are the containers and the gauge of before,
  and the records of before with at most one more, that of the member that failed.\<close>

fun undone :: "string \<Rightarrow> MatrixMember list \<Rightarrow> view \<Rightarrow> view \<Rightarrow> bool" where
  "undone name members (M0, L0, U0, k0) (M, L, U, k) \<longleftrightarrow> L = L0 \<and> k = k0 \<and>
     (M = M0 \<or> (\<exists>m x. m \<in> set members \<and> M0 (member_sandbox name m) = None \<and> sstate x = Error \<and>
        M = M0(member_sandbox name m \<mapsto> x)))"

lemma member_sandbox_inj [simp]: "member_sandbox name m = member_sandbox name m' \<longleftrightarrow> mm_Name m = mm_Name m'"
  by (simp add: member_sandbox_def)

lemma member_sandbox_distinct: "distinct (map mm_Name ms) \<Longrightarrow> distinct (map (member_sandbox name) ms)"
  by (auto simp: distinct_map inj_on_def)

declare extra.simps [simp del]

section \<open>Undoing a matrix\<close>

context controller_reliable
begin

abbreviation vw where
  "vw \<equiv> view_of live used abs"

lemma Destroy_extra:
  assumes "extra F v0 (vw s)" and "F n = Some sb" and "ok (c_ps s)"
  shows "extra (F(n := None)) v0 (vw (snd (Destroy c n s))) \<and> ok (c_ps (snd (Destroy c n s)))"
proof -
  obtain M0 L0 U0 k0 where v0: "v0 = (M0, L0, U0, k0)" by (cases v0)
  have sb: "abs (c_ps s) n = Some sb" "rid sb \<noteq> ''''" "rid sb \<in> live (c_rt s)" "is_live sb"
    using extra_found [of F v0 _ _ _ _ n sb] assms(1,2) by (auto simp: view_of_def)
  obtain s' where d: "Destroy c n s = (Inr (), s')" using Destroy_total [OF assms(3) sb(1-3)] by blast
  then have "ok (c_ps s')" "abs (c_ps s') = (abs (c_ps s))(n := None)"
    "live (c_rt s') = live (c_rt s) - {rid sb}" "used (c_rt s') = used (c_rt s)"
    "c_SandboxesActive s' = c_SandboxesActive s - 1"
    using Destroy_run [OF d assms(3)] sb by simp_all
  with extra_remove [of F M0 L0 U0 k0] assms(1,2) v0 d show ?thesis by (simp add: view_of_def)
qed

lemma cleanup_extra:
  assumes "extra F v0 (vw s)" and "ok (c_ps s)" and "dom F = member_sandbox name ` set ms"
    and "distinct (map (member_sandbox name) (ms @ [m]))"
  shows "extra Map.empty v0 (vw (cleanup_members c name (member_sandbox name m) (ms @ m # rest) s)) \<and>
    ok (c_ps (cleanup_members c name (member_sandbox name m) (ms @ m # rest) s))"
  using assms
proof (induction ms arbitrary: F s)
  case (Cons a ms)
  let ?n = "member_sandbox name a"
  obtain sb where "F ?n = Some sb" using Cons.prems(3) by auto
  from Destroy_extra [OF Cons.prems(1) this Cons.prems(2)]
  have step: "extra (F(?n := None)) v0 (vw (snd (Destroy c ?n s)))" "ok (c_ps (snd (Destroy c ?n s)))"
    by auto
  have "dom (F(?n := None)) = member_sandbox name ` set ms"
    using Cons.prems(3,4) by auto
  from Cons.IH [OF step this] Cons.prems(4) show ?case by auto
qed simp

lemma Create_extra:
  assumes "extra F v0 (vw s)" and "ok (c_ps s)" and "Create c opts s = ((r, None), s')"
  shows "\<exists>sb. F (co_Name opts) = None \<and> extra (F(co_Name opts \<mapsto> sb)) v0 (vw s') \<and> ok (c_ps s')"
proof -
  obtain M0 L0 U0 k0 where v0: "v0 = (M0, L0, U0, k0)" by (cases v0)
  from Create_run [OF assms(3,2)] obtain sb where
    "abs (c_ps s) (co_Name opts) = None" "is_live sb" "rid sb \<notin> used (c_rt s)" "rid sb \<noteq> ''''"
    "live (c_rt s') = insert (rid sb) (live (c_rt s))" "used (c_rt s') = insert (rid sb) (used (c_rt s))"
    "abs (c_ps s') = (abs (c_ps s))(co_Name opts \<mapsto> sb)"
    "c_SandboxesActive s' = c_SandboxesActive s + 1" "ok (c_ps s')"
    by (auto simp: launched_def)
  with extra_add [of F M0 L0 U0 k0 "abs (c_ps s)" _ _ _ "co_Name opts" sb] extra_fresh [of F v0] assms(1) v0
  show ?thesis by (intro exI [of _ sb]) (simp add: view_of_def)
qed

lemma Create_failed_extra:
  assumes "extra F v0 (vw s)" and "ok (c_ps s)" and "Create c opts s = ((r, Some e), s')"
  shows "ok (c_ps s') \<and> (\<exists>v1. extra F v1 (vw s') \<and> (v1 = v0 \<or>
    (\<exists>x U. fst v0 (co_Name opts) = None \<and> sstate x = Error \<and>
       v1 = ((fst v0)(co_Name opts \<mapsto> x), fst (snd v0), U, snd (snd (snd v0))))))"
proof -
  obtain M0 L0 U0 k0 where v0: "v0 = (M0, L0, U0, k0)" by (cases v0)
  from Create_run [OF assms(3,2)] consider "unchanged live used abs s s'" |
    x where "abs (c_ps s) (co_Name opts) = None" "sstate x = Error" "live (c_rt s') = live (c_rt s)"
      "used (c_rt s) \<subseteq> used (c_rt s')" "abs (c_ps s') = (abs (c_ps s))(co_Name opts \<mapsto> x)"
      "c_SandboxesActive s' = c_SandboxesActive s"
    by (auto simp: launched_def)
  then show ?thesis
  proof cases
    case 1
    then have "vw s' = vw s" by (simp add: unchanged_def view_of_def)
    with assms Create_run(1) [OF assms(3,2)] show ?thesis by metis
  next
    case (2 x)
    have "extra F (M0(co_Name opts \<mapsto> x), L0, U0, k0) (vw s')"
      using extra_base [of F M0 L0 U0 k0 "abs (c_ps s)" _ _ _ "co_Name opts"] assms(1) v0 2
      by (simp add: view_of_def)
    moreover have "fst v0 (co_Name opts) = None"
      using 2(1) assms(1) extra_fresh [of F v0] by (simp add: view_of_def)
    moreover have "ok (c_ps s')" by (rule Create_run(1) [OF assms(3,2)])
    ultimately show ?thesis using 2(2) v0 by (intro conjI exI) auto
  qed
qed

lemma create_failed_undone:
  assumes "extra F v0 (vw s)" and "ok (c_ps s)" and "dom F = member_sandbox name ` set pre"
    and "distinct (map mm_Name (pre @ m # ms))"
    and "Create c (member_options name team m) s = ((r, Some e), s1)"
    and "s2 = cleanup_members c name (member_sandbox name m) (pre @ m # ms) s1"
  shows "undone name (pre @ m # ms) v0 (vw s2) \<and> ok (c_ps s2)"
proof -
  let ?n = "member_sandbox name m"
  have n: "co_Name (member_options name team m) = ?n" by (simp add: member_options_def)
  obtain M0 L0 U0 k0 where v0: "v0 = (M0, L0, U0, k0)" by (cases v0)
  obtain v1 where ok1: "ok (c_ps s1)" and v1: "extra F v1 (vw s1)" "v1 = v0 \<or>
    (\<exists>x U. M0 ?n = None \<and> sstate x = Error \<and> v1 = (M0(?n \<mapsto> x), L0, U, k0))"
    using Create_failed_extra [OF assms(1,2,5)] unfolding v0 n fst_conv snd_conv by blast
  obtain M L U k where vw2: "vw s2 = (M, L, U, k)" by (cases "vw s2")
  have "distinct (map (member_sandbox name) (pre @ [m]))"
    using member_sandbox_distinct assms(4) by (metis append.assoc append_Cons append_Nil distinct_append map_append)
  from cleanup_extra [OF v1(1) ok1 assms(3) this]
  have e: "extra Map.empty v1 (vw s2)" and ok2: "ok (c_ps s2)" using assms(6) by auto
  from v1(2) have "undone name (pre @ m # ms) v0 (vw s2)"
  proof
    assume "v1 = v0"
    with e extra_none show ?thesis unfolding v0 vw2 by simp
  next
    assume "\<exists>x U. M0 ?n = None \<and> sstate x = Error \<and> v1 = (M0(?n \<mapsto> x), L0, U, k0)"
    then obtain x U' where x: "M0 ?n = None" "sstate x = Error" "v1 = (M0(?n \<mapsto> x), L0, U', k0)" by blast
    then have "M = M0(?n \<mapsto> x)" "L = L0" "k = k0" using e extra_none unfolding vw2 by blast+
    with x show ?thesis unfolding v0 vw2 by auto
  qed
  with ok2 show ?thesis by blast
qed

lemma create_members_run:
  assumes "extra F v0 (vw s)" and "ok (c_ps s)" and "dom F = member_sandbox name ` set pre"
    and "members = pre @ ms" and "distinct (map mm_Name members)"
    and "create_members c name team members ms s = (r, s')"
  shows "ok (c_ps s') \<and>
    (case r of None \<Rightarrow> \<exists>F'. extra F' v0 (vw s') \<and> dom F' = member_sandbox name ` set members
     | Some e \<Rightarrow> undone name members v0 (vw s'))"
  using assms
proof (induction ms arbitrary: F pre s)
  case Nil
  then show ?case by auto
next
  case (Cons m ms)
  let ?n = "member_sandbox name m"
  obtain x y s1 where c: "Create c (member_options name team m) s = ((x, y), s1)" by (metis surj_pair)
  show ?case
  proof (cases y)
    case None
    from Create_extra [OF Cons.prems(1,2)] c None obtain sb where sb:
      "extra (F(?n \<mapsto> sb)) v0 (vw s1)" "ok (c_ps s1)"
      by (force simp: member_options_def)
    have "dom (F(?n \<mapsto> sb)) = member_sandbox name ` set (pre @ [m])" using Cons.prems(3) by simp
    with Cons.IH [OF sb this] Cons.prems(4-6) c None show ?thesis by simp
  next
    case (Some e)
    let ?s2 = "cleanup_members c name ?n members s1"
    obtain z w where z: "rt_DeleteNetwork (ct_runtime c) (matrixNetworkName name) (c_rt ?s2) = (z, w)" by fastforce
    have u: "undone name members v0 (vw ?s2) \<and> ok (c_ps ?s2)"
      using create_failed_undone [OF Cons.prems(1-3)] Cons.prems(4,5) c Some by blast
    obtain e' where "r = Some e'" "s' = ?s2\<lparr>c_rt := w\<rparr>"
      using Cons.prems(6) c Some z by (auto simp: on_rt_def)
    with u live_networks(2) [OF z] show ?thesis by (simp add: view_of_def)
  qed
qed

end

section \<open>The matrix store\<close>

text \<open>What the matrix operations rely on of the matrix store, besides the contract of a store: it
  shares the persistent state with the sandbox store and leaves its records alone.\<close>

locale matrix_env = controller_reliable c live used abs ok +
  mst: reliable_store "kv_Get ms" "kv_List ms" "kv_Save ms" "kv_Delete ms" matrix_key mabs ok
  for c :: "('w, 'p) Controller" and live :: "'w \<Rightarrow> string set" and used :: "'w \<Rightarrow> string set"
    and abs :: "'p \<Rightarrow> string \<rightharpoonup> Sandbox" and ok :: "'p \<Rightarrow> bool"
    and ms :: "'p MatrixStore" and mabs :: "'p \<Rightarrow> string \<rightharpoonup> Matrix" +
  assumes store: "ct_matrices c = Some ms"
    and get_keeps: "ok p \<Longrightarrow> kv_Get ms n p = (r, p') \<Longrightarrow> abs p' = abs p"
    and save_keeps: "ok p \<Longrightarrow> kv_Save ms v p = (r', p') \<Longrightarrow> abs p' = abs p"
    and delete_keeps: "ok p \<Longrightarrow> kv_Delete ms n p = (r', p') \<Longrightarrow> abs p' = abs p"
begin

lemma matrix_quota_frame:
  assumes "matrix_quota c team members s = (r, s')" and "ok (c_ps s)"
  shows "ok (c_ps s') \<and> vw s' = vw s"
  using assms
  by (auto simp: matrix_quota_def on_ps_def view_of_def dest: quota_frame
      split: option.splits if_splits prod.splits)

lemma CreateMatrix_run:
  assumes "CreateMatrix c name members team s = (r, s')" and "ok (c_ps s)"
    and "distinct (map mm_Name members)"
  shows "ok (c_ps s') \<and>
    (case r of
       Inl e \<Rightarrow> undone name members (vw s) (vw s')
     | Inr mx \<Rightarrow> mabs (c_ps s') name = Some mx \<and> mx_Members mx = members \<and> mx_State mx = MxActive \<and>
         (\<exists>F. extra F (vw s) (vw s') \<and> dom F = member_sandbox name ` set members))"
proof -
  have same: "undone name members (vw s) (vw s)" by (cases "vw s") simp
  obtain x p1 where x: "kv_Get ms name (c_ps s) = (x, p1)" by fastforce
  have s1: "ok p1" "vw (s\<lparr>c_ps := p1\<rparr>) = vw s"
    using mst.get_frame [OF assms(2) x] get_keeps [OF assms(2) x] by (auto simp: view_of_def)
  obtain y s2 where y: "matrix_quota c team members (s\<lparr>c_ps := p1\<rparr>) = (y, s2)" by fastforce
  have s2: "ok (c_ps s2)" "vw s2 = vw s" using matrix_quota_frame [OF y] s1 by auto
  obtain z w where z: "rt_CreateNetwork (ct_runtime c) (matrixNetworkName name) True (c_rt s2) = (z, w)"
    by fastforce
  let ?s4 = "s2\<lparr>c_rt := w, c_tick := Suc (c_tick s2)\<rparr>"
  have s4: "ok (c_ps ?s4)" "vw (s2\<lparr>c_rt := w\<rparr>) = vw s" "vw ?s4 = vw s"
    using s2 live_networks(1) [OF z] by (auto simp: view_of_def)
  let ?mx = "new_matrix name team members (c_clock s2 (c_tick s2))"
  obtain u s5 where u: "create_members c name team members members ?s4 = (u, s5)" by fastforce
  have base: "extra Map.empty (vw s) (vw ?s4)"
    using s4(3) live_used [of "c_rt s"] by (simp add: view_of_def extra_empty)
  note cm = create_members_run [OF base s4(1), of name "[]" members members, simplified, OF assms(3) u]
  note unf = CreateMatrix_def store on_ps_def [of "kv_Get _ _"] on_rt_def now_def x y z u
  show ?thesis
  proof (cases "\<exists>e. x = Inr e \<or> (is_ok y \<longrightarrow> \<not> is_ok z)")
    case True
    then have "\<not> is_ok r" "vw s' = vw s" "ok (c_ps s')"
      using assms(1) s1 s2 s4 by (auto simp: unf split: sum.splits)
    with same show ?thesis by (cases r) auto
  next
    case False
    then obtain e where ok3: "x = Inl e" "y = Inr ()" "z = Inr ()" by (cases x; cases y; cases z) auto
    show ?thesis
    proof (cases u)
      case (Some e')
      then have "r = Inl e'" "s' = s5" using assms(1) ok3 by (auto simp: unf)
      with cm Some show ?thesis by simp
    next
      case None
      obtain p6 where p6: "kv_Save ms ?mx (c_ps s5) = (Inr (), p6)"
        using mst.save_total [of "c_ps s5" ?mx] cm by blast
      then have "r = Inr ?mx" "s' = s5\<lparr>c_ps := p6\<rparr>"
        using assms(1) ok3 None by (auto simp: unf on_ps_def)
      with cm None mst.save_done [OF _ p6] save_keeps [OF _ p6] show ?thesis
        by (auto simp: view_of_def matrix_key_def new_matrix_def)
    qed
  qed
qed

end

section \<open>Reconciliation\<close>

abbreviation container_name :: "Info \<Rightarrow> string" where
  "container_name info \<equiv> gm_str (in_Labels info) ''sandboxmatrix/sandbox''"

lemma reconciled_key [simp]: "sandbox_key (reconciled info t) = container_name info"
  by (simp add: reconciled_def sandbox_key_def Let_def)

text \<open>\<open>tracked infos M M'\<close>: \<open>M'\<close> has every record of \<open>M\<close>, one for every labelled container of \<open>infos\<close>, and
  what is new in it was made from one of them.\<close>

definition tracked :: "Info list \<Rightarrow> (string \<rightharpoonup> Sandbox) \<Rightarrow> (string \<rightharpoonup> Sandbox) \<Rightarrow> bool" where
  "tracked infos M M' \<longleftrightarrow> M \<subseteq>\<^sub>m M' \<and>
     (\<forall>info \<in> set infos. container_name info \<noteq> '''' \<longrightarrow> container_name info \<in> dom M') \<and>
     (\<forall>n sb. M' n = Some sb \<longrightarrow> M n = Some sb \<or>
        (\<exists>info \<in> set infos. \<exists>t. sb = reconciled info t \<and> n = container_name info \<and> n \<noteq> ''''))"

lemma tracked_skip:
  assumes "tracked infos M M'" and "container_name info = '''' \<or> container_name info \<in> dom M"
  shows "tracked (info # infos) M M'"
  using assms map_le_implies_dom_le [of M M'] unfolding tracked_def by auto

lemma tracked_add:
  assumes "tracked infos (M(container_name info \<mapsto> reconciled info t)) M'" and "container_name info \<noteq> ''''"
    and "M (container_name info) = None"
  shows "tracked (info # infos) M M'"
proof -
  let ?n = "container_name info"
  let ?M = "M(?n \<mapsto> reconciled info t)"
  have le: "?M \<subseteq>\<^sub>m M'" using assms(1) by (simp add: tracked_def)
  moreover have "M \<subseteq>\<^sub>m ?M" using assms(3) by (auto simp: map_le_def)
  ultimately have "M \<subseteq>\<^sub>m M'" by (rule map_le_trans [rotated])
  moreover have "?n \<in> dom M'" using map_le_implies_dom_le [OF le] by auto
  moreover have "M n = Some sb \<or> (\<exists>i \<in> set (info # infos). \<exists>t. sb = reconciled i t \<and> n = container_name i \<and> n \<noteq> '''')"
    if "M' n = Some sb" for n sb
  proof -
    have "?M n = Some sb \<or> (\<exists>i \<in> set infos. \<exists>t. sb = reconciled i t \<and> n = container_name i \<and> n \<noteq> '''')"
      using assms(1) that by (auto simp: tracked_def)
    with assms(2) show ?thesis by (auto split: if_splits)
  qed
  ultimately show ?thesis using assms(1) unfolding tracked_def by auto
qed

lemma tracked_again:
  assumes "tracked infos M M'" and "tracked infos M' M''"
  shows "M'' = M'"
proof
  fix n
  show "M'' n = M' n"
  proof (cases "M' n")
    case (Some sb)
    then show ?thesis using assms(2) unfolding tracked_def map_le_def by (metis domI)
  next
    case None
    have "M'' n \<noteq> Some sb" for sb
    proof
      assume "M'' n = Some sb"
      then have "M' n = Some sb \<or> (\<exists>info \<in> set infos. n = container_name info \<and> n \<noteq> '''')"
        using assms(2) unfolding tracked_def by blast
      then obtain info where "info \<in> set infos" "n = container_name info" "n \<noteq> ''''" using None by auto
      then have "n \<in> dom M'" using assms(1) unfolding tracked_def by blast
      with None show False by blast
    qed
    with None show ?thesis by (cases "M'' n") auto
  qed
qed

context controller_reliable
begin

lemma reconcile_each_run:
  assumes "ok (c_ps s)"
  shows "\<exists>s'. reconcile_each c infos s = (Inr (), s') \<and> ok (c_ps s') \<and> c_rt s' = c_rt s \<and>
    c_SandboxesActive s' = c_SandboxesActive s \<and> tracked infos (abs (c_ps s)) (abs (c_ps s'))"
  using assms
proof (induction infos arbitrary: s)
  case Nil
  then show ?case by (simp add: tracked_def)
next
  case (Cons info infos)
  let ?n = "container_name info"
  show ?case
  proof (cases "?n = ''''")
    case True
    from Cons.IH [OF Cons.prems] obtain s' where s': "reconcile_each c infos s = (Inr (), s')"
      "ok (c_ps s')" "c_rt s' = c_rt s" "c_SandboxesActive s' = c_SandboxesActive s"
      "tracked infos (abs (c_ps s)) (abs (c_ps s'))" by blast
    with True tracked_skip show ?thesis by (simp add: Let_def)
  next
    case False
    obtain x p1 where x: "kv_Get (ct_store c) ?n (c_ps s) = (x, p1)" by fastforce
    note fr = get_frame [OF Cons.prems x]
    let ?s1 = "s\<lparr>c_ps := p1\<rparr>"
    show ?thesis
    proof (cases x)
      case (Inr sb)
      have "ok (c_ps ?s1)" using fr by simp
      from Cons.IH [OF this] obtain s' where s': "reconcile_each c infos ?s1 = (Inr (), s')"
        "ok (c_ps s')" "c_rt s' = c_rt s" "c_SandboxesActive s' = c_SandboxesActive s"
        "tracked infos (abs (c_ps s)) (abs (c_ps s'))" using fr by auto
      moreover have "?n \<in> dom (abs (c_ps s))" using get_found [OF Cons.prems] x Inr by blast
      ultimately show ?thesis using False x Inr tracked_skip by (simp add: Let_def on_ps_def)
    next
      case (Inl e)
      let ?s2 = "?s1\<lparr>c_tick := Suc (c_tick s)\<rparr>"
      let ?sb = "reconciled info (c_clock s (c_tick s))"
      obtain p where p: "st_save c ?sb ?s2 = (Inr (), ?s2\<lparr>c_ps := p\<rparr>)" "ok p"
        "abs p = (abs (c_ps s))(?n \<mapsto> ?sb)"
        using st_save_run [of ?s2 ?sb] fr by auto
      have "ok (c_ps (?s2\<lparr>c_ps := p\<rparr>))" using p(2) by simp
      from Cons.IH [OF this] obtain s' where s': "reconcile_each c infos (?s2\<lparr>c_ps := p\<rparr>) = (Inr (), s')"
        "ok (c_ps s')" "c_rt s' = c_rt s" "c_SandboxesActive s' = c_SandboxesActive s"
        "tracked infos (abs p) (abs (c_ps s'))" by auto
      have "abs (c_ps s) ?n = None" using get_miss [OF Cons.prems] x Inl by blast
      then have "tracked (info # infos) (abs (c_ps s)) (abs (c_ps s'))"
        using s'(5) False unfolding p(3) by (intro tracked_add)
      moreover have "reconcile_each c (info # infos) s = (Inr (), s')"
        using False x Inl p(1) s'(1) by (simp add: Let_def on_ps_def [of "kv_Get _ _"] now_def)
      ultimately show ?thesis using s' by blast
    qed
  qed
qed

end

end
