(* ===== verification/Docker.thy ===== *)
theory Docker
  imports Quota RuntimeApi
begin

text \<open>
  \<open>internal/runtime/docker\<close> and \<open>gvisor\<close>: the Docker backend. The client library
  (\<open>github.com/docker/docker/client\<close>) is not part of the repository: it is the record
  \<open>DockerClient\<close> of the calls the backend makes, over the state \<open>'d\<close> of the daemon, and what is
  relied on of it is the locale \<open>docker_daemon\<close>. The backend is shown to meet the contract
  \<open>container_runtime\<close> whenever the client meets that.
\<close>

section \<open>The client\<close>

record ContainerConfig =
  kc_Image :: string
  kc_Labels :: "string gomap"
  kc_Tty :: bool
  kc_Cmd :: "string list"
  kc_Env :: "string list"
  kc_ExposedPorts :: "unit gomap"

record DeviceRequest =
  dr_Driver :: string
  dr_Count :: int
  dr_Capabilities :: "string list list"

record HostConfig =
  hc_PortBindings :: "string list gomap"
  hc_Runtime :: string
  hc_SecurityOpt :: "string list"
  hc_CapDrop :: "string list"
  hc_CapAdd :: "string list"
  hc_PidsLimit :: "int option"
  hc_Memory :: int
  hc_NanoCPUs :: int
  hc_DeviceRequests :: "DeviceRequest list"
  hc_Devices :: "RtDevice list"
  hc_Binds :: "string list"
  hc_NetworkMode :: string
  hc_DNS :: "string list"

record ExecOptions =
  eo_Cmd :: "string list"
  eo_AttachStdout :: bool
  eo_AttachStderr :: bool
  eo_AttachStdin :: bool
  eo_Tty :: bool
  eo_WorkingDir :: string
  eo_Env :: "string list"

text \<open>\<open>cj_Networks\<close>: the IP address in each network; \<open>cj_Ports\<close>: port number, protocol and host ports.\<close>

record ContainerJSON =
  cj_ID :: string
  cj_Name :: string
  cj_Image :: string
  cj_Status :: string
  cj_Labels :: "string gomap"
  cj_NetworkSettings :: "(string gomap \<times> ((int \<times> string) \<times> string list) list) option"

record ContainerSummary =
  ks_ID :: string
  ks_Names :: "string list"
  ks_Image :: string
  ks_State :: string
  ks_Labels :: "string gomap"

record ImageSummary =
  is_ID :: string
  is_RepoTags :: "string list"
  is_Created :: int
  is_Size :: int

record StatsResponse =
  sr_TotalUsage :: nat
  sr_PreTotalUsage :: nat
  sr_SystemUsage :: nat
  sr_PreSystemUsage :: nat
  sr_OnlineCPUs :: nat
  sr_MemUsage :: nat
  sr_MemLimit :: nat

record TarEntry =
  te_Name :: string
  te_Mode :: nat
  te_Data :: string

record 'd DockerClient =
  dc_ImageInspect :: "string \<Rightarrow> (string res, 'd) act"
  dc_ImagePull :: "string \<Rightarrow> (unit res, 'd) act"
  dc_ContainerCreate :: "ContainerConfig \<Rightarrow> HostConfig \<Rightarrow> string list \<Rightarrow> string \<Rightarrow> (string res, 'd) act"
  dc_ContainerStart :: "string \<Rightarrow> (unit res, 'd) act"
  dc_ContainerStop :: "string \<Rightarrow> (unit res, 'd) act"
  dc_ContainerRemove :: "string \<Rightarrow> bool \<Rightarrow> (unit res, 'd) act"
  dc_ExecCreate :: "string \<Rightarrow> ExecOptions \<Rightarrow> (string res, 'd) act"
  dc_ExecAttach :: "string \<Rightarrow> bool \<Rightarrow> ((string \<times> string) res, 'd) act"
  dc_ExecInspect :: "string \<Rightarrow> (int res, 'd) act"
  dc_ContainerInspect :: "string \<Rightarrow> (ContainerJSON res, 'd) act"
  dc_ContainerStats :: "string \<Rightarrow> (StatsResponse res res, 'd) act"
  dc_ContainerList :: "string \<Rightarrow> (ContainerSummary list res, 'd) act"
  dc_ContainerCommit :: "string \<Rightarrow> string \<Rightarrow> string \<Rightarrow> (string res, 'd) act"
  dc_ImageList :: "string \<Rightarrow> (ImageSummary list res, 'd) act"
  dc_ImageRemove :: "string \<Rightarrow> (unit res, 'd) act"
  dc_NetworkCreate :: "string \<Rightarrow> string \<Rightarrow> bool \<Rightarrow> string gomap \<Rightarrow> (unit res, 'd) act"
  dc_NetworkRemove :: "string \<Rightarrow> (unit res, 'd) act"
  dc_CopyToContainer :: "string \<Rightarrow> string \<Rightarrow> TarEntry list \<Rightarrow> (unit res, 'd) act"
  dc_CopyFromContainer :: "string \<Rightarrow> string \<Rightarrow> (TarEntry list res, 'd) act"
  dc_ContainerPause :: "string \<Rightarrow> (unit res, 'd) act"
  dc_ContainerUnpause :: "string \<Rightarrow> (unit res, 'd) act"
  dc_ContainerUpdate :: "string \<Rightarrow> int \<Rightarrow> int \<Rightarrow> int \<Rightarrow> (unit res, 'd) act"
  dc_Info :: "((int \<times> int) res, 'd) act"

text \<open>The host the backend runs on: operating system, \<open>/proc/meminfo\<close>, the output of the two
  commands it runs on macOS, and the number of CPUs the Go runtime sees.\<close>

record DockerHost =
  dh_GOOS :: string
  dh_meminfo :: "string res"
  dh_hw_memsize :: "string res"
  dh_vm_stat :: "string res"
  dh_NumCPU :: int

section \<open>Helpers\<close>

definition map_err :: "(goerr \<Rightarrow> goerr) \<Rightarrow> ('a res, 'd) act \<Rightarrow> ('a res, 'd) act" where
  "map_err f a w = (case a w of (Inl e, w') \<Rightarrow> (Inl (f e), w') | (Inr v, w') \<Rightarrow> (Inr v, w'))"

abbreviation wrapw :: "string \<Rightarrow> goerr \<Rightarrow> goerr" where
  "wrapw what e \<equiv> Errorf (what @ '': %w'') [AErr e]"

definition buildLabels :: "CreateConfig \<Rightarrow> string gomap" where
  "buildLabels cfg =
     gm_set ''sandboxmatrix/name'' (cc_Name cfg)
       (gm_set ''sandboxmatrix/managed'' ''true'' (gm_range_into (cc_Labels cfg) []))"

definition formatBind :: "Mount \<Rightarrow> string" where
  "formatBind m = mt_Source m @ '':'' @ mt_Target m @ (if mt_ReadOnly m then '':ro'' else '''')"

definition safePrefix :: "string \<Rightarrow> nat \<Rightarrow> string" where
  "safePrefix s n = (if length s > n then take n s else s)"

definition parseMemory :: "string \<Rightarrow> int option" where
  "parseMemory s0 =
     (let s = TrimSpace s0 in
      if HasSuffix s ''Gi'' then
        map_option (\<lambda>v. int64_of_f64 (fmul (fmul (fmul v (Fin 1024)) (Fin 1024)) (Fin 1024)))
          (ParseFloat (TrimSuffix s ''Gi''))
      else if HasSuffix s ''Mi'' then
        map_option (\<lambda>v. int64_of_f64 (fmul (fmul v (Fin 1024)) (Fin 1024)))
          (ParseFloat (TrimSuffix s ''Mi''))
      else ParseInt s)"

definition ensureImage :: "'d DockerClient \<Rightarrow> string \<Rightarrow> (unit res, 'd) act" where
  "ensureImage dc ref w =
     (case dc_ImageInspect dc ref w of
        (Inr _, w1) \<Rightarrow> (Inr (), w1)
      | (Inl _, w1) \<Rightarrow>
          map_err (\<lambda>e. Errorf ''pull image %s: %w'' [AStr ref, AErr e]) (dc_ImagePull dc ref) w1)"

section \<open>Creating a container\<close>

definition port_key :: "PortMapping \<Rightarrow> string" where
  "port_key p = itoa (pm_ContainerPort p) @ ''/'' @ (if pm_Protocol p = '''' then ''tcp'' else pm_Protocol p)"

definition port_set :: "PortMapping list \<Rightarrow> unit gomap" where
  "port_set ps = fold (\<lambda>p m. gm_set (port_key p) () m) ps []"

definition port_bindings :: "PortMapping list \<Rightarrow> string list gomap" where
  "port_bindings ps =
     fold (\<lambda>p m. if pm_HostPort p > 0 then gm_set (port_key p) [itoa (pm_HostPort p)] m else m) ps []"

definition container_config :: "CreateConfig \<Rightarrow> ContainerConfig" where
  "container_config cfg =
     \<lparr>kc_Image = cc_Image cfg, kc_Labels = buildLabels cfg, kc_Tty = True, kc_Cmd = cc_Cmd cfg,
      kc_Env = map (\<lambda>(k, v). k @ ''='' @ v) (cc_Env cfg), kc_ExposedPorts = port_set (cc_Ports cfg)\<rparr>"

definition device_of :: "RtDevice \<Rightarrow> RtDevice" where
  "device_of d =
     \<lparr>rd_HostPath = rd_HostPath d,
      rd_ContainerPath = (if rd_ContainerPath d = '''' then rd_HostPath d else rd_ContainerPath d),
      rd_Permissions = (if rd_Permissions d = '''' then ''rwm'' else rd_Permissions d)\<rparr>"

definition is_custom_network :: "string \<Rightarrow> bool" where
  "is_custom_network mode \<longleftrightarrow> mode \<notin> {''none'', ''host'', '''', ''bridge''}"

definition host_config :: "string \<Rightarrow> CreateConfig \<Rightarrow> HostConfig" where
  "host_config ociRuntime cfg =
     \<lparr>hc_PortBindings = port_bindings (cc_Ports cfg),
      hc_Runtime = ociRuntime,
      hc_SecurityOpt = [''no-new-privileges''],
      hc_CapDrop = [''ALL''],
      hc_CapAdd = [''NET_BIND_SERVICE''],
      hc_PidsLimit = Some 4096,
      hc_Memory = (if cc_Memory cfg \<noteq> '''' then
        (case parseMemory (cc_Memory cfg) of Some m \<Rightarrow> m | None \<Rightarrow> 0) else 0),
      hc_NanoCPUs = (if cc_CPU cfg \<noteq> '''' then
        (case ParseFloat (cc_CPU cfg) of Some x \<Rightarrow> int64_of_f64 (fmul x (Fin 1000000000)) | None \<Rightarrow> 0)
        else 0),
      hc_DeviceRequests = (case cc_GPU cfg of
          Some g \<Rightarrow> if gc_Count g > 0 then
            [\<lparr>dr_Driver = (if gc_Driver g = '''' then ''nvidia'' else gc_Driver g),
              dr_Count = gc_Count g, dr_Capabilities = [[''gpu'']]\<rparr>] else []
        | None \<Rightarrow> []),
      hc_Devices = map device_of (cc_Devices cfg),
      hc_Binds = map formatBind (cc_Mounts cfg),
      hc_NetworkMode = (let mode = nc_Mode (cc_Network cfg) in
        if mode = '''' \<or> mode = ''bridge'' then '''' else mode),
      hc_DNS = nc_DNS (cc_Network cfg)\<rparr>"

definition network_endpoints :: "CreateConfig \<Rightarrow> string list" where
  "network_endpoints cfg =
     (let mode = nc_Mode (cc_Network cfg) in if is_custom_network mode then [mode] else [])"

definition docker_Create :: "'d DockerClient \<Rightarrow> string \<Rightarrow> CreateConfig \<Rightarrow> (string res, 'd) act" where
  "docker_Create dc ociRuntime cfg w =
     (case ensureImage dc (cc_Image cfg) w of
        (Inl e, w1) \<Rightarrow> (Inl e, w1)
      | (Inr _, w1) \<Rightarrow>
          map_err (wrapw ''create container'')
            (dc_ContainerCreate dc (container_config cfg) (host_config ociRuntime cfg)
              (network_endpoints cfg) (cc_Name cfg)) w1)"

definition docker_Restore ::
  "'d DockerClient \<Rightarrow> string \<Rightarrow> string \<Rightarrow> CreateConfig \<Rightarrow> (string res, 'd) act" where
  "docker_Restore dc ociRuntime snapshotID cfg = docker_Create dc ociRuntime (cfg\<lparr>cc_Image := snapshotID\<rparr>)"

section \<open>Working with a container\<close>

definition exec_options :: "ExecConfig \<Rightarrow> ExecOptions" where
  "exec_options cfg =
     \<lparr>eo_Cmd = ec_Cmd cfg, eo_AttachStdout = ec_Stdout cfg, eo_AttachStderr = ec_Stderr cfg,
      eo_AttachStdin = (ec_Stdin cfg \<noteq> None), eo_Tty = ec_TTY cfg, eo_WorkingDir = ec_Dir cfg,
      eo_Env = map (\<lambda>(k, v). k @ ''='' @ v) (ec_Env cfg)\<rparr>"

definition exec_failed :: "goerr \<Rightarrow> ExecResult \<times> goerr option" where
  "exec_failed e = (\<lparr>er_ExitCode = - 1, er_Stdout = '''', er_Stderr = ''''\<rparr>, Some e)"

definition docker_Exec ::
  "'d DockerClient \<Rightarrow> string \<Rightarrow> ExecConfig \<Rightarrow> (ExecResult \<times> goerr option, 'd) act" where
  "docker_Exec dc i cfg w =
     (case dc_ExecCreate dc i (exec_options cfg) w of
        (Inl e, w1) \<Rightarrow> (exec_failed (wrapw ''exec create'' e), w1)
      | (Inr execID, w1) \<Rightarrow>
        (case dc_ExecAttach dc execID (ec_TTY cfg) w1 of
           (Inl e, w2) \<Rightarrow> (exec_failed (wrapw ''exec attach'' e), w2)
         | (Inr (out, err), w2) \<Rightarrow>
           (case dc_ExecInspect dc execID w2 of
              (Inl e, w3) \<Rightarrow> (exec_failed (wrapw ''exec inspect'' e), w3)
            | (Inr code, w3) \<Rightarrow>
                ((\<lparr>er_ExitCode = code, er_Stdout = (if ec_Stdout cfg then out else ''''),
                   er_Stderr = (if ec_Stderr cfg \<and> \<not> ec_TTY cfg then err else '''')\<rparr>, None), w3))))"

definition port_mappings :: "((int \<times> string) \<times> string list) list \<Rightarrow> PortMapping list" where
  "port_mappings ports = concat (map (\<lambda>((port, proto), bindings). map (\<lambda>b.
     \<lparr>pm_HostPort = ParseInt_val b, pm_ContainerPort = port, pm_Protocol = proto\<rparr>) bindings) ports)"

definition docker_Info :: "'d DockerClient \<Rightarrow> string \<Rightarrow> (Info res, 'd) act" where
  "docker_Info dc i w =
     (case map_err (wrapw ''inspect container'') (dc_ContainerInspect dc i) w of
        (Inl e, w') \<Rightarrow> (Inl e, w')
      | (Inr cj, w') \<Rightarrow>
          (Inr \<lparr>in_ID = safePrefix (cj_ID cj) 12, in_Name = TrimPrefix (cj_Name cj) ''/'',
            in_Image = cj_Image cj, in_State = cj_Status cj,
            in_IP = (case cj_NetworkSettings cj of Some ((_, ip) # _, _) \<Rightarrow> ip | _ \<Rightarrow> ''''),
            in_Ports = (case cj_NetworkSettings cj of Some (_, ports) \<Rightarrow> port_mappings ports | None \<Rightarrow> []),
            in_Labels = cj_Labels cj\<rparr>, w'))"

definition cpu_percent :: "StatsResponse \<Rightarrow> f64" where
  "cpu_percent r =
     (let cpuDelta = f64_of_int ((int (sr_TotalUsage r) - int (sr_PreTotalUsage r)) mod 2 ^ 64);
          systemDelta = f64_of_int ((int (sr_SystemUsage r) - int (sr_PreSystemUsage r)) mod 2 ^ 64);
          numCPUs = (if sr_OnlineCPUs r = 0 then Fin 1 else f64_of_int (int (sr_OnlineCPUs r))) in
      if flt (Fin 0) systemDelta \<and> \<not> flt cpuDelta (Fin 0)
      then fmul (fmul (fdiv cpuDelta systemDelta) numCPUs) (Fin 100) else Fin 0)"

definition docker_Stats :: "'d DockerClient \<Rightarrow> string \<Rightarrow> (Stats res, 'd) act" where
  "docker_Stats dc i w =
     (case dc_ContainerStats dc i w of
        (Inl e, w') \<Rightarrow> (Inl (wrapw ''container stats'' e), w')
      | (Inr (Inl e), w') \<Rightarrow> (Inl (wrapw ''decode stats'' e), w')
      | (Inr (Inr r), w') \<Rightarrow>
          (Inr \<lparr>sx_CPUUsage = cpu_percent r, sx_MemoryUsage = sr_MemUsage r,
             sx_MemoryLimit = sr_MemLimit r, sx_DiskUsage = 0\<rparr>, w'))"

definition summary_info :: "ContainerSummary \<Rightarrow> Info" where
  "summary_info k =
     \<lparr>in_ID = safePrefix (ks_ID k) 12,
      in_Name = (case ks_Names k of [] \<Rightarrow> '''' | n # _ \<Rightarrow> TrimPrefix n ''/''),
      in_Image = ks_Image k, in_State = ks_State k, in_IP = '''', in_Ports = [], in_Labels = ks_Labels k\<rparr>"

definition docker_List :: "'d DockerClient \<Rightarrow> (Info list res, 'd) act" where
  "docker_List dc w =
     (case map_err (wrapw ''list containers'') (dc_ContainerList dc ''sandboxmatrix/managed=true'') w of
        (Inl e, w') \<Rightarrow> (Inl e, w') | (Inr ks, w') \<Rightarrow> (Inr (map summary_info ks), w'))"

section \<open>Snapshots, images, networks, files\<close>

definition snapshot_name :: "ContainerJSON \<Rightarrow> string" where
  "snapshot_name cj =
     (let n = gm_str (cj_Labels cj) ''sandboxmatrix/name'' in
      if n = '''' then TrimPrefix (cj_Name cj) ''/'' else n)"

definition docker_Snapshot :: "'d DockerClient \<Rightarrow> string \<Rightarrow> string \<Rightarrow> (string res, 'd) act" where
  "docker_Snapshot dc i tag w =
     (case map_err (wrapw ''inspect container for snapshot'') (dc_ContainerInspect dc i) w of
        (Inl e, w') \<Rightarrow> (Inl e, w')
      | (Inr cj, w') \<Rightarrow>
          map_err (wrapw ''commit container'')
            (dc_ContainerCommit dc i (''smx-snapshot/'' @ snapshot_name cj @ '':'' @ tag)
              (''smx snapshot of '' @ snapshot_name cj)) w')"

definition tag_of :: "string \<Rightarrow> string" where
  "tag_of repoTag = (case SplitN repoTag (CHR '':'') 2 of [_, t] \<Rightarrow> t | _ \<Rightarrow> '''')"

definition image_snapshots :: "string \<Rightarrow> ImageSummary \<Rightarrow> SnapshotInfo list" where
  "image_snapshots i img =
     map (\<lambda>repoTag. \<lparr>si_ID = is_ID img, si_Tag = tag_of repoTag, si_SandboxID = i,
            si_CreatedAt = is_Created img * 1000000000, si_Size = is_Size img\<rparr>)
       (filter (\<lambda>t. HasPrefix t ''smx-snapshot/'') (is_RepoTags img))"

definition docker_ListSnapshots :: "'d DockerClient \<Rightarrow> string \<Rightarrow> (SnapshotInfo list res, 'd) act" where
  "docker_ListSnapshots dc i w =
     (case map_err (wrapw ''inspect container for listing snapshots'') (dc_ContainerInspect dc i) w of
        (Inl e, w') \<Rightarrow> (Inl e, w')
      | (Inr cj, w') \<Rightarrow>
        (case map_err (wrapw ''list snapshot images'')
                (dc_ImageList dc (''smx-snapshot/'' @ snapshot_name cj)) w' of
           (Inl e, w2) \<Rightarrow> (Inl e, w2)
         | (Inr imgs, w2) \<Rightarrow> (Inr (concat (map (image_snapshots i) imgs)), w2)))"

definition docker_CreateNetwork :: "'d DockerClient \<Rightarrow> string \<Rightarrow> bool \<Rightarrow> (unit res, 'd) act" where
  "docker_CreateNetwork dc name internal =
     map_err (\<lambda>e. Errorf ''create network %s: %w'' [AStr name, AErr e])
       (dc_NetworkCreate dc name ''bridge'' internal [(''sandboxmatrix/managed'', ''true'')])"

definition docker_DeleteNetwork :: "'d DockerClient \<Rightarrow> string \<Rightarrow> (unit res, 'd) act" where
  "docker_DeleteNetwork dc name =
     map_err (\<lambda>e. Errorf ''delete network %s: %w'' [AStr name, AErr e]) (dc_NetworkRemove dc name)"

definition docker_CopyToContainer :: "'d DockerClient \<Rightarrow> string \<Rightarrow> string \<Rightarrow> string \<Rightarrow> (unit res, 'd) act" where
  "docker_CopyToContainer dc i destPath content =
     dc_CopyToContainer dc i (Dir destPath)
       [\<lparr>te_Name = Base destPath, te_Mode = 420, te_Data = content\<rparr>]"

definition docker_CopyFromContainer :: "'d DockerClient \<Rightarrow> string \<Rightarrow> string \<Rightarrow> (string res, 'd) act" where
  "docker_CopyFromContainer dc i srcPath w =
     (case map_err (wrapw ''copy from container'') (dc_CopyFromContainer dc i srcPath) w of
        (Inl e, w') \<Rightarrow> (Inl e, w')
      | (Inr [], w') \<Rightarrow> (Inl (wrapw ''read tar entry'' (ExtErr ''EOF'')), w')
      | (Inr (t # _), w') \<Rightarrow> (Inr (te_Data t), w'))"

definition docker_UpdateResources :: "'d DockerClient \<Rightarrow> string \<Rightarrow> ResourceUpdate \<Rightarrow> (unit res, 'd) act" where
  "docker_UpdateResources dc i cfg =
     dc_ContainerUpdate dc i (if ru_CPUQuota cfg > 0 then ru_CPUQuota cfg else 0)
       (if ru_CPUQuota cfg > 0 then 100000 else 0) (if ru_Memory cfg > 0 then ru_Memory cfg else 0)"

definition docker_CommitImage :: "'d DockerClient \<Rightarrow> string \<Rightarrow> string \<Rightarrow> (string res, 'd) act" where
  "docker_CommitImage dc i reference =
     map_err (wrapw ''commit container as image'')
       (dc_ContainerCommit dc i reference (''smx image build: '' @ reference))"

definition docker_ListImages :: "'d DockerClient \<Rightarrow> string \<Rightarrow> (ImageSummary list res, 'd) act" where
  "docker_ListImages dc refPrefix = dc_ImageList dc (refPrefix @ ''*'')"

definition docker_RemoveImage :: "'d DockerClient \<Rightarrow> string \<Rightarrow> (unit res, 'd) act" where
  "docker_RemoveImage dc ref = map_err (wrapw ''remove image'') (dc_ImageRemove dc ref)"

section \<open>Memory of the host\<close>

definition parseProcMemLine :: "string \<Rightarrow> int" where
  "parseProcMemLine line =
     (case Fields line of _ # v # _ \<Rightarrow>
        (case ParseInt v of Some n \<Rightarrow> wrap64 (n * 1024) | None \<Rightarrow> 0) | _ \<Rightarrow> 0)"

definition meminfo_line :: "string \<Rightarrow> int \<times> int \<Rightarrow> int \<times> int" where
  "meminfo_line line ta =
     (if HasPrefix line ''MemTotal:'' then (parseProcMemLine line, snd ta)
      else if HasPrefix line ''MemAvailable:'' then (fst ta, parseProcMemLine line) else ta)"

definition linuxMemory :: "string res \<Rightarrow> (int \<times> int) res" where
  "linuxMemory meminfo =
     (case meminfo of Inl e \<Rightarrow> Inl e
      | Inr text \<Rightarrow>
        let (tot, available) = fold meminfo_line (Split text (CHR 0x0A)) (0, 0) in
        if tot = 0 then Inl (Errorf ''could not parse /proc/meminfo'' [])
        else Inr (available, wrap64 (tot - available)))"

definition parseVMStatLine :: "string \<Rightarrow> int" where
  "parseVMStatLine line =
     (case SplitN line (CHR '':'') 2 of
        [_, v] \<Rightarrow> (case ParseInt (TrimSuffix (TrimSpace v) ''.'') of Some n \<Rightarrow> n | None \<Rightarrow> 0)
      | _ \<Rightarrow> 0)"

text \<open>\<open>s[idx:]\<close> where \<open>idx\<close> is \<open>strings.Index(s, sub)\<close>, when that is not -1.\<close>

fun from_index :: "string \<Rightarrow> string \<Rightarrow> string option" where
  "from_index [] sub = (if sub = [] then Some [] else None)"
| "from_index (c # cs) sub = (if HasPrefix (c # cs) sub then Some (c # cs) else from_index cs sub)"

definition vm_stat_line :: "string \<Rightarrow> int \<times> int \<times> int \<Rightarrow> int \<times> int \<times> int" where
  "vm_stat_line line st =
     (case st of (pageSize, free, inactive) \<Rightarrow>
      if HasPrefix line ''Mach Virtual Memory Statistics'' then
        ((case from_index line ''page size of'' of
            Some rest \<Rightarrow> (case Fields rest of
                _ # _ # _ # v # _ \<Rightarrow> (case ParseInt v of Some ps \<Rightarrow> ps | None \<Rightarrow> pageSize)
              | _ \<Rightarrow> pageSize)
          | None \<Rightarrow> pageSize), free, inactive)
      else if HasPrefix line ''Pages free:'' then (pageSize, parseVMStatLine line, inactive)
      else if HasPrefix line ''Pages inactive:'' then (pageSize, free, parseVMStatLine line)
      else st)"

definition go_half :: "int \<Rightarrow> int" where
  "go_half x = (if x < 0 then - ((- x) div 2) else x div 2)"

definition darwinMemory :: "string res \<Rightarrow> string res \<Rightarrow> (int \<times> int) res" where
  "darwinMemory memsize vmStat =
     (case memsize of Inl e \<Rightarrow> Inl (wrapw ''sysctl hw.memsize'' e)
      | Inr out \<Rightarrow>
     (case ParseInt (TrimSpace out) of
        None \<Rightarrow> Inl (wrapw ''parse hw.memsize'' (ExtErr ''strconv.ParseInt''))
      | Some tot \<Rightarrow>
     (case vmStat of
        Inl _ \<Rightarrow> Inr (go_half tot, go_half tot)
      | Inr vmOut \<Rightarrow>
          let (pageSize, free, inactive) = fold vm_stat_line (Split vmOut (CHR 0x0A)) (4096, 0, 0);
              availBytes = wrap64 (wrap64 (free + inactive) * pageSize);
              usedBytes = wrap64 (tot - availBytes) in
          Inr (availBytes, if usedBytes < 0 then 0 else usedBytes))))"

definition systemMemory :: "DockerHost \<Rightarrow> (int \<times> int) res" where
  "systemMemory h =
     (if dh_GOOS h = ''linux'' then linuxMemory (dh_meminfo h)
      else if dh_GOOS h = ''darwin'' then darwinMemory (dh_hw_memsize h) (dh_vm_stat h)
      else Inl (Errorf ''unsupported OS: %s'' [AStr (dh_GOOS h)]))"

definition docker_HostInfo :: "'d DockerClient \<Rightarrow> DockerHost \<Rightarrow> (HostResources res, 'd) act" where
  "docker_HostInfo dc h w =
     (case map_err (wrapw ''docker info'') (dc_Info dc) w of
        (Inl e, w') \<Rightarrow> (Inl e, w')
      | (Inr (ncpu, memTotal), w') \<Rightarrow>
          let (avail, usedm) =
            (case systemMemory h of
               Inr (a, u) \<Rightarrow> (a, u)
             | Inl _ \<Rightarrow> if memTotal > 0 then (go_half memTotal, go_half memTotal) else (0, 0)) in
          (Inr \<lparr>hr_TotalCPUs = (if ncpu = 0 then dh_NumCPU h else ncpu), hr_TotalMemory = memTotal,
             hr_UsedMemory = usedm, hr_AvailMemory = avail, hr_CPUPercent = Fin 0, hr_LoadAvg1 = Fin 0\<rparr>, w'))"

section \<open>The backend\<close>

definition docker_runtime :: "'d DockerClient \<Rightarrow> DockerHost \<Rightarrow> string \<Rightarrow> 'd Runtime" where
  "docker_runtime dc h ociRuntime =
     \<lparr>rt_Name = ''docker'',
      rt_Create = docker_Create dc ociRuntime,
      rt_Start = dc_ContainerStart dc,
      rt_Stop = dc_ContainerStop dc,
      rt_Destroy = (\<lambda>i. dc_ContainerRemove dc i True),
      rt_Exec = docker_Exec dc,
      rt_Info = docker_Info dc,
      rt_Stats = docker_Stats dc,
      rt_List = docker_List dc,
      rt_Snapshot = docker_Snapshot dc,
      rt_Restore = docker_Restore dc ociRuntime,
      rt_ListSnapshots = docker_ListSnapshots dc,
      rt_DeleteSnapshot = (\<lambda>i. map_err (wrapw ''remove snapshot image'') (dc_ImageRemove dc i)),
      rt_CreateNetwork = docker_CreateNetwork dc,
      rt_DeleteNetwork = docker_DeleteNetwork dc,
      rt_CopyToContainer = docker_CopyToContainer dc,
      rt_CopyFromContainer = docker_CopyFromContainer dc,
      rt_Pause = dc_ContainerPause dc,
      rt_Unpause = dc_ContainerUnpause dc,
      rt_UpdateResources = docker_UpdateResources dc,
      rt_HostInfo = docker_HostInfo dc h,
      rt_InspectImage = Some (dc_ImageInspect dc)\<rparr>"

definition gvisor_runtime :: "'d DockerClient \<Rightarrow> DockerHost \<Rightarrow> 'd Runtime" where
  "gvisor_runtime dc h = (docker_runtime dc h ''runsc'')\<lparr>rt_Name := ''gvisor''\<rparr>"

section \<open>Contract\<close>

locale docker_daemon =
  fixes dc :: "'d DockerClient"
    and live :: "'d \<Rightarrow> string set"
    and used :: "'d \<Rightarrow> string set"
  assumes existing_used: "live w \<subseteq> used w"
    and container_created: "dc_ContainerCreate dc kc hc ep n w = (Inr i, w') \<Longrightarrow>
      i \<notin> used w \<and> i \<noteq> '''' \<and> live w' = insert i (live w) \<and> used w' = insert i (used w)"
    and container_not_created: "dc_ContainerCreate dc kc hc ep n w = (Inl e, w') \<Longrightarrow>
      live w' = live w \<and> used w' = used w"
    and container_removed: "dc_ContainerRemove dc i True w = (Inr (), w') \<Longrightarrow>
      live w' = live w - {i} \<and> used w' = used w"
    and container_not_removed: "dc_ContainerRemove dc i True w = (Inl e, w') \<Longrightarrow>
      live w' = live w \<and> used w' = used w"
    and others_keep:
      "keeps (\<lambda>w. (live w, used w)) (dc_ImageInspect dc ref)"
      "keeps (\<lambda>w. (live w, used w)) (dc_ImagePull dc ref)"
      "keeps (\<lambda>w. (live w, used w)) (dc_ContainerStart dc i)"
      "keeps (\<lambda>w. (live w, used w)) (dc_ContainerStop dc i)"
      "keeps (\<lambda>w. (live w, used w)) (dc_ExecCreate dc i eo)"
      "keeps (\<lambda>w. (live w, used w)) (dc_ExecAttach dc i b)"
      "keeps (\<lambda>w. (live w, used w)) (dc_ExecInspect dc i)"
      "keeps (\<lambda>w. (live w, used w)) (dc_ContainerInspect dc i)"
      "keeps (\<lambda>w. (live w, used w)) (dc_ContainerList dc lab)"
      "keeps (\<lambda>w. (live w, used w)) (dc_NetworkCreate dc n d b ls)"
      "keeps (\<lambda>w. (live w, used w)) (dc_NetworkRemove dc n)"
begin

lemma map_err_keeps: "keeps (\<lambda>w. (live w, used w)) a \<Longrightarrow> keeps (\<lambda>w. (live w, used w)) (map_err f a)"
  by (rule keepsI) (auto simp: map_err_def dest: keepsD split: prod.splits sum.splits)

lemmas keep = others_keep [THEN keepsD] others_keep [THEN map_err_keeps, THEN keepsD]

lemma ensureImage_keeps: "ensureImage dc ref w = (r, w') \<Longrightarrow> live w' = live w \<and> used w' = used w"
  by (auto simp: ensureImage_def dest!: keep split: prod.splits sum.splits)

lemma docker_Create_ok:
  "docker_Create dc oci cfg w = (Inr i, w') \<Longrightarrow>
   i \<notin> used w \<and> i \<noteq> '''' \<and> live w' = insert i (live w) \<and> used w' = insert i (used w)"
  by (auto simp: docker_Create_def map_err_def dest!: ensureImage_keeps container_created
      split: prod.splits sum.splits)

lemma docker_Create_fail:
  "docker_Create dc oci cfg w = (Inl e, w') \<Longrightarrow> live w' = live w \<and> used w' = used w"
  by (auto simp: docker_Create_def map_err_def dest!: ensureImage_keeps container_not_created
      split: prod.splits sum.splits)

lemma docker_Exec_keeps: "keeps (\<lambda>w. (live w, used w)) (docker_Exec dc i cfg)"
  by (rule keepsI) (auto simp: docker_Exec_def dest!: keep split: prod.splits sum.splits)

lemma docker_Info_keeps: "keeps (\<lambda>w. (live w, used w)) (docker_Info dc i)"
  by (rule keepsI) (auto simp: docker_Info_def dest!: keep split: prod.splits sum.splits)

lemma docker_List_keeps: "keeps (\<lambda>w. (live w, used w)) (docker_List dc)"
  by (rule keepsI) (auto simp: docker_List_def dest!: keep split: prod.splits sum.splits)

lemma docker_is_runtime: "container_runtime (docker_runtime dc h oci) live used"
  by unfold_locales
    (auto simp: docker_runtime_def existing_used [THEN subsetD] others_keep docker_Exec_keeps
      docker_Restore_def docker_Info_keeps docker_List_keeps docker_CreateNetwork_def
      docker_DeleteNetwork_def map_err_keeps
      dest!: docker_Create_ok docker_Create_fail container_removed container_not_removed)

end

sublocale docker_daemon \<subseteq> dk: container_runtime "docker_runtime dc h oci" live used for h oci
  by (rule docker_is_runtime)

end
