(* ===== verification/Deployment.thy ===== *)
theory Deployment
  imports MatrixSpec FileStores Docker
begin

text \<open>
  The system put together: the controller with the four file stores of \<open>internal/state\<close>, the quota
  manager over the same stores and the Docker backend. The stores share one persistent state, a
  record of four disks. The Docker client is instantiated by a small executable daemon that hands out
  fresh IDs and keeps the list of containers, so that every assumption made of the daemon is seen
  to be satisfiable and the operations can be evaluated on concrete inputs.
\<close>

section \<open>One persistent state for all stores\<close>

record persist =
  pd_sandboxes :: "Sandbox disk"
  pd_matrices :: "Matrix disk"
  pd_sessions :: "Session disk"
  pd_teams :: "Team disk"

definition lens :: "('s \<Rightarrow> 'a) \<Rightarrow> ('a \<Rightarrow> 's \<Rightarrow> 's) \<Rightarrow> ('r, 'a) act \<Rightarrow> ('r, 's) act" where
  "lens g u a s = (case a (g s) of (r, x) \<Rightarrow> (r, u x s))"

definition kv_on :: "('s \<Rightarrow> 'a) \<Rightarrow> ('a \<Rightarrow> 's \<Rightarrow> 's) \<Rightarrow> ('v, 'a) KVStore \<Rightarrow> ('v, 's) KVStore" where
  "kv_on g u st = \<lparr>kv_Get = (\<lambda>n. lens g u (kv_Get st n)), kv_List = lens g u (kv_List st),
     kv_Save = (\<lambda>v. lens g u (kv_Save st v)), kv_Delete = (\<lambda>n. lens g u (kv_Delete st n))\<rparr>"

lemma lens_eq [iface_simps]:
  "lens g u a s = (r, s') \<longleftrightarrow> (\<exists>x. a (g s) = (r, x) \<and> s' = u x s)"
  by (auto simp: lens_def split: prod.splits)

text \<open>A store keeps its contract inside a larger state.\<close>

lemma reliable_lens:
  assumes "reliable_store (kv_Get st) (kv_List st) (kv_Save st) (kv_Delete st) key a P"
    and gu: "\<And>x s. g (u x s) = x" and Q: "\<And>x s. Q (u x s) = Q s"
  shows "reliable_store (kv_Get (kv_on g u st)) (kv_List (kv_on g u st)) (kv_Save (kv_on g u st))
    (kv_Delete (kv_on g u st)) key (\<lambda>s. a (g s)) (\<lambda>s. P (g s) \<and> Q s)"
proof -
  note R = assms(1)
  note K = reliable_store.axioms(1) [OF R, THEN atomic_store.axioms(1)]
  note A = reliable_store.axioms(1) [OF R]
  show ?thesis
  proof (unfold_locales, goal_cases)
    case 1 then show ?case by (auto simp: kv_on_def lens_eq intro: kv_store.get_found [OF K])
  next
    case 2 then show ?case by (auto simp: kv_on_def lens_eq gu Q dest: kv_store.get_frame [OF K])
  next
    case 3 then show ?case by (auto simp: kv_on_def lens_eq intro: kv_store.list_found [OF K])
  next
    case 4 then show ?case by (auto simp: kv_on_def lens_eq gu Q dest: kv_store.list_frame [OF K])
  next
    case 5 then show ?case by (auto simp: kv_on_def lens_eq gu Q dest: kv_store.save_done [OF K])
  next
    case 6 then show ?case by (auto simp: kv_on_def lens_eq gu Q dest: kv_store.save_failed [OF K])
  next
    case 7 then show ?case by (auto simp: kv_on_def lens_eq gu Q dest: kv_store.del_done [OF K])
  next
    case 8 then show ?case by (auto simp: kv_on_def lens_eq gu Q dest: kv_store.del_failed [OF K])
  next
    case 9 then show ?case by (auto intro: kv_store.keyed [OF K])
  next
    case 10 then show ?case by (auto simp: kv_on_def lens_eq gu dest: atomic_store.save_failed_same [OF A])
  next
    case 11 then show ?case by (auto simp: kv_on_def lens_eq gu dest: atomic_store.del_failed_same [OF A])
  next
    case 12 then show ?case by (auto simp: kv_on_def lens_eq dest: reliable_store.get_hit [OF R])
  next
    case 13 then show ?case by (auto simp: kv_on_def lens_eq dest: reliable_store.list_total [OF R])
  next
    case (14 p v)
    then obtain x where "kv_Save st v (g p) = (Inr (), x)"
      using reliable_store.save_total [OF R, of "g p" v] by auto
    then show ?case by (auto simp: kv_on_def lens_eq)
  next
    case (15 p n)
    then obtain x where "kv_Delete st n (g p) = (Inr (), x)"
      using reliable_store.del_hit [OF R, of "g p" n] by auto
    then show ?case by (auto simp: kv_on_def lens_eq)
  qed
qed

definition sandboxes_in :: "persist Store" where
  "sandboxes_in = kv_on pd_sandboxes (\<lambda>d p. p\<lparr>pd_sandboxes := d\<rparr>) file_store"
definition matrices_in :: "persist MatrixStore" where
  "matrices_in = kv_on pd_matrices (\<lambda>d p. p\<lparr>pd_matrices := d\<rparr>) file_matrix_store"
definition teams_in :: "persist TeamStore" where
  "teams_in = kv_on pd_teams (\<lambda>d p. p\<lparr>pd_teams := d\<rparr>) file_team_store"
abbreviation on_sessions :: "('r, Session disk) act \<Rightarrow> ('r, persist) act" where
  "on_sessions \<equiv> lens pd_sessions (\<lambda>d p. p\<lparr>pd_sessions := d\<rparr>)"
definition sessions_in :: "persist SessionStore" where
  "sessions_in =
     \<lparr>kv_Get = (\<lambda>n. on_sessions (FileSessionStore_Get n)),
      kv_List = on_sessions FileSessionStore_List,
      kv_Save = (\<lambda>v. on_sessions (FileSessionStore_Save v)),
      kv_Delete = (\<lambda>n. on_sessions (FileSessionStore_Delete n)),
      ss_ListBySandbox = (\<lambda>n. on_sessions (FileSessionStore_ListBySandbox n))\<rparr>"

definition persist_ok :: "persist \<Rightarrow> bool" where
  "persist_ok p \<longleftrightarrow> fs_good sandbox_key (pd_sandboxes p) \<and> fs_good matrix_key (pd_matrices p) \<and>
     fs_good session_key (pd_sessions p) \<and> fs_good team_key (pd_teams p)"

definition records :: "persist \<Rightarrow> string \<rightharpoonup> Sandbox" where
  "records p = fs_abs (pd_sandboxes p)"

lemma file_store_reliable:
  "reliable_store (kv_Get file_store) (kv_List file_store) (kv_Save file_store) (kv_Delete file_store)
     sandbox_key fs_abs (fs_good sandbox_key)"
  "reliable_store (kv_Get file_matrix_store) (kv_List file_matrix_store) (kv_Save file_matrix_store)
     (kv_Delete file_matrix_store) matrix_key fs_abs (fs_good matrix_key)"
  "reliable_store (kv_Get file_session_store) (kv_List file_session_store) (kv_Save file_session_store)
     (kv_Delete file_session_store) session_key fs_abs (fs_good session_key)"
  "reliable_store (kv_Get file_team_store) (kv_List file_team_store) (kv_Save file_team_store)
     (kv_Delete file_team_store) team_key fs_abs (fs_good team_key)"
  by (simp_all add: file_store_defs fs_reliable)

interpretation psb: reliable_store "kv_Get sandboxes_in" "kv_List sandboxes_in" "kv_Save sandboxes_in"
  "kv_Delete sandboxes_in" sandbox_key records persist_ok
proof -
  define Q where "Q p \<longleftrightarrow> fs_good matrix_key (pd_matrices p) \<and> fs_good session_key (pd_sessions p) \<and>
    fs_good team_key (pd_teams p)" for p :: persist
  have "records = (\<lambda>p. fs_abs (pd_sandboxes p))"
    "persist_ok = (\<lambda>p. fs_good sandbox_key (pd_sandboxes p) \<and> Q p)"
    by (auto simp: records_def persist_ok_def Q_def fun_eq_iff)
  then show "reliable_store (kv_Get sandboxes_in) (kv_List sandboxes_in) (kv_Save sandboxes_in)
      (kv_Delete sandboxes_in) sandbox_key records persist_ok"
    using reliable_lens [OF file_store_reliable(1), of pd_sandboxes "\<lambda>d p. p\<lparr>pd_sandboxes := d\<rparr>" Q]
    by (simp add: sandboxes_in_def Q_def)
qed

definition matrix_records :: "persist \<Rightarrow> string \<rightharpoonup> Matrix" where
  "matrix_records p = fs_abs (pd_matrices p)"

interpretation pmx: reliable_store "kv_Get matrices_in" "kv_List matrices_in" "kv_Save matrices_in"
  "kv_Delete matrices_in" matrix_key matrix_records persist_ok
proof -
  define Q where "Q p \<longleftrightarrow> fs_good sandbox_key (pd_sandboxes p) \<and> fs_good session_key (pd_sessions p) \<and>
    fs_good team_key (pd_teams p)" for p :: persist
  have "matrix_records = (\<lambda>p. fs_abs (pd_matrices p))"
    "persist_ok = (\<lambda>p. fs_good matrix_key (pd_matrices p) \<and> Q p)"
    by (auto simp: matrix_records_def persist_ok_def Q_def fun_eq_iff)
  then show "reliable_store (kv_Get matrices_in) (kv_List matrices_in) (kv_Save matrices_in)
      (kv_Delete matrices_in) matrix_key matrix_records persist_ok"
    using reliable_lens [OF file_store_reliable(2), of pd_matrices "\<lambda>d p. p\<lparr>pd_matrices := d\<rparr>" Q]
    by (simp add: matrices_in_def Q_def)
qed

section \<open>The quota manager reads, it does not write\<close>

definition quota_manager :: "persist Manager" where
  "quota_manager = \<lparr>qm_teams = teams_in, qm_sandboxes = sandboxes_in, qm_matrices = Some matrices_in,
     qm_sessions = Some sessions_in\<rparr>"

lemma reads_only:
  assumes "persist_ok p"
  shows "\<exists>r. kv_Get sandboxes_in n p = (r, p)" "\<exists>r. kv_List sandboxes_in p = (Inr r, p)"
    "\<exists>r. kv_Get teams_in n p = (r, p)" "\<exists>r. kv_List matrices_in p = (Inr r, p)"
    "\<exists>r. kv_List sessions_in p = (Inr r, p)"
proof -
  have g: "fs_good sandbox_key (pd_sandboxes p)" "fs_good matrix_key (pd_matrices p)"
    "fs_good session_key (pd_sessions p)" "fs_good team_key (pd_teams p)"
    using assms by (auto simp: persist_ok_def)
  note l = fs_list_good [where f = "\<lambda>_. True"]
  show "\<exists>r. kv_Get sandboxes_in n p = (r, p)" "\<exists>r. kv_Get teams_in n p = (r, p)"
    using g by (auto simp: sandboxes_in_def teams_in_def kv_on_def lens_def file_store_defs fs_get_good)
  obtain a b d where "fs_list ''state'' (\<lambda>_. True) (pd_sandboxes p) = (Inr a, pd_sandboxes p)"
    "fs_list ''matrices'' (\<lambda>_. True) (pd_matrices p) = (Inr b, pd_matrices p)"
    "fs_list ''sessions'' (\<lambda>_. True) (pd_sessions p) = (Inr d, pd_sessions p)"
    using l [OF g(1)] l [OF g(2)] l [OF g(3)] by metis
  then show "\<exists>r. kv_List sandboxes_in p = (Inr r, p)" "\<exists>r. kv_List matrices_in p = (Inr r, p)"
    "\<exists>r. kv_List sessions_in p = (Inr r, p)"
    by (simp_all add: sandboxes_in_def matrices_in_def sessions_in_def kv_on_def file_store_defs lens_def)
qed

lemma CheckQuota_reads_only:
  assumes "persist_ok p" and "CheckQuota quota_manager t r p = (x, p')"
  shows "p' = p"
proof -
  have "\<exists>u. GetUsage quota_manager t p = (u, p)"
    using reads_only [OF assms(1)] by (auto simp: GetUsage_def quota_manager_def Let_def)
  with reads_only(3) [OF assms(1), of t] assms(2) show ?thesis
    by (auto simp: CheckQuota_def quota_manager_def split: sum.splits option.splits)
qed

text \<open>The number of sandboxes a team has, as the quota manager counts them.\<close>

definition team_records :: "(string \<rightharpoonup> Sandbox) \<Rightarrow> string \<Rightarrow> string set" where
  "team_records M t = {n. \<exists>sb. M n = Some sb \<and> sp_Team (sb_Spec sb) = t}"

lemma GetUsage_counts:
  assumes "persist_ok p" and "GetUsage quota_manager t p = (Inr u, p')"
  shows "us_Sandboxes u = wrap64 (int (card (team_records (records p) t)))"
proof -
  obtain vs where vs: "kv_List sandboxes_in p = (Inr vs, p)" using reads_only(2) [OF assms(1)] by blast
  have "us_Sandboxes u = us_Sandboxes (add_sandboxes t vs zero_usage)"
    using assms(2) vs reads_only(4,5) [OF assms(1)]
    by (auto simp: GetUsage_def quota_manager_def Let_def)
  also have "\<dots> = wrap64 (int (length (team_sandboxes t vs)))"
    using add_sandboxes_sums [of zero_usage t vs] by (simp add: usage_ok_def zero_usage_def in_int64_def)
  also have "length (team_sandboxes t vs) = card (team_records (records p) t)"
    using lists_values_count [OF psb.list_found [OF assms(1) vs]]
    by (simp add: team_sandboxes_def team_records_def)
  finally show ?thesis .
qed

lemma CheckQuota_sandboxes:
  assumes "persist_ok p" and "CheckQuota quota_manager t r p = (Inr (), p')"
    and "fs_abs (pd_teams p) t = Some tm" and "0 < rq_MaxSandboxes (t_Quota tm)" and "0 < qr_Sandboxes r"
  shows "wrap64 (wrap64 (int (card (team_records (records p) t))) + qr_Sandboxes r) \<le> rq_MaxSandboxes (t_Quota tm)"
proof -
  have "kv_Get teams_in t p = (Inr tm, p)"
    using assms(1,3) by (simp add: teams_in_def kv_on_def lens_def file_store_defs fs_get_good [of team_key] persist_ok_def)
  moreover obtain x where x: "GetUsage quota_manager t p = (x, p)"
    using reads_only [OF assms(1)] by (auto simp: GetUsage_def quota_manager_def Let_def)
  ultimately obtain u where u: "x = Inr u" and "check_limits t (t_Quota tm) u r = None"
    using assms(2) by (cases x) (auto simp: CheckQuota_def quota_manager_def split: option.splits)
  then have "wrap64 (us_Sandboxes u + qr_Sandboxes r) \<le> rq_MaxSandboxes (t_Quota tm)"
    using assms(4,5) by (auto simp: check_limits_None check_count_None)
  with GetUsage_counts [OF assms(1)] x u show ?thesis by simp
qed

lemma records_finite: "persist_ok p \<Longrightarrow> finite (team_records (records p) t)"
proof -
  assume p: "persist_ok p"
  obtain vs where "lists_values (records p) vs"
    using reads_only(2) [OF p] psb.list_found [OF p] by blast
  then have "finite (dom (records p))" unfolding lists_values_def by (metis List.finite_set)
  then show ?thesis by (rule rev_finite_subset) (auto simp: team_records_def)
qed

section \<open>A daemon\<close>

record simc =
  sk_name :: string
  sk_image :: string
  sk_labels :: "string gomap"
  sk_state :: string

record simd =
  sd_next :: nat
  sd_containers :: "(string \<times> simc) list"
  sd_networks :: "string list"
  sd_exit :: "string list \<Rightarrow> int"

definition sim_id :: "nat \<Rightarrow> string" where
  "sim_id n = CHR ''c'' # nat_digits n"

definition no_such :: "string \<Rightarrow> goerr" where
  "no_such i = ExtErr (''No such container: '' @ i)"

definition on_container :: "string \<Rightarrow> (simc \<Rightarrow> 'a res \<times> simc) \<Rightarrow> ('a res, simd) act" where
  "on_container i f w =
     (case map_of (sd_containers w) i of
        None \<Rightarrow> (Inl (no_such i), w)
      | Some k \<Rightarrow> (case f k of (r, k') \<Rightarrow> (r, w\<lparr>sd_containers := AList.update i k' (sd_containers w)\<rparr>)))"

definition sim_create :: "ContainerConfig \<Rightarrow> string \<Rightarrow> (string res, simd) act" where
  "sim_create kc n w =
     (if n \<in> set (map (sk_name \<circ> snd) (sd_containers w))
      then (Inl (ExtErr ''name already in use''), w)
      else let i = sim_id (sd_next w) in
        (Inr i, w\<lparr>sd_next := Suc (sd_next w),
           sd_containers := (i, \<lparr>sk_name = n, sk_image = kc_Image kc, sk_labels = kc_Labels kc,
             sk_state = ''created''\<rparr>) # sd_containers w\<rparr>))"

definition sim_inspect :: "string \<Rightarrow> (ContainerJSON res, simd) act" where
  "sim_inspect i = on_container i (\<lambda>k. (Inr \<lparr>cj_ID = i, cj_Name = CHR ''/'' # sk_name k,
     cj_Image = sk_image k, cj_Status = sk_state k, cj_Labels = sk_labels k,
     cj_NetworkSettings = Some ([(''bridge'', ''172.17.0.2'')], [])\<rparr>, k))"

definition sim_client :: "simd DockerClient" where
  "sim_client =
     \<lparr>dc_ImageInspect = (\<lambda>ref w. (if HasPrefix ref ''smx-built/'' then Inl (ExtErr ''no such image'')
        else Inr ref, w)),
      dc_ImagePull = (\<lambda>ref w. (Inr (), w)),
      dc_ContainerCreate = (\<lambda>kc hc ep n. sim_create kc n),
      dc_ContainerStart = (\<lambda>i. on_container i (\<lambda>k. (Inr (), k\<lparr>sk_state := ''running''\<rparr>))),
      dc_ContainerStop = (\<lambda>i. on_container i (\<lambda>k. (Inr (), k\<lparr>sk_state := ''exited''\<rparr>))),
      dc_ContainerRemove = (\<lambda>i force w. case map_of (sd_containers w) i of
          None \<Rightarrow> (Inl (no_such i), w)
        | Some _ \<Rightarrow> (Inr (), w\<lparr>sd_containers := AList.delete i (sd_containers w)\<rparr>)),
      dc_ExecCreate = (\<lambda>i eo w. (if map_of (sd_containers w) i = None then Inl (no_such i)
        else Inr (itoa (sd_exit w (eo_Cmd eo))), w)),
      dc_ExecAttach = (\<lambda>i b w. (Inr ('''', ''''), w)),
      dc_ExecInspect = (\<lambda>i w. (Inr (ParseInt_val i), w)),
      dc_ContainerInspect = sim_inspect,
      dc_ContainerStats = (\<lambda>i w. (Inl (no_such i), w)),
      dc_ContainerList = (\<lambda>f w. (Inr (map (\<lambda>(i, k). \<lparr>ks_ID = i, ks_Names = [CHR ''/'' # sk_name k],
        ks_Image = sk_image k, ks_State = sk_state k, ks_Labels = sk_labels k\<rparr>) (sd_containers w)), w)),
      dc_ContainerCommit = (\<lambda>i ref cm w. (Inr ref, w)),
      dc_ImageList = (\<lambda>f w. (Inr [], w)),
      dc_ImageRemove = (\<lambda>i w. (Inr (), w)),
      dc_NetworkCreate = (\<lambda>n d b ls w. if n \<in> set (sd_networks w) then (Inl (ExtErr ''exists''), w)
        else (Inr (), w\<lparr>sd_networks := n # sd_networks w\<rparr>)),
      dc_NetworkRemove = (\<lambda>n w. (Inr (), w\<lparr>sd_networks := removeAll n (sd_networks w)\<rparr>)),
      dc_CopyToContainer = (\<lambda>i d es w. (Inr (), w)),
      dc_CopyFromContainer = (\<lambda>i p w. (Inr [], w)),
      dc_ContainerPause = (\<lambda>i w. (Inr (), w)),
      dc_ContainerUnpause = (\<lambda>i w. (Inr (), w)),
      dc_ContainerUpdate = (\<lambda>i a b cq w. (Inr (), w)),
      dc_Info = (\<lambda>w. (Inr (4, 8589934592), w))\<rparr>"

definition sim_used :: "simd \<Rightarrow> string set" where
  "sim_used w = sim_id ` {..<sd_next w}"

definition sim_live :: "simd \<Rightarrow> string set" where
  "sim_live w = dom (map_of (sd_containers w)) \<inter> sim_used w"

lemma sim_id_inj: "sim_id a = sim_id b \<longleftrightarrow> a = b"
  by (metis sim_id_def list.inject nat_digits_val)

lemma sim_id_fresh: "sim_id (sd_next w) \<notin> sim_used w"
  by (auto simp: sim_used_def sim_id_inj)

lemma on_container_keeps: "keeps (\<lambda>w. (sim_live w, sim_used w)) (on_container i f)"
  by (rule keepsI)
    (auto simp: on_container_def sim_live_def sim_used_def split: option.splits prod.splits if_splits)

lemma sim_used_Suc: "sim_used (w\<lparr>sd_next := Suc (sd_next w), sd_containers := cs\<rparr>) =
    insert (sim_id (sd_next w)) (sim_used w)"
  by (simp add: sim_used_def lessThan_Suc)

interpretation sim: docker_daemon sim_client sim_live sim_used
proof (unfold_locales, goal_cases)
  case 1 then show ?case by (simp add: sim_live_def)
next
  case (2 kc hc ep n w i w')
  then have i: "i = sim_id (sd_next w)" "\<exists>k. w' = w\<lparr>sd_next := Suc (sd_next w), sd_containers := (i, k) # sd_containers w\<rparr>"
    by (auto simp: sim_client_def sim_create_def Let_def split: if_splits)
  then have "i \<noteq> ''''" by (simp add: sim_id_def)
  with i show ?case using sim_id_fresh [of w] by (auto simp: sim_live_def sim_used_Suc)
next
  case 3 then show ?case by (auto simp: sim_client_def sim_create_def Let_def split: if_splits)
next
  case 4 then show ?case
    by (auto simp: sim_client_def sim_live_def sim_used_def split: option.splits if_splits)
next
  case 5 then show ?case by (auto simp: sim_client_def split: option.splits)
qed (simp_all add: sim_client_def sim_inspect_def on_container_keeps,
    simp_all add: keeps_def sim_live_def sim_used_def)

section \<open>The deployed controller\<close>

definition sim_net :: "simd NetEnv" where
  "sim_net = \<lparr>ctx_Err = (\<lambda>w. (None, w)), ctx_Wait = (\<lambda>d w. (None, w)), http_NewRequest = (\<lambda>u. None),
     http_Do = (\<lambda>d u w. (Inr 200, w)), tcp_Dial = (\<lambda>d a w. (Inr (), w))\<rparr>"

definition sim_dockerhost :: DockerHost where
  "sim_dockerhost = \<lparr>dh_GOOS = ''linux'', dh_meminfo = Inl (ExtErr ''no /proc''),
     dh_hw_memsize = Inl (ExtErr ''''), dh_vm_stat = Inl (ExtErr ''''), dh_NumCPU = 4\<rparr>"

definition deployed :: "HostEnv \<Rightarrow> (simd, persist) Controller" where
  "deployed host = \<lparr>ct_runtime = docker_runtime sim_client sim_dockerhost '''', ct_store = sandboxes_in,
     ct_sessions = Some sessions_in, ct_matrices = Some matrices_in,
     ct_quotaChecker = Some (CheckQuota quota_manager), ct_host = host, ct_net = sim_net\<rparr>"

interpretation dep: controller_reliable "deployed host" sim_live sim_used records persist_ok for host
proof -
  have rt: "ct_runtime (deployed host) = docker_runtime sim_client sim_dockerhost ''''"
    and st: "ct_store (deployed host) = sandboxes_in" and net: "ct_net (deployed host) = sim_net"
    and qc: "ct_quotaChecker (deployed host) = Some (CheckQuota quota_manager)"
    by (simp_all add: deployed_def)
  have "container_runtime (ct_runtime (deployed host)) sim_live sim_used"
    unfolding rt by (rule sim.docker_is_runtime)
  moreover have "probe_env_axioms sim_live sim_used sim_net"
    by unfold_locales (simp_all add: sim_net_def keeps_def)
  ultimately have "probe_env (ct_runtime (deployed host)) sim_live sim_used (ct_net (deployed host))"
    by (simp add: probe_env_def net)
  moreover have "controller_env_axioms (deployed host) records persist_ok"
    unfolding controller_env_axioms_def qc by (metis CheckQuota_reads_only option.inject)
  moreover have "controller_reliable_axioms (deployed host) sim_live"
    unfolding controller_reliable_axioms_def rt
    by (auto simp: docker_runtime_def sim_client_def sim_live_def)
  ultimately show "controller_reliable (deployed host) sim_live sim_used records persist_ok"
    using psb.reliable_store_axioms psb.kv_store_axioms
    by (simp add: controller_reliable_def controller_env_def st)
qed

interpretation depm: matrix_env "deployed host" sim_live sim_used records persist_ok matrices_in
  matrix_records for host
  by unfold_locales
    (auto simp: deployed_def matrices_in_def kv_on_def iface_simps records_def)

section \<open>A small installation\<close>

text \<open>An installation to evaluate the operations on: one blueprint file, empty state files, a team with
  room for two sandboxes, and a daemon without containers.\<close>

definition demo_blueprint :: Blueprint where
  "demo_blueprint =
     \<lparr>bp_Type = \<lparr>tm_APIVersion = ''smx/v1alpha1'', tm_Kind = ''Blueprint''\<rparr>,
      bp_Metadata = \<lparr>om_Name = ''go'', om_Version = '''', om_Labels = [], om_CreatedAt = 0, om_UpdatedAt = 0\<rparr>,
      bp_Spec = \<lparr>bs_Extends = '''', bs_Base = ''golang'', bs_Runtime = ''docker'',
        bs_Resources = zero_resources, bs_Env = [], bs_Secrets = [], bs_Setup = [\<lparr>ss_Run = ''go version''\<rparr>],
        bs_Toolchains = [], bs_Workspace = zero_workspace,
        bs_Network = \<lparr>net_Expose = [], net_Policy = '''', net_AllowDNS = False\<rparr>, bs_Devices = [],
        bs_ReadinessProbe = None\<rparr>\<rparr>"

definition demo_host :: HostEnv where
  "demo_host = \<lparr>os_ReadFile = (\<lambda>p. if p = ''go.yaml'' then Inr ''go'' else Inl (ExtErr ''no such file'')),
     os_Getenv = (\<lambda>v. ''''), os_IsNotExist = (\<lambda>p. False),
     yaml_Unmarshal = (\<lambda>data. if data = ''go'' then Inr demo_blueprint else Inl (ExtErr ''bad yaml''))\<rparr>"

definition demo_team :: Team where
  "demo_team = \<lparr>t_Name = ''red'', t_DisplayName = ''Red'', t_Members = [],
     t_Quota = \<lparr>rq_MaxSandboxes = 2, rq_MaxCPU = '''', rq_MaxMemory = '''', rq_MaxDisk = '''',
       rq_MaxGPUs = 0, rq_MaxMatrices = 0, rq_MaxSessions = 0\<rparr>, t_CreatedAt = 0\<rparr>"

definition demo_persist :: persist where
  "demo_persist = \<lparr>pd_sandboxes = empty_disk, pd_matrices = empty_disk, pd_sessions = empty_disk,
     pd_teams = empty_disk\<lparr>dk_state := Some (JDoc [(''red'', Some demo_team)])\<rparr>\<rparr>"

definition boot :: "(simd, persist) cstate" where
  "boot = \<lparr>c_rt = \<lparr>sd_next = 0, sd_containers = [], sd_networks = [], sd_exit = (\<lambda>cmd. 0)\<rparr>,
     c_ps = demo_persist, c_clock = int, c_tick = 0, c_rand = (\<lambda>n. replicate 4 (CHR ''a'')), c_draw = 0,
     c_SandboxesActive = 0, c_SessionsActive = 0, c_OpsTotal = [], c_ExecTotal = []\<rparr>"

definition demo_options :: "string \<Rightarrow> CreateOptions" where
  "demo_options n = \<lparr>co_Name = n, co_BlueprintPath = ''go.yaml'', co_WorkspaceDir = '''',
     co_NetworkName = '''', co_Env = [], co_Team = ''red''\<rparr>"

lemma boot_ok: "persist_ok (c_ps boot)"
  by (simp add: boot_def demo_persist_def persist_ok_def empty_disk_def fs_good_def fs_ok_def doc_ok_def
      demo_team_def team_key_def)

lemma boot_inv: "view_inv (view_of sim_live sim_used records boot)"
  by (simp add: boot_def view_of_def records_def demo_persist_def empty_disk_def fs_abs_def sim_live_def
      sim_used_def ids_known_def ids_held_def ids_distinct_def actives_def dom_def)

definition demo_box :: Sandbox where
  "demo_box = the (fst (fst (Create (deployed demo_host) (demo_options ''a'') boot)))"

definition demo_created :: "(simd, persist) cstate" where
  "demo_created = snd (Create (deployed demo_host) (demo_options ''a'') boot)"

lemma demo_Create: "Create (deployed demo_host) (demo_options ''a'') boot = ((Some demo_box, None), demo_created)"
proof -
  have "snd (fst (Create (deployed demo_host) (demo_options ''a'') boot)) = None"
    "fst (fst (Create (deployed demo_host) (demo_options ''a'') boot)) \<noteq> None"
    by code_simp+
  then show ?thesis unfolding demo_box_def demo_created_def by (simp add: prod_eq_iff)
qed

lemma created_ok: "persist_ok (c_ps demo_created)"
  by (rule dep.Create_run(1) [OF demo_Create boot_ok])

end
