(* ===== verification/DbSite.thy ===== *)
theory DbSite
  imports DbStores Deployment
begin

text \<open>
  The controller over an etcd cluster whose answers may get lost. The contract of an etcd store (\<open>DbStores\<close>) is weaker than what
  the theorems on the controller assume, and this shows what the difference amounts to.
\<close>

definition etcd_sandboxes :: "etcd_state Store" where
  "etcd_sandboxes = \<lparr>kv_Get = EtcdStore_Get demo_etcd js_sandbox, kv_List = EtcdStore_List demo_etcd js_sandbox,
     kv_Save = EtcdStore_Save demo_etcd js_sandbox, kv_Delete = EtcdStore_Delete demo_etcd\<rparr>"

definition on_etcd :: "(simd, etcd_state) Controller" where
  "on_etcd = \<lparr>ct_runtime = ct_runtime (deployed demo_host), ct_store = etcd_sandboxes, ct_sessions = None, ct_matrices = None,
     ct_quotaChecker = None, ct_host = demo_host, ct_net = ct_net (deployed demo_host)\<rparr>"

definition etcd_boot :: "bool list \<Rightarrow> (simd, etcd_state) cstate" where
  "etcd_boot lost = \<lparr>c_rt = c_rt boot, c_ps = \<lparr>ec_kv = [], ec_lost = lost\<rparr>, c_clock = c_clock boot, c_tick = 0, c_rand = c_rand boot,
     c_draw = 0, c_SandboxesActive = 0, c_SessionsActive = 0, c_OpsTotal = [], c_ExecTotal = []\<rparr>"

text \<open>When the answer to the last write of a Create gets lost, the client is told that the sandbox could not be created, while its
  container runs, its record says that it runs, and the gauge does not count it; every answer kept, it is created and counted.\<close>

theorem etcd_timeout_miscounts:
  "let (r, s) = Create on_etcd (demo_options ''a'') (etcd_boot [False, True]);
       sb = fst (Get on_etcd ''a'' s); (r', s') = Create on_etcd (demo_options ''a'') (etcd_boot []) in
   snd r \<noteq> None \<and> map_option (\<lambda>k. sk_state (snd k)) (List.find (\<lambda>_. True) (sd_containers (c_rt s))) = Some ''running'' \<and>
   map_sum (\<lambda>_. ()) is_live sb = Inr True \<and> c_SandboxesActive s = 0 \<and> snd r' = None \<and> c_SandboxesActive s' = 1"
  by code_simp

end
