(* ===== verification/Access.thy ===== *)
theory Access
  imports ApiTypes
begin

text \<open>
  \<open>internal/auth/rbac.go\<close> and \<open>internal/auth/audit.go\<close>: users with roles and tokens, the permissions of a
  role, and the audit log. A loop over the map of users visits them in the order of the list, which is any
  order. The random source gives 32 bytes or an error per draw; a write to the audit file may stop
  short. JSON encoding is a parameter.
\<close>

section \<open>Roles and users\<close>

record Permission =
  pm_Resource :: string
  pm_Actions :: "string list"

record RBAC =
  rb_users :: "User gomap"
  rb_roles :: "Permission list gomap"
  rb_rand :: "nat \<Rightarrow> (nat \<Rightarrow> char) res"
  rb_draw :: nat

definition default_roles :: "Permission list gomap" where
  "default_roles =
     [(RoleAdmin, [\<lparr>pm_Resource = ''*'', pm_Actions = [''*'']\<rparr>]),
      (RoleOperator,
        [\<lparr>pm_Resource = ''sandbox'', pm_Actions = [''create'', ''read'', ''update'', ''delete'', ''exec'']\<rparr>,
         \<lparr>pm_Resource = ''matrix'', pm_Actions = [''create'', ''read'', ''update'', ''delete'']\<rparr>,
         \<lparr>pm_Resource = ''session'', pm_Actions = [''create'', ''read'', ''update'', ''delete'', ''exec'']\<rparr>,
         \<lparr>pm_Resource = ''pool'', pm_Actions = [''create'', ''read'', ''update'', ''delete'']\<rparr>,
         \<lparr>pm_Resource = ''blueprint'', pm_Actions = [''read'']\<rparr>]),
      (RoleViewer, [\<lparr>pm_Resource = ''*'', pm_Actions = [''read'']\<rparr>])]"

definition New_RBAC :: "(nat \<Rightarrow> (nat \<Rightarrow> char) res) \<Rightarrow> RBAC" where
  "New_RBAC rand = \<lparr>rb_users = [], rb_roles = default_roles, rb_rand = rand, rb_draw = 0\<rparr>"

definition GenerateToken :: "(string res, RBAC) act" where
  "GenerateToken r =
     (case rb_rand r (rb_draw r) of
        Inl e \<Rightarrow> (Inl (Errorf ''generating token: %w'' [AErr e]), r\<lparr>rb_draw := Suc (rb_draw r)\<rparr>)
      | Inr b \<Rightarrow> (Inr (hex_encode (map b [0..<32])), r\<lparr>rb_draw := Suc (rb_draw r)\<rparr>))"

text \<open>\<open>AddUser\<close> also stores the token in the structure of its caller, so the user is part of the result.\<close>

definition AddUser :: "User \<Rightarrow> (User res, RBAC) act" where
  "AddUser user r =
     (if u_Name user = '''' then (Inl (Errorf ''user name is required'' []), r)
      else if gm_get (rb_users r) (u_Name user) \<noteq> None then
        (Inl (Errorf ''user %q already exists'' [AStr (u_Name user)]), r)
      else if gm_get (rb_roles r) (u_Role user) = None then
        (Inl (Errorf ''unknown role %q'' [AStr (u_Role user)]), r)
      else if u_Token user = '''' then
        (case GenerateToken r of
           (Inl e, r') \<Rightarrow> (Inl e, r')
         | (Inr token, r') \<Rightarrow>
             (let user' = user\<lparr>u_Token := token\<rparr> in
              (Inr user', r'\<lparr>rb_users := gm_set (u_Name user) user' (rb_users r')\<rparr>)))
      else (Inr user, r\<lparr>rb_users := gm_set (u_Name user) user (rb_users r)\<rparr>))"

definition RemoveUser :: "string \<Rightarrow> (unit res, RBAC) act" where
  "RemoveUser name r =
     (case gm_get (rb_users r) name of
        None \<Rightarrow> (Inl (Errorf ''user %q not found'' [AStr name]), r)
      | Some _ \<Rightarrow> (Inr (), r\<lparr>rb_users := gm_del name (rb_users r)\<rparr>))"

definition GetUser :: "RBAC \<Rightarrow> string \<Rightarrow> User res" where
  "GetUser r name =
     (case gm_get (rb_users r) name of
        None \<Rightarrow> Inl (Errorf ''user %q not found'' [AStr name])
      | Some u \<Rightarrow> Inr u)"

definition redacted :: "User \<Rightarrow> User" where
  "redacted u = (if length (u_Token u) > 8 then u\<lparr>u_Token := take 8 (u_Token u) @ ''...''\<rparr> else u)"

definition ListUsers :: "RBAC \<Rightarrow> User list" where
  "ListUsers r = map (redacted \<circ> snd) (rb_users r)"

section \<open>Authorisation\<close>

definition grants :: "Permission \<Rightarrow> string \<Rightarrow> string \<Rightarrow> bool" where
  "grants perm resource action \<longleftrightarrow>
     (pm_Resource perm = ''*'' \<or> pm_Resource perm = resource) \<and>
     list_ex (\<lambda>a. a = ''*'' \<or> a = action) (pm_Actions perm)"

definition checkPermission :: "RBAC \<Rightarrow> Role \<Rightarrow> string \<Rightarrow> string \<Rightarrow> goerr option" where
  "checkPermission r role resource action =
     (case gm_get (rb_roles r) role of
        None \<Rightarrow> Some (Errorf ''unknown role %q'' [AStr role])
      | Some perms \<Rightarrow>
          if list_ex (\<lambda>perm. grants perm resource action) perms then None
          else Some (Errorf ''role %q does not have permission %s/%s'' [AStr role, AStr resource, AStr action]))"

definition Authorize :: "RBAC \<Rightarrow> string \<Rightarrow> string \<Rightarrow> string \<Rightarrow> goerr option" where
  "Authorize r userName resource action =
     (case gm_get (rb_users r) userName of
        None \<Rightarrow> Some (Errorf ''user %q not found'' [AStr userName])
      | Some user \<Rightarrow> checkPermission r (u_Role user) resource action)"

text \<open>The name and the error are both returned: a known user without the permission has both.\<close>

definition AuthorizeByToken :: "RBAC \<Rightarrow> string \<Rightarrow> string \<Rightarrow> string \<Rightarrow> string \<times> goerr option" where
  "AuthorizeByToken r token resource action =
     (if token = '''' then ('''', Some (Errorf ''token is required'' []))
      else case find (\<lambda>(k, u). u_Token u = token) (rb_users r) of
        None \<Rightarrow> ('''', Some (Errorf ''invalid token'' []))
      | Some (k, user) \<Rightarrow> (u_Name user, checkPermission r (u_Role user) resource action))"

section \<open>The audit log\<close>

record AuditFile =
  af_content :: string
  af_short :: "nat \<Rightarrow> nat option"
  af_writes :: nat

record AuditLog =
  au_entries :: "AuditEntry list"
  au_maxSize :: int
  au_file :: "AuditFile option"
  au_clock :: "nat \<Rightarrow> gtime"
  au_tick :: nat

definition NewAuditLog :: "(string \<Rightarrow> AuditFile res) \<Rightarrow> (nat \<Rightarrow> gtime) \<Rightarrow> int \<Rightarrow> string \<Rightarrow> AuditLog res" where
  "NewAuditLog openFile clock maxSize filePath =
     (let a = \<lparr>au_entries = [], au_maxSize = maxSize, au_file = None, au_clock = clock, au_tick = 0\<rparr> in
      if filePath \<noteq> '''' then
        (case openFile filePath of Inl e \<Rightarrow> Inl e | Inr f \<Rightarrow> Inr (a\<lparr>au_file := Some f\<rparr>))
      else Inr a)"

definition audit_write :: "string \<Rightarrow> AuditFile \<Rightarrow> AuditFile" where
  "audit_write d f =
     f\<lparr>af_content := af_content f @ (case af_short f (af_writes f) of None \<Rightarrow> d | Some k \<Rightarrow> take k d),
       af_writes := Suc (af_writes f)\<rparr>"

definition stamp :: "AuditEntry \<Rightarrow> AuditLog \<Rightarrow> AuditEntry \<times> AuditLog" where
  "stamp entry a =
     (if ae_Timestamp entry = 0
      then (entry\<lparr>ae_Timestamp := au_clock a (au_tick a)\<rparr>, a\<lparr>au_tick := Suc (au_tick a)\<rparr>)
      else (entry, a))"

definition keep_last :: "int \<Rightarrow> 'a list \<Rightarrow> 'a list" where
  "keep_last maxSize es =
     (if maxSize > 0 \<and> int (length es) > maxSize then drop (length es - nat maxSize) es else es)"

definition Record :: "(AuditEntry \<Rightarrow> string res) \<Rightarrow> AuditEntry \<Rightarrow> AuditLog \<Rightarrow> AuditLog" where
  "Record marshal entry0 a0 =
     (case stamp entry0 a0 of (entry, a) \<Rightarrow>
      let a1 = a\<lparr>au_entries := keep_last (au_maxSize a) (au_entries a @ [entry])\<rparr> in
      case au_file a1 of
        None \<Rightarrow> a1
      | Some f \<Rightarrow>
          (case marshal entry of
             Inl _ \<Rightarrow> a1
           | Inr d \<Rightarrow> a1\<lparr>au_file := Some (audit_write (d @ [CHR 0x0A]) f)\<rparr>))"

definition audit_match :: "string \<Rightarrow> string \<Rightarrow> AuditEntry \<Rightarrow> bool" where
  "audit_match user action entry \<longleftrightarrow>
     \<not> (user \<noteq> '''' \<and> ae_User entry \<noteq> user) \<and> \<not> (action \<noteq> '''' \<and> ae_Action entry \<noteq> action)"

fun query_loop :: "string \<Rightarrow> string \<Rightarrow> int \<Rightarrow> AuditEntry list \<Rightarrow> AuditEntry list \<Rightarrow> AuditEntry list" where
  "query_loop user action limit [] result = result"
| "query_loop user action limit (entry # es) result =
     (if audit_match user action entry then
        (let result' = result @ [entry] in
         if limit > 0 \<and> int (length result') \<ge> limit then result'
         else query_loop user action limit es result')
      else query_loop user action limit es result)"

definition Query :: "AuditLog \<Rightarrow> string \<Rightarrow> string \<Rightarrow> int \<Rightarrow> AuditEntry list" where
  "Query a user action limit = query_loop user action limit (rev (au_entries a)) []"

text \<open>\<open>closeFile\<close> is the result of closing the file.\<close>

definition Close_audit :: "(AuditFile \<Rightarrow> unit res) \<Rightarrow> (unit res, AuditLog) act" where
  "Close_audit closeFile a =
     (case au_file a of None \<Rightarrow> (Inr (), a) | Some f \<Rightarrow> (closeFile f, a\<lparr>au_file := None\<rparr>))"

section \<open>Who may do what\<close>

definition may :: "Role \<Rightarrow> string \<Rightarrow> string \<Rightarrow> bool" where
  "may role resource action \<longleftrightarrow>
     role = RoleAdmin \<or> role = RoleViewer \<and> action = ''read'' \<or>
     role = RoleOperator \<and>
       (action = ''exec'' \<and> resource \<in> {''sandbox'', ''session''} \<or>
        action = ''read'' \<and> resource = ''blueprint'' \<or>
        action \<in> {''create'', ''read'', ''update'', ''delete''} \<and> resource \<in> {''sandbox'', ''matrix'', ''session'', ''pool''})"

lemma checkPermission_default:
  assumes "rb_roles r = default_roles"
  shows "checkPermission r role resource action = None \<longleftrightarrow> may role resource action"
  unfolding checkPermission_def assms default_roles_def may_def by (auto simp: grants_def)

lemma find_user:
  assumes "find (\<lambda>(k, u). u_Token u = token) us = Some (k, u)"
  shows "(k, u) \<in> set us" "u_Token u = token"
  using assms by (auto simp: find_Some_iff in_set_conv_nth)

section \<open>The users stay well-formed\<close>

definition user_ok :: "Permission list gomap \<Rightarrow> string \<times> User \<Rightarrow> bool" where
  "user_ok roles e \<longleftrightarrow> (case e of (k, u) \<Rightarrow>
     u_Name u = k \<and> k \<noteq> '''' \<and> u_Token u \<noteq> '''' \<and> gm_get roles (u_Role u) \<noteq> None)"

definition rbac_ok :: "RBAC \<Rightarrow> bool" where
  "rbac_ok r \<longleftrightarrow> gm_wf (rb_users r) \<and> (\<forall>e \<in> set (rb_users r). user_ok (rb_roles r) e)"

lemma rbac_okD: "rbac_ok r \<Longrightarrow> gm_get (rb_users r) k = Some u \<Longrightarrow> user_ok (rb_roles r) (k, u)"
  by (auto simp: rbac_ok_def dest: map_of_SomeD)

lemma rbac_ok_set:
  assumes "rbac_ok r" and "user_ok (rb_roles r) (k, u)"
  shows "rbac_ok (r\<lparr>rb_users := gm_set k u (rb_users r)\<rparr>)"
  using assms gm_set_entries [of k u "rb_users r"] by (auto simp: rbac_ok_def)

lemma rbac_ok_draw [simp]: "rbac_ok (r\<lparr>rb_draw := n\<rparr>) \<longleftrightarrow> rbac_ok r"
  by (simp add: rbac_ok_def)

lemma GenerateToken_run:
  "\<exists>x. GenerateToken r = (x, r\<lparr>rb_draw := Suc (rb_draw r)\<rparr>) \<and> (\<forall>token. x = Inr token \<longrightarrow> token \<noteq> '''')"
  by (cases "rb_rand r (rb_draw r)") (auto simp: GenerateToken_def simp flip: length_greater_0_conv)

lemma AddUser_ok:
  assumes "rbac_ok r"
  shows "rbac_ok (snd (AddUser user r))"
proof -
  obtain x where g: "GenerateToken r = (x, r\<lparr>rb_draw := Suc (rb_draw r)\<rparr>)" and x: "\<And>token. x = Inr token \<Longrightarrow> token \<noteq> ''''"
    using GenerateToken_run [of r] by blast
  have stored: "rbac_ok (r'\<lparr>rb_users := gm_set (u_Name user) u (rb_users r')\<rparr>)"
    if "rbac_ok r'" "u_Name user \<noteq> ''''" "gm_get (rb_roles r') (u_Role user) \<noteq> None" "u_Name u = u_Name user"
      "u_Role u = u_Role user" "u_Token u \<noteq> ''''" for r' u
    using rbac_ok_set [OF that(1), of "u_Name user" u] that(2-) by (simp add: user_ok_def)
  show ?thesis
  proof (cases "u_Token user = '''' \<and> is_ok x")
    case True
    then obtain token where t: "x = Inr token" "token \<noteq> ''''" using x by (auto simp: is_ok_iff)
    with True assms g show ?thesis
      using stored [of "r\<lparr>rb_draw := Suc (rb_draw r)\<rparr>" "user\<lparr>u_Token := token\<rparr>"]
      by (simp add: AddUser_def Let_def)
  next
    case False
    with assms g stored [of r user] show ?thesis
      by (cases x) (simp_all add: AddUser_def)
  qed
qed

lemma RemoveUser_ok: "rbac_ok r \<Longrightarrow> rbac_ok (snd (RemoveUser name r))"
  using gm_del_entries [of name "rb_users r"] by (auto simp: RemoveUser_def rbac_ok_def split: option.splits)

section \<open>Properties\<close>

datatype user_op = UAdd User | URemove string

fun run_user_op :: "user_op \<Rightarrow> RBAC \<Rightarrow> RBAC" where
  "run_user_op (UAdd u) r = snd (AddUser u r)"
| "run_user_op (URemove n) r = snd (RemoveUser n r)"

lemma AddUser_roles [simp]: "rb_roles (snd (AddUser user r)) = rb_roles r"
  using GenerateToken_run [of r] by (auto simp: AddUser_def Let_def split: sum.splits)

lemma RemoveUser_roles [simp]: "rb_roles (snd (RemoveUser name r)) = rb_roles r"
  by (simp add: RemoveUser_def split: option.splits)

lemma run_user_ops:
  "rbac_ok r \<Longrightarrow> rbac_ok (fold run_user_op ops r) \<and> rb_roles (fold run_user_op ops r) = rb_roles r"
proof (induction ops arbitrary: r)
  case (Cons x ops)
  have "rbac_ok (run_user_op x r)" "rb_roles (run_user_op x r) = rb_roles r"
    by (cases x; simp add: AddUser_ok RemoveUser_ok Cons.prems)+
  with Cons.IH show ?case by simp
qed simp

lemma New_RBAC_ok: "rbac_ok (New_RBAC rand)"
  by (simp add: rbac_ok_def New_RBAC_def)

definition own_tokens :: "RBAC \<Rightarrow> bool" where
  "own_tokens r \<longleftrightarrow> distinct (map (u_Token \<circ> snd) (rb_users r))"

lemma AuthorizeByToken_stored:
  assumes "rbac_ok r" and "own_tokens r" and "gm_get (rb_users r) n = Some u"
  shows "AuthorizeByToken r (u_Token u) resource action = (n, checkPermission r (u_Role u) resource action)"
proof -
  have mem: "(n, u) \<in> set (rb_users r)" by (rule map_of_SomeD [OF assms(3)])
  then obtain k v where f: "find (\<lambda>(k, v). u_Token v = u_Token u) (rb_users r) = Some (k, v)"
    by (cases "find (\<lambda>(k, v). u_Token v = u_Token u) (rb_users r)") (auto simp: find_None_iff)
  note fv = find_user [OF f]
  have "inj_on (u_Token \<circ> snd) (set (rb_users r))"
    using assms(2) unfolding own_tokens_def by (simp add: distinct_map)
  then have "(k, v) = (n, u)" by (rule inj_onD) (use fv mem in auto)
  with f rbac_okD [OF assms(1,3)] show ?thesis by (simp add: AuthorizeByToken_def user_ok_def)
qed

text \<open>C16. After any sequence of adding and removing users, and if no two users were given the same token, a token is
  authorised exactly when it is the token of a stored user whose role grants the action by the table of
  roles, and the name returned is the name of that user.\<close>

theorem token_authorised_iff:
  assumes "r = fold run_user_op ops (New_RBAC rand)" and "own_tokens r"
  shows "AuthorizeByToken r token resource action = (n, None) \<longleftrightarrow>
    (\<exists>u. gm_get (rb_users r) n = Some u \<and> u_Token u = token \<and> may (u_Role u) resource action)"
proof -
  have ok: "rbac_ok r" and roles: "rb_roles r = default_roles"
    using run_user_ops [OF New_RBAC_ok, of ops rand] assms(1) by (simp_all add: New_RBAC_def)
  note table = checkPermission_default [OF roles]
  have wf: "gm_wf (rb_users r)" using ok by (simp add: rbac_ok_def)
  show ?thesis
  proof
    assume a: "AuthorizeByToken r token resource action = (n, None)"
    then obtain k u where f: "find (\<lambda>(k, u). u_Token u = token) (rb_users r) = Some (k, u)"
      "n = u_Name u" "checkPermission r (u_Role u) resource action = None"
      by (auto simp: AuthorizeByToken_def split: if_splits option.splits)
    note fu = find_user [OF f(1)]
    with wf have get: "gm_get (rb_users r) k = Some u" by simp
    with rbac_okD [OF ok get] f fu table show "\<exists>u. gm_get (rb_users r) n = Some u \<and> u_Token u = token \<and> may (u_Role u) resource action"
      by (auto simp: user_ok_def)
  next
    assume "\<exists>u. gm_get (rb_users r) n = Some u \<and> u_Token u = token \<and> may (u_Role u) resource action"
    then obtain u where u: "gm_get (rb_users r) n = Some u" "u_Token u = token" "may (u_Role u) resource action" by blast
    from AuthorizeByToken_stored [OF ok assms(2) u(1)] u(2,3) table
    show "AuthorizeByToken r token resource action = (n, None)" by simp
  qed
qed

definition staff :: "user_op list" where
  "staff = [UAdd \<lparr>u_Name = ''ann'', u_Role = RoleAdmin, u_Token = ''t1''\<rparr>, UAdd \<lparr>u_Name = ''vic'', u_Role = RoleViewer, u_Token = ''t2''\<rparr>,
     UAdd \<lparr>u_Name = ''bob'', u_Role = RoleOperator, u_Token = ''t3''\<rparr>, URemove ''bob'']"

abbreviation no_rand :: "nat \<Rightarrow> (nat \<Rightarrow> char) res" where
  "no_rand \<equiv> \<lambda>n. Inl (ExtErr ''no entropy'')"

lemma staff_run:
  "fold run_user_op staff (New_RBAC no_rand) =
     (New_RBAC no_rand)\<lparr>rb_users := [(''ann'', \<lparr>u_Name = ''ann'', u_Role = RoleAdmin, u_Token = ''t1''\<rparr>),
       (''vic'', \<lparr>u_Name = ''vic'', u_Role = RoleViewer, u_Token = ''t2''\<rparr>)]\<rparr>"
  by (simp add: staff_def AddUser_def RemoveUser_def New_RBAC_def default_roles_def)

theorem token_authorised_iff_witness:
  "AuthorizeByToken (fold run_user_op staff (New_RBAC no_rand)) ''t2'' ''sandbox'' ''read'' = (''vic'', None) \<and>
   AuthorizeByToken (fold run_user_op staff (New_RBAC no_rand)) ''t2'' ''sandbox'' ''exec'' \<noteq> (''vic'', None)"
proof -
  have own: "own_tokens (fold run_user_op staff (New_RBAC no_rand))" by (simp add: staff_run own_tokens_def)
  show ?thesis using token_authorised_iff [OF refl own] by (simp add: staff_run may_def)
qed

text \<open>C17. The type invariant of the users. After any sequence of adding and removing users, with a random source that may fail,
  every stored user is stored under its own name, the name and the token are not empty and the role is one of the three.\<close>

theorem users_well_formed:
  assumes "gm_get (rb_users (fold run_user_op ops (New_RBAC rand))) k = Some u"
  shows "u_Name u = k \<and> k \<noteq> [] \<and> u_Token u \<noteq> [] \<and> u_Role u \<in> {RoleAdmin, RoleOperator, RoleViewer}"
proof -
  have "user_ok (rb_roles (fold run_user_op ops (New_RBAC rand))) (k, u)"
    using run_user_ops [OF New_RBAC_ok] assms by (blast intro: rbac_okD)
  moreover have "rb_roles (fold run_user_op ops (New_RBAC rand)) = default_roles"
    using run_user_ops [OF New_RBAC_ok] by (simp add: New_RBAC_def)
  ultimately show ?thesis by (auto simp: user_ok_def default_roles_def split: if_splits)
qed

theorem users_well_formed_witness:
  "let r = fold run_user_op staff (New_RBAC no_rand) in gm_get (rb_users r) ''vic'' \<noteq> None \<and> u_Name (the (gm_get (rb_users r) ''vic'')) = ''vic''"
proof -
  obtain u where u: "gm_get (rb_users (fold run_user_op staff (New_RBAC no_rand))) ''vic'' = Some u" by (simp add: staff_run)
  from users_well_formed [OF u] u show ?thesis by simp
qed

subsection \<open>The log\<close>

text \<open>The entries as they are stored, with the time they get.\<close>

fun stamp_all :: "AuditEntry list \<Rightarrow> AuditLog \<Rightarrow> AuditEntry list" where
  "stamp_all [] a = []"
| "stamp_all (e # es) a = (case stamp e a of (e', a') \<Rightarrow> e' # stamp_all es a')"

lemma keep_last_append: "keep_last m (keep_last m xs @ ys) = keep_last m (xs @ ys)"
  by (auto simp: keep_last_def drop_append) 

lemma keep_last_eq: "0 < m \<Longrightarrow> keep_last m xs = rev (take (nat m) (rev xs))"
  by (auto simp: keep_last_def take_rev)

lemma stamp_frame: "stamp e a = (e', a') \<Longrightarrow> au_entries a' = au_entries a \<and> au_maxSize a' = au_maxSize a"
  by (auto simp: stamp_def split: if_splits)

lemma stamp_all_cong:
  "au_clock a = au_clock b \<Longrightarrow> au_tick a = au_tick b \<Longrightarrow> stamp_all es a = stamp_all es b"
proof (induction es arbitrary: a b)
  case (Cons e es)
  show ?case
  proof (cases "ae_Timestamp e = 0")
    case True
    have "stamp_all es (a\<lparr>au_tick := Suc (au_tick a)\<rparr>) = stamp_all es (b\<lparr>au_tick := Suc (au_tick b)\<rparr>)"
      by (rule Cons.IH) (simp_all add: Cons.prems)
    with True Cons.prems show ?thesis by (simp add: stamp_def)
  next
    case False
    with Cons.IH [OF Cons.prems] show ?thesis by (simp add: stamp_def)
  qed
qed simp

lemma Record_run:
  assumes "stamp e a = (e', a')"
  shows "au_entries (Record marshal e a) = keep_last (au_maxSize a) (au_entries a @ [e'])"
    and "au_maxSize (Record marshal e a) = au_maxSize a"
    and "stamp_all es (Record marshal e a) = stamp_all es a'"
  using stamp_frame [OF assms] assms
  by (auto simp: Record_def Let_def split: option.splits sum.splits intro: stamp_all_cong)

lemma Record_all:
  "au_entries (fold (Record marshal) es a) = (if es = [] then au_entries a else keep_last (au_maxSize a) (au_entries a @ stamp_all es a))"
proof (induction es arbitrary: a)
  case (Cons e es)
  obtain e' a' where s: "stamp e a = (e', a')" by fastforce
  note run = Record_run [OF s]
  show ?case by (simp add: Cons.IH run s keep_last_append)
qed simp

lemma query_loop_filter:
  "0 \<le> int (length result) \<Longrightarrow> limit \<le> 0 \<or> int (length result) < limit \<Longrightarrow>
   query_loop user action limit es result =
     result @ (if limit > 0 then take (nat limit - length result) else id) (filter (audit_match user action) es)"
proof (induction user action limit es result rule: query_loop.induct)
  case (2 user action limit entry es result)
  show ?case
  proof (cases "audit_match user action entry \<and> limit > 0 \<and> int (Suc (length result)) \<ge> limit")
    case True
    with "2.prems" have "nat limit - length result = 1" by linarith
    with True show ?thesis by simp
  next
    case False
    then show ?thesis using 2 by (auto simp: Suc_diff_le take_Cons' Let_def)
  qed
qed simp

text \<open>The log keeps the last \<open>maxSize\<close> entries (all of them when it is not positive), and a query returns those
  that match, newest first, up to the limit.\<close>

theorem audit_query_newest_first:
  "Query (fold (Record marshal) es a) user action limit =
     (let kept = (if es = [] then au_entries a else keep_last (au_maxSize a) (au_entries a @ stamp_all es a));
          found = filter (audit_match user action) (rev kept)
      in if limit > 0 then take (nat limit) found else found)"
  by (simp add: Query_def query_loop_filter Record_all Let_def)

end
