(* ===== verification/Tokens.thy ===== *)
theory Tokens
  imports Access
begin

text \<open>
  \<open>internal/auth/jwt.go\<close>: access and refresh tokens. Signing and parsing are done by a third-party package,
  which is the parameter \<open>JWTLib\<close>; \<open>jwt_roundtrip\<close> states what its documentation says of a token that was
  signed by the service: it parses to its claims while it is valid and not otherwise. Times are nanoseconds;
  the package keeps whole seconds.
\<close>

record JWTConfig =
  jc_SigningKey :: string
  jc_Issuer :: string
  jc_Audience :: string
  jc_AccessTokenTTL :: int
  jc_RefreshTokenTTL :: int

text \<open>\<open>jwt.RegisteredClaims\<close> and the fields of \<open>UserClaims\<close>. A refresh token has the former only: the fields of
  the user are empty in it.\<close>

record UserClaims =
  cl_Issuer :: string
  cl_Subject :: string
  cl_Audience :: "string list"
  cl_ID :: string
  cl_IssuedAt :: int
  cl_ExpiresAt :: int
  cl_NotBefore :: int
  cl_UserID :: string
  cl_Email :: string
  cl_Name :: string
  cl_Role :: string
  cl_Teams :: "string list"

record JWTService =
  jw_config :: JWTConfig
  jw_signingKey :: string

record JWTLib =
  jl_SignedString :: "string \<Rightarrow> UserClaims \<Rightarrow> string res"
  jl_Parse :: "string \<Rightarrow> string \<Rightarrow> gtime \<Rightarrow> string \<Rightarrow> (UserClaims \<times> bool) res"

definition second :: int where
  "second = 1000000000"

definition hour :: int where
  "hour = 3600 * second"

text \<open>\<open>NewNumericDate\<close>: whole seconds.\<close>

definition numeric_date :: "gtime \<Rightarrow> int" where
  "numeric_date t = t div second"

definition empty_claims :: UserClaims where
  "empty_claims =
     \<lparr>cl_Issuer = '''', cl_Subject = '''', cl_Audience = [], cl_ID = '''', cl_IssuedAt = 0, cl_ExpiresAt = 0, cl_NotBefore = 0,
      cl_UserID = '''', cl_Email = '''', cl_Name = '''', cl_Role = '''', cl_Teams = []\<rparr>"

text \<open>\<open>key\<close> is what the random source gives when no key is configured.\<close>

definition NewJWTService :: "string \<Rightarrow> JWTConfig \<Rightarrow> JWTService" where
  "NewJWTService key cfg0 =
     (let cfg1 = (if jc_AccessTokenTTL cfg0 = 0 then cfg0\<lparr>jc_AccessTokenTTL := hour\<rparr> else cfg0);
          cfg2 = (if jc_RefreshTokenTTL cfg1 = 0 then cfg1\<lparr>jc_RefreshTokenTTL := 168 * hour\<rparr> else cfg1);
          cfg = (if jc_Issuer cfg2 = '''' then cfg2\<lparr>jc_Issuer := ''sandboxmatrix''\<rparr> else cfg2) in
      \<lparr>jw_config = cfg, jw_signingKey = (if jc_SigningKey cfg = '''' then key else jc_SigningKey cfg)\<rparr>)"

definition registered :: "JWTService \<Rightarrow> string \<Rightarrow> string \<Rightarrow> gtime \<Rightarrow> int \<Rightarrow> UserClaims \<Rightarrow> UserClaims" where
  "registered s subject i t ttl c =
     c\<lparr>cl_Issuer := jc_Issuer (jw_config s), cl_Subject := subject, cl_ID := i,
       cl_Audience := (if jc_Audience (jw_config s) \<noteq> '''' then [jc_Audience (jw_config s)] else []),
       cl_IssuedAt := numeric_date t, cl_ExpiresAt := numeric_date (t + ttl), cl_NotBefore := numeric_date t\<rparr>"

definition GenerateAccessToken :: "JWTLib \<Rightarrow> JWTService \<Rightarrow> gtime \<Rightarrow> UserClaims \<Rightarrow> string res" where
  "GenerateAccessToken lib s t claims =
     (case jl_SignedString lib (jw_signingKey s)
             (registered s (cl_UserID claims) '''' t (jc_AccessTokenTTL (jw_config s)) claims) of
        Inl e \<Rightarrow> Inl (Errorf ''jwt: sign access token: %w'' [AErr e])
      | Inr signed \<Rightarrow> Inr signed)"

text \<open>\<open>jti\<close> is the draw of 16 random bytes.\<close>

definition GenerateRefreshToken :: "JWTLib \<Rightarrow> JWTService \<Rightarrow> gtime \<Rightarrow> string res \<Rightarrow> string \<Rightarrow> string res" where
  "GenerateRefreshToken lib s t jti userID =
     (case jti of
        Inl e \<Rightarrow> Inl (Errorf ''jwt: generate refresh token id: %w'' [AErr e])
      | Inr b \<Rightarrow>
        (case jl_SignedString lib (jw_signingKey s)
                (registered s userID (hex_encode b) t (jc_RefreshTokenTTL (jw_config s)) empty_claims) of
           Inl e \<Rightarrow> Inl (Errorf ''jwt: sign refresh token: %w'' [AErr e])
         | Inr signed \<Rightarrow> Inr signed))"

definition ValidateToken :: "JWTLib \<Rightarrow> JWTService \<Rightarrow> gtime \<Rightarrow> string \<Rightarrow> UserClaims res" where
  "ValidateToken lib s t token =
     (case jl_Parse lib (jw_signingKey s) (jc_Issuer (jw_config s)) t token of
        Inl e \<Rightarrow> Inl (Errorf ''jwt: validate token: %w'' [AErr e])
      | Inr (claims, valid) \<Rightarrow> if \<not> valid then Inl (Errorf ''jwt: token is invalid'' []) else Inr claims)"

definition ValidateRefreshToken :: "JWTLib \<Rightarrow> JWTService \<Rightarrow> gtime \<Rightarrow> string \<Rightarrow> string res" where
  "ValidateRefreshToken lib s t token =
     (case jl_Parse lib (jw_signingKey s) (jc_Issuer (jw_config s)) t token of
        Inl e \<Rightarrow> Inl (Errorf ''jwt: validate refresh token: %w'' [AErr e])
      | Inr (claims, valid) \<Rightarrow>
          if \<not> valid then Inl (Errorf ''jwt: refresh token is invalid'' []) else Inr (cl_Subject claims))"

section \<open>Validity\<close>

text \<open>A token is in force from its first second until its last.\<close>

definition in_force :: "UserClaims \<Rightarrow> gtime \<Rightarrow> bool" where
  "in_force c t \<longleftrightarrow> cl_NotBefore c * second \<le> t \<and> t < cl_ExpiresAt c * second"

definition jwt_roundtrip :: "JWTLib \<Rightarrow> bool" where
  "jwt_roundtrip lib \<longleftrightarrow> (\<forall>key c token issuer t. jl_SignedString lib key c = Inr token \<longrightarrow>
     (if cl_Issuer c = issuer \<and> in_force c t then jl_Parse lib key issuer t token = Inr (c, True)
      else \<not> is_ok (jl_Parse lib key issuer t token)))"

lemma signed_parse:
  assumes "jwt_roundtrip lib" and "jl_SignedString lib key c = Inr token"
  shows "jl_Parse lib key (cl_Issuer c) t token = Inr (c, True) \<longleftrightarrow> in_force c t"
    and "is_ok (jl_Parse lib key (cl_Issuer c) t token) \<longleftrightarrow> in_force c t"
  using assms unfolding jwt_roundtrip_def by (metis is_ok.simps(1))+

lemma registered_simps [simp]:
  "cl_Issuer (registered s sub i t ttl c) = jc_Issuer (jw_config s)" "cl_Subject (registered s sub i t ttl c) = sub"
  "cl_UserID (registered s sub i t ttl c) = cl_UserID c" "cl_Email (registered s sub i t ttl c) = cl_Email c"
  "cl_Name (registered s sub i t ttl c) = cl_Name c" "cl_Role (registered s sub i t ttl c) = cl_Role c"
  "cl_NotBefore (registered s sub i t ttl c) = numeric_date t" "cl_ExpiresAt (registered s sub i t ttl c) = numeric_date (t + ttl)"
  by (simp_all add: registered_def)

lemma in_force_registered:
  "in_force (registered s sub i t ttl c) u \<longleftrightarrow>
     numeric_date t \<le> numeric_date u \<and> numeric_date u < numeric_date (t + ttl)"
proof -
  have "a * second \<le> u \<longleftrightarrow> a \<le> numeric_date u" for a :: int
  proof
    assume "a * second \<le> u"
    then have "a * second div second \<le> u div second" by (intro zdiv_mono1) (simp_all add: second_def)
    then show "a \<le> numeric_date u" by (simp add: numeric_date_def second_def)
  next
    assume "a \<le> numeric_date u"
    then have "a * second \<le> u div second * second"
      unfolding numeric_date_def by (rule mult_right_mono) (simp add: second_def)
    also have "\<dots> \<le> u" using minus_mod_eq_div_mult [of u second] pos_mod_sign [of second u] by (simp add: second_def)
    finally show "a * second \<le> u" .
  qed
  then show ?thesis by (simp add: in_force_def not_le [symmetric])
qed

lemma ValidateToken_generated:
  assumes "jwt_roundtrip lib" and "GenerateAccessToken lib s t claims = Inr token"
  shows "if numeric_date t \<le> numeric_date u \<and> numeric_date u < numeric_date (t + jc_AccessTokenTTL (jw_config s))
    then ValidateToken lib s u token = Inr (registered s (cl_UserID claims) [] t (jc_AccessTokenTTL (jw_config s)) claims)
    else \<not> is_ok (ValidateToken lib s u token)"
proof -
  let ?c = "registered s (cl_UserID claims) [] t (jc_AccessTokenTTL (jw_config s)) claims"
  have "jl_SignedString lib (jw_signingKey s) ?c = Inr token"
    using assms(2) by (auto simp: GenerateAccessToken_def split: sum.splits)
  note parse = signed_parse [OF assms(1) this, of u]
  show ?thesis
  proof (cases "in_force ?c u")
    case True
    with parse(1) show ?thesis by (simp add: ValidateToken_def in_force_registered)
  next
    case False
    with parse(2) obtain e where "jl_Parse lib (jw_signingKey s) (jc_Issuer (jw_config s)) u token = Inl e"
      by (auto simp: not_is_ok_iff)
    with False show ?thesis by (simp add: ValidateToken_def in_force_registered)
  qed
qed

section \<open>Properties\<close>

text \<open>C18. A generated access token is accepted from the second it was issued in until its time to live is over, counted
  in whole seconds, and never after; validation returns the user it was issued for.\<close>

theorem access_token_lifetime:
  assumes "jwt_roundtrip lib" and "GenerateAccessToken lib s t claims = Inr token"
  shows "ValidateToken lib s u token = Inr c \<longleftrightarrow>
    c = registered s (cl_UserID claims) '''' t (jc_AccessTokenTTL (jw_config s)) claims \<and>
    numeric_date t \<le> numeric_date u \<and> numeric_date u < numeric_date (t + jc_AccessTokenTTL (jw_config s))"
  using ValidateToken_generated [OF assms, of u] by (auto simp: not_is_ok_iff split: if_splits)

definition demo_jwt :: JWTService where
  "demo_jwt = NewJWTService ''k'' \<lparr>jc_SigningKey = '''', jc_Issuer = '''', jc_Audience = '''', jc_AccessTokenTTL = 0, jc_RefreshTokenTTL = 0\<rparr>"

text \<open>A package that signs the claims in its list and nothing else; a token is the place in the list.\<close>

definition listed_lib :: "UserClaims list \<Rightarrow> JWTLib" where
  "listed_lib cs =
     \<lparr>jl_SignedString = (\<lambda>key c. case find (\<lambda>i. cs ! i = c) [0..<length cs] of
        None \<Rightarrow> Inl (ExtErr ''unlisted'') | Some i \<Rightarrow> Inr (key @ ''.'' @ replicate i CHR ''x'')),
      jl_Parse = (\<lambda>key issuer t token. case find (\<lambda>i. key @ ''.'' @ replicate i CHR ''x'' = token) [0..<length cs] of
        None \<Rightarrow> Inl (ExtErr ''bad token'')
      | Some i \<Rightarrow> if cl_Issuer (cs ! i) = issuer \<and> in_force (cs ! i) t then Inr (cs ! i, True)
                 else Inl (ExtErr ''not in force''))\<rparr>"

lemma find_unique:
  assumes "i \<in> set xs" and "P i" and "\<And>j. P j \<Longrightarrow> j = i"
  shows "find P xs = Some i"
  using assms(1)
proof (induction xs)
  case (Cons x xs)
  show ?case
  proof (cases "P x")
    case True
    with assms(3) [OF this] show ?thesis by simp
  next
    case False
    with assms(2) Cons show ?thesis by auto
  qed
qed simp

lemma listed_lib_roundtrip: "jwt_roundtrip (listed_lib cs)"
  unfolding jwt_roundtrip_def
proof (intro allI impI)
  fix key c token issuer t assume a: "jl_SignedString (listed_lib cs) key c = Inr token"
  then obtain i where i: "find (\<lambda>i. cs ! i = c) [0..<length cs] = Some i" "token = key @ ''.'' @ replicate i CHR ''x''"
    by (auto simp: listed_lib_def split: option.splits)
  then have "i < length cs" "cs ! i = c" by (auto simp: find_Some_iff)
  moreover have "find (\<lambda>i. key @ ''.'' @ replicate i CHR ''x'' = token) [0..<length cs] = Some i"
    unfolding i(2) using calculation(1) by (intro find_unique) (simp_all add: replicate_eq_replicate)
  ultimately show "if cl_Issuer c = issuer \<and> in_force c t then jl_Parse (listed_lib cs) key issuer t token = Inr (c, True)
      else \<not> is_ok (jl_Parse (listed_lib cs) key issuer t token)"
    by (simp add: listed_lib_def)
qed

definition ann_claims :: UserClaims where
  "ann_claims = empty_claims\<lparr>cl_UserID := ''42'', cl_Email := ''ann'', cl_Name := ''Ann'', cl_Role := ''admin''\<rparr>"

definition demo_lib :: JWTLib where
  "demo_lib = listed_lib [registered demo_jwt ''42'' '''' 0 hour ann_claims]"

theorem access_token_lifetime_witness:
  "is_ok (ValidateToken demo_lib demo_jwt (hour - 1) ''k.'') \<and> \<not> is_ok (ValidateToken demo_lib demo_jwt hour ''k.'')"
proof -
  have g: "GenerateAccessToken demo_lib demo_jwt 0 ann_claims = Inr ''k.''" and ttl: "jc_AccessTokenTTL (jw_config demo_jwt) = hour"
    by (simp_all add: GenerateAccessToken_def demo_lib_def listed_lib_def ann_claims_def empty_claims_def demo_jwt_def
        NewJWTService_def hour_def second_def)
  have rt: "jwt_roundtrip demo_lib" unfolding demo_lib_def by (rule listed_lib_roundtrip)
  note life = access_token_lifetime [OF rt g, unfolded ttl]
  have "\<exists>c. ValidateToken demo_lib demo_jwt (hour - 1) ''k.'' = Inr c"
    unfolding life by (simp add: hour_def second_def numeric_date_def)
  moreover have "\<nexists>c. ValidateToken demo_lib demo_jwt hour ''k.'' = Inr c"
    unfolding life by (simp add: hour_def second_def numeric_date_def)
  ultimately show ?thesis unfolding is_ok_iff by blast
qed

text \<open>An access token passes as a refresh token: nothing in it says which of the two it is.\<close>

lemma access_token_refreshes:
  assumes "jwt_roundtrip lib" and "GenerateAccessToken lib s t claims = Inr token"
    and "numeric_date t \<le> numeric_date u" and "numeric_date u < numeric_date (t + jc_AccessTokenTTL (jw_config s))"
  shows "ValidateRefreshToken lib s u token = Inr (cl_UserID claims)"
proof -
  let ?c = "registered s (cl_UserID claims) '''' t (jc_AccessTokenTTL (jw_config s)) claims"
  have "jl_SignedString lib (jw_signingKey s) ?c = Inr token"
    using assms(2) by (auto simp: GenerateAccessToken_def split: sum.splits)
  from signed_parse(1) [OF assms(1) this, of u] assms(3,4) show ?thesis
    by (simp add: ValidateRefreshToken_def in_force_registered)
qed

text \<open>Validated as an access token, a refresh token names no user.\<close>

lemma refresh_token_anonymous:
  assumes "jwt_roundtrip lib" and "GenerateRefreshToken lib s t jti userID = Inr token" and "ValidateToken lib s u token = Inr c"
  shows "cl_UserID c = ''''" "cl_Email c = ''''" "cl_Name c = ''''"
proof -
  obtain i where i: "jl_SignedString lib (jw_signingKey s)
      (registered s userID i t (jc_RefreshTokenTTL (jw_config s)) empty_claims) = Inr token"
    using assms(2) by (auto simp: GenerateRefreshToken_def split: sum.splits)
  let ?c = "registered s userID i t (jc_RefreshTokenTTL (jw_config s)) empty_claims"
  have ok: "is_ok (jl_Parse lib (jw_signingKey s) (jc_Issuer (jw_config s)) u token)"
    using assms(3) by (auto simp: ValidateToken_def is_ok_iff split: sum.splits)
  with signed_parse [OF assms(1) i, of u]
  have "jl_Parse lib (jw_signingKey s) (jc_Issuer (jw_config s)) u token = Inr (?c, True)" by simp
  with assms(3) have "c = ?c" by (simp add: ValidateToken_def)
  then show "cl_UserID c = ''''" "cl_Email c = ''''" "cl_Name c = ''''" by (simp_all add: empty_claims_def)
qed

end
