(* ===== verification/Server.thy ===== *)
theory Server
  imports Tokens GoStrings
begin

text \<open>
  \<open>internal/server/auth_middleware.go\<close>, \<open>internal/server/middleware.go\<close> and the helpers of
  \<open>internal/server/handlers.go\<close>: requests, responses, the chain of middleware around the router, and the check of
  tokens and permissions in front of every handler. A handler is a function from the request to an action on
  the state of the server; its response is the value. Log lines and Prometheus counters are left out.
\<close>

section \<open>Requests and responses\<close>

record Request =
  rq_Method :: string
  rq_Path :: string
  rq_Header :: "string gomap"
  rq_Query :: "string gomap"
  rq_PathValue :: "string gomap"
  rq_Body :: "string option"
  rq_claims :: "UserClaims option"
  rq_user :: "string option"

datatype 'b body = NoBody | ErrorBody string | Payload 'b

record 'b Response =
  rs_Status :: int
  rs_Header :: "string gomap"
  rs_Body :: "'b body"

record 'w Web =
  wb_rbac :: "RBAC option"
  wb_audit :: "AuditLog option"
  wb_clock :: "nat \<Rightarrow> gtime"
  wb_tick :: nat
  wb_app :: 'w

type_synonym ('b, 'w) handler = "Request \<Rightarrow> ('b Response, 'w Web) act"

abbreviation StatusOK :: int where "StatusOK \<equiv> 200"
abbreviation StatusCreated :: int where "StatusCreated \<equiv> 201"
abbreviation StatusNoContent :: int where "StatusNoContent \<equiv> 204"
abbreviation StatusBadRequest :: int where "StatusBadRequest \<equiv> 400"
abbreviation StatusUnauthorized :: int where "StatusUnauthorized \<equiv> 401"
abbreviation StatusForbidden :: int where "StatusForbidden \<equiv> 403"
abbreviation StatusNotFound :: int where "StatusNotFound \<equiv> 404"
abbreviation StatusConflict :: int where "StatusConflict \<equiv> 409"
abbreviation StatusInternalServerError :: int where "StatusInternalServerError \<equiv> 500"
abbreviation StatusServiceUnavailable :: int where "StatusServiceUnavailable \<equiv> 503"

definition errorResponse :: "int \<Rightarrow> string \<Rightarrow> 'b Response" where
  "errorResponse status msg = \<lparr>rs_Status = status, rs_Header = [], rs_Body = ErrorBody msg\<rparr>"

definition jsonResponse :: "int \<Rightarrow> 'b \<Rightarrow> 'b Response" where
  "jsonResponse status payload = \<lparr>rs_Status = status, rs_Header = [], rs_Body = Payload payload\<rparr>"

definition maxRequestBodySize :: nat where
  "maxRequestBodySize = 1048576"

text \<open>\<open>decode\<close> is the JSON decoder on the bytes the limited reader lets through and whether it cut the body off.\<close>

definition decodeJSON :: "(string \<Rightarrow> bool \<Rightarrow> 'a res) \<Rightarrow> Request \<Rightarrow> 'b Response + 'a" where
  "decodeJSON decode r =
     (case rq_Body r of
        None \<Rightarrow> Inl (errorResponse StatusBadRequest ''request body is required'')
      | Some body \<Rightarrow>
          (case decode (take maxRequestBodySize body) (length body > maxRequestBodySize) of
             Inl e \<Rightarrow> Inl (errorResponse StatusBadRequest (err_text (Errorf ''invalid JSON: %v'' [AErr e])))
           | Inr v \<Rightarrow> Inr v))"

definition web_now :: "(gtime, 'w Web) act" where
  "web_now s = (wb_clock s (wb_tick s), s\<lparr>wb_tick := Suc (wb_tick s)\<rparr>)"

section \<open>Permissions of a request\<close>

definition isOIDCPublicPath :: "string \<Rightarrow> bool" where
  "isOIDCPublicPath path \<longleftrightarrow>
     path \<in> {''/api/v1/auth/oidc/login'', ''/api/v1/auth/oidc/callback'', ''/api/v1/auth/token/refresh''}"

definition path_parts :: "string \<Rightarrow> string list" where
  "path_parts path = SplitN (TrimPrefix path ''/api/v1/'') CHR ''/'' 3"

definition request_resource :: "string \<Rightarrow> string" where
  "request_resource path =
     (let trimmed = TrimPrefix path ''/api/v1/'' in
      if HasPrefix trimmed ''sandboxes'' then ''sandbox''
      else if HasPrefix trimmed ''matrices'' then ''matrix''
      else if HasPrefix trimmed ''sessions'' then ''session''
      else if HasPrefix trimmed ''pools'' then ''pool''
      else if HasPrefix trimmed ''blueprints'' then ''blueprint''
      else if HasPrefix trimmed ''teams'' then ''team''
      else if HasPrefix trimmed ''auth'' then ''user''
      else hd (path_parts path))"

definition post_action :: "string list \<Rightarrow> string" where
  "post_action parts =
     (if length parts \<ge> 3 then
        (if parts ! 2 = ''exec'' then ''exec''
         else if parts ! 2 = ''start'' \<or> parts ! 2 = ''stop'' then ''update''
         else if parts ! 2 = ''snapshots'' then ''create''
         else if parts ! 2 = ''end'' then ''update''
         else ''create'')
      else ''create'')"

definition mapRequestToPermission :: "string \<Rightarrow> string \<Rightarrow> string \<times> string" where
  "mapRequestToPermission meth path =
     (let parts = path_parts path; resource = request_resource path in
      if meth = ''GET'' \<and> length parts \<ge> 3 \<and> parts ! 2 = ''exec'' then (resource, ''exec'')
      else (resource,
        if meth = ''GET'' then ''read''
        else if meth = ''POST'' then post_action parts
        else if meth = ''PUT'' \<or> meth = ''PATCH'' then ''update''
        else if meth = ''DELETE'' then ''delete''
        else ''read''))"

definition audit_entry :: "string \<Rightarrow> Request \<Rightarrow> string \<Rightarrow> string \<Rightarrow> gtime \<Rightarrow> AuditEntry" where
  "audit_entry userName r result detail t =
     (case mapRequestToPermission (rq_Method r) (rq_Path r) of (resource, action) \<Rightarrow>
      let parts = path_parts (rq_Path r) in
      \<lparr>ae_Timestamp = t, ae_User = userName, ae_Action = resource @ ''.'' @ action,
       ae_Resource = (if length parts \<ge> 2 \<and> parts ! 1 \<noteq> '''' then resource @ ''/'' @ parts ! 1 else resource),
       ae_Result = result, ae_Detail = detail\<rparr>)"

definition recordAudit ::
  "(AuditEntry \<Rightarrow> string res) \<Rightarrow> string \<Rightarrow> Request \<Rightarrow> string \<Rightarrow> string \<Rightarrow> 'w Web \<Rightarrow> 'w Web" where
  "recordAudit marshal userName r result detail s =
     (case wb_audit s of
        None \<Rightarrow> s
      | Some a \<Rightarrow>
          (case web_now s of (t, s') \<Rightarrow>
           s'\<lparr>wb_audit := Some (Record marshal (audit_entry userName r result detail t) a)\<rparr>))"

section \<open>The middleware\<close>

definition is_public :: "Request \<Rightarrow> bool" where
  "is_public r \<longleftrightarrow> rq_Path r = ''/api/v1/health'' \<or> rq_Path r = ''/api/v1/version'' \<or>
     isOIDCPublicPath (rq_Path r) \<or> rq_Method r = ''OPTIONS''"

definition claims_user :: "UserClaims \<Rightarrow> string" where
  "claims_user c =
     (if cl_Email c \<noteq> '''' then cl_Email c else if cl_Name c \<noteq> '''' then cl_Name c else cl_UserID c)"

definition refuse ::
  "(AuditEntry \<Rightarrow> string res) \<Rightarrow> string \<Rightarrow> Request \<Rightarrow> string \<Rightarrow> int \<Rightarrow> string \<Rightarrow> ('b Response, 'w Web) act" where
  "refuse marshal userName r detail status msg s =
     (errorResponse status msg, recordAudit marshal userName r ''denied'' detail s)"

definition legacy_auth :: "(AuditEntry \<Rightarrow> string res) \<Rightarrow> RBAC \<Rightarrow> string \<Rightarrow> ('b, 'w) handler \<Rightarrow> ('b, 'w) handler" where
  "legacy_auth marshal rbac token next r s =
     (case mapRequestToPermission (rq_Method r) (rq_Path r) of (resource, action) \<Rightarrow>
      case AuthorizeByToken rbac token resource action of
        (userName, Some err) \<Rightarrow>
          if userName = '''' then refuse marshal '''' r (err_text err) StatusUnauthorized ''invalid token'' s
          else refuse marshal userName r (err_text err) StatusForbidden (err_text err) s
      | (userName, None) \<Rightarrow>
          next (r\<lparr>rq_user := Some userName\<rparr>) (recordAudit marshal userName r ''success'' '''' s))"

definition jwt_auth :: "(AuditEntry \<Rightarrow> string res) \<Rightarrow> RBAC \<Rightarrow> UserClaims \<Rightarrow> ('b, 'w) handler \<Rightarrow> ('b, 'w) handler" where
  "jwt_auth marshal rbac claims next r s =
     (case mapRequestToPermission (rq_Method r) (rq_Path r) of (resource, action) \<Rightarrow>
      case Authorize rbac (claims_user claims) resource action of
        Some err \<Rightarrow> refuse marshal (claims_user claims) r (err_text err) StatusForbidden (err_text err) s
      | None \<Rightarrow>
          next (r\<lparr>rq_claims := Some claims, rq_user := Some (claims_user claims)\<rparr>)
            (recordAudit marshal (claims_user claims) r ''success'' '''' s))"

definition check_token ::
  "(AuditEntry \<Rightarrow> string res) \<Rightarrow> (JWTLib \<times> JWTService) option \<Rightarrow> RBAC \<Rightarrow> string \<Rightarrow> ('b, 'w) handler \<Rightarrow> ('b, 'w) handler" where
  "check_token marshal jwt rbac token next r s =
     (case jwt of
        None \<Rightarrow> legacy_auth marshal rbac token next r s
      | Some (lib, svc) \<Rightarrow>
          (case web_now s of (t, s') \<Rightarrow>
           case ValidateToken lib svc t token of
             Inr claims \<Rightarrow> jwt_auth marshal rbac claims next r s'
           | Inl _ \<Rightarrow> legacy_auth marshal rbac token next r s'))"

definition AuthMiddleware ::
  "(AuditEntry \<Rightarrow> string res) \<Rightarrow> (JWTLib \<times> JWTService) option \<Rightarrow> ('b, 'w) handler \<Rightarrow> ('b, 'w) handler" where
  "AuthMiddleware marshal jwt next r s =
     (case wb_rbac s of
        None \<Rightarrow> next r s
      | Some rbac \<Rightarrow>
          if is_public r then next r s
          else
            let authHeader = gm_str (rq_Header r) ''Authorization''; token = TrimPrefix authHeader ''Bearer '' in
            if authHeader = '''' then
              refuse marshal '''' r ''missing Authorization header'' StatusUnauthorized ''missing Authorization header'' s
            else if \<not> HasPrefix authHeader ''Bearer '' then
              refuse marshal '''' r ''invalid Authorization format'' StatusUnauthorized
                (''invalid Authorization header format, expected '' @ [CHR 0x27] @ ''Bearer <token>'' @ [CHR 0x27]) s
            else if token = '''' then refuse marshal '''' r ''empty token'' StatusUnauthorized ''empty token'' s
            else check_token marshal jwt rbac token next r s)"

definition corsMiddleware :: "('b, 'w) handler \<Rightarrow> ('b, 'w) handler" where
  "corsMiddleware next r s =
     (let h = [(''Access-Control-Allow-Origin'', ''*''),
               (''Access-Control-Allow-Methods'', ''GET, POST, PUT, DELETE, OPTIONS''),
               (''Access-Control-Allow-Headers'', ''Content-Type, Authorization''),
               (''Access-Control-Max-Age'', ''86400'')] in
      if rq_Method r = ''OPTIONS'' then
        (\<lparr>rs_Status = StatusNoContent, rs_Header = h, rs_Body = NoBody\<rparr>, s)
      else case next r s of (resp, s') \<Rightarrow> (resp\<lparr>rs_Header := gm_range_into (rs_Header resp) h\<rparr>, s'))"

definition jsonContentTypeMiddleware :: "('b, 'w) handler \<Rightarrow> ('b, 'w) handler" where
  "jsonContentTypeMiddleware next r s =
     (if rq_Path r = ''/metrics'' \<or> gm_str (rq_Header r) ''Upgrade'' = ''websocket'' then next r s
      else case next r s of (resp, s') \<Rightarrow>
        (resp\<lparr>rs_Header := gm_range_into (rs_Header resp) [(''Content-Type'', ''application/json'')]\<rparr>, s'))"

definition chainMiddleware :: "('b, 'w) handler \<Rightarrow> (('b, 'w) handler \<Rightarrow> ('b, 'w) handler) list \<Rightarrow> ('b, 'w) handler" where
  "chainMiddleware handler ms = foldr (\<lambda>m h. m h) ms handler"

definition Handler ::
  "(AuditEntry \<Rightarrow> string res) \<Rightarrow> (JWTLib \<times> JWTService) option \<Rightarrow> ('b, 'w) handler \<Rightarrow> ('b, 'w) handler" where
  "Handler marshal jwt router =
     chainMiddleware router [corsMiddleware, jsonContentTypeMiddleware, AuthMiddleware marshal jwt]"

section \<open>Every request is checked\<close>

lemma web_now_frame:
  "web_now s = (t, s') \<Longrightarrow> wb_app s' = wb_app s \<and> wb_rbac s' = wb_rbac s \<and> wb_audit s' = wb_audit s"
  by (auto simp: web_now_def)

definition permitted :: "RBAC \<Rightarrow> string \<Rightarrow> Request \<Rightarrow> bool" where
  "permitted rbac u r \<longleftrightarrow> (\<exists>user. gm_get (rb_users rbac) u = Some user \<and>
     may (u_Role user) (fst (mapRequestToPermission (rq_Method r) (rq_Path r)))
       (snd (mapRequestToPermission (rq_Method r) (rq_Path r))))"

text \<open>The token of the request is the stored token of \<open>u\<close>, or a valid access token whose claims name \<open>u\<close>.\<close>

definition credential :: "(JWTLib \<times> JWTService) option \<Rightarrow> RBAC \<Rightarrow> string \<Rightarrow> Request \<Rightarrow> bool" where
  "credential jwt rbac u r \<longleftrightarrow> (\<exists>token. gm_str (rq_Header r) ''Authorization'' = ''Bearer '' @ token \<and> token \<noteq> '''' \<and>
     ((\<exists>user. gm_get (rb_users rbac) u = Some user \<and> u_Token user = token) \<or>
      (\<exists>lib svc t c. jwt = Some (lib, svc) \<and> ValidateToken lib svc t token = Inr c \<and> claims_user c = u)))"

definition logged :: "(AuditEntry \<Rightarrow> string res) \<Rightarrow> string \<Rightarrow> Request \<Rightarrow> string \<Rightarrow> 'w Web \<Rightarrow> 'w Web \<Rightarrow> bool" where
  "logged marshal u r result s s' \<longleftrightarrow> wb_app s' = wb_app s \<and> wb_rbac s' = wb_rbac s \<and>
     (case wb_audit s of None \<Rightarrow> wb_audit s' = None
      | Some a \<Rightarrow> \<exists>detail t. wb_audit s' = Some (Record marshal (audit_entry u r result detail t) a))"

definition admits ::
  "(AuditEntry \<Rightarrow> string res) \<Rightarrow> (('b, 'w) handler \<Rightarrow> ('b, 'w) handler) \<Rightarrow> string \<Rightarrow> Request \<Rightarrow> 'w Web \<Rightarrow> bool" where
  "admits marshal m u r s \<longleftrightarrow> (\<exists>r' s'. (\<forall>next. m next r s = next r' s') \<and> logged marshal u r ''success'' s s' \<and>
     rq_user r' = Some u \<and> rq_Method r' = rq_Method r \<and> rq_Path r' = rq_Path r \<and> rq_PathValue r' = rq_PathValue r \<and>
     rq_Query r' = rq_Query r \<and> rq_Body r' = rq_Body r)"

definition refuses ::
  "(AuditEntry \<Rightarrow> string res) \<Rightarrow> (('b, 'w) handler \<Rightarrow> ('b, 'w) handler) \<Rightarrow> string \<Rightarrow> Request \<Rightarrow> 'w Web \<Rightarrow> bool" where
  "refuses marshal m u r s \<longleftrightarrow> (\<exists>resp s'. (\<forall>next. m next r s = (resp, s')) \<and> logged marshal u r ''denied'' s s' \<and>
     rs_Status resp \<in> {StatusUnauthorized, StatusForbidden})"

lemma recordAudit_logged: "logged marshal u r result s (recordAudit marshal u r result detail s)"
  by (auto simp: logged_def recordAudit_def web_now_def split: option.splits)

lemma logged_after: "web_now s = (t, s') \<Longrightarrow> logged marshal u r result s' s'' \<Longrightarrow> logged marshal u r result s s''"
  by (auto simp: logged_def dest: web_now_frame)

lemma refuse_refuses:
  assumes "\<And>next. m next r s = refuse marshal u r detail status msg s" and "status \<in> {StatusUnauthorized, StatusForbidden}"
  shows "refuses marshal m u r s"
  unfolding refuses_def
  by (intro exI [of _ "errorResponse status msg"] exI [of _ "recordAudit marshal u r ''denied'' detail s"])
    (use assms in \<open>simp add: refuse_def recordAudit_logged errorResponse_def\<close>)

lemma legacy_cases:
  fixes m :: "('b, 'w) handler \<Rightarrow> ('b, 'w) handler"
  assumes "\<And>next. m next r s = legacy_auth marshal rbac token next r s" and "rbac_ok rbac" and "rb_roles rbac = default_roles"
    and "token \<noteq> ''''"
  shows "(\<exists>u user. gm_get (rb_users rbac) u = Some user \<and> u_Token user = token \<and> permitted rbac u r \<and> admits marshal m u r s) \<or>
    (\<exists>u. refuses marshal m u r s)"
proof -
  obtain resource action where p: "mapRequestToPermission (rq_Method r) (rq_Path r) = (resource, action)" by fastforce
  obtain u e where a: "AuthorizeByToken rbac token resource action = (u, e)" by fastforce
  show ?thesis
  proof (cases e)
    case None
    with a obtain k user where f: "find (\<lambda>(k, u). u_Token u = token) (rb_users rbac) = Some (k, user)" "u = u_Name user"
      "checkPermission rbac (u_Role user) resource action = None"
      by (auto simp: AuthorizeByToken_def split: if_splits option.splits)
    note fu = find_user [OF f(1)]
    have wf: "gm_wf (rb_users rbac)" using assms(2) by (simp add: rbac_ok_def)
    with fu have get: "gm_get (rb_users rbac) k = Some user" by simp
    with rbac_okD [OF assms(2) get] f(2) have "k = u" by (simp add: user_ok_def)
    moreover have "admits marshal m u r s"
      unfolding admits_def assms(1) legacy_auth_def p
      by (intro exI [of _ "r\<lparr>rq_user := Some u\<rparr>"] exI [of _ "recordAudit marshal u r ''success'' '''' s"])
        (simp add: recordAudit_logged a None)
    ultimately show ?thesis
      using get fu(2) f(3) checkPermission_default [OF assms(3)] p by (auto simp: permitted_def)
  next
    case (Some err)
    have "refuses marshal m u r s"
    proof (cases "u = ''''")
      case True
      with p a Some show ?thesis by (intro refuse_refuses [of m r s marshal u "err_text err" StatusUnauthorized "''invalid token''"])
          (simp_all add: assms(1) legacy_auth_def)
    next
      case False
      with p a Some show ?thesis by (intro refuse_refuses [of m r s marshal u "err_text err" StatusForbidden "err_text err"])
          (simp_all add: assms(1) legacy_auth_def)
    qed
    then show ?thesis by blast
  qed
qed

lemma jwt_cases:
  assumes "\<And>next. m next r s = jwt_auth marshal rbac claims next r s" and "rb_roles rbac = default_roles"
  shows "permitted rbac (claims_user claims) r \<and> admits marshal m (claims_user claims) r s \<or>
    refuses marshal m (claims_user claims) r s"
proof -
  let ?u = "claims_user claims"
  obtain resource action where p: "mapRequestToPermission (rq_Method r) (rq_Path r) = (resource, action)" by fastforce
  show ?thesis
  proof (cases "Authorize rbac ?u resource action")
    case None
    then have "permitted rbac ?u r"
      using checkPermission_default [OF assms(2)] p by (auto simp: Authorize_def permitted_def split: option.splits)
    moreover have "admits marshal m ?u r s"
      unfolding admits_def assms(1) jwt_auth_def p
      by (intro exI [of _ "r\<lparr>rq_claims := Some claims, rq_user := Some ?u\<rparr>"] exI [of _ "recordAudit marshal ?u r ''success'' '''' s"])
        (simp add: recordAudit_logged None)
    ultimately show ?thesis by blast
  next
    case (Some err)
    then show ?thesis
      by (intro disjI2 refuse_refuses [of m r s marshal ?u "err_text err" StatusForbidden "err_text err"])
        (simp_all add: assms(1) jwt_auth_def p)
  qed
qed

lemma admits_after:
  assumes "web_now s = (t, s0)" and "\<And>next. m next r s = m' next r s0" and "admits marshal m' u r s0"
  shows "admits marshal m u r s"
proof -
  obtain r' s' where a: "\<forall>next. m' next r s0 = next r' s'" "logged marshal u r ''success'' s0 s'" "rq_user r' = Some u"
    "rq_Method r' = rq_Method r" "rq_Path r' = rq_Path r" "rq_PathValue r' = rq_PathValue r" "rq_Query r' = rq_Query r" "rq_Body r' = rq_Body r"
    using assms(3) unfolding admits_def by blast
  with logged_after [OF assms(1) a(2)] assms(2) show ?thesis unfolding admits_def by auto
qed

lemma refuses_after:
  assumes "web_now s = (t, s0)" and "\<And>next. m next r s = m' next r s0" and "refuses marshal m' u r s0"
  shows "refuses marshal m u r s"
proof -
  obtain resp s' where a: "\<forall>next. m' next r s0 = (resp, s')" "logged marshal u r ''denied'' s0 s'"
    "rs_Status resp \<in> {StatusUnauthorized, StatusForbidden}"
    using assms(3) unfolding refuses_def by blast
  with logged_after [OF assms(1) a(2)] assms(2) show ?thesis unfolding refuses_def by auto
qed

definition gate_verdict ::
  "(AuditEntry \<Rightarrow> string res) \<Rightarrow> (JWTLib \<times> JWTService) option \<Rightarrow> RBAC \<Rightarrow> (('b, 'w) handler \<Rightarrow> ('b, 'w) handler) \<Rightarrow>
   Request \<Rightarrow> 'w Web \<Rightarrow> bool" where
  "gate_verdict marshal jwt rbac m r s \<longleftrightarrow>
     (\<exists>u. permitted rbac u r \<and> credential jwt rbac u r \<and> admits marshal m u r s) \<or> (\<exists>u. refuses marshal m u r s)"

lemma check_token_cases:
  fixes m :: "('b, 'w) handler \<Rightarrow> ('b, 'w) handler"
  assumes m: "\<And>next. m next r s = check_token marshal jwt rbac token next r s"
    and rbac: "rbac_ok rbac" "rb_roles rbac = default_roles"
    and token: "gm_str (rq_Header r) ''Authorization'' = ''Bearer '' @ token" "token \<noteq> ''''"
  shows "gate_verdict marshal jwt rbac m r s"
proof -
  have legacy: "gate_verdict marshal jwt rbac m' r s'"
    if m': "\<And>next. m' next r s' = legacy_auth marshal rbac token next r s'" for m' :: "('b, 'w) handler \<Rightarrow> ('b, 'w) handler" and s'
    using legacy_cases [of m' r s', OF m' rbac token(2)] token unfolding gate_verdict_def credential_def by blast
  show ?thesis
  proof (cases jwt)
    case None
    with m show ?thesis by (intro legacy) (simp add: check_token_def)
  next
    case (Some j)
    obtain lib svc where j: "j = (lib, svc)" by fastforce
    obtain t s0 where now: "web_now s = (t, s0)" by fastforce
    show ?thesis
    proof (cases "ValidateToken lib svc t token")
      case (Inl e)
      define m' :: "('b, 'w) handler \<Rightarrow> ('b, 'w) handler" where "m' = legacy_auth marshal rbac token"
      have eq: "m nx r s = m' nx r s0" for nx
        using m Some j now Inl by (simp add: check_token_def m'_def)
      have "gate_verdict marshal jwt rbac m' r s0" by (rule legacy) (simp add: m'_def)
      then show ?thesis unfolding gate_verdict_def
        using admits_after [where m = m and m' = m', OF now eq] refuses_after [where m = m and m' = m', OF now eq] by blast
    next
      case (Inr c)
      define m' :: "('b, 'w) handler \<Rightarrow> ('b, 'w) handler" where "m' = jwt_auth marshal rbac c"
      have eq: "m nx r s = m' nx r s0" for nx
        using m Some j now Inr by (simp add: check_token_def m'_def)
      have "credential jwt rbac (claims_user c) r" unfolding credential_def using token Some j Inr by blast
      then show ?thesis unfolding gate_verdict_def
        using jwt_cases [of m' r s0 marshal rbac c] rbac(2) admits_after [where m = m and m' = m', OF now eq] refuses_after [where m = m and m' = m', OF now eq]
        by (metis m'_def)
    qed
  qed
qed

section \<open>Properties\<close>


text \<open>A server with two users, and a request with a token.\<close>

definition demo_web :: "unit Web" where
  "demo_web = \<lparr>wb_rbac = Some (fold run_user_op staff (New_RBAC no_rand)),
     wb_audit = Some \<lparr>au_entries = [], au_maxSize = 2, au_file = None, au_clock = int, au_tick = 0\<rparr>,
     wb_clock = int, wb_tick = 1, wb_app = ()\<rparr>"

definition demo_request :: "string \<Rightarrow> string \<Rightarrow> string \<Rightarrow> Request" where
  "demo_request meth path token = \<lparr>rq_Method = meth, rq_Path = path, rq_Header = [(''Authorization'', ''Bearer '' @ token)],
     rq_Query = [], rq_PathValue = [], rq_Body = None, rq_claims = None, rq_user = None\<rparr>"

abbreviation no_json :: "AuditEntry \<Rightarrow> string res" where
  "no_json \<equiv> \<lambda>e. Inl (ExtErr ''no file'')"

lemma staff_ok:
  "rbac_ok (fold run_user_op staff (New_RBAC no_rand))" "own_tokens (fold run_user_op staff (New_RBAC no_rand))"
  "rb_roles (fold run_user_op staff (New_RBAC no_rand)) = default_roles"
proof -
  show "rbac_ok (fold run_user_op staff (New_RBAC no_rand))" by (rule conjunct1 [OF run_user_ops [OF New_RBAC_ok]])
  show "rb_roles (fold run_user_op staff (New_RBAC no_rand)) = default_roles" unfolding staff_run by (simp add: New_RBAC_def)
  show "own_tokens (fold run_user_op staff (New_RBAC no_rand))" unfolding staff_run by (simp add: own_tokens_def)
qed


lemma writes_not_read:
  "meth \<in> {''POST'', ''PUT'', ''PATCH'', ''DELETE''} \<Longrightarrow> snd (mapRequestToPermission meth path) \<noteq> ''read''"
  by (auto simp: mapRequestToPermission_def post_action_def Let_def)

lemma with_token:
  assumes "wb_rbac s = Some rbac" and "\<not> is_public r" and "gm_str (rq_Header r) ''Authorization'' = ''Bearer '' @ token"
    and "token \<noteq> ''''"
  shows "AuthMiddleware marshal None nx r s = legacy_auth marshal rbac token nx r s"
  using assms by (simp add: AuthMiddleware_def check_token_def HasPrefix_def TrimPrefix_def)

text \<open>A viewer cannot change anything: every POST, PUT, PATCH and DELETE with the token of a viewer is refused.\<close>

theorem viewer_cannot_write:
  assumes "wb_rbac s = Some rbac" and "rbac_ok rbac" and "rb_roles rbac = default_roles" and "own_tokens rbac"
    and "gm_get (rb_users rbac) u = Some user" and "u_Role user = RoleViewer"
    and "gm_str (rq_Header r) ''Authorization'' = ''Bearer '' @ u_Token user"
    and "rq_Method r \<in> {''POST'', ''PUT'', ''PATCH'', ''DELETE''}" and "\<not> is_public r"
  shows "refuses marshal (AuthMiddleware marshal None :: ('b, 'w) handler \<Rightarrow> ('b, 'w) handler) u r s"
proof -
  obtain resource action where p: "mapRequestToPermission (rq_Method r) (rq_Path r) = (resource, action)" by fastforce
  have u: "u \<noteq> ''''" "u_Token user \<noteq> ''''" using rbac_okD [OF assms(2,5)] by (simp_all add: user_ok_def)
  have "\<not> may (u_Role user) resource action"
    using writes_not_read [OF assms(8), of "rq_Path r"] p assms(6) by (simp add: may_def)
  then obtain err where "checkPermission rbac (u_Role user) resource action = Some err"
    using checkPermission_default [OF assms(3), of "u_Role user" resource action]
    by (cases "checkPermission rbac (u_Role user) resource action") auto
  with AuthorizeByToken_stored [OF assms(2,4,5)]
  have a: "AuthorizeByToken rbac (u_Token user) resource action = (u, Some err)" by simp
  show ?thesis
    by (rule refuse_refuses [where status = StatusForbidden])
      (simp_all add: with_token [OF assms(1,9,7) u(2)] legacy_auth_def p a u(1))
qed

theorem viewer_cannot_write_witness:
  "refuses no_json (AuthMiddleware no_json None :: (unit, unit) handler \<Rightarrow> (unit, unit) handler) ''vic''
     (demo_request ''POST'' ''/api/v1/sandboxes/a/exec'' ''t2'') demo_web"
  by (rule viewer_cannot_write [where user = "\<lparr>u_Name = ''vic'', u_Role = RoleViewer, u_Token = ''t2''\<rparr>", OF _ staff_ok(1,3,2)])
    (simp_all add: demo_web_def staff_run demo_request_def gm_str_def is_public_def isOIDCPublicPath_def)

lemma exec_stream_parts:
  assumes "CHR ''/'' \<notin> set n"
  shows "path_parts (''/api/v1/sandboxes/'' @ n @ ''/exec/stream'') = [''sandboxes'', n, ''exec/stream'']"
proof -
  have d: "dropWhile (\<lambda>x. x \<noteq> CHR ''/'') (n @ ''/exec/stream'') = ''/exec/stream''"
    and t: "takeWhile (\<lambda>x. x \<noteq> CHR ''/'') (n @ ''/exec/stream'') = n"
    using assms by (subst dropWhile_append2 takeWhile_append2; auto)+
  show ?thesis by (simp add: path_parts_def TrimPrefix_def HasPrefix_def numeral_3_eq_3 d t)
qed

text \<open>The streaming form of exec is not protected as exec: a viewer, whose role does not grant exec on sandboxes, passes
  with a GET of the exec stream of any sandbox.\<close>

theorem viewer_reaches_exec_stream:
  assumes "wb_rbac s = Some rbac" and "rbac_ok rbac" and "rb_roles rbac = default_roles" and "own_tokens rbac"
    and "gm_get (rb_users rbac) u = Some user" and "u_Role user = RoleViewer"
    and "gm_str (rq_Header r) ''Authorization'' = ''Bearer '' @ u_Token user"
    and "rq_Method r = ''GET''" and "rq_Path r = ''/api/v1/sandboxes/'' @ n @ ''/exec/stream''" and "CHR ''/'' \<notin> set n"
  shows "checkPermission rbac (u_Role user) ''sandbox'' ''exec'' \<noteq> None \<and>
    admits marshal (AuthMiddleware marshal None :: ('b, 'w) handler \<Rightarrow> ('b, 'w) handler) u r s"
proof
  note table = checkPermission_default [OF assms(3)]
  show "checkPermission rbac (u_Role user) ''sandbox'' ''exec'' \<noteq> None" by (simp add: table assms(6) may_def)
  have p: "mapRequestToPermission (rq_Method r) (rq_Path r) = (''sandbox'', ''read'')"
    unfolding mapRequestToPermission_def assms(8,9) exec_stream_parts [OF assms(10)]
    by (simp add: request_resource_def TrimPrefix_def HasPrefix_def)
  have "checkPermission rbac (u_Role user) ''sandbox'' ''read'' = None" by (simp add: table assms(6) may_def)
  with AuthorizeByToken_stored [OF assms(2,4,5)]
  have a: "AuthorizeByToken rbac (u_Token user) ''sandbox'' ''read'' = (u, None)" by simp
  have public: "\<not> is_public r" by (simp add: is_public_def isOIDCPublicPath_def assms(8,9))
  have "u_Token user \<noteq> ''''" using rbac_okD [OF assms(2,5)] by (simp add: user_ok_def)
  note run = with_token [OF assms(1) public assms(7) this]
  show "admits marshal (AuthMiddleware marshal None :: ('b, 'w) handler \<Rightarrow> ('b, 'w) handler) u r s"
    unfolding admits_def run legacy_auth_def p
    by (intro exI [of _ "r\<lparr>rq_user := Some u\<rparr>"] exI [of _ "recordAudit marshal u r ''success'' '''' s"])
      (simp add: recordAudit_logged a)
qed

theorem viewer_reaches_exec_stream_witness:
  "admits no_json (AuthMiddleware no_json None :: (unit, unit) handler \<Rightarrow> (unit, unit) handler) ''vic''
     (demo_request ''GET'' ''/api/v1/sandboxes/a/exec/stream'' ''t2'') demo_web"
  by (rule conjunct2 [OF viewer_reaches_exec_stream
        [where user = "\<lparr>u_Name = ''vic'', u_Role = RoleViewer, u_Token = ''t2''\<rparr>" and n = "''a''", OF _ staff_ok(1,3,2)]])
    (simp_all add: demo_web_def staff_run demo_request_def gm_str_def)

end
