(* ===== verification/Sharding.thy ===== *)
theory Sharding
  imports ApiTypes "HOL-Library.Word"
begin

text \<open>
  \<open>internal/sharding/sharding.go\<close>: distributing tasks over the members of a matrix, round robin, by a
  hash of the task key, or to the member with the fewest tasks. The counter of the round-robin
  strategy is the 64-bit word it is in the code, the FNV-1a hash a 32-bit word.
\<close>

unbundle bit_operations_syntax

record Task =
  tk_ID :: string
  tk_Payload :: string
  tk_Key :: string
  tk_Meta :: "string gomap"

record Assignment =
  as_MemberName :: string
  as_Task :: Task

datatype Strategy = RoundRobinStrategy | HashStrategy | BalancedStrategy

definition NewStrategy :: "ShardingConfig option \<Rightarrow> Strategy" where
  "NewStrategy cfg =
     (case cfg of None \<Rightarrow> RoundRobinStrategy
      | Some k \<Rightarrow> if sc_Strategy k = ''hash'' then HashStrategy
                  else if sc_Strategy k = ''balanced'' then BalancedStrategy
                  else RoundRobinStrategy)"

section \<open>Round robin\<close>

fun rr_assign :: "MatrixMember list \<Rightarrow> Task list \<Rightarrow> 64 word \<Rightarrow> Assignment list \<times> 64 word" where
  "rr_assign members [] counter = ([], counter)"
| "rr_assign members (t # ts) counter =
     (case rr_assign members ts (counter + 1) of (as, counter') \<Rightarrow>
      (\<lparr>as_MemberName = mm_Name (members ! (unat counter mod length members)), as_Task = t\<rparr> # as, counter'))"

definition RoundRobin_Distribute :: "Task list \<Rightarrow> MatrixMember list \<Rightarrow> (Assignment list, 64 word) act" where
  "RoundRobin_Distribute tasks members counter =
     (if members = [] then ([], counter) else rr_assign members tasks counter)"

section \<open>By hash\<close>

text \<open>\<open>hash/fnv\<close>, New32a.\<close>

definition fnv32a :: "string \<Rightarrow> 32 word" where
  "fnv32a s = fold (\<lambda>c h. (h XOR of_nat (of_char c)) * 16777619) s 2166136261"

lemma fnv32a_test_vectors: "fnv32a '''' = 0x811C9DC5" "fnv32a ''a'' = 0xE40C292C" "fnv32a ''foobar'' = 0xBF9CF968"
  by code_simp+

definition task_key :: "Task \<Rightarrow> string" where
  "task_key t = (if tk_Key t = '''' then tk_ID t else tk_Key t)"

definition Hash_Distribute :: "Task list \<Rightarrow> MatrixMember list \<Rightarrow> Assignment list" where
  "Hash_Distribute tasks members =
     (if members = [] then []
      else map (\<lambda>t. \<lparr>as_MemberName = mm_Name (members ! (unat (fnv32a (task_key t)) mod length members)),
                     as_Task = t\<rparr>) tasks)"

section \<open>Balanced\<close>

definition count_of :: "int gomap \<Rightarrow> string \<Rightarrow> int" where
  "count_of counts n = (case gm_get counts n of None \<Rightarrow> 0 | Some k \<Rightarrow> k)"

fun min_member :: "int gomap \<Rightarrow> string \<Rightarrow> int \<Rightarrow> MatrixMember list \<Rightarrow> string" where
  "min_member counts minName minCount [] = minName"
| "min_member counts minName minCount (m # ms) =
     (if count_of counts (mm_Name m) < minCount
      then min_member counts (mm_Name m) (count_of counts (mm_Name m)) ms
      else min_member counts minName minCount ms)"

fun balanced_assign :: "MatrixMember list \<Rightarrow> Task list \<Rightarrow> int gomap \<Rightarrow> Assignment list" where
  "balanced_assign members [] counts = []"
| "balanced_assign members (t # ts) counts =
     (let first = mm_Name (hd members);
          minName = min_member counts first (count_of counts first) (tl members) in
      \<lparr>as_MemberName = minName, as_Task = t\<rparr>
        # balanced_assign members ts (gm_set minName (count_of counts minName + 1) counts))"

definition Balanced_Distribute :: "Task list \<Rightarrow> MatrixMember list \<Rightarrow> Assignment list" where
  "Balanced_Distribute tasks members =
     (if members = [] then []
      else balanced_assign members tasks (fold (\<lambda>m. gm_set (mm_Name m) 0) members []))"

text \<open>The interface: a strategy with its counter.\<close>

definition Distribute ::
  "Strategy \<Rightarrow> Task list \<Rightarrow> MatrixMember list \<Rightarrow> (Assignment list, 64 word) act" where
  "Distribute s tasks members counter =
     (case s of RoundRobinStrategy \<Rightarrow> RoundRobin_Distribute tasks members counter
      | HashStrategy \<Rightarrow> (Hash_Distribute tasks members, counter)
      | BalancedStrategy \<Rightarrow> (Balanced_Distribute tasks members, counter))"

section \<open>How many tasks a member gets\<close>

definition load :: "Assignment list \<Rightarrow> string \<Rightarrow> nat" where
  "load as n = count_list (map as_MemberName as) n"

lemma load_simps [simp]:
  "load [] n = 0" "load (a # as) n = (if as_MemberName a = n then 1 else 0) + load as n"
  by (simp_all add: load_def)

text \<open>How many numbers below \<open>x\<close> are \<open>j\<close> modulo \<open>m\<close>.\<close>

lemma div_step:
  assumes "j < m"
  shows "(Suc x + (m - 1 - j)) div m = (x + (m - 1 - j)) div m + (if x mod m = j then 1 else 0)"
proof -
  have "Suc x + (m - 1 - j) = x + (m - j)" using assms by simp
  moreover have "m dvd Suc (x + (m - 1 - j)) \<longleftrightarrow> x mod m = j"
  proof -
    have "m dvd Suc (x + (m - 1 - j)) \<longleftrightarrow> (x + (m - j)) mod m = 0"
      unfolding dvd_eq_mod_eq_0 using assms by (intro arg_cong [of _ _ "\<lambda>y. y mod m = 0"]) simp
    also have "\<dots> \<longleftrightarrow> (x mod m + (m - j)) mod m = 0" by (simp add: mod_simps)
    also have "\<dots> \<longleftrightarrow> x mod m = j"
    proof -
      have "x mod m < m" using assms by simp
      then consider "x mod m < j" | "x mod m = j" | "j < x mod m" by linarith
      then show ?thesis
      proof cases
        case 1
        then have "x mod m + (m - j) < m" using assms by linarith
        then show ?thesis using 1 assms by simp
      next
        case 2
        then show ?thesis using assms by simp
      next
        case 3
        then have "x mod m + (m - j) = m + (x mod m - j)" "x mod m - j < m" using assms \<open>x mod m < m\<close> by linarith+
        then have "(x mod m + (m - j)) mod m = x mod m - j" by (metis mod_add_self1 mod_less)
        then show ?thesis using 3 by linarith
      qed
    qed
    finally show ?thesis .
  qed
  then show ?thesis by (simp only: add_Suc div_Suc dvd_eq_mod_eq_0) simp
qed

lemma div_spread: "(x + k) div m - x div m = k div m \<or> (x + k) div m - x div m = Suc (k div m)" if "0 < (m :: nat)"
proof -
  have "(x + k) div m = x div m + k div m + (x mod m + k mod m) div m" by (rule div_add1_eq)
  moreover have "x mod m + k mod m < 2 * m" using mod_less_divisor [OF that, of x] mod_less_divisor [OF that, of k] by linarith
  then have "(x mod m + k mod m) div m < 2" using that by (simp add: less_mult_imp_div_less)
  ultimately show ?thesis by linarith
qed

text \<open>The load of the \<open>j\<close>-th member after a round-robin distribution.\<close>

lemma rr_load:
  assumes "distinct (map mm_Name members)" and "j < length members" and "unat c + length ts < 2 ^ 64"
  shows "load (fst (rr_assign members ts c)) (mm_Name (members ! j)) =
    (unat c + length ts + (length members - 1 - j)) div length members
      - (unat c + (length members - 1 - j)) div length members"
  using assms(3)
proof (induction ts arbitrary: c)
  case (Cons t ts)
  let ?m = "length members" and ?n = "mm_Name (members ! j)"
  have c1: "unat (c + 1) = Suc (unat c)" using Cons.prems by (simp add: unat_plus_if_size word_size)
  have idx: "mm_Name (members ! (unat c mod ?m)) = ?n \<longleftrightarrow> unat c mod ?m = j"
    using nth_eq_iff_index_eq [OF assms(1), of "unat c mod ?m" j] assms(2)
    by (metis length_map mod_less_divisor nth_map order_le_less_trans zero_le)
  have "load (fst (rr_assign members ts (c + 1))) ?n =
      (Suc (unat c) + length ts + (?m - 1 - j)) div ?m - (Suc (unat c) + (?m - 1 - j)) div ?m"
    using Cons.IH [of "c + 1"] Cons.prems c1 by simp
  moreover have "(Suc (unat c) + (?m - 1 - j)) div ?m \<le> (Suc (unat c) + length ts + (?m - 1 - j)) div ?m"
    by (intro div_le_mono) simp
  moreover note div_step [OF assms(2), of "unat c"]
  moreover obtain as c' where "rr_assign members ts (c + 1) = (as, c')" by fastforce
  ultimately show ?case using idx 
    by (cases "unat c mod ?m = j") (simp_all add: Suc_diff_Suc Suc_le_eq)
qed simp

section \<open>Properties\<close>

lemma rr_assign_tasks:
  "members \<noteq> [] \<Longrightarrow> map as_Task (fst (rr_assign members ts c)) = ts \<and>
   as_MemberName ` set (fst (rr_assign members ts c)) \<subseteq> mm_Name ` set members"
  by (induction members ts c rule: rr_assign.induct) (auto split: prod.splits)

lemma min_member_in: "min_member counts n k ms \<in> insert n (mm_Name ` set ms)"
  by (induction counts n k ms rule: min_member.induct) auto

lemma balanced_tasks:
  "members \<noteq> [] \<Longrightarrow> map as_Task (balanced_assign members ts counts) = ts \<and>
   as_MemberName ` set (balanced_assign members ts counts) \<subseteq> mm_Name ` set members"
proof (induction members ts counts rule: balanced_assign.induct)
  case (2 members t ts counts)
  have "min_member counts (mm_Name (hd members)) k (tl members) \<in> mm_Name ` set members" for k
    using min_member_in [of counts "mm_Name (hd members)" k "tl members"] 2(2)
    by (cases members) auto
  with 2 show ?case by (auto simp: Let_def)
qed simp

lemma Distribute_tasks:
  "map as_Task (fst (Distribute s tasks members counter)) = (if members = [] then [] else tasks) \<and>
   as_MemberName ` set (fst (Distribute s tasks members counter)) \<subseteq> mm_Name ` set members"
  using rr_assign_tasks [of members tasks counter] balanced_tasks [of members tasks]
  by (cases s) (auto simp: Distribute_def RoundRobin_Distribute_def Hash_Distribute_def Balanced_Distribute_def
      comp_def)

text \<open>Every strategy assigns every task exactly once, in the order of the tasks, and only to members of the
  matrix; without members nothing is assigned.\<close>

theorem distribute_complete:
  "map as_Task (fst (Distribute s tasks members counter)) = (if members = [] then [] else tasks) \<and>
   as_MemberName ` set (fst (Distribute s tasks members counter)) \<subseteq> mm_Name ` set members"
  by (rule Distribute_tasks)

text \<open>Round robin is fair as long as the 64-bit counter does not wrap: the loads of any two members differ by
  at most one, wherever the counter stands.\<close>

theorem round_robin_fair:
  assumes "distinct (map mm_Name members)" and "unat counter + length tasks < 2 ^ 64"
    and "m \<in> set members" and "m' \<in> set members"
  shows "load (fst (Distribute RoundRobinStrategy tasks members counter)) (mm_Name m)
    \<le> Suc (load (fst (Distribute RoundRobinStrategy tasks members counter)) (mm_Name m'))"
proof -
  obtain i j where i: "i < length members" "m = members ! i" and j: "j < length members" "m' = members ! j"
    using assms(3,4) by (metis in_set_conv_nth)
  have "load (fst (rr_assign members tasks counter)) (mm_Name (members ! k)) \<in>
      {length tasks div length members, Suc (length tasks div length members)}" if "k < length members" for k
    using rr_load [OF assms(1) that assms(2)]
      div_spread [OF order_le_less_trans [OF _ that], of "unat counter + (length members - 1 - k)" "length tasks"]
    by (simp add: add.commute add.left_commute)
  from this [OF i(1)] this [OF j(1)] i(2) j(2) show ?thesis
    by (cases members) (auto simp: Distribute_def RoundRobin_Distribute_def)
qed

text \<open>The hash strategy is sticky: two tasks with the same key (the ID when there is none) go to the
  same member, in the same distribution or in different ones over the same members.\<close>

theorem hash_sticky:
  assumes "a \<in> set (fst (Distribute HashStrategy tasks members c))"
    and "b \<in> set (fst (Distribute HashStrategy tasks' members c'))"
    and "task_key (as_Task a) = task_key (as_Task b)"
  shows "as_MemberName a = as_MemberName b"
  using assms by (auto simp: Distribute_def Hash_Distribute_def split: if_splits)

text \<open>The scan finds a member with the smallest count.\<close>

lemma min_member_least:
  "x \<in> insert n (mm_Name ` set ms) \<Longrightarrow>
   count_of counts (min_member counts n (count_of counts n) ms) \<le> count_of counts x"
proof (induction ms arbitrary: n x)
  case (Cons m ms)
  have "count_of counts (min_member counts k (count_of counts k) ms) \<le> count_of counts k" for k
    by (rule Cons.IH) simp
  with Cons show ?case by (fastforce intro: order_trans)
qed simp

lemma count_of_set [simp]: "count_of (gm_set n k counts) x = (if x = n then k else count_of counts x)"
  by (simp add: count_of_def)

definition spread :: "(string \<Rightarrow> int) \<Rightarrow> MatrixMember list \<Rightarrow> bool" where
  "spread f members \<longleftrightarrow> (\<forall>m \<in> set members. \<forall>m' \<in> set members. f (mm_Name m) \<le> f (mm_Name m') + 1)"

lemma balanced_spread:
  "members \<noteq> [] \<Longrightarrow> spread (count_of counts) members \<Longrightarrow>
   spread (\<lambda>n. count_of counts n + int (load (balanced_assign members ts counts) n)) members"
proof (induction members ts counts rule: balanced_assign.induct)
  case (2 members t ts counts)
  let ?f = "mm_Name (hd members)"
  let ?n = "min_member counts ?f (count_of counts ?f) (tl members)"
  let ?c = "gm_set ?n (count_of counts ?n + 1) counts"
  have names: "insert ?f (mm_Name ` set (tl members)) = mm_Name ` set members"
    using 2(2) by (cases members) auto
  then have "\<forall>m \<in> set members. count_of counts ?n \<le> count_of counts (mm_Name m)"
    using min_member_least [of _ ?f "tl members" counts] by blast
  moreover have "?n \<in> mm_Name ` set members" using min_member_in names by blast
  ultimately have "spread (count_of ?c) members" using 2(3) by (force simp: spread_def)
  from 2(1) [OF refl refl 2(2) this]
  have "spread (\<lambda>n. count_of ?c n + int (load (balanced_assign members ts ?c) n)) members" .
  moreover have "(\<lambda>n. count_of ?c n + int (load (balanced_assign members ts ?c) n)) =
      (\<lambda>n. count_of counts n + int (load (balanced_assign members (t # ts) counts) n))"
    by (auto simp: Let_def fun_eq_iff)
  ultimately show ?case by metis
qed simp

lemma zero_counts: "count_of (fold (\<lambda>m. gm_set (mm_Name m) 0) members counts) n =
    (if n \<in> mm_Name ` set members then 0 else count_of counts n)"
  by (induction members arbitrary: counts) auto

text \<open>The balanced strategy is fair: the loads of any two members differ by at most one.\<close>

theorem balanced_fair:
  assumes "m \<in> set members" and "m' \<in> set members"
  shows "load (fst (Distribute BalancedStrategy tasks members counter)) (mm_Name m)
    \<le> Suc (load (fst (Distribute BalancedStrategy tasks members counter)) (mm_Name m'))"
proof -
  let ?z = "fold (\<lambda>m. gm_set (mm_Name m) 0) members []"
  have "spread (count_of ?z) members" by (simp add: spread_def zero_counts)
  moreover have "members \<noteq> []" using assms(1) by auto
  ultimately have "spread (\<lambda>n. count_of ?z n + int (load (balanced_assign members tasks ?z) n)) members"
    by (rule balanced_spread [rotated])
  with assms \<open>members \<noteq> []\<close> show ?thesis
    by (fastforce simp: spread_def zero_counts Distribute_def Balanced_Distribute_def)
qed

section \<open>Witnesses\<close>

definition crew :: "MatrixMember list" where
  "crew = map (\<lambda>n. \<lparr>mm_Name = n, mm_Blueprint = ''go.yaml''\<rparr>) [''a'', ''b'', ''c'']"

definition chore :: "string \<Rightarrow> Task" where
  "chore i = \<lparr>tk_ID = i, tk_Payload = '''', tk_Key = '''', tk_Meta = []\<rparr>"

definition chores :: "Task list" where
  "chores = map chore [''1'', ''2'', ''3'', ''4'']"

theorem round_robin_fair_witness:
  "load (fst (Distribute RoundRobinStrategy chores crew 5)) ''c'' = 2 \<and>
   load (fst (Distribute RoundRobinStrategy chores crew 5)) ''c''
     \<le> Suc (load (fst (Distribute RoundRobinStrategy chores crew 5)) ''a'')"
proof
  show "load (fst (Distribute RoundRobinStrategy chores crew 5)) ''c'' = 2" by code_simp
  show "load (fst (Distribute RoundRobinStrategy chores crew 5)) ''c''
     \<le> Suc (load (fst (Distribute RoundRobinStrategy chores crew 5)) ''a'')"
    using round_robin_fair [of crew 5 chores "crew ! 2" "crew ! 0"] by (simp add: crew_def chores_def)
qed

theorem balanced_fair_witness:
  "load (fst (Distribute BalancedStrategy chores crew 0)) ''a'' = 2 \<and>
   load (fst (Distribute BalancedStrategy chores crew 0)) ''a''
     \<le> Suc (load (fst (Distribute BalancedStrategy chores crew 0)) ''b'')"
proof
  show "load (fst (Distribute BalancedStrategy chores crew 0)) ''a'' = 2" by code_simp
  show "load (fst (Distribute BalancedStrategy chores crew 0)) ''a''
     \<le> Suc (load (fst (Distribute BalancedStrategy chores crew 0)) ''b'')"
    using balanced_fair [of "crew ! 0" crew "crew ! 1" chores] by (simp add: crew_def)
qed

theorem hash_sticky_witness:
  "as_MemberName (hd (fst (Distribute HashStrategy [chore ''1''] crew 0))) =
   as_MemberName (last (fst (Distribute HashStrategy [chore ''2'', (chore ''3'')\<lparr>tk_Key := ''1''\<rparr>] crew 7)))"
  by (rule hash_sticky [of _ "[chore ''1'']" crew 0 _ "[chore ''2'', (chore ''3'')\<lparr>tk_Key := ''1''\<rparr>]" 7])
    (simp_all add: Distribute_def Hash_Distribute_def crew_def chore_def task_key_def)

end
