(* ===== verification/Gateway.thy ===== *)
theory Gateway
  imports Prelude
begin

text \<open>
  \<open>internal/agent/a2a/gateway.go\<close>: messages between sandboxes. A gateway has an inbox per recipient, in
  the order of arrival, and the handlers subscribed to it. The handlers are functions of the
  caller; they run after the lock is released and act on a world \<open>'x\<close> of their own. Every
  operation holds the lock for all it does to the inboxes, so it is one step. IDs of messages come
  from \<open>github.com/google/uuid\<close> and are a stream of strings of which nothing is assumed.
\<close>

definition maxInboxSize :: nat where
  "maxInboxSize = 10000"

record Message =
  msg_ID :: string
  msg_From :: string
  msg_To :: string
  msg_Type :: string
  msg_Payload :: string
  msg_CreatedAt :: gtime

record 'x Gateway =
  gw_inboxes :: "Message list gomap"
  gw_handlers :: "(Message \<Rightarrow> 'x \<Rightarrow> 'x) list gomap"
  gw_world :: 'x
  gw_uuid :: "nat \<Rightarrow> string"
  gw_draw :: nat
  gw_clock :: "nat \<Rightarrow> gtime"
  gw_tick :: nat

text \<open>A missing key of the map reads as an empty inbox.\<close>

definition inbox :: "'x Gateway \<Rightarrow> string \<Rightarrow> Message list" where
  "inbox g n = (case gm_get (gw_inboxes g) n of None \<Rightarrow> [] | Some ms \<Rightarrow> ms)"

definition New :: "'x \<Rightarrow> (nat \<Rightarrow> string) \<Rightarrow> (nat \<Rightarrow> gtime) \<Rightarrow> 'x Gateway" where
  "New x ids clock = \<lparr>gw_inboxes = [], gw_handlers = [], gw_world = x, gw_uuid = ids, gw_draw = 0,
     gw_clock = clock, gw_tick = 0\<rparr>"

text \<open>The ID and the time a message gets when it has none.\<close>

definition with_id :: "Message \<Rightarrow> 'x Gateway \<Rightarrow> Message \<times> 'x Gateway" where
  "with_id msg g =
     (if msg_ID msg = '''' then (msg\<lparr>msg_ID := gw_uuid g (gw_draw g)\<rparr>, g\<lparr>gw_draw := Suc (gw_draw g)\<rparr>)
      else (msg, g))"

definition with_time :: "Message \<Rightarrow> 'x Gateway \<Rightarrow> Message \<times> 'x Gateway" where
  "with_time msg g =
     (if msg_CreatedAt msg = 0
      then (msg\<lparr>msg_CreatedAt := gw_clock g (gw_tick g)\<rparr>, g\<lparr>gw_tick := Suc (gw_tick g)\<rparr>)
      else (msg, g))"

definition Send :: "Message \<Rightarrow> (unit res, 'x Gateway) act" where
  "Send msg0 g0 =
     (if msg_From msg0 = '''' then (Inl (Errorf ''message 'from' field is required'' []), g0)
      else if msg_To msg0 = '''' then (Inl (Errorf ''message 'to' field is required'' []), g0)
      else if msg_Type msg0 = '''' then (Inl (Errorf ''message 'type' field is required'' []), g0)
      else
       (case with_id msg0 g0 of (msg1, g1) \<Rightarrow>
        case with_time msg1 g1 of (msg, g) \<Rightarrow>
        if length (inbox g (msg_To msg)) \<ge> maxInboxSize then
          (Inl (Errorf ''inbox for %q is full (max %d messages)''
             [AStr (msg_To msg), AInt (int maxInboxSize)]), g)
        else
          let g' = g\<lparr>gw_inboxes := gm_set (msg_To msg) (inbox g (msg_To msg) @ [msg]) (gw_inboxes g)\<rparr>;
              handlers = (case gm_get (gw_handlers g) (msg_To msg) of None \<Rightarrow> [] | Some hs \<Rightarrow> hs) in
          (Inr (), g'\<lparr>gw_world := fold (\<lambda>h. h msg) handlers (gw_world g')\<rparr>)))"

definition Receive :: "string \<Rightarrow> (Message list, 'x Gateway) act" where
  "Receive n g =
     (if inbox g n = [] then ([], g)
      else (inbox g n, g\<lparr>gw_inboxes := gm_del n (gw_inboxes g)\<rparr>))"

definition Peek :: "string \<Rightarrow> 'x Gateway \<Rightarrow> Message list" where
  "Peek n g = inbox g n"

text \<open>The loop that splits an inbox by type.\<close>

fun split_type :: "string \<Rightarrow> Message list \<Rightarrow> Message list \<Rightarrow> Message list \<Rightarrow> Message list \<times> Message list" where
  "split_type ty [] matched remaining = (matched, remaining)"
| "split_type ty (m # ms) matched remaining =
     (if msg_Type m = ty then split_type ty ms (matched @ [m]) remaining
      else split_type ty ms matched (remaining @ [m]))"

definition ReceiveByType :: "string \<Rightarrow> string \<Rightarrow> (Message list, 'x Gateway) act" where
  "ReceiveByType n ty g =
     (if inbox g n = [] then ([], g)
      else case split_type ty (inbox g n) [] [] of (matched, remaining) \<Rightarrow>
        (matched, g\<lparr>gw_inboxes := (if remaining = [] then gm_del n (gw_inboxes g)
                                    else gm_set n remaining (gw_inboxes g))\<rparr>))"

definition Subscribe :: "string \<Rightarrow> (Message \<Rightarrow> 'x \<Rightarrow> 'x) \<Rightarrow> 'x Gateway \<Rightarrow> 'x Gateway" where
  "Subscribe n h g =
     g\<lparr>gw_handlers := gm_set n ((case gm_get (gw_handlers g) n of None \<Rightarrow> [] | Some hs \<Rightarrow> hs) @ [h])
        (gw_handlers g)\<rparr>"

definition new_message :: "string \<Rightarrow> string \<Rightarrow> string \<Rightarrow> string \<Rightarrow> Message" where
  "new_message src to ty payload = \<lparr>msg_ID = '''', msg_From = src, msg_To = to, msg_Type = ty,
     msg_Payload = payload, msg_CreatedAt = 0\<rparr>"

fun send_each :: "string \<Rightarrow> string list \<Rightarrow> string \<Rightarrow> string \<Rightarrow> (unit res, 'x Gateway) act" where
  "send_each src [] ty payload g = (Inr (), g)"
| "send_each src (t # ts) ty payload g =
     (case Send (new_message src t ty payload) g of
        (Inl e, g') \<Rightarrow> (Inl (Errorf ''broadcast to %q: %w'' [AStr t, AErr e]), g')
      | (Inr _, g') \<Rightarrow> send_each src ts ty payload g')"

definition Broadcast :: "string \<Rightarrow> string list \<Rightarrow> string \<Rightarrow> string \<Rightarrow> (unit res, 'x Gateway) act" where
  "Broadcast src targets ty payload g =
     (if src = '''' then (Inl (Errorf '''from' field is required'' []), g)
      else if targets = [] then (Inl (Errorf ''at least one target is required'' []), g)
      else if ty = '''' then (Inl (Errorf ''message 'type' field is required'' []), g)
      else send_each src targets ty payload g)"

section \<open>Inboxes\<close>

text \<open>The message as it is stored.\<close>

definition stamped :: "Message \<Rightarrow> 'x Gateway \<Rightarrow> Message" where
  "stamped msg g = (case with_id msg g of (msg1, g1) \<Rightarrow> fst (with_time msg1 g1))"

lemma with_id_simps [simp]:
  "msg_To (fst (with_id m g)) = msg_To m" "msg_Type (fst (with_id m g)) = msg_Type m"
  "gw_inboxes (snd (with_id m g)) = gw_inboxes g"
  by (simp_all add: with_id_def)

lemma with_time_simps [simp]:
  "msg_To (fst (with_time m g)) = msg_To m" "msg_Type (fst (with_time m g)) = msg_Type m"
  "gw_inboxes (snd (with_time m g)) = gw_inboxes g"
  by (simp_all add: with_time_def)

lemma stamped_simps [simp]:
  "msg_To (stamped m g) = msg_To m" "msg_Type (stamped m g) = msg_Type m"
  by (simp_all add: stamped_def split: prod.splits) (metis fst_conv with_id_simps(1,2))+

lemma inbox_cong: "gw_inboxes g' = gw_inboxes g \<Longrightarrow> inbox g' = inbox g"
  by (simp add: inbox_def fun_eq_iff)

text \<open>\<open>Send\<close> without the threading of the draws.\<close>

lemma Send_cases:
  "Send m g = (Inr u, g') \<Longrightarrow> length (inbox g (msg_To m)) < maxInboxSize \<and>
     inbox g' = (inbox g)(msg_To m := inbox g (msg_To m) @ [stamped m g])"
  "Send m g = (Inl e, g') \<Longrightarrow> inbox g' = inbox g"
proof -
  obtain m1 g1 where 1: "with_id m g = (m1, g1)" by fastforce
  obtain m2 g2 where 2: "with_time m1 g1 = (m2, g2)" by fastforce
  have to: "msg_To m2 = msg_To m" "gw_inboxes g2 = gw_inboxes g" "stamped m g = m2"
    using 1 2 with_id_simps [of m g] with_time_simps [of m1 g1] by (auto simp: stamped_def)
  note box = inbox_cong [OF to(2)]
  show "Send m g = (Inr u, g') \<Longrightarrow> length (inbox g (msg_To m)) < maxInboxSize \<and>
     inbox g' = (inbox g)(msg_To m := inbox g (msg_To m) @ [stamped m g])"
    using to box by (auto simp: Send_def 1 2 Let_def inbox_def fun_eq_iff split: if_splits)
  show "Send m g = (Inl e, g') \<Longrightarrow> inbox g' = inbox g"
    using box by (auto simp: Send_def 1 2 Let_def split: if_splits)
qed

lemma split_type_filter:
  "split_type ty ms a b = (a @ filter (\<lambda>m. msg_Type m = ty) ms, b @ filter (\<lambda>m. msg_Type m \<noteq> ty) ms)"
  by (induction ty ms a b rule: split_type.induct) auto

lemma Receive_run:
  "Receive n g = (ms, g') \<Longrightarrow> ms = inbox g n \<and> inbox g' = (inbox g)(n := [])"
  by (auto simp: Receive_def inbox_def fun_eq_iff split: if_splits option.splits)

lemma ReceiveByType_run:
  "ReceiveByType n ty g = (ms, g') \<Longrightarrow> ms = filter (\<lambda>m. msg_Type m = ty) (inbox g n) \<and>
   inbox g' = (inbox g)(n := filter (\<lambda>m. msg_Type m \<noteq> ty) (inbox g n))"
  by (auto simp: ReceiveByType_def split_type_filter inbox_def fun_eq_iff split: if_splits option.splits)

section \<open>Delivery\<close>

datatype mail_op = MSend Message | MReceive string | MReceiveType string string

text \<open>A run of operations, with the messages accepted and the messages handed out, each with its
  recipient, in order.\<close>

fun run_mail ::
  "(Message \<Rightarrow> 'g \<Rightarrow> Message) \<Rightarrow> (Message \<Rightarrow> (unit res, 'g) act) \<Rightarrow> (string \<Rightarrow> (Message list, 'g) act) \<Rightarrow>
   (string \<Rightarrow> string \<Rightarrow> (Message list, 'g) act) \<Rightarrow> mail_op list \<Rightarrow> 'g \<Rightarrow>
   (string \<times> Message) list \<times> (string \<times> Message) list \<times> 'g" where
  "run_mail stamp send recv recvt [] g = ([], [], g)"
| "run_mail stamp send recv recvt (MSend m # ops) g =
     (case send m g of (r, g') \<Rightarrow>
      case run_mail stamp send recv recvt ops g' of (a, d, h) \<Rightarrow>
      ((if is_ok r then (msg_To m, stamp m g) # a else a), d, h))"
| "run_mail stamp send recv recvt (MReceive n # ops) g =
     (case recv n g of (ms, g') \<Rightarrow>
      case run_mail stamp send recv recvt ops g' of (a, d, h) \<Rightarrow> (a, map (Pair n) ms @ d, h))"
| "run_mail stamp send recv recvt (MReceiveType n ty # ops) g =
     (case recvt n ty g of (ms, g') \<Rightarrow>
      case run_mail stamp send recv recvt ops g' of (a, d, h) \<Rightarrow> (a, map (Pair n) ms @ d, h))"

definition of_kind :: "string \<Rightarrow> string \<Rightarrow> (string \<times> Message) list \<Rightarrow> Message list" where
  "of_kind n ty xs = map snd (filter (\<lambda>(to, m). to = n \<and> msg_Type m = ty) xs)"

definition typed :: "string \<Rightarrow> Message list \<Rightarrow> Message list" where
  "typed ty ms = filter (\<lambda>m. msg_Type m = ty) ms"

lemma of_kind_simps [simp]:
  "of_kind n ty [] = []"
  "of_kind n ty ((to, m) # xs) = (if to = n \<and> msg_Type m = ty then m # of_kind n ty xs else of_kind n ty xs)"
  "of_kind n ty (xs @ ys) = of_kind n ty xs @ of_kind n ty ys"
  "of_kind n ty (map (Pair k) ms) = (if k = n then typed ty ms else [])"
  by (auto simp: of_kind_def typed_def filter_map comp_def)

lemma typed_simps [simp]:
  "typed ty [] = []" "typed ty (xs @ ys) = typed ty xs @ typed ty ys"
  "typed ty (m # ms) = (if msg_Type m = ty then m # typed ty ms else typed ty ms)"
  "typed ty (filter (\<lambda>m. msg_Type m = t) ms) = (if t = ty then typed ty ms else [])"
  "typed ty (filter (\<lambda>m. msg_Type m \<noteq> t) ms) = (if t = ty then [] else typed ty ms)"
  by (auto simp: typed_def filter_empty_conv filter_id_conv intro!: filter_cong)

text \<open>What clients rely on of a mail service: what each operation does to the boxes.\<close>

locale mailbox =
  fixes box :: "'g \<Rightarrow> string \<Rightarrow> Message list"
    and stamp :: "Message \<Rightarrow> 'g \<Rightarrow> Message"
    and send :: "Message \<Rightarrow> (unit res, 'g) act"
    and recv :: "string \<Rightarrow> (Message list, 'g) act"
    and recvt :: "string \<Rightarrow> string \<Rightarrow> (Message list, 'g) act"
  assumes send_done: "send m g = (Inr u, g') \<Longrightarrow>
      box g' = (box g)(msg_To m := box g (msg_To m) @ [stamp m g])"
    and send_refused: "send m g = (Inl e, g') \<Longrightarrow> box g' = box g"
    and recv_all: "recv n g = (ms, g') \<Longrightarrow> ms = box g n \<and> box g' = (box g)(n := [])"
    and recv_type: "recvt n ty g = (ms, g') \<Longrightarrow> ms = filter (\<lambda>m. msg_Type m = ty) (box g n) \<and>
      box g' = (box g)(n := filter (\<lambda>m. msg_Type m \<noteq> ty) (box g n))"
begin

lemma conservation:
  assumes "run_mail stamp send recv recvt ops g = (a, d, h)"
  shows "of_kind n ty d @ typed ty (box h n) = typed ty (box g n) @ of_kind n ty a"
  using assms
proof (induction ops arbitrary: g a d h)
  case (Cons x ops)
  show ?case
  proof (cases x)
    case (MSend m)
    obtain r g' where r: "send m g = (r, g')" by fastforce
    obtain a' d' h' where rest: "run_mail stamp send recv recvt ops g' = (a', d', h')" by (metis surj_pair)
    from Cons.IH [OF rest] Cons.prems MSend r rest show ?thesis
      by (cases r) (auto dest!: send_done send_refused)
  next
    case (MReceive k)
    obtain ms g' where r: "recv k g = (ms, g')" by fastforce
    obtain a' d' h' where rest: "run_mail stamp send recv recvt ops g' = (a', d', h')" by (metis surj_pair)
    from Cons.IH [OF rest] Cons.prems MReceive r rest recv_all [OF r] show ?thesis by auto
  next
    case (MReceiveType k ty')
    obtain ms g' where r: "recvt k ty' g = (ms, g')" by fastforce
    obtain a' d' h' where rest: "run_mail stamp send recv recvt ops g' = (a', d', h')" by (metis surj_pair)
    from Cons.IH [OF rest] Cons.prems MReceiveType r rest recv_type [OF r] show ?thesis by auto
  qed
qed simp

end

interpretation gw: mailbox inbox stamped Send Receive ReceiveByType
  using Send_cases Receive_run ReceiveByType_run by unfold_locales blast+

section \<open>Properties\<close>

text \<open>C39. No message is lost, duplicated or delivered to someone else, and messages of one type stay in
  order: over any sequence of sends and receives, for every recipient and type, what was handed out followed by what is
  still in the inbox is what was in the inbox followed by what was accepted.\<close>

theorem messages_conserved:
  assumes "run_mail stamped Send Receive ReceiveByType ops g = (a, d, h)"
  shows "of_kind n ty d @ typed ty (inbox h n) = typed ty (inbox g n) @ of_kind n ty a"
  by (rule gw.conservation [OF assms])

definition demo_gateway :: "nat Gateway" where
  "demo_gateway = New 0 (\<lambda>i. ''u'' @ nat_digits i) int"

definition demo_mail :: "mail_op list" where
  "demo_mail = [MSend (new_message ''a'' ''b'' ''event'' ''1''), MSend (new_message ''a'' ''b'' ''task'' ''2''),
     MSend (new_message ''a'' ''b'' ''event'' ''3''), MReceiveType ''b'' ''task'', MReceive ''b'']"

theorem messages_conserved_witness:
  "map msg_Payload (of_kind ''b'' ''event'' (fst (snd (run_mail stamped Send Receive ReceiveByType demo_mail demo_gateway))))
   = [''1'', ''3'']"
proof -
  obtain a d h where r: "run_mail stamped Send Receive ReceiveByType demo_mail demo_gateway = (a, d, h)"
    by (metis surj_pair)
  have "fst (run_mail stamped Send Receive ReceiveByType demo_mail demo_gateway) =
     [(''b'', \<lparr>msg_ID = ''u0'', msg_From = ''a'', msg_To = ''b'', msg_Type = ''event'', msg_Payload = ''1'', msg_CreatedAt = 0\<rparr>),
      (''b'', \<lparr>msg_ID = ''u1'', msg_From = ''a'', msg_To = ''b'', msg_Type = ''task'', msg_Payload = ''2'', msg_CreatedAt = 1\<rparr>),
      (''b'', \<lparr>msg_ID = ''u2'', msg_From = ''a'', msg_To = ''b'', msg_Type = ''event'', msg_Payload = ''3'', msg_CreatedAt = 2\<rparr>)]"
    by code_simp
  moreover have "inbox (snd (snd (run_mail stamped Send Receive ReceiveByType demo_mail demo_gateway))) ''b'' = []"
    "inbox demo_gateway ''b'' = []" by code_simp+
  ultimately show ?thesis using messages_conserved [OF r, of "''b''" "''event''"] r by simp
qed

lemma Send_bound:
  assumes "\<forall>n. length (inbox g n) \<le> maxInboxSize"
  shows "\<forall>n. length (inbox (snd (Send m g)) n) \<le> maxInboxSize"
proof -
  obtain r g' where r: "Send m g = (r, g')" by fastforce
  with assms show ?thesis by (cases r) (auto dest!: Send_cases)
qed

text \<open>No inbox ever holds more than \<open>maxInboxSize\<close> messages.\<close>

theorem inbox_bounded:
  assumes "\<forall>k. length (inbox g k) \<le> maxInboxSize"
  shows "length (inbox (snd (snd (run_mail stamped Send Receive ReceiveByType ops g))) n) \<le> maxInboxSize"
  using assms
proof (induction ops arbitrary: g)
  case (Cons x ops)
  show ?case
  proof (cases x)
    case (MSend m)
    with Cons.IH [OF Send_bound [OF Cons.prems, of m]] show ?thesis by (auto split: prod.splits)
  next
    case (MReceive k)
    obtain ms g' where r: "Receive k g = (ms, g')" by fastforce
    with Cons.prems have "\<forall>n. length (inbox g' n) \<le> maxInboxSize" by (simp add: Receive_run)
    from Cons.IH [OF this] MReceive r show ?thesis by (auto split: prod.splits)
  next
    case (MReceiveType k ty)
    obtain ms g' where r: "ReceiveByType k ty g = (ms, g')" by fastforce
    with Cons.prems have "\<forall>n. length (inbox g' n) \<le> maxInboxSize"
      by (auto simp: ReceiveByType_run intro: order_trans [OF length_filter_le])
    from Cons.IH [OF this] MReceiveType r show ?thesis by (auto split: prod.splits)
  qed
qed simp

theorem inbox_bounded_witness:
  "length (inbox (snd (snd (run_mail stamped Send Receive ReceiveByType demo_mail demo_gateway))) ''b'') \<le> maxInboxSize"
  by (rule inbox_bounded) (simp add: demo_gateway_def New_def inbox_def)

text \<open>A broadcast that succeeds puts one message of that kind at the end of the inbox of every target, as
  often as it is listed, and leaves all other inboxes as they are.\<close>

theorem broadcast_delivers:
  assumes "Broadcast src targets ty payload g = (Inr (), g')"
  shows "\<exists>new. inbox g' n = inbox g n @ new \<and> length new = count_list targets n \<and>
    (\<forall>m \<in> set new. msg_From m = src \<and> msg_To m = n \<and> msg_Type m = ty \<and> msg_Payload m = payload)"
proof -
  have "send_each src targets ty payload g = (Inr (), g')"
    using assms by (auto simp: Broadcast_def split: if_splits)
  then show ?thesis
  proof (induction src targets ty payload g rule: send_each.induct)
    case (2 src t ts ty payload g)
    let ?m = "new_message src t ty payload"
    obtain r g1 where r: "Send ?m g = (r, g1)" by fastforce
    with "2.prems" have ok: "r = Inr ()" "send_each src ts ty payload g1 = (Inr (), g')"
      by (cases r; simp)+
    from "2.IH" [of r g1] r ok obtain new where new: "inbox g' n = inbox g1 n @ new"
      "length new = count_list ts n"
      "\<forall>m \<in> set new. msg_From m = src \<and> msg_To m = n \<and> msg_Type m = ty \<and> msg_Payload m = payload"
      by auto
    have g1: "inbox g1 = (inbox g)(t := inbox g t @ [stamped ?m g])"
      using Send_cases(1) [of ?m g] r ok by (auto simp: new_message_def)
    have st: "msg_From (stamped ?m g) = src" "msg_Payload (stamped ?m g) = payload"
      by (simp_all add: stamped_def with_id_def with_time_def new_message_def)
    show ?case
    proof (cases "t = n")
      case True
      with new g1 st show ?thesis
        by (intro exI [of _ "stamped ?m g # new"]) (auto simp: new_message_def)
    next
      case False
      with new g1 show ?thesis by (intro exI [of _ new]) auto
    qed
  qed simp
qed

theorem broadcast_delivers_witness:
  "\<exists>new. inbox (snd (Broadcast ''a'' [''b'', ''c''] ''event'' ''x'' demo_gateway)) ''c'' = [] @ new \<and> length new = 1"
proof -
  have "fst (Broadcast ''a'' [''b'', ''c''] ''event'' ''x'' demo_gateway) = Inr ()" by code_simp
  then have "Broadcast ''a'' [''b'', ''c''] ''event'' ''x'' demo_gateway
      = (Inr (), snd (Broadcast ''a'' [''b'', ''c''] ''event'' ''x'' demo_gateway))" by (simp add: prod_eq_iff)
  from broadcast_delivers [OF this, of "''c''"] show ?thesis
    by (auto simp: demo_gateway_def New_def inbox_def)
qed

end
