(* ===== verification/Aggregation.thy ===== *)
theory Aggregation
  imports Gateway ApiTypes
begin

text \<open>
  \<open>internal/aggregation/aggregation.go\<close>: collecting the results of a task from the inbox of its
  coordinator. The loop of \<open>Collect\<close> waits for the context, the deadline or the next tick, whichever
  comes; that is a list of events given from outside, each tick with the messages that others sent
  since the last one. Decoding a payload (\<open>encoding/json\<close>) is a parameter.
\<close>

record AggregatedResult =
  ar_TaskID :: string
  ar_Strategy :: string
  ar_Results :: "TaskResult list"
  ar_Total :: int
  ar_Succeeded :: int
  ar_Failed :: int

datatype wake = CtxDone goerr | Deadline | Tick "Message list"

fun count_status :: "TaskResult list \<Rightarrow> int \<Rightarrow> int \<Rightarrow> int \<times> int" where
  "count_status [] succeeded failed = (succeeded, failed)"
| "count_status (r # rs) succeeded failed =
     (if tr_Status r = ''success'' then count_status rs (succeeded + 1) failed
      else count_status rs succeeded (failed + 1))"

definition buildResult :: "string \<Rightarrow> string \<Rightarrow> TaskResult list \<Rightarrow> AggregatedResult" where
  "buildResult taskID strategy results =
     (case count_status results 0 0 of (succeeded, failed) \<Rightarrow>
      \<lparr>ar_TaskID = taskID, ar_Strategy = strategy, ar_Results = results,
       ar_Total = int (length results), ar_Succeeded = succeeded, ar_Failed = failed\<rparr>)"

text \<open>The results of the task among the messages; the others of that type are skipped.\<close>

fun take_results :: "(string \<Rightarrow> TaskResult res) \<Rightarrow> string \<Rightarrow> Message list \<Rightarrow> TaskResult list \<Rightarrow> TaskResult list" where
  "take_results decode taskID [] results = results"
| "take_results decode taskID (msg # msgs) results =
     (case decode (msg_Payload msg) of
        Inl _ \<Rightarrow> take_results decode taskID msgs results
      | Inr tr \<Rightarrow> if tr_TaskID tr \<noteq> taskID then take_results decode taskID msgs results
                   else take_results decode taskID msgs (results @ [tr]))"

text \<open>Go divides towards zero.\<close>

definition half :: "int \<Rightarrow> int" where
  "half n = (if n < 0 then - ((- n) div 2) else n div 2)"

definition complete :: "string \<Rightarrow> int \<Rightarrow> TaskResult list \<Rightarrow> bool" where
  "complete strategy expectedCount results \<longleftrightarrow>
     (if strategy = ''first-success'' then list_ex (\<lambda>r. tr_Status r = ''success'') results
      else if strategy = ''majority'' then
        int (length (filter (\<lambda>r. tr_Status r = ''success'') results)) > half expectedCount
      else int (length results) \<ge> expectedCount)"

text \<open>The messages others send meanwhile.\<close>

definition arrive :: "Message list \<Rightarrow> 'x Gateway \<Rightarrow> 'x Gateway" where
  "arrive msgs g = fold (\<lambda>m g. snd (Send m g)) msgs g"

fun collect_loop ::
  "(string \<Rightarrow> TaskResult res) \<Rightarrow> string \<Rightarrow> string \<Rightarrow> string \<Rightarrow> int \<Rightarrow> wake list \<Rightarrow> TaskResult list \<Rightarrow>
   ((AggregatedResult \<times> goerr option) option, 'x Gateway) act" where
  "collect_loop decode coordinator taskID strategy expected [] results g = (None, g)"
| "collect_loop decode coordinator taskID strategy expected (CtxDone e # ws) results g =
     (Some (buildResult taskID strategy results, Some e), g)"
| "collect_loop decode coordinator taskID strategy expected (Deadline # ws) results g =
     (Some (buildResult taskID strategy results, None), g)"
| "collect_loop decode coordinator taskID strategy expected (Tick sent # ws) results g =
     (case ReceiveByType coordinator ''task-result'' (arrive sent g) of (msgs, g') \<Rightarrow>
      let results' = take_results decode taskID msgs results in
      if complete strategy expected results' then (Some (buildResult taskID strategy results', None), g')
      else collect_loop decode coordinator taskID strategy expected ws results' g')"

definition collect_strategy :: "AggregationConfig option \<Rightarrow> string" where
  "collect_strategy cfg =
     (case cfg of None \<Rightarrow> ''collect-all''
      | Some k \<Rightarrow> if ac_Strategy k \<noteq> '''' then ac_Strategy k else ''collect-all'')"

definition collect_timeout :: "AggregationConfig option \<Rightarrow> int" where
  "collect_timeout cfg =
     (case cfg of None \<Rightarrow> 60 | Some k \<Rightarrow> if ac_TimeoutSec k > 0 then ac_TimeoutSec k else 60)"

text \<open>\<open>wakes\<close> gives the events for a timeout in seconds.\<close>

definition Collect ::
  "(string \<Rightarrow> TaskResult res) \<Rightarrow> (int \<Rightarrow> wake list) \<Rightarrow> string \<Rightarrow> string \<Rightarrow> int \<Rightarrow> AggregationConfig option \<Rightarrow>
   ((AggregatedResult \<times> goerr option) option, 'x Gateway) act" where
  "Collect decode wakes coordinator taskID expected cfg =
     collect_loop decode coordinator taskID (collect_strategy cfg) expected
       (wakes (collect_timeout cfg)) []"

definition FormatSummary :: "AggregatedResult \<Rightarrow> string" where
  "FormatSummary ar = ''Task '' @ ar_TaskID ar @ '': '' @ itoa (ar_Succeeded ar) @ ''/'' @ itoa (ar_Total ar)
     @ '' succeeded (strategy: '' @ ar_Strategy ar @ '')''"

section \<open>Properties\<close>

lemma count_status_sum:
  "count_status rs s f = (s + int (length (filter (\<lambda>r. tr_Status r = ''success'') rs)),
     f + int (length (filter (\<lambda>r. tr_Status r \<noteq> ''success'') rs)))"
  by (induction rs s f rule: count_status.induct) auto

lemma buildResult_simps [simp]:
  "ar_TaskID (buildResult i s rs) = i" "ar_Results (buildResult i s rs) = rs"
  "ar_Total (buildResult i s rs) = int (length rs)"
  by (simp_all add: buildResult_def count_status_sum)

lemma buildResult_counts:
  "ar_Succeeded (buildResult i s rs) + ar_Failed (buildResult i s rs) = int (length rs)"
  using sum_length_filter_compl [of "\<lambda>r. tr_Status r = ''success''" rs]
  by (simp add: buildResult_def count_status_sum flip: of_nat_add)

lemma take_results_subset:
  "set (take_results decode taskID msgs results) \<subseteq> set results \<union> {tr. tr_TaskID tr = taskID}"
proof (induction msgs arbitrary: results)
  case (Cons msg msgs)
  show ?case
  proof (cases "decode (msg_Payload msg)")
    case (Inl e)
    with Cons.IH [of results] show ?thesis by simp
  next
    case (Inr tr)
    with Cons.IH [of results] Cons.IH [of "results @ [tr]"] show ?thesis by auto
  qed
qed simp

lemma take_results_task:
  "\<forall>r \<in> set results. tr_TaskID r = taskID \<Longrightarrow> \<forall>r \<in> set (take_results decode taskID msgs results). tr_TaskID r = taskID"
  using take_results_subset [of decode taskID msgs results] by blast

lemma collect_loop_result:
  "collect_loop decode co taskID st ex ws results g = (Some (ar, err), g') \<Longrightarrow>
   \<forall>r \<in> set results. tr_TaskID r = taskID \<Longrightarrow>
   \<exists>rs. ar = buildResult taskID st rs \<and> (\<forall>r \<in> set rs. tr_TaskID r = taskID) \<and>
     (complete st ex rs \<or> Deadline \<in> set ws \<or> (\<exists>e. CtxDone e \<in> set ws \<and> err = Some e))"
proof (induction decode co taskID st ex ws results g rule: collect_loop.induct)
  case (4 decode co taskID st ex sent ws results g)
  obtain msgs g1 where r: "ReceiveByType co ''task-result'' (arrive sent g) = (msgs, g1)" by fastforce
  let ?rs = "take_results decode taskID msgs results"
  have ids: "\<forall>r \<in> set ?rs. tr_TaskID r = taskID" using "4.prems"(2) by (rule take_results_task)
  show ?case
  proof (cases "complete st ex ?rs")
    case True
    with "4.prems"(1) r ids show ?thesis by auto
  next
    case False
    from "4.IH" [OF r [symmetric] refl False] "4.prems"(1) r ids False show ?thesis by auto
  qed
qed auto

text \<open>C40. What \<open>Collect\<close> returns: only results of the task asked for, with counts that add up; and unless the
  deadline or the context ended the wait, enough of them for the strategy.\<close>

theorem collect_sound:
  assumes "Collect decode wakes co taskID ex cfg g = (Some (ar, err), g')"
  shows "(\<forall>r \<in> set (ar_Results ar). tr_TaskID r = taskID) \<and>
    ar_Succeeded ar + ar_Failed ar = ar_Total ar \<and> ar_Total ar = int (length (ar_Results ar)) \<and>
    (complete (collect_strategy cfg) ex (ar_Results ar) \<or> Deadline \<in> set (wakes (collect_timeout cfg)) \<or>
     (\<exists>e. CtxDone e \<in> set (wakes (collect_timeout cfg)) \<and> err = Some e))"
proof -
  obtain rs where rs: "ar = buildResult taskID (collect_strategy cfg) rs"
    "\<forall>r \<in> set rs. tr_TaskID r = taskID"
    "complete (collect_strategy cfg) ex rs \<or> Deadline \<in> set (wakes (collect_timeout cfg)) \<or>
     (\<exists>e. CtxDone e \<in> set (wakes (collect_timeout cfg)) \<and> err = Some e)"
    using collect_loop_result [OF assms [unfolded Collect_def]] by auto
  then show ?thesis by (simp add: buildResult_counts)
qed

lemma collect_loop_ends:
  "Deadline \<in> set ws \<Longrightarrow> fst (collect_loop decode co taskID st ex ws results g) \<noteq> None"
proof (induction decode co taskID st ex ws results g rule: collect_loop.induct)
  case (4 decode co taskID st ex sent ws results g)
  then show ?case by (auto simp: Let_def split: prod.splits)
qed auto

text \<open>\<open>Collect\<close> returns at the latest when the deadline fires, whatever arrives before.\<close>

theorem collect_returns:
  assumes "Deadline \<in> set (wakes (collect_timeout cfg))"
  shows "\<exists>ar err g'. Collect decode wakes co taskID ex cfg g = (Some (ar, err), g')"
  using collect_loop_ends [OF assms] unfolding Collect_def by (metis not_None_eq prod.collapse)

definition result_of :: "string \<Rightarrow> TaskResult res" where
  "result_of p = (if p = [] then Inl (ExtErr ''bad JSON'')
     else Inr \<lparr>tr_MemberName = ''m'', tr_TaskID = p, tr_Status = ''success'', tr_Output = '''', tr_Error = '''',
       tr_CompletedAt = None\<rparr>)"

definition two_ticks :: "int \<Rightarrow> wake list" where
  "two_ticks t = [Tick [new_message ''a'' ''co'' ''task-result'' ''t2''],
     Tick [new_message ''a'' ''co'' ''task-result'' ''t1'', new_message ''a'' ''co'' ''chat'' ''hi''], Deadline]"

lemmas demo_simps = Collect_def collect_strategy_def collect_timeout_def two_ticks_def arrive_def Send_def
  new_message_def with_id_def with_time_def demo_gateway_def New_def inbox_def maxInboxSize_def
  ReceiveByType_def result_of_def complete_def

theorem collect_sound_witness:
  "\<exists>ar. fst (Collect result_of two_ticks ''co'' ''t1'' 1 None demo_gateway) = Some (ar, None) \<and>
     map tr_TaskID (ar_Results ar) = [''t1''] \<and> ar_Succeeded ar + ar_Failed ar = ar_Total ar"
proof -
  have "map_option (\<lambda>(ar, err). (err, map tr_TaskID (ar_Results ar)))
      (fst (Collect result_of two_ticks ''co'' ''t1'' 1 None demo_gateway)) = Some (None, [''t1''])"
    by (simp add: demo_simps)
  then obtain ar where ar: "fst (Collect result_of two_ticks ''co'' ''t1'' 1 None demo_gateway) = Some (ar, None)"
    "map tr_TaskID (ar_Results ar) = [''t1'']" by auto
  then have "Collect result_of two_ticks ''co'' ''t1'' 1 None demo_gateway
      = (Some (ar, None), snd (Collect result_of two_ticks ''co'' ''t1'' 1 None demo_gateway))"
    by (simp add: prod_eq_iff)
  from collect_sound [OF this] ar show ?thesis by auto
qed

theorem collect_returns_witness:
  "\<exists>ar err g'. Collect result_of two_ticks ''co'' ''t9'' 5 None demo_gateway = (Some (ar, err), g')"
  by (rule collect_returns) (simp add: two_ticks_def)

text \<open>Waiting for one task takes the results of another out of the inbox of their common coordinator and
  drops them: a message of another type is still there afterwards, the result of the other task is not, and a
  later \<open>Collect\<close> for that task finds nothing.\<close>

theorem collect_drops_other_tasks:
  "map msg_Payload (inbox (snd (Collect result_of two_ticks ''co'' ''t1'' 1 None demo_gateway)) ''co'') = [''hi''] \<and>
   map_option (ar_Total \<circ> fst) (fst (Collect result_of (\<lambda>t. [Tick [], Deadline]) ''co'' ''t2'' 1 None
     (snd (Collect result_of two_ticks ''co'' ''t1'' 1 None demo_gateway)))) = Some 0"
  by (simp add: demo_simps)

end
