(* ===== verification/Handlers.thy ===== *)
theory Handlers
  imports Server Deployment Sharding Aggregation
begin

text \<open>
  \<open>internal/server/handlers.go\<close>, \<open>team_handlers.go\<close>, \<open>file_handlers.go\<close> and \<open>network_handlers.go\<close>: the REST handlers over the
  controller, the agent gateway, the team store and the quota manager. A body is read by a decoder,
  a parameter of each handler (\<open>encoding/json\<close>). The demultiplexer of the Docker package delivers the output of a command in
  frames; how it cuts them is a parameter (\<open>frames\<close>).
\<close>

section \<open>State and payloads\<close>

record ('w, 'p, 'x) Api =
  ap_ctrl :: "('w, 'p) cstate"
  ap_gateway :: "'x Gateway option"

record ForwardedPort =
  fp_SandboxName :: string
  fp_ContainerPort :: int
  fp_HostPort :: int
  fp_Protocol :: string

record ServiceEntry =
  sv_Name :: string
  sv_Hostname :: string
  sv_IP :: string
  sv_Port :: int
  sv_Matrix :: string

datatype api_body =
    JStatus "string gomap"
  | JSandbox "Sandbox option" | JSandboxes "Sandbox list"
  | JExec int string string
  | JStats Stats
  | JSnapshot string string | JSnapshots "SnapshotInfo list"
  | JMatrix Matrix | JMatrices "Matrix list"
  | JAssignments int "Assignment list" string
  | JAggregated AggregatedResult
  | JSession Session | JSessions "Session list"
  | JTeam Team | JTeams "Team list" | JUsage ResourceUsage | JMembers "TeamMember list"
  | JRaw string | JFiles "FileInfo list"
  | JPorts "ForwardedPort list" | JServices "ServiceEntry list"

type_synonym ('w, 'p, 'x) api_handler = "(api_body, ('w, 'p, 'x) Api) handler"

definition on_ctrl :: "('a, ('w, 'p) cstate) act \<Rightarrow> ('a, ('w, 'p, 'x) Api Web) act" where
  "on_ctrl a s = (case a (ap_ctrl (wb_app s)) of (r, c) \<Rightarrow> (r, s\<lparr>wb_app := (wb_app s)\<lparr>ap_ctrl := c\<rparr>\<rparr>))"

definition path_value :: "string \<Rightarrow> string \<Rightarrow> (string \<Rightarrow> ('w, 'p, 'x) api_handler) \<Rightarrow> ('w, 'p, 'x) api_handler" where
  "path_value key what k r s =
     (let v = gm_str (rq_PathValue r) key in
      if v = '''' then (errorResponse StatusBadRequest (what @ '' is required''), s) else k v r s)"

definition fails :: "int \<Rightarrow> goerr \<Rightarrow> 'b Response" where
  "fails status e = errorResponse status (err_text e)"

definition done_body :: "string \<Rightarrow> string \<Rightarrow> string \<Rightarrow> api_body" where
  "done_body status key v = JStatus [(''status'', status), (key, v)]"

text \<open>A handler that runs one operation and answers with its outcome.\<close>

definition answer_with ::
  "int \<Rightarrow> int \<Rightarrow> ('a \<Rightarrow> api_body) \<Rightarrow> ('a res, ('w, 'p) cstate) act \<Rightarrow> ('w, 'p, 'x) api_handler" where
  "answer_with good bad body a r s =
     (case on_ctrl a s of
        (Inl e, s1) \<Rightarrow> (fails bad e, s1)
      | (Inr v, s1) \<Rightarrow> (jsonResponse good (body v), s1))"

section \<open>Limited output\<close>

definition maxExecOutputSize :: nat where
  "maxExecOutputSize = 10485760"

text \<open>A \<open>limitedWriter\<close> is its buffer; \<open>Write\<close> returns the number of bytes it reports as written, and no error.\<close>

definition limited_Write :: "nat \<Rightarrow> string \<Rightarrow> string \<Rightarrow> nat \<times> string" where
  "limited_Write limit p buf =
     (if limit \<le> length buf then (length p, buf)
      else let q = (if length p > limit - length buf then take (limit - length buf) p else p) in (length q, buf @ q))"

text \<open>\<open>stdcopy.StdCopy\<close>: frame by frame, to standard output or standard error; it stops at a short write.\<close>

fun std_copy :: "nat \<Rightarrow> (bool \<times> string) list \<Rightarrow> string \<Rightarrow> string \<Rightarrow> string \<times> string" where
  "std_copy limit [] out err = (out, err)"
| "std_copy limit ((is_out, p) # fs) out err =
     (case limited_Write limit p (if is_out then out else err) of (n, buf) \<Rightarrow>
      if n < length p then (if is_out then (buf, err) else (out, buf))
      else std_copy limit fs (if is_out then buf else out) (if is_out then err else buf))"

definition exec_config :: "string list \<Rightarrow> ExecConfig" where
  "exec_config cmd = \<lparr>ec_Cmd = cmd, ec_Env = [], ec_Dir = '''', ec_Stdin = None, ec_Stdout = True, ec_Stderr = True, ec_TTY = False\<rparr>"

definition exec_answer ::
  "(string \<Rightarrow> string \<Rightarrow> (bool \<times> string) list) \<Rightarrow> (ExecResult \<times> goerr option, ('w, 'p) cstate) act \<Rightarrow> ('w, 'p, 'x) api_handler" where
  "exec_answer frames a r s =
     (case on_ctrl a s of
        ((result, Some _), s1) \<Rightarrow> (errorResponse StatusInternalServerError ''exec failed'', s1)
      | ((result, None), s1) \<Rightarrow>
          (case std_copy maxExecOutputSize (frames (er_Stdout result) (er_Stderr result)) '''' '''' of (out, err) \<Rightarrow>
           (jsonResponse StatusOK (JExec (er_ExitCode result) out err), s1)))"

section \<open>Sandboxes\<close>

record createSandboxRequest =
  cs_Name :: string
  cs_Blueprint :: string
  cs_Workspace :: string
  cs_Team :: string

definition create_options :: "createSandboxRequest \<Rightarrow> CreateOptions" where
  "create_options req = \<lparr>co_Name = cs_Name req, co_BlueprintPath = cs_Blueprint req, co_WorkspaceDir = cs_Workspace req,
     co_NetworkName = '''', co_Env = [], co_Team = cs_Team req\<rparr>"

definition handleCreateSandbox ::
  "(string \<Rightarrow> bool \<Rightarrow> createSandboxRequest res) \<Rightarrow> ('w, 'p) Controller \<Rightarrow> ('w, 'p, 'x) api_handler" where
  "handleCreateSandbox decode c r s =
     (case decodeJSON decode r of
        Inl resp \<Rightarrow> (resp, s)
      | Inr req \<Rightarrow>
          if cs_Name req = '''' then (errorResponse StatusBadRequest ''name is required'', s)
          else if cs_Blueprint req = '''' then (errorResponse StatusBadRequest ''blueprint is required'', s)
          else (case on_ctrl (Create c (create_options req)) s of
             ((sb, Some _), s1) \<Rightarrow> (errorResponse StatusInternalServerError ''failed to create sandbox'', s1)
           | ((sb, None), s1) \<Rightarrow> (jsonResponse StatusCreated (JSandbox sb), s1)))"

definition team_filter :: "Request \<Rightarrow> ('a \<Rightarrow> string) \<Rightarrow> 'a list \<Rightarrow> 'a list" where
  "team_filter r team xs =
     (let t = gm_str (rq_Query r) ''team'' in if t \<noteq> '''' then filter (\<lambda>x. team x = t) xs else xs)"

definition handleListSandboxes :: "('w, 'p) Controller \<Rightarrow> ('w, 'p, 'x) api_handler" where
  "handleListSandboxes c r =
     answer_with StatusOK StatusInternalServerError (JSandboxes \<circ> team_filter r (\<lambda>sb. sp_Team (sb_Spec sb))) (List c) r"

definition handleGetSandbox :: "('w, 'p) Controller \<Rightarrow> ('w, 'p, 'x) api_handler" where
  "handleGetSandbox c = path_value ''name'' ''sandbox name''
     (\<lambda>name. answer_with StatusOK StatusNotFound (JSandbox \<circ> Some) (Get c name))"

definition handleStartSandbox :: "('w, 'p) Controller \<Rightarrow> ('w, 'p, 'x) api_handler" where
  "handleStartSandbox c = path_value ''name'' ''sandbox name''
     (\<lambda>name. answer_with StatusOK StatusInternalServerError (\<lambda>_. done_body ''started'' ''name'' name) (Start c name))"

definition handleStopSandbox :: "('w, 'p) Controller \<Rightarrow> ('w, 'p, 'x) api_handler" where
  "handleStopSandbox c = path_value ''name'' ''sandbox name''
     (\<lambda>name. answer_with StatusOK StatusInternalServerError (\<lambda>_. done_body ''stopped'' ''name'' name) (Stop c name))"

definition handleDestroySandbox :: "('w, 'p) Controller \<Rightarrow> ('w, 'p, 'x) api_handler" where
  "handleDestroySandbox c = path_value ''name'' ''sandbox name''
     (\<lambda>name. answer_with StatusOK StatusInternalServerError (\<lambda>_. done_body ''destroyed'' ''name'' name) (Destroy c name))"

definition handleExecSandbox ::
  "(string \<Rightarrow> bool \<Rightarrow> string list res) \<Rightarrow> (string \<Rightarrow> string \<Rightarrow> (bool \<times> string) list) \<Rightarrow> ('w, 'p) Controller \<Rightarrow>
   ('w, 'p, 'x) api_handler" where
  "handleExecSandbox decode frames c = path_value ''name'' ''sandbox name''
     (\<lambda>name r s. case decodeJSON decode r of
        Inl resp \<Rightarrow> (resp, s)
      | Inr command \<Rightarrow>
          if command = [] then (errorResponse StatusBadRequest ''command is required'', s)
          else exec_answer frames (Exec c name (exec_config command)) r s)"

definition handleStatsSandbox :: "('w, 'p) Controller \<Rightarrow> ('w, 'p, 'x) api_handler" where
  "handleStatsSandbox c = path_value ''name'' ''sandbox name''
     (\<lambda>name. answer_with StatusOK StatusInternalServerError JStats (Stats_of c name))"

text \<open>The body is optional: \<open>ContentLength\<close> is its length.\<close>

definition handleCreateSnapshot ::
  "(string \<Rightarrow> bool \<Rightarrow> string res) \<Rightarrow> ('w, 'p) Controller \<Rightarrow> ('w, 'p, 'x) api_handler" where
  "handleCreateSnapshot decode c = path_value ''name'' ''sandbox name''
     (\<lambda>name r s.
        case (if rq_Body r \<noteq> None \<and> rq_Body r \<noteq> Some '''' then decodeJSON decode r else Inr '''') of
          Inl resp \<Rightarrow> (resp, s)
        | Inr tag \<Rightarrow>
            answer_with StatusCreated StatusInternalServerError (\<lambda>i. JSnapshot i tag) (Snapshot c name tag) r s)"

definition handleListSnapshots :: "('w, 'p) Controller \<Rightarrow> ('w, 'p, 'x) api_handler" where
  "handleListSnapshots c = path_value ''name'' ''sandbox name''
     (\<lambda>name. answer_with StatusOK StatusInternalServerError JSnapshots (ListSnapshots c name))"

section \<open>Matrices\<close>

record createMatrixRequest =
  cm_Name :: string
  cm_Members :: "MatrixMember list"
  cm_Team :: string

definition handleCreateMatrix ::
  "(string \<Rightarrow> bool \<Rightarrow> createMatrixRequest res) \<Rightarrow> ('w, 'p) Controller \<Rightarrow> ('w, 'p, 'x) api_handler" where
  "handleCreateMatrix decode c r s =
     (case decodeJSON decode r of
        Inl resp \<Rightarrow> (resp, s)
      | Inr req \<Rightarrow>
          if cm_Name req = '''' then (errorResponse StatusBadRequest ''name is required'', s)
          else if cm_Members req = [] then (errorResponse StatusBadRequest ''members is required'', s)
          else answer_with StatusCreated StatusInternalServerError JMatrix
                 (CreateMatrix c (cm_Name req) (cm_Members req) (cm_Team req)) r s)"

definition handleListMatrices :: "('w, 'p) Controller \<Rightarrow> ('w, 'p, 'x) api_handler" where
  "handleListMatrices c r =
     answer_with StatusOK StatusInternalServerError (JMatrices \<circ> team_filter r mx_Team) (ListMatrices c) r"

definition handleGetMatrix :: "('w, 'p) Controller \<Rightarrow> ('w, 'p, 'x) api_handler" where
  "handleGetMatrix c = path_value ''name'' ''matrix name''
     (\<lambda>name. answer_with StatusOK StatusNotFound JMatrix (GetMatrix c name))"

definition handleStartMatrix :: "('w, 'p) Controller \<Rightarrow> ('w, 'p, 'x) api_handler" where
  "handleStartMatrix c = path_value ''name'' ''matrix name''
     (\<lambda>name. answer_with StatusOK StatusInternalServerError (\<lambda>_. done_body ''started'' ''name'' name) (StartMatrix c name))"

definition handleStopMatrix :: "('w, 'p) Controller \<Rightarrow> ('w, 'p, 'x) api_handler" where
  "handleStopMatrix c = path_value ''name'' ''matrix name''
     (\<lambda>name. answer_with StatusOK StatusInternalServerError (\<lambda>_. done_body ''stopped'' ''name'' name) (StopMatrix c name))"

definition handleDestroyMatrix :: "('w, 'p) Controller \<Rightarrow> ('w, 'p, 'x) api_handler" where
  "handleDestroyMatrix c = path_value ''name'' ''matrix name''
     (\<lambda>name. answer_with StatusOK StatusInternalServerError (\<lambda>_. done_body ''destroyed'' ''name'' name) (DestroyMatrix c name))"

section \<open>Tasks\<close>

record shardTaskRequest =
  sr_Tasks :: "Task list"
  sr_Strategy :: string

definition coordinator :: "string \<Rightarrow> string" where
  "coordinator name = name @ ''-coordinator''"

definition task_message :: "(Task \<Rightarrow> string) \<Rightarrow> string \<Rightarrow> Assignment \<Rightarrow> Message" where
  "task_message marshal name a =
     \<lparr>msg_ID = '''', msg_From = coordinator name, msg_To = name @ ''-'' @ as_MemberName a, msg_Type = ''task-assignment'',
      msg_Payload = marshal (as_Task a), msg_CreatedAt = 0\<rparr>"

fun send_assignments :: "(Task \<Rightarrow> string) \<Rightarrow> string \<Rightarrow> Assignment list \<Rightarrow> 'x Gateway \<Rightarrow> 'x Gateway" where
  "send_assignments marshal name [] g = g"
| "send_assignments marshal name (a # as) g =
     send_assignments marshal name as (snd (Send (task_message marshal name a) g))"

definition shard_config :: "string \<Rightarrow> ShardingConfig option \<Rightarrow> ShardingConfig option" where
  "shard_config strategy stored = (if strategy \<noteq> '''' then Some \<lparr>sc_Strategy = strategy, sc_KeyField = ''''\<rparr> else stored)"

text \<open>The strategy is made anew for every request, so its counter starts at zero. \<open>marshal\<close> is the JSON text of a task.\<close>

definition handleShardTask ::
  "(string \<Rightarrow> bool \<Rightarrow> shardTaskRequest res) \<Rightarrow> (Task \<Rightarrow> string) \<Rightarrow> ('w, 'p) Controller \<Rightarrow> ('w, 'p, 'x) api_handler" where
  "handleShardTask decode marshal c = path_value ''name'' ''matrix name''
     (\<lambda>name r s. case decodeJSON decode r of
        Inl resp \<Rightarrow> (resp, s)
      | Inr req \<Rightarrow>
          if sr_Tasks req = [] then (errorResponse StatusBadRequest ''tasks is required'', s)
          else (case on_ctrl (GetMatrix c name) s of
             (Inl e, s1) \<Rightarrow> (fails StatusNotFound e, s1)
           | (Inr mx, s1) \<Rightarrow>
               let assignments = fst (Distribute (NewStrategy (shard_config (sr_Strategy req) (mx_Sharding mx)))
                     (sr_Tasks req) (mx_Members mx) 0) in
               (jsonResponse StatusOK (JAssignments (int (length (sr_Tasks req))) assignments (sr_Strategy req)),
                s1\<lparr>wb_app := (wb_app s1)\<lparr>ap_gateway :=
                  map_option (send_assignments marshal name assignments) (ap_gateway (wb_app s1))\<rparr>\<rparr>)))"

record collectResultsRequest =
  cr_TaskID :: string
  cr_Strategy :: string
  cr_TimeoutSec :: int

definition collect_config :: "collectResultsRequest \<Rightarrow> AggregationConfig option \<Rightarrow> AggregationConfig" where
  "collect_config req stored =
     (let timeoutSec = (if cr_TimeoutSec req \<le> 0 then 60 else cr_TimeoutSec req);
          cfg0 = (case stored of None \<Rightarrow> \<lparr>ac_Strategy = ''collect-all'', ac_TimeoutSec = timeoutSec\<rparr> | Some k \<Rightarrow> k);
          cfg1 = (if cr_Strategy req \<noteq> '''' then cfg0\<lparr>ac_Strategy := cr_Strategy req\<rparr> else cfg0) in
      if cr_TimeoutSec req > 0 then cfg1\<lparr>ac_TimeoutSec := timeoutSec\<rparr>
      else if ac_TimeoutSec cfg1 = 0 then cfg1\<lparr>ac_TimeoutSec := 60\<rparr> else cfg1)"

text \<open>\<open>None\<close>: the events ran out before the collection ended, and nothing is answered yet.\<close>

definition handleCollectResults ::
  "(string \<Rightarrow> bool \<Rightarrow> collectResultsRequest res) \<Rightarrow> (string \<Rightarrow> TaskResult res) \<Rightarrow> (int \<Rightarrow> wake list) \<Rightarrow> ('w, 'p) Controller \<Rightarrow>
   Request \<Rightarrow> (api_body Response option, ('w, 'p, 'x) Api Web) act" where
  "handleCollectResults decode result wakes c r s =
     (let name = gm_str (rq_PathValue r) ''name'' in
      if name = '''' then (Some (errorResponse StatusBadRequest ''matrix name is required''), s)
      else case decodeJSON decode r of
        Inl resp \<Rightarrow> (Some resp, s)
      | Inr req \<Rightarrow>
          if cr_TaskID req = '''' then (Some (errorResponse StatusBadRequest ''taskID is required''), s)
          else (case on_ctrl (GetMatrix c name) s of
             (Inl e, s1) \<Rightarrow> (Some (fails StatusNotFound e), s1)
           | (Inr mx, s1) \<Rightarrow>
               (case ap_gateway (wb_app s1) of
                  None \<Rightarrow> (Some (errorResponse StatusServiceUnavailable ''A2A gateway not configured''), s1)
                | Some g \<Rightarrow>
                    (case Collect result wakes (coordinator name) (cr_TaskID req) (int (length (mx_Members mx)))
                            (Some (collect_config req (mx_Aggregation mx))) g of
                       (ans, g') \<Rightarrow>
                         ((case ans of None \<Rightarrow> None
                           | Some (ar, Some e) \<Rightarrow> Some (fails StatusInternalServerError e)
                           | Some (ar, None) \<Rightarrow> Some (jsonResponse StatusOK (JAggregated ar))),
                          s1\<lparr>wb_app := (wb_app s1)\<lparr>ap_gateway := Some g'\<rparr>\<rparr>)))))"

section \<open>Sessions\<close>

definition handleStartSession ::
  "(string \<Rightarrow> bool \<Rightarrow> string res) \<Rightarrow> ('w, 'p) Controller \<Rightarrow> ('w, 'p, 'x) api_handler" where
  "handleStartSession decode c r s =
     (case decodeJSON decode r of
        Inl resp \<Rightarrow> (resp, s)
      | Inr sandbox \<Rightarrow>
          if sandbox = '''' then (errorResponse StatusBadRequest ''sandbox is required'', s)
          else answer_with StatusCreated StatusInternalServerError JSession (StartSession c sandbox) r s)"

definition handleListSessions :: "('w, 'p) Controller \<Rightarrow> ('w, 'p, 'x) api_handler" where
  "handleListSessions c r =
     answer_with StatusOK StatusInternalServerError JSessions (ListSessions c (gm_str (rq_Query r) ''sandbox'')) r"

definition handleEndSession :: "('w, 'p) Controller \<Rightarrow> ('w, 'p, 'x) api_handler" where
  "handleEndSession c = path_value ''id'' ''session id''
     (\<lambda>i. answer_with StatusOK StatusInternalServerError (\<lambda>_. done_body ''ended'' ''id'' i) (EndSession c i))"

definition handleExecInSession ::
  "(string \<Rightarrow> bool \<Rightarrow> string list res) \<Rightarrow> (string \<Rightarrow> string \<Rightarrow> (bool \<times> string) list) \<Rightarrow> ('w, 'p) Controller \<Rightarrow>
   ('w, 'p, 'x) api_handler" where
  "handleExecInSession decode frames c = path_value ''id'' ''session id''
     (\<lambda>i r s. case decodeJSON decode r of
        Inl resp \<Rightarrow> (resp, s)
      | Inr command \<Rightarrow>
          if command = [] then (errorResponse StatusBadRequest ''command is required'', s)
          else exec_answer frames (ExecInSession c i (exec_config command)) r s)"

section \<open>Files\<close>

definition maxFileUploadSize :: nat where
  "maxFileUploadSize = 10485760"

text \<open>\<open>decode\<close> reads path and content out of a JSON body (the bytes let through, and whether it was cut off); \<open>base64\<close> decodes the
  content. \<open>None\<close> as content is a reader that fails, which is what the limited reader of a raw body that is too large
  does; the Docker backend reads all of the content before it copies anything.\<close>

definition upload_source ::
  "(string \<Rightarrow> bool \<Rightarrow> (string \<times> string) res) \<Rightarrow> (string \<Rightarrow> string res) \<Rightarrow> Request \<Rightarrow> 'b Response + (string \<times> string option)" where
  "upload_source decode base64 r =
     (let body = (case rq_Body r of None \<Rightarrow> '''' | Some b \<Rightarrow> b) in
      if HasPrefix (gm_str (rq_Header r) ''Content-Type'') ''application/json'' then
        (case decode (take maxFileUploadSize body) (length body > maxFileUploadSize) of
           Inl e \<Rightarrow> Inl (errorResponse StatusBadRequest (''invalid JSON: '' @ err_text e))
         | Inr (filePath, content) \<Rightarrow>
             if filePath = '''' then Inl (errorResponse StatusBadRequest ''path is required'')
             else (case base64 content of
                Inl e \<Rightarrow> Inl (errorResponse StatusBadRequest (''invalid base64 content: '' @ err_text e))
              | Inr d \<Rightarrow> Inr (filePath, Some d)))
      else
        let filePath = gm_str (rq_Query r) ''path'' in
        if filePath = '''' then Inl (errorResponse StatusBadRequest ''path query parameter is required'')
        else Inr (filePath, if length body > maxFileUploadSize then None else Some body))"

definition unreadable :: "('w, 'p) Controller \<Rightarrow> ('w, 'p) Controller" where
  "unreadable c = c\<lparr>ct_runtime := (ct_runtime c)\<lparr>rt_CopyToContainer :=
     (\<lambda>_ _ _ w. (Inl (Errorf ''read content: %w'' [AErr (ExtErr ''http: request body too large'')]), w))\<rparr>\<rparr>"

definition write_content :: "('w, 'p) Controller \<Rightarrow> string \<Rightarrow> string \<Rightarrow> string option \<Rightarrow> (unit res, ('w, 'p) cstate) act" where
  "write_content c name path content =
     (case content of Some d \<Rightarrow> WriteFile c name path d | None \<Rightarrow> WriteFile (unreadable c) name path [])"

definition handleUploadFile ::
  "(string \<Rightarrow> bool \<Rightarrow> (string \<times> string) res) \<Rightarrow> (string \<Rightarrow> string res) \<Rightarrow> ('w, 'p) Controller \<Rightarrow> ('w, 'p, 'x) api_handler" where
  "handleUploadFile decode base64 c = path_value ''name'' ''sandbox name''
     (\<lambda>name r s. case upload_source decode base64 r of
        Inl resp \<Rightarrow> (resp, s)
      | Inr (filePath, content) \<Rightarrow>
          answer_with StatusOK StatusInternalServerError (\<lambda>_. done_body ''uploaded'' ''path'' filePath)
            (write_content c name filePath content) r s)"

definition handleDownloadFile :: "('w, 'p) Controller \<Rightarrow> ('w, 'p, 'x) api_handler" where
  "handleDownloadFile c = path_value ''name'' ''sandbox name''
     (\<lambda>name r s.
        let filePath = gm_str (rq_Query r) ''path'' in
        if filePath = '''' then (errorResponse StatusBadRequest ''path query parameter is required'', s)
        else (case on_ctrl (ReadFile c name filePath) s of
           (Inl e, s1) \<Rightarrow> (fails StatusInternalServerError e, s1)
         | (Inr content, s1) \<Rightarrow>
             (\<lparr>rs_Status = StatusOK, rs_Header = [(''Content-Type'', ''application/octet-stream'')],
               rs_Body = Payload (JRaw content)\<rparr>, s1)))"

definition handleListFiles :: "('w, 'p) Controller \<Rightarrow> ('w, 'p, 'x) api_handler" where
  "handleListFiles c = path_value ''name'' ''sandbox name''
     (\<lambda>name r.
        let q = gm_str (rq_Query r) ''path'' in
        answer_with StatusOK StatusInternalServerError JFiles (ListFiles c name (if q = '''' then ''/'' else q)) r)"

section \<open>Ports and services\<close>

definition forwarded :: "string \<Rightarrow> PortMapping \<Rightarrow> ForwardedPort" where
  "forwarded name p =
     \<lparr>fp_SandboxName = name, fp_ContainerPort = pm_ContainerPort p, fp_HostPort = pm_HostPort p,
      fp_Protocol = (if pm_Protocol p = '''' then ''tcp'' else pm_Protocol p)\<rparr>"

definition portMappingsToForwardedPorts :: "string \<Rightarrow> PortMapping list \<Rightarrow> ForwardedPort list" where
  "portMappingsToForwardedPorts name ports = map (forwarded name) ports"

definition handleListPorts :: "('w, 'p) Controller \<Rightarrow> ('w, 'p, 'x) api_handler" where
  "handleListPorts c = path_value ''name'' ''sandbox name''
     (\<lambda>name r s. case on_ctrl (Get c name) s of
        (Inl e, s1) \<Rightarrow> (fails StatusNotFound e, s1)
      | (Inr sb, s1) \<Rightarrow>
          if st_RuntimeID (sb_Status sb) = '''' then (jsonResponse StatusOK (JPorts []), s1)
          else (case on_ctrl (on_rt (rt_Info (ct_runtime c) (st_RuntimeID (sb_Status sb)))) s1 of
             (Inl e, s2) \<Rightarrow>
               (errorResponse StatusInternalServerError (err_text (Errorf ''failed to inspect container: %v'' [AErr e])), s2)
           | (Inr info, s2) \<Rightarrow> (jsonResponse StatusOK (JPorts (map (forwarded name) (in_Ports info))), s2)))"

definition service_of :: "string \<Rightarrow> MatrixMember \<Rightarrow> string \<Rightarrow> ServiceEntry" where
  "service_of name m ip =
     \<lparr>sv_Name = mm_Name m, sv_Hostname = mm_Name m @ ''.'' @ name @ ''.local'', sv_IP = ip, sv_Port = 0, sv_Matrix = name\<rparr>"

fun member_services ::
  "('w, 'p) Controller \<Rightarrow> string \<Rightarrow> MatrixMember list \<Rightarrow> (ServiceEntry list, ('w, 'p) cstate) act" where
  "member_services c name [] s = ([], s)"
| "member_services c name (m # ms) s =
     (case Get c (name @ ''-'' @ mm_Name m) s of
        (Inl _, s1) \<Rightarrow> member_services c name ms s1
      | (Inr sb, s1) \<Rightarrow>
          (case (if st_RuntimeID (sb_Status sb) \<noteq> '''' then on_rt (rt_Info (ct_runtime c) (st_RuntimeID (sb_Status sb))) s1
                 else (Inl (ExtErr ''''), s1)) of (info, s2) \<Rightarrow>
           case member_services c name ms s2 of (es, s3) \<Rightarrow>
           (service_of name m (case info of Inl _ \<Rightarrow> '''' | Inr i \<Rightarrow> in_IP i) # es, s3)))"

definition handleListMatrixServices :: "('w, 'p) Controller \<Rightarrow> ('w, 'p, 'x) api_handler" where
  "handleListMatrixServices c = path_value ''name'' ''matrix name''
     (\<lambda>name r s. case on_ctrl (GetMatrix c name) s of
        (Inl e, s1) \<Rightarrow> (fails StatusNotFound e, s1)
      | (Inr mx, s1) \<Rightarrow>
          (case on_ctrl (member_services c name (mx_Members mx)) s1 of (es, s2) \<Rightarrow>
           (jsonResponse StatusOK (JServices es), s2)))"

section \<open>Teams\<close>

record createTeamRequest =
  ct_Name :: string
  ct_DisplayName :: string
  ct_Members :: "TeamMember list"
  ct_Quota :: ResourceQuota

definition handleCreateTeam ::
  "(string \<Rightarrow> bool \<Rightarrow> createTeamRequest res) \<Rightarrow> 'p TeamStore \<Rightarrow> ('w, 'p, 'x) api_handler" where
  "handleCreateTeam decode teams r s =
     (case decodeJSON decode r of
        Inl resp \<Rightarrow> (resp, s)
      | Inr req \<Rightarrow>
          if ct_Name req = '''' then (errorResponse StatusBadRequest ''name is required'', s)
          else (case on_ctrl (on_ps (kv_Get teams (ct_Name req))) s of
             (Inr _, s1) \<Rightarrow> (errorResponse StatusConflict ''team already exists'', s1)
           | (Inl _, s1) \<Rightarrow>
               (case web_now s1 of (t, s2) \<Rightarrow>
                let team = \<lparr>t_Name = ct_Name req, t_DisplayName = ct_DisplayName req, t_Members = ct_Members req,
                            t_Quota = ct_Quota req, t_CreatedAt = t\<rparr> in
                answer_with StatusCreated StatusInternalServerError (\<lambda>_. JTeam team) (on_ps (kv_Save teams team)) r s2)))"

definition handleListTeams :: "'p TeamStore \<Rightarrow> ('w, 'p, 'x) api_handler" where
  "handleListTeams teams = answer_with StatusOK StatusInternalServerError JTeams (on_ps (kv_List teams))"

definition handleGetTeam :: "'p TeamStore \<Rightarrow> ('w, 'p, 'x) api_handler" where
  "handleGetTeam teams = path_value ''name'' ''team name''
     (\<lambda>name. answer_with StatusOK StatusNotFound JTeam (on_ps (kv_Get teams name)))"

text \<open>The handlers that change a stored team read it first.\<close>

definition with_team :: "'p TeamStore \<Rightarrow> (Team \<Rightarrow> ('w, 'p, 'x) api_handler) \<Rightarrow> ('w, 'p, 'x) api_handler" where
  "with_team teams k = path_value ''name'' ''team name''
     (\<lambda>name r s. case on_ctrl (on_ps (kv_Get teams name)) s of
        (Inl e, s1) \<Rightarrow> (fails StatusNotFound e, s1)
      | (Inr team, s1) \<Rightarrow> k team r s1)"

definition save_team :: "'p TeamStore \<Rightarrow> Team \<Rightarrow> ('w, 'p, 'x) api_handler" where
  "save_team teams team = answer_with StatusOK StatusInternalServerError (\<lambda>_. JTeam team) (on_ps (kv_Save teams team))"

definition handleUpdateTeam ::
  "(string \<Rightarrow> bool \<Rightarrow> (string option \<times> ResourceQuota option) res) \<Rightarrow> 'p TeamStore \<Rightarrow> ('w, 'p, 'x) api_handler" where
  "handleUpdateTeam decode teams = with_team teams
     (\<lambda>team r s. case decodeJSON decode r of
        Inl resp \<Rightarrow> (resp, s)
      | Inr (displayName, quota) \<Rightarrow>
          let team1 = (case displayName of None \<Rightarrow> team | Some d \<Rightarrow> team\<lparr>t_DisplayName := d\<rparr>);
              team2 = (case quota of None \<Rightarrow> team1 | Some q \<Rightarrow> team1\<lparr>t_Quota := q\<rparr>) in
          save_team teams team2 r s)"

definition handleDeleteTeam :: "'p TeamStore \<Rightarrow> ('w, 'p, 'x) api_handler" where
  "handleDeleteTeam teams = path_value ''name'' ''team name''
     (\<lambda>name. answer_with StatusOK StatusNotFound (\<lambda>_. done_body ''deleted'' ''name'' name) (on_ps (kv_Delete teams name)))"

definition handleGetTeamUsage :: "'p TeamStore \<Rightarrow> 'p Manager \<Rightarrow> ('w, 'p, 'x) api_handler" where
  "handleGetTeamUsage teams qm = path_value ''name'' ''team name''
     (\<lambda>name r s. case on_ctrl (on_ps (kv_Get teams name)) s of
        (Inl e, s1) \<Rightarrow> (fails StatusNotFound e, s1)
      | (Inr _, s1) \<Rightarrow> answer_with StatusOK StatusInternalServerError JUsage (on_ps (GetUsage qm name)) r s1)"

definition handleListTeamMembers :: "'p TeamStore \<Rightarrow> ('w, 'p, 'x) api_handler" where
  "handleListTeamMembers teams = with_team teams (\<lambda>team r s. (jsonResponse StatusOK (JMembers (t_Members team)), s))"

definition add_member :: "string \<Rightarrow> Role \<Rightarrow> Team \<Rightarrow> Team option" where
  "add_member userName role team =
     (if list_ex (\<lambda>m. tmb_UserName m = userName) (t_Members team) then None
      else Some (team\<lparr>t_Members := t_Members team @ [\<lparr>tmb_UserName = userName, tmb_Role = role\<rparr>]\<rparr>))"

definition handleAddTeamMember ::
  "(string \<Rightarrow> bool \<Rightarrow> (string \<times> Role) res) \<Rightarrow> 'p TeamStore \<Rightarrow> ('w, 'p, 'x) api_handler" where
  "handleAddTeamMember decode teams = with_team teams
     (\<lambda>team r s. case decodeJSON decode r of
        Inl resp \<Rightarrow> (resp, s)
      | Inr (userName, role) \<Rightarrow>
          if userName = '''' then (errorResponse StatusBadRequest ''userName is required'', s)
          else (case add_member userName (if role = '''' then RoleViewer else role) team of
             None \<Rightarrow> (errorResponse StatusConflict ''member already exists in team'', s)
           | Some team' \<Rightarrow> save_team teams team' r s))"

definition remove_member :: "string \<Rightarrow> Team \<Rightarrow> Team option" where
  "remove_member user team =
     (if list_ex (\<lambda>m. tmb_UserName m = user) (t_Members team)
      then Some (team\<lparr>t_Members := filter (\<lambda>m. tmb_UserName m \<noteq> user) (t_Members team)\<rparr>) else None)"

definition handleRemoveTeamMember :: "'p TeamStore \<Rightarrow> ('w, 'p, 'x) api_handler" where
  "handleRemoveTeamMember teams = path_value ''name'' ''team name''
     (\<lambda>name. path_value ''user'' ''user name''
        (\<lambda>user. with_team teams
           (\<lambda>team r s. case remove_member user team of
              None \<Rightarrow> (errorResponse StatusNotFound ''member not found in team'', s)
            | Some team' \<Rightarrow> save_team teams team' r s)))"

section \<open>Properties\<close>

subsection \<open>Output\<close>

definition stream :: "bool \<Rightarrow> (bool \<times> string) list \<Rightarrow> string" where
  "stream b fs = concat (map snd (filter (\<lambda>f. fst f = b) fs))"

lemma stream_simps [simp]: "stream b [] = []" "stream b ((c, p) # fs) = (if c = b then p @ stream b fs else stream b fs)"
  by (simp_all add: stream_def)

lemma limited_Write_run:
  assumes "limited_Write limit p buf = (n, buf')" and "length buf \<le> limit"
  shows "buf' = take limit (buf @ p)" "n < length p \<Longrightarrow> limit < length buf + length p"
  using assms by (auto simp: limited_Write_def Let_def split: if_splits)

lemma take_take_append: "length (take limit (xs @ ys)) \<le> limit" "take limit (take limit xs @ ys) = take limit (xs @ ys)"
  by (auto simp: min_def)

text \<open>What is left of a run of \<open>std_copy\<close> is a prefix of each stream.\<close>

lemma std_copy_prefix:
  assumes "std_copy limit fs out err = (out', err')" and "length out \<le> limit" and "length err \<le> limit"
  shows "\<exists>k l. out' = take limit (out @ take k (stream True fs)) \<and> err' = take limit (err @ take l (stream False fs)) \<and>
    (length out + length (stream True fs) \<le> limit \<and> length err + length (stream False fs) \<le> limit \<longrightarrow>
      out' = out @ stream True fs \<and> err' = err @ stream False fs)"
  using assms
proof (induction limit fs out err rule: std_copy.induct)
  case (1 limit out err)
  then show ?case by auto
next
  case (2 limit b p fs out err)
  obtain n buf where w: "limited_Write limit p (if b then out else err) = (n, buf)" by fastforce
  note run = limited_Write_run [OF w]
  have len: "length (if b then out else err) \<le> limit" using 2(3,4) by simp
  show ?case
  proof (cases "n < length p")
    case True
    note long = run(2) [OF len True]
    show ?thesis
    proof (cases b)
      case b: True
      with True w 2(2) run(1) [OF len] have "out' = take limit (out @ take (length p) (stream True ((b, p) # fs)))"
        "err' = take limit (err @ take 0 (stream False ((b, p) # fs)))" using 2(4) by simp_all
      moreover have "\<not> length out + length (stream True ((b, p) # fs)) \<le> limit" using long b by simp
      ultimately show ?thesis by blast
    next
      case b: False
      with True w 2(2) run(1) [OF len] have "out' = take limit (out @ take 0 (stream True ((b, p) # fs)))"
        "err' = take limit (err @ take (length p) (stream False ((b, p) # fs)))" using 2(3) by simp_all
      moreover have "\<not> length err + length (stream False ((b, p) # fs)) \<le> limit" using long b by simp
      ultimately show ?thesis by blast
    qed
  next
    case False
    have buf: "buf = take limit ((if b then out else err) @ p)" by (rule run(1) [OF len])
    from False w 2(2) have rest: "std_copy limit fs (if b then buf else out) (if b then err else buf) = (out', err')" by simp
    have l: "length (if b then buf else out) \<le> limit" "length (if b then err else buf) \<le> limit"
      using buf 2(3,4) by (auto simp: take_take_append)
    from "2.IH" [OF w [symmetric] False rest l] obtain k l where IH:
      "out' = take limit ((if b then buf else out) @ take k (stream True fs))"
      "err' = take limit ((if b then err else buf) @ take l (stream False fs))"
      "length (if b then buf else out) + length (stream True fs) \<le> limit \<and>
        length (if b then err else buf) + length (stream False fs) \<le> limit \<longrightarrow>
        out' = (if b then buf else out) @ stream True fs \<and> err' = (if b then err else buf) @ stream False fs" by blast
    show ?thesis
    proof (cases b)
      case True
      have "out' = take limit (out @ take (length p + k) (stream True ((b, p) # fs)))"
        using IH(1) buf True by (simp add: take_take_append(2) del: take_append)
          (simp add: take_append)
      moreover have "err' = take limit (err @ take l (stream False ((b, p) # fs)))" using IH(2) True by simp
      moreover have "out' = out @ stream True ((b, p) # fs) \<and> err' = err @ stream False ((b, p) # fs)"
        if "length out + length (stream True ((b, p) # fs)) \<le> limit \<and> length err + length (stream False ((b, p) # fs)) \<le> limit"
      proof -
        from that have "length (out @ p) \<le> limit" by (simp add: True)
        with buf True have "buf = out @ p" by (simp del: take_append)
        with IH(3) that True show ?thesis by simp
      qed
      ultimately show ?thesis by blast
    next
      case False
      have "err' = take limit (err @ take (length p + l) (stream False ((b, p) # fs)))"
        using IH(2) buf False by (simp add: take_take_append(2) del: take_append)
          (simp add: take_append)
      moreover have "out' = take limit (out @ take k (stream True ((b, p) # fs)))" using IH(1) False by simp
      moreover have "out' = out @ stream True ((b, p) # fs) \<and> err' = err @ stream False ((b, p) # fs)"
        if "length out + length (stream True ((b, p) # fs)) \<le> limit \<and> length err + length (stream False ((b, p) # fs)) \<le> limit"
      proof -
        from that have "length (err @ p) \<le> limit" by (simp add: False)
        with buf False have "buf = err @ p" by (simp del: take_append)
        with IH(3) that False show ?thesis by simp
      qed
      ultimately show ?thesis by blast
    qed
  qed
qed



text \<open>A short write ends the copying: once standard output is cut off, standard error is lost too, however short it is.\<close>

lemma cut_output_loses_stderr: "std_copy 1 [(True, ''ab''), (False, ''x'')] [] [] = (''a'', [])"
  by (simp add: limited_Write_def)

subsection \<open>Tasks reach the members\<close>

lemma task_message_simps [simp]:
  "msg_To (task_message marshal name a) = name @ ''-'' @ as_MemberName a" "msg_Type (task_message marshal name a) = ''task-assignment''"
  "msg_Payload (stamped (task_message marshal name a) g) = marshal (as_Task a)"
  by (simp_all add: task_message_def stamped_def with_id_def with_time_def)

definition assigned :: "Assignment list \<Rightarrow> string \<Rightarrow> Task list" where
  "assigned as n = map as_Task (filter (\<lambda>a. as_MemberName a = n) as)"

lemma Send_task:
  assumes "length (inbox g (name @ ''-'' @ as_MemberName a)) < maxInboxSize"
  shows "inbox (snd (Send (task_message marshal name a) g)) =
    (inbox g)(name @ ''-'' @ as_MemberName a := inbox g (name @ ''-'' @ as_MemberName a) @ [stamped (task_message marshal name a) g])"
proof -
  obtain r g' where s: "Send (task_message marshal name a) g = (r, g')" by fastforce
  have "is_ok r"
    using assms s with_id_simps [of "task_message marshal name a" g]
    by (auto simp: Send_def task_message_def coordinator_def with_id_def with_time_def inbox_def Let_def
        split: if_splits option.splits)
  with s Send_cases(1) [of "task_message marshal name a" g] show ?thesis by (auto simp: is_ok_iff)
qed

lemma send_assignments_delivers:
  assumes "\<And>n. length (inbox g (name @ ''-'' @ n)) + length (assigned as n) \<le> maxInboxSize"
  shows "\<exists>new. inbox (send_assignments marshal name as g) (name @ ''-'' @ n) = inbox g (name @ ''-'' @ n) @ new \<and>
    map msg_Payload new = map marshal (assigned as n) \<and> (\<forall>m \<in> set new. msg_Type m = ''task-assignment'')"
  using assms
proof (induction marshal name as g rule: send_assignments.induct)
  case (2 marshal name a as g)
  let ?to = "name @ ''-'' @ as_MemberName a" and ?m = "task_message marshal name a"
  have room: "length (inbox g ?to) < maxInboxSize" using "2.prems" [of "as_MemberName a"] by (simp add: assigned_def)
  note sent = Send_task [OF room, of marshal]
  have "length (inbox (snd (Send ?m g)) (name @ ''-'' @ k)) + length (assigned as k) \<le> maxInboxSize" for k
    using "2.prems" [of k] by (auto simp: sent assigned_def split: if_splits)
  from "2.IH" [OF this] obtain new where new:
    "inbox (send_assignments marshal name as (snd (Send ?m g))) (name @ ''-'' @ n) = inbox (snd (Send ?m g)) (name @ ''-'' @ n) @ new"
    "map msg_Payload new = map marshal (assigned as n)" "\<forall>m \<in> set new. msg_Type m = ''task-assignment''" by blast
  show ?case
  proof (cases "as_MemberName a = n")
    case True
    with new sent show ?thesis by (intro exI [of _ "stamped ?m g # new"]) (auto simp: assigned_def)
  next
    case False
    with new sent show ?thesis by (intro exI [of _ new]) (auto simp: assigned_def)
  qed
qed (simp add: assigned_def)

text \<open>Sharding tasks over a stored matrix answers with an assignment of every task, and puts into the inbox of every member, behind
  what is there, exactly the tasks assigned to it, in their order, provided the inboxes have room.\<close>

theorem shard_delivers_tasks:
  assumes "gm_str (rq_PathValue r) ''name'' = name" and "name \<noteq> []" and "decodeJSON decode r = (Inr req :: api_body Response + _)"
    and "sr_Tasks req \<noteq> []" and "on_ctrl (GetMatrix c name) s = (Inr mx, s1)" and "mx_Members mx \<noteq> []"
    and "ap_gateway (wb_app s1) = Some g" and "\<And>n. length (inbox g (name @ ''-'' @ n)) + length (sr_Tasks req) \<le> maxInboxSize"
  shows "\<exists>as g' s'. handleShardTask decode marshal c r s =
      (jsonResponse StatusOK (JAssignments (int (length (sr_Tasks req))) as (sr_Strategy req)), s') \<and>
    map as_Task as = sr_Tasks req \<and> set (map as_MemberName as) \<subseteq> set (map mm_Name (mx_Members mx)) \<and>
    ap_gateway (wb_app s') = Some g' \<and>
    (\<forall>n. \<exists>new. inbox g' (name @ ''-'' @ n) = inbox g (name @ ''-'' @ n) @ new \<and> map msg_Payload new = map marshal (assigned as n))"
proof -
  define as where "as = fst (Distribute (NewStrategy (shard_config (sr_Strategy req) (mx_Sharding mx))) (sr_Tasks req) (mx_Members mx) 0)"
  have as: "map as_Task as = sr_Tasks req" "set (map as_MemberName as) \<subseteq> set (map mm_Name (mx_Members mx))"
    using Distribute_tasks [of _ "sr_Tasks req" "mx_Members mx" 0] assms(6) by (auto simp: as_def)
  have "length (assigned as n) \<le> length (sr_Tasks req)" for n
    unfolding assigned_def length_map using length_filter_le [of _ as] arg_cong [OF as(1), of length] by (metis length_map)
  note few = this
  have room: "length (inbox g (name @ ''-'' @ n)) + length (assigned as n) \<le> maxInboxSize" for n
    by (rule order_trans [OF add_left_mono [OF few] assms(8)])
  let ?s' = "s1\<lparr>wb_app := (wb_app s1)\<lparr>ap_gateway := Some (send_assignments marshal name as g)\<rparr>\<rparr>"
  have run: "handleShardTask decode marshal c r s =
      (jsonResponse StatusOK (JAssignments (int (length (sr_Tasks req))) as (sr_Strategy req)), ?s')"
    using assms(1-5,7) by (simp add: handleShardTask_def path_value_def as_def Let_def)
  show ?thesis
    by (rule exI [of _ as], rule exI [of _ "send_assignments marshal name as g"], rule exI [of _ ?s'])
      (intro conjI allI run as, simp, use send_assignments_delivers [OF room] in blast)
qed

definition demo_matrix :: Matrix where
  "demo_matrix =
     \<lparr>mx_Type = \<lparr>tm_APIVersion = ''smx/v1alpha1'', tm_Kind = ''Matrix''\<rparr>,
      mx_Metadata = \<lparr>om_Name = ''m'', om_Version = [], om_Labels = [], om_CreatedAt = 0, om_UpdatedAt = 0\<rparr>, mx_Team = [],
      mx_Members = [\<lparr>mm_Name = ''a'', mm_Blueprint = ''go.yaml''\<rparr>, \<lparr>mm_Name = ''b'', mm_Blueprint = ''go.yaml''\<rparr>],
      mx_State = MxActive, mx_Sharding = None, mx_Aggregation = None, mx_Results = []\<rparr>"

definition demo_api :: "(simd, persist, unit) Api Web" where
  "demo_api = \<lparr>wb_rbac = None, wb_audit = None, wb_clock = int, wb_tick = 1,
     wb_app = \<lparr>ap_ctrl = boot\<lparr>c_ps := demo_persist\<lparr>pd_matrices := empty_disk\<lparr>dk_state := Some (JDoc [(''m'', Some demo_matrix)])\<rparr>\<rparr>\<rparr>,
       ap_gateway = Some (New () (\<lambda>n. ''id'') int)\<rparr>\<rparr>"

definition demo_tasks :: shardTaskRequest where
  "demo_tasks = \<lparr>sr_Tasks = map (\<lambda>i. \<lparr>tk_ID = i, tk_Payload = [], tk_Key = [], tk_Meta = []\<rparr>) [''1'', ''2'', ''3''], sr_Strategy = ''round-robin''\<rparr>"

definition shard_request :: Request where
  "shard_request = (demo_request ''POST'' ''/api/v1/matrices/m/shard'' ''t'')\<lparr>rq_PathValue := [(''name'', ''m'')], rq_Body := Some ''{}''\<rparr>"

theorem shard_delivers_tasks_witness:
  "\<exists>as g' s'. handleShardTask (\<lambda>_ _. Inr demo_tasks) tk_ID (deployed demo_host) shard_request demo_api =
      (jsonResponse StatusOK (JAssignments 3 as ''round-robin''), s') \<and>
    map as_Task as = sr_Tasks demo_tasks \<and> ap_gateway (wb_app s') = Some g' \<and>
    map msg_Payload (inbox g' ''m-a'') @ map msg_Payload (inbox g' ''m-b'') = map tk_ID (assigned as ''a'') @ map tk_ID (assigned as ''b'')"
proof -
  define s1 where "s1 = snd (on_ctrl (GetMatrix (deployed demo_host) ''m'') demo_api)"
  have get: "on_ctrl (GetMatrix (deployed demo_host) ''m'') demo_api = (Inr demo_matrix, s1)"
  proof -
    have "fst (on_ctrl (GetMatrix (deployed demo_host) ''m'') demo_api) = Inr demo_matrix" by code_simp
    then show ?thesis unfolding s1_def by (metis prod.collapse)
  qed
  have "ap_gateway (wb_app s1) = ap_gateway (wb_app demo_api)" using get by (auto simp: on_ctrl_def split: prod.splits)
  then have g: "ap_gateway (wb_app s1) = Some (New () (\<lambda>n. ''id'') int)" by (simp add: demo_api_def)
  have e: "inbox (New () (\<lambda>n. ''id'') int) n = []" for n by (simp add: inbox_def New_def)
  have d: "decodeJSON (\<lambda>_ _. Inr demo_tasks) shard_request = (Inr demo_tasks :: api_body Response + _)"
    by (simp add: decodeJSON_def shard_request_def)
  obtain as g' s' where r: "handleShardTask (\<lambda>_ _. Inr demo_tasks) tk_ID (deployed demo_host) shard_request demo_api =
      (jsonResponse StatusOK (JAssignments (int (length (sr_Tasks demo_tasks))) as (sr_Strategy demo_tasks)), s')"
    "map as_Task as = sr_Tasks demo_tasks" "ap_gateway (wb_app s') = Some g'"
    and new: "\<And>n. \<exists>new. inbox g' (''m'' @ ''-'' @ n) = inbox (New () (\<lambda>n. ''id'') int) (''m'' @ ''-'' @ n) @ new \<and>
      map msg_Payload new = map tk_ID (assigned as n)"
    using shard_delivers_tasks [OF _ _ d _ get _ g, of tk_ID]
    by (auto simp: shard_request_def gm_str_def demo_tasks_def demo_matrix_def e maxInboxSize_def)
  have "map msg_Payload (inbox g' (''m-'' @ n)) = map tk_ID (assigned as n)" for n using new [of n] by (auto simp: e)
  from this [of "''a''"] this [of "''b''"] r show ?thesis by (auto simp: demo_tasks_def)
qed

end
