(* ===== verification/Images.thy ===== *)
theory Images
  imports Handlers
begin

text \<open>
  \<open>internal/image/builder.go\<close> and \<open>internal/server/image_handlers.go\<close>: building an image from a blueprint by running its setup in a
  container and committing that. A backend that can commit is the record \<open>Committer\<close>. The short
  random ID in the name of the container is a parameter (\<open>short\<close>).
\<close>

section \<open>The builder\<close>

record BuildResult =
  br_ImageID :: string
  br_ImageTag :: string
  br_Blueprint :: string
  br_Cached :: bool

record ImageInfo =
  ii_ID :: string
  ii_Tag :: string
  ii_Blueprint :: string
  ii_Size :: int

record 'w Committer =
  cm_CommitImage :: "string \<Rightarrow> string \<Rightarrow> (string res, 'w) act"
  cm_ListImages :: "string \<Rightarrow> (ImageSummary list res, 'w) act"
  cm_InspectImage :: "string \<Rightarrow> (string res, 'w) act"
  cm_RemoveImage :: "string \<Rightarrow> (unit res, 'w) act"

record 'w Builder =
  bd_runtime :: "'w Runtime"
  bd_committer :: "'w Committer option"

definition imagePrefix :: string where
  "imagePrefix = ''smx-built/''"

definition build_config :: "string \<Rightarrow> Blueprint \<Rightarrow> CreateConfig" where
  "build_config short bp =
     (let name = om_Name (bp_Metadata bp) in
      \<lparr>cc_Name = ''smx-build-'' @ name @ ''-'' @ short, cc_Image = bs_Base (bp_Spec bp), cc_CPU = '''', cc_Memory = '''',
       cc_Disk = '''', cc_GPU = None, cc_Devices = [], cc_Mounts = [], cc_Ports = [], cc_Env = [], cc_Cmd = [],
       cc_Labels = [(''sandboxmatrix/build'', ''true''), (''sandboxmatrix/blueprint'', name)],
       cc_Network = \<lparr>nc_Mode = '''', nc_DNS = []\<rparr>\<rparr>)"

fun run_build_steps :: "'w Runtime \<Rightarrow> string \<Rightarrow> nat \<Rightarrow> SetupStep list \<Rightarrow> (goerr option, 'w) act" where
  "run_build_steps rt i n [] w = (None, w)"
| "run_build_steps rt i n (step # steps) w =
     (case rt_Exec rt i \<lparr>ec_Cmd = [''sh'', ''-c'', ss_Run step], ec_Env = [], ec_Dir = '''', ec_Stdin = None, ec_Stdout = False,
         ec_Stderr = False, ec_TTY = False\<rparr> w of
        ((result, Some e), w1) \<Rightarrow> (Some (Errorf ''setup step %d failed: %w'' [AInt (int n + 1), AErr e]), w1)
      | ((result, None), w1) \<Rightarrow>
          if er_ExitCode result \<noteq> 0 then
            (Some (Errorf ''setup step %d exited with code %d: %s''
               [AInt (int n + 1), AInt (er_ExitCode result), AStr (ss_Run step)]), w1)
          else run_build_steps rt i (Suc n) steps w1)"

text \<open>What happens in the temporary container, before the deferred call that destroys it.\<close>

definition build_in :: "'w Runtime \<Rightarrow> 'w Committer \<Rightarrow> Blueprint \<Rightarrow> string \<Rightarrow> (BuildResult res, 'w) act" where
  "build_in rt com bp i w =
     (case rt_Start rt i w of
        (Inl e, w1) \<Rightarrow> (Inl (Errorf ''start build container: %w'' [AErr e]), w1)
      | (Inr _, w1) \<Rightarrow>
          (case run_build_steps rt i 0 (bs_Setup (bp_Spec bp)) w1 of
             (Some e, w2) \<Rightarrow> (Inl e, w2)
           | (None, w2) \<Rightarrow>
               (case cm_CommitImage com i (image_Tag bp) w2 of
                  (Inl e, w3) \<Rightarrow> (Inl (Errorf ''commit build image: %w'' [AErr e]), w3)
                | (Inr imageID, w3) \<Rightarrow>
                    (Inr \<lparr>br_ImageID = imageID, br_ImageTag = image_Tag bp, br_Blueprint = om_Name (bp_Metadata bp), br_Cached = False\<rparr>, w3))))"

definition Build :: "'w Builder \<Rightarrow> HostEnv \<Rightarrow> string \<Rightarrow> string \<Rightarrow> (BuildResult res, 'w) act" where
  "Build b host short blueprintPath w =
     (case bd_committer b of
        None \<Rightarrow> (Inl (Errorf ''runtime does not support image building'' []), w)
      | Some com \<Rightarrow>
          (case ValidateFile host blueprintPath of
             (bp, e # _) \<Rightarrow> (Inl (Errorf ''invalid blueprint: %v'' [AErr e]), w)
           | (None, []) \<Rightarrow> (Inl (Panic ''nil blueprint''), w)
           | (Some bp, []) \<Rightarrow>
               (case rt_Create (bd_runtime b) (build_config short bp) w of
                  (Inl e, w1) \<Rightarrow> (Inl (Errorf ''create build container: %w'' [AErr e]), w1)
                | (Inr i, w1) \<Rightarrow>
                    (case build_in (bd_runtime b) com bp i w1 of
                       (r, w2) \<Rightarrow> (r, snd (rt_Destroy (bd_runtime b) i w2))))))"

definition IsCached :: "'w Builder \<Rightarrow> Blueprint \<Rightarrow> (string option, 'w) act" where
  "IsCached b bp w =
     (case bd_committer b of
        None \<Rightarrow> (None, w)
      | Some com \<Rightarrow>
          (case cm_InspectImage com (image_Tag bp) w of
             (Inl _, w1) \<Rightarrow> (None, w1)
           | (Inr imageID, w1) \<Rightarrow> (if imageID = '''' then None else Some (image_Tag bp), w1)))"

definition blueprint_of_tag :: "string \<Rightarrow> string" where
  "blueprint_of_tag repoTag = takeWhile (\<lambda>c. c \<noteq> CHR '':'') (TrimPrefix repoTag imagePrefix)"

definition built_infos :: "ImageSummary \<Rightarrow> ImageInfo list" where
  "built_infos img =
     map (\<lambda>repoTag. \<lparr>ii_ID = is_ID img, ii_Tag = repoTag, ii_Blueprint = blueprint_of_tag repoTag, ii_Size = is_Size img\<rparr>)
       (filter (\<lambda>repoTag. HasPrefix repoTag imagePrefix) (is_RepoTags img))"

definition ListBuiltImages :: "'w Builder \<Rightarrow> (ImageInfo list res, 'w) act" where
  "ListBuiltImages b w =
     (case bd_committer b of
        None \<Rightarrow> (Inl (Errorf ''runtime does not support image listing'' []), w)
      | Some com \<Rightarrow>
          (case cm_ListImages com imagePrefix w of
             (Inl e, w1) \<Rightarrow> (Inl (Errorf ''list built images: %w'' [AErr e]), w1)
           | (Inr images, w1) \<Rightarrow> (Inr (concat (map built_infos images)), w1)))"

fun remove_images :: "'w Committer \<Rightarrow> ImageInfo list \<Rightarrow> int \<Rightarrow> (int, 'w) act" where
  "remove_images com [] n w = (n, w)"
| "remove_images com (img # imgs) n w =
     (case cm_RemoveImage com (ii_Tag img) w of
        (Inl _, w1) \<Rightarrow> remove_images com imgs n w1
      | (Inr _, w1) \<Rightarrow> remove_images com imgs (n + 1) w1)"

definition Clean_images :: "'w Builder \<Rightarrow> (int res, 'w) act" where
  "Clean_images b w =
     (case bd_committer b of
        None \<Rightarrow> (Inl (Errorf ''runtime does not support image removal'' []), w)
      | Some com \<Rightarrow>
          (case ListBuiltImages b w of
             (Inl e, w1) \<Rightarrow> (Inl e, w1)
           | (Inr images, w1) \<Rightarrow> (case remove_images com images 0 w1 of (n, w2) \<Rightarrow> (Inr n, w2))))"

section \<open>Handlers\<close>

datatype image_body = JBuilt BuildResult | JImages "ImageInfo list"

definition handleBuildImage ::
  "(string \<Rightarrow> bool \<Rightarrow> string res) \<Rightarrow> 'w Committer option \<Rightarrow> string \<Rightarrow> ('w, 'p) Controller \<Rightarrow> (image_body, ('w, 'p, 'x) Api) handler" where
  "handleBuildImage decode com short c r s =
     (case decodeJSON decode r of
        Inl resp \<Rightarrow> (resp, s)
      | Inr path \<Rightarrow>
          if path = '''' then (errorResponse StatusBadRequest ''blueprint is required'', s)
          else (case on_ctrl (on_rt (Build \<lparr>bd_runtime = ct_runtime c, bd_committer = com\<rparr> (ct_host c) short path)) s of
             (Inl e, s1) \<Rightarrow> (fails StatusInternalServerError e, s1)
           | (Inr result, s1) \<Rightarrow> (jsonResponse StatusCreated (JBuilt result), s1)))"

definition handleListImages :: "'w Committer option \<Rightarrow> ('w, 'p) Controller \<Rightarrow> (image_body, ('w, 'p, 'x) Api) handler" where
  "handleListImages com c r s =
     (case on_ctrl (on_rt (ListBuiltImages \<lparr>bd_runtime = ct_runtime c, bd_committer = com\<rparr>)) s of
        (Inl e, s1) \<Rightarrow> (fails StatusInternalServerError e, s1)
      | (Inr images, s1) \<Rightarrow> (jsonResponse StatusOK (JImages images), s1))"

section \<open>The Docker backend as a committer\<close>

definition docker_committer :: "'d DockerClient \<Rightarrow> 'd Committer" where
  "docker_committer dc =
     \<lparr>cm_CommitImage = docker_CommitImage dc, cm_ListImages = docker_ListImages dc, cm_InspectImage = dc_ImageInspect dc,
      cm_RemoveImage = docker_RemoveImage dc\<rparr>"

section \<open>Nothing is left behind\<close>

locale image_building = container_runtime rt live used
  for rt :: "'w Runtime" and live :: "'w \<Rightarrow> string set" and used :: "'w \<Rightarrow> string set" +
  fixes com :: "'w Committer"
  assumes commit_frame: "keeps (\<lambda>w. (live w, used w)) (cm_CommitImage com i ref)"
    and destroy_present: "i \<in> live w \<Longrightarrow> \<exists>w'. rt_Destroy rt i w = (Inr (), w')"
begin

lemma run_build_steps_frame: "run_build_steps rt i n steps w = (r, w') \<Longrightarrow> live w' = live w \<and> used w' = used w"
proof (induction steps arbitrary: n w)
  case (Cons step steps)
  then show ?case by (auto split: prod.splits option.splits if_splits dest!: live_exec)
qed simp

lemma build_in_frame: "build_in rt com bp i w = (r, w') \<Longrightarrow> live w' = live w \<and> used w' = used w"
  by (auto simp: build_in_def split: prod.splits sum.splits option.splits
      dest!: live_start run_build_steps_frame keepsD [OF commit_frame])

lemma Build_frame:
  assumes "Build \<lparr>bd_runtime = rt, bd_committer = Some com\<rparr> host short path w = (r, w')"
  shows "live w' = live w"
proof (cases "\<exists>bp i w1. ValidateFile host path = (Some bp, []) \<and> rt_Create rt (build_config short bp) w = (Inr i, w1)")
  case True
  then obtain bp i w1 where v: "ValidateFile host path = (Some bp, [])" and c: "rt_Create rt (build_config short bp) w = (Inr i, w1)" by blast
  obtain r2 w2 where b: "build_in rt com bp i w1 = (r2, w2)" by fastforce
  note fresh = create_fresh [OF c] and in_frame = build_in_frame [OF b]
  then obtain w3 where d: "rt_Destroy rt i w2 = (Inr (), w3)" using destroy_present [of i w2] by auto
  have "i \<notin> live w" using fresh live_used by blast
  with destroy_gone [OF d] fresh in_frame have "live w3 = live w" by auto
  with assms v c b d show ?thesis by (simp add: Build_def)
next
  case False
  with assms show ?thesis
    by (auto simp: Build_def split: prod.splits sum.splits option.splits list.splits dest: create_fail)
qed

lemma Build_used:
  assumes "Build \<lparr>bd_runtime = rt, bd_committer = com'\<rparr> host short path w = (r, w')" and "com' = None \<or> com' = Some com"
  shows "used w \<subseteq> used w'"
proof -
  have gone: "used (snd (rt_Destroy rt i v)) = used v" for i v
  proof -
    obtain x v' where d: "rt_Destroy rt i v = (x, v')" by fastforce
    then show ?thesis using destroy_gone destroy_fail by (cases x) auto
  qed
  from assms show ?thesis
    by (auto simp: Build_def gone split: prod.splits sum.splits option.splits list.splits
        dest!: create_fail create_fresh build_in_frame)
qed

lemma Build_steps:
  assumes "Build \<lparr>bd_runtime = rt, bd_committer = Some com\<rparr> host short path w = (Inr result, w')"
  shows "\<exists>bp. ValidateFile host path = (Some bp, []) \<and> br_ImageTag result = image_Tag bp \<and> br_Blueprint result = om_Name (bp_Metadata bp)"
  using assms by (auto simp: Build_def build_in_def split: prod.splits sum.splits option.splits list.splits)

end

interpretation dbuild: image_building "docker_runtime sim_client h oci" sim_live sim_used "docker_committer sim_client" for h oci
proof -
  have "image_building_axioms (docker_runtime sim_client h oci) sim_live sim_used (docker_committer sim_client)"
  proof
    show "keeps (\<lambda>w. (sim_live w, sim_used w)) (cm_CommitImage (docker_committer sim_client) i ref)" for i ref
      by (simp add: docker_committer_def docker_CommitImage_def sim_client_def keeps_def map_err_def)
    show "\<exists>w'. rt_Destroy (docker_runtime sim_client h oci) i w = (Inr (), w')" if "i \<in> sim_live w" for i w
      using that by (auto simp: docker_runtime_def sim_client_def sim_live_def)
  qed
  with sim.docker_is_runtime show "image_building (docker_runtime sim_client h oci) sim_live sim_used (docker_committer sim_client)"
    by (rule image_building.intro)
qed



text \<open>The name in a listing is the name of the blueprint, unless that has a colon.\<close>

lemma blueprint_of_image_Tag:
  assumes "CHR '':'' \<notin> set (om_Name (bp_Metadata bp))"
  shows "blueprint_of_tag (image_Tag bp) = om_Name (bp_Metadata bp)"
proof -
  have "takeWhile (\<lambda>c. c \<noteq> CHR '':'') (n @ CHR '':'' # v) = n" if "CHR '':'' \<notin> set n" for n v
    using that by (induction n) auto
  moreover have "image_Tag bp = imagePrefix @ om_Name (bp_Metadata bp) @ CHR '':'' #
      (if om_Version (bp_Metadata bp) = [] then ''latest'' else om_Version (bp_Metadata bp))"
    by (simp add: image_Tag_def imagePrefix_def Let_def)
  ultimately show ?thesis using assms by (simp only: blueprint_of_tag_def TrimPrefix_append)
qed

end
