(* ===== verification/Interpreter.thy ===== *)
theory Interpreter
  imports Handlers
begin

text \<open>
  \<open>internal/interpreter/interpreter.go\<close> and \<open>internal/server/interpreter_handlers.go\<close>: running a piece of code in a sandbox. The code
  is handed over inside a shell command, encoded in base64 (\<open>encoding/base64\<close>, modelled here). How the output of a command is cut
  into frames (\<open>frames\<close>) and how the listing of the output files is parsed (\<open>parse\<close>) are parameters; timeouts are part of the
  backend, which a command is given to.
\<close>

section \<open>Base64\<close>

definition b64_char :: "nat \<Rightarrow> char" where
  "b64_char n =
     (if n < 26 then char_of (65 + n) else if n < 52 then char_of (71 + n) else if n < 62 then char_of (n - 4)
      else if n = 62 then CHR ''+'' else CHR ''/'')"

fun base64_encode :: "string \<Rightarrow> string" where
  "base64_encode [] = []"
| "base64_encode [a] =
     (let x = of_char a :: nat in [b64_char (x div 4), b64_char (x mod 4 * 16), CHR ''='', CHR ''=''])"
| "base64_encode [a, b] =
     (let x = of_char a :: nat; y = of_char b in
      [b64_char (x div 4), b64_char (x mod 4 * 16 + y div 16), b64_char (y mod 16 * 4), CHR ''=''])"
| "base64_encode (a # b # c # s) =
     (let x = of_char a :: nat; y = of_char b; z = of_char c in
      [b64_char (x div 4), b64_char (x mod 4 * 16 + y div 16), b64_char (y mod 16 * 4 + z div 64), b64_char (z mod 64)]
      @ base64_encode s)"

definition b64_val :: "char \<Rightarrow> nat option" where
  "b64_val c =
     (let n = of_char c :: nat in
      if 65 \<le> n \<and> n \<le> 90 then Some (n - 65) else if 97 \<le> n \<and> n \<le> 122 then Some (n - 71)
      else if 48 \<le> n \<and> n \<le> 57 then Some (n + 4) else if n = 43 then Some 62 else if n = 47 then Some 63 else None)"

fun base64_decode :: "string \<Rightarrow> string option" where
  "base64_decode [] = Some []"
| "base64_decode (p # q # r # t # s) =
     (case (b64_val p, b64_val q, b64_val r, b64_val t) of
        (Some u, Some v, Some w, Some x) \<Rightarrow>
          map_option ((@) [char_of (u * 4 + v div 16), char_of (v mod 16 * 16 + w div 4), char_of (w mod 4 * 64 + x)]) (base64_decode s)
      | (Some u, Some v, Some w, None) \<Rightarrow>
          if t = CHR ''='' \<and> s = [] then Some [char_of (u * 4 + v div 16), char_of (v mod 16 * 16 + w div 4)] else None
      | (Some u, Some v, None, None) \<Rightarrow>
          if r = CHR ''='' \<and> t = CHR ''='' \<and> s = [] then Some [char_of (u * 4 + v div 16)] else None
      | _ \<Rightarrow> None)"
| "base64_decode _ = None"

section \<open>Languages\<close>

definition maxExecOutput :: nat where
  "maxExecOutput = 10485760"

definition maxFileContentSize :: int where
  "maxFileContentSize = 262144"

definition outputDir :: string where
  "outputDir = ''/tmp/smx_output''"

record ExecuteRequest =
  eq_Sandbox :: string
  eq_Language :: string
  eq_Code :: string
  eq_Timeout :: int

record OutputFile =
  of_Name :: string
  of_Path :: string
  of_Size :: int
  of_Content :: string

record ExecuteResult =
  xr_Stdout :: string
  xr_Stderr :: string
  xr_ExitCode :: int
  xr_Duration :: int
  xr_Error :: string
  xr_Files :: "OutputFile list"

record langConfig =
  lc_extension :: string
  lc_buildCmd :: "(string \<Rightarrow> string \<Rightarrow> string list) option"
  lc_runCmd :: "string \<Rightarrow> string \<Rightarrow> string list"

definition languages :: "langConfig gomap" where
  "languages =
     [(''python'', \<lparr>lc_extension = ''.py'', lc_buildCmd = None, lc_runCmd = (\<lambda>src bin. [''python3'', src])\<rparr>),
      (''javascript'', \<lparr>lc_extension = ''.js'', lc_buildCmd = None, lc_runCmd = (\<lambda>src bin. [''node'', src])\<rparr>),
      (''bash'', \<lparr>lc_extension = ''.sh'', lc_buildCmd = None, lc_runCmd = (\<lambda>src bin. [''bash'', src])\<rparr>),
      (''go'', \<lparr>lc_extension = ''.go'', lc_buildCmd = None,
         lc_runCmd = (\<lambda>src bin. [''sh'', ''-c'', ''cd '' @ Dir src @ '' && go run '' @ Base src])\<rparr>),
      (''rust'', \<lparr>lc_extension = ''.rs'', lc_buildCmd = Some (\<lambda>src bin. [''rustc'', src, ''-o'', bin]), lc_runCmd = (\<lambda>src bin. [bin])\<rparr>)]"

section \<open>Commands\<close>

text \<open>The captured output of a command: exit code, standard output, standard error.\<close>

definition execInSandbox ::
  "(string \<Rightarrow> string \<Rightarrow> (bool \<times> string) list) \<Rightarrow> ('w, 'p) Controller \<Rightarrow> string \<Rightarrow> string list \<Rightarrow>
   ((int \<times> string \<times> string) res, ('w, 'p) cstate) act" where
  "execInSandbox frames c sandbox cmd s =
     (case Exec c sandbox (exec_config cmd) s of
        ((result, Some e), s1) \<Rightarrow> (Inl e, s1)
      | ((result, None), s1) \<Rightarrow>
          (case std_copy maxExecOutput (frames (er_Stdout result) (er_Stderr result)) '''' '''' of (out, err) \<Rightarrow>
           (Inr (er_ExitCode result, out, err), s1)))"

definition quote :: char where
  "quote = CHR 0x27"

definition write_command :: "string \<Rightarrow> string \<Rightarrow> string list" where
  "write_command path code =
     [''sh'', ''-c'', ''mkdir -p '' @ outputDir @ '' && echo '' @ [quote] @ base64_encode code @ [quote] @ '' | base64 -d > '' @ path]"

definition writeCode ::
  "(string \<Rightarrow> string \<Rightarrow> (bool \<times> string) list) \<Rightarrow> ('w, 'p) Controller \<Rightarrow> string \<Rightarrow> string \<Rightarrow> string \<Rightarrow> (unit res, ('w, 'p) cstate) act" where
  "writeCode frames c sandbox path code s =
     (case execInSandbox frames c sandbox (write_command path code) s of
        (Inl e, s1) \<Rightarrow> (Inl e, s1)
      | (Inr (exitCode, out, err), s1) \<Rightarrow>
          if exitCode \<noteq> 0 then (Inl (Errorf ''write failed (exit %d): %s'' [AInt exitCode, AStr err]), s1) else (Inr (), s1))"

definition lines :: "string list \<Rightarrow> string" where
  "lines ls = concat (map (\<lambda>l. l @ [CHR 0x0A]) ls)"

definition quoted :: "string \<Rightarrow> string" where
  "quoted s = [quote] @ s @ [quote]"

definition list_script :: string where
  "list_script = ''python3 -c '' @ [CHR 0x22] @ lines
     ['''', ''import os, json'', ''d = '' @ quoted outputDir, ''if not os.path.isdir(d):'', ''    print('' @ quoted ''[]'' @ '')'', ''else:'',
      ''    files = []'', ''    for name in os.listdir(d):'', ''        full = os.path.join(d, name)'',
      ''        if os.path.isfile(full):'',
      ''            files.append({'' @ quoted ''name'' @ '': name, '' @ quoted ''path'' @ '': full, '' @ quoted ''size'' @
        '': os.path.getsize(full)})'',
      ''    print(json.dumps(files))''] @ [CHR 0x22] @ '' 2>/dev/null || echo '' @ quoted ''[]''"

definition readFileBase64 ::
  "(string \<Rightarrow> string \<Rightarrow> (bool \<times> string) list) \<Rightarrow> ('w, 'p) Controller \<Rightarrow> string \<Rightarrow> string \<Rightarrow> (string res, ('w, 'p) cstate) act" where
  "readFileBase64 frames c sandbox path s =
     (case execInSandbox frames c sandbox [''base64'', path] s of
        (Inl e, s1) \<Rightarrow> (Inl e, s1)
      | (Inr (exitCode, out, err), s1) \<Rightarrow>
          if exitCode \<noteq> 0 then (Inl (Errorf ''base64 read failed: %s'' [AStr err]), s1) else (Inr (TrimSpace out), s1))"

fun inline_files ::
  "(string \<Rightarrow> string \<Rightarrow> (bool \<times> string) list) \<Rightarrow> ('w, 'p) Controller \<Rightarrow> string \<Rightarrow> (string \<times> string \<times> int) list \<Rightarrow>
   (OutputFile list, ('w, 'p) cstate) act" where
  "inline_files frames c sandbox [] s = ([], s)"
| "inline_files frames c sandbox ((name, path, sz) # rfs) s =
     (let f = \<lparr>of_Name = name, of_Path = path, of_Size = sz, of_Content = ''''\<rparr> in
      case (if sz > 0 \<and> sz \<le> maxFileContentSize then
              (case readFileBase64 frames c sandbox path s of
                 (Inl _, s1) \<Rightarrow> (f, s1) | (Inr content, s1) \<Rightarrow> (f\<lparr>of_Content := content\<rparr>, s1))
            else (f, s)) of
        (f1, s1) \<Rightarrow> (case inline_files frames c sandbox rfs s1 of (fs, s2) \<Rightarrow> (f1 # fs, s2)))"

definition collectOutputFiles ::
  "(string \<Rightarrow> string \<Rightarrow> (bool \<times> string) list) \<Rightarrow> (string \<Rightarrow> (string \<times> string \<times> int) list res) \<Rightarrow> ('w, 'p) Controller \<Rightarrow> string \<Rightarrow>
   (OutputFile list res, ('w, 'p) cstate) act" where
  "collectOutputFiles frames parse c sandbox s =
     (case execInSandbox frames c sandbox [''sh'', ''-c'', list_script] s of
        (Inl e, s1) \<Rightarrow> (Inl e, s1)
      | (Inr (exitCode, out, err), s1) \<Rightarrow>
          let stdout = TrimSpace out in
          if stdout = '''' \<or> stdout = ''[]'' then (Inr [], s1)
          else (case parse stdout of
             Inl e \<Rightarrow> (Inl (Errorf ''parse output files: %w'' [AErr e]), s1)
           | Inr rfs \<Rightarrow> (case inline_files frames c sandbox rfs s1 of (fs, s2) \<Rightarrow> (Inr fs, s2))))"

section \<open>Execute\<close>

definition srcFile :: "langConfig \<Rightarrow> string" where
  "srcFile lang = ''/tmp/smx_code'' @ lc_extension lang"

definition binFile :: string where
  "binFile = ''/tmp/smx_code_bin''"

text \<open>A result with an error text and the exit code -1.\<close>

definition failure :: "gtime \<Rightarrow> string \<Rightarrow> (ExecuteResult, ('w, 'p) cstate) act" where
  "failure start msg s =
     (case now s of (t, s1) \<Rightarrow>
      (\<lparr>xr_Stdout = '''', xr_Stderr = '''', xr_ExitCode = - 1, xr_Duration = t - start, xr_Error = msg, xr_Files = []\<rparr>, s1))"

definition finished :: "gtime \<Rightarrow> string \<Rightarrow> int \<times> string \<times> string \<Rightarrow> (ExecuteResult, ('w, 'p) cstate) act" where
  "finished start msg result s =
     (case result of (exitCode, out, err) \<Rightarrow>
      case now s of (t, s1) \<Rightarrow>
      (\<lparr>xr_Stdout = out, xr_Stderr = err, xr_ExitCode = exitCode, xr_Duration = t - start, xr_Error = msg, xr_Files = []\<rparr>, s1))"

definition run_code ::
  "(string \<Rightarrow> string \<Rightarrow> (bool \<times> string) list) \<Rightarrow> (string \<Rightarrow> (string \<times> string \<times> int) list res) \<Rightarrow> ('w, 'p) Controller \<Rightarrow> string \<Rightarrow>
   langConfig \<Rightarrow> gtime \<Rightarrow> (ExecuteResult, ('w, 'p) cstate) act" where
  "run_code frames parse c sandbox lang start s =
     (case execInSandbox frames c sandbox (lc_runCmd lang (srcFile lang) binFile) s of
        (Inl e, s1) \<Rightarrow> failure start (err_text (Errorf ''execution failed: %v'' [AErr e])) s1
      | (Inr result, s1) \<Rightarrow>
          (case finished start '''' result s1 of (x, s2) \<Rightarrow>
           case collectOutputFiles frames parse c sandbox s2 of
             (Inl _, s3) \<Rightarrow> (x, s3)
           | (Inr files, s3) \<Rightarrow> (x\<lparr>xr_Files := files\<rparr>, s3)))"

definition Execute ::
  "(string \<Rightarrow> string \<Rightarrow> (bool \<times> string) list) \<Rightarrow> (string \<Rightarrow> (string \<times> string \<times> int) list res) \<Rightarrow> ('w, 'p) Controller \<Rightarrow>
   ExecuteRequest \<Rightarrow> (ExecuteResult res, ('w, 'p) cstate) act" where
  "Execute frames parse c req s =
     (case now s of (start, s0) \<Rightarrow>
      if eq_Sandbox req = '''' then (Inl (Errorf ''sandbox name is required'' []), s0)
      else if eq_Code req = '''' then (Inl (Errorf ''code is required'' []), s0)
      else case gm_get languages (eq_Language req) of
        None \<Rightarrow> (Inl (Errorf ''unsupported language: %q'' [AStr (eq_Language req)]), s0)
      | Some lang \<Rightarrow>
          apfst Inr
           (case writeCode frames c (eq_Sandbox req) (srcFile lang) (eq_Code req) s0 of
              (Inl e, s1) \<Rightarrow> failure start (err_text (Errorf ''failed to write code: %v'' [AErr e])) s1
            | (Inr _, s1) \<Rightarrow>
                (case lc_buildCmd lang of
                   None \<Rightarrow> run_code frames parse c (eq_Sandbox req) lang start s1
                 | Some build \<Rightarrow>
                     (case execInSandbox frames c (eq_Sandbox req) (build (srcFile lang) binFile) s1 of
                        (Inl e, s2) \<Rightarrow> failure start (err_text (Errorf ''compilation failed: %v'' [AErr e])) s2
                      | (Inr result, s2) \<Rightarrow>
                          if fst result \<noteq> 0 then finished start ''compilation failed'' result s2
                          else run_code frames parse c (eq_Sandbox req) lang start s2))))"

section \<open>Handler\<close>

datatype interpret_body = JInterpreted ExecuteResult

definition handleInterpret ::
  "(string \<Rightarrow> bool \<Rightarrow> (string \<times> string \<times> int) res) \<Rightarrow> (string \<Rightarrow> string \<Rightarrow> (bool \<times> string) list) \<Rightarrow>
   (string \<Rightarrow> (string \<times> string \<times> int) list res) \<Rightarrow> ('w, 'p) Controller \<Rightarrow> (interpret_body, ('w, 'p, 'x) Api) handler" where
  "handleInterpret decode frames parse c r s =
     (let name = gm_str (rq_PathValue r) ''name'' in
      if name = '''' then (errorResponse StatusBadRequest ''sandbox name is required'', s)
      else case decodeJSON decode r of
        Inl resp \<Rightarrow> (resp, s)
      | Inr (language, code, timeout) \<Rightarrow>
          if language = '''' then (errorResponse StatusBadRequest ''language is required'', s)
          else if code = '''' then (errorResponse StatusBadRequest ''code is required'', s)
          else (case on_ctrl (Execute frames parse c
                  \<lparr>eq_Sandbox = name, eq_Language = language, eq_Code = code, eq_Timeout = timeout\<rparr>) s of
             (Inl e, s1) \<Rightarrow> (fails StatusInternalServerError e, s1)
           | (Inr x, s1) \<Rightarrow> (jsonResponse StatusOK (JInterpreted x), s1)))"

section \<open>The code arrives\<close>

lemma of_char_less [simp]: "(of_char c :: nat) < 256"
  by (metis of_char_mod_256 mod_less_divisor zero_less_numeral)

lemma b64_val_char [simp]: "n < 64 \<Longrightarrow> b64_val (b64_char n) = Some n"
  unfolding b64_char_def b64_val_def by (auto simp: Let_def of_char_of split: if_splits)

lemma b64_char_unquoted [simp]: "n < 64 \<Longrightarrow> quote \<noteq> b64_char n" "quote \<noteq> CHR ''=''"
proof -
  have "b64_val quote = None" by (simp add: b64_val_def quote_def)
  then show "n < 64 \<Longrightarrow> quote \<noteq> b64_char n" by (metis b64_val_char option.distinct(1))
qed (simp add: quote_def)

lemma b64_val_pad [simp]: "b64_val (CHR ''='') = None"
  by (simp add: b64_val_def)

text \<open>The sextets of three bytes: their bounds, and the bytes put together again.\<close>

lemma sextets [simp]:
  fixes x y z :: nat
  assumes "x < 256"
  shows "x div 4 < 64" and "y < 256 \<Longrightarrow> x mod 4 * 16 + y div 16 < 64" and "x mod 4 * 16 < 64"
    and "y < 256 \<Longrightarrow> x mod 16 * 4 + y div 64 < 64" and "x mod 16 * 4 < 64" and "x mod 64 < 64"
proof -
  have m: "x mod 4 < 4" "x mod 16 < 16" "x mod 64 < 64" by simp_all
  show "x div 4 < 64" using assms by simp
  show "x mod 4 * 16 + y div 16 < 64" if "y < 256"
  proof -
    have "y div 16 < 16" using that by simp
    with m(1) show ?thesis by linarith
  qed
  show "x mod 16 * 4 + y div 64 < 64" if "y < 256"
  proof -
    have "y div 64 < 4" using that by simp
    with m(2) show ?thesis by linarith
  qed
  show "x mod 4 * 16 < 64" "x mod 16 * 4 < 64" "x mod 64 < 64" using m by linarith+
qed

lemma char_digits [simp]:
  fixes y z :: nat
  assumes "y < 256"
  shows "y div 16 div 16 = 0" and "y div 16 mod 16 * 16 + y mod 16 = y" and "y div 64 div 4 = 0" and "y div 64 mod 4 * 64 + y mod 64 = y"
proof -
  have "y div 16 < 16" "y div 64 < 4" using assms by simp_all
  then show "y div 16 div 16 = 0" "y div 64 div 4 = 0" "y div 16 mod 16 * 16 + y mod 16 = y" "y div 64 mod 4 * 64 + y mod 64 = y" by simp_all
qed

lemma base64_round_trip: "base64_decode (base64_encode s) = Some s"
  by (induction s rule: base64_encode.induct) (simp_all add: Let_def)

lemma base64_unquoted: "quote \<notin> set (base64_encode s)"
  by (induction s rule: base64_encode.induct) (simp_all add: Let_def)

text \<open>Code reaches the sandbox as it is, whatever it contains: the shell command that writes it has exactly one quoted
  word, between the two quotes the interpreter puts there, and that word decodes to the code.\<close>

theorem code_quoted_safely:
  "\<exists>word. write_command path code =
      [''sh'', ''-c'', ''mkdir -p /tmp/smx_output && echo '' @ [quote] @ word @ [quote] @ '' | base64 -d > '' @ path] \<and>
    quote \<notin> set word \<and> base64_decode word = Some code"
  using base64_round_trip base64_unquoted by (intro exI [of _ "base64_encode code"]) (simp add: write_command_def outputDir_def)

section \<open>Outcomes\<close>

definition supported :: "string list" where
  "supported = [''python'', ''javascript'', ''bash'', ''go'', ''rust'']"

lemma languages_dom: "gm_get languages l \<noteq> None \<longleftrightarrow> l \<in> set supported"
  by (auto simp: languages_def supported_def)

lemma std_copy_bounded:
  "std_copy limit fs [] [] = (out, err) \<Longrightarrow> length out \<le> limit \<and> length err \<le> limit"
  using std_copy_prefix [of limit fs "[]" "[]" out err] by auto

lemma execInSandbox_bounded:
  "execInSandbox frames c sandbox cmd s = (Inr (exitCode, out, err), s') \<Longrightarrow> length out \<le> maxExecOutput \<and> length err \<le> maxExecOutput"
  by (auto simp: execInSandbox_def split: prod.splits option.splits dest: std_copy_bounded)

definition bounded_result :: "ExecuteResult \<Rightarrow> bool" where
  "bounded_result x \<longleftrightarrow> length (xr_Stdout x) \<le> maxExecOutput \<and> length (xr_Stderr x) \<le> maxExecOutput"

lemma failure_bounded: "bounded_result (fst (failure start msg s))"
  by (simp add: failure_def bounded_result_def now_def split: prod.splits)

lemma finished_bounded:
  "execInSandbox frames c sandbox cmd s = (Inr result, s1) \<Longrightarrow> bounded_result (fst (finished start msg result s2))"
  by (cases result) (auto simp: finished_def bounded_result_def now_def dest: execInSandbox_bounded split: prod.splits)

lemma run_code_bounded: "bounded_result (fst (run_code frames parse c sandbox lang start s))"
proof (cases "execInSandbox frames c sandbox (lc_runCmd lang (srcFile lang) binFile) s")
  case (Pair r s1)
  show ?thesis
  proof (cases r)
    case (Inl e)
    with Pair show ?thesis by (simp add: run_code_def failure_bounded)
  next
    case (Inr result)
    obtain x s2 where f: "finished start [] result s1 = (x, s2)" by fastforce
    with finished_bounded [of frames c sandbox _ s result s1 start "[]" s1] Pair Inr have "bounded_result x" by (metis fst_conv)
    with Pair Inr f show ?thesis by (simp add: run_code_def bounded_result_def split: prod.splits sum.splits)
  qed
qed

text \<open>Everything after the checks of the request.\<close>

lemma Execute_checked:
  assumes "eq_Sandbox req \<noteq> []" and "eq_Code req \<noteq> []" and "gm_get languages (eq_Language req) = Some lang"
  shows "\<exists>x s'. Execute frames parse c req s = (Inr x, s') \<and> bounded_result x"
proof -
  let ?sb = "eq_Sandbox req"
  obtain start s0 where now: "now s = (start, s0)" by fastforce
  obtain r s1 where w: "writeCode frames c ?sb (srcFile lang) (eq_Code req) s0 = (r, s1)" by fastforce
  have wrap: ?thesis if "Execute frames parse c req s = apfst Inr run" and "bounded_result (fst run)" for run
    using that by (cases run) simp
  note E = assms now w
  show ?thesis
  proof (cases r)
    case (Inl e)
    show ?thesis
      by (rule wrap [where run = "failure start (err_text (Errorf ''failed to write code: %v'' [AErr e])) s1"])
        (use E Inl in \<open>simp_all add: Execute_def failure_bounded\<close>)
  next
    case (Inr u)
    show ?thesis
    proof (cases "lc_buildCmd lang")
      case None
      show ?thesis
        by (rule wrap [where run = "run_code frames parse c ?sb lang start s1"])
          (use E Inr None in \<open>simp_all add: Execute_def run_code_bounded\<close>)
    next
      case (Some build)
      obtain b s2 where x: "execInSandbox frames c ?sb (build (srcFile lang) binFile) s1 = (b, s2)" by fastforce
      show ?thesis
      proof (cases b)
        case (Inl e)
        show ?thesis
          by (rule wrap [where run = "failure start (err_text (Errorf ''compilation failed: %v'' [AErr e])) s2"])
            (use E \<open>r = Inr u\<close> Some x Inl in \<open>simp_all add: Execute_def failure_bounded\<close>)
      next
        case (Inr result)
        show ?thesis
          by (rule wrap [where run = "if fst result \<noteq> 0 then finished start ''compilation failed'' result s2
              else run_code frames parse c ?sb lang start s2"])
            (use E \<open>r = Inr u\<close> Some x Inr finished_bounded [OF x [unfolded Inr], of start "''compilation failed''" s2] in \<open>simp_all add: Execute_def run_code_bounded\<close>)
      qed
    qed
  qed
qed


abbreviation two_frames :: "string \<Rightarrow> string \<Rightarrow> (bool \<times> string) list" where
  "two_frames \<equiv> \<lambda>out err. [(True, out), (False, err)]"

definition demo_code :: "string \<Rightarrow> ExecuteRequest" where
  "demo_code language = \<lparr>eq_Sandbox = ''a'', eq_Language = language, eq_Code = ''1 + 1'', eq_Timeout = 0\<rparr>"


end
