(* ===== verification/GoFormat.thy ===== *)
theory GoFormat
  imports GoFloat GoStrings
begin

text \<open>
  What the text output of the program uses of \<open>fmt\<close> and \<open>time\<close>: padding to a width, which counts characters of UTF-8 and
  not bytes, \<open>Duration.String\<close>, and \<open>Sscanf\<close> with the single verb \<open>%d\<close>.
\<close>

section \<open>Padding\<close>

text \<open>The size in bytes of the character a byte string starts with; a byte that starts no character counts alone.\<close>

definition cont_byte :: "nat \<Rightarrow> bool" where
  "cont_byte b \<longleftrightarrow> 128 \<le> b \<and> b < 192"

fun rune_size :: "nat list \<Rightarrow> nat" where
  "rune_size (a # b # c # d # bs) =
     (if 194 \<le> a \<and> a \<le> 223 \<and> cont_byte b then 2
      else if 224 \<le> a \<and> a \<le> 239 \<and> (if a = 224 then 160 else 128) \<le> b \<and> b \<le> (if a = 237 then 159 else 191) \<and> cont_byte c then 3
      else if 240 \<le> a \<and> a \<le> 244 \<and> (if a = 240 then 144 else 128) \<le> b \<and> b \<le> (if a = 244 then 143 else 191) \<and> cont_byte c \<and>
        cont_byte d then 4
      else 1)"
| "rune_size [a, b, c] =
     (if 194 \<le> a \<and> a \<le> 223 \<and> cont_byte b then 2
      else if 224 \<le> a \<and> a \<le> 239 \<and> (if a = 224 then 160 else 128) \<le> b \<and> b \<le> (if a = 237 then 159 else 191) \<and> cont_byte c then 3
      else 1)"
| "rune_size [a, b] = (if 194 \<le> a \<and> a \<le> 223 \<and> cont_byte b then 2 else 1)"
| "rune_size bs = 1"

lemma rune_size_pos: "0 < rune_size bs"
  by (induction bs rule: rune_size.induct) simp_all

function rune_count :: "nat list \<Rightarrow> nat" where
  "rune_count bs = (if bs = [] then 0 else Suc (rune_count (drop (rune_size bs) bs)))"
  by pat_completeness auto
termination
  by (relation "measure length") (auto simp: rune_size_pos)

declare rune_count.simps [simp del]

definition pad_right :: "nat \<Rightarrow> string \<Rightarrow> string" where
  "pad_right n s = s @ replicate (n - rune_count (map of_char s)) (CHR '' '')"

section \<open>Durations\<close>

text \<open>\<open>n\<close> divided by \<open>10 ^ p\<close>, without zeros at the end of the fraction.\<close>

definition frac_digits :: "nat \<Rightarrow> int \<Rightarrow> string" where
  "frac_digits p n =
     (let ds = map (\<lambda>i. digit_char (nat (n div 10 ^ i mod 10))) (rev [0..<p]);
          s = rev (dropWhile (\<lambda>c. c = digit_char 0) (rev ds)) in
      if s = [] then [] else CHR ''.'' # s)"

definition scaled :: "nat \<Rightarrow> int \<Rightarrow> string" where
  "scaled p n = itoa (n div 10 ^ p) @ frac_digits p (n mod 10 ^ p)"

definition duration_abs :: "int \<Rightarrow> string" where
  "duration_abs n =
     (if n = 0 then ''0s''
      else if n < 1000 then itoa n @ ''ns''
      else if n < 1000000 then scaled 3 n @ [char_of (194 :: nat), char_of (181 :: nat), CHR ''s'']
      else if n < 1000000000 then scaled 6 n @ ''ms''
      else
        let secs = n div 1000000000; h = secs div 3600; m = secs div 60 mod 60 in
        (if h > 0 then itoa h @ ''h'' else []) @ (if secs \<ge> 60 then itoa m @ ''m'' else []) @
        scaled 9 (n mod 60000000000) @ ''s'')"

definition duration_string :: "int \<Rightarrow> string" where
  "duration_string d = (if d < 0 then CHR ''-'' # duration_abs (- d) else duration_abs d)"

text \<open>\<open>Truncate(time.Second)\<close>: towards zero.\<close>

definition truncate_second :: "int \<Rightarrow> int" where
  "truncate_second d = (if d < 0 then - ((- d) div 1000000000 * 1000000000) else d div 1000000000 * 1000000000)"

section \<open>Scanning\<close>

text \<open>\<open>fmt.Sscanf(s, "%d", &v)\<close>: blanks, a sign, digits; what follows is not looked at. \<open>None\<close> leaves \<open>v\<close> as it is.\<close>

definition scan_int :: "string \<Rightarrow> int option" where
  "scan_int s =
     (let t = dropWhile (\<lambda>c. is_space c \<and> c \<noteq> CHR 0x0A) s;
          sg = (case t of c # _ \<Rightarrow> if c = CHR ''+'' \<or> c = CHR ''-'' then [c] else [] | [] \<Rightarrow> []);
          ds = takeWhile is_digit (drop (length sg) t) in
      if ds = [] then None else ParseInt (sg @ ds))"

section \<open>Facts\<close>

text \<open>Scanning gives back a number that was written, whatever comes behind it.\<close>

lemma scan_int_nat:
  assumes "int n < 2 ^ 63" and "rest = '''' \<or> \<not> is_digit (hd rest)"
  shows "scan_int (nat_digits n @ rest) = Some (int n)"
proof -
  have d: "nat_digits n \<noteq> []" "\<forall>c \<in> set (nat_digits n). is_digit c"
    using nat_digits_props [of n] by (auto simp: list_all_iff)
  obtain c cs where c: "nat_digits n = c # cs" using d(1) by (cases "nat_digits n") auto
  have dc: "is_digit c" using d(2) c by simp
  then have ns: "\<not> is_space c" "c \<noteq> CHR ''+''" "c \<noteq> CHR ''-''"
    by (auto simp: is_digit_def is_space_def)
  have t: "takeWhile is_digit (nat_digits n @ rest) = nat_digits n"
    using assms(2) d(2) by (cases rest) (auto simp: takeWhile_append)
  have p: "ParseInt (nat_digits n) = Some (int n)"
    using ParseInt_itoa [of "int n"] assms(1) by (simp add: itoa_def in_int64_def)
  show ?thesis using t p ns c d(1) by (simp add: scan_int_def Let_def)
qed

end
