(* ===== verification/Mcp.thy ===== *)
theory Mcp
  imports Images Interpreter GoFormat
begin

text \<open>
  \<open>internal/agent/mcp/server.go\<close>: the tools an agent calls over the Model Context Protocol. A tool gets its arguments as a
  map of JSON values and answers with a text or an error text. The tools act on the controller and the gateway of the REST server
  (\<open>Api\<close>). JSON, the frames of command output, the pieces in which a reader delivers a file and the events
  of timers are parameters (\<open>McpLibs\<close>). The protocol library calls the handler of a tool by its name.
\<close>

section \<open>Arguments and answers\<close>

datatype jarg = JStr string | JOther

datatype tool_result = ToolText string | ToolError string

type_synonym ('w, 'p, 'x) tool = "jarg gomap \<Rightarrow> (tool_result, ('w, 'p, 'x) Api) act"

text \<open>The type assertion to \<open>string\<close>: an argument that is missing or something else reads as the empty string.\<close>

definition arg_str :: "jarg gomap \<Rightarrow> string \<Rightarrow> string" where
  "arg_str args k = (case gm_get args k of Some (JStr s) \<Rightarrow> s | _ \<Rightarrow> [])"

definition required_error :: "string \<Rightarrow> tool_result" where
  "required_error k = ToolError (''parameter '' @ quoted k @ '' is required'')"

definition require_arg :: "string \<Rightarrow> (string \<Rightarrow> ('w, 'p, 'x) tool) \<Rightarrow> ('w, 'p, 'x) tool" where
  "require_arg k body args s =
     (let v = arg_str args k in if v = [] then (required_error k, s) else body v args s)"

definition tool_fail :: "string \<Rightarrow> goerr \<Rightarrow> tool_result" where
  "tool_fail what e = ToolError (err_text (Errorf (what @ '': %v'') [AErr e]))"

definition tool_text :: "string \<Rightarrow> goarg list \<Rightarrow> tool_result" where
  "tool_text f as = ToolText (err_text (Errorf f as))"

text \<open>The optional \<open>timeout\<close>: the default stays when it does not start with a number.\<close>

definition timeout_arg :: "int \<Rightarrow> jarg gomap \<Rightarrow> int" where
  "timeout_arg dflt args =
     (let t = arg_str args ''timeout'' in
      if t \<noteq> [] then (case scan_int t of None \<Rightarrow> dflt | Some v \<Rightarrow> v) else dflt)"

definition api_ctrl :: "('a, ('w, 'p) cstate) act \<Rightarrow> ('a, ('w, 'p, 'x) Api) act" where
  "api_ctrl a s = (case a (ap_ctrl s) of (r, c) \<Rightarrow> (r, s\<lparr>ap_ctrl := c\<rparr>))"

text \<open>What \<open>select\<close> in \<open>handleSandboxReadyWait\<close> takes next; a tick comes with what others did to the state meanwhile.\<close>

datatype 's ready_event = RCanceled | RDeadline | RTick "'s \<Rightarrow> 's"

record ('w, 'p) McpLibs =
  ml_env :: "string \<Rightarrow> string gomap res"
  ml_tasks :: "string \<Rightarrow> Task list res"
  ml_marshal_map :: "string gomap \<Rightarrow> string res"
  ml_marshal_built :: "BuildResult \<Rightarrow> string res"
  ml_marshal_messages :: "Message list \<Rightarrow> string res"
  ml_marshal_task :: "Task \<Rightarrow> string"
  ml_marshal_sharded :: "int \<Rightarrow> int \<Rightarrow> int \<Rightarrow> string \<Rightarrow> string"
  ml_marshal_result :: "AggregatedResult \<Rightarrow> string"
  ml_task_result :: "string \<Rightarrow> TaskResult res"
  ml_files :: "string \<Rightarrow> (string \<times> string \<times> int) list res"
  ml_frames :: "string \<Rightarrow> string \<Rightarrow> (bool \<times> string) list"
  ml_chunks :: "string \<Rightarrow> string list"
  ml_wakes :: "int \<Rightarrow> wake list"
  ml_waits :: "int \<Rightarrow> ('w, 'p) cstate ready_event list"
  ml_committer :: "'w Committer option"
  ml_short :: string

section \<open>Sandboxes\<close>

definition tool_options :: "string \<Rightarrow> string \<Rightarrow> string \<Rightarrow> string gomap \<Rightarrow> CreateOptions" where
  "tool_options name path workspace env =
     \<lparr>co_Name = name, co_BlueprintPath = path, co_WorkspaceDir = workspace, co_NetworkName = [], co_Env = env, co_Team = []\<rparr>"

definition sandbox_info :: "Sandbox \<Rightarrow> string gomap" where
  "sandbox_info sb =
     [(''name'', om_Name (sb_Metadata sb)), (''state'', state_text (st_State (sb_Status sb))),
      (''runtimeID'', st_RuntimeID (sb_Status sb))]"

text \<open>The answer of a tool that marshals what it found.\<close>

definition marshal_answer :: "string \<Rightarrow> string res \<Rightarrow> tool_result" where
  "marshal_answer what r =
     (case r of Inl e \<Rightarrow> tool_fail (''failed to marshal '' @ what) e | Inr data \<Rightarrow> ToolText data)"

definition tool_SandboxCreate :: "('w, 'p) McpLibs \<Rightarrow> ('w, 'p) Controller \<Rightarrow> ('w, 'p, 'x) tool" where
  "tool_SandboxCreate l c = require_arg ''name'' (\<lambda>name. require_arg ''blueprint'' (\<lambda>path args s.
     case (let t = arg_str args ''env'' in if t \<noteq> [] then ml_env l t else Inr []) of
       Inl e \<Rightarrow> (tool_fail ''invalid env JSON'' e, s)
     | Inr env \<Rightarrow>
         (case api_ctrl (Create c (tool_options name path (arg_str args ''workspace'') env)) s of
            ((sb, Some e), s1) \<Rightarrow> (tool_fail ''failed to create sandbox'' e, s1)
          | ((None, None), s1) \<Rightarrow> (tool_fail ''panic'' (Panic ''nil pointer dereference''), s1)
          | ((Some sb, None), s1) \<Rightarrow> (marshal_answer ''result'' (ml_marshal_map l (sandbox_info sb)), s1))))"

definition sandbox_row :: "string \<Rightarrow> string \<Rightarrow> string \<Rightarrow> string \<Rightarrow> string \<Rightarrow> string" where
  "sandbox_row name state blueprint i age =
     pad_right 20 name @ '' '' @ pad_right 10 state @ '' '' @ pad_right 20 blueprint @ '' '' @ pad_right 14 i @ '' '' @ age @ [CHR 0x0A]"

fun sandbox_rows :: "Sandbox list \<Rightarrow> (string, ('w, 'p) cstate) act" where
  "sandbox_rows [] s = ([], s)"
| "sandbox_rows (sb # sbs) s =
     (case now s of (t, s1) \<Rightarrow>
      case sandbox_rows sbs s1 of (rest, s2) \<Rightarrow>
      (sandbox_row (om_Name (sb_Metadata sb)) (state_text (st_State (sb_Status sb))) (sp_BlueprintRef (sb_Spec sb))
         (take 12 (st_RuntimeID (sb_Status sb))) (duration_string (truncate_second (t - om_CreatedAt (sb_Metadata sb)))) @ rest, s2))"

definition tool_SandboxList :: "('w, 'p) Controller \<Rightarrow> ('w, 'p, 'x) tool" where
  "tool_SandboxList c args s =
     (case api_ctrl (List c) s of
        (Inl e, s1) \<Rightarrow> (tool_fail ''failed to list sandboxes'' e, s1)
      | (Inr sbs, s1) \<Rightarrow>
          if sbs = [] then (ToolText ''No sandboxes found.'', s1)
          else (case api_ctrl (sandbox_rows sbs) s1 of (rows, s2) \<Rightarrow>
            (ToolText (sandbox_row ''NAME'' ''STATE'' ''BLUEPRINT'' ''RUNTIME ID'' ''AGE'' @ rows), s2)))"

text \<open>The output of a command, each stream cut off at 10 MiB.\<close>

definition newline :: char where
  "newline = CHR 0x0A"

definition exec_text :: "string \<Rightarrow> string \<Rightarrow> int \<Rightarrow> string" where
  "exec_text out err exitCode =
     out @ (if err \<noteq> [] then newline # ''[stderr]'' @ newline # err else []) @
     (if exitCode \<noteq> 0 then newline # ''[exit code: '' @ itoa exitCode @ '']'' else [])"

definition tool_SandboxExec :: "('w, 'p) McpLibs \<Rightarrow> ('w, 'p) Controller \<Rightarrow> ('w, 'p, 'x) tool" where
  "tool_SandboxExec l c = require_arg ''name'' (\<lambda>name. require_arg ''command'' (\<lambda>command args s.
     case api_ctrl (Exec c name (exec_config [''sh'', ''-c'', command])) s of
       ((result, Some e), s1) \<Rightarrow> (tool_fail ''exec failed'' e, s1)
     | ((result, None), s1) \<Rightarrow>
         (case std_copy maxExecOutputSize (ml_frames l (er_Stdout result) (er_Stderr result)) [] [] of (out, err) \<Rightarrow>
          (ToolText (exec_text out err (er_ExitCode result)), s1))))"

text \<open>The tools that run one operation on a sandbox.\<close>

definition tool_done :: "string \<Rightarrow> string \<Rightarrow> string \<Rightarrow> (unit res, ('w, 'p) cstate) act \<Rightarrow> ('w, 'p, 'x) tool" where
  "tool_done verb past name a args s =
     (case api_ctrl a s of
        (Inl e, s1) \<Rightarrow> (tool_fail (''failed to '' @ verb @ '' sandbox'') e, s1)
      | (Inr _, s1) \<Rightarrow> (tool_text (''Sandbox %q '' @ past @ ''.'') [AStr name], s1))"

definition tool_SandboxStop :: "('w, 'p) Controller \<Rightarrow> ('w, 'p, 'x) tool" where
  "tool_SandboxStop c = require_arg ''name'' (\<lambda>name. tool_done ''stop'' ''stopped'' name (Stop c name))"

definition tool_SandboxStart :: "('w, 'p) Controller \<Rightarrow> ('w, 'p, 'x) tool" where
  "tool_SandboxStart c = require_arg ''name'' (\<lambda>name. tool_done ''start'' ''started'' name (Start c name))"

definition tool_SandboxDestroy :: "('w, 'p) Controller \<Rightarrow> ('w, 'p, 'x) tool" where
  "tool_SandboxDestroy c = require_arg ''name'' (\<lambda>name. tool_done ''destroy'' ''destroyed'' name (Destroy c name))"

definition mebibyte :: f64 where
  "mebibyte = Fin 1048576"

definition stats_text :: "Stats \<Rightarrow> string" where
  "stats_text st =
     (let used = f64_of_int (int (sx_MemoryUsage st)); limit = f64_of_int (int (sx_MemoryLimit st));
          percent = (if sx_MemoryLimit st > 0 then fmul (fdiv used limit) (Fin 100) else Fin 0) in
      ''CPU:     '' @ fmt_fixed 1 (sx_CPUUsage st) @ ''%'' @ newline # ''Memory:  '' @ fmt_fixed 1 (fdiv used mebibyte) @ '' MiB / '' @
      fmt_fixed 1 (fdiv limit mebibyte) @ '' MiB ('' @ fmt_fixed 1 percent @ ''%)'')"

definition tool_SandboxStats :: "('w, 'p) Controller \<Rightarrow> ('w, 'p, 'x) tool" where
  "tool_SandboxStats c = require_arg ''name'' (\<lambda>name args s.
     case api_ctrl (Stats_of c name) s of
       (Inl e, s1) \<Rightarrow> (tool_fail ''failed to get sandbox stats'' e, s1)
     | (Inr st, s1) \<Rightarrow> (ToolText (stats_text st), s1))"

section \<open>Code, ports and files\<close>

text \<open>A part is set off by a line break when there is output before it.\<close>

definition add_part :: "string \<Rightarrow> string \<Rightarrow> string \<Rightarrow> string" where
  "add_part label part out = (if part = [] then out else out @ (if out \<noteq> [] then [newline] else []) @ label @ part)"

definition interpret_text :: "ExecuteResult \<Rightarrow> string" where
  "interpret_text x =
     add_part ''[error] '' (xr_Error x) (add_part (''[stderr]'' @ [newline]) (xr_Stderr x) (xr_Stdout x)) @
     (if xr_ExitCode x \<noteq> 0 then newline # ''[exit code: '' @ itoa (xr_ExitCode x) @ '']'' else []) @
     newline # ''[duration: '' @ duration_string (xr_Duration x) @ '']'' @
     (if xr_Files x \<noteq> [] then
        newline # ''[output files: '' @ itoa (int (length (xr_Files x))) @ '']'' @
        concat (map (\<lambda>f. newline # ''  - '' @ of_Name f @ '' ('' @ itoa (of_Size f) @ '' bytes)'') (xr_Files x))
      else [])"

definition tool_CodeInterpret :: "('w, 'p) McpLibs \<Rightarrow> ('w, 'p) Controller \<Rightarrow> ('w, 'p, 'x) tool" where
  "tool_CodeInterpret l c =
     require_arg ''sandbox'' (\<lambda>sandbox. require_arg ''language'' (\<lambda>language. require_arg ''code'' (\<lambda>code args s.
       case api_ctrl (Execute (ml_frames l) (ml_files l) c
           \<lparr>eq_Sandbox = sandbox, eq_Language = language, eq_Code = code, eq_Timeout = timeout_arg 30 args\<rparr>) s of
         (Inl e, s1) \<Rightarrow> (tool_fail ''code execution failed'' e, s1)
       | (Inr x, s1) \<Rightarrow> (ToolText (interpret_text x), s1))))"

definition port_row :: "string \<Rightarrow> string \<Rightarrow> string \<Rightarrow> string" where
  "port_row container host proto = pad_right 15 container @ '' '' @ pad_right 10 host @ '' '' @ pad_right 10 proto @ [newline]"

definition mapping_row :: "PortMapping \<Rightarrow> string" where
  "mapping_row p =
     port_row (itoa (pm_ContainerPort p)) (if pm_HostPort p > 0 then itoa (pm_HostPort p) else ''none'')
       (if pm_Protocol p = [] then ''tcp'' else pm_Protocol p)"

definition tool_SandboxPorts :: "('w, 'p) Controller \<Rightarrow> ('w, 'p, 'x) tool" where
  "tool_SandboxPorts c = require_arg ''name'' (\<lambda>name args s.
     case api_ctrl (Get c name) s of
       (Inl e, s1) \<Rightarrow> (tool_fail ''failed to get sandbox'' e, s1)
     | (Inr sb, s1) \<Rightarrow>
         if st_RuntimeID (sb_Status sb) = [] then (ToolText ''No ports mapped (sandbox has no runtime ID).'', s1)
         else (case api_ctrl (on_rt (rt_Info (ct_runtime c) (st_RuntimeID (sb_Status sb)))) s1 of
            (Inl e, s2) \<Rightarrow> (tool_fail ''failed to inspect container'' e, s2)
          | (Inr info, s2) \<Rightarrow>
              if in_Ports info = [] then (ToolText ''No ports mapped.'', s2)
              else (ToolText (port_row ''CONTAINER'' ''HOST'' ''PROTO'' @ concat (map mapping_row (in_Ports info))), s2)))"

definition tool_SandboxWriteFile :: "('w, 'p) Controller \<Rightarrow> ('w, 'p, 'x) tool" where
  "tool_SandboxWriteFile c = require_arg ''name'' (\<lambda>name. require_arg ''path'' (\<lambda>path args s.
     case api_ctrl (WriteFile c name path (arg_str args ''content'')) s of
       (Inl e, s1) \<Rightarrow> (tool_fail ''failed to write file'' e, s1)
     | (Inr _, s1) \<Rightarrow> (tool_text ''File written to %s in sandbox %q.'' [AStr path, AStr name], s1)))"

text \<open>\<open>io.Copy\<close> into a \<open>mcpLimitedWriter\<close>: piece by piece; a write that reports less than it was given ends it with an error.\<close>

fun io_copy :: "nat \<Rightarrow> string list \<Rightarrow> string \<Rightarrow> string \<times> goerr option" where
  "io_copy limit [] buf = (buf, None)"
| "io_copy limit (p # ps) buf =
     (case limited_Write limit p buf of (n, buf') \<Rightarrow>
      if n < length p then (buf', Some (ExtErr ''short write'')) else io_copy limit ps buf')"

definition tool_SandboxReadFile :: "('w, 'p) McpLibs \<Rightarrow> ('w, 'p) Controller \<Rightarrow> ('w, 'p, 'x) tool" where
  "tool_SandboxReadFile l c = require_arg ''name'' (\<lambda>name. require_arg ''path'' (\<lambda>path args s.
     case api_ctrl (ReadFile c name path) s of
       (Inl e, s1) \<Rightarrow> (tool_fail ''failed to read file'' e, s1)
     | (Inr content, s1) \<Rightarrow>
         (case io_copy maxExecOutputSize (ml_chunks l content) [] of
            (buf, Some e) \<Rightarrow> (tool_fail ''failed to read file content'' e, s1)
          | (buf, None) \<Rightarrow> (ToolText buf, s1))))"

definition tool_BlueprintBuild :: "('w, 'p) McpLibs \<Rightarrow> ('w, 'p) Controller \<Rightarrow> ('w, 'p, 'x) tool" where
  "tool_BlueprintBuild l c = require_arg ''blueprint'' (\<lambda>path args s.
     case api_ctrl (on_rt (Build \<lparr>bd_runtime = ct_runtime c, bd_committer = ml_committer l\<rparr> (ct_host c) (ml_short l) path)) s of
       (Inl e, s1) \<Rightarrow> (tool_fail ''failed to build image'' e, s1)
     | (Inr result, s1) \<Rightarrow> (marshal_answer ''result'' (ml_marshal_built l result), s1))"

section \<open>Messages\<close>

text \<open>The tools that need a gateway, once their arguments are checked.\<close>

definition with_gateway :: "('x Gateway \<Rightarrow> tool_result \<times> 'x Gateway) \<Rightarrow> (tool_result, ('w, 'p, 'x) Api) act" where
  "with_gateway f s =
     (case ap_gateway s of
        None \<Rightarrow> (ToolError ''A2A gateway not configured'', s)
      | Some g \<Rightarrow> (case f g of (r, g') \<Rightarrow> (r, s\<lparr>ap_gateway := Some g'\<rparr>)))"

definition tool_A2ASend :: "('w, 'p, 'x) tool" where
  "tool_A2ASend = require_arg ''from'' (\<lambda>src. require_arg ''to'' (\<lambda>to. require_arg ''type'' (\<lambda>ty args.
     with_gateway (\<lambda>g.
       case Send (new_message src to ty (arg_str args ''payload'')) g of
         (Inl e, g') \<Rightarrow> (tool_fail ''failed to send message'' e, g')
       | (Inr _, g') \<Rightarrow> (tool_text ''Message sent from %q to %q (type: %s).'' [AStr src, AStr to, AStr ty], g')))))"

definition tool_A2AReceive :: "('w, 'p) McpLibs \<Rightarrow> ('w, 'p, 'x) tool" where
  "tool_A2AReceive l = require_arg ''sandbox_name'' (\<lambda>name args.
     with_gateway (\<lambda>g.
       case Receive name g of (msgs, g') \<Rightarrow>
       ((if msgs = [] then ToolText ''No pending messages.'' else marshal_answer ''messages'' (ml_marshal_messages l msgs)), g')))"

definition tool_A2ABroadcast :: "('w, 'p, 'x) tool" where
  "tool_A2ABroadcast = require_arg ''from'' (\<lambda>src. require_arg ''targets'' (\<lambda>ts. require_arg ''type'' (\<lambda>ty args.
     with_gateway (\<lambda>g.
       let targets = map TrimSpace (Split ts (CHR '','')) in
       case Broadcast src targets ty (arg_str args ''payload'') g of
         (Inl e, g') \<Rightarrow> (tool_fail ''failed to broadcast'' e, g')
       | (Inr _, g') \<Rightarrow>
           (tool_text ''Broadcast from %q to %d targets (type: %s).'' [AStr src, AInt (int (length targets)), AStr ty], g')))))"

section \<open>Tasks of a matrix\<close>

definition tool_MatrixShardTask :: "('w, 'p) McpLibs \<Rightarrow> ('w, 'p) Controller \<Rightarrow> ('w, 'p, 'x) tool" where
  "tool_MatrixShardTask l c = require_arg ''matrix'' (\<lambda>name. require_arg ''tasks'' (\<lambda>tasksJSON args s.
     let strategy = arg_str args ''strategy'' in
     case api_ctrl (GetMatrix c name) s of
       (Inl e, s1) \<Rightarrow> (tool_fail ''failed to get matrix'' e, s1)
     | (Inr mx, s1) \<Rightarrow>
         (case ml_tasks l tasksJSON of
            Inl e \<Rightarrow> (tool_fail ''failed to parse tasks JSON'' e, s1)
          | Inr tasks \<Rightarrow>
              let as = fst (Distribute (NewStrategy (shard_config strategy (mx_Sharding mx))) tasks (mx_Members mx) 0) in
              with_gateway (\<lambda>g.
                (ToolText (ml_marshal_sharded l (int (length tasks)) (int (length (mx_Members mx))) (int (length as)) strategy),
                 send_assignments (ml_marshal_task l) name as g)) s1)))"

text \<open>A stored configuration replaces the one made from the arguments; only a timeout of zero is filled in.\<close>

definition tool_collect_config :: "int \<Rightarrow> AggregationConfig option \<Rightarrow> AggregationConfig" where
  "tool_collect_config timeout stored =
     (let cfg = (case stored of None \<Rightarrow> \<lparr>ac_Strategy = ''collect-all'', ac_TimeoutSec = timeout\<rparr> | Some k \<Rightarrow> k) in
      if ac_TimeoutSec cfg = 0 then cfg\<lparr>ac_TimeoutSec := timeout\<rparr> else cfg)"

text \<open>No answer (\<open>None\<close>) while the events do not end the waiting.\<close>

definition with_answer :: "('w, 'p, 'x) tool \<Rightarrow> jarg gomap \<Rightarrow> (tool_result option, ('w, 'p, 'x) Api) act" where
  "with_answer t args s = apfst Some (t args s)"

definition tool_MatrixCollectResults ::
  "('w, 'p) McpLibs \<Rightarrow> ('w, 'p) Controller \<Rightarrow> jarg gomap \<Rightarrow> (tool_result option, ('w, 'p, 'x) Api) act" where
  "tool_MatrixCollectResults l c args s =
     (let name = arg_str args ''matrix''; taskID = arg_str args ''task_id'' in
      if name = [] then (Some (required_error ''matrix''), s)
      else if taskID = [] then (Some (required_error ''task_id''), s)
      else case api_ctrl (GetMatrix c name) s of
        (Inl e, s1) \<Rightarrow> (Some (tool_fail ''failed to get matrix'' e), s1)
      | (Inr mx, s1) \<Rightarrow>
          (case ap_gateway s1 of
             None \<Rightarrow> (Some (ToolError ''A2A gateway not configured''), s1)
           | Some g \<Rightarrow>
               (case Collect (ml_task_result l) (ml_wakes l) (coordinator name) taskID (int (length (mx_Members mx)))
                       (Some (tool_collect_config (timeout_arg 60 args) (mx_Aggregation mx))) g of
                  (ans, g') \<Rightarrow>
                    ((case ans of None \<Rightarrow> None
                      | Some (ar, Some e) \<Rightarrow> Some (tool_fail ''collection error'' e)
                      | Some (ar, None) \<Rightarrow> Some (ToolText (ml_marshal_result l ar))),
                     s1\<lparr>ap_gateway := Some g'\<rparr>))))"

section \<open>Waiting\<close>

text \<open>What a tick makes of the record it finds: an answer, or nothing yet.\<close>

definition ready_answer :: "string \<Rightarrow> Sandbox res \<Rightarrow> tool_result option" where
  "ready_answer name r =
     (case r of
        Inl e \<Rightarrow> Some (tool_fail ''failed to get sandbox'' e)
      | Inr sb \<Rightarrow>
          if st_State (sb_Status sb) = Ready then Some (tool_text ''Sandbox %q is ready.'' [AStr name])
          else if st_State (sb_Status sb) = Error then
            Some (ToolError (err_text (Errorf ''sandbox %q is in error state: %s''
              [AStr name, AStr (if st_ProbeError (sb_Status sb) \<noteq> [] then st_ProbeError (sb_Status sb) else st_Message (sb_Status sb))])))
          else None)"

fun ready_loop ::
  "('w, 'p) Controller \<Rightarrow> string \<Rightarrow> int \<Rightarrow> ('w, 'p) cstate ready_event list \<Rightarrow> (tool_result option, ('w, 'p) cstate) act" where
  "ready_loop c name timeout [] s = (None, s)"
| "ready_loop c name timeout (RCanceled # es) s = (Some (ToolError ''context canceled''), s)"
| "ready_loop c name timeout (RDeadline # es) s =
     (Some (ToolError (err_text (Errorf ''sandbox %q did not become ready within %ds'' [AStr name, AInt timeout]))), s)"
| "ready_loop c name timeout (RTick others # es) s =
     (case Get c name (others s) of (r, s1) \<Rightarrow>
      case ready_answer name r of
        Some ans \<Rightarrow> (Some ans, s1)
      | None \<Rightarrow> ready_loop c name timeout es s1)"

definition tool_SandboxReadyWait ::
  "('w, 'p) McpLibs \<Rightarrow> ('w, 'p) Controller \<Rightarrow> jarg gomap \<Rightarrow> (tool_result option, ('w, 'p, 'x) Api) act" where
  "tool_SandboxReadyWait l c args s =
     (let name = arg_str args ''name''; timeout = timeout_arg 60 args in
      if name = [] then (Some (required_error ''name''), s)
      else api_ctrl (ready_loop c name timeout (ml_waits l (wrap64 (timeout * 1000000000)))) s)"

section \<open>The tools\<close>

text \<open>A tool as it is registered: its name, its parameters with whether they are declared as required, and its handler.\<close>

record ('w, 'p, 'x) Tool =
  tl_Name :: string
  tl_Params :: "(string \<times> bool) list"
  tl_Handler :: "jarg gomap \<Rightarrow> (tool_result option, ('w, 'p, 'x) Api) act"

definition NewTool ::
  "string \<Rightarrow> (string \<times> bool) list \<Rightarrow> (jarg gomap \<Rightarrow> (tool_result option, ('w, 'p, 'x) Api) act) \<Rightarrow> ('w, 'p, 'x) Tool" where
  "NewTool name params h = \<lparr>tl_Name = name, tl_Params = params, tl_Handler = h\<rparr>"

definition sandbox_tools :: "('w, 'p) McpLibs \<Rightarrow> ('w, 'p) Controller \<Rightarrow> ('w, 'p, 'x) Tool list" where
  "sandbox_tools l c =
     [NewTool ''sandbox_create'' [(''name'', True), (''blueprint'', True), (''workspace'', False), (''env'', False)]
        (with_answer (tool_SandboxCreate l c)),
      NewTool ''sandbox_list'' [] (with_answer (tool_SandboxList c)),
      NewTool ''sandbox_exec'' [(''name'', True), (''command'', True)] (with_answer (tool_SandboxExec l c)),
      NewTool ''sandbox_stop'' [(''name'', True)] (with_answer (tool_SandboxStop c)),
      NewTool ''sandbox_start'' [(''name'', True)] (with_answer (tool_SandboxStart c)),
      NewTool ''sandbox_destroy'' [(''name'', True)] (with_answer (tool_SandboxDestroy c)),
      NewTool ''sandbox_stats'' [(''name'', True)] (with_answer (tool_SandboxStats c))]"

definition a2a_tools :: "('w, 'p) McpLibs \<Rightarrow> ('w, 'p, 'x) Tool list" where
  "a2a_tools l =
     [NewTool ''a2a_send'' [(''from'', True), (''to'', True), (''type'', True), (''payload'', True)] (with_answer tool_A2ASend),
      NewTool ''a2a_receive'' [(''sandbox_name'', True)] (with_answer (tool_A2AReceive l)),
      NewTool ''a2a_broadcast'' [(''from'', True), (''targets'', True), (''type'', True), (''payload'', True)]
        (with_answer tool_A2ABroadcast)]"

definition matrix_tools :: "('w, 'p) McpLibs \<Rightarrow> ('w, 'p) Controller \<Rightarrow> ('w, 'p, 'x) Tool list" where
  "matrix_tools l c =
     [NewTool ''matrix_shard_task'' [(''matrix'', True), (''tasks'', True), (''strategy'', False)]
        (with_answer (tool_MatrixShardTask l c)),
      NewTool ''matrix_collect_results'' [(''matrix'', True), (''task_id'', True), (''timeout'', False)]
        (tool_MatrixCollectResults l c)]"

definition file_tools :: "('w, 'p) McpLibs \<Rightarrow> ('w, 'p) Controller \<Rightarrow> ('w, 'p, 'x) Tool list" where
  "file_tools l c =
     [NewTool ''sandbox_write_file'' [(''name'', True), (''path'', True), (''content'', True)] (with_answer (tool_SandboxWriteFile c)),
      NewTool ''sandbox_read_file'' [(''name'', True), (''path'', True)] (with_answer (tool_SandboxReadFile l c)),
      NewTool ''blueprint_build'' [(''blueprint'', True)] (with_answer (tool_BlueprintBuild l c)),
      NewTool ''sandbox_ports'' [(''name'', True)] (with_answer (tool_SandboxPorts c))]"

definition code_tools :: "('w, 'p) McpLibs \<Rightarrow> ('w, 'p) Controller \<Rightarrow> ('w, 'p, 'x) Tool list" where
  "code_tools l c =
     [NewTool ''code_interpret'' [(''sandbox'', True), (''language'', True), (''code'', True), (''timeout'', False)]
        (with_answer (tool_CodeInterpret l c)),
      NewTool ''sandbox_ready_wait'' [(''name'', True), (''timeout'', False)] (tool_SandboxReadyWait l c)]"

definition registerTools :: "('w, 'p) McpLibs \<Rightarrow> ('w, 'p) Controller \<Rightarrow> ('w, 'p, 'x) Tool list" where
  "registerTools l c = sandbox_tools l c @ a2a_tools l @ matrix_tools l c @ file_tools l c @ code_tools l c"

text \<open>A call by name, as the protocol library makes it; a name that is not registered is refused.\<close>

definition call_tool ::
  "('w, 'p) McpLibs \<Rightarrow> ('w, 'p) Controller \<Rightarrow> string \<Rightarrow> jarg gomap \<Rightarrow> (tool_result option, ('w, 'p, 'x) Api) act" where
  "call_tool l c name args s =
     (case find (\<lambda>t. tl_Name t = name) (registerTools l c) of
        None \<Rightarrow> (Some (ToolError (''tool '' @ name @ '' not found'')), s)
      | Some t \<Rightarrow> tl_Handler t args s)"

section \<open>Properties\<close>

lemma api_ctrl_run: "api_ctrl a s = (fst (a (ap_ctrl s)), s\<lparr>ap_ctrl := snd (a (ap_ctrl s))\<rparr>)"
  by (simp add: api_ctrl_def split: prod.splits)

lemmas tool_tables = registerTools_def sandbox_tools_def a2a_tools_def matrix_tools_def file_tools_def code_tools_def NewTool_def

lemmas tool_defs = tool_SandboxCreate_def tool_SandboxExec_def tool_SandboxStop_def tool_SandboxStart_def tool_SandboxDestroy_def
  tool_SandboxStats_def tool_A2ASend_def tool_A2AReceive_def tool_A2ABroadcast_def tool_MatrixShardTask_def
  tool_MatrixCollectResults_def tool_SandboxWriteFile_def tool_SandboxReadFile_def tool_BlueprintBuild_def tool_SandboxPorts_def
  tool_CodeInterpret_def tool_SandboxReadyWait_def

text \<open>A handler that asks for \<open>k\<close>, at once or behind another check, refuses a call without it.\<close>

definition needs :: "string \<Rightarrow> ('w, 'p, 'x) tool \<Rightarrow> bool" where
  "needs k t \<longleftrightarrow> (\<forall>args s. arg_str args k = [] \<longrightarrow> (\<exists>m. t args s = (ToolError m, s)))"

lemma needs_first [intro]: "needs k (require_arg k body)"
  by (simp add: needs_def require_arg_def required_error_def Let_def)

lemma needs_later [intro]: "(\<And>v. needs k (body v)) \<Longrightarrow> needs k (require_arg k' body)"
  by (simp add: needs_def require_arg_def required_error_def Let_def)

lemma needs_answer: "needs k t \<Longrightarrow> arg_str args k = [] \<Longrightarrow> \<exists>m. with_answer t args s = (Some (ToolError m), s)"
proof -
  assume n: "needs k t" and a: "arg_str args k = []"
  then obtain m where "t args s = (ToolError m, s)" unfolding needs_def by blast
  then show ?thesis by (simp add: with_answer_def)
qed

lemma tools_need:
  "needs ''name'' (tool_SandboxCreate l c)" "needs ''blueprint'' (tool_SandboxCreate l c)" "needs ''name'' (tool_SandboxExec l c)"
  "needs ''command'' (tool_SandboxExec l c)" "needs ''name'' (tool_SandboxStop c)" "needs ''name'' (tool_SandboxStart c)"
  "needs ''name'' (tool_SandboxDestroy c)" "needs ''name'' (tool_SandboxStats c)" "needs ''from'' tool_A2ASend"
  "needs ''to'' tool_A2ASend" "needs ''type'' tool_A2ASend" "needs ''sandbox_name'' (tool_A2AReceive l)"
  "needs ''from'' tool_A2ABroadcast" "needs ''targets'' tool_A2ABroadcast" "needs ''type'' tool_A2ABroadcast"
  "needs ''matrix'' (tool_MatrixShardTask l c)" "needs ''tasks'' (tool_MatrixShardTask l c)"
  "needs ''name'' (tool_SandboxWriteFile c)" "needs ''path'' (tool_SandboxWriteFile c)" "needs ''name'' (tool_SandboxReadFile l c)"
  "needs ''path'' (tool_SandboxReadFile l c)" "needs ''blueprint'' (tool_BlueprintBuild l c)" "needs ''name'' (tool_SandboxPorts c)"
  "needs ''sandbox'' (tool_CodeInterpret l c)" "needs ''language'' (tool_CodeInterpret l c)" "needs ''code'' (tool_CodeInterpret l c)"
  unfolding tool_defs by (intro needs_first needs_later)+

text \<open>A tool whose handler asks for everything that is declared as required, but for payload and content.\<close>

definition checked :: "('w, 'p, 'x) Tool \<Rightarrow> bool" where
  "checked t \<longleftrightarrow>
     list_all (\<lambda>(p, req). req \<longrightarrow> p \<in> {''payload'', ''content''} \<or>
       (\<forall>args s. arg_str args p = [] \<longrightarrow> (\<exists>m. tl_Handler t args s = (Some (ToolError m), s)))) (tl_Params t)"

lemma checked_NewTool:
  "list_all (\<lambda>(p, req). req \<longrightarrow> p \<in> {''payload'', ''content''} \<or> needs p h) ps \<Longrightarrow> checked (NewTool n ps (with_answer h))"
  using needs_answer by (fastforce simp: checked_def NewTool_def list_all_iff)

lemma waiting_checked:
  "checked (NewTool n [(''matrix'', True), (''task_id'', True), (''timeout'', False)] (tool_MatrixCollectResults l c))"
  "checked (NewTool n [(''name'', True), (''timeout'', False)] (tool_SandboxReadyWait l c))"
  by (simp_all add: checked_def NewTool_def tool_MatrixCollectResults_def tool_SandboxReadyWait_def required_error_def Let_def)

lemma tools_checked: "list_all checked (registerTools l c)"
proof -
  note c = checked_NewTool tools_need waiting_checked
  have "list_all checked (sandbox_tools l c)" by (simp add: sandbox_tools_def c)
  moreover have "list_all checked (a2a_tools l)" by (simp add: a2a_tools_def c)
  moreover have "list_all checked (matrix_tools l c)" by (simp add: matrix_tools_def c)
  moreover have "list_all checked (file_tools l c)" by (simp add: file_tools_def c)
  moreover have "list_all checked (code_tools l c)" by (simp add: code_tools_def c)
  ultimately show ?thesis by (simp add: registerTools_def)
qed

text \<open>C26. Whatever tool is called, when an argument it declares as required is missing, empty or not a string, the
  answer is an error and nothing has changed; the payload of a message and the content of a file may be empty.\<close>

theorem missing_parameter_rejected:
  assumes "t \<in> set (registerTools l c)" and "(p, True) \<in> set (tl_Params t)" and "p \<noteq> ''payload''" and "p \<noteq> ''content''"
    and "arg_str args p = []"
  shows "\<exists>m. tl_Handler t args s = (Some (ToolError m), s)"
  using tools_checked [of l c] assms by (fastforce simp: list_all_iff checked_def)

text \<open>A payload is declared as required too, and yet a message without one is sent.\<close>

lemma empty_payload_sent:
  "fst (call_tool l c ''a2a_send'' [(''from'', JStr ''a''), (''to'', JStr ''b''), (''type'', JStr ''event'')]
     \<lparr>ap_ctrl = s, ap_gateway = Some (New () (\<lambda>n. ''id'') int)\<rparr>) =
   Some (ToolText (err_text (Errorf ''Message sent from %q to %q (type: %s).'' [AStr ''a'', AStr ''b'', AStr ''event''])))"
  by (simp add: call_tool_def tool_tables with_answer_def tool_A2ASend_def require_arg_def arg_str_def with_gateway_def Send_def
      new_message_def with_id_def with_time_def inbox_def New_def maxInboxSize_def tool_text_def Let_def)

text \<open>Copying into a limited buffer.\<close>

lemma io_copy_run:
  assumes "io_copy limit ps buf = (out, e)" and "length buf \<le> limit"
  shows "(length buf + length (concat ps) \<le> limit \<longrightarrow> out = buf @ concat ps \<and> e = None) \<and>
    (e = None \<longrightarrow> out = take limit (buf @ concat ps)) \<and> length out \<le> limit"
  using assms
proof (induction limit ps buf rule: io_copy.induct)
  case (2 limit p ps buf)
  obtain n buf' where w: "limited_Write limit p buf = (n, buf')" by fastforce
  note run = limited_Write_run [OF w "2.prems"(2)]
  show ?case
  proof (cases "n < length p")
    case True
    then have "out = buf'" "e \<noteq> None" using "2.prems"(1) w by auto
    moreover have "\<not> length buf + length p \<le> limit" using run(2) True by simp
    ultimately show ?thesis using run(1) by auto
  next
    case False
    then have r: "io_copy limit ps buf' = (out, e)" using "2.prems"(1) w by simp
    have b: "buf' = take limit (buf @ p)" by (rule run(1))
    then have l: "length buf' \<le> limit" by simp
    note IH = "2.IH" [OF w [symmetric] False r l]
    show ?thesis
    proof (intro conjI impI)
      assume fit: "length buf + length (concat (p # ps)) \<le> limit"
      then have "buf' = buf @ p" using b by simp
      with IH fit show "out = buf @ concat (p # ps)" "e = None" by simp_all
    next
      assume "e = None"
      with IH have "out = take limit (take limit (buf @ p) @ concat ps)" using b by blast
      then show "out = take limit (buf @ concat (p # ps))"
        using take_take_append(2) [of limit "buf @ p" "concat ps"] by (simp only: concat.simps append_assoc)
    next
      show "length out \<le> limit" using IH by blast
    qed
  qed
qed auto

text \<open>A file that is read through the tool comes back whole when it fits into 10 MiB; of a longer one, the
  agent gets the first 10 MiB as if that were all, or an error, depending on how the reader cuts it into pieces.\<close>

theorem read_file_bounded:
  assumes "concat (ml_chunks l content) = content" and "arg_str args ''name'' = name" and "arg_str args ''path'' = path"
    and "name \<noteq> []" and "path \<noteq> []" and "api_ctrl (ReadFile c name path) s = (Inr content, s1)"
  shows "snd (tool_SandboxReadFile l c args s) = s1 \<and>
    (if length content \<le> maxExecOutputSize then fst (tool_SandboxReadFile l c args s) = ToolText content
     else fst (tool_SandboxReadFile l c args s) = ToolText (take maxExecOutputSize content) \<or>
       (\<exists>m. fst (tool_SandboxReadFile l c args s) = ToolError m))"
proof -
  obtain out e where o: "io_copy maxExecOutputSize (ml_chunks l content) [] = (out, e)" by fastforce
  from io_copy_run [OF o] show ?thesis
    using assms o by (cases e) (auto simp: tool_SandboxReadFile_def require_arg_def tool_fail_def Let_def)
qed

lemma ready_loop_ends:
  assumes "RDeadline \<in> set es \<or> RCanceled \<in> set es"
  shows "\<exists>ans s'. ready_loop c name timeout es s = (Some ans, s') \<and>
    (\<forall>t. ans = ToolText t \<longrightarrow> (\<exists>s1 sb. Get c name s1 = (Inr sb, s') \<and> st_State (sb_Status sb) = Ready))"
  using assms
proof (induction c name timeout es s rule: ready_loop.induct)
  case (4 c name timeout others es s)
  obtain r s1 where g: "Get c name (others s) = (r, s1)" by fastforce
  show ?case
  proof (cases "ready_answer name r")
    case None
    with g 4 show ?thesis by simp
  next
    case (Some ans)
    have "st_State (sb_Status sb) = Ready" if "r = Inr sb" "ans = ToolText t" for sb t
      using Some that by (auto simp: ready_answer_def tool_fail_def split: if_splits)
    moreover have "ans \<noteq> ToolText t" if "r = Inl e" for e t
      using Some that by (auto simp: ready_answer_def tool_fail_def)
    ultimately show ?thesis using g Some by (cases r) auto
  qed
qed auto

text \<open>Waiting for readiness ends when the deadline passes or the call is cancelled, at the latest; an answer that
  the sandbox is ready comes from a record in state Ready that was read at the last tick.\<close>

theorem ready_wait_ends:
  assumes "\<And>d. RDeadline \<in> set (ml_waits l d) \<or> RCanceled \<in> set (ml_waits l d)"
  shows "\<exists>ans s'. tool_SandboxReadyWait l c args s = (Some ans, s') \<and>
    (\<forall>t. ans = ToolText t \<longrightarrow>
      (\<exists>s1 sb. Get c (arg_str args ''name'') s1 = (Inr sb, ap_ctrl s') \<and> st_State (sb_Status sb) = Ready))"
proof (cases "arg_str args ''name'' = []")
  case True
  then show ?thesis by (simp add: tool_SandboxReadyWait_def required_error_def Let_def)
next
  case False
  define t where "t = timeout_arg 60 args"
  from ready_loop_ends [OF assms] obtain ans s' where
    "ready_loop c (arg_str args ''name'') t (ml_waits l (wrap64 (t * 1000000000))) (ap_ctrl s) = (Some ans, s')"
    "\<forall>u. ans = ToolText u \<longrightarrow> (\<exists>s1 sb. Get c (arg_str args ''name'') s1 = (Inr sb, s') \<and> st_State (sb_Status sb) = Ready)" by blast
  with False show ?thesis by (simp add: tool_SandboxReadyWait_def t_def api_ctrl_def Let_def)
qed

section \<open>A small installation\<close>

definition demo_libs :: "(simd, persist) McpLibs" where
  "demo_libs =
     \<lparr>ml_env = (\<lambda>t. Inr []), ml_tasks = (\<lambda>t. Inr []), ml_marshal_map = (\<lambda>m. Inr (concat (map snd m))),
      ml_marshal_built = (\<lambda>b. Inr (br_ImageTag b)), ml_marshal_messages = (\<lambda>ms. Inr (concat (map msg_Payload ms))),
      ml_marshal_task = tk_ID, ml_marshal_sharded = (\<lambda>n m k st. itoa n), ml_marshal_result = FormatSummary,
      ml_task_result = (\<lambda>t. Inl (ExtErr ''no result'')), ml_files = (\<lambda>t. Inr []), ml_frames = (\<lambda>out err. [(True, out), (False, err)]),
      ml_chunks = (\<lambda>t. [take 4 t, drop 4 t]), ml_wakes = (\<lambda>t. [Deadline]),
      ml_waits = (\<lambda>d. [RTick id, RTick (\<lambda>s. snd (on_ps (kv_Save sandboxes_in
          (demo_box\<lparr>sb_Status := (sb_Status demo_box)\<lparr>st_State := Ready\<rparr>\<rparr>)) s)), RDeadline]),
      ml_committer = Some (docker_committer sim_client), ml_short = ''1a2b3c4d''\<rparr>"

definition reading :: "(simd, persist) Controller" where
  "reading = (deployed demo_host)\<lparr>ct_runtime := (ct_runtime (deployed demo_host))\<lparr>rt_CopyFromContainer :=
     (\<lambda>i p w. (Inr ''package main'', w))\<rparr>\<rparr>"

definition demo_agent :: "(simd, persist, unit) Api" where
  "demo_agent = \<lparr>ap_ctrl = demo_created, ap_gateway = None\<rparr>"

theorem read_file_bounded_witness:
  "fst (tool_SandboxReadFile demo_libs reading [(''name'', JStr ''a''), (''path'', JStr ''/m.go'')] demo_agent) =
     ToolText ''package main''"
proof -
  let ?r = "api_ctrl (ReadFile reading ''a'' ''/m.go'') demo_agent"
  have f: "fst (ReadFile reading ''a'' ''/m.go'' demo_created) = Inr ''package main''" by code_simp
  have "fst ?r = Inr ''package main''" using f by (simp add: api_ctrl_run demo_agent_def)
  then have r: "?r = (Inr ''package main'', snd ?r)" by (metis prod.collapse)
  show ?thesis
    using read_file_bounded [OF _ _ _ _ _ r, of demo_libs "[(''name'', JStr ''a''), (''path'', JStr ''/m.go'')]"]
    by (simp add: demo_libs_def arg_str_def maxExecOutputSize_def)
qed

theorem ready_wait_ends_witness:
  "\<exists>s' s1 sb. tool_SandboxReadyWait demo_libs (deployed demo_host) [(''name'', JStr ''a'')] demo_agent =
      (Some (tool_text ''Sandbox %q is ready.'' [AStr ''a'']), s') \<and>
    Get (deployed demo_host) ''a'' s1 = (Inr sb, ap_ctrl s') \<and> st_State (sb_Status sb) = Ready"
proof -
  let ?args = "[(''name'', JStr ''a'')]" and ?c = "deployed demo_host"
  have d: "\<And>d. RDeadline \<in> set (ml_waits demo_libs d) \<or> RCanceled \<in> set (ml_waits demo_libs d)"
    by (simp add: demo_libs_def)
  from ready_wait_ends [of demo_libs, OF d] obtain ans s' where a: "tool_SandboxReadyWait demo_libs ?c ?args demo_agent = (Some ans, s')"
    "\<forall>t. ans = ToolText t \<longrightarrow> (\<exists>s1 sb. Get ?c (arg_str ?args ''name'') s1 = (Inr sb, ap_ctrl s') \<and> st_State (sb_Status sb) = Ready)"
    by blast
  have "fst (ready_loop ?c ''a'' 60 (ml_waits demo_libs 0) demo_created) = Some (tool_text ''Sandbox %q is ready.'' [AStr ''a''])"
    by code_simp
  moreover have "fst (tool_SandboxReadyWait demo_libs ?c ?args demo_agent) = fst (ready_loop ?c ''a'' 60 (ml_waits demo_libs 0) demo_created)"
    by (simp add: tool_SandboxReadyWait_def arg_str_def timeout_arg_def demo_agent_def api_ctrl_run demo_libs_def Let_def)
  ultimately have "ans = tool_text ''Sandbox %q is ready.'' [AStr ''a'']" using a(1) by simp
  with a show ?thesis by (auto simp: tool_text_def arg_str_def)
qed

theorem missing_parameter_rejected_witness:
  "\<exists>m. tl_Handler (registerTools demo_libs reading ! 2) [(''name'', JStr ''a''), (''command'', JOther)] demo_agent = (Some (ToolError m), demo_agent)"
proof (rule missing_parameter_rejected [of _ demo_libs reading "''command''"])
  show "registerTools demo_libs reading ! 2 \<in> set (registerTools demo_libs reading)" by (simp add: tool_tables)
  show "(''command'', True) \<in> set (tl_Params (registerTools demo_libs reading ! 2))" by (simp add: tool_tables)
qed (simp_all add: arg_str_def)

end
