(* ===== verification/Autoscale.thy ===== *)
theory Autoscale
  imports Server Deployment
begin

text \<open>
  \<open>internal/autoscale/autoscaler.go\<close> and \<open>internal/server/autoscale_handlers.go\<close>: the autoscaler shrinks, pauses and restores
  sandboxes according to the pressure on the host. The state is the record \<open>Autoscaler\<close>, which holds the state of the backend, too.
  A step that may panic returns a flag next to its state: \<open>False\<close> is a run-time panic, which keeps what was changed before it. \<open>reconcile\<close> reads the host without the mutex (\<open>measure\<close>) and then adjusts the
  sandboxes under the mutex (\<open>adjust\<close>), so other operations may come between the two. The loop is alive as long as its
  context is (\<open>az_loop\<close>), a context being that of the process or that of an HTTP request.
\<close>

section \<open>Types\<close>

record ScaleConfig =
  sg_Enabled :: bool
  sg_Interval :: int
  sg_MemoryHighWater :: f64
  sg_MemoryLowWater :: f64
  sg_CPUHighWater :: f64
  sg_CPULowWater :: f64
  sg_MinMemoryPerSandbox :: int
  sg_MinCPUPerSandbox :: f64

text \<open>A decimal constant of the source, rounded to \<open>float64\<close>.\<close>

definition dec :: "rat \<Rightarrow> f64" where
  "dec q = rnd q"

definition DefaultConfig :: ScaleConfig where
  "DefaultConfig =
     \<lparr>sg_Enabled = False, sg_Interval = 10 * 10 ^ 9, sg_MemoryHighWater = dec (80 / 100), sg_MemoryLowWater = dec (50 / 100),
      sg_CPUHighWater = dec (85 / 100), sg_CPULowWater = dec (40 / 100), sg_MinMemoryPerSandbox = 64 * 1024 * 1024,
      sg_MinCPUPerSandbox = dec (1 / 10)\<rparr>"

datatype PressureLevel = PressureNone | PressureNormal | PressureHigh | PressureCritical

primrec level_num :: "PressureLevel \<Rightarrow> nat" where
  "level_num PressureNone = 0"
| "level_num PressureNormal = 1"
| "level_num PressureHigh = 2"
| "level_num PressureCritical = 3"

instantiation PressureLevel :: linorder
begin

definition "p \<le> q \<longleftrightarrow> level_num p \<le> level_num q" for p q :: PressureLevel
definition "p < q \<longleftrightarrow> level_num p < level_num q" for p q :: PressureLevel

instance
proof
  fix x y :: PressureLevel
  show "x \<le> y \<Longrightarrow> y \<le> x \<Longrightarrow> x = y" by (cases x; cases y) (simp_all add: less_eq_PressureLevel_def)
qed (auto simp: less_eq_PressureLevel_def less_PressureLevel_def)

end

record ScaledSandbox =
  zs_Name :: string
  zs_RuntimeID :: string
  zs_Priority :: int
  zs_OriginalCPU :: string
  zs_OriginalMemory :: string
  zs_CurrentScale :: f64
  zs_Paused :: bool

datatype scale_ctx = Background | OfRequest

record 'w Autoscaler =
  az_cfg :: ScaleConfig
  az_sandboxes :: "ScaledSandbox gomap"
  az_loop :: "scale_ctx option"
  az_running :: bool
  az_world :: 'w

definition New_autoscaler :: "ScaleConfig \<Rightarrow> 'w \<Rightarrow> 'w Autoscaler" where
  "New_autoscaler cfg w = \<lparr>az_cfg = cfg, az_sandboxes = [], az_loop = None, az_running = False, az_world = w\<rparr>"

section \<open>Quantities\<close>

definition default_memory :: int where
  "default_memory = 512 * 1024 * 1024"

definition f1024 :: f64 where
  "f1024 = Fin 1024"

definition unit_multiplier :: "string \<Rightarrow> int option" where
  "unit_multiplier u =
     (if u = ''T'' then Some (1024 * 1024 * 1024 * 1024) else if u = ''G'' then Some (1024 * 1024 * 1024)
      else if u = ''M'' then Some (1024 * 1024) else if u = ''K'' then Some 1024 else None)"

definition parseMemoryBytes :: "string \<Rightarrow> int option" where
  "parseMemoryBytes s0 =
     (if s0 = '''' then Some default_memory
      else let s = TrimSpace s0 in
        if HasSuffix s ''Gi'' then
          Some (case ParseFloat (TrimSuffix s ''Gi'') of
                  Some v \<Rightarrow> int64_of_f64 (fmul (fmul (fmul v f1024) f1024) f1024) | None \<Rightarrow> default_memory)
        else if HasSuffix s ''Mi'' then
          Some (case ParseFloat (TrimSuffix s ''Mi'') of
                  Some v \<Rightarrow> int64_of_f64 (fmul (fmul v f1024) f1024) | None \<Rightarrow> default_memory)
        else if s = '''' then None
        else (case unit_multiplier (ToUpper [last s]) of
           None \<Rightarrow> Some (case ParseInt s of Some v \<Rightarrow> v | None \<Rightarrow> default_memory)
         | Some multiplier \<Rightarrow>
             Some (case ParseFloat (butlast s) of
                     Some v \<Rightarrow> int64_of_f64 (fmul v (f64_of_int multiplier)) | None \<Rightarrow> default_memory)))"

definition parseCPUCores :: "string \<Rightarrow> f64" where
  "parseCPUCores s =
     (if s = '''' then Fin 1
      else case ParseFloat (TrimSpace s) of
        None \<Rightarrow> Fin 1
      | Some v \<Rightarrow> if v = Fin 0 \<or> flt v (Fin 0) then Fin 1 else v)"

definition maxFloat :: "f64 \<Rightarrow> f64 \<Rightarrow> f64" where
  "maxFloat a b = (if flt b a then a else b)"

definition safeDiv :: "f64 \<Rightarrow> f64 \<Rightarrow> f64" where
  "safeDiv num denom = (if denom = Fin 0 then Fin 0 else fdiv num denom)"

section \<open>Pressure\<close>

definition level_of :: "f64 \<Rightarrow> f64 \<Rightarrow> f64 \<Rightarrow> PressureLevel" where
  "level_of u high low =
     (if flt (fadd high (dec (1 / 10))) u then PressureCritical
      else if flt high u then PressureHigh
      else if flt low u then PressureNormal
      else PressureNone)"

definition memoryPressure :: "ScaleConfig \<Rightarrow> HostResources \<Rightarrow> PressureLevel" where
  "memoryPressure cfg host =
     (if hr_TotalMemory host = 0 then PressureNone
      else level_of (fdiv (f64_of_int (hr_UsedMemory host)) (f64_of_int (hr_TotalMemory host)))
        (sg_MemoryHighWater cfg) (sg_MemoryLowWater cfg))"

definition cpuPressure :: "ScaleConfig \<Rightarrow> HostResources \<Rightarrow> PressureLevel" where
  "cpuPressure cfg host = level_of (fdiv (hr_CPUPercent host) (Fin 100)) (sg_CPUHighWater cfg) (sg_CPULowWater cfg)"

section \<open>Adjusting sandboxes\<close>

text \<open>A loop over the tracked sandboxes, whose body may change the sandbox it is at.\<close>

type_synonym 'w scale_step = "ScaledSandbox \<Rightarrow> 'w \<Rightarrow> bool \<times> ScaledSandbox \<times> 'w"

fun each_sandbox :: "'w scale_step \<Rightarrow> ScaledSandbox gomap \<Rightarrow> 'w \<Rightarrow> bool \<times> ScaledSandbox gomap \<times> 'w" where
  "each_sandbox f [] w = (True, [], w)"
| "each_sandbox f ((k, s) # m) w =
     (case f s w of (ok, s', w1) \<Rightarrow>
      if \<not> ok then (False, (k, s') # m, w1)
      else (case each_sandbox f m w1 of (ok', m', w2) \<Rightarrow> (ok', (k, s') # m', w2)))"

definition resource_update :: "ScaleConfig \<Rightarrow> ScaledSandbox \<Rightarrow> f64 \<Rightarrow> ResourceUpdate option" where
  "resource_update cfg s scale =
     (case parseMemoryBytes (zs_OriginalMemory s) of
        None \<Rightarrow> None
      | Some origMem \<Rightarrow>
          let origCPU = parseCPUCores (zs_OriginalCPU s);
              newMem = int64_of_f64 (fmul (f64_of_int origMem) scale);
              newCPU = fmul origCPU scale;
              mem = (if newMem < sg_MinMemoryPerSandbox cfg then sg_MinMemoryPerSandbox cfg else newMem);
              cpu = (if flt newCPU (sg_MinCPUPerSandbox cfg) then sg_MinCPUPerSandbox cfg else newCPU) in
          Some \<lparr>ru_CPUQuota = int64_of_f64 (fmul cpu (Fin 100000)), ru_Memory = mem\<rparr>)"

definition scaleSandbox :: "'w Runtime \<Rightarrow> ScaleConfig \<Rightarrow> f64 \<Rightarrow> 'w scale_step" where
  "scaleSandbox rt cfg scale s w =
     (case resource_update cfg s scale of
        None \<Rightarrow> (False, s, w)
      | Some update \<Rightarrow>
          (case rt_UpdateResources rt (zs_RuntimeID s) update w of
             (Inl _, w1) \<Rightarrow> (True, s, w1)
           | (Inr _, w1) \<Rightarrow> (True, s\<lparr>zs_CurrentScale := scale\<rparr>, w1)))"

definition expand_one :: "'w Runtime \<Rightarrow> ScaleConfig \<Rightarrow> 'w scale_step" where
  "expand_one rt cfg s w =
     (case (if zs_Paused s then rt_Unpause rt (zs_RuntimeID s) w else (Inr (), w)) of
        (Inl _, w1) \<Rightarrow> (True, s, w1)
      | (Inr _, w1) \<Rightarrow>
          let s1 = s\<lparr>zs_Paused := False\<rparr> in
          if flt (zs_CurrentScale s1) (Fin 1) then scaleSandbox rt cfg (Fin 1) s1 w1 else (True, s1, w1))"

definition priority_scale :: "f64 \<Rightarrow> int \<Rightarrow> f64" where
  "priority_scale targetScale priority =
     (if priority = PriorityCritical then maxFloat targetScale (dec (75 / 100))
      else if priority = PriorityHigh then maxFloat targetScale (dec (50 / 100))
      else if priority = PriorityLow then fmul targetScale (dec (1 / 2))
      else targetScale)"

text \<open>\<open>!=\<close> on \<open>float64\<close>: a NaN differs from everything.\<close>

definition fne :: "f64 \<Rightarrow> f64 \<Rightarrow> bool" where
  "fne x y \<longleftrightarrow> x = NaN \<or> y = NaN \<or> x \<noteq> y"

definition shrink_one :: "'w Runtime \<Rightarrow> ScaleConfig \<Rightarrow> f64 \<Rightarrow> 'w scale_step" where
  "shrink_one rt cfg targetScale s w =
     (if zs_Paused s then (True, s, w)
      else let scale = priority_scale targetScale (zs_Priority s) in
        if fne (zs_CurrentScale s) scale then scaleSandbox rt cfg scale s w else (True, s, w))"

definition pause_one :: "'w Runtime \<Rightarrow> 'w scale_step" where
  "pause_one rt s w =
     (if zs_Priority s \<le> PriorityLow \<and> \<not> zs_Paused s then
        (case rt_Pause rt (zs_RuntimeID s) w of
           (Inl _, w1) \<Rightarrow> (True, s, w1)
         | (Inr _, w1) \<Rightarrow> (True, s\<lparr>zs_Paused := True, zs_CurrentScale := Fin 0\<rparr>, w1))
      else (True, s, w))"

definition over_sandboxes :: "'w scale_step \<Rightarrow> 'w Autoscaler \<Rightarrow> bool \<times> 'w Autoscaler" where
  "over_sandboxes f a =
     (case each_sandbox f (az_sandboxes a) (az_world a) of (ok, m, w) \<Rightarrow> (ok, a\<lparr>az_sandboxes := m, az_world := w\<rparr>))"

definition expandAll :: "'w Runtime \<Rightarrow> 'w Autoscaler \<Rightarrow> bool \<times> 'w Autoscaler" where
  "expandAll rt a = over_sandboxes (expand_one rt (az_cfg a)) a"

definition shrinkByPriority :: "'w Runtime \<Rightarrow> f64 \<Rightarrow> 'w Autoscaler \<Rightarrow> bool \<times> 'w Autoscaler" where
  "shrinkByPriority rt targetScale a = over_sandboxes (shrink_one rt (az_cfg a) targetScale) a"

definition pauseLowPriority :: "'w Runtime \<Rightarrow> 'w Autoscaler \<Rightarrow> bool \<times> 'w Autoscaler" where
  "pauseLowPriority rt a = over_sandboxes (pause_one rt) a"

definition measure_host :: "'w Runtime \<Rightarrow> 'w Autoscaler \<Rightarrow> PressureLevel option \<times> 'w Autoscaler" where
  "measure_host rt a =
     (case rt_HostInfo rt (az_world a) of
        (Inl _, w1) \<Rightarrow> (None, a\<lparr>az_world := w1\<rparr>)
      | (Inr host, w1) \<Rightarrow>
          let memP = memoryPressure (az_cfg a) host; cpuP = cpuPressure (az_cfg a) host in
          (Some (if cpuP > memP then cpuP else memP), a\<lparr>az_world := w1\<rparr>))"

fun adjust :: "'w Runtime \<Rightarrow> PressureLevel \<Rightarrow> 'w Autoscaler \<Rightarrow> bool \<times> 'w Autoscaler" where
  "adjust rt PressureNone a = expandAll rt a"
| "adjust rt PressureNormal a = (True, a)"
| "adjust rt PressureHigh a = shrinkByPriority rt (Fin (1 / 2)) a"
| "adjust rt PressureCritical a =
     (case pauseLowPriority rt a of (ok, a1) \<Rightarrow> if ok then shrinkByPriority rt (Fin (1 / 4)) a1 else (False, a1))"

definition reconcile :: "'w Runtime \<Rightarrow> 'w Autoscaler \<Rightarrow> bool \<times> 'w Autoscaler" where
  "reconcile rt a =
     (case measure_host rt a of (None, a1) \<Rightarrow> (True, a1) | (Some p, a1) \<Rightarrow> adjust rt p a1)"

section \<open>Operations\<close>

text \<open>\<open>loop\<close> reconciles at every tick of the ticker, as long as its context is not cancelled.\<close>

definition loop_tick :: "'w Runtime \<Rightarrow> 'w Autoscaler \<Rightarrow> bool \<times> 'w Autoscaler" where
  "loop_tick rt a = (if az_loop a = None then (True, a) else reconcile rt a)"

definition Start_scaler :: "scale_ctx \<Rightarrow> 'w Autoscaler \<Rightarrow> 'w Autoscaler" where
  "Start_scaler ctx a = (if az_running a then a else a\<lparr>az_running := True, az_loop := Some ctx\<rparr>)"

definition Stop_scaler :: "'w Runtime \<Rightarrow> 'w Autoscaler \<Rightarrow> bool \<times> 'w Autoscaler" where
  "Stop_scaler rt a = (if az_running a then expandAll rt (a\<lparr>az_running := False, az_loop := None\<rparr>) else (True, a))"

definition IsRunning :: "'w Autoscaler \<Rightarrow> bool" where
  "IsRunning a = az_running a"

definition SetPriority :: "string \<Rightarrow> int \<Rightarrow> 'w Autoscaler \<Rightarrow> 'w Autoscaler" where
  "SetPriority name priority a =
     (case gm_get (az_sandboxes a) name of
        None \<Rightarrow> a
      | Some s \<Rightarrow> a\<lparr>az_sandboxes := gm_set name (s\<lparr>zs_Priority := priority\<rparr>) (az_sandboxes a)\<rparr>)"

definition RegisterSandbox :: "string \<Rightarrow> string \<Rightarrow> string \<Rightarrow> string \<Rightarrow> int \<Rightarrow> 'w Autoscaler \<Rightarrow> 'w Autoscaler" where
  "RegisterSandbox name runtimeID cpu memory priority a =
     a\<lparr>az_sandboxes := gm_set name
        \<lparr>zs_Name = name, zs_RuntimeID = runtimeID, zs_Priority = priority, zs_OriginalCPU = cpu, zs_OriginalMemory = memory,
         zs_CurrentScale = Fin 1, zs_Paused = False\<rparr> (az_sandboxes a)\<rparr>"

definition UnregisterSandbox :: "string \<Rightarrow> 'w Autoscaler \<Rightarrow> 'w Autoscaler" where
  "UnregisterSandbox name a = a\<lparr>az_sandboxes := gm_del name (az_sandboxes a)\<rparr>"

record SandboxStatus_scale =
  ssx_Name :: string
  ssx_Priority :: int
  ssx_Scale :: f64
  ssx_Paused :: bool

record StatusInfo =
  si_Enabled :: bool
  si_Running :: bool
  si_HostMemoryUsed :: f64
  si_HostCPUUsed :: f64
  si_MemoryPressure :: PressureLevel
  si_CPUPressure :: PressureLevel
  si_ManagedCount :: int
  si_PausedCount :: int
  si_Sandboxes :: "SandboxStatus_scale list"

definition pausedCount :: "'w Autoscaler \<Rightarrow> int" where
  "pausedCount a = int (length (filter (zs_Paused \<circ> snd) (az_sandboxes a)))"

definition Status_scaler :: "'w Runtime \<Rightarrow> (StatusInfo res, 'w Autoscaler) act" where
  "Status_scaler rt a =
     (case rt_HostInfo rt (az_world a) of
        (Inl e, w1) \<Rightarrow> (Inl e, a\<lparr>az_world := w1\<rparr>)
      | (Inr host, w1) \<Rightarrow>
          (Inr \<lparr>si_Enabled = sg_Enabled (az_cfg a), si_Running = az_running a,
             si_HostMemoryUsed = safeDiv (f64_of_int (hr_UsedMemory host)) (f64_of_int (hr_TotalMemory host)),
             si_HostCPUUsed = fdiv (hr_CPUPercent host) (Fin 100),
             si_MemoryPressure = memoryPressure (az_cfg a) host, si_CPUPressure = cpuPressure (az_cfg a) host,
             si_ManagedCount = int (length (az_sandboxes a)), si_PausedCount = pausedCount a,
             si_Sandboxes = map (\<lambda>(k, s). \<lparr>ssx_Name = zs_Name s, ssx_Priority = zs_Priority s, ssx_Scale = zs_CurrentScale s,
                ssx_Paused = zs_Paused s\<rparr>) (az_sandboxes a)\<rparr>,
           a\<lparr>az_world := w1\<rparr>))"

section \<open>Handlers\<close>

datatype scale_body = JScaleStatus StatusInfo | JScaleDone "string gomap"

text \<open>A handler that panics writes no answer: \<open>None\<close>. The mutex is released by a deferred call.\<close>

type_synonym 'w scale_handler = "Request \<Rightarrow> 'w Autoscaler option \<Rightarrow> scale_body Response option \<times> 'w Autoscaler option"

definition with_scaler :: "('w Autoscaler \<Rightarrow> scale_body Response option \<times> 'w Autoscaler option) \<Rightarrow> 'w scale_handler" where
  "with_scaler k r as =
     (case as of
        None \<Rightarrow> (Some (errorResponse StatusServiceUnavailable ''autoscaler not configured''), None)
      | Some a \<Rightarrow> k a)"

definition handleAutoscaleStatus :: "'w Runtime \<Rightarrow> 'w scale_handler" where
  "handleAutoscaleStatus rt = with_scaler (\<lambda>a.
     case Status_scaler rt a of
       (Inl e, a1) \<Rightarrow> (Some (errorResponse StatusInternalServerError (err_text e)), Some a1)
     | (Inr st, a1) \<Rightarrow> (Some (jsonResponse StatusOK (JScaleStatus st)), Some a1))"

text \<open>The context of a request is cancelled when its handler returns.\<close>

definition end_request :: "'w Autoscaler \<Rightarrow> 'w Autoscaler" where
  "end_request a = (if az_loop a = Some OfRequest then a\<lparr>az_loop := None\<rparr> else a)"

definition handleAutoscaleEnable :: "'w scale_handler" where
  "handleAutoscaleEnable = with_scaler (\<lambda>a.
     (Some (jsonResponse StatusOK (JScaleDone [(''status'', ''enabled'')])), Some (end_request (Start_scaler OfRequest a))))"

definition handleAutoscaleDisable :: "'w Runtime \<Rightarrow> 'w scale_handler" where
  "handleAutoscaleDisable rt = with_scaler (\<lambda>a.
     case Stop_scaler rt a of
(ok, a1) \<Rightarrow>
       ((if ok then Some (jsonResponse StatusOK (JScaleDone [(''status'', ''disabled'')])) else None), Some a1))"

definition handleSetPriority :: "(string \<Rightarrow> bool \<Rightarrow> int res) \<Rightarrow> 'w scale_handler" where
  "handleSetPriority decode r = with_scaler (\<lambda>a.
     let name = gm_str (rq_PathValue r) ''name'' in
     if name = '''' then (Some (errorResponse StatusBadRequest ''sandbox name is required''), Some a)
     else case rq_Body r of
       None \<Rightarrow> (Some (errorResponse StatusBadRequest ''request body is required''), Some a)
     | Some body \<Rightarrow>
         (case decode (take maxRequestBodySize body) (length body > maxRequestBodySize) of
            Inl e \<Rightarrow> (Some (errorResponse StatusBadRequest (''invalid JSON: '' @ err_text e)), Some a)
          | Inr priority \<Rightarrow>
              if priority < 0 \<or> priority > 3 then (Some (errorResponse StatusBadRequest ''priority must be 0-3''), Some a)
              else (Some (jsonResponse StatusOK (JScaleDone [(''status'', ''updated''), (''name'', name)])),
                    Some (SetPriority name priority a)))) r"

section \<open>Scales\<close>

lemma rnd_unit:
  assumes "rnd_pos q = v" and "0 < q" and "v \<le> 1"
  shows "rnd q = Fin v"
proof -
  have "(1::rat) < 2 ^ 1024" by (rule one_less_power) simp_all
  with assms show ?thesis by (simp add: rnd_def Let_def)
qed

lemma rnd_3_4: "rnd (3 / 4) = Fin (3 / 4)" by (rule rnd_unit) (code_simp, simp, simp)
lemma rnd_1_2: "rnd (1 / 2) = Fin (1 / 2)" by (rule rnd_unit) (code_simp, simp, simp)
lemma rnd_1_4: "rnd (1 / 4) = Fin (1 / 4)" by (rule rnd_unit) (code_simp, simp, simp)
lemma rnd_1_8: "rnd (1 / 8) = Fin (1 / 8)" by (rule rnd_unit) (code_simp, simp, simp)

lemma decs [simp]: "dec (3 / 4) = Fin (3 / 4)" "dec (1 / 2) = Fin (1 / 2)" "rnd (1 / 4) = Fin (1 / 4)" "rnd (1 / 8) = Fin (1 / 8)"
  by (simp_all add: dec_def rnd_3_4 rnd_1_2 rnd_1_4 rnd_1_8)

definition scales :: "f64 set" where
  "scales = {Fin 0, Fin (1 / 8), Fin (1 / 4), Fin (1 / 2), Fin (3 / 4), Fin 1}"

lemma priority_scale_half:
  "priority_scale (Fin (1 / 2)) p = (if p = PriorityCritical then Fin (3 / 4) else if p = PriorityLow then Fin (1 / 4) else Fin (1 / 2))"
  by (simp add: priority_scale_def maxFloat_def)

lemma priority_scale_quarter:
  "priority_scale (Fin (1 / 4)) p = (if p = PriorityCritical then Fin (3 / 4) else if p = PriorityHigh then Fin (1 / 2)
     else if p = PriorityLow then Fin (1 / 8) else Fin (1 / 4))"
  by (simp add: priority_scale_def maxFloat_def)

lemmas priority_scales = priority_scale_half priority_scale_quarter

section \<open>The invariant of the tracked sandboxes\<close>

definition scaled_ok :: "string \<times> ScaledSandbox \<Rightarrow> bool" where
  "scaled_ok e \<longleftrightarrow> (case e of (k, s) \<Rightarrow> zs_Name s = k \<and> zs_CurrentScale s \<in> scales \<and> (zs_Paused s \<longrightarrow> zs_CurrentScale s = Fin 0))"

text \<open>A step that keeps a property of a tracked sandbox keeps it in a loop.\<close>

definition step_keeps :: "(string \<times> ScaledSandbox \<Rightarrow> bool) \<Rightarrow> 'w scale_step \<Rightarrow> bool" where
  "step_keeps P f \<longleftrightarrow> (\<forall>k s w. P (k, s) \<longrightarrow> P (k, fst (snd (f s w))))"

definition all_tracked :: "(string \<times> ScaledSandbox \<Rightarrow> bool) \<Rightarrow> 'w Autoscaler \<Rightarrow> bool" where
  "all_tracked P a \<longleftrightarrow> gm_wf (az_sandboxes a) \<and> (\<forall>e \<in> set (az_sandboxes a). P e)"

lemma each_sandbox_keeps:
  assumes "step_keeps P f" and "\<forall>e \<in> set m. P e"
  shows "(\<forall>e \<in> set (fst (snd (each_sandbox f m w))). P e) \<and> map fst (fst (snd (each_sandbox f m w))) = map fst m"
  using assms
proof (induction f m w rule: each_sandbox.induct)
  case (2 f k s m w)
  obtain ok s' w1 where f: "f s w = (ok, s', w1)" by (metis prod_cases3)
  have "P (k, fst (snd (f s w)))" using "2.prems"(1) unfolding step_keeps_def by (meson "2.prems"(2) list.set_intros(1))
  with f have s': "P (k, s')" by simp
  show ?case
  proof (cases ok)
    case True
    with "2.IH" [OF f [symmetric] refl] "2.prems" have
      "(\<forall>e \<in> set (fst (snd (each_sandbox f m w1))). P e) \<and> map fst (fst (snd (each_sandbox f m w1))) = map fst m" by simp
    with f s' True show ?thesis by (auto split: prod.splits)
  qed (use f s' "2.prems" in auto)
qed simp

lemma over_sandboxes_keeps:
  assumes "step_keeps P f" and "all_tracked P a"
  shows "all_tracked P (snd (over_sandboxes f a))"
  using each_sandbox_keeps [OF assms(1), of "az_sandboxes a" "az_world a"] assms(2)
  by (auto simp: over_sandboxes_def all_tracked_def split: prod.splits)

text \<open>The four steps of a property of tracked sandboxes that does not depend on the backend.\<close>

definition scale_kept :: "(string \<times> ScaledSandbox \<Rightarrow> bool) \<Rightarrow> bool" where
  "scale_kept P \<longleftrightarrow> (\<forall>k s. P (k, s) \<longrightarrow>
     P (k, s\<lparr>zs_Paused := False\<rparr>) \<and> P (k, s\<lparr>zs_Paused := False, zs_CurrentScale := Fin 1\<rparr>) \<and>
     (\<not> zs_Paused s \<longrightarrow> P (k, s\<lparr>zs_CurrentScale := priority_scale (Fin (1 / 2)) (zs_Priority s)\<rparr>) \<and>
       P (k, s\<lparr>zs_CurrentScale := priority_scale (Fin (1 / 4)) (zs_Priority s)\<rparr>)) \<and>
     (zs_Priority s \<le> PriorityLow \<longrightarrow> P (k, s\<lparr>zs_Paused := True, zs_CurrentScale := Fin 0\<rparr>)))"

lemma scaleSandbox_cases:
  obtains w' where "scaleSandbox rt cfg scale s w = (False, s, w')" | w' where "scaleSandbox rt cfg scale s w = (True, s, w')"
  | w' where "scaleSandbox rt cfg scale s w = (True, s\<lparr>zs_CurrentScale := scale\<rparr>, w')"
proof (cases "resource_update cfg s scale")
  case None
  then show thesis using that(1) by (simp add: scaleSandbox_def)
next
  case (Some u)
  obtain r w' where "rt_UpdateResources rt (zs_RuntimeID s) u w = (r, w')" by fastforce
  with Some show thesis using that(2,3) by (cases r) (auto simp: scaleSandbox_def)
qed

lemma scaleSandbox_keeps:
  "P (k, s) \<Longrightarrow> P (k, s\<lparr>zs_CurrentScale := scale\<rparr>) \<Longrightarrow> P (k, fst (snd (scaleSandbox rt cfg scale s w)))"
  by (rule scaleSandbox_cases [of rt cfg scale s w]) simp_all

lemma steps_keep:
  assumes "scale_kept P"
  shows "step_keeps P (expand_one rt cfg)" "step_keeps P (pause_one rt)"
    "targetScale \<in> {Fin (1 / 2), Fin (1 / 4)} \<Longrightarrow> step_keeps P (shrink_one rt cfg targetScale)"
proof -
  show "step_keeps P (expand_one rt cfg)"
    unfolding step_keeps_def
  proof (intro allI impI)
    fix k s w
    assume P: "P (k, s)"
    with assms have "P (k, s\<lparr>zs_Paused := False\<rparr>)" "P (k, s\<lparr>zs_Paused := False, zs_CurrentScale := Fin 1\<rparr>)" by (simp_all add: scale_kept_def)
    note free = this
    have scaled: "P (k, fst (snd (scaleSandbox rt cfg (Fin 1) (s\<lparr>zs_Paused := False\<rparr>) w')))" for w'
      by (rule scaleSandbox_keeps) (use free in simp_all)
    obtain r w1 where r: "(if zs_Paused s then rt_Unpause rt (zs_RuntimeID s) w else (Inr (), w)) = (r, w1)" by fastforce
    show "P (k, fst (snd (expand_one rt cfg s w)))"
      using P free(1) scaled [of w1] unfolding expand_one_def r by (cases r) (simp_all add: Let_def)
  qed
  show "step_keeps P (pause_one rt)"
    unfolding step_keeps_def
  proof (intro allI impI)
    fix k s w
    assume P: "P (k, s)"
    have low: "zs_Priority s \<le> PriorityLow \<Longrightarrow> P (k, s\<lparr>zs_Paused := True, zs_CurrentScale := Fin 0\<rparr>)"
      using assms P by (simp add: scale_kept_def)
    obtain r w1 where r: "rt_Pause rt (zs_RuntimeID s) w = (r, w1)" by fastforce
    with P low show "P (k, fst (snd (pause_one rt s w)))" by (cases r) (simp_all add: pause_one_def)
  qed
  show "step_keeps P (shrink_one rt cfg targetScale)" if "targetScale \<in> {Fin (1 / 2), Fin (1 / 4)}"
    unfolding step_keeps_def
  proof (intro allI impI)
    fix k s w
    assume P: "P (k, s)"
    have "P (k, s\<lparr>zs_CurrentScale := priority_scale targetScale (zs_Priority s)\<rparr>)" if "\<not> zs_Paused s"
      using assms P that \<open>targetScale \<in> _\<close> by (elim insertE emptyE) (simp_all add: scale_kept_def)
    then have "P (k, fst (snd (scaleSandbox rt cfg (priority_scale targetScale (zs_Priority s)) s w)))" if "\<not> zs_Paused s"
      using P that by (blast intro: scaleSandbox_keeps)
    with P show "P (k, fst (snd (shrink_one rt cfg targetScale s w)))" by (simp add: shrink_one_def Let_def)
  qed
qed

lemmas loops_keep = steps_keep [THEN over_sandboxes_keeps]

lemma adjust_keeps:
  assumes "scale_kept P" and "all_tracked P a"
  shows "all_tracked P (snd (adjust rt p a))"
proof (cases p)
  case PressureNone
  with loops_keep(1) [OF assms] show ?thesis by (simp add: expandAll_def)
next
  case PressureNormal
  with assms(2) show ?thesis by simp
next
  case PressureHigh
  with loops_keep(3) [OF assms(1) _ assms(2), of "Fin (1 / 2)"] show ?thesis by (simp add: shrinkByPriority_def)
next
  case PressureCritical
  obtain ok a1 where a1: "pauseLowPriority rt a = (ok, a1)" by fastforce
  then have "all_tracked P a1" using loops_keep(2) [OF assms, of rt] by (simp add: pauseLowPriority_def)
  with loops_keep(3) [OF assms(1) _ this, of "Fin (1 / 4)"] a1 PressureCritical show ?thesis by (simp add: shrinkByPriority_def)
qed

lemma reconcile_keeps:
  assumes "scale_kept P" and "all_tracked P a"
  shows "all_tracked P (snd (reconcile rt a))"
  using assms(2) unfolding reconcile_def measure_host_def
  by (auto simp: Let_def all_tracked_def split: prod.splits sum.splits intro!: adjust_keeps [OF assms(1), unfolded all_tracked_def])

datatype scale_op = OTick | OStart scale_ctx | OStop | OEndRequest | ORegister string string string string int | OUnregister string
  | OPriority string int

fun run_scale_op :: "'w Runtime \<Rightarrow> scale_op \<Rightarrow> 'w Autoscaler \<Rightarrow> 'w Autoscaler" where
  "run_scale_op rt OTick a = snd (loop_tick rt a)"
| "run_scale_op rt (OStart ctx) a = Start_scaler ctx a"
| "run_scale_op rt OStop a = snd (Stop_scaler rt a)"
| "run_scale_op rt OEndRequest a = end_request a"
| "run_scale_op rt (ORegister n i cpu mem p) a = RegisterSandbox n i cpu mem p a"
| "run_scale_op rt (OUnregister n) a = UnregisterSandbox n a"
| "run_scale_op rt (OPriority n p) a = SetPriority n p a"

lemma all_tracked_set:
  "all_tracked P a \<Longrightarrow> P (n, s) \<Longrightarrow> all_tracked P (a\<lparr>az_sandboxes := gm_set n s (az_sandboxes a)\<rparr>)"
  using gm_set_entries [of n s "az_sandboxes a"] by (auto simp: all_tracked_def)

definition op_keeps :: "(string \<times> ScaledSandbox \<Rightarrow> bool) \<Rightarrow> scale_op \<Rightarrow> bool" where
  "op_keeps P op \<longleftrightarrow> (case op of
       ORegister n i cpu mem p \<Rightarrow> P (n, \<lparr>zs_Name = n, zs_RuntimeID = i, zs_Priority = p, zs_OriginalCPU = cpu, zs_OriginalMemory = mem,
         zs_CurrentScale = Fin 1, zs_Paused = False\<rparr>)
     | OPriority n p \<Rightarrow> (\<forall>s. P (n, s) \<longrightarrow> P (n, s\<lparr>zs_Priority := p\<rparr>)) | _ \<Rightarrow> True)"

lemma run_scale_op_keeps:
  assumes "scale_kept P" and "op_keeps P op" and "all_tracked P a"
  shows "all_tracked P (run_scale_op rt op a)"
proof (cases op)
  case OTick
  with assms(3) reconcile_keeps [OF assms(1,3), of rt] show ?thesis by (simp add: loop_tick_def)
next
  case (OStart ctx)
  with assms(3) show ?thesis by (simp add: Start_scaler_def all_tracked_def)
next
  case OStop
  have "all_tracked P (a\<lparr>az_running := False, az_loop := None\<rparr>)" using assms(3) by (simp add: all_tracked_def)
  with OStop assms(3) loops_keep(1) [OF assms(1) this] show ?thesis by (simp add: Stop_scaler_def expandAll_def)
next
  case OEndRequest
  with assms(3) show ?thesis by (simp add: end_request_def all_tracked_def)
next
  case (ORegister n i cpu mem p)
  with all_tracked_set [OF assms(3)] assms(2) show ?thesis by (simp add: RegisterSandbox_def op_keeps_def)
next
  case (OUnregister n)
  with assms(3) gm_del_entries [of n "az_sandboxes a"] show ?thesis by (auto simp: UnregisterSandbox_def all_tracked_def)
next
  case (OPriority n p)
  show ?thesis
  proof (cases "gm_get (az_sandboxes a) n")
    case (Some s)
    then have "P (n, s)" using assms(3) by (auto simp: all_tracked_def dest: map_of_SomeD)
    then have "P (n, s\<lparr>zs_Priority := p\<rparr>)" using assms(2) OPriority by (simp add: op_keeps_def)
    with OPriority Some all_tracked_set [OF assms(3)] show ?thesis by (simp add: SetPriority_def)
  qed (use OPriority assms(3) in \<open>simp add: SetPriority_def\<close>)
qed

lemma run_scale_ops_keep:
  assumes "scale_kept P" and "\<forall>op \<in> set ops. op_keeps P op"
  shows "all_tracked P (fold (run_scale_op rt) ops (New_autoscaler cfg w))"
proof -
  have "all_tracked P (fold (run_scale_op rt) ops a)" if "all_tracked P a" for a
    using assms(2) that by (induction ops arbitrary: a) (simp_all add: run_scale_op_keeps [OF assms(1)])
  moreover have "all_tracked P (New_autoscaler cfg w)" by (simp add: all_tracked_def New_autoscaler_def)
  ultimately show ?thesis .
qed

lemma scaled_ok_kept: "scale_kept scaled_ok"
  unfolding scale_kept_def scaled_ok_def by (auto simp: priority_scales scales_def)

text \<open>Whatever the backend answers, failures included, and whatever sequence of ticks, starts, stops, registrations and
  priority changes happens: a tracked sandbox is tracked under its own name, its scale is one of 0, 1/8, 1/4, 1/2, 3/4 and 1, and a
  paused sandbox has scale 0.\<close>

theorem scales_well_formed:
  "\<forall>(k, s) \<in> set (az_sandboxes (fold (run_scale_op rt) ops (New_autoscaler cfg w))).
     zs_Name s = k \<and> zs_CurrentScale s \<in> {Fin 0, Fin (1 / 8), Fin (1 / 4), Fin (1 / 2), Fin (3 / 4), Fin 1} \<and>
     (zs_Paused s \<longrightarrow> zs_CurrentScale s = Fin 0)"
proof -
  have "\<forall>op \<in> set ops. op_keeps scaled_ok op" by (simp add: op_keeps_def scaled_ok_def scales_def split: scale_op.splits)
  from run_scale_ops_keep [OF scaled_ok_kept this, of rt cfg w] show ?thesis
    by (auto simp: all_tracked_def scaled_ok_def scales_def)
qed

definition guaranteed :: "int \<Rightarrow> rat" where
  "guaranteed p = (if p = PriorityCritical then 3 / 4 else if p = PriorityHigh then 1 / 2 else 1 / 4)"

fun at_least :: "rat \<Rightarrow> f64 \<Rightarrow> bool" where
  "at_least r (Fin q) = (r \<le> q)"
| "at_least r _ = False"

definition served_ok :: "string \<times> ScaledSandbox \<Rightarrow> bool" where
  "served_ok e \<longleftrightarrow> (case e of (k, s) \<Rightarrow> zs_Priority s > PriorityLow \<longrightarrow>
     \<not> zs_Paused s \<and> at_least (guaranteed (zs_Priority s)) (zs_CurrentScale s))"

lemma served_ok_kept: "scale_kept served_ok"
  unfolding scale_kept_def served_ok_def priority_scales guaranteed_def by (auto split: if_splits)


section \<open>A backend that can scale\<close>

text \<open>What a round at a level of pressure does to a sandbox when the backend does what it is asked.\<close>

fun settled :: "PressureLevel \<Rightarrow> ScaledSandbox \<Rightarrow> ScaledSandbox" where
  "settled PressureNone s = s\<lparr>zs_Paused := False, zs_CurrentScale := Fin 1\<rparr>"
| "settled PressureNormal s = s"
| "settled PressureHigh s = (if zs_Paused s then s else s\<lparr>zs_CurrentScale := priority_scale (Fin (1 / 2)) (zs_Priority s)\<rparr>)"
| "settled PressureCritical s =
     (if zs_Paused s then s
      else if zs_Priority s \<le> PriorityLow then s\<lparr>zs_Paused := True, zs_CurrentScale := Fin 0\<rparr>
      else s\<lparr>zs_CurrentScale := priority_scale (Fin (1 / 4)) (zs_Priority s)\<rparr>)"

definition settle_all :: "PressureLevel \<Rightarrow> ScaledSandbox gomap \<Rightarrow> ScaledSandbox gomap" where
  "settle_all p m = map (\<lambda>(k, s). (k, settled p s)) m"

text \<open>A round after which nothing is left to do.\<close>

lemma each_idle:
  assumes "\<And>k s w. (k, s) \<in> set m \<Longrightarrow> f s w = (True, s, w)"
  shows "each_sandbox f m w = (True, m, w)"
  using assms
proof (induction m)
  case (Cons e m)
  obtain k s where e: "e = (k, s)" by fastforce
  have "f s w = (True, s, w)" by (rule Cons.prems [of k]) (simp add: e)
  moreover have "each_sandbox f m w = (True, m, w)" by (rule Cons.IH) (use Cons.prems in auto)
  ultimately show ?case by (simp add: e)
qed simp

lemma over_idle:
  assumes "\<And>k s w. (k, s) \<in> set (az_sandboxes a) \<Longrightarrow> f s w = (True, s, w)"
  shows "over_sandboxes f a = (True, a)"
  using each_idle [of "az_sandboxes a" f "az_world a"] assms by (simp add: over_sandboxes_def)

lemma expand_idle: "\<not> zs_Paused s \<Longrightarrow> zs_CurrentScale s = Fin 1 \<Longrightarrow> expand_one rt cfg s w = (True, s, w)"
  by (cases s) (simp add: expand_one_def)

lemma shrink_idle:
  "zs_Paused s \<or> zs_CurrentScale s = priority_scale t (zs_Priority s) \<and> zs_CurrentScale s \<noteq> NaN \<Longrightarrow>
   shrink_one rt cfg t s w = (True, s, w)"
  by (auto simp: shrink_one_def fne_def Let_def)

lemma pause_idle: "zs_Paused s \<or> \<not> zs_Priority s \<le> PriorityLow \<Longrightarrow> pause_one rt s w = (True, s, w)"
  by (auto simp: pause_one_def)

lemma settled_idle:
  "expand_one rt cfg (settled PressureNone s) w = (True, settled PressureNone s, w)"
  "shrink_one rt cfg (Fin (1 / 2)) (settled PressureHigh s) w = (True, settled PressureHigh s, w)"
  "pause_one rt (settled PressureCritical s) w = (True, settled PressureCritical s, w)"
  "shrink_one rt cfg (Fin (1 / 4)) (settled PressureCritical s) w = (True, settled PressureCritical s, w)"
proof -
  show "expand_one rt cfg (settled PressureNone s) w = (True, settled PressureNone s, w)" by (rule expand_idle) simp_all
  show "shrink_one rt cfg (Fin (1 / 2)) (settled PressureHigh s) w = (True, settled PressureHigh s, w)"
    by (rule shrink_idle) (cases "zs_Paused s"; simp add: priority_scales)
  show "pause_one rt (settled PressureCritical s) w = (True, settled PressureCritical s, w)"
    by (rule pause_idle) (cases "zs_Paused s"; simp)
  show "shrink_one rt cfg (Fin (1 / 4)) (settled PressureCritical s) w = (True, settled PressureCritical s, w)"
    by (rule shrink_idle) (cases "zs_Paused s"; simp add: priority_scales)
qed

lemma settle_all_members: "(k, s) \<in> set (settle_all p m) \<Longrightarrow> \<exists>s0. s = settled p s0"
  by (auto simp: settle_all_def)

lemma over_settled:
  assumes "\<And>s w. f (settled p s) w = (True, settled p s, w)" and "az_sandboxes a = settle_all p m"
  shows "over_sandboxes f a = (True, a)"
  by (rule over_idle) (use assms settle_all_members in \<open>metis (no_types)\<close>)

lemma adjust_idle:
  assumes "az_sandboxes a = settle_all p m"
  shows "adjust rt p a = (True, a)"
  using assms
  by (cases p) (simp_all add: expandAll_def shrinkByPriority_def pauseLowPriority_def over_settled [OF settled_idle(1)]
      over_settled [OF settled_idle(2)] over_settled [OF settled_idle(3)] over_settled [OF settled_idle(4)])

locale scaling_backend =
  fixes rt :: "'w Runtime"
    and live :: "'w \<Rightarrow> string set"
  assumes pause_works: "i \<in> live w \<Longrightarrow> \<exists>w'. rt_Pause rt i w = (Inr (), w') \<and> live w' = live w"
    and unpause_works: "i \<in> live w \<Longrightarrow> \<exists>w'. rt_Unpause rt i w = (Inr (), w') \<and> live w' = live w"
    and update_works: "i \<in> live w \<Longrightarrow> \<exists>w'. rt_UpdateResources rt i u w = (Inr (), w') \<and> live w' = live w"
begin

text \<open>A step that turns a sandbox into \<open>g\<close> of it.\<close>

definition does :: "'w scale_step \<Rightarrow> (ScaledSandbox \<Rightarrow> ScaledSandbox) \<Rightarrow> ScaledSandbox \<Rightarrow> bool" where
  "does f g s \<longleftrightarrow> (\<forall>w. zs_RuntimeID s \<in> live w \<longrightarrow> (\<exists>w'. f s w = (True, g s, w') \<and> live w' = live w))"

lemma doesD: "does f g s \<Longrightarrow> zs_RuntimeID s \<in> live w \<Longrightarrow> \<exists>w'. f s w = (True, g s, w') \<and> live w' = live w"
  by (simp add: does_def)

lemma each_does:
  assumes "\<And>k s. (k, s) \<in> set m \<Longrightarrow> does f g s \<and> zs_RuntimeID s \<in> live w"
  shows "\<exists>w'. each_sandbox f m w = (True, map (\<lambda>(k, s). (k, g s)) m, w') \<and> live w' = live w"
  using assms
proof (induction m arbitrary: w)
  case (Cons e m)
  obtain k s where e: "e = (k, s)" by fastforce
  then have "does f g s" "zs_RuntimeID s \<in> live w" using Cons.prems by auto
  then obtain w1 where w1: "f s w = (True, g s, w1)" "live w1 = live w" by (blast dest: doesD)
  have "\<exists>w'. each_sandbox f m w1 = (True, map (\<lambda>(k, s). (k, g s)) m, w') \<and> live w' = live w1"
    by (rule Cons.IH) (use Cons.prems w1(2) in auto)
  with e w1 show ?case by auto
qed simp

lemma over_does:
  assumes "\<And>k s. (k, s) \<in> set (az_sandboxes a) \<Longrightarrow> does f g s \<and> zs_RuntimeID s \<in> live (az_world a)"
  shows "\<exists>w'. over_sandboxes f a = (True, a\<lparr>az_sandboxes := map (\<lambda>(k, s). (k, g s)) (az_sandboxes a), az_world := w'\<rparr>) \<and>
    live w' = live (az_world a)"
proof -
  obtain w' where "each_sandbox f (az_sandboxes a) (az_world a) = (True, map (\<lambda>(k, s). (k, g s)) (az_sandboxes a), w')"
    "live w' = live (az_world a)" using each_does [of "az_sandboxes a" f g "az_world a"] assms by blast
  then show ?thesis by (intro exI [of _ w']) (simp add: over_sandboxes_def)
qed

lemma scale_does:
  assumes "parseMemoryBytes (zs_OriginalMemory s) \<noteq> None"
  shows "does (scaleSandbox rt cfg scale) (\<lambda>s. s\<lparr>zs_CurrentScale := scale\<rparr>) s"
  unfolding does_def
proof (intro allI impI)
  fix w
  assume "zs_RuntimeID s \<in> live w"
  moreover obtain u where "resource_update cfg s scale = Some u" using assms by (auto simp: resource_update_def Let_def)
  ultimately show "\<exists>w'. scaleSandbox rt cfg scale s w = (True, s\<lparr>zs_CurrentScale := scale\<rparr>, w') \<and> live w' = live w"
    using update_works [of "zs_RuntimeID s" w u] by (auto simp: scaleSandbox_def)
qed

lemma expand_does:
  assumes "parseMemoryBytes (zs_OriginalMemory s) \<noteq> None" and "zs_CurrentScale s \<in> scales"
  shows "does (expand_one rt cfg) (\<lambda>s. s\<lparr>zs_Paused := False, zs_CurrentScale := Fin 1\<rparr>) s"
  unfolding does_def
proof (intro allI impI)
  fix w
  assume live: "zs_RuntimeID s \<in> live w"
  let ?s = "s\<lparr>zs_Paused := False\<rparr>"
  obtain w1 where w1: "(if zs_Paused s then rt_Unpause rt (zs_RuntimeID s) w else (Inr (), w)) = (Inr (), w1)" "live w1 = live w"
    using unpause_works [OF live] by (cases "zs_Paused s") auto
  have "does (scaleSandbox rt cfg (Fin 1)) (\<lambda>s. s\<lparr>zs_CurrentScale := Fin 1\<rparr>) ?s" by (rule scale_does) (use assms(1) in simp)
  then obtain w2 where w2: "scaleSandbox rt cfg (Fin 1) ?s w1 = (True, ?s\<lparr>zs_CurrentScale := Fin 1\<rparr>, w2)" "live w2 = live w1"
    using live w1(2) by (auto dest!: doesD [where w = w1])
  show "\<exists>w'. expand_one rt cfg s w = (True, s\<lparr>zs_Paused := False, zs_CurrentScale := Fin 1\<rparr>, w') \<and> live w' = live w"
  proof (cases "flt (zs_CurrentScale s) (Fin 1)")
    case True
    with w1 w2 show ?thesis by (simp add: expand_one_def)
  next
    case False
    with assms(2) have "zs_CurrentScale s = Fin 1" by (auto simp: scales_def)
    then have "?s\<lparr>zs_CurrentScale := Fin 1\<rparr> = ?s" by simp
    with False w1 show ?thesis by (simp add: expand_one_def)
  qed
qed

lemma shrink_does:
  assumes "parseMemoryBytes (zs_OriginalMemory s) \<noteq> None"
  shows "does (shrink_one rt cfg t)
    (\<lambda>s. if zs_Paused s then s else s\<lparr>zs_CurrentScale := priority_scale t (zs_Priority s)\<rparr>) s"
  unfolding does_def
proof (intro allI impI)
  fix w
  assume live: "zs_RuntimeID s \<in> live w"
  let ?scale = "priority_scale t (zs_Priority s)"
  let ?s' = "if zs_Paused s then s else s\<lparr>zs_CurrentScale := ?scale\<rparr>"
  obtain w1 where w1: "scaleSandbox rt cfg ?scale s w = (True, s\<lparr>zs_CurrentScale := ?scale\<rparr>, w1)" "live w1 = live w"
    using doesD [OF scale_does [OF assms] live] by blast
  show "\<exists>w'. shrink_one rt cfg t s w = (True, ?s', w') \<and> live w' = live w"
  proof (cases "zs_Paused s \<or> \<not> fne (zs_CurrentScale s) ?scale")
    case True
    then have "shrink_one rt cfg t s w = (True, s, w)" by (auto simp: shrink_one_def)
    moreover have "?s' = s" using True by (auto simp: fne_def)
    ultimately show ?thesis by simp
  next
    case False
    with w1 show ?thesis by (simp add: shrink_one_def)
  qed
qed

lemma pause_does:
  "does (pause_one rt) (\<lambda>s. if zs_Priority s \<le> PriorityLow \<and> \<not> zs_Paused s then s\<lparr>zs_Paused := True, zs_CurrentScale := Fin 0\<rparr> else s) s"
  unfolding does_def pause_one_def using pause_works by fastforce

text \<open>The sandboxes exist and have limits that can be read.\<close>

definition scalable :: "'w Autoscaler \<Rightarrow> bool" where
  "scalable a \<longleftrightarrow> (\<forall>(k, s) \<in> set (az_sandboxes a). zs_RuntimeID s \<in> live (az_world a) \<and>
     parseMemoryBytes (zs_OriginalMemory s) \<noteq> None \<and> zs_CurrentScale s \<in> scales)"

lemma scalableD:
  "scalable a \<Longrightarrow> (k, s) \<in> set (az_sandboxes a) \<Longrightarrow>
   zs_RuntimeID s \<in> live (az_world a) \<and> parseMemoryBytes (zs_OriginalMemory s) \<noteq> None \<and> zs_CurrentScale s \<in> scales"
  by (auto simp: scalable_def)

lemma adjust_settles:
  assumes "scalable a"
  shows "\<exists>w'. adjust rt p a = (True, a\<lparr>az_sandboxes := settle_all p (az_sandboxes a), az_world := w'\<rparr>) \<and> live w' = live (az_world a)"
proof (cases p)
  case PressureNone
  have "\<And>k s. (k, s) \<in> set (az_sandboxes a) \<Longrightarrow> does (expand_one rt (az_cfg a)) (settled PressureNone) s \<and> zs_RuntimeID s \<in> live (az_world a)"
    using scalableD [OF assms] expand_does by (auto simp: does_def)
  from over_does [OF this] PressureNone show ?thesis by (simp add: expandAll_def settle_all_def)
next
  case PressureNormal
  have "settle_all PressureNormal (az_sandboxes a) = az_sandboxes a" by (simp add: settle_all_def case_prod_unfold)
  with PressureNormal show ?thesis by (intro exI [of _ "az_world a"]) simp
next
  case PressureHigh
  have "\<And>k s. (k, s) \<in> set (az_sandboxes a) \<Longrightarrow>
      does (shrink_one rt (az_cfg a) (Fin (1 / 2))) (settled PressureHigh) s \<and> zs_RuntimeID s \<in> live (az_world a)"
    using scalableD [OF assms] shrink_does [of _ "az_cfg a" "Fin (1 / 2)"] by (auto simp: does_def)
  from over_does [OF this] PressureHigh show ?thesis by (simp add: shrinkByPriority_def settle_all_def)
next
  case PressureCritical
  let ?g = "\<lambda>s. if zs_Priority s \<le> PriorityLow \<and> \<not> zs_Paused s then s\<lparr>zs_Paused := True, zs_CurrentScale := Fin 0\<rparr> else s"
  let ?h = "\<lambda>s. if zs_Paused s then s else s\<lparr>zs_CurrentScale := priority_scale (Fin (1 / 4)) (zs_Priority s)\<rparr>"
  obtain w1 where w1: "pauseLowPriority rt a = (True, a\<lparr>az_sandboxes := map (\<lambda>(k, s). (k, ?g s)) (az_sandboxes a), az_world := w1\<rparr>)"
    "live w1 = live (az_world a)"
    using over_does [of a "pause_one rt" ?g] scalableD [OF assms] pause_does unfolding pauseLowPriority_def by blast
  define a1 where "a1 = a\<lparr>az_sandboxes := map (\<lambda>(k, s). (k, ?g s)) (az_sandboxes a), az_world := w1\<rparr>"
  have step: "does (shrink_one rt (az_cfg a1) (Fin (1 / 4))) ?h s \<and> zs_RuntimeID s \<in> live (az_world a1)" if "(k, s) \<in> set (az_sandboxes a1)" for k s
  proof -
    from that obtain s0 where "s = ?g s0" "(k, s0) \<in> set (az_sandboxes a)" by (auto simp: a1_def)
    with scalableD [OF assms, of k s0] w1(2) show ?thesis by (intro conjI shrink_does) (auto simp: a1_def)
  qed
  have "\<exists>w2. shrinkByPriority rt (Fin (1 / 4)) a1 = (True, a1\<lparr>az_sandboxes := map (\<lambda>(k, s). (k, ?h s)) (az_sandboxes a1), az_world := w2\<rparr>) \<and>
      live w2 = live (az_world a1)"
    unfolding shrinkByPriority_def by (rule over_does) (rule step)
  then obtain w2 where
    w2: "shrinkByPriority rt (Fin (1 / 4)) a1 = (True, a1\<lparr>az_sandboxes := map (\<lambda>(k, s). (k, ?h s)) (az_sandboxes a1), az_world := w2\<rparr>)"
    "live w2 = live (az_world a1)" by blast
  have "map (\<lambda>(k, s). (k, ?h s)) (az_sandboxes a1) = settle_all PressureCritical (az_sandboxes a)"
    by (auto simp: settle_all_def a1_def)
  with w1(1) [folded a1_def] w2 w1(2) PressureCritical show ?thesis by (intro exI [of _ w2]) (simp add: a1_def)
qed

lemma reconcile_run:
  assumes "\<forall>(k, s) \<in> set (az_sandboxes a). zs_RuntimeID s \<in> live (az_world a) \<and> parseMemoryBytes (zs_OriginalMemory s) \<noteq> None \<and>
      zs_CurrentScale s \<in> scales"
    and "rt_HostInfo rt (az_world a) = (Inr host, w1)" and "live w1 = live (az_world a)"
    and "p = max (memoryPressure (az_cfg a) host) (cpuPressure (az_cfg a) host)"
  shows "\<exists>w'. reconcile rt a = (True, a\<lparr>az_sandboxes := settle_all p (az_sandboxes a), az_world := w'\<rparr>)"
proof -
  have "measure_host rt a = (Some p, a\<lparr>az_world := w1\<rparr>)"
    using assms(2,4) by (simp add: measure_host_def Let_def max_def) (metis leD le_cases order_le_less)
  moreover have "scalable (a\<lparr>az_world := w1\<rparr>)"
    using assms(1,3) by (simp add: scalable_def)
  ultimately show ?thesis
    using adjust_settles [of "a\<lparr>az_world := w1\<rparr>" p] by (auto simp: reconcile_def)
qed

end

lemma parseMemoryBytes_None: "parseMemoryBytes s = None \<longleftrightarrow> s \<noteq> [] \<and> TrimSpace s = []"
  by (auto simp: parseMemoryBytes_def Let_def HasSuffix_def split: option.splits)

interpretation sk: scaling_backend "docker_runtime sim_client h oci" sim_live for h oci
  by unfold_locales (simp_all add: docker_runtime_def sim_client_def docker_UpdateResources_def)

section \<open>Properties\<close>

lemma dec_tenth: "\<exists>q. dec (1 / 10) = Fin q"
proof -
  have "dec (1 / 10) = Fin (3602879701896397 / 36028797018963968)"
    unfolding dec_def by (rule rnd_unit) (code_simp, simp, simp)
  then show ?thesis by blast
qed


definition busy_host :: HostResources where
  "busy_host = \<lparr>hr_TotalCPUs = 4, hr_TotalMemory = 0, hr_UsedMemory = 0, hr_AvailMemory = 0, hr_CPUPercent = Fin 0, hr_LoadAvg1 = Fin 0\<rparr>"

definition busy_backend :: "simd Runtime" where
  "busy_backend = (docker_runtime sim_client sim_dockerhost [])\<lparr>rt_HostInfo := (\<lambda>w. (Inr busy_host, w))\<rparr>"

text \<open>A high-water mark below everything: every round finds critical pressure.\<close>

definition strict_config :: ScaleConfig where
  "strict_config = DefaultConfig\<lparr>sg_CPUHighWater := NInf\<rparr>"

definition demo_scaler :: "simd Autoscaler" where
  "demo_scaler = RegisterSandbox ''b'' ''c0'' ''2'' ''1G'' PriorityCritical
     (RegisterSandbox ''a'' ''c0'' ''2'' ''1G'' PriorityLow (New_autoscaler strict_config (c_rt demo_created)))"

lemma busy_pressure: "max (memoryPressure strict_config busy_host) (cpuPressure strict_config busy_host) = PressureCritical"
proof -
  have "cpuPressure strict_config busy_host = PressureCritical"
    using dec_tenth by (auto simp: cpuPressure_def busy_host_def strict_config_def level_of_def rnd_def)
  moreover have "memoryPressure strict_config busy_host = PressureNone" by (simp add: memoryPressure_def busy_host_def)
  ultimately show ?thesis by (simp add: max_def less_eq_PressureLevel_def)
qed

interpretation busy: scaling_backend busy_backend sim_live
  by unfold_locales (simp_all add: busy_backend_def docker_runtime_def sim_client_def docker_UpdateResources_def)

lemma demo_live: "''c0'' \<in> sim_live (c_rt demo_created)"
proof -
  have "''c0'' \<in> set (map fst (sd_containers (c_rt demo_created))) \<and> sd_next (c_rt demo_created) = 1" by code_simp
  moreover have "sim_id 0 = ''c0''" by code_simp
  ultimately show ?thesis by (auto simp: sim_live_def sim_used_def dom_map_of_conv_image_fst)
qed

lemma demo_boxes:
  "\<forall>(k, s) \<in> set (az_sandboxes demo_scaler). zs_RuntimeID s \<in> sim_live (az_world demo_scaler) \<and>
     parseMemoryBytes (zs_OriginalMemory s) \<noteq> None \<and> zs_CurrentScale s \<in> scales"
proof -
  have "parseMemoryBytes ''1G'' \<noteq> None" by (simp add: parseMemoryBytes_None) code_simp
  with demo_live show ?thesis by (simp add: demo_scaler_def RegisterSandbox_def New_autoscaler_def scales_def)
qed


theorem scales_well_formed_witness:
  "let m = az_sandboxes (fold (run_scale_op busy_backend)
     [OStart Background, ORegister ''a'' ''c0'' ''2'' ''1G'' PriorityLow, OTick, OPriority ''a'' 3, OStop] (New_autoscaler strict_config (c_rt boot))) in
   \<forall>(k, s) \<in> set m. zs_CurrentScale s \<in> {Fin 0, Fin (1 / 8), Fin (1 / 4), Fin (1 / 2), Fin (3 / 4), Fin 1}"
  using scales_well_formed [of busy_backend "[OStart Background, ORegister ''a'' ''c0'' ''2'' ''1G'' PriorityLow, OTick, OPriority ''a'' 3, OStop]"
      strict_config "c_rt boot"] unfolding Let_def by blast


text \<open>Stopping the autoscaler while a round is between measuring the host and adjusting the sandboxes: \<open>Stop\<close> restores every
  sandbox, then the round pauses those of low priority, and they stay paused, since no loop is left.\<close>

theorem stop_races_round:
  assumes "scaling_backend rt live" and "az_running a" and "(k, s) \<in> set (az_sandboxes a)" and "zs_Priority s \<le> PriorityLow"
    and "\<forall>(k, s) \<in> set (az_sandboxes a). zs_RuntimeID s \<in> live (az_world a) \<and> parseMemoryBytes (zs_OriginalMemory s) \<noteq> None \<and>
      zs_CurrentScale s \<in> scales"
  shows "\<exists>a1 a2 s'. Stop_scaler rt a = (True, a1) \<and> (\<forall>(k, s) \<in> set (az_sandboxes a1). \<not> zs_Paused s \<and> zs_CurrentScale s = Fin 1) \<and>
    adjust rt PressureCritical a1 = (True, a2) \<and> (k, s') \<in> set (az_sandboxes a2) \<and> zs_Paused s' \<and>
    \<not> IsRunning a2 \<and> loop_tick rt a2 = (True, a2)"
proof -
  let ?a = "a\<lparr>az_running := False, az_loop := None\<rparr>"
  note ax = scaling_backend.adjust_settles [OF assms(1)] and sc = scaling_backend.scalable_def [OF assms(1)]
  have "scaling_backend.scalable live ?a" using assms(5) by (simp add: sc)
  from ax [OF this, of PressureNone] obtain w1 where
    w1: "expandAll rt ?a = (True, ?a\<lparr>az_sandboxes := settle_all PressureNone (az_sandboxes a), az_world := w1\<rparr>)"
    "live w1 = live (az_world a)" by auto
  define a1 where "a1 = ?a\<lparr>az_sandboxes := settle_all PressureNone (az_sandboxes a), az_world := w1\<rparr>"
  have stop: "Stop_scaler rt a = (True, a1)" using assms(2) w1(1) by (simp add: Stop_scaler_def a1_def)
  have "scaling_backend.scalable live a1" using assms(5) w1(2) by (auto simp: sc a1_def settle_all_def scales_def)
  from ax [OF this, of PressureCritical] obtain w2 where
    w2: "adjust rt PressureCritical a1 = (True, a1\<lparr>az_sandboxes := settle_all PressureCritical (az_sandboxes a1), az_world := w2\<rparr>)" by blast
  let ?a2 = "a1\<lparr>az_sandboxes := settle_all PressureCritical (az_sandboxes a1), az_world := w2\<rparr>"
  let ?s' = "settled PressureCritical (settled PressureNone s)"
  have "(k, ?s') \<in> set (az_sandboxes ?a2)" using assms(3) by (force simp: a1_def settle_all_def)
  moreover have "zs_Paused ?s'" using assms(4) by simp
  moreover have "\<not> IsRunning ?a2" "loop_tick rt ?a2 = (True, ?a2)" by (simp_all add: IsRunning_def loop_tick_def a1_def)
  moreover have "\<forall>(k, s) \<in> set (az_sandboxes a1). \<not> zs_Paused s \<and> zs_CurrentScale s = Fin 1" by (auto simp: a1_def settle_all_def)
  ultimately show ?thesis using stop w2 by blast
qed

theorem stop_races_round_witness:
  "\<exists>a1 a2 s'. Stop_scaler busy_backend (Start_scaler Background demo_scaler) = (True, a1) \<and>
     adjust busy_backend PressureCritical a1 = (True, a2) \<and> (''a'', s') \<in> set (az_sandboxes a2) \<and> zs_Paused s' \<and> \<not> IsRunning a2"
proof -
  let ?a = "Start_scaler Background demo_scaler"
  have a: "az_sandboxes ?a = az_sandboxes demo_scaler" "az_world ?a = az_world demo_scaler" "az_running ?a"
    by (simp_all add: Start_scaler_def)
  obtain s where s: "(''a'', s) \<in> set (az_sandboxes ?a)" "zs_Priority s \<le> PriorityLow"
    by (simp add: a(1)) (simp add: demo_scaler_def RegisterSandbox_def New_autoscaler_def)
  from stop_races_round [OF busy.scaling_backend_axioms a(3) s demo_boxes [folded a(1,2)]] show ?thesis by blast
qed

text \<open>Enabling over HTTP: the loop gets the context of the request and ends with it. The autoscaler counts as running, no round ever
  takes place, and enabling it again does not help.\<close>

theorem enabled_by_request_is_idle:
  assumes "\<not> az_running a"
  shows "\<exists>resp a'. handleAutoscaleEnable r (Some a) = (resp, Some a') \<and> IsRunning a' \<and> loop_tick rt a' = (True, a') \<and>
    handleAutoscaleEnable r' (Some a') = (resp, Some a')"
  using assms by (simp add: handleAutoscaleEnable_def with_scaler_def Start_scaler_def end_request_def IsRunning_def loop_tick_def)

text \<open>A memory limit of blanks makes the next adjustment panic, which ends the process when it happens in the loop.\<close>

lemma blank_memory_panics:
  assumes "m \<noteq> []" and "TrimSpace m = []"
  shows "fst (adjust rt PressureHigh (RegisterSandbox n i cpu m PriorityNormal (New_autoscaler cfg w))) = False"
proof -
  have "parseMemoryBytes m = None" using assms by (simp add: parseMemoryBytes_None)
  then show ?thesis
    by (simp add: shrinkByPriority_def over_sandboxes_def RegisterSandbox_def New_autoscaler_def shrink_one_def priority_scales
        scaleSandbox_def resource_update_def fne_def)
qed

text \<open>No limit below the configured floor of memory is ever asked for.\<close>

lemma memory_floor: "resource_update cfg s scale = Some u \<Longrightarrow> sg_MinMemoryPerSandbox cfg \<le> ru_Memory u"
  by (auto simp: resource_update_def Let_def split: option.splits)

text \<open>The Docker backend does not measure the use of the processors, so it never causes pressure.\<close>

lemma docker_cpu_unmeasured: "docker_HostInfo dc h w = (Inr host, w') \<Longrightarrow> hr_CPUPercent host = Fin 0"
  by (auto simp: docker_HostInfo_def split: prod.splits sum.splits)

end
