(* ===== verification/Settings.thy ===== *)
theory Settings
  imports Autoscale
begin

text \<open>
  \<open>internal/config/config.go\<close> and the \<open>config\<close> commands (\<open>internal/cli/config.go\<close>), with \<open>internal/operator\<close>. The calls of the
  operating system are the fields of \<open>Os\<close>, whose contract is the locale \<open>file_system\<close>; the YAML library is \<open>yl_Marshal\<close> and
  \<open>yl_Unmarshal\<close>, which decodes into a configuration that is already filled in. A command is a function to what it prints, whether it
  fails, and the new state.
\<close>

section \<open>The operating system\<close>

datatype read_answer = FileData string | NoSuchFile goerr | ReadFailed goerr

record 'd Os =
  os_Home :: "string res"
  os_ReadFile :: "string \<Rightarrow> 'd \<Rightarrow> read_answer"
  os_MkdirAll :: "string \<Rightarrow> (unit res, 'd) act"
  os_WriteFile :: "string \<Rightarrow> string \<Rightarrow> (unit res, 'd) act"

type_synonym 'd cli = "(string \<times> goerr option, 'd) act"

definition cli_err :: "goerr \<Rightarrow> string \<times> goerr option" where
  "cli_err e = ([], Some e)"

definition prints :: "string \<Rightarrow> string \<times> goerr option" where
  "prints out = (out, None)"

definition line :: "string \<Rightarrow> string" where
  "line s = s @ [CHR 0x0A]"

definition wrapped :: "string \<Rightarrow> goerr \<Rightarrow> goerr" where
  "wrapped what e = Errorf (what @ '': %w'') [AErr e]"

section \<open>Configuration\<close>

record TracingConfig =
  tc_Enabled :: bool
  tc_Endpoint :: string
  tc_Protocol :: string
  tc_ServiceName :: string
  tc_SampleRate :: f64
  tc_Insecure :: bool

text \<open>\<open>InitTracing\<close> (\<open>internal/observability/tracing.go\<close>): \<open>None\<close> when tracing is disabled, else the provider it installs. Building the
  resource and the exporter is left to the library; a sampler without a ratio samples always.\<close>

record TracerSetup =
  tp_Service :: string
  tp_Grpc :: bool
  tp_Endpoint :: string
  tp_Insecure :: bool
  tp_Ratio :: "f64 option"

record OtelLib =
  ot_Resource :: "string \<Rightarrow> unit res"
  ot_Exporter :: "bool \<Rightarrow> string \<Rightarrow> bool \<Rightarrow> unit res"

definition InitTracing :: "OtelLib \<Rightarrow> TracingConfig \<Rightarrow> TracerSetup option res" where
  "InitTracing lib cfg =
     (if \<not> tc_Enabled cfg then Inr None
      else let service = (if tc_ServiceName cfg = [] then ''sandboxmatrix'' else tc_ServiceName cfg); grpc = (tc_Protocol cfg = ''grpc'') in
        case ot_Resource lib service of
          Inl e \<Rightarrow> Inl (wrapped ''create tracing resource'' e)
        | Inr _ \<Rightarrow>
            (case ot_Exporter lib grpc (tc_Endpoint cfg) (tc_Insecure cfg) of
               Inl e \<Rightarrow> Inl (wrapped ''create OTLP exporter'' e)
             | Inr _ \<Rightarrow>
                 Inr (Some \<lparr>tp_Service = service, tp_Grpc = grpc, tp_Endpoint = tc_Endpoint cfg, tp_Insecure = tc_Insecure cfg,
                   tp_Ratio = (if flt (Fin 0) (tc_SampleRate cfg) \<and> flt (tc_SampleRate cfg) (Fin 1) then Some (tc_SampleRate cfg)
                     else None)\<rparr>)))"

record OIDCServerConfig =
  oo_Enabled :: bool
  oo_Provider :: string
  oo_Issuer :: string
  oo_ClientID :: string
  oo_ClientSecret :: string
  oo_RedirectURL :: string
  oo_Scopes :: "string list"
  oo_RoleMapping :: "string gomap"

record JWTServerConfig =
  jt_SigningKey :: string
  jt_Issuer :: string
  jt_AccessTokenTTL :: string
  jt_RefreshTokenTTL :: string

record ServerConfig =
  sc_Addr :: string

record DashboardConfig =
  db_Addr :: string

record PoolSizes =
  pz_MinReady :: int
  pz_MaxSize :: int

record SmxConfig =
  cf_DefaultRuntime :: string
  cf_BlueprintDir :: string
  cf_StateDir :: string
  cf_LogLevel :: string
  cf_Server :: ServerConfig
  cf_Dashboard :: DashboardConfig
  cf_Pool :: PoolSizes
  cf_OIDC :: OIDCServerConfig
  cf_JWT :: JWTServerConfig
  cf_Tracing :: TracingConfig
  cf_Autoscale :: ScaleConfig

definition default_config :: SmxConfig where
  "default_config =
     \<lparr>cf_DefaultRuntime = ''docker'', cf_BlueprintDir = [], cf_StateDir = [], cf_LogLevel = ''info'',
      cf_Server = \<lparr>sc_Addr = '':8080''\<rparr>, cf_Dashboard = \<lparr>db_Addr = '':9090''\<rparr>, cf_Pool = \<lparr>pz_MinReady = 2, pz_MaxSize = 5\<rparr>,
      cf_OIDC = \<lparr>oo_Enabled = False, oo_Provider = [], oo_Issuer = [], oo_ClientID = [], oo_ClientSecret = [], oo_RedirectURL = [],
        oo_Scopes = [], oo_RoleMapping = []\<rparr>,
      cf_JWT = \<lparr>jt_SigningKey = [], jt_Issuer = [], jt_AccessTokenTTL = [], jt_RefreshTokenTTL = []\<rparr>,
      cf_Tracing = \<lparr>tc_Enabled = False, tc_Endpoint = ''localhost:4318'', tc_Protocol = ''http'', tc_ServiceName = ''sandboxmatrix'',
        tc_SampleRate = Fin 1, tc_Insecure = False\<rparr>,
      cf_Autoscale = DefaultConfig\<rparr>"

record Yaml =
  yl_Marshal :: "SmxConfig \<Rightarrow> string res"
  yl_Unmarshal :: "string \<Rightarrow> SmxConfig \<Rightarrow> SmxConfig res"

definition ConfigDir :: "'d Os \<Rightarrow> string res" where
  "ConfigDir os =
     (case os_Home os of Inl e \<Rightarrow> Inl (wrapped ''get home dir'' e) | Inr home \<Rightarrow> Inr (Join [home, ''.sandboxmatrix'']))"

definition FilePath :: "'d Os \<Rightarrow> string res" where
  "FilePath os = map_sum id (\<lambda>dir. Join [dir, ''config.yaml'']) (ConfigDir os)"

definition EnsureDir :: "'d Os \<Rightarrow> (string res, 'd) act" where
  "EnsureDir os d =
     (case ConfigDir os of
        Inl e \<Rightarrow> (Inl e, d)
      | Inr dir \<Rightarrow>
          (case os_MkdirAll os dir d of
             (Inl e, d1) \<Rightarrow> (Inl (wrapped ''create config dir'' e), d1)
           | (Inr _, d1) \<Rightarrow> (Inr dir, d1)))"

definition LoadFromPath :: "'d Os \<Rightarrow> Yaml \<Rightarrow> string \<Rightarrow> 'd \<Rightarrow> SmxConfig res" where
  "LoadFromPath os y path d =
     (case os_ReadFile os path d of
        NoSuchFile _ \<Rightarrow> Inr default_config
      | ReadFailed e \<Rightarrow> Inl (wrapped ''read config'' e)
      | FileData text \<Rightarrow>
          (case yl_Unmarshal y text default_config of Inl e \<Rightarrow> Inl (wrapped ''parse config'' e) | Inr cfg \<Rightarrow> Inr cfg))"

definition Load :: "'d Os \<Rightarrow> Yaml \<Rightarrow> 'd \<Rightarrow> SmxConfig res" where
  "Load os y d = (case FilePath os of Inl _ \<Rightarrow> Inr default_config | Inr path \<Rightarrow> LoadFromPath os y path d)"

definition SaveToPath :: "'d Os \<Rightarrow> Yaml \<Rightarrow> SmxConfig \<Rightarrow> string \<Rightarrow> (unit res, 'd) act" where
  "SaveToPath os y cfg path d =
     (case yl_Marshal y cfg of Inl e \<Rightarrow> (Inl (wrapped ''marshal config'' e), d) | Inr data \<Rightarrow> os_WriteFile os path data d)"

definition SaveConfig :: "'d Os \<Rightarrow> Yaml \<Rightarrow> SmxConfig \<Rightarrow> (unit res, 'd) act" where
  "SaveConfig os y cfg d =
     (case EnsureDir os d of
        (Inl e, d1) \<Rightarrow> (Inl e, d1)
      | (Inr dir, d1) \<Rightarrow> SaveToPath os y cfg (Join [dir, ''config.yaml'']) d1)"

section \<open>The config commands\<close>

definition config_show :: "'d Os \<Rightarrow> Yaml \<Rightarrow> 'd cli" where
  "config_show os y d =
     (case Load os y d of
        Inl e \<Rightarrow> cli_err e
      | Inr cfg \<Rightarrow> (case yl_Marshal y cfg of Inl e \<Rightarrow> cli_err e | Inr data \<Rightarrow> prints data), d)"

definition config_path :: "'d Os \<Rightarrow> 'd cli" where
  "config_path os d = (case FilePath os of Inl e \<Rightarrow> cli_err e | Inr path \<Rightarrow> prints (line path), d)"

definition config_init :: "'d Os \<Rightarrow> Yaml \<Rightarrow> 'd cli" where
  "config_init os y d =
     (case SaveConfig os y default_config d of
        (Inl e, d1) \<Rightarrow> (cli_err (wrapped ''save config'' e), d1)
      | (Inr _, d1) \<Rightarrow>
          (prints (line (''Config file created at '' @ (case FilePath os of Inl _ \<Rightarrow> [] | Inr path \<Rightarrow> path))), d1))"

definition set_key :: "string \<Rightarrow> string \<Rightarrow> SmxConfig \<Rightarrow> SmxConfig option" where
  "set_key key v cfg =
     (let k = map to_lower key in
      if k = ''loglevel'' then Some (cfg\<lparr>cf_LogLevel := v\<rparr>)
      else if k = ''defaultruntime'' then Some (cfg\<lparr>cf_DefaultRuntime := v\<rparr>)
      else if k = ''server.addr'' then Some (cfg\<lparr>cf_Server := (cf_Server cfg)\<lparr>sc_Addr := v\<rparr>\<rparr>)
      else if k = ''dashboard.addr'' then Some (cfg\<lparr>cf_Dashboard := (cf_Dashboard cfg)\<lparr>db_Addr := v\<rparr>\<rparr>)
      else if k = ''blueprintdir'' then Some (cfg\<lparr>cf_BlueprintDir := v\<rparr>)
      else if k = ''statedir'' then Some (cfg\<lparr>cf_StateDir := v\<rparr>)
      else None)"

definition config_set :: "'d Os \<Rightarrow> Yaml \<Rightarrow> string \<Rightarrow> string \<Rightarrow> 'd cli" where
  "config_set os y key v d =
     (case Load os y d of
        Inl e \<Rightarrow> (cli_err e, d)
      | Inr cfg \<Rightarrow>
          (case set_key key v cfg of
             None \<Rightarrow> (cli_err (Errorf ''unknown config key: %s'' [AStr key]), d)
           | Some cfg1 \<Rightarrow>
               (case SaveConfig os y cfg1 d of
                  (Inl e, d1) \<Rightarrow> (cli_err e, d1)
                | (Inr _, d1) \<Rightarrow> (prints (line (''Set '' @ key @ '' = '' @ v)), d1))))"

section \<open>The operator\<close>

text \<open>A scaffold: starting it fails, reconciling prints what it would do. \<open>spec\<close> is the printed form of the specification.\<close>

record Operator =
  op_namespace :: string

definition NewOperator :: "string \<Rightarrow> Operator" where
  "NewOperator namespace = \<lparr>op_namespace = namespace\<rparr>"

definition operator_error :: goerr where
  "operator_error = Errorf (
     line (line ''operator mode requires a running Kubernetes cluster with sandboxMatrix CRDs installed'') @
     line ''Install CRDs first:'' @ line (line ''  kubectl apply -f deploy/crds/'') @
     line ''Or install via Helm:'' @ line (line ''  helm install sandboxmatrix deploy/helm/sandboxmatrix/'') @
     ''This is a scaffold. The real operator would use sigs.k8s.io/controller-runtime.'') []"

definition Operator_Start :: "Operator \<Rightarrow> goerr option" where
  "Operator_Start o1 = Some operator_error"

definition would_reconcile :: "string \<Rightarrow> Operator \<Rightarrow> string \<Rightarrow> string \<Rightarrow> string \<times> goerr option" where
  "would_reconcile kind o1 name spec =
     prints (line (err_text (Errorf (''[operator] would reconcile '' @ kind @ '' %q in namespace %q'') [AStr name, AStr (op_namespace o1)])) @
       line (''[operator] spec: '' @ spec))"

definition ReconcileSandbox :: "Operator \<Rightarrow> string \<Rightarrow> string \<Rightarrow> string \<times> goerr option" where
  "ReconcileSandbox = would_reconcile ''Sandbox''"

definition ReconcileMatrix :: "Operator \<Rightarrow> string \<Rightarrow> string \<Rightarrow> string \<times> goerr option" where
  "ReconcileMatrix = would_reconcile ''Matrix''"

definition ReconcileBlueprint :: "Operator \<Rightarrow> string \<Rightarrow> string \<Rightarrow> string \<times> goerr option" where
  "ReconcileBlueprint = would_reconcile ''Blueprint''"

definition operator_start :: "string \<Rightarrow> string \<times> goerr option" where
  "operator_start namespace =
     (line (''Starting sandboxMatrix operator (namespace: '' @ namespace @ '')...''), Operator_Start (NewOperator namespace))"

section \<open>Contracts\<close>

text \<open>A file that was written is read back; directories are made without touching files.\<close>

locale file_system =
  fixes os :: "'d Os" and cont :: "'d \<Rightarrow> string \<rightharpoonup> string"
  assumes read: "os_ReadFile os p d = FileData t \<Longrightarrow> cont d p = Some t"
    and absent: "os_ReadFile os p d = NoSuchFile e \<Longrightarrow> cont d p = None"
    and written: "os_WriteFile os p t d = (Inr (), d') \<Longrightarrow> cont d' = (cont d)(p \<mapsto> t)"
    and made: "os_MkdirAll os p d = (r, d') \<Longrightarrow> cont d' = cont d"
begin

lemma saved:
  assumes "SaveConfig os y cfg d = (Inr (), d')"
  shows "\<exists>path data. FilePath os = Inr path \<and> yl_Marshal y cfg = Inr data \<and> cont d' = (cont d)(path \<mapsto> data)"
  using assms made written
  by (fastforce simp: SaveConfig_def EnsureDir_def FilePath_def SaveToPath_def split: sum.splits prod.splits)

lemma saved_loaded:
  assumes "SaveConfig os y cfg d = (Inr (), d')" and "Load os y d' = Inr cfg'"
    and "\<And>t. yl_Marshal y cfg = Inr t \<Longrightarrow> yl_Unmarshal y t default_config = Inr cfg"
  shows "cfg' = cfg"
proof -
  from saved [OF assms(1)] obtain path data where p: "FilePath os = Inr path" "yl_Marshal y cfg = Inr data"
    "cont d' path = Some data" by auto
  then show ?thesis using read [of path d'] absent [of path d'] assms(2,3)
    by (cases "os_ReadFile os path d'") (auto simp: Load_def LoadFromPath_def)
qed

end

section \<open>A disk\<close>

definition plain_os :: "string gomap Os" where
  "plain_os = \<lparr>os_Home = Inr ''/root'',
     os_ReadFile = (\<lambda>p d. case gm_get d p of None \<Rightarrow> NoSuchFile (ExtErr ''no such file'') | Some t \<Rightarrow> FileData t),
     os_MkdirAll = (\<lambda>p d. (Inr (), d)), os_WriteFile = (\<lambda>p t d. (Inr (), gm_set p t d))\<rparr>"

lemma plain_os_simps [simp]:
  "os_Home plain_os = Inr ''/root''"
  "os_ReadFile plain_os p d = (case gm_get d p of None \<Rightarrow> NoSuchFile (ExtErr ''no such file'') | Some t \<Rightarrow> FileData t)"
  "os_MkdirAll plain_os p d = (Inr (), d)" "os_WriteFile plain_os p t d = (Inr (), gm_set p t d)"
  by (simp_all add: plain_os_def)

interpretation pos: file_system plain_os map_of
  by unfold_locales (auto split: option.splits)


text \<open>The help text names two more keys, which are refused.\<close>

lemma documented_keys_refused:
  assumes "Load os y d = Inr cfg" and "key = ''pool.minReady'' \<or> key = ''pool.maxSize''"
  shows "config_set os y key v d = (cli_err (Errorf ''unknown config key: %s'' [AStr key]), d)"
proof -
  have "set_key key v cfg = None" using assms(2) by (elim disjE) (simp; simp add: set_key_def to_lower_def Let_def)+
  then show ?thesis by (simp add: config_set_def assms(1))
qed

definition one_field :: Yaml where
  "one_field = \<lparr>yl_Marshal = (\<lambda>c. if c = default_config\<lparr>cf_LogLevel := cf_LogLevel c\<rparr> then Inr (cf_LogLevel c) else Inl (ExtErr ''unsupported'')),
     yl_Unmarshal = (\<lambda>t c. Inr (c\<lparr>cf_LogLevel := t\<rparr>))\<rparr>"


end
