(* ===== verification/Commands.thy ===== *)
theory Commands
  imports Mcp Settings
begin

text \<open>
  \<open>internal/cli\<close>: the commands on sandboxes, sessions, matrices, images, blueprints and messages. A command is what the terminal shows
  (standard output and error, as one text), the error it ends with, and the new state. Cobra has split the arguments and
  flags and checked their number; the layouts of \<open>time\<close> and the frames of an output are the fields of \<open>CliLibs\<close>.
\<close>

section \<open>Printing\<close>

definition printf :: "string \<Rightarrow> goarg list \<Rightarrow> string" where
  "printf f as = line (err_text (Errorf f as))"

definition fails_with :: "string \<Rightarrow> goerr \<Rightarrow> string \<times> goerr option" where
  "fails_with out e = (out, Some e)"

definition labelled :: "string \<Rightarrow> string \<Rightarrow> string" where
  "labelled label v = line (label @ v)"

definition when_set :: "bool \<Rightarrow> string \<Rightarrow> string" where
  "when_set b s = (if b then s else [])"

text \<open>\<open>tabwriter\<close> with two blanks of padding on rows of equally many cells: a column is as wide as its widest cell; the last cell of a
  row is not padded.\<close>

definition column_width :: "string list list \<Rightarrow> nat \<Rightarrow> nat" where
  "column_width rows j = fold (\<lambda>r w. max (rune_count (map of_char (r ! j)) + 2) w) rows 0"

fun table_row :: "nat list \<Rightarrow> string list \<Rightarrow> string" where
  "table_row ws [] = []"
| "table_row ws [c] = c"
| "table_row [] (c # cs) = []"
| "table_row (w # ws) (c # cs) = pad_right w c @ table_row ws cs"

definition table :: "string list list \<Rightarrow> string" where
  "table rows =
     (let ws = map (column_width rows) [0..<length (hd rows) - 1] in concat (map (\<lambda>r. line (table_row ws r)) rows))"

definition short_id :: "string \<Rightarrow> string" where
  "short_id i = (if length i > 12 then take 12 i else i)"

definition megabytes :: "int \<Rightarrow> string" where
  "megabytes n = fmt_fixed 1 (fdiv (f64_of_int n) mebibyte) @ '' MB''"

record CliLibs =
  li_rfc3339 :: "gtime \<Rightarrow> string"
  li_stamp :: "gtime \<Rightarrow> string"
  li_datetime :: "gtime \<Rightarrow> string"
  li_frames :: "string \<Rightarrow> string \<Rightarrow> (bool \<times> string) list"

text \<open>\<open>time.Since\<close>, read for every row.\<close>

fun ages :: "gtime list \<Rightarrow> (string list, ('w, 'p) cstate) act" where
  "ages [] s = ([], s)"
| "ages (t # ts) s =
     (case now s of (n, s1) \<Rightarrow> case ages ts s1 of (rest, s2) \<Rightarrow> (duration_string (truncate_second (n - t)) # rest, s2))"

text \<open>A listing: nothing found, or a table with the ages of the rows in the last column.\<close>

definition list_with_ages ::
  "string \<Rightarrow> string list \<Rightarrow> ('a \<Rightarrow> gtime) \<Rightarrow> ('a \<Rightarrow> string list) \<Rightarrow> ('a list res, ('w, 'p) cstate) act \<Rightarrow> ('w, 'p) cstate cli" where
  "list_with_ages none heads created cells op s =
     (case op s of
        (Inl e, s1) \<Rightarrow> (cli_err e, s1)
      | (Inr xs, s1) \<Rightarrow>
          if xs = [] then (prints (line none), s1)
          else case ages (map created xs) s1 of (as, s2) \<Rightarrow>
            (prints (table (heads # map2 (\<lambda>x a. cells x @ [a]) xs as)), s2))"

text \<open>An operation that says it is done.\<close>

definition done_with :: "string \<Rightarrow> (unit res, 's) act \<Rightarrow> 's cli" where
  "done_with out op s = (case op s of (Inl e, s1) \<Rightarrow> (cli_err e, s1) | (Inr _, s1) \<Rightarrow> (prints out, s1))"

definition exec_result :: "CliLibs \<Rightarrow> (int \<Rightarrow> goerr) \<Rightarrow> (goerr \<Rightarrow> goerr) \<Rightarrow> string \<Rightarrow> (ExecResult \<times> goerr option, 's) act \<Rightarrow> 's cli" where
  "exec_result l bad failed pre op s =
     (case op s of
        ((result, err), s1) \<Rightarrow>
          let out = pre @ concat (map snd (li_frames l (er_Stdout result) (er_Stderr result))) in
          (case err of
             Some e \<Rightarrow> fails_with out (failed e)
           | None \<Rightarrow> if er_ExitCode result \<noteq> 0 then fails_with out (bad (er_ExitCode result)) else prints out, s1))"

definition no_docker :: "goerr \<Rightarrow> goerr" where
  "no_docker e = Errorf (''initialize Docker runtime: %w'' @ [CHR 0x0A, CHR 0x0A] @ ''Is Docker running?'') [AErr e]"

section \<open>Sandboxes\<close>

fun parse_env :: "string list \<Rightarrow> string gomap \<Rightarrow> string gomap res" where
  "parse_env [] m = Inr m"
| "parse_env (pair # pairs) m =
     (case SplitN pair (CHR ''='') 2 of
        [k, v] \<Rightarrow> parse_env pairs (gm_set k v m)
      | _ \<Rightarrow> Inl (Errorf ''invalid env format %q, expected KEY=VALUE'' [AStr pair]))"

definition created_text :: "Sandbox option \<Rightarrow> string \<times> goerr option \<Rightarrow> string \<Rightarrow> string \<times> goerr option" where
  "created_text sb nil pre =
     (case sb of
        None \<Rightarrow> nil
      | Some b \<Rightarrow> prints (pre @ printf ''Sandbox %q is %s (runtime: %s)''
          [AStr (om_Name (sb_Metadata b)), AStr (state_text (st_State (sb_Status b))), AStr (short_id (st_RuntimeID (sb_Status b)))]))"

definition sandbox_create ::
  "string \<Rightarrow> string \<Rightarrow> string \<Rightarrow> string list \<Rightarrow> ('w, 'p) Controller \<Rightarrow> ('w, 'p) cstate cli" where
  "sandbox_create blueprintPath name workspace envPairs c s =
     (if blueprintPath = [] then (cli_err (Errorf ''--blueprint is required'' []), s)
      else if name = [] then (cli_err (Errorf ''--name is required'' []), s)
      else case parse_env envPairs [] of
        Inl e \<Rightarrow> (cli_err e, s)
      | Inr env \<Rightarrow>
          let pre = printf ''Creating sandbox %q from blueprint %s...'' [AStr name, AStr blueprintPath] in
          case Create c \<lparr>co_Name = name, co_BlueprintPath = blueprintPath, co_WorkspaceDir = workspace, co_NetworkName = [],
              co_Env = env, co_Team = []\<rparr> s of
            ((sb, Some e), s1) \<Rightarrow> (fails_with pre e, s1)
          | ((sb, None), s1) \<Rightarrow> (created_text sb (fails_with pre (Panic ''nil pointer dereference'')) pre, s1))"

definition sandbox_list :: "('w, 'p) Controller \<Rightarrow> ('w, 'p) cstate cli" where
  "sandbox_list c =
     list_with_ages ''No sandboxes found.'' [''NAME'', ''STATE'', ''BLUEPRINT'', ''RUNTIME ID'', ''AGE'']
       (\<lambda>sb. om_CreatedAt (sb_Metadata sb))
       (\<lambda>sb. [om_Name (sb_Metadata sb), state_text (st_State (sb_Status sb)), sp_BlueprintRef (sb_Spec sb),
          short_id (st_RuntimeID (sb_Status sb))]) (List c)"

definition sandbox_stop :: "string \<Rightarrow> ('w, 'p) Controller \<Rightarrow> ('w, 'p) cstate cli" where
  "sandbox_stop name c = done_with (printf ''Sandbox %q stopped.'' [AStr name]) (Stop c name)"

definition sandbox_start :: "string \<Rightarrow> ('w, 'p) Controller \<Rightarrow> ('w, 'p) cstate cli" where
  "sandbox_start name c = done_with (printf ''Sandbox %q started.'' [AStr name]) (Start c name)"

definition sandbox_destroy :: "string \<Rightarrow> ('w, 'p) Controller \<Rightarrow> ('w, 'p) cstate cli" where
  "sandbox_destroy name c = done_with (printf ''Sandbox %q destroyed.'' [AStr name]) (Destroy c name)"

definition exit_code_error :: "int \<Rightarrow> goerr" where
  "exit_code_error n = Errorf ''exit code: %d'' [AInt n]"

definition sandbox_exec :: "CliLibs \<Rightarrow> string \<Rightarrow> string list \<Rightarrow> ('w, 'p) Controller \<Rightarrow> ('w, 'p) cstate cli" where
  "sandbox_exec l name args c =
     exec_result l exit_code_error id [] (Exec c name (exec_config (if args = [] then [''/bin/sh''] else args)))"

definition gpu_check :: "CliLibs \<Rightarrow> string \<Rightarrow> ('w, 'p) Controller \<Rightarrow> ('w, 'p) cstate cli" where
  "gpu_check l name c =
     exec_result l (\<lambda>n. Errorf ''nvidia-smi exited with code %d (GPU may not be available)'' [AInt n]) (wrapped ''gpu check failed'')
       (printf ''Checking GPU status in sandbox %q...'' [AStr name]) (Exec c name (exec_config [''nvidia-smi'']))"

definition time_line :: "CliLibs \<Rightarrow> string \<Rightarrow> gtime option \<Rightarrow> string" where
  "time_line l label t = (case t of None \<Rightarrow> [] | Some x \<Rightarrow> labelled label (li_rfc3339 l x))"

definition inspect_text :: "CliLibs \<Rightarrow> Sandbox \<Rightarrow> string" where
  "inspect_text l sb =
     (let m = sb_Metadata sb; sp = sb_Spec sb; st = sb_Status sb; ws = sp_Workspace sp in
      labelled ''Name:       '' (om_Name m) @ labelled ''State:      '' (state_text (st_State st)) @
      labelled ''Blueprint:  '' (sp_BlueprintRef sp) @ labelled ''Runtime ID: '' (st_RuntimeID st) @
      when_set (st_IP st \<noteq> []) (labelled ''IP:         '' (st_IP st)) @
      labelled ''Created:    '' (li_rfc3339 l (om_CreatedAt m)) @ time_line l ''Started:    '' (st_StartedAt st) @
      time_line l ''Ready:      '' (st_ReadyAt st) @ time_line l ''Stopped:    '' (st_StoppedAt st) @
      when_set (st_ProbeError st \<noteq> []) (labelled ''ProbeError: '' (st_ProbeError st)) @
      when_set (ws_Source ws \<noteq> []) (labelled ''Workspace:  '' (ws_Source ws @ '' -> '' @ ws_MountPath ws)) @
      when_set (st_Message st \<noteq> []) (labelled ''Message:    '' (st_Message st)))"

definition sandbox_inspect :: "CliLibs \<Rightarrow> string \<Rightarrow> ('w, 'p) Controller \<Rightarrow> ('w, 'p) cstate cli" where
  "sandbox_inspect l name c s =
     (case Get c name s of (Inl e, s1) \<Rightarrow> (cli_err e, s1) | (Inr sb, s1) \<Rightarrow> (prints (inspect_text l sb), s1))"

definition sandbox_stats :: "string \<Rightarrow> ('w, 'p) Controller \<Rightarrow> ('w, 'p) cstate cli" where
  "sandbox_stats name c s =
     (case Stats_of c name s of (Inl e, s1) \<Rightarrow> (cli_err e, s1) | (Inr st, s1) \<Rightarrow> (prints (line (stats_text st)), s1))"

definition sandbox_snapshot :: "CliLibs \<Rightarrow> string \<Rightarrow> string \<Rightarrow> ('w, 'p) Controller \<Rightarrow> ('w, 'p) cstate cli" where
  "sandbox_snapshot l name tag0 c s0 =
     (case (if tag0 = [] then (case now s0 of (t, s) \<Rightarrow> (li_stamp l t, s)) else (tag0, s0)) of (tag, s) \<Rightarrow>
      let pre = printf ''Creating snapshot of sandbox %q with tag %q...'' [AStr name, AStr tag] in
      case Snapshot c name tag s of
        (Inl e, s1) \<Rightarrow> (fails_with pre e, s1)
      | (Inr i, s1) \<Rightarrow> (prints (pre @ labelled ''Snapshot created: '' (short_id i)), s1))"

definition sandbox_restore :: "string \<Rightarrow> string \<Rightarrow> string \<Rightarrow> ('w, 'p) Controller \<Rightarrow> ('w, 'p) cstate cli" where
  "sandbox_restore name snapshotID newName c s =
     (if snapshotID = [] then (cli_err (Errorf ''--snapshot is required'' []), s)
      else if newName = [] then (cli_err (Errorf ''--name is required'' []), s)
      else let pre = printf ''Restoring sandbox %q from snapshot %s as %q...'' [AStr name, AStr snapshotID, AStr newName] in
        case Restore c name snapshotID newName s of
          ((sb, Some e), s1) \<Rightarrow> (fails_with pre e, s1)
        | ((sb, None), s1) \<Rightarrow> (created_text sb (fails_with pre (Panic ''nil pointer dereference'')) pre, s1))"

definition sandbox_snapshots :: "CliLibs \<Rightarrow> string \<Rightarrow> ('w, 'p) Controller \<Rightarrow> ('w, 'p) cstate cli" where
  "sandbox_snapshots l name c s =
     (case ListSnapshots c name s of
        (Inl e, s1) \<Rightarrow> (cli_err e, s1)
      | (Inr snaps, s1) \<Rightarrow>
          (prints (if snaps = [] then line ''No snapshots found.''
             else table ([''ID'', ''TAG'', ''CREATED'', ''SIZE''] #
               map (\<lambda>x. [short_id (si_ID x), si_Tag x, li_rfc3339 l (si_CreatedAt x), megabytes (si_Size x)]) snaps)), s1))"

section \<open>Sessions\<close>

definition session_start :: "string \<Rightarrow> ('w, 'p) Controller \<Rightarrow> ('w, 'p) cstate cli" where
  "session_start sandbox c s =
     (case StartSession c sandbox s of
        (Inl e, s1) \<Rightarrow> (cli_err e, s1)
      | (Inr se, s1) \<Rightarrow>
          (prints (printf ''Session %q started for sandbox %q.'' [AStr (om_Name (se_Metadata se)), AStr (se_Sandbox se)]), s1))"

definition session_end :: "string \<Rightarrow> ('w, 'p) Controller \<Rightarrow> ('w, 'p) cstate cli" where
  "session_end i c = done_with (printf ''Session %q ended.'' [AStr i]) (EndSession c i)"

definition session_list :: "string \<Rightarrow> ('w, 'p) Controller \<Rightarrow> ('w, 'p) cstate cli" where
  "session_list sandbox c =
     list_with_ages ''No sessions found.'' [''ID'', ''SANDBOX'', ''STATE'', ''EXECS'', ''AGE'']
       (\<lambda>se. om_CreatedAt (se_Metadata se))
       (\<lambda>se. [om_Name (se_Metadata se), se_Sandbox se, session_state_text (se_State se), itoa (se_ExecCount se)])
       (ListSessions c sandbox)"

definition session_exec :: "CliLibs \<Rightarrow> string \<Rightarrow> string list \<Rightarrow> ('w, 'p) Controller \<Rightarrow> ('w, 'p) cstate cli" where
  "session_exec l i args c =
     exec_result l exit_code_error id [] (ExecInSession c i (exec_config (if args = [] then [''/bin/sh''] else args)))"

section \<open>Matrices\<close>

fun parseMembers :: "string list \<Rightarrow> MatrixMember list res" where
  "parseMembers [] = Inr []"
| "parseMembers (m # ms) =
     (case SplitN m (CHR '':'') 2 of
        [n, b] \<Rightarrow>
          if n = [] \<or> b = [] then Inl (Errorf ''invalid member format %q: expected name:blueprint'' [AStr m])
          else map_sum id ((#) \<lparr>mm_Name = n, mm_Blueprint = b\<rparr>) (parseMembers ms)
      | _ \<Rightarrow> Inl (Errorf ''invalid member format %q: expected name:blueprint'' [AStr m]))"

definition matrix_create :: "string \<Rightarrow> string list \<Rightarrow> ('w, 'p) Controller \<Rightarrow> ('w, 'p) cstate cli" where
  "matrix_create name members c s =
     (if members = [] then (cli_err (Errorf ''at least one --member is required'' []), s)
      else case parseMembers members of
        Inl e \<Rightarrow> (cli_err e, s)
      | Inr parsed \<Rightarrow>
          let pre = printf ''Creating matrix %q with %d members...'' [AStr name, AInt (int (length parsed))] in
          case CreateMatrix c name parsed [] s of
            (Inl e, s1) \<Rightarrow> (fails_with pre e, s1)
          | (Inr mx, s1) \<Rightarrow>
              (prints (pre @ printf ''Matrix %q is %s.'' [AStr (om_Name (mx_Metadata mx)), AStr (matrix_state_text (mx_State mx))] @
                 concat (map (\<lambda>m. printf ''  - %s (%s)'' [AStr (mm_Name m), AStr (mm_Blueprint m)]) (mx_Members mx))), s1))"

fun comma_join :: "string list \<Rightarrow> string" where
  "comma_join [] = []"
| "comma_join [x] = x"
| "comma_join (x # xs) = x @ '','' @ comma_join xs"

definition matrix_list :: "('w, 'p) Controller \<Rightarrow> ('w, 'p) cstate cli" where
  "matrix_list c =
     list_with_ages ''No matrices found.'' [''NAME'', ''STATE'', ''MEMBERS'', ''AGE'']
       (\<lambda>mx. om_CreatedAt (mx_Metadata mx))
       (\<lambda>mx. [om_Name (mx_Metadata mx), matrix_state_text (mx_State mx), comma_join (map mm_Name (mx_Members mx))]) (ListMatrices c)"

definition matrix_text :: "CliLibs \<Rightarrow> Matrix \<Rightarrow> string" where
  "matrix_text l mx =
     labelled ''Name:     '' (om_Name (mx_Metadata mx)) @ labelled ''State:    '' (matrix_state_text (mx_State mx)) @
     labelled ''Created:  '' (li_rfc3339 l (om_CreatedAt (mx_Metadata mx))) @ line ''Members:'' @
     concat (map (\<lambda>m. printf ''  - %s (blueprint: %s, sandbox: %s)''
       [AStr (mm_Name m), AStr (mm_Blueprint m), AStr (om_Name (mx_Metadata mx) @ ''-'' @ mm_Name m)]) (mx_Members mx))"

definition matrix_inspect :: "CliLibs \<Rightarrow> string \<Rightarrow> ('w, 'p) Controller \<Rightarrow> ('w, 'p) cstate cli" where
  "matrix_inspect l name c s =
     (case GetMatrix c name s of (Inl e, s1) \<Rightarrow> (cli_err e, s1) | (Inr mx, s1) \<Rightarrow> (prints (matrix_text l mx), s1))"

definition matrix_stop :: "string \<Rightarrow> ('w, 'p) Controller \<Rightarrow> ('w, 'p) cstate cli" where
  "matrix_stop name c = done_with (printf ''Matrix %q stopped.'' [AStr name]) (StopMatrix c name)"

definition matrix_start :: "string \<Rightarrow> ('w, 'p) Controller \<Rightarrow> ('w, 'p) cstate cli" where
  "matrix_start name c = done_with (printf ''Matrix %q started.'' [AStr name]) (StartMatrix c name)"

definition matrix_destroy :: "string \<Rightarrow> ('w, 'p) Controller \<Rightarrow> ('w, 'p) cstate cli" where
  "matrix_destroy name c = done_with (printf ''Matrix %q destroyed.'' [AStr name]) (DestroyMatrix c name)"

section \<open>Images, blueprints, messages, version\<close>

definition image_build :: "HostEnv \<Rightarrow> string \<Rightarrow> string \<Rightarrow> 'w Builder \<Rightarrow> 'w cli" where
  "image_build host short blueprintPath b w =
     (if blueprintPath = [] then (cli_err (Errorf ''--blueprint is required'' []), w)
      else let pre = labelled ''Building image from blueprint '' (blueprintPath @ ''...'') in
        case Build b host short blueprintPath w of
          (Inl e, w1) \<Rightarrow> (fails_with pre e, w1)
        | (Inr r, w1) \<Rightarrow>
            (prints (pre @ line ''Image built successfully.'' @ labelled ''  Blueprint: '' (br_Blueprint r) @
               labelled ''  Tag:       '' (br_ImageTag r) @ labelled ''  Image ID:  '' (short_id (br_ImageID r))), w1))"

definition image_list :: "'w Builder \<Rightarrow> 'w cli" where
  "image_list b w =
     (case ListBuiltImages b w of
        (Inl e, w1) \<Rightarrow> (cli_err e, w1)
      | (Inr images, w1) \<Rightarrow>
          (prints (if images = [] then line ''No built images found.''
             else table ([''TAG'', ''BLUEPRINT'', ''IMAGE ID'', ''SIZE''] #
               map (\<lambda>i. [ii_Tag i, ii_Blueprint i, short_id (ii_ID i), megabytes (ii_Size i)]) images)), w1))"

definition image_clean :: "'w Builder \<Rightarrow> 'w cli" where
  "image_clean b w =
     (case Clean_images b w of
        (Inl e, w1) \<Rightarrow> (cli_err e, w1)
      | (Inr n, w1) \<Rightarrow> (prints (printf ''Removed %d built image(s).'' [AInt n]), w1))"

definition blueprint_validate :: "HostEnv \<Rightarrow> string \<Rightarrow> string \<times> goerr option" where
  "blueprint_validate host path =
     (case ValidateFile host path of (bp, errs) \<Rightarrow>
        if errs \<noteq> [] then
          fails_with (printf ''Blueprint %q has %d validation error(s):'' [AStr path, AInt (int (length errs))] @
            concat (map (\<lambda>e. labelled ''  - '' (err_text e)) errs)) (Errorf ''validation failed'' [])
        else case bp of
          None \<Rightarrow> cli_err (Panic ''nil pointer dereference'')
        | Some b \<Rightarrow> prints (printf ''Blueprint %q (%s) is valid.'' [AStr (om_Name (bp_Metadata b)), AStr path]))"

text \<open>\<open>%v\<close> of a slice of integers.\<close>

fun spaced :: "string list \<Rightarrow> string" where
  "spaced [] = []"
| "spaced [x] = x"
| "spaced (x # xs) = x @ '' '' @ spaced xs"

definition blueprint_text :: "Blueprint \<Rightarrow> string" where
  "blueprint_text bp =
     (let sp = bp_Spec bp; r = bs_Resources sp in
      labelled ''Name:      '' (om_Name (bp_Metadata bp)) @ labelled ''Version:   '' (om_Version (bp_Metadata bp)) @
      labelled ''Base:      '' (bs_Base sp) @ labelled ''Runtime:   '' (bs_Runtime sp) @
      when_set (res_CPU r \<noteq> []) (labelled ''CPU:       '' (res_CPU r)) @
      when_set (res_Memory r \<noteq> []) (labelled ''Memory:    '' (res_Memory r)) @
      when_set (res_Disk r \<noteq> []) (labelled ''Disk:      '' (res_Disk r)) @
      when_set (bs_Setup sp \<noteq> []) (printf ''Setup:     %d step(s)'' [AInt (int (length (bs_Setup sp)))]) @
      when_set (bs_Toolchains sp \<noteq> []) (printf ''Toolchains: %d'' [AInt (int (length (bs_Toolchains sp)))]) @
      when_set (ws_MountPath (bs_Workspace sp) \<noteq> []) (labelled ''Workspace: '' (ws_MountPath (bs_Workspace sp))) @
      when_set (net_Expose (bs_Network sp) \<noteq> [])
        (labelled ''Ports:     '' (''['' @ spaced (map itoa (net_Expose (bs_Network sp))) @ '']'')))"

definition blueprint_inspect :: "HostEnv \<Rightarrow> string \<Rightarrow> string \<times> goerr option" where
  "blueprint_inspect host path = (case ParseFile host path of Inl e \<Rightarrow> cli_err e | Inr bp \<Rightarrow> prints (blueprint_text bp))"

text \<open>The gateway lives as long as the process. \<open>marshal\<close> is \<open>json.MarshalIndent\<close>.\<close>

definition a2a_send :: "string \<Rightarrow> string \<Rightarrow> string \<Rightarrow> string \<Rightarrow> 'x Gateway cli" where
  "a2a_send src dst ty payload =
     done_with (printf ''Message sent from %q to %q (type: %s).'' [AStr src, AStr dst, AStr ty]) (Send (new_message src dst ty payload))"

definition a2a_receive :: "(Message list \<Rightarrow> string res) \<Rightarrow> string \<Rightarrow> 'x Gateway cli" where
  "a2a_receive marshal sandbox g =
     (case Receive sandbox g of (msgs, g1) \<Rightarrow>
        (if msgs = [] then prints (line ''No pending messages.'')
         else case marshal msgs of Inl e \<Rightarrow> cli_err (wrapped ''marshal messages'' e) | Inr data \<Rightarrow> prints (line data), g1))"

definition a2a_broadcast :: "string \<Rightarrow> string \<Rightarrow> string \<Rightarrow> string \<Rightarrow> 'x Gateway cli" where
  "a2a_broadcast src targets ty payload =
     (let ts = map TrimSpace (Split targets (CHR '','')) in
      done_with (printf ''Broadcast from %q to %d targets (type: %s).'' [AStr src, AInt (int (length ts)), AStr ty])
        (Broadcast src ts ty payload))"

record VersionStrings =
  vs_Version :: string
  vs_Commit :: string
  vs_BuildDate :: string
  vs_GoVersion :: string
  vs_OS :: string
  vs_Arch :: string

definition version_text :: "VersionStrings \<Rightarrow> string" where
  "version_text v =
     labelled ''smx version '' (vs_Version v) @ labelled ''  commit:    '' (vs_Commit v) @ labelled ''  built:     '' (vs_BuildDate v) @
     labelled ''  go:        '' (vs_GoVersion v) @ labelled ''  os/arch:   '' (vs_OS v @ ''/'' @ vs_Arch v)"

definition version_command :: "(VersionStrings \<Rightarrow> string res) \<Rightarrow> bool \<Rightarrow> VersionStrings \<Rightarrow> string \<times> goerr option" where
  "version_command marshal json v =
     (if json then (case marshal v of Inl e \<Rightarrow> cli_err e | Inr data \<Rightarrow> prints (line data)) else prints (version_text v))"

section \<open>Arguments are read as meant\<close>

lemma while_sep:
  "sep \<notin> set k \<Longrightarrow> dropWhile (\<lambda>x. x \<noteq> sep) (k @ sep # v) = sep # v"
  "sep \<notin> set k \<Longrightarrow> takeWhile (\<lambda>x. x \<noteq> sep) (k @ sep # v) = k"
  "sep \<notin> set k \<Longrightarrow> dropWhile (\<lambda>x. x \<noteq> sep) k = []"
  by (induction k) auto

lemma SplitN_first: "sep \<notin> set k \<Longrightarrow> SplitN (k @ sep # v) sep 2 = [k, v]"
  by (simp add: numeral_2_eq_2 while_sep)

lemma gm_set_absent: "k \<notin> fst ` set m \<Longrightarrow> gm_set k v m = m @ [(k, v)]"
  by (induction m) auto

lemma parse_env_pairs:
  "gm_wf (m @ ps) \<Longrightarrow> \<forall>p \<in> set ps. CHR ''='' \<notin> set (fst p) \<Longrightarrow>
   parse_env (map (\<lambda>(k, v). k @ CHR ''='' # v) ps) m = Inr (m @ ps)"
proof (induction ps arbitrary: m)
  case (Cons p ps)
  obtain k v where p: "p = (k, v)" by fastforce
  from Cons.prems have "SplitN (k @ CHR ''='' # v) (CHR ''='') 2 = [k, v]" and "gm_set k v m = m @ [(k, v)]"
    by (auto simp: p SplitN_first gm_set_absent simp del: SplitN.simps)
  with Cons.IH [of "m @ [(k, v)]"] Cons.prems show ?case by (simp add: p del: SplitN.simps)
qed simp

lemma parse_env_bad:
  "CHR ''='' \<notin> set p \<Longrightarrow> parse_env (p # ps) m = Inl (Errorf ''invalid env format %q, expected KEY=VALUE'' [AStr p])"
  by (simp add: numeral_2_eq_2 while_sep)

text \<open>Environment pairs and matrix members written on the command line are read back as they were meant: a value may hold any
  character, the separator included, a key or member name any but the separator.\<close>

theorem arguments_round_trip:
  assumes "gm_wf env" and "\<forall>p \<in> set env. CHR ''='' \<notin> set (fst p)"
    and "\<forall>m \<in> set ms. CHR '':'' \<notin> set (mm_Name m) \<and> mm_Name m \<noteq> [] \<and> mm_Blueprint m \<noteq> []"
  shows "parse_env (map (\<lambda>(k, v). k @ CHR ''='' # v) env) [] = Inr env \<and>
    parseMembers (map (\<lambda>m. mm_Name m @ CHR '':'' # mm_Blueprint m) ms) = Inr ms"
proof
  show "parse_env (map (\<lambda>(k, v). k @ CHR ''='' # v) env) [] = Inr env" using parse_env_pairs [of "[]" env] assms(1,2) by simp
  show "parseMembers (map (\<lambda>m. mm_Name m @ CHR '':'' # mm_Blueprint m) ms) = Inr ms"
    using assms(3) by (induction ms) (simp_all add: SplitN_first del: SplitN.simps)
qed

theorem arguments_round_trip_witness:
  "parse_env [''A=1'', ''B=x=y''] [] = Inr [(''A'', ''1''), (''B'', ''x=y'')] \<and>
   parseMembers [''web:C:/go.yaml''] = Inr [\<lparr>mm_Name = ''web'', mm_Blueprint = ''C:/go.yaml''\<rparr>]"
  using arguments_round_trip [of "[(''A'', ''1''), (''B'', ''x=y'')]" "[\<lparr>mm_Name = ''web'', mm_Blueprint = ''C:/go.yaml''\<rparr>]"]
  by simp

end
