(* ===== verification/Pool.thy ===== *)
theory Pool
  imports RuntimeApi BlueprintFiles GoFloat
begin

text \<open>
  \<open>internal/pool/pool.go\<close>: containers created ahead of time. The lock is held for short sections
  and released while the backend creates a container, so the sections are definitions of their own
  (\<open>take_ready\<close>, \<open>count_claim\<close>, \<open>reserve\<close>, \<open>publish\<close>, \<open>put_back\<close>): \<open>Claim\<close>, \<open>Release\<close> and \<open>fillPool\<close>
  compose them as the code does, and the step relation \<open>pool_step\<close> interleaves them. \<open>fillPool\<close> is a loop
  that need not end; it is a partial function whose value is \<open>None\<close> when it does not. A wake-up
  channel of capacity one is a flag.
\<close>

record Config =
  pf_BlueprintPath :: string
  pf_MinReady :: int
  pf_MaxSize :: int

record BlueprintPool =
  pl_Blueprint :: string
  pl_MinReady :: int
  pl_MaxSize :: int
  pl_Ready :: "string list"
  pl_Creating :: int
  pl_inUse :: int
  pl_totalCreated :: int
  pl_totalClaims :: int
  pl_totalClaimNs :: int
  pl_image :: string
  pl_blueprintPath :: string
  pl_notify :: bool

record PoolStats =
  ps_BlueprintPath :: string
  ps_MinReady :: int
  ps_MaxSize :: int
  ps_Ready :: int
  ps_InUse :: int
  ps_TotalCreated :: int
  ps_AvgClaimTime :: int

record 'w Pool =
  po_rt :: 'w
  po_pools :: "BlueprintPool gomap"
  po_clock :: "nat \<Rightarrow> gtime"
  po_tick :: nat

abbreviation pool_of :: "'w Pool \<Rightarrow> string \<Rightarrow> BlueprintPool option" where
  "pool_of s path \<equiv> gm_get (po_pools s) path"

definition set_pool :: "string \<Rightarrow> BlueprintPool \<Rightarrow> 'w Pool \<Rightarrow> 'w Pool" where
  "set_pool path bp s = s\<lparr>po_pools := gm_set path bp (po_pools s)\<rparr>"

definition pool_now :: "(gtime, 'w Pool) act" where
  "pool_now s = (po_clock s (po_tick s), s\<lparr>po_tick := Suc (po_tick s)\<rparr>)"

definition on_prt :: "('a, 'w) act \<Rightarrow> ('a, 'w Pool) act" where
  "on_prt a s = (case a (po_rt s) of (r, w) \<Rightarrow> (r, s\<lparr>po_rt := w\<rparr>))"

section \<open>Configure\<close>

definition config_error :: "Config \<Rightarrow> goerr option" where
  "config_error cfg =
     (if pf_BlueprintPath cfg = '''' then Some (Errorf ''blueprint path is required'' [])
      else if pf_MinReady cfg < 0 then Some (Errorf ''min-ready must be >= 0'' [])
      else if pf_MaxSize cfg < 0 then Some (Errorf ''max-size must be >= 0'' [])
      else if pf_MaxSize cfg > 0 \<and> pf_MinReady cfg > pf_MaxSize cfg then
        Some (Errorf ''min-ready (%d) cannot exceed max-size (%d)''
          [AInt (pf_MinReady cfg), AInt (pf_MaxSize cfg)])
      else None)"

definition Configure :: "HostEnv \<Rightarrow> Config \<Rightarrow> (unit res, 'w Pool) act" where
  "Configure host cfg s =
     (case config_error cfg of Some e \<Rightarrow> (Inl e, s) | None \<Rightarrow>
      case ValidateFile host (pf_BlueprintPath cfg) of
        (_, e # _) \<Rightarrow> (Inl (Errorf ''invalid blueprint: %v'' [AErr e]), s)
      | (None, []) \<Rightarrow> (Inl (Panic ''invalid memory address or nil pointer dereference''), s)
      | (Some bp, []) \<Rightarrow>
          (Inr (), set_pool (pf_BlueprintPath cfg)
             \<lparr>pl_Blueprint = om_Name (bp_Metadata bp), pl_MinReady = pf_MinReady cfg,
              pl_MaxSize = pf_MaxSize cfg, pl_Ready = [], pl_Creating = 0, pl_inUse = 0, pl_totalCreated = 0,
              pl_totalClaims = 0, pl_totalClaimNs = 0, pl_image = bs_Base (bp_Spec bp),
              pl_blueprintPath = pf_BlueprintPath cfg, pl_notify = False\<rparr> s))"

section \<open>A warm container\<close>

definition warm_config :: "string \<Rightarrow> string \<Rightarrow> string \<Rightarrow> gtime \<Rightarrow> CreateConfig" where
  "warm_config img name path t =
     \<lparr>cc_Name = ''smx-pool-'' @ name @ ''-'' @ itoa t, cc_Image = img, cc_CPU = '''', cc_Memory = '''',
      cc_Disk = '''', cc_GPU = None, cc_Devices = [], cc_Mounts = [], cc_Ports = [], cc_Env = [], cc_Cmd = [],
      cc_Labels = [(''sandboxmatrix/pool'', ''true''), (''sandboxmatrix/pool-blueprint'', path),
        (''sandboxmatrix/managed'', ''true''), (''sandboxmatrix/name'', ''pool-'' @ name)],
      cc_Network = \<lparr>nc_Mode = '''', nc_DNS = []\<rparr>\<rparr>"

definition count_created :: "string \<Rightarrow> 'w Pool \<Rightarrow> 'w Pool" where
  "count_created path s =
     (case pool_of s path of None \<Rightarrow> s
      | Some bp \<Rightarrow> set_pool path (bp\<lparr>pl_totalCreated := wrap64 (pl_totalCreated bp + 1)\<rparr>) s)"

definition createWarmContainer ::
  "'w Runtime \<Rightarrow> string \<Rightarrow> string \<Rightarrow> string \<Rightarrow> (string res, 'w Pool) act" where
  "createWarmContainer rt img name path s =
     (case pool_now s of (t, s1) \<Rightarrow>
      case on_prt (rt_Create rt (warm_config img name path t)) s1 of
        (Inl e, s2) \<Rightarrow> (Inl (Errorf ''create container: %w'' [AErr e]), s2)
      | (Inr i, s2) \<Rightarrow>
        (case on_prt (rt_Start rt i) s2 of
           (Inl e, s3) \<Rightarrow>
             (Inl (Errorf ''start container: %w'' [AErr e]), snd (on_prt (rt_Destroy rt i) s3))
         | (Inr _, s3) \<Rightarrow> (Inr i, count_created path s3)))"

section \<open>Claim and Release\<close>

definition claimed :: "int \<Rightarrow> BlueprintPool \<Rightarrow> BlueprintPool" where
  "claimed elapsed bp =
     bp\<lparr>pl_inUse := pl_inUse bp + 1, pl_totalClaims := wrap64 (pl_totalClaims bp + 1),
        pl_totalClaimNs := wrap64 (pl_totalClaimNs bp + elapsed)\<rparr>"

text \<open>Take the last ready container, and wake the warmer.\<close>

definition take_ready :: "int \<Rightarrow> BlueprintPool \<Rightarrow> string \<times> BlueprintPool" where
  "take_ready elapsed bp =
     (last (pl_Ready bp), (claimed elapsed (bp\<lparr>pl_Ready := butlast (pl_Ready bp)\<rparr>))\<lparr>pl_notify := True\<rparr>)"

definition count_claim :: "string \<Rightarrow> gtime \<Rightarrow> 'w Pool \<Rightarrow> 'w Pool" where
  "count_claim path start s =
     (case pool_of s path of None \<Rightarrow> s
      | Some bp \<Rightarrow> (case pool_now s of (t, s1) \<Rightarrow> set_pool path (claimed (t - start) bp) s1))"

definition Claim :: "'w Runtime \<Rightarrow> string \<Rightarrow> (string res, 'w Pool) act" where
  "Claim rt path s0 =
     (case pool_now s0 of (start, s) \<Rightarrow>
      case pool_of s path of
        None \<Rightarrow> (Inl (Errorf ''no pool configured for blueprint %q'' [AStr path]), s)
      | Some bp \<Rightarrow>
          if pl_Ready bp \<noteq> [] then
            (case pool_now s of (t, s1) \<Rightarrow>
             case take_ready (t - start) bp of (i, bp') \<Rightarrow> (Inr i, set_pool path bp' s1))
          else
            (case createWarmContainer rt (pl_image bp) (pl_Blueprint bp) path s of
               (Inl e, s1) \<Rightarrow> (Inl (Errorf ''create on-demand container: %w'' [AErr e]), s1)
             | (Inr i, s1) \<Rightarrow> (Inr i, count_claim path start s1)))"

definition put_back :: "string \<Rightarrow> BlueprintPool \<Rightarrow> bool \<times> BlueprintPool" where
  "put_back i bp0 =
     (let bp = (if pl_inUse bp0 > 0 then bp0\<lparr>pl_inUse := pl_inUse bp0 - 1\<rparr> else bp0) in
      if pl_MaxSize bp > 0 \<and> int (length (pl_Ready bp)) + pl_inUse bp \<ge> pl_MaxSize bp then (False, bp)
      else (True, bp\<lparr>pl_Ready := pl_Ready bp @ [i]\<rparr>))"

definition Release :: "'w Runtime \<Rightarrow> string \<Rightarrow> string \<Rightarrow> (unit res, 'w Pool) act" where
  "Release rt i path s =
     (case pool_of s path of
        None \<Rightarrow> on_prt (rt_Destroy rt i) s
      | Some bp \<Rightarrow>
          (case put_back i bp of
             (False, bp') \<Rightarrow> on_prt (rt_Destroy rt i) (set_pool path bp' s)
           | (True, bp') \<Rightarrow> (Inr (), set_pool path bp' s)))"

section \<open>Filling a pool\<close>

definition wants_more :: "BlueprintPool \<Rightarrow> bool" where
  "wants_more bp \<longleftrightarrow>
     pl_MinReady bp - int (length (pl_Ready bp)) - pl_Creating bp > 0 \<and>
     \<not> (pl_MaxSize bp > 0 \<and> int (length (pl_Ready bp)) + pl_inUse bp + pl_Creating bp \<ge> pl_MaxSize bp)"

definition reserve :: "BlueprintPool \<Rightarrow> BlueprintPool" where
  "reserve bp = bp\<lparr>pl_Creating := pl_Creating bp + 1\<rparr>"

definition publish :: "string res \<Rightarrow> BlueprintPool \<Rightarrow> BlueprintPool" where
  "publish r bp =
     (let bp' = bp\<lparr>pl_Creating := pl_Creating bp - 1\<rparr> in
      case r of Inl _ \<Rightarrow> bp' | Inr i \<Rightarrow> bp'\<lparr>pl_Ready := pl_Ready bp' @ [i]\<rparr>)"

definition publish_in :: "string \<Rightarrow> string res \<Rightarrow> 'w Pool \<Rightarrow> 'w Pool" where
  "publish_in path r s = (case pool_of s path of None \<Rightarrow> s | Some bp \<Rightarrow> set_pool path (publish r bp) s)"

text \<open>One round of the loop, for a pool that wants more.\<close>

definition fill_one :: "'w Runtime \<Rightarrow> string \<Rightarrow> BlueprintPool \<Rightarrow> 'w Pool \<Rightarrow> 'w Pool" where
  "fill_one rt path bp s =
     (case createWarmContainer rt (pl_image bp) (pl_Blueprint bp) path (set_pool path (reserve bp) s) of
        (r, s1) \<Rightarrow> publish_in path r s1)"

text \<open>\<open>cancelled\<close> is \<open>ctx.Err() != nil\<close>.\<close>

partial_function (option) fillPool ::
  "'w Runtime \<Rightarrow> ('w \<Rightarrow> bool) \<Rightarrow> string \<Rightarrow> 'w Pool \<Rightarrow> 'w Pool option" where
  "fillPool rt cancelled path s =
     (if cancelled (po_rt s) then Some s
      else case pool_of s path of
        None \<Rightarrow> Some s
      | Some bp \<Rightarrow> if wants_more bp then fillPool rt cancelled path (fill_one rt path bp s) else Some s)"

section \<open>Stats and Drain\<close>

definition avg_claim :: "BlueprintPool \<Rightarrow> int" where
  "avg_claim bp =
     (if pl_totalClaims bp > 0 then
        (if pl_totalClaimNs bp < 0 then - ((- pl_totalClaimNs bp) div pl_totalClaims bp)
         else pl_totalClaimNs bp div pl_totalClaims bp)
      else 0)"

definition Stats_pool :: "'w Pool \<Rightarrow> PoolStats gomap" where
  "Stats_pool s =
     map (\<lambda>(path, bp). (path,
       \<lparr>ps_BlueprintPath = path, ps_MinReady = pl_MinReady bp, ps_MaxSize = pl_MaxSize bp,
        ps_Ready = int (length (pl_Ready bp)), ps_InUse = pl_inUse bp, ps_TotalCreated = pl_totalCreated bp,
        ps_AvgClaimTime = avg_claim bp\<rparr>)) (po_pools s)"

fun destroy_all :: "'w Runtime \<Rightarrow> string list \<Rightarrow> goerr option \<Rightarrow> (goerr option, 'w Pool) act" where
  "destroy_all rt [] firstErr s = (firstErr, s)"
| "destroy_all rt (i # is) firstErr s =
     (case on_prt (rt_Destroy rt i) s of
        (Inl e, s1) \<Rightarrow> destroy_all rt is (if firstErr = None then Some e else firstErr) s1
      | (Inr _, s1) \<Rightarrow> destroy_all rt is firstErr s1)"

definition ready_ids :: "'w Pool \<Rightarrow> string list" where
  "ready_ids s = concat (map (\<lambda>(path, bp). pl_Ready bp) (po_pools s))"

definition Drain :: "'w Runtime \<Rightarrow> (goerr option, 'w Pool) act" where
  "Drain rt s =
     destroy_all rt (ready_ids s) None
       (s\<lparr>po_pools := map (\<lambda>(path, bp). (path, bp\<lparr>pl_Ready := []\<rparr>)) (po_pools s)\<rparr>)"

section \<open>The size of a pool\<close>

text \<open>Between two operations nothing is being created, and a bounded pool holds no more ready containers than
  its bound.\<close>

definition pool_sized :: "BlueprintPool \<Rightarrow> bool" where
  "pool_sized bp \<longleftrightarrow> pl_Creating bp = 0 \<and> 0 \<le> pl_inUse bp \<and>
     (0 < pl_MaxSize bp \<longrightarrow> int (length (pl_Ready bp)) \<le> pl_MaxSize bp)"

definition pool_inv :: "'w Pool \<Rightarrow> bool" where
  "pool_inv s \<longleftrightarrow> (\<forall>path bp. pool_of s path = Some bp \<longrightarrow> pool_sized bp)"

lemma pool_invD: "pool_inv s \<Longrightarrow> pool_of s path = Some bp \<Longrightarrow> pool_sized bp"
  by (simp add: pool_inv_def)

lemma pool_of_set [simp]: "pool_of (set_pool path bp s) q = (if q = path then Some bp else pool_of s q)"
  by (simp add: set_pool_def)

lemma pool_of_frames [simp]:
  "pool_of (snd (pool_now s)) q = pool_of s q" "pool_of (snd (on_prt a s)) q = pool_of s q"
  by (simp_all add: pool_now_def on_prt_def split: prod.splits)

lemma pool_inv_set: "pool_inv s \<Longrightarrow> pool_sized bp \<Longrightarrow> pool_inv (set_pool path bp s)"
  by (simp add: pool_inv_def)

text \<open>Creating a container changes of the pools only how many were created.\<close>

definition uncounted :: "BlueprintPool \<Rightarrow> BlueprintPool" where
  "uncounted bp = bp\<lparr>pl_totalCreated := 0\<rparr>"

definition same_pools :: "'w Pool \<Rightarrow> 'w Pool \<Rightarrow> bool" where
  "same_pools s s' \<longleftrightarrow> (\<forall>path. map_option uncounted (pool_of s' path) = map_option uncounted (pool_of s path))"

lemma uncounted_simps [simp]:
  "pl_Ready (uncounted bp) = pl_Ready bp" "pl_Creating (uncounted bp) = pl_Creating bp"
  "pl_inUse (uncounted bp) = pl_inUse bp" "pl_MaxSize (uncounted bp) = pl_MaxSize bp"
  "pl_MinReady (uncounted bp) = pl_MinReady bp" "uncounted (bp\<lparr>pl_totalCreated := k\<rparr>) = uncounted bp"
  by (simp_all add: uncounted_def)

lemma uncounted_eq:
  assumes "uncounted a = uncounted b"
  shows "pl_Ready a = pl_Ready b" "pl_Creating a = pl_Creating b" "pl_inUse a = pl_inUse b"
    "pl_MaxSize a = pl_MaxSize b" "pl_MinReady a = pl_MinReady b"
  using assms by (metis uncounted_simps)+

lemma sized_uncounted:
  assumes "uncounted a = uncounted b"
  shows "pool_sized a \<longleftrightarrow> pool_sized b"
  using uncounted_eq [OF assms] by (simp add: pool_sized_def)

lemma same_pools_some:
  assumes "same_pools s s'" and "pool_of s path = Some bp"
  obtains bp' where "pool_of s' path = Some bp'" "uncounted bp' = uncounted bp"
  using assms unfolding same_pools_def by (metis map_option_eq_Some)

lemma same_pools_refl: "(\<And>path. pool_of s' path = pool_of s path) \<Longrightarrow> same_pools s s'"
  by (simp add: same_pools_def)

lemma same_pools_created: "same_pools s (count_created path s)"
  by (auto simp: same_pools_def count_created_def split: option.splits)

lemma createWarm_same: "createWarmContainer rt img name path s = (r, s') \<Longrightarrow> same_pools s s'"
proof -
  assume a: "createWarmContainer rt img name path s = (r, s')"
  obtain t s1 where 1: "pool_now s = (t, s1)" by fastforce
  obtain x s2 where 2: "on_prt (rt_Create rt (warm_config img name path t)) s1 = (x, s2)" by fastforce
  have p2: "pool_of s2 q = pool_of s q" for q
    using pool_of_frames(1) [of s q] pool_of_frames(2) [of _ s1 q] 1 2 by (metis snd_conv)
  show ?thesis
  proof (cases x)
    case (Inl e)
    with a 1 2 p2 show ?thesis by (auto simp: createWarmContainer_def intro: same_pools_refl)
  next
    case (Inr i)
    obtain y s3 where 3: "on_prt (rt_Start rt i) s2 = (y, s3)" by fastforce
    have p3: "pool_of s3 q = pool_of s q" for q using pool_of_frames(2) [of _ s2 q] 3 p2 by (metis snd_conv)
    have "same_pools s (count_created path s3)"
      using same_pools_created [of s3 path] p3 by (simp add: same_pools_def)
    with a 1 2 3 Inr p3 show ?thesis
      by (cases y) (auto simp: createWarmContainer_def intro: same_pools_refl)
  qed
qed

lemma same_pools_sized:
  assumes "same_pools s s'" and "pool_inv s"
  shows "pool_inv s'"
  unfolding pool_inv_def
proof (intro allI impI)
  fix path bp' assume "pool_of s' path = Some bp'"
  moreover have "map_option uncounted (pool_of s' path) = map_option uncounted (pool_of s path)"
    using assms(1) by (simp add: same_pools_def)
  ultimately obtain bp where "pool_of s path = Some bp" "uncounted bp' = uncounted bp"
    by (cases "pool_of s path") auto
  with pool_invD [OF assms(2)] sized_uncounted show "pool_sized bp'" by blast
qed

lemma Claim_inv:
  assumes "pool_inv s0"
  shows "pool_inv (snd (Claim rt path s0))"
proof -
  obtain start s where s: "pool_now s0 = (start, s)" by fastforce
  then have inv: "pool_inv s" using assms pool_of_frames(1) [of s0] by (simp add: pool_inv_def)
  show ?thesis
  proof (cases "pool_of s path")
    case None
    with s inv show ?thesis by (simp add: Claim_def)
  next
    case (Some bp)
    note sized = pool_invD [OF inv Some]
    show ?thesis
    proof (cases "pl_Ready bp = []")
      case False
      obtain t s1 where t: "pool_now s = (t, s1)" by fastforce
      have "pool_sized (snd (take_ready (t - start) bp))"
        using sized by (auto simp: take_ready_def claimed_def pool_sized_def)
      moreover have "pool_inv s1" using inv t pool_of_frames(1) [of s] by (simp add: pool_inv_def)
      ultimately show ?thesis using s Some False t by (auto simp: Claim_def pool_inv_set split: prod.splits)
    next
      case True
      obtain r s1 where r: "createWarmContainer rt (pl_image bp) (pl_Blueprint bp) path s = (r, s1)" by fastforce
      note inv1 = same_pools_sized [OF createWarm_same [OF r] inv]
      have "pool_inv (count_claim path start s1)"
      proof (cases "pool_of s1 path")
        case (Some bp1)
        obtain t s2 where t: "pool_now s1 = (t, s2)" by fastforce
        then have "pool_inv s2" using inv1 pool_of_frames(1) [of s1] by (simp add: pool_inv_def)
        moreover have "pool_sized (claimed (t - start) bp1)"
          using pool_invD [OF inv1 Some] by (auto simp: claimed_def pool_sized_def)
        ultimately show ?thesis using Some t by (simp add: count_claim_def pool_inv_set)
      qed (simp add: count_claim_def inv1)
      with s Some True r inv1 show ?thesis by (cases r) (simp_all add: Claim_def)
    qed
  qed
qed

lemma on_prt_inv: "pool_inv s \<Longrightarrow> pool_inv (snd (on_prt a s))"
  by (simp add: pool_inv_def)

lemma Release_inv:
  assumes "pool_inv s"
  shows "pool_inv (snd (Release rt i path s))"
proof (cases "pool_of s path")
  case None
  with assms show ?thesis by (simp add: Release_def on_prt_inv)
next
  case (Some bp)
  have "pool_sized (snd (put_back i bp))"
    using pool_invD [OF assms Some] by (auto simp: put_back_def pool_sized_def Let_def)
  with assms Some show ?thesis
    by (cases "put_back i bp") (auto simp: Release_def pool_inv_set on_prt_inv split: bool.splits)
qed

lemma fill_one_run:
  assumes "pool_of s path = Some bp"
  obtains r s1 bp1 where
    "createWarmContainer rt (pl_image bp) (pl_Blueprint bp) path (set_pool path (reserve bp) s) = (r, s1)"
    "pool_of s1 path = Some bp1" "uncounted bp1 = uncounted (reserve bp)"
    "fill_one rt path bp s = set_pool path (publish r bp1) s1" "same_pools (set_pool path (reserve bp) s) s1"
proof -
  obtain r s1 where r:
    "createWarmContainer rt (pl_image bp) (pl_Blueprint bp) path (set_pool path (reserve bp) s) = (r, s1)"
    by fastforce
  have "pool_of (set_pool path (reserve bp) s) path = Some (reserve bp)" by simp
  then obtain bp1 where "pool_of s1 path = Some bp1" "uncounted bp1 = uncounted (reserve bp)"
    using same_pools_some [OF createWarm_same [OF r]] by blast
  with r that createWarm_same [OF r] show thesis by (auto simp: fill_one_def publish_in_def)
qed

lemma publish_sized:
  assumes "pool_sized bp" and "wants_more bp" and "uncounted bp1 = uncounted (reserve bp)"
  shows "pool_sized (publish r bp1)"
  using assms(1,2) uncounted_eq [OF assms(3)]
  by (auto simp: publish_def pool_sized_def wants_more_def reserve_def Let_def split: sum.splits)

lemma fill_one_inv:
  assumes "pool_inv s" and "pool_of s path = Some bp" and "wants_more bp"
  shows "pool_inv (fill_one rt path bp s)"
proof -
  obtain r s1 bp1 where f: "pool_of s1 path = Some bp1" "uncounted bp1 = uncounted (reserve bp)"
    "fill_one rt path bp s = set_pool path (publish r bp1) s1" "same_pools (set_pool path (reserve bp) s) s1"
    by (rule fill_one_run [OF assms(2)])
  have "pool_sized b" if b: "pool_of s1 q = Some b" and q: "q \<noteq> path" for q b
  proof -
    have "map_option uncounted (pool_of s1 q) = map_option uncounted (pool_of s q)"
      using f(4) q by (simp add: same_pools_def)
    then obtain a where "pool_of s q = Some a" "uncounted b = uncounted a"
      using b by (cases "pool_of s q") auto
    with pool_invD [OF assms(1)] sized_uncounted show ?thesis by blast
  qed
  moreover have "pool_sized (publish r bp1)"
    by (rule publish_sized [OF pool_invD [OF assms(1,2)] assms(3) f(2)])
  ultimately show ?thesis by (simp add: pool_inv_def f(3))
qed

lemma fillPool_inv:
  assumes "fillPool rt cancelled path s = Some s'" and "pool_inv s"
  shows "pool_inv s'"
proof -
  have "pool_inv s \<longrightarrow> pool_inv s'"
    by (rule fillPool.raw_induct [OF _ assms(1)])
      (auto split: if_splits option.splits, metis fill_one_inv)
  with assms(2) show ?thesis by blast
qed

lemma Configure_inv:
  assumes "pool_inv s"
  shows "pool_inv (snd (Configure host cfg s))"
  using assms
  by (auto simp: Configure_def config_error_def pool_inv_def pool_sized_def
      split: option.splits prod.splits list.splits if_splits)

lemma destroy_all_pools: "po_pools (snd (destroy_all rt is e s)) = po_pools s"
proof (induction rt "is" e s rule: destroy_all.induct)
  case (2 rt i "is" e s)
  obtain r s1 where r: "on_prt (rt_Destroy rt i) s = (r, s1)" by fastforce
  then have "po_pools s1 = po_pools s" by (auto simp: on_prt_def split: prod.splits)
  with 2 r show ?case by (cases r) auto
qed simp

lemma Drain_pools:
  "pool_of (snd (Drain rt s)) path = map_option (\<lambda>bp. bp\<lparr>pl_Ready := []\<rparr>) (pool_of s path)"
  by (simp add: Drain_def destroy_all_pools map_of_map)

lemma Drain_inv: "pool_inv s \<Longrightarrow> pool_inv (snd (Drain rt s))"
  by (auto simp: pool_inv_def Drain_pools pool_sized_def)

section \<open>Sequences of operations\<close>

datatype pool_request = PConfigure Config | PClaim string | PRelease string string | PFill string | PDrain

fun pool_perform ::
  "HostEnv \<Rightarrow> 'w Runtime \<Rightarrow> ('w \<Rightarrow> bool) \<Rightarrow> pool_request \<Rightarrow> 'w Pool \<Rightarrow> 'w Pool option" where
  "pool_perform host rt cancelled (PConfigure cfg) s = Some (snd (Configure host cfg s))"
| "pool_perform host rt cancelled (PClaim path) s = Some (snd (Claim rt path s))"
| "pool_perform host rt cancelled (PRelease i path) s = Some (snd (Release rt i path s))"
| "pool_perform host rt cancelled (PFill path) s = fillPool rt cancelled path s"
| "pool_perform host rt cancelled PDrain s = Some (snd (Drain rt s))"

fun pool_serve ::
  "HostEnv \<Rightarrow> 'w Runtime \<Rightarrow> ('w \<Rightarrow> bool) \<Rightarrow> pool_request list \<Rightarrow> 'w Pool \<Rightarrow> 'w Pool option" where
  "pool_serve host rt cancelled [] s = Some s"
| "pool_serve host rt cancelled (q # qs) s =
     (case pool_perform host rt cancelled q s of None \<Rightarrow> None | Some s' \<Rightarrow> pool_serve host rt cancelled qs s')"

lemma pool_perform_inv: "pool_perform host rt cancelled q s = Some s' \<Longrightarrow> pool_inv s \<Longrightarrow> pool_inv s'"
  by (cases q) (auto simp: Configure_inv Claim_inv Release_inv Drain_inv intro: fillPool_inv)

text \<open>C37. As long as operations do not overlap, a pool with a maximum size never holds more ready containers than
  that, the number in use is never negative, and nothing is left marked as being created, whatever sequence of
  Configure, Claim, Release, fill and Drain is performed.\<close>

theorem pool_size_bounded:
  assumes "pool_serve host rt cancelled qs s = Some s'" and "pool_inv s"
  shows "pool_inv s'"
  using assms
proof (induction qs arbitrary: s)
  case (Cons q qs)
  then show ?case by (auto split: option.splits intro: pool_perform_inv)
qed simp

definition idle_pool :: "int \<Rightarrow> int \<Rightarrow> unit Pool" where
  "idle_pool minReady maxSize =
     \<lparr>po_rt = (), po_pools = [(''go.yaml'', \<lparr>pl_Blueprint = ''go'', pl_MinReady = minReady, pl_MaxSize = maxSize,
        pl_Ready = [], pl_Creating = 0, pl_inUse = 0, pl_totalCreated = 0, pl_totalClaims = 0, pl_totalClaimNs = 0,
        pl_image = ''golang'', pl_blueprintPath = ''go.yaml'', pl_notify = False\<rparr>)],
      po_clock = int, po_tick = 0\<rparr>"

text \<open>A backend that can always create and start.\<close>

definition willing :: "unit Runtime" where
  "willing = firecracker\<lparr>rt_Create := (\<lambda>cfg w. (Inr (cc_Name cfg), w)), rt_Start := (\<lambda>i w. (Inr (), w)),
     rt_Destroy := (\<lambda>i w. (Inr (), w))\<rparr>"

lemma idle_inv: "0 \<le> maxSize \<Longrightarrow> pool_inv (idle_pool minReady maxSize)"
  by (simp add: pool_inv_def idle_pool_def pool_sized_def)

definition no_host :: HostEnv where
  "no_host = \<lparr>os_ReadFile = (\<lambda>p. Inl (ExtErr ''no file'')), os_Getenv = (\<lambda>v. ''''), os_IsNotExist = (\<lambda>p. True),
     yaml_Unmarshal = (\<lambda>d. Inl (ExtErr ''bad yaml''))\<rparr>"

theorem pool_size_bounded_witness:
  "\<exists>s'. pool_serve no_host willing (\<lambda>w. False) [PClaim ''go.yaml'', PRelease ''x'' ''go.yaml'', PRelease ''y'' ''go.yaml'']
      (idle_pool 1 1) = Some s' \<and> pool_inv s'"
proof -
  have "pool_serve no_host willing (\<lambda>w. False) [PClaim ''go.yaml'', PRelease ''x'' ''go.yaml'', PRelease ''y'' ''go.yaml'']
      (idle_pool 1 1) \<noteq> None" by simp
  then obtain s' where s': "pool_serve no_host willing (\<lambda>w. False)
      [PClaim ''go.yaml'', PRelease ''x'' ''go.yaml'', PRelease ''y'' ''go.yaml''] (idle_pool 1 1) = Some s'" by blast
  with pool_size_bounded [OF s'] idle_inv [of 1 1] show ?thesis by simp
qed

section \<open>Does the warmer come to an end?\<close>

lemma createWarm_ok:
  assumes "\<And>cfg w. is_ok (fst (rt_Create rt cfg w))" and "\<And>i w. is_ok (fst (rt_Start rt i w))"
  shows "is_ok (fst (createWarmContainer rt img name path s))"
proof -
  obtain t s1 where 1: "pool_now s = (t, s1)" by fastforce
  obtain x w where 2: "rt_Create rt (warm_config img name path t) (po_rt s1) = (x, w)" by fastforce
  then obtain i where "x = Inr i" using assms(1) [of "warm_config img name path t" "po_rt s1"] by (cases x) auto
  moreover obtain y w' where 3: "rt_Start rt i w = (y, w')" by fastforce
  then obtain u where "y = Inr u" using assms(2) [of i w] by (cases y) auto
  ultimately show ?thesis using 1 2 3 by (simp add: createWarmContainer_def on_prt_def)
qed

lemma createWarm_fails:
  assumes "\<And>cfg w. \<not> is_ok (fst (rt_Create rt cfg w))"
  shows "\<not> is_ok (fst (createWarmContainer rt img name path s))"
proof -
  obtain t s1 where 1: "pool_now s = (t, s1)" by fastforce
  obtain x w where 2: "rt_Create rt (warm_config img name path t) (po_rt s1) = (x, w)" by fastforce
  then obtain e where "x = Inl e" using assms [of "warm_config img name path t" "po_rt s1"] by (cases x) auto
  with 1 2 show ?thesis by (simp add: createWarmContainer_def on_prt_def)
qed

text \<open>C38. When the backend can create and start containers, filling a pool ends, and then the pool has its minimum of ready
  containers or is at its maximum size, unless it was cancelled.\<close>

theorem fillPool_terminates:
  assumes "\<And>cfg w. is_ok (fst (rt_Create rt cfg w))" and "\<And>i w. is_ok (fst (rt_Start rt i w))"
    and "pool_of s path = Some bp"
  shows "\<exists>s' bp'. fillPool rt cancelled path s = Some s' \<and> pool_of s' path = Some bp' \<and>
    (cancelled (po_rt s') \<or> \<not> wants_more bp')"
  using assms(3)
proof (induction "nat (pl_MinReady bp - int (length (pl_Ready bp)) - pl_Creating bp)" arbitrary: s bp
    rule: less_induct)
  case less
  show ?case
  proof (cases "cancelled (po_rt s) \<or> \<not> wants_more bp")
    case True
    with less.prems show ?thesis by (subst fillPool.simps) auto
  next
    case False
    obtain r s1 bp1 where f:
      "createWarmContainer rt (pl_image bp) (pl_Blueprint bp) path (set_pool path (reserve bp) s) = (r, s1)"
      "uncounted bp1 = uncounted (reserve bp)" "fill_one rt path bp s = set_pool path (publish r bp1) s1"
      by (rule fill_one_run [OF less.prems])
    obtain i where i: "r = Inr i"
      using createWarm_ok [OF assms(1,2), of "pl_image bp" "pl_Blueprint bp" path "set_pool path (reserve bp) s"] f(1)
      by (cases r) auto
    have "nat (pl_MinReady (publish r bp1) - int (length (pl_Ready (publish r bp1))) - pl_Creating (publish r bp1))
        < nat (pl_MinReady bp - int (length (pl_Ready bp)) - pl_Creating bp)"
      using False uncounted_eq [OF f(2)] i by (simp add: publish_def reserve_def wants_more_def)
    from less.hyps [OF this, of "fill_one rt path bp s"] f(3) False less.prems show ?thesis
      by (subst fillPool.simps) simp
  qed
qed

theorem fillPool_terminates_witness:
  "\<exists>s' bp'. fillPool willing (\<lambda>w. False) ''go.yaml'' (idle_pool 2 3) = Some s' \<and>
     pool_of s' ''go.yaml'' = Some bp' \<and> \<not> wants_more bp'"
  using fillPool_terminates [of willing "idle_pool 2 3" "''go.yaml''" _ "\<lambda>w. False"]
  by (simp add: willing_def idle_pool_def)

lemma publish_failed:
  assumes "uncounted bp1 = uncounted (reserve bp)" and "wants_more bp"
  shows "wants_more (publish (Inl e) bp1)"
  using assms(2) uncounted_eq [OF assms(1)] by (simp add: publish_def reserve_def wants_more_def)

lemma fill_one_fails:
  assumes "\<And>cfg w. \<not> is_ok (fst (rt_Create rt cfg w))" and "pool_of s path = Some bp" and "wants_more bp"
  shows "\<exists>bp'. pool_of (fill_one rt path bp s) path = Some bp' \<and> wants_more bp'"
proof -
  obtain r s1 bp1 where f:
    "createWarmContainer rt (pl_image bp) (pl_Blueprint bp) path (set_pool path (reserve bp) s) = (r, s1)"
    "uncounted bp1 = uncounted (reserve bp)" "fill_one rt path bp s = set_pool path (publish r bp1) s1"
    by (rule fill_one_run [OF assms(2)])
  obtain e where "r = Inl e"
    using createWarm_fails [OF assms(1), of "pl_image bp" "pl_Blueprint bp" path "set_pool path (reserve bp) s"] f(1)
    by (cases r) auto
  with f publish_failed [OF f(2) assms(3)] show ?thesis by simp
qed

text \<open>When the backend cannot create containers and nothing cancels the warmer, filling a pool that wants containers
  never ends: the loop tries again at once, for ever.\<close>

theorem fillPool_diverges:
  assumes "\<And>cfg w. \<not> is_ok (fst (rt_Create rt cfg w))" and "\<And>w. \<not> cancelled w"
    and "pool_of s path = Some bp" and "wants_more bp"
  shows "fillPool rt cancelled path s = None"
proof (rule ccontr)
  assume "fillPool rt cancelled path s \<noteq> None"
  then obtain s' where run: "fillPool rt cancelled path s = Some s'" by blast
  have "(\<forall>cfg w. \<not> is_ok (fst (rt_Create rt cfg w))) \<longrightarrow> (\<forall>w. \<not> cancelled w) \<longrightarrow>
      (\<forall>bp. pool_of s path = Some bp \<longrightarrow> \<not> wants_more bp)"
    by (rule fillPool.raw_induct [OF _ run])
      (auto split: if_splits option.splits, metis fill_one_fails)
  with assms show False by blast
qed

theorem fillPool_diverges_witness:
  "fillPool firecracker (\<lambda>w. False) ''go.yaml'' (idle_pool 1 0) = None"
  by (rule fillPool_diverges) (auto simp: firecracker_def idle_pool_def wants_more_def)

section \<open>Claiming and draining\<close>

text \<open>With a warm container ready, \<open>Claim\<close> hands out the one that became ready last, removes it from the pool, wakes the
  warmer and does not call the backend.\<close>

theorem claim_takes_warm:
  assumes "pool_of s path = Some bp" and "pl_Ready bp = is @ [i]"
  shows "\<exists>s' bp'. Claim rt path s = (Inr i, s') \<and> po_rt s' = po_rt s \<and> pool_of s' path = Some bp' \<and>
    pl_Ready bp' = is \<and> pl_inUse bp' = pl_inUse bp + 1 \<and> pl_notify bp'"
  using assms by (auto simp: Claim_def pool_now_def take_ready_def claimed_def set_pool_def)

theorem claim_takes_warm_witness:
  "\<exists>s' bp'. Claim willing ''go.yaml'' (snd (Release willing ''c1'' ''go.yaml'' (idle_pool 1 2))) = (Inr ''c1'', s') \<and>
     pool_of s' ''go.yaml'' = Some bp' \<and> pl_Ready bp' = []"
proof -
  have "\<exists>bp. pool_of (snd (Release willing ''c1'' ''go.yaml'' (idle_pool 1 2))) ''go.yaml'' = Some bp \<and>
      pl_Ready bp = [] @ [''c1'']"
    by (simp add: Release_def put_back_def idle_pool_def set_pool_def Let_def)
  with claim_takes_warm [of "snd (Release willing ''c1'' ''go.yaml'' (idle_pool 1 2))" "''go.yaml''"]
  show ?thesis by blast
qed

lemma destroy_all_live:
  assumes "container_runtime rt live used"
  shows "destroy_all rt is e s = (None, s') \<Longrightarrow> e = None \<and> live (po_rt s') = live (po_rt s) - set is"
proof (induction "is" arbitrary: e s)
  case (Cons i "is")
  obtain r w where r: "rt_Destroy rt i (po_rt s) = (r, w)" by fastforce
  show ?case
  proof (cases r)
    case (Inl x)
    with Cons r show ?thesis by (fastforce simp: on_prt_def split: if_splits)
  next
    case (Inr u)
    then have "live w = live (po_rt s) - {i}" using container_runtime.destroy_gone [OF assms] r by simp
    with Cons.IH [of e "s\<lparr>po_rt := w\<rparr>"] Cons.prems r Inr show ?thesis by (auto simp: on_prt_def)
  qed
qed simp

text \<open>A \<open>Drain\<close> that reports no error has removed every container that was ready, no other one, and leaves no ready
  container in any pool.\<close>

theorem drain_destroys_ready:
  assumes "container_runtime rt live used" and "Drain rt s = (None, s')"
  shows "live (po_rt s') = live (po_rt s) - set (ready_ids s) \<and>
    (\<forall>path bp. pool_of s' path = Some bp \<longrightarrow> pl_Ready bp = [])"
proof
  show "live (po_rt s') = live (po_rt s) - set (ready_ids s)"
    using destroy_all_live [OF assms(1) assms(2) [unfolded Drain_def]] by simp
  show "\<forall>path bp. pool_of s' path = Some bp \<longrightarrow> pl_Ready bp = []"
    using Drain_pools [of rt s] assms(2) by auto
qed

text \<open>\<open>firecracker\<close> keeps the contract of a backend and has no container, so there is nothing to drain.\<close>

theorem drain_destroys_ready_witness:
  "\<exists>s'. Drain firecracker (idle_pool 1 1) = (None, s') \<and> (\<forall>path bp. pool_of s' path = Some bp \<longrightarrow> pl_Ready bp = [])"
proof -
  have "Drain firecracker (idle_pool 1 1) = (None, snd (Drain firecracker (idle_pool 1 1)))"
    by (simp add: Drain_def ready_ids_def idle_pool_def)
  from drain_destroys_ready [OF fc.container_runtime_axioms this] this show ?thesis by metis
qed

section \<open>Interleaving\<close>

text \<open>The lock is free while a container is created: between \<open>reserve\<close> and \<open>publish\<close>, and between finding a pool empty
  and counting the claim, other operations run. A job is an operation in that phase.\<close>

datatype job = Filling string | Claiming string

inductive pool_step :: "'w Runtime \<Rightarrow> 'w Pool \<times> job list \<Rightarrow> 'w Pool \<times> job list \<Rightarrow> bool" for rt where
  fill_begin: "pool_of s path = Some bp \<Longrightarrow> wants_more bp \<Longrightarrow>
    pool_step rt (s, js) (set_pool path (reserve bp) s, Filling path # js)"
| fill_end: "pool_of s path = Some bp \<Longrightarrow>
    createWarmContainer rt (pl_image bp) (pl_Blueprint bp) path s = (r, s1) \<Longrightarrow>
    pool_step rt (s, js @ Filling path # ks) (publish_in path r s1, js @ ks)"
| claim_warm: "pool_of s path = Some bp \<Longrightarrow> pl_Ready bp \<noteq> [] \<Longrightarrow>
    pool_step rt (s, js) (set_pool path (snd (take_ready t bp)) s, js)"
| claim_begin: "pool_of s path = Some bp \<Longrightarrow> pl_Ready bp = [] \<Longrightarrow>
    pool_step rt (s, js) (s, Claiming path # js)"
| claim_end: "pool_of s path = Some bp \<Longrightarrow>
    createWarmContainer rt (pl_image bp) (pl_Blueprint bp) path s = (Inr i, s1) \<Longrightarrow>
    pool_step rt (s, js @ Claiming path # ks) (count_claim path start s1, js @ ks)"
| claim_failed: "pool_of s path = Some bp \<Longrightarrow>
    createWarmContainer rt (pl_image bp) (pl_Blueprint bp) path s = (Inl e, s1) \<Longrightarrow>
    pool_step rt (s, js @ Claiming path # ks) (s1, js @ ks)"
| release: "pool_step rt (s, js) (snd (Release rt i path s), js)"

text \<open>\<open>Creating\<close> counts the fills under way, at every moment of every interleaving.\<close>

definition filling :: "string \<Rightarrow> job list \<Rightarrow> int" where
  "filling path js = int (count_list js (Filling path))"

definition counted :: "'w Pool \<times> job list \<Rightarrow> bool" where
  "counted c \<longleftrightarrow> (\<forall>path bp. pool_of (fst c) path = Some bp \<longrightarrow> pl_Creating bp = filling path (snd c))"

lemma filling_simps [simp]:
  "filling p (Filling q # js) = (if q = p then 1 else 0) + filling p js"
  "filling p (Claiming q # js) = filling p js" "filling p (js @ ks) = filling p js + filling p ks"
  by (auto simp: filling_def)

lemma counted_same:
  assumes "same_pools s s'" and "counted (s, js)"
  shows "counted (s', js)"
  unfolding counted_def
proof (intro allI impI)
  fix path bp' assume b: "pool_of (fst (s', js)) path = Some bp'"
  have "map_option uncounted (pool_of s' path) = map_option uncounted (pool_of s path)"
    using assms(1) by (simp add: same_pools_def)
  then obtain bp where bp: "pool_of s path = Some bp" "uncounted bp' = uncounted bp"
    using b by (cases "pool_of s path") auto
  from assms(2) bp(1) have "pl_Creating bp = filling path js" by (simp add: counted_def)
  with uncounted_eq(2) [OF bp(2)] show "pl_Creating bp' = filling path (snd (s', js))" by simp
qed

lemma counted_set:
  assumes "counted (s, js)" and "pl_Creating bp' = filling path ks" and "\<And>q. q \<noteq> path \<Longrightarrow> filling q ks = filling q js"
  shows "counted (set_pool path bp' s, ks)"
  unfolding counted_def
proof (intro allI impI)
  fix q bp assume b: "pool_of (fst (set_pool path bp' s, ks)) q = Some bp"
  show "pl_Creating bp = filling q (snd (set_pool path bp' s, ks))"
  proof (cases "q = path")
    case True
    with b assms(2) show ?thesis by simp
  next
    case False
    with b assms(1) have "pl_Creating bp = filling q js" by (simp add: counted_def)
    with assms(3) [OF False] show ?thesis by simp
  qed
qed

lemma counted_frame: "counted (s, js) \<Longrightarrow> counted (snd (on_prt a s), js)"
  by (simp add: counted_def)

lemma counted_Release:
  assumes "counted (s, js)"
  shows "counted (snd (Release rt i path s), js)"
proof (cases "pool_of s path")
  case None
  then show ?thesis by (simp add: Release_def counted_frame assms)
next
  case (Some bp)
  obtain kept bp' where p: "put_back i bp = (kept, bp')" by fastforce
  then have "pl_Creating bp' = pl_Creating bp" by (auto simp: put_back_def Let_def split: if_splits)
  with assms Some have "counted (set_pool path bp' s, js)" by (intro counted_set [OF assms]) (simp_all add: counted_def)
  with Some p show ?thesis by (cases kept) (simp_all add: Release_def counted_frame)
qed

lemma pool_step_counted: "pool_step rt c c' \<Longrightarrow> counted c \<Longrightarrow> counted c'"
proof (induction rule: pool_step.induct)
  case (fill_begin s path bp js)
  then show ?case by (intro counted_set [of s js]) (auto simp: counted_def reserve_def)
next
  case (fill_end s path bp r s1 js ks)
  have c1: "counted (s1, js @ Filling path # ks)"
    by (rule counted_same [OF createWarm_same [OF fill_end(2)] fill_end(3)])
  obtain bp1 where "pool_of s1 path = Some bp1"
    by (rule same_pools_some [OF createWarm_same [OF fill_end(2)] fill_end(1)])
  with c1 show ?case
    by (auto simp: publish_in_def publish_def counted_def Let_def split: sum.splits)
next
  case (claim_end s path bp i s1 js ks start)
  have c1: "counted (s1, js @ Claiming path # ks)"
    by (rule counted_same [OF createWarm_same [OF claim_end(2)] claim_end(3)])
  then show ?case
    by (auto simp: count_claim_def counted_def claimed_def pool_now_def split: option.splits)
next
  case (claim_failed s path bp e s1 js ks)
  from counted_same [OF createWarm_same [OF claim_failed(2)] claim_failed(3)] show ?case
    by (auto simp: counted_def)
next
  case (release s js i path)
  then show ?case by (rule counted_Release)
qed (auto simp: counted_def take_ready_def claimed_def)

text \<open>In every interleaving of claims, releases and fills, the counter \<open>Creating\<close> of a pool is the number of fills
  that are creating a container for it.\<close>

theorem creating_counts_fills:
  assumes "(pool_step rt)\<^sup>*\<^sup>* c c'" and "counted c"
  shows "counted c'"
  using assms by (induction rule: rtranclp_induct) (auto intro: pool_step_counted)

theorem creating_counts_fills_witness:
  "\<exists>c. (pool_step willing)\<^sup>*\<^sup>* (idle_pool 1 1, []) c \<and> snd c = [Filling ''go.yaml''] \<and> counted c"
proof -
  have "\<exists>bp. pool_of (idle_pool 1 1) ''go.yaml'' = Some bp \<and> wants_more bp" by (simp add: idle_pool_def wants_more_def)
  then obtain bp where "pool_of (idle_pool 1 1) ''go.yaml'' = Some bp" "wants_more bp" by blast
  then have run: "(pool_step willing)\<^sup>*\<^sup>* (idle_pool 1 1, []) (set_pool ''go.yaml'' (reserve bp) (idle_pool 1 1), [Filling ''go.yaml''])"
    by (intro r_into_rtranclp fill_begin)
  have "counted (idle_pool 1 1, [])" by (simp add: counted_def idle_pool_def filling_def)
  from creating_counts_fills [OF run this] run show ?thesis by (metis snd_conv)
qed

text \<open>A run that breaks the bound: the pool of size one is being filled when a claim finds it empty, creates its own
  container and gives it back; \<open>Release\<close> does not look at \<open>Creating\<close> and keeps it, and then the fill publishes a second one.\<close>

abbreviation box :: "BlueprintPool" where
  "box \<equiv> the (pool_of (idle_pool 1 1) ''go.yaml'')"

definition raced :: "nat \<Rightarrow> BlueprintPool \<Rightarrow> unit Pool" where
  "raced n bp = (set_pool ''go.yaml'' bp (idle_pool 1 1))\<lparr>po_tick := n\<rparr>"

lemma raced_set [simp]:
  "pool_of (raced n bp) ''go.yaml'' = Some bp" "set_pool ''go.yaml'' bp' (raced n bp) = raced n bp'"
  "pool_now (raced n bp) = (int n, raced (Suc n) bp)" "on_prt a (raced n bp) = (fst (a ()), raced n bp)"
  by (simp_all add: raced_def set_pool_def idle_pool_def pool_now_def on_prt_def split: prod.splits)

lemma raced_create:
  "createWarmContainer willing img name ''go.yaml'' (raced n bp) =
     (Inr (''smx-pool-'' @ name @ ''-'' @ itoa (int n)),
      raced (Suc n) (bp\<lparr>pl_totalCreated := wrap64 (pl_totalCreated bp + 1)\<rparr>))"
  by (simp add: createWarmContainer_def willing_def warm_config_def count_created_def)

text \<open>The bound does not hold under interleaving: from an empty pool of size one there is a run of a fill, a claim and
  the release of the claimed container that leaves two ready containers and nothing under way.\<close>

theorem release_race_exceeds_max:
  "\<exists>s bp. (pool_step willing)\<^sup>*\<^sup>* (idle_pool 1 1, []) (s, []) \<and> pool_of s ''go.yaml'' = Some bp \<and>
     pl_MaxSize bp = 1 \<and> length (pl_Ready bp) = 2"
proof -
  have box: "wants_more box" "pl_Ready (reserve box) = []" and idle: "idle_pool 1 1 = raced 0 box"
    by (simp_all add: raced_def wants_more_def idle_pool_def set_pool_def reserve_def)
  let ?G = "''go.yaml''" and ?I = "''smx-pool-go-0''" and ?step = "pool_step willing"
  define b where "b = (claimed 1 ((reserve box)\<lparr>pl_totalCreated := 1\<rparr>))"
  have p1: "?step (raced 0 box, []) (raced 0 (reserve box), [Filling ?G])"
    using fill_begin [of "raced 0 box" ?G box willing "[]"] box by simp
  have p2: "?step (raced 0 (reserve box), [Filling ?G]) (raced 0 (reserve box), [Claiming ?G, Filling ?G])"
    using claim_begin [of "raced 0 (reserve box)" ?G] box by simp
  have p3: "?step (raced 0 (reserve box), [Claiming ?G, Filling ?G]) (raced 2 b, [Filling ?G])"
    using claim_end [of "raced 0 (reserve box)" ?G _ willing _ _ "[]" "[Filling ?G]" 0, OF _ raced_create]
    by (simp add: count_claim_def b_def idle_pool_def reserve_def numeral_2_eq_2 wrap64_def)
  have p4: "?step (raced 2 b, [Filling ?G]) (raced 2 (snd (put_back ?I b)), [Filling ?G])"
    using release [of willing "raced 2 b" "[Filling ?G]" ?I ?G]
    by (simp add: Release_def put_back_def b_def claimed_def reserve_def idle_pool_def)
  have p5: "\<exists>i b'. ?step (raced 2 (snd (put_back ?I b)), [Filling ?G]) (raced 3 (publish (Inr i) b'), []) \<and>
      pl_Ready b' = [?I] \<and> pl_MaxSize b' = 1"
    using fill_end [of "raced 2 (snd (put_back ?I b))" ?G _ willing _ _ "[]" "[]", OF _ raced_create]
    by (fastforce simp: publish_in_def put_back_def b_def claimed_def reserve_def idle_pool_def)
  then obtain i b' where p5: "?step (raced 2 (snd (put_back ?I b)), [Filling ?G]) (raced 3 (publish (Inr i) b'), [])"
    and b': "pl_Ready b' = [?I]" "pl_MaxSize b' = 1" by blast
  have "?step\<^sup>*\<^sup>* (raced 0 box, []) (raced 3 (publish (Inr i) b'), [])"
    using p1 p2 p3 p4 p5 by (meson converse_rtranclp_into_rtranclp rtranclp.rtrancl_refl)
  from this [folded idle] b' show ?thesis
    by (intro exI [of _ "raced 3 (publish (Inr i) b')"] exI [of _ "publish (Inr i) b'"]) (simp add: publish_def)
qed

end
