(* ===== verification/CliPool.thy ===== *)
theory CliPool
  imports Commands Pool
begin

text \<open>
  The commands \<open>smx pool\<close> (\<open>internal/cli/pool.go\<close>). \<open>warm\<close> starts the warmer of the pool and, while it runs, claims and releases
  containers: \<open>others i\<close> is what the warmer does to the pool before the step \<open>i\<close>, \<open>stopped i\<close> whether a signal has come by then.
\<close>

section \<open>Warming\<close>

fun warm_loop ::
  "'w Runtime \<Rightarrow> string \<Rightarrow> (nat \<Rightarrow> 'w Pool \<Rightarrow> 'w Pool) \<Rightarrow> (nat \<Rightarrow> bool) \<Rightarrow> nat list \<Rightarrow> (goerr option option, 'w Pool) act" where
  "warm_loop rt path others stopped [] s = (None, s)"
| "warm_loop rt path others stopped (i # is) s0 =
     (let s = others i s0 in
      if stopped i then (Some None, s)
      else case Claim rt path s of
        (Inl e, s1) \<Rightarrow> (Some (Some (Errorf ''create warm instance %d: %w'' [AInt (int i + 1), AErr e])), s1)
      | (Inr c, s1) \<Rightarrow>
          (case Release rt c path s1 of
             (Inl e, s2) \<Rightarrow> (Some (Some (Errorf ''release warm instance %d: %w'' [AInt (int i + 1), AErr e])), s2)
           | (Inr _, s2) \<Rightarrow> warm_loop rt path others stopped is s2))"

definition new_pool :: "(nat \<Rightarrow> gtime) \<Rightarrow> 'w \<Rightarrow> 'w Pool" where
  "new_pool clock w = \<lparr>po_rt = w, po_pools = [], po_clock = clock, po_tick = 0\<rparr>"

text \<open>\<open>Warm\<close> only starts goroutines and never fails.\<close>

definition pool_warm ::
  "HostEnv \<Rightarrow> 'w Runtime res \<Rightarrow> (nat \<Rightarrow> gtime) \<Rightarrow> (nat \<Rightarrow> 'w Pool \<Rightarrow> 'w Pool) \<Rightarrow> (nat \<Rightarrow> bool) \<Rightarrow> string \<Rightarrow> int \<Rightarrow> int \<Rightarrow>
   'w \<Rightarrow> (string \<times> goerr option) \<times> 'w Pool" where
  "pool_warm host docker clock others stopped blueprintPath minReady maxSize w =
     (let s = new_pool clock w in
      if blueprintPath = [] then (cli_err (Errorf ''--blueprint is required'' []), s)
      else if minReady \<le> 0 then (cli_err (Errorf ''--min must be > 0'' []), s)
      else case docker of
        Inl e \<Rightarrow> (cli_err (no_docker e), s)
      | Inr rt \<Rightarrow>
          (case Configure host \<lparr>pf_BlueprintPath = blueprintPath, pf_MinReady = minReady, pf_MaxSize = maxSize\<rparr> s of
             (Inl e, s1) \<Rightarrow> (cli_err (wrapped ''configure pool'' e), s1)
           | (Inr _, s1) \<Rightarrow>
               let pre = printf ''Warming %d instances for blueprint %s...'' [AInt minReady, AStr blueprintPath] in
               (case warm_loop rt blueprintPath others stopped [0..<nat minReady] s1 of
                  (None, s2) \<Rightarrow> (prints (pre @ printf ''Successfully warmed %d instances.'' [AInt minReady]), s2)
                | (Some None, s2) \<Rightarrow> (prints pre, s2)
                | (Some (Some e), s2) \<Rightarrow> (fails_with pre e, s2))))"

section \<open>Statistics and draining\<close>

definition LabelPool :: string where "LabelPool = ''sandboxmatrix/pool''"
definition LabelPoolBlueprint :: string where "LabelPoolBlueprint = ''sandboxmatrix/pool-blueprint''"

definition pooled :: "Info \<Rightarrow> bool" where
  "pooled c \<longleftrightarrow> gm_str (in_Labels c) LabelPool = ''true''"

record blueprintStats =
  bt_running :: nat
  bt_stopped :: nat
  bt_total :: nat

definition stats_key :: "Info \<Rightarrow> string" where
  "stats_key c = (let b = gm_str (in_Labels c) LabelPoolBlueprint in if b = [] then ''(unknown)'' else b)"

definition count_container :: "Info \<Rightarrow> blueprintStats gomap \<Rightarrow> blueprintStats gomap" where
  "count_container c m =
     (if \<not> pooled c then m
      else let k = stats_key c;
        st = (case gm_get m k of None \<Rightarrow> \<lparr>bt_running = 0, bt_stopped = 0, bt_total = 0\<rparr> | Some x \<Rightarrow> x);
        st1 = st\<lparr>bt_total := Suc (bt_total st)\<rparr> in
        gm_set k (if in_State c = ''running'' then st1\<lparr>bt_running := Suc (bt_running st1)\<rparr>
          else st1\<lparr>bt_stopped := Suc (bt_stopped st1)\<rparr>) m)"

definition pool_stats :: "Info list \<Rightarrow> blueprintStats gomap" where
  "pool_stats cs = fold count_container cs []"

text \<open>The rows come in the order in which the map is visited, which Go leaves open; here the order of insertion.\<close>

definition showStats :: "'w Runtime \<Rightarrow> 'w cli" where
  "showStats rt w =
     (case rt_List rt w of
        (Inl e, w1) \<Rightarrow> (cli_err (wrapped ''list containers'' e), w1)
      | (Inr cs, w1) \<Rightarrow>
          (prints (if pool_stats cs = [] then line ''No pool instances found.''
             else table ([''BLUEPRINT'', ''RUNNING'', ''STOPPED'', ''TOTAL''] #
               map (\<lambda>(b, st). [b, itoa (int (bt_running st)), itoa (int (bt_stopped st)), itoa (int (bt_total st))]) (pool_stats cs))), w1))"

fun drain_loop :: "'w Runtime \<Rightarrow> Info list \<Rightarrow> nat \<Rightarrow> (string \<times> nat, 'w) act" where
  "drain_loop rt [] n w = (([], n), w)"
| "drain_loop rt (c # cs) n w =
     (if \<not> pooled c then drain_loop rt cs n w
      else let out = printf ''Destroying pool instance %s (%s)...'' [AStr (in_ID c), AStr (gm_str (in_Labels c) LabelPoolBlueprint)] in
        case rt_Destroy rt (in_ID c) w of
          (Inl e, w1) \<Rightarrow>
            (case drain_loop rt cs n w1 of ((rest, m), w2) \<Rightarrow>
              ((out @ printf ''warning: failed to destroy %s: %v'' [AStr (in_ID c), AErr e] @ rest, m), w2))
        | (Inr _, w1) \<Rightarrow> (case drain_loop rt cs (Suc n) w1 of ((rest, m), w2) \<Rightarrow> ((out @ rest, m), w2)))"

definition drainPoolContainers :: "'w Runtime \<Rightarrow> 'w cli" where
  "drainPoolContainers rt w =
     (case rt_List rt w of
        (Inl e, w1) \<Rightarrow> (cli_err (wrapped ''list containers'' e), w1)
      | (Inr cs, w1) \<Rightarrow>
          (case drain_loop rt cs 0 w1 of ((out, n), w2) \<Rightarrow>
            (prints (out @ (if n = 0 then line ''No pool instances found to drain.''
               else printf ''Drained %d pool instance(s).'' [AInt (int n)])), w2)))"

definition with_docker :: "'w Runtime res \<Rightarrow> ('w Runtime \<Rightarrow> 'w cli) \<Rightarrow> 'w cli" where
  "with_docker docker run w = (case docker of Inl e \<Rightarrow> (cli_err (no_docker e), w) | Inr rt \<Rightarrow> run rt w)"

section \<open>What the commands do to the containers\<close>

lemma pool_stats_total:
  "gm_get (pool_stats cs) k =
     (let own = filter (\<lambda>c. pooled c \<and> stats_key c = k) cs; up = length (filter (\<lambda>c. in_State c = ''running'') own) in
      if own = [] then None else Some \<lparr>bt_running = up, bt_stopped = length own - up, bt_total = length own\<rparr>)"
proof (induction cs rule: rev_induct)
  case (snoc c cs)
  let ?own = "filter (\<lambda>c. pooled c \<and> stats_key c = k) cs"
  have "length (filter (\<lambda>c. in_State c = ''running'') ?own) \<le> length ?own" by (rule length_filter_le)
  with snoc show ?case by (auto simp: pool_stats_def count_container_def Let_def Suc_diff_le)
qed (simp add: pool_stats_def)

context container_runtime begin

lemma drain_loop_live:
  "drain_loop rt cs n w = ((out, m), w') \<Longrightarrow>
   live w' \<subseteq> live w \<and> live w \<subseteq> live w' \<union> in_ID ` {c \<in> set cs. pooled c}"
proof (induction cs arbitrary: n w out m)
  case (Cons c cs)
  show ?case
  proof (cases "pooled c")
    case False
    with Cons show ?thesis by force
  next
    case True
    obtain r w1 where d: "rt_Destroy rt (in_ID c) w = (r, w1)" by fastforce
    with Cons.prems True obtain n1 out1 m1 where rest: "drain_loop rt cs n1 w1 = ((out1, m1), w')"
      by (auto simp: Let_def split: sum.splits prod.splits)
    have "live w1 \<subseteq> live w \<and> live w \<subseteq> live w1 \<union> {in_ID c}"
      using d destroy_gone [of "in_ID c" w w1] destroy_fail [of "in_ID c" w _ w1] by (cases r) auto
    moreover have "{x \<in> set (c # cs). pooled x} = insert c {x \<in> set cs. pooled x}" using True by auto
    ultimately show ?thesis using Cons.IH [OF rest] by (auto simp del: set_simps)
  qed
qed simp

lemma warm_created:
  assumes "createWarmContainer rt img name path s = (Inr i, s')"
  shows "i \<notin> used (po_rt s) \<and> live (po_rt s') = insert i (live (po_rt s))"
proof -
  from assms obtain t s1 w2 w3 where c: "rt_Create rt (warm_config img name path t) (po_rt s) = (Inr i, w2)"
    "rt_Start rt i w2 = (Inr (), w3)" "po_rt s' = w3"
    by (auto simp: createWarmContainer_def pool_now_def on_prt_def count_created_def set_pool_def split: sum.splits prod.splits option.splits)
  with create_fresh [OF c(1)] live_start [OF c(2)] show ?thesis by simp
qed

end

lemma put_back_last:
  "pl_inUse bp = 1 \<Longrightarrow> pl_Ready bp = [] \<Longrightarrow> put_back i bp = (True, bp\<lparr>pl_inUse := 0, pl_Ready := [i]\<rparr>)"
  by (simp add: put_back_def Let_def)

lemma first_claim:
  assumes "container_runtime rt live used" and "pool_of s path = Some bp" and "pl_Ready bp = []" and "pl_inUse bp = 0"
    and "Claim rt path s = (Inr i, s2)"
  shows "i \<notin> live (po_rt s) \<and> live (po_rt s2) = insert i (live (po_rt s)) \<and>
    (\<exists>b. Release rt i path s2 = (Inr (), set_pool path b s2) \<and> pl_Ready b = [i] \<and> pl_inUse b = 0)"
proof -
  let ?s = "s\<lparr>po_tick := Suc (po_tick s)\<rparr>"
  from assms(2,3,5) obtain s1 start where create: "createWarmContainer rt (pl_image bp) (pl_Blueprint bp) path ?s = (Inr i, s1)"
    and s2: "s2 = count_claim path start s1"
    by (auto simp: Claim_def pool_now_def split: sum.splits prod.splits)
  have made: "i \<notin> live (po_rt s) \<and> live (po_rt s1) = insert i (live (po_rt s))"
    using container_runtime.warm_created [OF assms(1) create] container_runtime.live_used [OF assms(1), of "po_rt s"] by auto
  obtain b1 where b1: "pool_of s1 path = Some b1" "uncounted b1 = uncounted bp"
    using same_pools_some [OF createWarm_same [OF create], of path bp] assms(2) by auto
  then have "pl_Ready b1 = []" "pl_inUse b1 = 0" using assms(3,4) uncounted_eq [OF b1(2)] by auto
  then have pb: "put_back i (claimed t b1) = (True, (claimed t b1)\<lparr>pl_inUse := 0, pl_Ready := [i]\<rparr>)" for t
    by (intro put_back_last) (simp_all add: claimed_def)
  from b1(1) s2 have "po_rt s2 = po_rt s1" "\<exists>t. pool_of s2 path = Some (claimed t b1)"
    by (auto simp: count_claim_def pool_now_def set_pool_def)
  with made pb show ?thesis by (fastforce simp: Release_def)
qed

lemma warm_loop_reuses:
  "pool_of s path = Some bp \<Longrightarrow> pl_Ready bp = [i] \<Longrightarrow> pl_inUse bp = 0 \<Longrightarrow>
   \<exists>s'. warm_loop rt path (\<lambda>_ s. s) (\<lambda>_. False) is s = (None, s') \<and> po_rt s' = po_rt s"
proof (induction "is" arbitrary: s bp)
  case (Cons k ks)
  obtain t s1 where now: "Claim rt path s = (Inr i, s1)" "po_rt s1 = po_rt s"
    "pool_of s1 path = Some ((claimed t (bp\<lparr>pl_Ready := []\<rparr>))\<lparr>pl_notify := True\<rparr>)"
    using Cons.prems by (auto simp: Claim_def pool_now_def take_ready_def set_pool_def)
  let ?bp = "(claimed t (bp\<lparr>pl_Ready := []\<rparr>))\<lparr>pl_notify := True\<rparr>"
  let ?bp1 = "?bp\<lparr>pl_inUse := 0, pl_Ready := [i]\<rparr>"
  have "put_back i ?bp = (True, ?bp1)" by (rule put_back_last) (simp_all add: claimed_def Cons.prems(3))
  then have rel: "Release rt i path s1 = (Inr (), set_pool path ?bp1 s1)"
    using now(3) by (simp add: Release_def)
  have "\<exists>s'. warm_loop rt path (\<lambda>_ s. s) (\<lambda>_. False) ks (set_pool path ?bp1 s1) = (None, s') \<and> po_rt s' = po_rt (set_pool path ?bp1 s1)"
    by (rule Cons.IH [where bp = ?bp1]) simp_all
  with now(1,2) rel show ?case by (simp add: set_pool_def)
qed simp

abbreviation demo_docker :: "simd Runtime" where
  "demo_docker \<equiv> docker_runtime sim_client sim_dockerhost ''''"

text \<open>\<open>smx pool drain\<close> destroys no container but those that the backend lists with the pool label.\<close>

theorem drain_destroys_only_pool:
  assumes "container_runtime rt live used" and "drainPoolContainers rt w = (r, w')" and "rt_List rt w = (Inr cs, w1)"
  shows "live w' \<subseteq> live w \<and> live w - in_ID ` {c \<in> set cs. pooled c} \<subseteq> live w'"
proof -
  obtain out n where d: "drain_loop rt cs 0 w1 = ((out, n), w')"
    using assms(2,3) by (auto simp: drainPoolContainers_def split: prod.splits)
  from container_runtime.drain_loop_live [OF assms(1) d] container_runtime.live_list [OF assms(1,3)]
  show ?thesis by blast
qed

theorem drain_destroys_only_pool_witness:
  "sim_live (snd (drainPoolContainers demo_docker (c_rt demo_created))) = sim_live (c_rt demo_created)"
proof -
  let ?w = "c_rt demo_created"
  have "(case fst (rt_List demo_docker ?w) of Inl _ \<Rightarrow> False | Inr cs \<Rightarrow> filter pooled cs = [])" by code_simp
  then obtain cs w1 where l: "rt_List demo_docker ?w = (Inr cs, w1)" "filter pooled cs = []"
    by (cases "rt_List demo_docker ?w") (auto split: sum.splits)
  obtain r w' where d: "drainPoolContainers demo_docker ?w = (r, w')" by fastforce
  from drain_destroys_only_pool [OF sim.dk.container_runtime_axioms d l(1)] l(2) d show ?thesis
    by (auto simp: filter_empty_conv)
qed

text \<open>\<open>smx pool warm\<close> of any number of instances, when the warmer does not get to run before the command ends, creates one
  container and hands it out and back again and again: the command reports that many instances were warmed, one exists.\<close>

theorem pool_warm_reuses_one:
  assumes "container_runtime rt live used"
    and "pool_warm host (Inr rt) clock (\<lambda>_ s. s) (\<lambda>_. False) path minReady maxSize w = ((out, None), s')"
  shows "\<exists>i. i \<notin> live w \<and> live (po_rt s') = insert i (live w)"
proof -
  let ?cfg = "\<lparr>pf_BlueprintPath = path, pf_MinReady = minReady, pf_MaxSize = maxSize\<rparr>"
  from assms(2) have n: "minReady > 0" by (auto simp: pool_warm_def cli_err_def Let_def split: if_splits)
  from assms(2) obtain s1 x where conf: "Configure host ?cfg (new_pool clock w) = (Inr (), s1)"
    and loop: "warm_loop rt path (\<lambda>_ s. s) (\<lambda>_. False) [0..<nat minReady] s1 = (x, s')" "\<And>e. x \<noteq> Some (Some e)"
    by (auto simp: pool_warm_def cli_err_def fails_with_def prints_def Let_def split: if_splits sum.splits prod.splits option.splits)
  obtain bp where bp: "pool_of s1 path = Some bp" "pl_Ready bp = []" "pl_inUse bp = 0" "po_rt s1 = w"
    using conf by (auto simp: Configure_def new_pool_def set_pool_def split: option.splits prod.splits list.splits)
  have ns: "[0..<nat minReady] = 0 # [1..<nat minReady]" using n by (simp add: upt_conv_Cons)
  obtain r s2 where claim: "Claim rt path s1 = (r, s2)" by fastforce
  with loop ns obtain i where i: "r = Inr i" by (cases r) auto
  from first_claim [OF assms(1) bp(1-3) claim [unfolded i]] bp(4) obtain b where b: "i \<notin> live w" "live (po_rt s2) = insert i (live w)"
    "Release rt i path s2 = (Inr (), set_pool path b s2)" "pl_Ready b = [i]" "pl_inUse b = 0" by auto
  with loop ns claim i have rest: "warm_loop rt path (\<lambda>_ s. s) (\<lambda>_. False) [1..<nat minReady] (set_pool path b s2) = (x, s')" by simp
  have "\<exists>s'. warm_loop rt path (\<lambda>_ s. s) (\<lambda>_. False) [1..<nat minReady] (set_pool path b s2) = (None, s') \<and>
      po_rt s' = po_rt (set_pool path b s2)"
    by (rule warm_loop_reuses [where bp = b]) (use b in simp_all)
  with rest b show ?thesis by (auto simp: set_pool_def)
qed

theorem pool_warm_reuses_one_witness:
  "\<exists>out s' i. pool_warm demo_host (Inr demo_docker) int (\<lambda>_ s. s) (\<lambda>_. False) ''go.yaml'' 3 5 (c_rt boot) = ((out, None), s') \<and>
     sim_live (po_rt s') = {i}"
proof -
  let ?run = "pool_warm demo_host (Inr demo_docker) int (\<lambda>_ s. s) (\<lambda>_. False) ''go.yaml'' 3 5 (c_rt boot)"
  have "snd (fst ?run) = None" by code_simp
  then obtain out s' where run: "?run = ((out, None), s')" by (metis prod.collapse)
  have "sim_live (c_rt boot) = {}" by (simp add: boot_def sim_live_def)
  with pool_warm_reuses_one [OF sim.dk.container_runtime_axioms run] run show ?thesis by auto
qed

end
