(* ===== verification/CliAuth.thy ===== *)
theory CliAuth
  imports Commands
begin

text \<open>
  The commands \<open>smx auth\<close>, \<open>smx team\<close> and \<open>smx autoscale\<close> (\<open>internal/cli/auth.go\<close>, \<open>team.go\<close>, \<open>autoscale.go\<close>). The users are kept in
  one file, read and written whole by every command; JSON is the record \<open>UsersJson\<close>. A team command works on the store of teams it
  is given.
\<close>

section \<open>The files of the access control\<close>

record UsersJson =
  uj_Marshal :: "User list \<Rightarrow> string res"
  uj_Unmarshal :: "string \<Rightarrow> User option list res"

definition defaultAuthDir :: "'d Os \<Rightarrow> string res" where
  "defaultAuthDir os =
     (case os_Home os of
        Inl e \<Rightarrow> Inl (wrapped ''resolving home directory'' e)
      | Inr home \<Rightarrow> Inr (Join [home, ''.sandboxmatrix'']))"

definition usersFilePath :: "'d Os \<Rightarrow> string res" where
  "usersFilePath os = map_sum id (\<lambda>dir. Join [dir, ''users.json'']) (defaultAuthDir os)"

definition auditFilePath :: "'d Os \<Rightarrow> string res" where
  "auditFilePath os = map_sum id (\<lambda>dir. Join [dir, ''audit.log'']) (defaultAuthDir os)"

text \<open>A JSON \<open>null\<close> among the users is a nil pointer, which \<open>AddUser\<close> dereferences.\<close>

fun add_loaded :: "User option list \<Rightarrow> RBAC \<Rightarrow> RBAC \<times> goerr option" where
  "add_loaded [] r = (r, None)"
| "add_loaded (None # us) r = (r, Some (Panic ''nil pointer dereference''))"
| "add_loaded (Some u # us) r =
     (case AddUser u r of
        (Inl e, r1) \<Rightarrow> (r1, Some (Errorf ''loading user %q: %w'' [AStr (u_Name u), AErr e]))
      | (Inr _, r1) \<Rightarrow> add_loaded us r1)"

definition loadRBAC :: "'d Os \<Rightarrow> UsersJson \<Rightarrow> (nat \<Rightarrow> (nat \<Rightarrow> char) res) \<Rightarrow> 'd \<Rightarrow> RBAC \<times> goerr option" where
  "loadRBAC os j rand d =
     (let rbac = New_RBAC rand in
      case usersFilePath os of
        Inl e \<Rightarrow> (rbac, Some e)
      | Inr path \<Rightarrow>
          (case os_ReadFile os path d of
             NoSuchFile _ \<Rightarrow> (rbac, None)
           | ReadFailed e \<Rightarrow> (rbac, Some (wrapped ''reading users file'' e))
           | FileData text \<Rightarrow>
               (case uj_Unmarshal j text of
                  Inl e \<Rightarrow> (rbac, Some (wrapped ''parsing users file'' e))
                | Inr users \<Rightarrow> add_loaded users rbac)))"

text \<open>The listing has the tokens cut, so every user is fetched again.\<close>

definition full_users :: "RBAC \<Rightarrow> User list" where
  "full_users r = concat (map (\<lambda>u. case GetUser r (u_Name u) of Inl _ \<Rightarrow> [] | Inr full \<Rightarrow> [full]) (ListUsers r))"

definition saveUsers :: "'d Os \<Rightarrow> UsersJson \<Rightarrow> RBAC \<Rightarrow> (unit res, 'd) act" where
  "saveUsers os j r d =
     (case usersFilePath os of
        Inl e \<Rightarrow> (Inl e, d)
      | Inr path \<Rightarrow>
          (case os_MkdirAll os (Dir path) d of
             (Inl e, d1) \<Rightarrow> (Inl (wrapped ''creating auth directory'' e), d1)
           | (Inr _, d1) \<Rightarrow>
               (case uj_Marshal j (full_users r) of
                  Inl e \<Rightarrow> (Inl (wrapped ''marshaling users'' e), d1)
                | Inr data \<Rightarrow>
                    (case os_WriteFile os path data d1 of
                       (Inl e, d2) \<Rightarrow> (Inl (wrapped ''writing users file'' e), d2)
                     | (Inr _, d2) \<Rightarrow> (Inr (), d2)))))"

section \<open>The auth commands\<close>

definition user_created :: "User \<Rightarrow> string" where
  "user_created u =
     printf ''User %q created with role %q.'' [AStr (u_Name u), AStr (u_Role u)] @ labelled ''Token: '' (u_Token u) @ line [] @
     line ''Store this token securely. It will not be shown again.''"

definition auth_add_user :: "'d Os \<Rightarrow> UsersJson \<Rightarrow> (nat \<Rightarrow> (nat \<Rightarrow> char) res) \<Rightarrow> string \<Rightarrow> string \<Rightarrow> 'd cli" where
  "auth_add_user os j rand name role d =
     (case loadRBAC os j rand d of
        (r, Some e) \<Rightarrow> (cli_err (wrapped ''load auth state'' e), d)
      | (r, None) \<Rightarrow>
          (case AddUser \<lparr>u_Name = name, u_Role = role, u_Token = []\<rparr> r of
             (Inl e, r1) \<Rightarrow> (cli_err e, d)
           | (Inr _, r1) \<Rightarrow>
               (case GetUser r1 name of
                  Inl e \<Rightarrow> (cli_err e, d)
                | Inr created \<Rightarrow>
                    (case saveUsers os j r1 d of
                       (Inl e, d1) \<Rightarrow> (cli_err (wrapped ''save auth state'' e), d1)
                     | (Inr _, d1) \<Rightarrow> (prints (user_created created), d1)))))"

definition auth_list_users :: "'d Os \<Rightarrow> UsersJson \<Rightarrow> (nat \<Rightarrow> (nat \<Rightarrow> char) res) \<Rightarrow> 'd cli" where
  "auth_list_users os j rand d =
     (case loadRBAC os j rand d of
        (r, Some e) \<Rightarrow> cli_err (wrapped ''load auth state'' e)
      | (r, None) \<Rightarrow>
          prints (if ListUsers r = [] then line ''No users configured.''
            else table ([''NAME'', ''ROLE'', ''TOKEN''] # map (\<lambda>u. [u_Name u, u_Role u, u_Token u]) (ListUsers r))), d)"

definition auth_remove_user :: "'d Os \<Rightarrow> UsersJson \<Rightarrow> (nat \<Rightarrow> (nat \<Rightarrow> char) res) \<Rightarrow> string \<Rightarrow> 'd cli" where
  "auth_remove_user os j rand name d =
     (case loadRBAC os j rand d of
        (r, Some e) \<Rightarrow> (cli_err (wrapped ''load auth state'' e), d)
      | (r, None) \<Rightarrow>
          (case RemoveUser name r of
             (Inl e, r1) \<Rightarrow> (cli_err e, d)
           | (Inr _, r1) \<Rightarrow>
               (case saveUsers os j r1 d of
                  (Inl e, d1) \<Rightarrow> (cli_err (wrapped ''save auth state'' e), d1)
                | (Inr _, d1) \<Rightarrow> (prints (printf ''User %q removed.'' [AStr name]), d1))))"

text \<open>\<open>splitLines\<close>: \<open>acc\<close> is what was read of the line, in reverse.\<close>

fun split_lines :: "string \<Rightarrow> string \<Rightarrow> string list" where
  "split_lines acc [] = (if acc = [] then [] else [rev acc])"
| "split_lines acc (c # cs) =
     (if c = CHR 0x0A then rev (case acc of [] \<Rightarrow> [] | d # ds \<Rightarrow> if d = CHR 0x0D then ds else acc) # split_lines [] cs
      else split_lines (c # acc) cs)"

definition splitLines :: "string \<Rightarrow> string list" where
  "splitLines s = split_lines [] s"

text \<open>The entries of the file that decode, newest first, at most \<open>limit\<close> of them when it is positive.\<close>

definition audit_entries :: "(string \<Rightarrow> AuditEntry res) \<Rightarrow> string \<Rightarrow> AuditEntry list" where
  "audit_entries decode text =
     concat (map (\<lambda>l. if l = [] then [] else case decode l of Inl _ \<Rightarrow> [] | Inr e \<Rightarrow> [e]) (splitLines text))"

fun audit_pick :: "string \<Rightarrow> int \<Rightarrow> nat \<Rightarrow> AuditEntry list \<Rightarrow> AuditEntry list" where
  "audit_pick user limit n [] = []"
| "audit_pick user limit n (e # es) =
     (if user \<noteq> [] \<and> ae_User e \<noteq> user then audit_pick user limit n es
      else e # (if limit > 0 \<and> int (Suc n) \<ge> limit then [] else audit_pick user limit (Suc n) es))"

definition audit_table :: "CliLibs \<Rightarrow> AuditEntry list \<Rightarrow> string" where
  "audit_table l es =
     (if es = [] then line ''No matching audit log entries found.''
      else table ([''TIMESTAMP'', ''USER'', ''ACTION'', ''RESOURCE'', ''RESULT'', ''DETAIL''] #
        map (\<lambda>e. [li_datetime l (ae_Timestamp e), ae_User e, ae_Action e, ae_Resource e, ae_Result e, ae_Detail e]) es))"

definition auth_audit :: "CliLibs \<Rightarrow> 'd Os \<Rightarrow> (string \<Rightarrow> AuditEntry res) \<Rightarrow> string \<Rightarrow> int \<Rightarrow> 'd cli" where
  "auth_audit l os decode user limit d =
     (case auditFilePath os of
        Inl e \<Rightarrow> cli_err e
      | Inr path \<Rightarrow>
          (case os_ReadFile os path d of
             NoSuchFile _ \<Rightarrow> prints (line ''No audit log entries found.'')
           | ReadFailed e \<Rightarrow> cli_err (wrapped ''reading audit log'' e)
           | FileData text \<Rightarrow> prints (audit_table l (audit_pick user limit 0 (rev (audit_entries decode text))))), d)"

text \<open>\<open>auth oidc-config\<close>. The role mapping is printed in the order in which the map is visited.\<close>

definition masked :: "string \<Rightarrow> string" where
  "masked s = (if length s > 8 then take 4 s @ ''...'' @ drop (length s - 4) s else s)"

definition oidc_disabled_text :: string where
  "oidc_disabled_text =
     line ''OIDC:     disabled'' @ line [] @
     line ''To enable OIDC, add the following to your config file (~/.sandboxmatrix/config.yaml):'' @ line [] @
     line ''  oidc:'' @ line ''    enabled: true'' @ line ''    provider: google  # or github, oidc'' @
     line ''    clientId: <your-client-id>'' @ line ''    clientSecret: <your-client-secret>'' @
     line ''    redirectUrl: http://localhost:8080/api/v1/auth/oidc/callback''"

definition or_text :: "string \<Rightarrow> string \<Rightarrow> string" where
  "or_text s other = (if s = [] then other else s)"

definition set_text :: "string \<Rightarrow> string \<Rightarrow> string" where
  "set_text s other = (if s = [] then other else ''(set)'')"

definition oidc_text :: "OIDCServerConfig \<Rightarrow> JWTServerConfig \<Rightarrow> string" where
  "oidc_text o1 j =
     line ''OIDC:     enabled'' @ labelled ''Provider: '' (oo_Provider o1) @
     when_set (oo_Issuer o1 \<noteq> []) (labelled ''Issuer:   '' (oo_Issuer o1)) @
     labelled ''ClientID: '' (or_text (masked (oo_ClientID o1)) ''(not set)'') @
     labelled ''Secret:   '' (set_text (oo_ClientSecret o1) ''(not set)'') @
     labelled ''Redirect: '' (oo_RedirectURL o1) @
     when_set (oo_Scopes o1 \<noteq> []) (labelled ''Scopes:   '' (''['' @ spaced (oo_Scopes o1) @ '']'')) @
     when_set (oo_RoleMapping o1 \<noteq> []) (line ''Role Mapping:'' @
       concat (map (\<lambda>(g, role). line (''  '' @ g @ '' -> '' @ role)) (oo_RoleMapping o1))) @
     line [] @ line ''JWT Configuration'' @ line ''-----------------'' @
     labelled ''SigningKey:      '' (set_text (jt_SigningKey j) ''(auto-generated)'') @
     labelled ''Issuer:          '' (or_text (jt_Issuer j) ''sandboxmatrix (default)'') @
     labelled ''AccessTokenTTL:  '' (or_text (jt_AccessTokenTTL j) ''1h (default)'') @
     labelled ''RefreshTokenTTL: '' (or_text (jt_RefreshTokenTTL j) ''168h (default)'')"

definition auth_oidc_config :: "'d Os \<Rightarrow> Yaml \<Rightarrow> 'd cli" where
  "auth_oidc_config os y d =
     (case Load os y d of
        Inl e \<Rightarrow> cli_err (wrapped ''load config'' e)
      | Inr cfg \<Rightarrow>
          prints (line ''OIDC Configuration Status'' @ line ''========================='' @ line [] @
            (if oo_Enabled (cf_OIDC cfg) then oidc_text (cf_OIDC cfg) (cf_JWT cfg) else oidc_disabled_text)), d)"

section \<open>The team commands\<close>

definition team_create :: "gtime \<Rightarrow> string \<Rightarrow> string \<Rightarrow> ResourceQuota \<Rightarrow> 'p TeamStore \<Rightarrow> 'p cli" where
  "team_create t name displayName quota ts p =
     (case kv_Get ts name p of
        (Inr _, p1) \<Rightarrow> (cli_err (Errorf ''team %q already exists'' [AStr name]), p1)
      | (Inl _, p1) \<Rightarrow>
          done_with (printf ''Team %q created.'' [AStr name])
            (kv_Save ts \<lparr>t_Name = name, t_DisplayName = displayName, t_Members = [], t_Quota = quota, t_CreatedAt = t\<rparr>) p1)"

definition unlimited :: "string \<Rightarrow> string" where
  "unlimited s = or_text s ''unlimited''"

text \<open>The age of every team is taken from a clock read for its row.\<close>

definition team_row :: "gtime \<Rightarrow> Team \<Rightarrow> string list" where
  "team_row n t =
     [t_Name t, t_DisplayName t, itoa (int (length (t_Members t))),
      (if rq_MaxSandboxes (t_Quota t) > 0 then itoa (rq_MaxSandboxes (t_Quota t)) else ''unlimited''),
      unlimited (rq_MaxCPU (t_Quota t)), unlimited (rq_MaxMemory (t_Quota t)),
      duration_string (truncate_second (n - t_CreatedAt t))]"

definition team_list :: "(nat \<Rightarrow> gtime) \<Rightarrow> 'p TeamStore \<Rightarrow> 'p cli" where
  "team_list clock ts p =
     (case kv_List ts p of
        (Inl e, p1) \<Rightarrow> (cli_err e, p1)
      | (Inr teams, p1) \<Rightarrow>
          (prints (if teams = [] then line ''No teams found.''
             else table ([''NAME'', ''DISPLAY NAME'', ''MEMBERS'', ''MAX SANDBOXES'', ''MAX CPU'', ''MAX MEMORY'', ''AGE''] #
               map (\<lambda>i. team_row (clock i) (teams ! i)) [0..<length teams])), p1))"

definition formatBytesHuman :: "int \<Rightarrow> string" where
  "formatBytesHuman b =
     (if b \<ge> 1000000000 then fmt_fixed 1 (fdiv (f64_of_int b) (f64_of_int 1000000000)) @ ''G''
      else if b \<ge> 1000000 then fmt_fixed 1 (fdiv (f64_of_int b) (f64_of_int 1000000)) @ ''M''
      else if b \<ge> 1000 then fmt_fixed 1 (fdiv (f64_of_int b) (f64_of_int 1000)) @ ''K''
      else itoa b @ ''B'')"

definition count_line :: "string \<Rightarrow> int \<Rightarrow> string" where
  "count_line label n = when_set (n > 0) (labelled label (itoa n))"

definition text_line :: "string \<Rightarrow> string \<Rightarrow> string" where
  "text_line label s = when_set (s \<noteq> []) (labelled label s)"

definition team_text :: "CliLibs \<Rightarrow> Team \<Rightarrow> string" where
  "team_text l t =
     (let q = t_Quota t in
      labelled ''Name:         '' (t_Name t) @ text_line ''Display Name: '' (t_DisplayName t) @
      labelled ''Created:      '' (li_rfc3339 l (t_CreatedAt t)) @
      labelled ''Members:      '' (itoa (int (length (t_Members t)))) @
      concat (map (\<lambda>m. line (''  - '' @ tmb_UserName m @ '' ('' @ tmb_Role m @ '')'')) (t_Members t)) @ line ''Quota:'' @
      count_line ''  Max Sandboxes: '' (rq_MaxSandboxes q) @ text_line ''  Max CPU:       '' (rq_MaxCPU q) @
      text_line ''  Max Memory:    '' (rq_MaxMemory q) @ text_line ''  Max Disk:      '' (rq_MaxDisk q) @
      count_line ''  Max GPUs:      '' (rq_MaxGPUs q) @ count_line ''  Max Matrices:  '' (rq_MaxMatrices q) @
      count_line ''  Max Sessions:  '' (rq_MaxSessions q))"

definition usage_text :: "ResourceUsage \<Rightarrow> string" where
  "usage_text u =
     line ''Usage:'' @ labelled ''  Sandboxes: '' (itoa (us_Sandboxes u)) @
     labelled ''  CPU:       '' (fmt_fixed 2 (us_CPUCores u) @ '' cores'') @
     labelled ''  Memory:    '' (formatBytesHuman (us_MemoryBytes u)) @ labelled ''  GPUs:      '' (itoa (us_GPUs u)) @
     labelled ''  Matrices:  '' (itoa (us_Matrices u)) @ labelled ''  Sessions:  '' (itoa (us_Sessions u))"

text \<open>The usage is shown when the stores can be opened (\<open>qm\<close>) and read.\<close>

definition team_inspect :: "CliLibs \<Rightarrow> 'p Manager option \<Rightarrow> string \<Rightarrow> 'p TeamStore \<Rightarrow> 'p cli" where
  "team_inspect l qm name ts p =
     (case kv_Get ts name p of
        (Inl e, p1) \<Rightarrow> (cli_err e, p1)
      | (Inr team, p1) \<Rightarrow>
          (case qm of
             None \<Rightarrow> (prints (team_text l team), p1)
           | Some m \<Rightarrow>
               (case GetUsage m (t_Name team) p1 of
                  (Inl _, p2) \<Rightarrow> (prints (team_text l team), p2)
                | (Inr u, p2) \<Rightarrow> (prints (team_text l team @ usage_text u), p2))))"

definition team_add_member :: "string \<Rightarrow> string \<Rightarrow> Role \<Rightarrow> 'p TeamStore \<Rightarrow> 'p cli" where
  "team_add_member team user role ts p =
     (case kv_Get ts team p of
        (Inl e, p1) \<Rightarrow> (cli_err e, p1)
      | (Inr t, p1) \<Rightarrow>
          if list_ex (\<lambda>m. tmb_UserName m = user) (t_Members t)
          then (cli_err (Errorf ''user %q is already a member of team %q'' [AStr user, AStr team]), p1)
          else done_with (printf ''Added %q to team %q with role %q.'' [AStr user, AStr team, AStr role])
            (kv_Save ts (t\<lparr>t_Members := t_Members t @ [\<lparr>tmb_UserName = user, tmb_Role = role\<rparr>]\<rparr>)) p1)"

definition team_remove_member :: "string \<Rightarrow> string \<Rightarrow> 'p TeamStore \<Rightarrow> 'p cli" where
  "team_remove_member team user ts p =
     (case kv_Get ts team p of
        (Inl e, p1) \<Rightarrow> (cli_err e, p1)
      | (Inr t, p1) \<Rightarrow>
          if \<not> list_ex (\<lambda>m. tmb_UserName m = user) (t_Members t)
          then (cli_err (Errorf ''user %q is not a member of team %q'' [AStr user, AStr team]), p1)
          else done_with (printf ''Removed %q from team %q.'' [AStr user, AStr team])
            (kv_Save ts (t\<lparr>t_Members := filter (\<lambda>m. tmb_UserName m \<noteq> user) (t_Members t)\<rparr>)) p1)"

text \<open>A flag is \<open>None\<close> when it was not given.\<close>

record QuotaFlags =
  qf_sandboxes :: "int option"
  qf_cpu :: "string option"
  qf_memory :: "string option"
  qf_disk :: "string option"
  qf_gpus :: "int option"
  qf_matrices :: "int option"
  qf_sessions :: "int option"

definition changed :: "'a option \<Rightarrow> 'a \<Rightarrow> 'a" where
  "changed flag old = (case flag of None \<Rightarrow> old | Some v \<Rightarrow> v)"

definition set_quota :: "QuotaFlags \<Rightarrow> ResourceQuota \<Rightarrow> ResourceQuota" where
  "set_quota f q =
     \<lparr>rq_MaxSandboxes = changed (qf_sandboxes f) (rq_MaxSandboxes q), rq_MaxCPU = changed (qf_cpu f) (rq_MaxCPU q),
      rq_MaxMemory = changed (qf_memory f) (rq_MaxMemory q), rq_MaxDisk = changed (qf_disk f) (rq_MaxDisk q),
      rq_MaxGPUs = changed (qf_gpus f) (rq_MaxGPUs q), rq_MaxMatrices = changed (qf_matrices f) (rq_MaxMatrices q),
      rq_MaxSessions = changed (qf_sessions f) (rq_MaxSessions q)\<rparr>"

definition team_set_quota :: "QuotaFlags \<Rightarrow> string \<Rightarrow> 'p TeamStore \<Rightarrow> 'p cli" where
  "team_set_quota f team ts p =
     (case kv_Get ts team p of
        (Inl e, p1) \<Rightarrow> (cli_err e, p1)
      | (Inr t, p1) \<Rightarrow>
          done_with (printf ''Quotas updated for team %q.'' [AStr team]) (kv_Save ts (t\<lparr>t_Quota := set_quota f (t_Quota t)\<rparr>)) p1)"

section \<open>The autoscale commands\<close>

text \<open>A request to the server: the transport gives a status and a body that may fail to be read.\<close>

type_synonym 's fetch = "string \<Rightarrow> string \<Rightarrow> ((int \<times> string res) res, 's) act"

definition ask_server :: "'s fetch \<Rightarrow> (goerr \<Rightarrow> goerr) \<Rightarrow> string \<Rightarrow> string \<Rightarrow> string \<Rightarrow> (string \<Rightarrow> string \<times> goerr option) \<Rightarrow> 's cli" where
  "ask_server fetch unreachable meth addr path found s =
     (case fetch meth (''http://'' @ addr @ path) s of
        (Inl e, s1) \<Rightarrow> (cli_err (unreachable e), s1)
      | (Inr (status, body), s1) \<Rightarrow>
          (case body of
             Inl e \<Rightarrow> cli_err (wrapped ''read response'' e)
           | Inr text \<Rightarrow>
               if status \<noteq> 200 then cli_err (Errorf ''server error (%d): %s'' [AInt status, AStr text]) else found text, s1))"

text \<open>\<open>pretty\<close> decodes and indents a JSON object.\<close>

definition autoscale_status :: "'s fetch \<Rightarrow> (string \<Rightarrow> string res) \<Rightarrow> string \<Rightarrow> 's cli" where
  "autoscale_status fetch pretty addr =
     ask_server fetch
       (\<lambda>e. Errorf (''connect to server: %w'' @ [CHR 0x0A, CHR 0x0A] @ ''Is the server running? (smx server start)'') [AErr e])
       ''GET'' addr ''/api/v1/autoscale/status''
       (\<lambda>text. case pretty text of Inl e \<Rightarrow> cli_err (wrapped ''parse response'' e) | Inr json \<Rightarrow> prints (line json))"

definition autoscale_enable :: "'s fetch \<Rightarrow> string \<Rightarrow> 's cli" where
  "autoscale_enable fetch addr =
     ask_server fetch (wrapped ''connect to server'') ''POST'' addr ''/api/v1/autoscale/enable''
       (\<lambda>_. prints (line ''Autoscaler enabled''))"

definition autoscale_disable :: "'s fetch \<Rightarrow> string \<Rightarrow> 's cli" where
  "autoscale_disable fetch addr =
     ask_server fetch (wrapped ''connect to server'') ''POST'' addr ''/api/v1/autoscale/disable''
       (\<lambda>_. prints (line ''Autoscaler disabled, all sandboxes restored to original limits''))"

section \<open>Users are read back as they were saved\<close>

lemma full_users_all:
  assumes "rbac_ok r"
  shows "full_users r = map snd (rb_users r)"
proof -
  have "(case GetUser r (u_Name (redacted (snd e))) of Inl _ \<Rightarrow> [] | Inr full \<Rightarrow> [full]) = [snd e]" if "e \<in> set (rb_users r)" for e
    using assms that by (cases e) (auto simp: rbac_ok_def user_ok_def redacted_def GetUser_def)
  then have "map ((\<lambda>u. case GetUser r (u_Name u) of Inl _ \<Rightarrow> [] | Inr full \<Rightarrow> [full]) \<circ> (redacted \<circ> snd)) (rb_users r) =
      map (\<lambda>e. [snd e]) (rb_users r)" by simp
  then have "full_users r = concat (map (\<lambda>e. [snd e]) (rb_users r))"
    by (simp only: full_users_def ListUsers_def map_map)
  then show ?thesis by (simp add: concat_map_singleton)
qed

lemma AddUser_stored:
  assumes "user_ok (rb_roles r) (k, u)" and "k \<notin> fst ` set (rb_users r)"
  shows "AddUser u r = (Inr u, r\<lparr>rb_users := rb_users r @ [(k, u)]\<rparr>)"
  using assms by (auto simp: AddUser_def user_ok_def gm_set_absent map_of_eq_None_iff)

lemma add_loaded_users:
  "gm_wf (rb_users r @ us) \<Longrightarrow> (\<forall>e \<in> set us. user_ok (rb_roles r) e) \<Longrightarrow>
   add_loaded (map (Some \<circ> snd) us) r = (r\<lparr>rb_users := rb_users r @ us\<rparr>, None)"
proof (induction us arbitrary: r)
  case (Cons e us)
  obtain k u where e: "e = (k, u)" by fastforce
  from Cons.prems have "AddUser u r = (Inr u, r\<lparr>rb_users := rb_users r @ [(k, u)]\<rparr>)"
    by (intro AddUser_stored) (auto simp: e)
  with Cons.IH [of "r\<lparr>rb_users := rb_users r @ [(k, u)]\<rparr>"] Cons.prems show ?case by (simp add: e)
qed simp

lemma add_loaded_ok:
  "rbac_ok r \<Longrightarrow> rbac_ok (fst (add_loaded us r)) \<and> rb_roles (fst (add_loaded us r)) = rb_roles r"
proof (induction us r rule: add_loaded.induct)
  case (3 u us r)
  show ?case
  proof (cases "AddUser u r")
    case (Pair x r1)
    have "rbac_ok r1" "rb_roles r1 = rb_roles r"
      using AddUser_ok [OF "3.prems", of u] AddUser_roles [of u r] Pair by simp_all
    with "3.IH" [OF Pair [symmetric]] Pair show ?thesis by (cases x) simp_all
  qed
qed simp_all

lemma loadRBAC_ok:
  assumes "loadRBAC os j rand d = (r, e)"
  shows "rbac_ok r" and "rb_roles r = default_roles"
proof -
  have "rb_roles (New_RBAC rand) = default_roles" by (simp add: New_RBAC_def)
  then have "rbac_ok (fst (loadRBAC os j rand d)) \<and> rb_roles (fst (loadRBAC os j rand d)) = default_roles"
    using add_loaded_ok [OF New_RBAC_ok, of _ rand]
    by (simp add: loadRBAC_def Let_def New_RBAC_ok split: sum.splits read_answer.splits)
  with assms show "rbac_ok r" and "rb_roles r = default_roles" by simp_all
qed

context file_system begin

lemma users_saved:
  assumes "saveUsers os j r d = (Inr (), d')"
  shows "\<exists>path data. usersFilePath os = Inr path \<and> uj_Marshal j (full_users r) = Inr data \<and> cont d' = (cont d)(path \<mapsto> data)"
  using assms made written by (fastforce simp: saveUsers_def split: sum.splits prod.splits)

lemma users_reloaded:
  assumes "rbac_ok r" and "rb_roles r = default_roles" and "saveUsers os j r d = (Inr (), d')"
    and "\<And>us t. uj_Marshal j us = Inr t \<Longrightarrow> uj_Unmarshal j t = Inr (map Some us)"
    and "loadRBAC os j rand d' = (r', None)"
  shows "rb_users r' = rb_users r"
proof -
  from users_saved [OF assms(3)] obtain path data where p: "usersFilePath os = Inr path"
    "uj_Marshal j (full_users r) = Inr data" "cont d' path = Some data" by auto
  have dec: "uj_Unmarshal j data = Inr (map (Some \<circ> snd) (rb_users r))"
    using assms(4) [OF p(2)] by (simp add: full_users_all [OF assms(1)])
  have "add_loaded (map (Some \<circ> snd) (rb_users r)) (New_RBAC rand) = ((New_RBAC rand)\<lparr>rb_users := rb_users r\<rparr>, None)"
    using add_loaded_users [of "New_RBAC rand" "rb_users r"] assms(1,2) by (simp add: rbac_ok_def New_RBAC_def)
  with assms(5) p dec read [of path d'] absent [of path d'] show ?thesis
    by (cases "os_ReadFile os path d'") (auto simp: loadRBAC_def Let_def)
qed

end

text \<open>C31. The token that \<open>smx auth add-user\<close> prints is accepted by an access control that loads the users afterwards, for exactly
  what the role of the new user grants, if no other user has the same token and JSON reads back what it wrote.\<close>

theorem added_user_authorised:
  assumes "file_system os cont" and "auth_add_user os j rand name role d = ((out, None), d')"
    and "loadRBAC os j rand' d' = (r, None)" and "own_tokens r"
    and "\<And>us t. uj_Marshal j us = Inr t \<Longrightarrow> uj_Unmarshal j t = Inr (map Some us)"
  shows "\<exists>u. out = user_created u \<and> u_Name u = name \<and> u_Role u = role \<and>
    fst (AuthorizeByToken r (u_Token u) resource action) = name \<and>
    (snd (AuthorizeByToken r (u_Token u) resource action) = None \<longleftrightarrow> may role resource action)"
proof -
  obtain r0 e0 where load: "loadRBAC os j rand d = (r0, e0)" by fastforce
  let ?new = "\<lparr>u_Name = name, u_Role = role, u_Token = []\<rparr>"
  obtain x r1 where add: "AddUser ?new r0 = (x, r1)" by fastforce
  from assms(2) load add obtain u v where u: "x = Inr v" "gm_get (rb_users r1) name = Some u" "out = user_created u"
    "saveUsers os j r1 d = (Inr (), d')" by (auto simp: auth_add_user_def cli_err_def prints_def GetUser_def split: option.splits sum.splits prod.splits)
  have ok: "rbac_ok r1" "rb_roles r1 = default_roles"
    using AddUser_ok [OF loadRBAC_ok(1) [OF load], of ?new] AddUser_roles [of ?new r0] loadRBAC_ok(2) [OF load] add by simp_all
  have users: "rb_users r = rb_users r1"
    by (rule file_system.users_reloaded [OF assms(1) ok u(4) assms(5,3)])
  have "u_Name u = name \<and> u_Role u = role"
    using add u(1,2) by (auto simp: AddUser_def Let_def split: if_splits sum.splits prod.splits)
  moreover have "AuthorizeByToken r (u_Token u) resource action = (name, checkPermission r (u_Role u) resource action)"
    by (rule AuthorizeByToken_stored [OF loadRBAC_ok(1) [OF assms(3)] assms(4)]) (simp add: users u(2))
  ultimately show ?thesis using u(3) checkPermission_default [OF loadRBAC_ok(2) [OF assms(3)]] by auto
qed

definition one_admin :: UsersJson where
  "one_admin = \<lparr>uj_Marshal = (\<lambda>us. case us of [u] \<Rightarrow> if u = \<lparr>u_Name = ''ann'', u_Role = RoleAdmin, u_Token = u_Token u\<rparr> then Inr (u_Token u)
        else Inl (ExtErr ''unsupported'') | _ \<Rightarrow> Inl (ExtErr ''unsupported'')),
     uj_Unmarshal = (\<lambda>t. Inr [Some \<lparr>u_Name = ''ann'', u_Role = RoleAdmin, u_Token = t\<rparr>])\<rparr>"

abbreviation all_a :: "nat \<Rightarrow> (nat \<Rightarrow> char) res" where
  "all_a \<equiv> \<lambda>_. Inr (\<lambda>_. CHR ''a'')"

theorem added_user_authorised_witness:
  "\<exists>d' u. auth_add_user plain_os one_admin all_a ''ann'' RoleAdmin [] = ((user_created u, None), d') \<and>
     AuthorizeByToken (fst (loadRBAC plain_os one_admin no_rand d')) (u_Token u) ''sandbox'' ''delete'' = (''ann'', None)"
proof -
  let ?run = "auth_add_user plain_os one_admin all_a ''ann'' RoleAdmin []"
  have run: "snd (fst ?run) = None" by code_simp
  have load: "snd (loadRBAC plain_os one_admin no_rand (snd ?run)) = None" by code_simp
  have own: "own_tokens (fst (loadRBAC plain_os one_admin no_rand (snd ?run)))" unfolding own_tokens_def by code_simp
  have codec: "uj_Unmarshal one_admin t = Inr (map Some us)" if "uj_Marshal one_admin us = Inr t" for us t
    using that by (auto simp: one_admin_def split: list.splits if_splits)
  obtain out d' where eq: "?run = ((out, None), d')" using run by (metis prod.collapse)
  obtain r where r: "loadRBAC plain_os one_admin no_rand d' = (r, None)" using load eq by (metis prod.collapse snd_conv)
  have "\<exists>u. out = user_created u \<and> u_Name u = ''ann'' \<and> u_Role u = RoleAdmin \<and>
      fst (AuthorizeByToken r (u_Token u) ''sandbox'' ''delete'') = ''ann'' \<and>
      (snd (AuthorizeByToken r (u_Token u) ''sandbox'' ''delete'') = None \<longleftrightarrow> may RoleAdmin ''sandbox'' ''delete'')"
    by (rule added_user_authorised [OF pos.file_system_axioms eq r _ codec]) (use own eq r in simp_all)
  with eq r show ?thesis by (auto simp: may_def prod_eq_iff)
qed

section \<open>The audit command shows what a query would\<close>

lemma audit_pick_take:
  "limit \<le> 0 \<or> int n < limit \<Longrightarrow>
   audit_pick user limit n es = (if limit > 0 then take (nat limit - n) else id) (filter (audit_match user []) es)"
proof (induction es arbitrary: n)
  case (Cons e es)
  show ?case
  proof (cases "user \<noteq> [] \<and> ae_User e \<noteq> user")
    case True
    with Cons show ?thesis by (simp add: audit_match_def)
  next
    case False
    show ?thesis
    proof (cases "limit > 0 \<and> int (Suc n) \<ge> limit")
      case True
      with Cons.prems have "nat limit - n = 1" by linarith
      with True False show ?thesis by (auto simp: audit_match_def)
    next
      case more: False
      with Cons.IH [of "Suc n"] Cons.prems False show ?thesis
        by (auto simp: audit_match_def take_Cons' Suc_diff_le)
    qed
  qed
qed simp

lemma split_lines_line:
  assumes "CHR 0x0A \<notin> set l" and "l = [] \<or> last l \<noteq> CHR 0x0D"
  shows "split_lines [] (l @ CHR 0x0A # rest) = l # split_lines [] rest"
proof -
  have "split_lines acc (l @ cs) = split_lines (rev l @ acc) cs" if "CHR 0x0A \<notin> set l" for acc cs l
    using that by (induction l arbitrary: acc) auto
  from this [OF assms(1), of "[]" "CHR 0x0A # rest"] assms(2) show ?thesis
    by (cases "rev l") (auto simp: last_rev [symmetric] rev_swap)
qed

lemma audit_entries_lines:
  assumes "\<And>e. e \<in> set es \<Longrightarrow> \<exists>t. marshal e = Inr (t @ ''}'') \<and> CHR 0x0A \<notin> set t \<and> decode (t @ ''}'') = Inr e"
  shows "audit_entries decode (concat (map (\<lambda>e. case marshal e of Inl _ \<Rightarrow> [] | Inr l \<Rightarrow> l @ [CHR 0x0A]) es)) = es"
  using assms
proof (induction es)
  case Nil
  show ?case by (simp add: audit_entries_def splitLines_def)
next
  case (Cons e es)
  from Cons.prems [of e] obtain t where t: "marshal e = Inr (t @ ''}'')" "CHR 0x0A \<notin> set t" "decode (t @ ''}'') = Inr e" by auto
  have "split_lines [] ((t @ ''}'') @ CHR 0x0A # rest) = (t @ ''}'') # split_lines [] rest" for rest
    by (rule split_lines_line) (use t(2) in auto)
  with Cons t show ?case by (simp add: audit_entries_def splitLines_def)
qed

text \<open>The file after a sequence of records: one line for each.\<close>

lemma Record_file:
  assumes "au_file a = Some f" and "\<And>n. af_short f n = None"
  shows "\<exists>g. au_file (fold (Record marshal) es a) = Some g \<and> af_content g = af_content f @
    concat (map (\<lambda>e. case marshal e of Inl _ \<Rightarrow> [] | Inr l \<Rightarrow> l @ [CHR 0x0A]) (stamp_all es a))"
  using assms
proof (induction es arbitrary: a f)
  case (Cons e es)
  obtain e1 a1 where s: "stamp e a = (e1, a1)" by fastforce
  have af: "au_file a1 = Some f" using s Cons.prems(1) by (auto simp: stamp_def split: if_splits)
  let ?g = "case marshal e1 of Inl _ \<Rightarrow> f | Inr l \<Rightarrow> audit_write (l @ [CHR 0x0A]) f"
  have "au_file (Record marshal e a) = Some ?g"
    using s af by (simp add: Record_def Let_def split: sum.splits)
  moreover have "\<And>n. af_short ?g n = None" using Cons.prems(2) by (simp add: audit_write_def split: sum.splits)
  ultimately show ?case using Cons.IH [of "Record marshal e a" ?g] Record_run(3) [OF s, of es marshal] s Cons.prems(2)
    by (auto simp: audit_write_def split: sum.splits)
qed simp


definition bob_reads :: AuditEntry where
  "bob_reads = \<lparr>ae_Timestamp = 5, ae_User = ''bob'', ae_Action = ''read'', ae_Resource = ''sandbox'', ae_Result = ''ok'', ae_Detail = []\<rparr>"

definition open_log :: AuditLog where
  "open_log = \<lparr>au_entries = [], au_maxSize = 0, au_file = Some \<lparr>af_content = [], af_short = (\<lambda>_. None), af_writes = 0\<rparr>,
     au_clock = int, au_tick = 0\<rparr>"


section \<open>Teams\<close>

lemma done_with_ok: "done_with out op s = ((o1, None), s') \<longleftrightarrow> (\<exists>u. op s = (Inr u, s')) \<and> o1 = out"
  by (auto simp: done_with_def cli_err_def prints_def split: sum.splits prod.splits)

lemma done_with_state: "snd (done_with out op s) = snd (op s)"
  by (simp add: done_with_def split: sum.splits prod.splits)

definition members_distinct :: "Team \<Rightarrow> bool" where
  "members_distinct t \<longleftrightarrow> distinct (map tmb_UserName (t_Members t))"

datatype team_command = TCreate gtime string string ResourceQuota | TAdd string string Role | TRemove string string | TQuota QuotaFlags string

fun run_team :: "'p TeamStore \<Rightarrow> team_command \<Rightarrow> 'p \<Rightarrow> 'p" where
  "run_team ts (TCreate t name shown q) p = snd (team_create t name shown q ts p)"
| "run_team ts (TAdd team user role) p = snd (team_add_member team user role ts p)"
| "run_team ts (TRemove team user) p = snd (team_remove_member team user ts p)"
| "run_team ts (TQuota f team) p = snd (team_set_quota f team ts p)"

locale team_store = kv_store "kv_Get ts" "kv_List ts" "kv_Save ts" "kv_Delete ts" team_key abs ok
  for ts :: "'p TeamStore" and abs :: "'p \<Rightarrow> string \<rightharpoonup> Team" and ok :: "'p \<Rightarrow> bool"
begin

definition all_distinct :: "'p \<Rightarrow> bool" where
  "all_distinct p \<longleftrightarrow> ok p \<and> (\<forall>t \<in> ran (abs p). members_distinct t)"

lemma distinct_got:
  "all_distinct p \<Longrightarrow> kv_Get ts n p = (r, p1) \<Longrightarrow> all_distinct p1 \<and> (\<forall>t. r = Inr t \<longrightarrow> members_distinct t)"
  using get_found [of p n _ p1] get_frame [of p n r p1] by (auto simp: all_distinct_def ran_def)

lemma distinct_saved:
  assumes "all_distinct p" and "members_distinct t"
  shows "all_distinct (snd (kv_Save ts t p))"
proof -
  obtain r p1 where s: "kv_Save ts t p = (r, p1)" by fastforce
  have "ok p1 \<and> (abs p1 = abs p \<or> abs p1 = (abs p)(team_key t \<mapsto> t))"
    using s assms(1) save_done [of p t _ p1] save_failed [of p t _ p1] by (cases r) (auto simp: all_distinct_def)
  then have "ok p1" and "\<And>n x. abs p1 n = Some x \<Longrightarrow> x = t \<or> abs p n = Some x" by (auto split: if_splits)
  with s assms show ?thesis unfolding all_distinct_def ran_def by fastforce
qed

lemma distinct_run:
  assumes "all_distinct p"
  shows "all_distinct (run_team ts c p)"
proof -
  have got: "all_distinct (snd (kv_Get ts n p)) \<and> (\<forall>t. fst (kv_Get ts n p) = Inr t \<longrightarrow> members_distinct t)" for n
    using distinct_got [OF assms, of n] by (metis prod.collapse)
  show ?thesis
  proof (cases c)
    case (TCreate x a b q)
    then show ?thesis using got [of a]
      by (auto simp: team_create_def done_with_state members_distinct_def split: sum.splits prod.splits intro!: distinct_saved)
  next
    case (TAdd team user role)
    then show ?thesis using got [of team]
      by (auto simp: team_add_member_def done_with_state members_distinct_def list_ex_iff split: sum.splits prod.splits
          intro!: distinct_saved)
  next
    case (TRemove team user)
    then show ?thesis using got [of team]
      by (auto simp: team_remove_member_def done_with_state members_distinct_def distinct_map_filter split: sum.splits prod.splits
          intro!: distinct_saved)
  next
    case (TQuota f team)
    then show ?thesis using got [of team]
      by (auto simp: team_set_quota_def done_with_state members_distinct_def split: sum.splits prod.splits intro!: distinct_saved)
  qed
qed

lemma distinct_runs: "all_distinct p \<Longrightarrow> all_distinct (fold (run_team ts) cs p)"
  by (induction cs arbitrary: p) (simp_all add: distinct_run)

lemma added_removed:
  assumes "ok p" and "team_add_member team user role ts p = ((o1, None), p1)" and "team_remove_member team user ts p1 = ((o2, None), p2)"
  shows "abs p2 = abs p"
proof -
  from assms(2) obtain t q u where add: "kv_Get ts team p = (Inr t, q)" "\<not> list_ex (\<lambda>m. tmb_UserName m = user) (t_Members t)"
    "kv_Save ts (t\<lparr>t_Members := t_Members t @ [\<lparr>tmb_UserName = user, tmb_Role = role\<rparr>]\<rparr>) q = (Inr u, p1)"
    by (auto simp: team_add_member_def done_with_ok cli_err_def split: sum.splits prod.splits if_splits)
  from assms(3) obtain t1 q1 v where rem: "kv_Get ts team p1 = (Inr t1, q1)"
    "kv_Save ts (t1\<lparr>t_Members := filter (\<lambda>m. tmb_UserName m \<noteq> user) (t_Members t1)\<rparr>) q1 = (Inr v, p2)"
    by (auto simp: team_remove_member_def done_with_ok cli_err_def split: sum.splits prod.splits if_splits)
  have t: "abs p team = Some t" and q: "ok q" "abs q = abs p"
    using get_found [OF assms(1) add(1)] get_frame [OF assms(1) add(1)] by simp_all
  have name: "t_Name t = team" using keyed [OF assms(1) t] by (simp add: team_key_def)
  have p1: "ok p1" "abs p1 = (abs p)(team \<mapsto> t\<lparr>t_Members := t_Members t @ [\<lparr>tmb_UserName = user, tmb_Role = role\<rparr>]\<rparr>)"
    using save_done [OF q(1) add(3)] q(2) name by (simp_all add: team_key_def)
  have t1: "t1 = t\<lparr>t_Members := t_Members t @ [\<lparr>tmb_UserName = user, tmb_Role = role\<rparr>]\<rparr>" and q1: "ok q1" "abs q1 = abs p1"
    using get_found [OF p1(1) rem(1)] get_frame [OF p1(1) rem(1)] p1(2) by simp_all
  have "filter (\<lambda>m. tmb_UserName m \<noteq> user) (t_Members t) = t_Members t"
    using add(2) by (simp add: list_ex_iff)
  then have "t1\<lparr>t_Members := filter (\<lambda>m. tmb_UserName m \<noteq> user) (t_Members t1)\<rparr> = t" by (simp add: t1)
  with save_done [OF q1(1) rem(2)] q1(2) p1(2) name have "abs p2 = (abs p)(team \<mapsto> t)" by (simp add: team_key_def)
  with t show ?thesis by (simp add: map_upd_triv)
qed

end

interpretation fts: team_store file_team_store fs_abs "fs_ok team_key"
  by (simp add: team_store_def file_team_store_def ftm.kv_store_axioms)

definition no_quota :: ResourceQuota where
  "no_quota = \<lparr>rq_MaxSandboxes = 0, rq_MaxCPU = [], rq_MaxMemory = [], rq_MaxDisk = [], rq_MaxGPUs = 0, rq_MaxMatrices = 0, rq_MaxSessions = 0\<rparr>"

text \<open>C33. In the file of teams no team ever lists a user twice, whatever team commands are run, the failing ones included, and
  adding a member and removing it again leaves every team as it was.\<close>

theorem team_commands_invariant:
  assumes "fs_ok team_key p" and "\<forall>t \<in> ran (fs_abs p). members_distinct t"
  shows "(\<forall>t \<in> ran (fs_abs (fold (run_team file_team_store) cs p)). members_distinct t) \<and>
    (\<forall>team user role o1 o2 p1 p2. team_add_member team user role file_team_store p = ((o1, None), p1) \<longrightarrow>
       team_remove_member team user file_team_store p1 = ((o2, None), p2) \<longrightarrow> fs_abs p2 = fs_abs p)"
  using fts.distinct_runs [of p cs] fts.added_removed [OF assms(1)] assms by (auto simp: fts.all_distinct_def)

theorem team_commands_invariant_witness:
  "ran (fs_abs (fold (run_team file_team_store)
     [TCreate 5 ''core'' [] (set_quota \<lparr>qf_sandboxes = Some 3, qf_cpu = None, qf_memory = None, qf_disk = None, qf_gpus = None,
        qf_matrices = None, qf_sessions = None\<rparr> no_quota), TAdd ''core'' ''ann'' RoleAdmin, TAdd ''core'' ''ann'' RoleViewer] empty_disk)) \<subseteq>
   {t. members_distinct t}"
proof -
  have "fs_ok team_key empty_disk" by (simp add: empty_disk_def fs_ok_def doc_ok_def)
  moreover have "\<forall>t \<in> ran (fs_abs empty_disk). members_distinct t" by (simp add: empty_disk_abs)
  ultimately show ?thesis using conjunct1 [OF team_commands_invariant] by (intro subsetI CollectI) (rule bspec)
qed

end
