(* ===== verification/Login.thy ===== *)
theory Login
  imports Server
begin

text \<open>
  \<open>internal/auth/oidc.go\<close> and \<open>internal/server/oidc_handlers.go\<close>: signing in with an external identity provider. The
  OAuth2 and OIDC packages and the GitHub API are the parameter \<open>OIDCLib\<close>; each is called at most once per request.
  The state of the handlers is the store of login states and the random source.
\<close>

section \<open>The provider\<close>

record OIDCConfig =
  oc_Provider :: string
  oc_Issuer :: string
  oc_ClientID :: string
  oc_ClientSecret :: string
  oc_RedirectURL :: string
  oc_Scopes :: "string list"

text \<open>\<open>Raw\<close>, the undecoded claims, is only handed on and is left out.\<close>

record OIDCClaims =
  oi_Subject :: string
  oi_Email :: string
  oi_Name :: string
  oi_Groups :: "string list"

record OIDCTokens =
  ot_AccessToken :: string
  ot_IDToken :: string
  ot_RefreshToken :: string
  ot_Expiry :: gtime

record OAuthToken =
  oa_AccessToken :: string
  oa_RefreshToken :: string
  oa_Expiry :: gtime
  oa_id_token :: "string option"

record GitHubUser =
  gh_ID :: int
  gh_Login :: string
  gh_Name :: string
  gh_Email :: string

text \<open>An ID token or a user-info answer: its subject, its e-mail address, and its claims, decoded as \<open>OIDCClaims\<close> and as a plain
  map (of which only the error matters).\<close>

record IDToken =
  it_Subject :: string
  it_Email :: string
  it_Claims :: "OIDCClaims \<Rightarrow> OIDCClaims res"
  it_RawClaims :: "unit res"

record OIDCLib =
  ol_NewProvider :: "string \<Rightarrow> unit res"
  ol_AuthCodeURL :: "OIDCConfig \<Rightarrow> string \<Rightarrow> string"
  ol_Exchange :: "OIDCConfig \<Rightarrow> string \<Rightarrow> OAuthToken res"
  ol_Verify :: "string \<Rightarrow> string \<Rightarrow> IDToken res"
  ol_UserInfo :: "string \<Rightarrow> IDToken res"
  ol_GitHubGet :: "string \<Rightarrow> string \<Rightarrow> (int \<times> string res) res"
  ol_ParseUser :: "string \<Rightarrow> GitHubUser res"
  ol_ParseOrgs :: "string \<Rightarrow> string list res"

text \<open>\<open>ol_GitHubGet\<close> takes the URL and the access token and gives the status and the body, or the error of reading it.

  \<open>op_verifier\<close>: a provider with discovered end points has a verifier and a user-info end point, GitHub has not.\<close>

record OIDCProvider =
  op_config :: OIDCConfig
  op_oauth2 :: OIDCConfig
  op_verifier :: bool

definition with_scopes :: "string list \<Rightarrow> OIDCConfig \<Rightarrow> OIDCConfig" where
  "with_scopes scopes cfg = (if oc_Scopes cfg = [] then cfg\<lparr>oc_Scopes := scopes\<rparr> else cfg)"

definition initGitHub :: "OIDCConfig \<Rightarrow> OIDCProvider res" where
  "initGitHub cfg =
     Inr \<lparr>op_config = cfg, op_oauth2 = with_scopes [''user:email'', ''read:org''] cfg, op_verifier = False\<rparr>"

definition initGoogle :: "OIDCLib \<Rightarrow> OIDCConfig \<Rightarrow> OIDCProvider res" where
  "initGoogle lib cfg =
     (case ol_NewProvider lib ''https://accounts.google.com'' of
        Inl e \<Rightarrow> Inl (Errorf ''oidc: discover google endpoints: %w'' [AErr e])
      | Inr _ \<Rightarrow> Inr \<lparr>op_config = cfg, op_oauth2 = with_scopes [''openid'', ''profile'', ''email''] cfg, op_verifier = True\<rparr>)"

definition initGenericOIDC :: "OIDCLib \<Rightarrow> OIDCConfig \<Rightarrow> OIDCProvider res" where
  "initGenericOIDC lib cfg =
     (if oc_Issuer cfg = '''' then Inl (Errorf ''oidc: issuer is required for generic OIDC provider'' [])
      else case ol_NewProvider lib (oc_Issuer cfg) of
        Inl e \<Rightarrow> Inl (Errorf ''oidc: discover endpoints for %q: %w'' [AStr (oc_Issuer cfg), AErr e])
      | Inr _ \<Rightarrow> Inr \<lparr>op_config = cfg, op_oauth2 = with_scopes [''openid'', ''profile'', ''email''] cfg, op_verifier = True\<rparr>)"

definition NewOIDCProvider :: "OIDCLib \<Rightarrow> OIDCConfig \<Rightarrow> OIDCProvider res" where
  "NewOIDCProvider lib cfg =
     (if oc_ClientID cfg = '''' then Inl (Errorf ''oidc: clientId is required'' [])
      else if oc_ClientSecret cfg = '''' then Inl (Errorf ''oidc: clientSecret is required'' [])
      else if oc_RedirectURL cfg = '''' then Inl (Errorf ''oidc: redirectUrl is required'' [])
      else if oc_Provider cfg = ''github'' then initGitHub cfg
      else if oc_Provider cfg = ''google'' then initGoogle lib cfg
      else if oc_Provider cfg = ''oidc'' \<or> oc_Provider cfg = '''' then initGenericOIDC lib cfg
      else Inl (Errorf ''oidc: unsupported provider %q (use google, github, or oidc)'' [AStr (oc_Provider cfg)]))"

definition AuthURL :: "OIDCLib \<Rightarrow> OIDCProvider \<Rightarrow> string \<Rightarrow> string" where
  "AuthURL lib p st = ol_AuthCodeURL lib (op_oauth2 p) st"

definition Exchange :: "OIDCLib \<Rightarrow> OIDCProvider \<Rightarrow> string \<Rightarrow> OIDCTokens res" where
  "Exchange lib p code =
     (case ol_Exchange lib (op_oauth2 p) code of
        Inl e \<Rightarrow> Inl (Errorf ''oidc: exchange code: %w'' [AErr e])
      | Inr token \<Rightarrow>
          Inr \<lparr>ot_AccessToken = oa_AccessToken token,
               ot_IDToken = (case oa_id_token token of None \<Rightarrow> '''' | Some raw \<Rightarrow> raw),
               ot_RefreshToken = oa_RefreshToken token, ot_Expiry = oa_Expiry token\<rparr>)"

definition no_claims :: OIDCClaims where
  "no_claims = \<lparr>oi_Subject = '''', oi_Email = '''', oi_Name = '''', oi_Groups = []\<rparr>"

definition VerifyIDToken :: "OIDCLib \<Rightarrow> OIDCProvider \<Rightarrow> string \<Rightarrow> OIDCClaims res" where
  "VerifyIDToken lib p raw =
     (if \<not> op_verifier p then
        Inl (Errorf ''oidc: ID token verification not supported for provider %q'' [AStr (oc_Provider (op_config p))])
      else case ol_Verify lib (oc_ClientID (op_config p)) raw of
        Inl e \<Rightarrow> Inl (Errorf ''oidc: verify ID token: %w'' [AErr e])
      | Inr idToken \<Rightarrow>
          (case it_Claims idToken no_claims of
             Inl e \<Rightarrow> Inl (Errorf ''oidc: extract claims: %w'' [AErr e])
           | Inr claims \<Rightarrow>
               (case it_RawClaims idToken of
                  Inl e \<Rightarrow> Inl (Errorf ''oidc: extract raw claims: %w'' [AErr e])
                | Inr _ \<Rightarrow> Inr (claims\<lparr>oi_Subject := it_Subject idToken\<rparr>))))"

definition getGitHubOrgs :: "OIDCLib \<Rightarrow> string \<Rightarrow> string list res" where
  "getGitHubOrgs lib accessToken =
     (case ol_GitHubGet lib ''https://api.github.com/user/orgs'' accessToken of
        Inl e \<Rightarrow> Inl e
      | Inr (status, Inl e) \<Rightarrow> Inl e
      | Inr (status, Inr body) \<Rightarrow>
          if status \<noteq> StatusOK then Inl (Errorf ''github /user/orgs returned %d'' [AInt status])
          else ol_ParseOrgs lib body)"

definition github_claims :: "OIDCLib \<Rightarrow> string \<Rightarrow> GitHubUser \<Rightarrow> OIDCClaims" where
  "github_claims lib accessToken gh =
     \<lparr>oi_Subject = itoa (gh_ID gh), oi_Email = gh_Email gh,
      oi_Name = (if gh_Name gh = '''' then gh_Login gh else gh_Name gh),
      oi_Groups = (case getGitHubOrgs lib accessToken of Inl _ \<Rightarrow> [] | Inr orgs \<Rightarrow> orgs)\<rparr>"

definition getGitHubUserInfo :: "OIDCLib \<Rightarrow> string \<Rightarrow> OIDCClaims res" where
  "getGitHubUserInfo lib accessToken =
     (case ol_GitHubGet lib ''https://api.github.com/user'' accessToken of
        Inl e \<Rightarrow> Inl (Errorf ''oidc: github user request: %w'' [AErr e])
      | Inr (status, Inl e) \<Rightarrow> Inl (Errorf ''oidc: read github response: %w'' [AErr e])
      | Inr (status, Inr body) \<Rightarrow>
          if status \<noteq> StatusOK then Inl (Errorf ''oidc: github /user returned %d: %s'' [AInt status, AStr body])
          else (case ol_ParseUser lib body of
             Inl e \<Rightarrow> Inl (Errorf ''oidc: parse github user: %w'' [AErr e])
           | Inr gh \<Rightarrow> Inr (github_claims lib accessToken gh)))"

definition getOIDCUserInfo :: "OIDCLib \<Rightarrow> OIDCProvider \<Rightarrow> string \<Rightarrow> OIDCClaims res" where
  "getOIDCUserInfo lib p accessToken =
     (if \<not> op_verifier p then Inl (Errorf ''oidc: provider not initialized'' [])
      else case ol_UserInfo lib accessToken of
        Inl e \<Rightarrow> Inl (Errorf ''oidc: fetch userinfo: %w'' [AErr e])
      | Inr info \<Rightarrow>
          (case it_Claims info (no_claims\<lparr>oi_Subject := it_Subject info, oi_Email := it_Email info\<rparr>) of
             Inl e \<Rightarrow> Inl (Errorf ''oidc: extract userinfo claims: %w'' [AErr e])
           | Inr claims \<Rightarrow>
               (case it_RawClaims info of
                  Inl e \<Rightarrow> Inl (Errorf ''oidc: extract raw userinfo claims: %w'' [AErr e])
                | Inr _ \<Rightarrow> Inr claims)))"

definition GetUserInfo :: "OIDCLib \<Rightarrow> OIDCProvider \<Rightarrow> string \<Rightarrow> OIDCClaims res" where
  "GetUserInfo lib p accessToken =
     (if oc_Provider (op_config p) = ''github'' then getGitHubUserInfo lib accessToken
      else getOIDCUserInfo lib p accessToken)"

section \<open>Login states\<close>

record LoginState =
  ls_states :: "gtime gomap"
  ls_rand :: "nat \<Rightarrow> string res"
  ls_draw :: nat

definition on_login :: "('a, LoginState) act \<Rightarrow> ('a, LoginState Web) act" where
  "on_login a s = (case a (wb_app s) of (r, l) \<Rightarrow> (r, s\<lparr>wb_app := l\<rparr>))"

definition draw16 :: "(string res, LoginState) act" where
  "draw16 l = (ls_rand l (ls_draw l), l\<lparr>ls_draw := Suc (ls_draw l)\<rparr>)"

definition state_ttl :: int where
  "state_ttl = 10 * 60 * second"

definition generate_at :: "gtime \<Rightarrow> string \<Rightarrow> LoginState \<Rightarrow> LoginState" where
  "generate_at t st l =
     l\<lparr>ls_states := gm_set st (t + state_ttl) (filter (\<lambda>(k, v). \<not> t > v) (ls_states l))\<rparr>"

definition validate_at :: "gtime \<Rightarrow> string \<Rightarrow> (bool, LoginState) act" where
  "validate_at t st l =
     (case gm_get (ls_states l) st of
        None \<Rightarrow> (False, l)
      | Some expiry \<Rightarrow> (t < expiry, l\<lparr>ls_states := gm_del st (ls_states l)\<rparr>))"

definition generate :: "(string res, LoginState Web) act" where
  "generate s =
     (case on_login draw16 s of
        (Inl e, s1) \<Rightarrow> (Inl e, s1)
      | (Inr b, s1) \<Rightarrow>
          (case web_now s1 of (t, s2) \<Rightarrow>
           (Inr (hex_encode b), s2\<lparr>wb_app := generate_at t (hex_encode b) (wb_app s2)\<rparr>)))"

definition validate :: "string \<Rightarrow> (bool, LoginState Web) act" where
  "validate st s =
     (if gm_get (ls_states (wb_app s)) st = None then (False, s)
      else case web_now s of (t, s1) \<Rightarrow> on_login (validate_at t st) s1)"

section \<open>Handlers\<close>

datatype login_body =
    RedirectURL string
  | Redirect string
  | TokenPair string string
  | SignedIn string string OIDCClaims Role
  | UserInfoBody UserClaims

definition handleOIDCLogin :: "OIDCLib \<Rightarrow> OIDCProvider \<Rightarrow> (login_body, LoginState) handler" where
  "handleOIDCLogin lib p r s =
     (case generate s of
        (Inl _, s1) \<Rightarrow> (errorResponse StatusInternalServerError ''failed to generate state'', s1)
      | (Inr st, s1) \<Rightarrow>
          let url = AuthURL lib p st in
          if gm_str (rq_Header r) ''Accept'' = ''application/json'' then (jsonResponse StatusOK (RedirectURL url), s1)
          else (jsonResponse 302 (Redirect url), s1))"

definition rolePriority :: "string \<Rightarrow> int option" where
  "rolePriority role =
     (if role = RoleAdmin then Some 3 else if role = RoleOperator then Some 2
      else if role = RoleViewer then Some 1 else None)"

fun best_role :: "string gomap \<Rightarrow> string list \<Rightarrow> Role \<Rightarrow> int \<Rightarrow> Role" where
  "best_role m [] bestRole bestPriority = bestRole"
| "best_role m (g # gs) bestRole bestPriority =
     (case gm_get m g of
        None \<Rightarrow> best_role m gs bestRole bestPriority
      | Some role \<Rightarrow>
          (case rolePriority role of
             None \<Rightarrow> best_role m gs bestRole bestPriority
           | Some priority \<Rightarrow>
               if priority > bestPriority then best_role m gs role priority
               else best_role m gs bestRole bestPriority))"

definition mapOIDCGroupsToRole :: "string list \<Rightarrow> string gomap \<Rightarrow> Role" where
  "mapOIDCGroupsToRole groups roleMapping =
     (if roleMapping = [] \<or> groups = [] then RoleViewer else best_role roleMapping groups RoleViewer 1)"

definition ensureRBACUser :: "string \<Rightarrow> Role \<Rightarrow> RBAC \<Rightarrow> RBAC" where
  "ensureRBACUser name role rbac =
     (case GetUser rbac name of
        Inr _ \<Rightarrow> rbac
      | Inl _ \<Rightarrow> snd (AddUser \<lparr>u_Name = name, u_Role = role, u_Token = ''''\<rparr> rbac))"

record OIDCHandlerConfig =
  oh_Lib :: OIDCLib
  oh_Provider :: OIDCProvider
  oh_JWTLib :: JWTLib
  oh_JWTService :: JWTService
  oh_RoleMapping :: "string gomap"

definition oidc_user :: "OIDCClaims \<Rightarrow> string" where
  "oidc_user c = (if oi_Email c \<noteq> '''' then oi_Email c else if oi_Name c \<noteq> '''' then oi_Name c else oi_Subject c)"

definition identity_claims :: "OIDCHandlerConfig \<Rightarrow> OIDCTokens \<Rightarrow> string + OIDCClaims" where
  "identity_claims cfg tokens =
     (if ot_IDToken tokens \<noteq> '''' then
        (case VerifyIDToken (oh_Lib cfg) (oh_Provider cfg) (ot_IDToken tokens) of
           Inl _ \<Rightarrow> Inl ''failed to verify ID token'' | Inr c \<Rightarrow> Inr c)
      else
        (case GetUserInfo (oh_Lib cfg) (oh_Provider cfg) (ot_AccessToken tokens) of
           Inl _ \<Rightarrow> Inl ''failed to get user info'' | Inr c \<Rightarrow> Inr c))"

definition sign_in :: "OIDCHandlerConfig \<Rightarrow> OIDCClaims \<Rightarrow> (login_body Response, LoginState Web) act" where
  "sign_in cfg claims s0 =
     (let role = mapOIDCGroupsToRole (oi_Groups claims) (oh_RoleMapping cfg);
          s = s0\<lparr>wb_rbac := map_option (ensureRBACUser (oidc_user claims) role) (wb_rbac s0)\<rparr>;
          userClaims = empty_claims\<lparr>cl_UserID := oi_Subject claims, cl_Email := oi_Email claims, cl_Name := oi_Name claims,
            cl_Role := role, cl_Teams := oi_Groups claims\<rparr> in
      case web_now s of (t, s1) \<Rightarrow>
      case GenerateAccessToken (oh_JWTLib cfg) (oh_JWTService cfg) t userClaims of
        Inl _ \<Rightarrow> (errorResponse StatusInternalServerError ''failed to generate access token'', s1)
      | Inr accessToken \<Rightarrow>
          (case web_now s1 of (t2, s2) \<Rightarrow>
           case on_login draw16 s2 of (jti, s3) \<Rightarrow>
           case GenerateRefreshToken (oh_JWTLib cfg) (oh_JWTService cfg) t2 jti (oi_Subject claims) of
             Inl _ \<Rightarrow> (errorResponse StatusInternalServerError ''failed to generate refresh token'', s3)
           | Inr refreshToken \<Rightarrow> (jsonResponse StatusOK (SignedIn accessToken refreshToken claims role), s3)))"

definition handleOIDCCallback :: "OIDCHandlerConfig \<Rightarrow> (login_body, LoginState) handler" where
  "handleOIDCCallback cfg r s =
     (let st = gm_str (rq_Query r) ''state''; errParam = gm_str (rq_Query r) ''error''; code = gm_str (rq_Query r) ''code'' in
      case (if st = '''' then (False, s) else validate st s) of
        (False, s1) \<Rightarrow> (errorResponse StatusBadRequest ''invalid or expired state parameter'', s1)
      | (True, s1) \<Rightarrow>
          if errParam \<noteq> '''' then
            (errorResponse StatusBadRequest (''oidc error: '' @ errParam @ '': '' @ gm_str (rq_Query r) ''error_description''), s1)
          else if code = '''' then (errorResponse StatusBadRequest ''missing authorization code'', s1)
          else (case Exchange (oh_Lib cfg) (oh_Provider cfg) code of
             Inl _ \<Rightarrow> (errorResponse StatusInternalServerError ''failed to exchange authorization code'', s1)
           | Inr tokens \<Rightarrow>
               (case identity_claims cfg tokens of
                  Inl msg \<Rightarrow> (errorResponse StatusInternalServerError msg, s1)
                | Inr claims \<Rightarrow> sign_in cfg claims s1)))"

definition refreshed_claims :: "RBAC option \<Rightarrow> string \<Rightarrow> UserClaims" where
  "refreshed_claims rbac userID =
     (let c = empty_claims\<lparr>cl_UserID := userID\<rparr> in
      case rbac of None \<Rightarrow> c
      | Some r \<Rightarrow> (case find (\<lambda>u. u_Name u = userID) (ListUsers r) of
                    None \<Rightarrow> c | Some u \<Rightarrow> c\<lparr>cl_Name := u_Name u, cl_Role := u_Role u\<rparr>))"

text \<open>\<open>decode\<close> reads the refresh token out of the JSON body.\<close>

definition handleTokenRefresh ::
  "(string \<Rightarrow> bool \<Rightarrow> string res) \<Rightarrow> JWTLib \<Rightarrow> JWTService \<Rightarrow> (login_body, LoginState) handler" where
  "handleTokenRefresh decode lib svc r s =
     (case decodeJSON decode r of
        Inl resp \<Rightarrow> (resp, s)
      | Inr tok \<Rightarrow>
          if tok = '''' then (errorResponse StatusBadRequest ''refreshToken is required'', s)
          else
            (case web_now s of (t, s1) \<Rightarrow>
             case ValidateRefreshToken lib svc t tok of
               Inl _ \<Rightarrow> (errorResponse StatusUnauthorized ''invalid refresh token'', s1)
             | Inr userID \<Rightarrow>
               (case web_now s1 of (t2, s2) \<Rightarrow>
                case GenerateAccessToken lib svc t2 (refreshed_claims (wb_rbac s2) userID) of
                  Inl _ \<Rightarrow> (errorResponse StatusInternalServerError ''failed to generate access token'', s2)
                | Inr accessToken \<Rightarrow>
                  (case web_now s2 of (t3, s3) \<Rightarrow>
                   case on_login draw16 s3 of (jti, s4) \<Rightarrow>
                   case GenerateRefreshToken lib svc t3 jti userID of
                     Inl _ \<Rightarrow> (errorResponse StatusInternalServerError ''failed to generate refresh token'', s4)
                   | Inr newRefreshToken \<Rightarrow> (jsonResponse StatusOK (TokenPair accessToken newRefreshToken), s4)))))"

definition handleUserInfo :: "(login_body, LoginState) handler" where
  "handleUserInfo r s =
     (case rq_claims r of
        None \<Rightarrow> (errorResponse StatusUnauthorized ''not authenticated'', s)
      | Some claims \<Rightarrow> (jsonResponse StatusOK (UserInfoBody claims), s))"

section \<open>Login states are used once\<close>

text \<open>What happened to the store, newest first: a state was generated, or presented, at a time.\<close>

datatype login_event = Generated string gtime | Presented string gtime bool

fun login_run :: "login_event list \<Rightarrow> LoginState \<Rightarrow> LoginState option" where
  "login_run [] l = Some l"
| "login_run (Generated st t # es) l = map_option (generate_at t st) (login_run es l)"
| "login_run (Presented st t ok # es) l =
     (case login_run es l of None \<Rightarrow> None
      | Some l' \<Rightarrow> (case validate_at t st l' of (b, l'') \<Rightarrow> if b = ok then Some l'' else None))"

definition issued :: "login_event list \<Rightarrow> string \<Rightarrow> gtime \<Rightarrow> bool" where
  "issued es st expiry \<longleftrightarrow> (\<exists>later earlier t. es = later @ Generated st t # earlier \<and> expiry = t + state_ttl \<and>
     (\<forall>u b. Presented st u b \<notin> set later))"

lemma issued_now: "issued (Generated st t # es) st (t + state_ttl)"
  unfolding issued_def by (rule exI [of _ "[]"]) auto

lemma issued_later:
  assumes "issued es st expiry" and "\<And>u b. e \<noteq> Presented st u b"
  shows "issued (e # es) st expiry"
proof -
  obtain later earlier t where "es = later @ Generated st t # earlier" "expiry = t + state_ttl" "\<forall>u b. Presented st u b \<notin> set later"
    using assms(1) unfolding issued_def by blast
  with assms(2) show ?thesis unfolding issued_def
    by (intro exI [of _ "e # later"] exI [of _ earlier] exI [of _ t]) auto
qed

lemma map_of_filter_Some: "gm_wf m \<Longrightarrow> gm_get (filter P m) k = Some v \<Longrightarrow> gm_get m k = Some v"
  by (metis (no_types, lifting) distinct_map_filter filter_is_subset map_of_SomeD map_of_eq_Some_iff subsetD)

lemma login_run_states:
  assumes "login_run es \<lparr>ls_states = [], ls_rand = rand, ls_draw = n\<rparr> = Some l"
  shows "gm_wf (ls_states l) \<and> (\<forall>st expiry. gm_get (ls_states l) st = Some expiry \<longrightarrow> issued es st expiry)"
  using assms
proof (induction es arbitrary: l)
  case (Cons e es)
  show ?case
  proof (cases e)
    case (Generated st0 t)
    with Cons.prems obtain l' where l': "login_run es \<lparr>ls_states = [], ls_rand = rand, ls_draw = n\<rparr> = Some l'" "l = generate_at t st0 l'"
      by auto
    note IH = Cons.IH [OF l'(1)]
    let ?kept = "filter (\<lambda>(k, v). \<not> t > v) (ls_states l')"
    have wf: "gm_wf ?kept" using IH by (simp add: distinct_map_filter)
    have "issued (e # es) st expiry" if "gm_get (ls_states l) st = Some expiry" for st expiry
    proof (cases "st = st0")
      case True
      with that l'(2) have "expiry = t + state_ttl" by (simp add: generate_at_def)
      with True Generated show ?thesis by (simp add: issued_now)
    next
      case False
      with that l'(2) have "gm_get ?kept st = Some expiry" by (simp add: generate_at_def)
      then have "gm_get (ls_states l') st = Some expiry" by (rule map_of_filter_Some [OF conjunct1 [OF IH]])
      with IH have "issued es st expiry" by blast
      with Generated show ?thesis by (intro issued_later) auto
    qed
    with wf l'(2) show ?thesis by (simp add: generate_at_def)
  next
    case (Presented st0 t ok)
    with Cons.prems obtain l' where l': "login_run es \<lparr>ls_states = [], ls_rand = rand, ls_draw = n\<rparr> = Some l'" "snd (validate_at t st0 l') = l"
      by (auto split: option.splits prod.splits if_splits)
    note IH = Cons.IH [OF l'(1)]
    have wf: "gm_wf (ls_states l)" using IH l'(2) by (auto simp: validate_at_def split: option.splits)
    have "issued (e # es) st expiry" if "gm_get (ls_states l) st = Some expiry" for st expiry
    proof -
      have "st \<noteq> st0" "gm_get (ls_states l') st = Some expiry"
        using that l'(2) by (auto simp: validate_at_def split: option.splits if_splits)
      with IH Presented show ?thesis by (intro issued_later) auto
    qed
    with wf show ?thesis by blast
  qed
qed simp

section \<open>Properties\<close>

text \<open>C19. A login state is accepted only if it was generated less than ten minutes before and was not presented since: in
  every history of the store, an accepted state has a generation of its own.\<close>

theorem login_state_single_use:
  assumes "login_run (Presented st u True # es) \<lparr>ls_states = [], ls_rand = rand, ls_draw = n\<rparr> \<noteq> None"
  shows "\<exists>later earlier t. es = later @ Generated st t # earlier \<and> u < t + state_ttl \<and> (\<forall>v b. Presented st v b \<notin> set later)"
proof -
  obtain l expiry where l: "login_run es \<lparr>ls_states = [], ls_rand = rand, ls_draw = n\<rparr> = Some l"
    "gm_get (ls_states l) st = Some expiry" "u < expiry"
    using assms by (auto simp: validate_at_def split: option.splits prod.splits if_splits)
  from login_run_states [OF l(1)] l(2) have "issued es st expiry" by blast
  with l(3) show ?thesis unfolding issued_def by blast
qed

theorem login_state_single_use_witness:
  "\<exists>later earlier t. [Generated ''s'' 5] = later @ Generated ''s'' t # earlier \<and> 6 < t + state_ttl \<and> (\<forall>v b. Presented ''s'' v b \<notin> set later)"
  by (rule login_state_single_use [where rand = "\<lambda>n. Inr ''''" and n = 0])
    (simp add: generate_at_def validate_at_def state_ttl_def second_def)

lemma best_role_best:
  assumes "rolePriority bestRole = Some bestPriority"
  shows "(best_role m gs bestRole bestPriority = bestRole \<or> (\<exists>g \<in> set gs. gm_get m g = Some (best_role m gs bestRole bestPriority))) \<and>
    (\<exists>p. rolePriority (best_role m gs bestRole bestPriority) = Some p \<and> bestPriority \<le> p \<and>
      (\<forall>g \<in> set gs. \<forall>role q. gm_get m g = Some role \<longrightarrow> rolePriority role = Some q \<longrightarrow> q \<le> p))"
  using assms
proof (induction m gs bestRole bestPriority rule: best_role.induct)
  case (2 m g gs bestRole bestPriority)
  show ?case
  proof (cases "\<exists>role q. gm_get m g = Some role \<and> rolePriority role = Some q \<and> q > bestPriority")
    case True
    then obtain role q where r: "gm_get m g = Some role" "rolePriority role = Some q" "q > bestPriority" by blast
    from "2.IH"(3) [OF r] r show ?thesis by auto
  next
    case False
    then have step: "best_role m (g # gs) bestRole bestPriority = best_role m gs bestRole bestPriority"
      by (auto split: option.splits)
    have "(best_role m gs bestRole bestPriority = bestRole \<or> (\<exists>g \<in> set gs. gm_get m g = Some (best_role m gs bestRole bestPriority))) \<and>
      (\<exists>p. rolePriority (best_role m gs bestRole bestPriority) = Some p \<and> bestPriority \<le> p \<and>
      (\<forall>g \<in> set gs. \<forall>role q. gm_get m g = Some role \<longrightarrow> rolePriority role = Some q \<longrightarrow> q \<le> p))"
      using 2 False by (cases "gm_get m g"; cases "rolePriority (the (gm_get m g))") auto
    then show ?thesis unfolding step using False by (auto dest: order_trans intro: le_less_linear)
  qed
qed auto

text \<open>The role of a new user is the highest that any group of the user maps to, and viewer when none does.\<close>

theorem role_mapping_highest:
  assumes "gm_get m g = Some role" and "g \<in> set groups" and "rolePriority role = Some q"
  shows "\<exists>p. rolePriority (mapOIDCGroupsToRole groups m) = Some p \<and> q \<le> p \<and>
    (mapOIDCGroupsToRole groups m = RoleViewer \<or> (\<exists>g \<in> set groups. gm_get m g = Some (mapOIDCGroupsToRole groups m)))"
proof -
  have "m \<noteq> []" "groups \<noteq> []" using assms(1,2) by auto
  then have "mapOIDCGroupsToRole groups m = best_role m groups RoleViewer 1" by (simp add: mapOIDCGroupsToRole_def)
  moreover have "rolePriority RoleViewer = Some 1" by (simp add: rolePriority_def)
  ultimately show ?thesis using best_role_best [of RoleViewer 1 m groups] assms by auto
qed

theorem role_mapping_highest_witness:
  "\<exists>p. rolePriority (mapOIDCGroupsToRole [''dev'', ''ops''] [(''dev'', RoleViewer), (''ops'', RoleOperator)]) = Some p \<and> 2 \<le> p \<and>
    (mapOIDCGroupsToRole [''dev'', ''ops''] [(''dev'', RoleViewer), (''ops'', RoleOperator)] = RoleViewer \<or>
     (\<exists>g \<in> set [''dev'', ''ops'']. gm_get [(''dev'', RoleViewer), (''ops'', RoleOperator)] g =
        Some (mapOIDCGroupsToRole [''dev'', ''ops''] [(''dev'', RoleViewer), (''ops'', RoleOperator)])))"
  by (rule role_mapping_highest [where g = "''ops''" and role = RoleOperator]) (simp_all add: rolePriority_def)

section \<open>Who a signed-in user is\<close>

lemma AddUser_keeps: "gm_get (rb_users r) n = Some u \<Longrightarrow> n \<noteq> u_Name user \<Longrightarrow> gm_get (rb_users (snd (AddUser user r))) n = Some u"
  using GenerateToken_run [of r] by (auto simp: AddUser_def Let_def split: sum.splits)

lemma ensureRBACUser_keeps: "gm_get (rb_users r) n = Some u \<Longrightarrow> gm_get (rb_users (ensureRBACUser name role r)) n = Some u"
  by (cases "n = name") (auto simp: ensureRBACUser_def GetUser_def AddUser_keeps split: option.splits sum.splits)

lemma ensureRBACUser_ok:
  assumes "rbac_ok r"
  shows "rbac_ok (ensureRBACUser name role r)" "rb_roles (ensureRBACUser name role r) = rb_roles r"
  using AddUser_ok [OF assms] assms by (auto simp: ensureRBACUser_def split: sum.splits)

lemma sign_in_token:
  assumes "sign_in cfg claims s = (resp, s')" and "rs_Body resp = Payload (SignedIn tok ref claims role)"
  obtains t where "GenerateAccessToken (oh_JWTLib cfg) (oh_JWTService cfg) t (empty_claims\<lparr>cl_UserID := oi_Subject claims,
      cl_Email := oi_Email claims, cl_Name := oi_Name claims,
      cl_Role := mapOIDCGroupsToRole (oi_Groups claims) (oh_RoleMapping cfg), cl_Teams := oi_Groups claims\<rparr>) = Inr tok"
    and "t = wb_clock s (wb_tick s)" and "wb_rbac s' = map_option (ensureRBACUser (oidc_user claims)
      (mapOIDCGroupsToRole (oi_Groups claims) (oh_RoleMapping cfg))) (wb_rbac s)"
  using assms
  by (auto simp: sign_in_def web_now_def on_login_def draw16_def Let_def errorResponse_def jsonResponse_def
      split: sum.splits prod.splits)

lemma jwt_admits:
  assumes "wb_rbac s = Some rbac" and "rb_roles rbac = default_roles" and "\<not> is_public r"
    and "gm_str (rq_Header r) ''Authorization'' = ''Bearer '' @ token" and "token \<noteq> ''''"
    and "ValidateToken lib svc (wb_clock s (wb_tick s)) token = Inr c" and "permitted rbac (claims_user c) r"
  shows "admits marshal (AuthMiddleware marshal (Some (lib, svc)) :: ('b, 'w) handler \<Rightarrow> ('b, 'w) handler) (claims_user c) r s"
proof -
  let ?m = "AuthMiddleware marshal (Some (lib, svc)) :: ('b, 'w) handler \<Rightarrow> ('b, 'w) handler"
  obtain t s0 where now: "web_now s = (t, s0)" by fastforce
  then have t: "t = wb_clock s (wb_tick s)" by (simp add: web_now_def)
  have eq: "?m nx r s = jwt_auth marshal rbac c nx r s0" for nx
    using assms now t by (simp add: AuthMiddleware_def check_token_def HasPrefix_def TrimPrefix_def)
  have "Authorize rbac (claims_user c) (fst (mapRequestToPermission (rq_Method r) (rq_Path r)))
      (snd (mapRequestToPermission (rq_Method r) (rq_Path r))) = None"
    using assms(7) checkPermission_default [OF assms(2)] by (auto simp: permitted_def Authorize_def)
  then have "admits marshal (jwt_auth marshal rbac c :: ('b, 'w) handler \<Rightarrow> ('b, 'w) handler) (claims_user c) r s0"
    unfolding admits_def jwt_auth_def
    by (intro exI [of _ "r\<lparr>rq_claims := Some c, rq_user := Some (claims_user c)\<rparr>"]
        exI [of _ "recordAudit marshal (claims_user c) r ''success'' '''' s0"]) (simp add: recordAudit_logged case_prod_beta)
  from admits_after [where m = ?m and m' = "jwt_auth marshal rbac c", OF now eq this] show ?thesis .
qed

lemma validate_run:
  assumes "validate st s = (True, s1)"
  shows "wb_rbac s1 = wb_rbac s" "wb_clock s1 = wb_clock s" "wb_tick s1 = Suc (wb_tick s)"
  using assms by (auto simp: validate_def web_now_def on_login_def split: if_splits prod.splits)

lemma callback_signs_in:
  assumes "handleOIDCCallback cfg q s = (resp, s')" and "rs_Body resp = Payload (SignedIn tok ref claims role)"
  obtains s1 where "sign_in cfg claims s1 = (resp, s')" "wb_rbac s1 = wb_rbac s" "wb_clock s1 = wb_clock s" "wb_tick s1 = Suc (wb_tick s)"
proof -
  let ?st = "gm_str (rq_Query q) ''state''"
  have err: "rs_Body (errorResponse status msg) \<noteq> Payload b" for status msg and b :: login_body by (simp add: errorResponse_def)
  obtain ok s1 where v: "(if ?st = [] then (False, s) else validate ?st s) = (ok, s1)" by fastforce
  with assms err have ok by (cases ok) (auto simp: handleOIDCCallback_def Let_def)
  with v have valid: "validate ?st s = (True, s1)" by (auto split: if_splits)
  obtain c where c: "sign_in cfg c s1 = (resp, s')"
    using assms err v \<open>ok\<close> by (auto simp: handleOIDCCallback_def Let_def split: if_splits sum.splits)
  have "c = claims" using c assms(2) by (auto simp: sign_in_def Let_def errorResponse_def jsonResponse_def split: sum.splits prod.splits)
  with c validate_run [OF valid] that show ?thesis by blast
qed

text \<open>Someone who signs in is, from then on, the stored user of that e-mail address or, without an address, of that display
  name: the access token opens every request that the stored role of that user permits, whatever role the
  groups of the person map to. A display name equal to the name of an administrator is enough.\<close>

theorem display_name_takes_over:
  assumes "jwt_roundtrip (oh_JWTLib cfg)" and "handleOIDCCallback cfg q s = (resp, s')"
    and "rs_Body resp = Payload (SignedIn tok ref claims role)"
    and "wb_rbac s = Some rbac" and "rbac_ok rbac" and "rb_roles rbac = default_roles"
    and "oi_Email claims = []" and "gm_get (rb_users rbac) (oi_Name claims) = Some user" and "u_Role user = RoleAdmin"
    and "numeric_date (wb_clock s (Suc (wb_tick s))) \<le> numeric_date (wb_clock s' (wb_tick s'))"
    and "numeric_date (wb_clock s' (wb_tick s')) < numeric_date (wb_clock s (Suc (wb_tick s)) + jc_AccessTokenTTL (jw_config (oh_JWTService cfg)))"
    and "gm_str (rq_Header r) ''Authorization'' = ''Bearer '' @ tok" and "tok \<noteq> []" and "\<not> is_public r"
  shows "admits marshal (AuthMiddleware marshal (Some (oh_JWTLib cfg, oh_JWTService cfg)) ::
    ('b, LoginState) handler \<Rightarrow> ('b, LoginState) handler) (oi_Name claims) r s'"
proof -
  obtain s1 where s1: "sign_in cfg claims s1 = (resp, s')" "wb_rbac s1 = wb_rbac s" "wb_clock s1 = wb_clock s" "wb_tick s1 = Suc (wb_tick s)"
    by (rule callback_signs_in [OF assms(2,3)])
  obtain t where g: "GenerateAccessToken (oh_JWTLib cfg) (oh_JWTService cfg) t (empty_claims\<lparr>cl_UserID := oi_Subject claims,
      cl_Email := oi_Email claims, cl_Name := oi_Name claims,
      cl_Role := mapOIDCGroupsToRole (oi_Groups claims) (oh_RoleMapping cfg), cl_Teams := oi_Groups claims\<rparr>) = Inr tok"
    and t: "t = wb_clock s (Suc (wb_tick s))" and rb: "wb_rbac s' = map_option (ensureRBACUser (oidc_user claims)
      (mapOIDCGroupsToRole (oi_Groups claims) (oh_RoleMapping cfg))) (wb_rbac s)"
    by (rule sign_in_token [OF s1(1) assms(3), unfolded s1(2-)])
  have name: "oi_Name claims \<noteq> []" using rbac_okD [OF assms(5,8)] by (simp add: user_ok_def)
  obtain c where c: "ValidateToken (oh_JWTLib cfg) (oh_JWTService cfg) (wb_clock s' (wb_tick s')) tok = Inr c"
    "claims_user c = oi_Name claims"
    using ValidateToken_generated [OF assms(1) g, of "wb_clock s' (wb_tick s')"] assms(7,10,11) t name
    by (simp add: claims_user_def)
  let ?r' = "ensureRBACUser (oidc_user claims) (mapOIDCGroupsToRole (oi_Groups claims) (oh_RoleMapping cfg)) rbac"
  have "permitted ?r' (claims_user c) r"
    using ensureRBACUser_keeps [OF assms(8)] assms(9) c(2) by (auto simp: permitted_def may_def)
  from jwt_admits [OF _ _ assms(14,12,13) c(1) this, of marshal] show ?thesis
    using rb assms(4) ensureRBACUser_ok(2) [OF assms(5)] assms(6) c(2) by simp
qed

definition imposter :: OIDCClaims where
  "imposter = \<lparr>oi_Subject = ''7'', oi_Email = [], oi_Name = ''ann'', oi_Groups = []\<rparr>"

definition demo_login :: "LoginState Web" where
  "demo_login = \<lparr>wb_rbac = Some (fold run_user_op staff (New_RBAC no_rand)), wb_audit = None, wb_clock = int, wb_tick = 0,
     wb_app = \<lparr>ls_states = [(''s'', state_ttl)], ls_rand = (\<lambda>n. Inr ''r''), ls_draw = 0\<rparr>\<rparr>"

text \<open>A GitHub account without a public address, whose display name is \<open>ann\<close>.\<close>

definition demo_github :: OIDCLib where
  "demo_github = \<lparr>ol_NewProvider = (\<lambda>u. Inl (ExtErr ''unused'')), ol_AuthCodeURL = (\<lambda>cfg st. st),
     ol_Exchange = (\<lambda>cfg code. Inr \<lparr>oa_AccessToken = ''at'', oa_RefreshToken = [], oa_Expiry = 0, oa_id_token = None\<rparr>),
     ol_Verify = (\<lambda>i raw. Inl (ExtErr ''unused'')), ol_UserInfo = (\<lambda>a. Inl (ExtErr ''unused'')),
     ol_GitHubGet = (\<lambda>url tok. Inr (200, Inr url)),
     ol_ParseUser = (\<lambda>b. Inr \<lparr>gh_ID = 7, gh_Login = ''mallory'', gh_Name = ''ann'', gh_Email = []\<rparr>), ol_ParseOrgs = (\<lambda>b. Inr [])\<rparr>"

definition demo_provider :: OIDCProvider where
  "demo_provider = (let cfg = \<lparr>oc_Provider = ''github'', oc_Issuer = [], oc_ClientID = ''c'', oc_ClientSecret = ''s'',
     oc_RedirectURL = ''u'', oc_Scopes = []\<rparr> in \<lparr>op_config = cfg, op_oauth2 = cfg, op_verifier = False\<rparr>)"

definition demo_callback :: Request where
  "demo_callback = (demo_request ''GET'' ''/api/v1/auth/oidc/callback'' [])\<lparr>rq_Query := [(''state'', ''s''), (''code'', ''x'')]\<rparr>"

definition imposter_claims :: UserClaims where
  "imposter_claims = empty_claims\<lparr>cl_UserID := ''7'', cl_Email := [], cl_Name := ''ann'', cl_Role := RoleViewer, cl_Teams := []\<rparr>"

definition demo_oidc :: OIDCHandlerConfig where
  "demo_oidc = \<lparr>oh_Lib = demo_github, oh_Provider = demo_provider,
     oh_JWTLib = listed_lib [registered demo_jwt ''7'' [] 1 hour imposter_claims,
       registered demo_jwt ''7'' (hex_encode ''r'') 2 (168 * hour) empty_claims],
     oh_JWTService = demo_jwt, oh_RoleMapping = []\<rparr>"

lemma demo_jwt_simps:
  "jc_AccessTokenTTL (jw_config demo_jwt) = hour" "jc_RefreshTokenTTL (jw_config demo_jwt) = 168 * hour" "jw_signingKey demo_jwt = ''k''"
  by (simp_all add: demo_jwt_def NewJWTService_def)

lemma imposter_identified:
  "identity_claims demo_oidc \<lparr>ot_AccessToken = ''at'', ot_IDToken = [], ot_RefreshToken = [], ot_Expiry = 0\<rparr> = Inr imposter"
proof -
  have "itoa 7 = ''7''" by code_simp
  then show ?thesis
    by (simp add: identity_claims_def demo_oidc_def GetUserInfo_def demo_provider_def getGitHubUserInfo_def demo_github_def
        github_claims_def getGitHubOrgs_def imposter_def Let_def)
qed

lemma imposter_signs_in:
  assumes "wb_rbac s = Some (fold run_user_op staff (New_RBAC no_rand))" and "wb_clock s = int" and "wb_tick s = 1"
    and "ls_rand (wb_app s) = (\<lambda>n. Inr ''r'')"
  shows "\<exists>s'. sign_in demo_oidc imposter s = (jsonResponse StatusOK (SignedIn ''k.'' ''k.x'' imposter RoleViewer), s') \<and>
    wb_clock s' = int \<and> wb_tick s' = 3"
proof -
  have ens: "ensureRBACUser ''ann'' role (fold run_user_op staff (New_RBAC no_rand)) = fold run_user_op staff (New_RBAC no_rand)" for role
    unfolding staff_run by (simp add: ensureRBACUser_def GetUser_def)
  have ne: "registered demo_jwt ''7'' [] 1 hour imposter_claims \<noteq> registered demo_jwt ''7'' (hex_encode ''r'') 2 (168 * hour) empty_claims"
    by (simp add: registered_def imposter_claims_def empty_claims_def)
  have c: "empty_claims\<lparr>cl_UserID := ''7'', cl_Email := [], cl_Name := ''ann'', cl_Role := RoleViewer, cl_Teams := []\<rparr> = imposter_claims"
    by (simp add: imposter_claims_def)
  show ?thesis
    using ne assms by (simp add: sign_in_def imposter_def web_now_def on_login_def draw16_def oidc_user_def ens
        mapOIDCGroupsToRole_def demo_oidc_def GenerateAccessToken_def GenerateRefreshToken_def demo_jwt_simps c listed_lib_def Let_def)
qed

lemma imposter_called_back:
  "\<exists>s'. handleOIDCCallback demo_oidc demo_callback demo_login =
     (jsonResponse StatusOK (SignedIn ''k.'' ''k.x'' imposter RoleViewer), s') \<and> wb_clock s' = int \<and> wb_tick s' = 3"
proof -
  have ex: "Exchange (oh_Lib demo_oidc) (oh_Provider demo_oidc) ''x'' =
      Inr \<lparr>ot_AccessToken = ''at'', ot_IDToken = [], ot_RefreshToken = [], ot_Expiry = 0\<rparr>"
    by (simp add: Exchange_def demo_oidc_def demo_github_def)
  let ?s = "demo_login\<lparr>wb_tick := 1, wb_app := (wb_app demo_login)\<lparr>ls_states := []\<rparr>\<rparr>"
  have "handleOIDCCallback demo_oidc demo_callback demo_login = sign_in demo_oidc imposter ?s"
    by (simp add: handleOIDCCallback_def demo_callback_def demo_request_def gm_str_def validate_def validate_at_def web_now_def
        on_login_def demo_login_def state_ttl_def second_def ex imposter_identified)
  with imposter_signs_in [of ?s] show ?thesis by (simp add: demo_login_def)
qed

theorem display_name_takes_over_witness:
  "admits no_json (AuthMiddleware no_json (Some (oh_JWTLib demo_oidc, oh_JWTService demo_oidc)) ::
    (unit, LoginState) handler \<Rightarrow> (unit, LoginState) handler) ''ann'' (demo_request ''DELETE'' ''/api/v1/teams/a'' ''k.'')
    (snd (handleOIDCCallback demo_oidc demo_callback demo_login))"
proof -
  let ?r = "demo_request ''DELETE'' ''/api/v1/teams/a'' ''k.''"
  obtain s' where s': "handleOIDCCallback demo_oidc demo_callback demo_login =
      (jsonResponse StatusOK (SignedIn ''k.'' ''k.x'' imposter RoleViewer), s')" "wb_clock s' = int" "wb_tick s' = 3"
    using imposter_called_back by blast
  have rt: "jwt_roundtrip (oh_JWTLib demo_oidc)" by (simp add: demo_oidc_def listed_lib_roundtrip)
  have ann: "gm_get (rb_users (fold run_user_op staff (New_RBAC no_rand))) ''ann'' =
      Some \<lparr>u_Name = ''ann'', u_Role = RoleAdmin, u_Token = ''t1''\<rparr>"
    by (simp add: staff_run)
  have "admits no_json (AuthMiddleware no_json (Some (oh_JWTLib demo_oidc, oh_JWTService demo_oidc)) ::
    (unit, LoginState) handler \<Rightarrow> (unit, LoginState) handler) (oi_Name imposter) ?r s'"
    by (rule display_name_takes_over [where tok = "''k.''" and ref = "''k.x''" and role = RoleViewer and claims = imposter and
          user = "\<lparr>u_Name = ''ann'', u_Role = RoleAdmin, u_Token = ''t1''\<rparr>", OF rt s'(1) _ _ staff_ok(1,3)])
      (simp_all add: jsonResponse_def demo_login_def imposter_def ann s'(2,3) demo_oidc_def demo_jwt_simps numeric_date_def hour_def
        second_def demo_request_def gm_str_def is_public_def isOIDCPublicPath_def)
  then show ?thesis using s'(1) by (simp add: imposter_def)
qed

end
