(* ===== verification/Streaming.thy ===== *)
theory Streaming
  imports Handlers
begin

text \<open>
  \<open>internal/server/ws_handler.go\<close>: exec over a WebSocket. A connection is what the client sends (its first message, read as a command,
  and the messages after it), how many more messages it can take before it breaks, and the events sent so far. How the
  output of the command is cut into frames is a parameter (\<open>frames\<close>).
\<close>

record wsExecEvent =
  we_Type :: string
  we_Data :: string
  we_ExitCode :: int

record Conn =
  cn_first :: "string list res"
  cn_later :: "(string \<times> string) option list"
  cn_room :: nat
  cn_sent :: "wsExecEvent list"

definition event :: "string \<Rightarrow> string \<Rightarrow> int \<Rightarrow> wsExecEvent" where
  "event t d x = \<lparr>we_Type = t, we_Data = d, we_ExitCode = x\<rparr>"

text \<open>\<open>WriteJSON\<close>: whether it succeeds, and the connection after it.\<close>

definition WriteJSON :: "wsExecEvent \<Rightarrow> Conn \<Rightarrow> bool \<times> Conn" where
  "WriteJSON e k = (if cn_room k = 0 then (False, k) else (True, k\<lparr>cn_room := cn_room k - 1, cn_sent := cn_sent k @ [e]\<rparr>))"

text \<open>\<open>wsWriter.Write\<close> under \<open>stdcopy.StdCopy\<close>, which stops at the first write that fails.\<close>

fun stream_frames :: "(bool \<times> string) list \<Rightarrow> Conn \<Rightarrow> Conn" where
  "stream_frames [] k = k"
| "stream_frames ((is_out, p) # fs) k =
     (case WriteJSON (event (if is_out then ''stdout'' else ''stderr'') p 0) k of
        (ok, k1) \<Rightarrow> if ok then stream_frames fs k1 else k1)"

text \<open>The data of the \<open>stdin\<close> messages; any other message is ignored.\<close>

definition stdin_data :: "(string \<times> string) option list \<Rightarrow> string" where
  "stdin_data ms = concat (map (\<lambda>m. case m of Some (t, d) \<Rightarrow> if t = ''stdin'' then d else '''' | None \<Rightarrow> '''') ms)"

definition stream_config :: "string list \<Rightarrow> string \<Rightarrow> ExecConfig" where
  "stream_config cmd inp =
     \<lparr>ec_Cmd = cmd, ec_Env = [], ec_Dir = '''', ec_Stdin = Some inp, ec_Stdout = True, ec_Stderr = True, ec_TTY = False\<rparr>"

text \<open>\<open>None\<close> as connection: the upgrade failed, and has answered. The result is a plain answer, or the connection at the end.\<close>

definition handleExecStream ::
  "(string \<Rightarrow> string \<Rightarrow> (bool \<times> string) list) \<Rightarrow> Conn option \<Rightarrow> ('w, 'p) Controller \<Rightarrow> string \<Rightarrow>
   (string + Conn option, ('w, 'p) cstate) act" where
  "handleExecStream frames conn c name s =
     (if name = '''' then (Inl ''sandbox name is required'', s)
      else case conn of
        None \<Rightarrow> (Inr None, s)
      | Some k \<Rightarrow>
          (case cn_first k of
             Inl e \<Rightarrow> (Inr (Some (snd (WriteJSON (event ''error'' (''invalid request: '' @ err_text e) 0) k))), s)
           | Inr command \<Rightarrow>
               if command = [] then (Inr (Some (snd (WriteJSON (event ''error'' ''command is required'' 0) k))), s)
               else (case Exec c name (stream_config command (stdin_data (cn_later k))) s of
                  ((result, err), s1) \<Rightarrow>
                    let k1 = stream_frames (frames (er_Stdout result) (er_Stderr result)) k;
                        final = (case err of Some e \<Rightarrow> event ''error'' (err_text e) 0 | None \<Rightarrow> event ''exit'' '''' (er_ExitCode result)) in
                    (Inr (Some (snd (WriteJSON final k1))), s1))))"

section \<open>Properties\<close>

text \<open>The data sent under a type.\<close>

definition sent_data :: "string \<Rightarrow> wsExecEvent list \<Rightarrow> string" where
  "sent_data t es = concat (map we_Data (filter (\<lambda>e. we_Type e = t) es))"

lemma sent_data_append [simp]: "sent_data t (es @ fs) = sent_data t es @ sent_data t fs"
  by (simp add: sent_data_def)

definition frame_events :: "(bool \<times> string) list \<Rightarrow> wsExecEvent list" where
  "frame_events fs = map (\<lambda>(b, p). event (if b then ''stdout'' else ''stderr'') p 0) fs"

lemma stream_frames_run:
  "stream_frames fs k = k\<lparr>cn_room := cn_room k - length fs, cn_sent := cn_sent k @ take (cn_room k) (frame_events fs)\<rparr>"
proof (induction fs k rule: stream_frames.induct)
  case (2 b p fs k)
  show ?case
  proof (cases "cn_room k")
    case 0
    then show ?thesis by (simp add: WriteJSON_def frame_events_def)
  next
    case (Suc n)
    let ?e = "event (if b then ''stdout'' else ''stderr'') p 0"
    have w: "WriteJSON ?e k = (True, k\<lparr>cn_room := n, cn_sent := cn_sent k @ [?e]\<rparr>)" by (simp add: WriteJSON_def Suc)
    from "2.IH" [OF w [symmetric] TrueI] w Suc show ?thesis by (simp add: frame_events_def)
  qed
qed (simp add: frame_events_def)

lemma frame_events_data:
  "sent_data ''stdout'' (frame_events fs) = stream True fs" "sent_data ''stderr'' (frame_events fs) = stream False fs"
  by (induction fs) (auto simp: frame_events_def sent_data_def event_def)

text \<open>On a connection that does not break, the client is sent the output of the command, each stream complete and in order, and
  then exactly one last event: the exit code when the command ran, an error otherwise.\<close>

theorem stream_complete:
  assumes "name \<noteq> []" and "cn_first k = Inr command" and "command \<noteq> []" and "cn_sent k = []"
    and "Exec c name (stream_config command (stdin_data (cn_later k))) s = ((result, err), s1)"
    and "fs = frames (er_Stdout result) (er_Stderr result)" and "length fs < cn_room k"
  shows "\<exists>k' es last. handleExecStream frames (Some k) c name s = (Inr (Some k'), s1) \<and> cn_sent k' = es @ [last] \<and>
    sent_data ''stdout'' es = stream True fs \<and> sent_data ''stderr'' es = stream False fs \<and>
    we_Type last = (if err = None then ''exit'' else ''error'') \<and> (err = None \<longrightarrow> we_ExitCode last = er_ExitCode result)"
proof -
  let ?last = "case err of Some e \<Rightarrow> event ''error'' (err_text e) 0 | None \<Rightarrow> event ''exit'' [] (er_ExitCode result)"
  have "take (cn_room k) (frame_events fs) = frame_events fs" using assms(7) by (simp add: frame_events_def)
  with stream_frames_run [of fs k] assms(4) have
    k1: "stream_frames fs k = k\<lparr>cn_room := cn_room k - length fs, cn_sent := frame_events fs\<rparr>" by simp
  let ?k' = "snd (WriteJSON ?last (stream_frames fs k))"
  have "handleExecStream frames (Some k) c name s = (Inr (Some ?k'), s1)"
    using assms(1-3,5,6) by (simp add: handleExecStream_def)
  moreover have "cn_sent ?k' = frame_events fs @ [?last]" using assms(7) by (simp add: k1 WriteJSON_def)
  moreover have "we_Type ?last = (if err = None then ''exit'' else ''error'')" "err = None \<longrightarrow> we_ExitCode ?last = er_ExitCode result"
    by (cases err; simp add: event_def)+
  ultimately show ?thesis using frame_events_data [of fs] by blast
qed

definition demo_conn :: Conn where
  "demo_conn = \<lparr>cn_first = Inr [''ls''], cn_later = [], cn_room = 5, cn_sent = []\<rparr>"

theorem stream_complete_witness:
  "\<exists>k' es last s1. handleExecStream (\<lambda>out err. [(True, ''x''), (False, ''y'')]) (Some demo_conn) (deployed demo_host) ''a'' demo_created = (Inr (Some k'), s1) \<and>
     cn_sent k' = es @ [last] \<and> sent_data ''stdout'' es = ''x'' \<and> sent_data ''stderr'' es = ''y''"
proof -
  obtain result err s1 where x: "Exec (deployed demo_host) ''a'' (stream_config [''ls''] (stdin_data (cn_later demo_conn))) demo_created = ((result, err), s1)"
    by (metis prod.collapse)
  from stream_complete [of "''a''" demo_conn "[''ls'']", OF _ _ _ _ x refl, of "\<lambda>out err. [(True, ''x''), (False, ''y'')]"]
  show ?thesis by (auto simp: demo_conn_def)
qed

end
