(* ===== verification/Registries.thy ===== *)
theory Registries
  imports Handlers
begin

text \<open>
  \<open>internal/network\<close> and \<open>internal/runtime/registry.go\<close>: the registry of services, the table of forwarded ports, the manager of Docker
  networks and the registry of backends. The first two keep a list per name; that contract is the locale \<open>keyed_lists\<close>, over
  which what a lookup finds after any sequence of operations is proved once.
\<close>

section \<open>Lists by name\<close>

datatype 'e list_op = Add 'e | Drop string

fun run_list_op :: "('e \<Rightarrow> 's \<Rightarrow> 's) \<Rightarrow> (string \<Rightarrow> 's \<Rightarrow> 's) \<Rightarrow> 'e list_op \<Rightarrow> 's \<Rightarrow> 's" where
  "run_list_op add rm (Add e) s = add e s"
| "run_list_op add rm (Drop k) s = rm k s"

text \<open>What was added under a name since it was last dropped.\<close>

fun since_drop :: "('e \<Rightarrow> string) \<Rightarrow> string \<Rightarrow> 'e list_op list \<Rightarrow> 'e list \<Rightarrow> 'e list" where
  "since_drop key k [] es = es"
| "since_drop key k (Add e # ops) es = since_drop key k ops (if key e = k then es @ [e] else es)"
| "since_drop key k (Drop n # ops) es = since_drop key k ops (if n = k then [] else es)"

locale keyed_lists =
  fixes add :: "'e \<Rightarrow> 's \<Rightarrow> 's"
    and rm :: "string \<Rightarrow> 's \<Rightarrow> 's"
    and listed :: "'s \<Rightarrow> string \<Rightarrow> 'e list"
    and key :: "'e \<Rightarrow> string"
  assumes listed_add: "listed (add e s) k = (if key e = k then listed s k @ [e] else listed s k)"
    and listed_rm: "listed (rm n s) k = (if n = k then [] else listed s k)"
begin

lemma listed_run: "listed (fold (run_list_op add rm) ops s) k = since_drop key k ops (listed s k)"
proof (induction ops arbitrary: s)
  case (Cons op ops)
  then show ?case by (cases op) (simp_all add: listed_add listed_rm)
qed simp

lemma listed_keys:
  assumes "\<forall>e \<in> set (listed s k). key e = k"
  shows "\<forall>e \<in> set (listed (fold (run_list_op add rm) ops s) k). key e = k"
proof -
  have "\<forall>e \<in> set (since_drop key k ops es). key e = k" if "\<forall>e \<in> set es. key e = k" for es
    using that
  proof (induction ops arbitrary: es)
    case (Cons op ops)
    show ?case
    proof (cases op)
      case (Add e)
      have "\<forall>x \<in> set (if key e = k then es @ [e] else es). key x = k" using Cons.prems by simp
      from Cons.IH [OF this] show ?thesis unfolding Add since_drop.simps .
    next
      case (Drop n)
      have "\<forall>x \<in> set (if n = k then [] else es). key x = k" using Cons.prems by simp
      from Cons.IH [OF this] show ?thesis unfolding Drop since_drop.simps .
    qed
  qed simp
  with assms show ?thesis by (simp add: listed_run)
qed

end

text \<open>\<open>m[k]\<close> on a map of slices: nil when the key is missing.\<close>

definition gm_slice :: "'e list gomap \<Rightarrow> string \<Rightarrow> 'e list" where
  "gm_slice m k = (case gm_get m k of None \<Rightarrow> [] | Some es \<Rightarrow> es)"

lemma gm_slice_simps [simp]:
  "gm_slice (gm_set k es m) n = (if n = k then es else gm_slice m n)" "gm_slice (gm_del k m) n = (if n = k then [] else gm_slice m n)"
  by (simp_all add: gm_slice_def)

section \<open>Services\<close>

type_synonym ServiceRegistry = "ServiceEntry list gomap"

definition NewServiceRegistry :: ServiceRegistry where
  "NewServiceRegistry = []"

definition Register_service :: "ServiceEntry \<Rightarrow> ServiceRegistry \<Rightarrow> ServiceRegistry" where
  "Register_service e r = gm_set (sv_Matrix e) (gm_slice r (sv_Matrix e) @ [e]) r"

definition Lookup :: "ServiceRegistry \<Rightarrow> string \<Rightarrow> string \<Rightarrow> ServiceEntry res" where
  "Lookup r matrix serviceName =
     (case find (\<lambda>e. sv_Name e = serviceName) (gm_slice r matrix) of
        None \<Rightarrow> Inl (Errorf ''service %q not found in matrix %q'' [AStr serviceName, AStr matrix])
      | Some e \<Rightarrow> Inr e)"

definition ListServices :: "ServiceRegistry \<Rightarrow> string \<Rightarrow> ServiceEntry list" where
  "ListServices r matrix = gm_slice r matrix"

definition DeregisterMatrix :: "string \<Rightarrow> ServiceRegistry \<Rightarrow> ServiceRegistry" where
  "DeregisterMatrix matrix r = gm_del matrix r"

interpretation services: keyed_lists Register_service DeregisterMatrix ListServices sv_Matrix
  by unfold_locales (auto simp: Register_service_def DeregisterMatrix_def ListServices_def)

section \<open>Forwarded ports\<close>

type_synonym PortForwardManager = "ForwardedPort list gomap"

definition NewPortForwardManager :: PortForwardManager where
  "NewPortForwardManager = []"

definition ListForwards :: "PortForwardManager \<Rightarrow> string \<Rightarrow> ForwardedPort list" where
  "ListForwards m sandboxName = gm_slice m sandboxName"

definition ListAllForwards :: "PortForwardManager \<Rightarrow> ForwardedPort list" where
  "ListAllForwards m = concat (map snd m)"

definition AddForward :: "ForwardedPort \<Rightarrow> PortForwardManager \<Rightarrow> PortForwardManager" where
  "AddForward f m = gm_set (fp_SandboxName f) (gm_slice m (fp_SandboxName f) @ [f]) m"

definition RemoveForwards :: "string \<Rightarrow> PortForwardManager \<Rightarrow> PortForwardManager" where
  "RemoveForwards sandboxName m = gm_del sandboxName m"

interpretation forwards: keyed_lists AddForward RemoveForwards ListForwards fp_SandboxName
  by unfold_locales (auto simp: AddForward_def RemoveForwards_def ListForwards_def)

section \<open>Docker networks\<close>

record 'd NetworkClient =
  kn_NetworkCreate :: "string \<Rightarrow> string \<Rightarrow> bool \<Rightarrow> string gomap \<Rightarrow> (string res, 'd) act"
  kn_NetworkRemove :: "string \<Rightarrow> (unit res, 'd) act"
  kn_NetworkConnect :: "string \<Rightarrow> string \<Rightarrow> (unit res, 'd) act"

definition CreateIsolatedNetwork :: "'d NetworkClient \<Rightarrow> string \<Rightarrow> (string res, 'd) act" where
  "CreateIsolatedNetwork kn name w =
     (case kn_NetworkCreate kn name ''bridge'' True [(''sandboxmatrix/managed'', ''true'')] w of
        (Inl e, w1) \<Rightarrow> (Inl (Errorf ''create isolated network %s: %w'' [AStr name, AErr e]), w1)
      | (Inr i, w1) \<Rightarrow> (Inr i, w1))"

definition DeleteNetwork :: "'d NetworkClient \<Rightarrow> string \<Rightarrow> (unit res, 'd) act" where
  "DeleteNetwork kn name w =
     (case kn_NetworkRemove kn name w of
        (Inl e, w1) \<Rightarrow> (Inl (Errorf ''delete network %s: %w'' [AStr name, AErr e]), w1)
      | (Inr _, w1) \<Rightarrow> (Inr (), w1))"

fun ConnectSandboxes :: "'d NetworkClient \<Rightarrow> string \<Rightarrow> string list \<Rightarrow> (unit res, 'd) act" where
  "ConnectSandboxes kn networkName [] w = (Inr (), w)"
| "ConnectSandboxes kn networkName (i # is) w =
     (case kn_NetworkConnect kn networkName i w of
        (Inl e, w1) \<Rightarrow> (Inl (Errorf ''connect container %s to network %s: %w'' [AStr i, AStr networkName, AErr e]), w1)
      | (Inr _, w1) \<Rightarrow> ConnectSandboxes kn networkName is w1)"

section \<open>Backends\<close>

type_synonym 'w Registry = "'w Runtime gomap"

definition NewRegistry :: "'w Registry" where
  "NewRegistry = []"

definition Register_runtime :: "'w Runtime \<Rightarrow> 'w Registry \<Rightarrow> unit res \<times> 'w Registry" where
  "Register_runtime rt r =
     (if gm_get r (rt_Name rt) \<noteq> None then (Inl (Errorf ''runtime %q already registered'' [AStr (rt_Name rt)]), r)
      else (Inr (), gm_set (rt_Name rt) rt r))"

definition Get_runtime :: "'w Registry \<Rightarrow> string \<Rightarrow> 'w Runtime res" where
  "Get_runtime r name =
     (case gm_get r name of None \<Rightarrow> Inl (Errorf ''runtime %q not found'' [AStr name]) | Some rt \<Rightarrow> Inr rt)"

definition List_runtimes :: "'w Registry \<Rightarrow> string list" where
  "List_runtimes r = map fst r"

section \<open>Properties\<close>

text \<open>After any sequence of registrations and deregistrations a lookup finds the first entry of that name that was registered for
  the matrix since the matrix was last deregistered, and nothing when there is none; in particular an entry registered again
  under the same name is never found.\<close>

theorem lookup_finds_first:
  "Lookup (fold (run_list_op Register_service DeregisterMatrix) ops NewServiceRegistry) matrix n = Inr e \<longleftrightarrow>
    find (\<lambda>e. sv_Name e = n) (since_drop sv_Matrix matrix ops []) = Some e"
  using services.listed_run [of ops NewServiceRegistry matrix]
  by (simp add: Lookup_def ListServices_def NewServiceRegistry_def gm_slice_def split: option.splits)

text \<open>A sandbox's forwarded ports are those added since they were last removed, in order, and all of them belong to it.\<close>

theorem forwards_of_sandbox:
  "ListForwards (fold (run_list_op AddForward RemoveForwards) ops NewPortForwardManager) n = since_drop fp_SandboxName n ops [] \<and>
   fp_SandboxName ` set (since_drop fp_SandboxName n ops []) \<subseteq> {n}"
  using forwards.listed_run [of ops NewPortForwardManager n] forwards.listed_keys [of NewPortForwardManager n ops]
  by (auto simp: ListForwards_def NewPortForwardManager_def gm_slice_def)

text \<open>The first backend registered under a name stays.\<close>

lemma registered_first: "Get_runtime r n = Inr rt \<Longrightarrow> Get_runtime (snd (Register_runtime rt' r)) n = Inr rt"
  by (auto simp: Get_runtime_def Register_runtime_def split: option.splits)

text \<open>Connecting stops at the first failure; success means that every container was connected, in order.\<close>

lemma ConnectSandboxes_append:
  "ConnectSandboxes kn networkName (is @ js) w =
     (case ConnectSandboxes kn networkName is w of (Inl e, w1) \<Rightarrow> (Inl e, w1) | (Inr _, w1) \<Rightarrow> ConnectSandboxes kn networkName js w1)"
  by (induction "is" arbitrary: w) (auto split: prod.splits sum.splits)

end
