(* ===== verification/Rest.thy ===== *)
theory Rest
  imports Login Autoscale Images Interpreter Streaming Registries
begin

text \<open>
  \<open>internal/server/server.go\<close>: the REST server put together. \<open>registerRoutes\<close> is the table of routes, \<open>dispatch\<close> the part of
  \<open>http.ServeMux\<close> it uses, and \<open>serve_http\<close> a request through the middleware and the router. What the request and response
  bodies are decoded and encoded with, and the libraries behind the handlers, are the fields of \<open>RestLibs\<close>.
\<close>

section \<open>The state of the server\<close>

record ('w, 'p, 'x) World =
  wd_api :: "('w, 'p, 'x) Api"
  wd_login :: LoginState
  wd_scaler :: "'w Autoscaler option"

datatype rest_body =
    BApi api_body | BImage image_body | BInterpret interpret_body | BLogin login_body | BScale scale_body
  | BStream "Conn option" | BText string | BClosed

type_synonym ('w, 'p, 'x) rest_handler = "(rest_body, ('w, 'p, 'x) World) handler"

definition map_body :: "('a \<Rightarrow> 'b) \<Rightarrow> 'a Response \<Rightarrow> 'b Response" where
  "map_body f resp =
     \<lparr>rs_Status = rs_Status resp, rs_Header = rs_Header resp,
      rs_Body = (case rs_Body resp of NoBody \<Rightarrow> NoBody | ErrorBody e \<Rightarrow> ErrorBody e | Payload p \<Rightarrow> Payload (f p))\<rparr>"

text \<open>A handler of a part of the state.\<close>

definition part_handler ::
  "('s \<Rightarrow> 'a) \<Rightarrow> ('a \<Rightarrow> 's \<Rightarrow> 's) \<Rightarrow> ('b \<Rightarrow> rest_body) \<Rightarrow> ('b, 'a) handler \<Rightarrow> (rest_body, 's) handler" where
  "part_handler proj put f h r s =
     (case h r \<lparr>wb_rbac = wb_rbac s, wb_audit = wb_audit s, wb_clock = wb_clock s, wb_tick = wb_tick s, wb_app = proj (wb_app s)\<rparr> of
        (resp, s1) \<Rightarrow>
          (map_body f resp,
           \<lparr>wb_rbac = wb_rbac s1, wb_audit = wb_audit s1, wb_clock = wb_clock s1, wb_tick = wb_tick s1,
            wb_app = put (wb_app s1) (wb_app s)\<rparr>))"

definition on_api :: "('b \<Rightarrow> rest_body) \<Rightarrow> ('b, ('w, 'p, 'x) Api) handler \<Rightarrow> ('w, 'p, 'x) rest_handler" where
  "on_api = part_handler wd_api (\<lambda>a w. w\<lparr>wd_api := a\<rparr>)"

definition on_login_part :: "(login_body, LoginState) handler \<Rightarrow> ('w, 'p, 'x) rest_handler" where
  "on_login_part = part_handler wd_login (\<lambda>l w. w\<lparr>wd_login := l\<rparr>) BLogin"

text \<open>No answer: the connection is closed, as after a panic in a handler.\<close>

definition closed :: "rest_body Response" where
  "closed = \<lparr>rs_Status = 0, rs_Header = [], rs_Body = Payload BClosed\<rparr>"

definition answer_or_closed :: "('b \<Rightarrow> rest_body) \<Rightarrow> 'b Response option \<Rightarrow> rest_body Response" where
  "answer_or_closed f resp = (case resp of None \<Rightarrow> closed | Some x \<Rightarrow> map_body f x)"

text \<open>The autoscaler acts on the backend the controller uses.\<close>

definition ctrl_of :: "('w, 'p, 'x) World \<Rightarrow> ('w, 'p) cstate" where
  "ctrl_of w = ap_ctrl (wd_api w)"

definition set_ctrl :: "('w, 'p) cstate \<Rightarrow> ('w, 'p, 'x) World \<Rightarrow> ('w, 'p, 'x) World" where
  "set_ctrl c w = w\<lparr>wd_api := (wd_api w)\<lparr>ap_ctrl := c\<rparr>\<rparr>"

definition on_scaler :: "'w scale_handler \<Rightarrow> ('w, 'p, 'x) rest_handler" where
  "on_scaler h r s =
     (let w = wb_app s in
      case h r (map_option (\<lambda>a. a\<lparr>az_world := c_rt (ctrl_of w)\<rparr>) (wd_scaler w)) of
        (resp, a) \<Rightarrow>
          (answer_or_closed BScale resp,
           s\<lparr>wb_app := (case a of None \<Rightarrow> w
              | Some a1 \<Rightarrow> set_ctrl ((ctrl_of w)\<lparr>c_rt := az_world a1\<rparr>) w\<lparr>wd_scaler := Some a1\<rparr>)\<rparr>))"

section \<open>Routes\<close>

datatype seg = Lit string | Var string

fun match_segs :: "seg list \<Rightarrow> string list \<Rightarrow> string gomap option" where
  "match_segs [] [] = Some []"
| "match_segs (Lit l # ps) (x # xs) = (if l = x then match_segs ps xs else None)"
| "match_segs (Var v # ps) (x # xs) = (if x = '''' then None else map_option (gm_set v x) (match_segs ps xs))"
| "match_segs _ _ = None"

text \<open>A pattern of \<open>HandleFunc\<close>: method and path, with wildcards in braces.\<close>

definition seg_of :: "string \<Rightarrow> seg" where
  "seg_of s = (if HasPrefix s ''{'' \<and> HasSuffix s ''}'' then Var (butlast (tl s)) else Lit s)"

definition pattern :: "string \<Rightarrow> seg list" where
  "pattern path = map seg_of (tl (Split path slash))"

record 'h Route =
  rt_Method :: string
  rt_Path :: "seg list"
  rt_Handler :: 'h

definition route :: "string \<Rightarrow> string \<Rightarrow> 'h \<Rightarrow> 'h Route" where
  "route meth path h = \<lparr>rt_Method = meth, rt_Path = pattern path, rt_Handler = h\<rparr>"

text \<open>The router gets the segments of the escaped path and unescapes them one by one (\<open>segments\<close>, a parameter). A pattern for \<open>GET\<close>
  also takes \<open>HEAD\<close>. No two patterns of the table match the same request, so there is no precedence to decide.\<close>

definition method_matches :: "string \<Rightarrow> string \<Rightarrow> bool" where
  "method_matches pat m \<longleftrightarrow> pat = m \<or> pat = ''GET'' \<and> m = ''HEAD''"

definition matching :: "(Request \<Rightarrow> string list) \<Rightarrow> 'h Route list \<Rightarrow> Request \<Rightarrow> ('h Route \<times> string gomap) option" where
  "matching segments rs r =
     (case filter (\<lambda>x. method_matches (rt_Method x) (rq_Method r) \<and> match_segs (rt_Path x) (segments r) \<noteq> None) rs of
        [] \<Rightarrow> None
      | x # _ \<Rightarrow> Some (x, the (match_segs (rt_Path x) (segments r))))"

definition not_found :: "rest_body Response" where
  "not_found = \<lparr>rs_Status = StatusNotFound, rs_Header = [], rs_Body = Payload (BText ''404 page not found'')\<rparr>"

definition method_not_allowed :: "rest_body Response" where
  "method_not_allowed = \<lparr>rs_Status = 405, rs_Header = [], rs_Body = Payload (BText ''Method Not Allowed'')\<rparr>"

definition dispatch :: "(Request \<Rightarrow> string list) \<Rightarrow> (rest_body, 's) handler Route list \<Rightarrow> (rest_body, 's) handler" where
  "dispatch segments rs r s =
     (case matching segments rs r of
        Some (x, vars) \<Rightarrow> rt_Handler x (r\<lparr>rq_PathValue := vars\<rparr>) s
      | None \<Rightarrow>
          ((if list_ex (\<lambda>x. match_segs (rt_Path x) (segments r) \<noteq> None) rs then method_not_allowed else not_found), s))"

section \<open>The server\<close>

text \<open>The decoder of a body of type \<open>'a\<close> gets the bytes let through and whether the body was cut off.\<close>

type_synonym 'a decoder = "string \<Rightarrow> bool \<Rightarrow> 'a res"

record 'w RestLibs =
  rl_sandbox :: "createSandboxRequest decoder"
  rl_command :: "string list decoder"
  rl_string :: "string \<Rightarrow> string decoder"
  rl_matrix :: "createMatrixRequest decoder"
  rl_shard :: "shardTaskRequest decoder"
  rl_collect :: "collectResultsRequest decoder"
  rl_upload :: "(string \<times> string) decoder"
  rl_team :: "createTeamRequest decoder"
  rl_team_patch :: "(string option \<times> ResourceQuota option) decoder"
  rl_member :: "(string \<times> Role) decoder"
  rl_interpret :: "(string \<times> string \<times> int) decoder"
  rl_priority :: "int decoder"
  rl_base64 :: "string \<Rightarrow> string res"
  rl_marshal_task :: "Task \<Rightarrow> string"
  rl_task_result :: "string \<Rightarrow> TaskResult res"
  rl_files :: "string \<Rightarrow> (string \<times> string \<times> int) list res"
  rl_frames :: "string \<Rightarrow> string \<Rightarrow> (bool \<times> string) list"
  rl_wakes :: "int \<Rightarrow> wake list"
  rl_committer :: "'w Committer option"
  rl_short :: string
  rl_upgrade :: "Request \<Rightarrow> Conn option"
  rl_version :: "string gomap"
  rl_metrics :: string

record ('w, 'p) RestServer =
  sv_ctrl :: "('w, 'p) Controller"
  sv_oidc :: "OIDCHandlerConfig option"
  sv_teams :: "'p TeamStore option"
  sv_quota :: "'p Manager option"
  sv_has_scaler :: bool

definition plain_handler :: "int \<Rightarrow> rest_body \<Rightarrow> ('w, 'p, 'x) rest_handler" where
  "plain_handler status b r s = (jsonResponse status b, s)"

definition handleHealth :: "('w, 'p, 'x) rest_handler" where
  "handleHealth = plain_handler StatusOK (BApi (JStatus [(''status'', ''ok'')]))"

text \<open>The six strings of the answer are a parameter: version, commit and date of the build, and three of the Go runtime.\<close>

definition handleVersion :: "string gomap \<Rightarrow> ('w, 'p, 'x) rest_handler" where
  "handleVersion version = plain_handler StatusOK (BApi (JStatus version))"

definition collect_route :: "'w RestLibs \<Rightarrow> ('w, 'p) Controller \<Rightarrow> ('w, 'p, 'x) rest_handler" where
  "collect_route l c r s =
     (case handleCollectResults (rl_collect l) (rl_task_result l) (rl_wakes l) c r
        \<lparr>wb_rbac = wb_rbac s, wb_audit = wb_audit s, wb_clock = wb_clock s, wb_tick = wb_tick s, wb_app = wd_api (wb_app s)\<rparr> of
        (resp, s1) \<Rightarrow> (answer_or_closed BApi resp, s\<lparr>wb_tick := wb_tick s1, wb_app := (wb_app s)\<lparr>wd_api := wb_app s1\<rparr>\<rparr>))"

definition stream_route :: "'w RestLibs \<Rightarrow> ('w, 'p) Controller \<Rightarrow> ('w, 'p, 'x) rest_handler" where
  "stream_route l c r s =
     (case handleExecStream (rl_frames l) (rl_upgrade l r) c (gm_str (rq_PathValue r) ''name'') (ctrl_of (wb_app s)) of
        (ans, c1) \<Rightarrow>
          ((case ans of Inl msg \<Rightarrow> \<lparr>rs_Status = StatusBadRequest, rs_Header = [], rs_Body = Payload (BText msg)\<rparr>
            | Inr k \<Rightarrow> \<lparr>rs_Status = 101, rs_Header = [], rs_Body = Payload (BStream k)\<rparr>),
           s\<lparr>wb_app := set_ctrl c1 (wb_app s)\<rparr>))"

definition base_routes :: "'w RestLibs \<Rightarrow> ('w, 'p) Controller \<Rightarrow> ('w, 'p, 'x) rest_handler Route list" where
  "base_routes l c =
     [route ''GET'' ''/api/v1/health'' handleHealth,
      route ''GET'' ''/api/v1/version'' (handleVersion (rl_version l)),
      route ''GET'' ''/metrics'' (plain_handler StatusOK (BText (rl_metrics l)))]"

definition sandbox_routes :: "'w RestLibs \<Rightarrow> ('w, 'p) Controller \<Rightarrow> ('w, 'p, 'x) rest_handler Route list" where
  "sandbox_routes l c =
     [route ''POST'' ''/api/v1/sandboxes'' (on_api BApi (handleCreateSandbox (rl_sandbox l) c)),
      route ''GET'' ''/api/v1/sandboxes'' (on_api BApi (handleListSandboxes c)),
      route ''GET'' ''/api/v1/sandboxes/{name}'' (on_api BApi (handleGetSandbox c)),
      route ''POST'' ''/api/v1/sandboxes/{name}/start'' (on_api BApi (handleStartSandbox c)),
      route ''POST'' ''/api/v1/sandboxes/{name}/stop'' (on_api BApi (handleStopSandbox c)),
      route ''DELETE'' ''/api/v1/sandboxes/{name}'' (on_api BApi (handleDestroySandbox c))]"

definition sandbox_tool_routes :: "'w RestLibs \<Rightarrow> ('w, 'p) Controller \<Rightarrow> ('w, 'p, 'x) rest_handler Route list" where
  "sandbox_tool_routes l c =
     [route ''POST'' ''/api/v1/sandboxes/{name}/exec'' (on_api BApi (handleExecSandbox (rl_command l) (rl_frames l) c)),
      route ''GET'' ''/api/v1/sandboxes/{name}/stats'' (on_api BApi (handleStatsSandbox c)),
      route ''POST'' ''/api/v1/sandboxes/{name}/snapshots'' (on_api BApi (handleCreateSnapshot (rl_string l ''tag'') c)),
      route ''GET'' ''/api/v1/sandboxes/{name}/snapshots'' (on_api BApi (handleListSnapshots c))]"

definition matrix_routes :: "'w RestLibs \<Rightarrow> ('w, 'p) Controller \<Rightarrow> ('w, 'p, 'x) rest_handler Route list" where
  "matrix_routes l c =
     [route ''POST'' ''/api/v1/matrices'' (on_api BApi (handleCreateMatrix (rl_matrix l) c)),
      route ''GET'' ''/api/v1/matrices'' (on_api BApi (handleListMatrices c)),
      route ''GET'' ''/api/v1/matrices/{name}'' (on_api BApi (handleGetMatrix c)),
      route ''POST'' ''/api/v1/matrices/{name}/start'' (on_api BApi (handleStartMatrix c)),
      route ''POST'' ''/api/v1/matrices/{name}/stop'' (on_api BApi (handleStopMatrix c)),
      route ''DELETE'' ''/api/v1/matrices/{name}'' (on_api BApi (handleDestroyMatrix c))]"

definition task_routes :: "'w RestLibs \<Rightarrow> ('w, 'p) Controller \<Rightarrow> ('w, 'p, 'x) rest_handler Route list" where
  "task_routes l c =
     [route ''POST'' ''/api/v1/matrices/{name}/shard'' (on_api BApi (handleShardTask (rl_shard l) (rl_marshal_task l) c)),
      route ''POST'' ''/api/v1/matrices/{name}/collect'' (collect_route l c)]"

definition file_routes :: "'w RestLibs \<Rightarrow> ('w, 'p) Controller \<Rightarrow> ('w, 'p, 'x) rest_handler Route list" where
  "file_routes l c =
     [route ''PUT'' ''/api/v1/sandboxes/{name}/files'' (on_api BApi (handleUploadFile (rl_upload l) (rl_base64 l) c)),
      route ''GET'' ''/api/v1/sandboxes/{name}/files'' (on_api BApi (handleDownloadFile c)),
      route ''GET'' ''/api/v1/sandboxes/{name}/files/list'' (on_api BApi (handleListFiles c)),
      route ''GET'' ''/api/v1/sandboxes/{name}/exec/stream'' (stream_route l c),
      route ''GET'' ''/api/v1/sandboxes/{name}/ports'' (on_api BApi (handleListPorts c)),
      route ''GET'' ''/api/v1/matrices/{name}/services'' (on_api BApi (handleListMatrixServices c))]"

definition image_routes :: "'w RestLibs \<Rightarrow> ('w, 'p) Controller \<Rightarrow> ('w, 'p, 'x) rest_handler Route list" where
  "image_routes l c =
     [route ''POST'' ''/api/v1/images/build'' (on_api BImage (handleBuildImage (rl_string l ''blueprint'') (rl_committer l) (rl_short l) c)),
      route ''GET'' ''/api/v1/images'' (on_api BImage (handleListImages (rl_committer l) c)),
      route ''POST'' ''/api/v1/sandboxes/{name}/interpret'' (on_api BInterpret (handleInterpret (rl_interpret l) (rl_frames l) (rl_files l) c))]"

definition session_routes :: "'w RestLibs \<Rightarrow> ('w, 'p) Controller \<Rightarrow> ('w, 'p, 'x) rest_handler Route list" where
  "session_routes l c =
     [route ''POST'' ''/api/v1/sessions'' (on_api BApi (handleStartSession (rl_string l ''sandbox'') c)),
      route ''GET'' ''/api/v1/sessions'' (on_api BApi (handleListSessions c)),
      route ''POST'' ''/api/v1/sessions/{id}/end'' (on_api BApi (handleEndSession c)),
      route ''POST'' ''/api/v1/sessions/{id}/exec'' (on_api BApi (handleExecInSession (rl_command l) (rl_frames l) c))]"

definition oidc_routes :: "'w RestLibs \<Rightarrow> OIDCHandlerConfig option \<Rightarrow> ('w, 'p, 'x) rest_handler Route list" where
  "oidc_routes l cfg =
     (case cfg of
        None \<Rightarrow> []
      | Some oc \<Rightarrow>
          [route ''GET'' ''/api/v1/auth/oidc/login'' (on_login_part (handleOIDCLogin (oh_Lib oc) (oh_Provider oc))),
           route ''GET'' ''/api/v1/auth/oidc/callback'' (on_login_part (handleOIDCCallback oc)),
           route ''POST'' ''/api/v1/auth/token/refresh''
             (on_login_part (handleTokenRefresh (rl_string l ''refreshToken'') (oh_JWTLib oc) (oh_JWTService oc))),
           route ''GET'' ''/api/v1/auth/userinfo'' (on_login_part handleUserInfo)])"

definition scale_routes :: "'w RestLibs \<Rightarrow> ('w, 'p) Controller \<Rightarrow> bool \<Rightarrow> ('w, 'p, 'x) rest_handler Route list" where
  "scale_routes l c present =
     (if \<not> present then []
      else
        [route ''GET'' ''/api/v1/autoscale/status'' (on_scaler (handleAutoscaleStatus (ct_runtime c))),
         route ''POST'' ''/api/v1/autoscale/enable'' (on_scaler handleAutoscaleEnable),
         route ''POST'' ''/api/v1/autoscale/disable'' (on_scaler (handleAutoscaleDisable (ct_runtime c))),
         route ''PUT'' ''/api/v1/sandboxes/{name}/priority'' (on_scaler (handleSetPriority (rl_priority l)))])"

definition team_routes ::
  "'w RestLibs \<Rightarrow> 'p TeamStore option \<Rightarrow> 'p Manager option \<Rightarrow> ('w, 'p, 'x) rest_handler Route list" where
  "team_routes l teams qm =
     (case teams of
        None \<Rightarrow> []
      | Some ts \<Rightarrow>
          [route ''POST'' ''/api/v1/teams'' (on_api BApi (handleCreateTeam (rl_team l) ts)),
           route ''GET'' ''/api/v1/teams'' (on_api BApi (handleListTeams ts)),
           route ''GET'' ''/api/v1/teams/{name}'' (on_api BApi (handleGetTeam ts)),
           route ''PUT'' ''/api/v1/teams/{name}'' (on_api BApi (handleUpdateTeam (rl_team_patch l) ts)),
           route ''DELETE'' ''/api/v1/teams/{name}'' (on_api BApi (handleDeleteTeam ts)),
           route ''GET'' ''/api/v1/teams/{name}/members'' (on_api BApi (handleListTeamMembers ts)),
           route ''POST'' ''/api/v1/teams/{name}/members'' (on_api BApi (handleAddTeamMember (rl_member l) ts)),
           route ''DELETE'' ''/api/v1/teams/{name}/members/{user}'' (on_api BApi (handleRemoveTeamMember ts))] @
          (case qm of None \<Rightarrow> [] | Some q \<Rightarrow> [route ''GET'' ''/api/v1/teams/{name}/usage'' (on_api BApi (handleGetTeamUsage ts q))]))"

definition registerRoutes :: "'w RestLibs \<Rightarrow> ('w, 'p) RestServer \<Rightarrow> ('w, 'p, 'x) rest_handler Route list" where
  "registerRoutes l sv =
     (let c = sv_ctrl sv in
      base_routes l c @ sandbox_routes l c @ sandbox_tool_routes l c @ matrix_routes l c @ task_routes l c @ file_routes l c @
      image_routes l c @ session_routes l c @ oidc_routes l (sv_oidc sv) @ scale_routes l c (sv_has_scaler sv) @
      team_routes l (sv_teams sv) (sv_quota sv))"

definition serve_http ::
  "(AuditEntry \<Rightarrow> string res) \<Rightarrow> (JWTLib \<times> JWTService) option \<Rightarrow> (Request \<Rightarrow> string list) \<Rightarrow> 'w RestLibs \<Rightarrow>
   ('w, 'p) RestServer \<Rightarrow> ('w, 'p, 'x) rest_handler" where
  "serve_http marshal jwt segments l sv = Handler marshal jwt (dispatch segments (registerRoutes l sv))"

end
