(* ===== verification/Preserve.thy ===== *)
theory Preserve
  imports Prelude
begin

text \<open>
  Invariants of operations, composed the way the operations are: \<open>preserves I a\<close> says that \<open>a\<close> keeps the invariant \<open>I\<close> of the
  state. There is one rule per construct (a call whose result is used, a case distinction, a final answer), collected in
  \<open>preserve_intros\<close>, so that an operation is shown to preserve an invariant by unfolding it.
\<close>

named_theorems preserve_intros \<open>rules that show that an operation preserves an invariant\<close>

definition preserves :: "('s \<Rightarrow> bool) \<Rightarrow> ('a, 's) act \<Rightarrow> bool" where
  "preserves I a \<longleftrightarrow> (\<forall>s. I s \<longrightarrow> I (snd (a s)))"

lemma preservesD: "preserves I a \<Longrightarrow> I s \<Longrightarrow> a s = (r, s') \<Longrightarrow> I s'"
  unfolding preserves_def by (metis snd_conv)

lemma preservesI: "(\<And>s r s'. I s \<Longrightarrow> a s = (r, s') \<Longrightarrow> I s') \<Longrightarrow> preserves I a"
  unfolding preserves_def by (metis prod.collapse)

lemma preserves_ret [preserve_intros]: "preserves I (Pair x)"
  by (simp add: preserves_def)

lemma preserves_bind [preserve_intros]:
  "preserves I a \<Longrightarrow> (\<And>x. preserves I (f x)) \<Longrightarrow> preserves I (\<lambda>s. case a s of (x, s') \<Rightarrow> f x s')"
  by (auto simp: preserves_def split: prod.splits)

lemma preserves_silent [preserve_intros]: "(\<And>s. I s \<Longrightarrow> I (u s)) \<Longrightarrow> preserves I (\<lambda>s. (x, u s))"
  by (simp add: preserves_def)

lemma preserves_after: "(\<And>s. I s \<Longrightarrow> I (u s)) \<Longrightarrow> preserves I a \<Longrightarrow> preserves I (\<lambda>s. a (u s))"
  by (simp add: preserves_def)

lemma preserves_sum [preserve_intros]:
  "(\<And>e. preserves I (f e)) \<Longrightarrow> (\<And>v. preserves I (g v)) \<Longrightarrow>
   preserves I (\<lambda>s. case x of Inl e \<Rightarrow> f e s | Inr v \<Rightarrow> g v s)"
  by (cases x) auto

lemma preserves_option [preserve_intros]:
  "preserves I f \<Longrightarrow> (\<And>v. x = Some v \<Longrightarrow> preserves I (g v)) \<Longrightarrow> preserves I (\<lambda>s. case x of None \<Rightarrow> f s | Some v \<Rightarrow> g v s)"
  by (cases x) auto

lemma preserves_list [preserve_intros]:
  "preserves I f \<Longrightarrow> (\<And>v vs. preserves I (g v vs)) \<Longrightarrow> preserves I (\<lambda>s. case x of [] \<Rightarrow> f s | v # vs \<Rightarrow> g v vs s)"
  by (cases x) auto

lemma preserves_prod [preserve_intros]:
  "(\<And>a b. preserves I (f a b)) \<Longrightarrow> preserves I (\<lambda>s. case x of (a, b) \<Rightarrow> f a b s)"
  by (cases x) auto

lemma preserves_if [preserve_intros]:
  "preserves I f \<Longrightarrow> preserves I g \<Longrightarrow> preserves I (\<lambda>s. if b then f s else g s)"
  by (cases b) auto

lemma preserves_let [preserve_intros]: "(\<And>x. preserves I (f x)) \<Longrightarrow> preserves I (\<lambda>s. let x = t in f x s)"
  by simp

lemma preserves_eq: "(\<And>s. a s = b s) \<Longrightarrow> preserves I b \<Longrightarrow> preserves I a"
  by (simp add: preserves_def)

lemma preserves_keeps: "keeps g a \<Longrightarrow> preserves (\<lambda>s. P (g s)) a"
  by (simp add: preserves_def keeps_def)

text \<open>A sequence of operations.\<close>

lemma preserves_fold: "(\<And>x. preserves I (a x)) \<Longrightarrow> I s \<Longrightarrow> I (fold (\<lambda>x s. snd (a x s)) xs s)"
  by (induction xs arbitrary: s) (auto simp: preserves_def)

end
