(* ===== verification/RestSpec.thy ===== *)
theory RestSpec
  imports Rest Preserve
begin

text \<open>
  The invariant of the controller, carried through every handler and the middleware to the whole REST server: \<open>rest_env\<close> is the
  contract of everything behind the server, and each operation and handler that a route reaches is shown to preserve the
  invariant with the rules of \<open>Preserve\<close>.
\<close>

section \<open>The router\<close>

lemma dispatch_preserves:
  assumes "\<And>x r. x \<in> set rs \<Longrightarrow> preserves I (rt_Handler x r)"
  shows "preserves I (dispatch segs rs r)"
proof (cases "matching segs rs r")
  case None
  then show ?thesis by (simp add: dispatch_def preserves_def)
next
  case (Some m)
  then obtain x vars where m: "matching segs rs r = Some (x, vars)" by (cases m) auto
  then have "x \<in> set rs"
    using filter_is_subset unfolding matching_def by (fastforce split: list.splits dest: filter_eq_ConsD)
  from assms [OF this, of "r\<lparr>rq_PathValue := vars\<rparr>"] m show ?thesis by (simp add: dispatch_def preserves_def)
qed

section \<open>What the server relies on\<close>

text \<open>The operations of a backend that \<open>container_runtime\<close> leaves open create and remove no container either.\<close>

locale whole_runtime = container_runtime rt live used
  for rt :: "'w Runtime" and live :: "'w \<Rightarrow> string set" and used :: "'w \<Rightarrow> string set" +
  assumes stats_frame: "keeps (\<lambda>w. (live w, used w)) (rt_Stats rt i)"
    and snapshot_frame: "keeps (\<lambda>w. (live w, used w)) (rt_Snapshot rt i t)"
    and list_snapshots_frame: "keeps (\<lambda>w. (live w, used w)) (rt_ListSnapshots rt i)"
    and copy_to_frame: "keeps (\<lambda>w. (live w, used w)) (rt_CopyToContainer rt i p d)"
    and copy_from_frame: "keeps (\<lambda>w. (live w, used w)) (rt_CopyFromContainer rt i p)"
    and pause_frame: "keeps (\<lambda>w. (live w, used w)) (rt_Pause rt i)"
    and unpause_frame: "keeps (\<lambda>w. (live w, used w)) (rt_Unpause rt i)"
    and update_frame: "keeps (\<lambda>w. (live w, used w)) (rt_UpdateResources rt i u)"
    and host_frame: "keeps (\<lambda>w. (live w, used w)) (rt_HostInfo rt)"
begin

lemmas frames = start_frame stop_frame exec_frame info_frame list_containers_frame create_net_frame delete_net_frame
  stats_frame snapshot_frame list_snapshots_frame copy_to_frame copy_from_frame pause_frame unpause_frame update_frame host_frame

end

text \<open>An operation on the persistent state that leaves the sandbox records alone.\<close>

definition quiet :: "('p \<Rightarrow> string \<rightharpoonup> Sandbox) \<Rightarrow> ('p \<Rightarrow> bool) \<Rightarrow> ('a, 'p) act \<Rightarrow> bool" where
  "quiet recs ok a \<longleftrightarrow> (\<forall>p. ok p \<longrightarrow> ok (snd (a p)) \<and> recs (snd (a p)) = recs p)"

lemma quietI: "(\<And>p r p'. ok p \<Longrightarrow> a p = (r, p') \<Longrightarrow> ok p' \<and> recs p' = recs p) \<Longrightarrow> quiet recs ok a"
  unfolding quiet_def by (metis prod.collapse)

locale rest_env = matrix_env "sv_ctrl sv" live used abs ok ms mabs +
  whole_runtime "ct_runtime (sv_ctrl sv)" live used +
  image_building "ct_runtime (sv_ctrl sv)" live used com
  for sv :: "('w, 'p) RestServer" and l :: "'w RestLibs" and live :: "'w \<Rightarrow> string set" and used :: "'w \<Rightarrow> string set"
    and abs :: "'p \<Rightarrow> string \<rightharpoonup> Sandbox" and ok :: "'p \<Rightarrow> bool" and ms :: "'p MatrixStore" and mabs :: "'p \<Rightarrow> string \<rightharpoonup> Matrix"
    and com :: "'w Committer" +
  assumes matrix_list: "quiet abs ok (kv_List ms)"
    and sessions_quiet: "ct_sessions (sv_ctrl sv) = Some ss \<Longrightarrow> quiet abs ok (kv_Get ss n) \<and> quiet abs ok (kv_List ss) \<and>
      quiet abs ok (kv_Save ss v) \<and> quiet abs ok (ss_ListBySandbox ss n)"
    and teams_quiet: "sv_teams sv = Some ts \<Longrightarrow> quiet abs ok (kv_Get ts n) \<and> quiet abs ok (kv_List ts) \<and>
      quiet abs ok (kv_Save ts tm) \<and> quiet abs ok (kv_Delete ts n)"
    and usage_quiet: "sv_quota sv = Some qm \<Longrightarrow> quiet abs ok (GetUsage qm n)"
    and committer: "rl_committer l = None \<or> rl_committer l = Some com"
    and images_frame: "keeps (\<lambda>w. (live w, used w)) (cm_ListImages com p)"
begin

abbreviation ctl where "ctl \<equiv> sv_ctrl sv"

definition held :: "('w, 'p) cstate \<Rightarrow> bool" where
  "held s \<longleftrightarrow> ok (c_ps s) \<and> view_inv (view_of live used abs s)"

lemma held_cong: "c_ps s' = c_ps s \<Longrightarrow> c_rt s' = c_rt s \<Longrightarrow> c_SandboxesActive s' = c_SandboxesActive s \<Longrightarrow> held s' = held s"
  by (simp add: held_def view_of_def)

lemma on_rt_held [preserve_intros]: "keeps (\<lambda>w. (live w, used w)) a \<Longrightarrow> preserves held (on_rt a)"
  by (rule preservesI) (force simp: held_def view_of_def iface_simps simp del: view_inv.simps dest: keepsD)

lemma on_ps_held [preserve_intros]: "quiet abs ok a \<Longrightarrow> preserves held (on_ps a)"
  by (rule preservesI) (force simp: held_def view_of_def iface_simps quiet_def simp del: view_inv.simps)

lemma now_held [preserve_intros]: "preserves held now"
  by (rule preservesI) (simp add: iface_simps held_def view_of_def)

lemma store_reads_quiet [preserve_intros]:
  "quiet abs ok (kv_Get (ct_store ctl) n)" "quiet abs ok (kv_List (ct_store ctl))"
  by (auto intro!: quietI dest: get_frame list_frame)

lemma matrix_store_quiet [preserve_intros]: "quiet abs ok (kv_Get ms n)" "quiet abs ok (kv_Save ms v)" "quiet abs ok (kv_Delete ms n)"
proof -
  show "quiet abs ok (kv_Get ms n)" by (rule quietI) (metis mst.get_frame get_keeps)
  show "quiet abs ok (kv_Save ms v)"
    by (rule quietI) (metis save_keeps mst.save_done mst.save_total prod.inject)
  show "quiet abs ok (kv_Delete ms n)"
  proof (rule quietI)
    fix p r p' assume "ok p" "kv_Delete ms n p = (r, p')"
    then show "ok p' \<and> abs p' = abs p" using delete_keeps mst.del_done mst.del_failed by (cases r) (metis old.unit.exhaust)+
  qed
qed

lemma request_held:
  "preserves held (Create ctl opts)" "preserves held (Stop ctl n)" "preserves held (Start ctl n)" "preserves held (Destroy ctl n)"
proof -
  have r: "held s \<Longrightarrow> held (perform ctl req s)" for req s
    unfolding held_def using perform_effect effect_inv by blast
  show "preserves held (Create ctl opts)" "preserves held (Stop ctl n)" "preserves held (Start ctl n)" "preserves held (Destroy ctl n)"
    using r [of _ "ReqCreate opts"] r [of _ "ReqStop n"] r [of _ "ReqStart n"] r [of _ "ReqDestroy n"]
    by (simp_all add: preserves_def)
qed

text \<open>What a response or a metric changes is not part of the invariant.\<close>

lemma held_simps [simp]:
  "held (recordOp op r s) = held s" "held (recordExec op r s) = held s" "held (sessions_add k s) = held s"
  "held (s\<lparr>c_draw := n\<rparr>) = held s"
  by (simp_all add: held_def view_of_def recordOp_def recordExec_def sessions_add_def)

lemma st_reads_held [preserve_intros]: "preserves held (st_get ctl n)" "preserves held (List ctl)" "preserves held (Get ctl n)"
  unfolding List_def Get_def by (intro preserve_intros)+

lemma sandbox_use_held [preserve_intros]:
  "preserves held (Exec ctl n cfg)" "preserves held (Stats_of ctl n)" "preserves held (Snapshot ctl n t)"
  "preserves held (ListSnapshots ctl n)"
  unfolding Exec_def [abs_def] Stats_of_def [abs_def] Snapshot_def [abs_def] ListSnapshots_def [abs_def]
  by (intro preserve_intros frames; simp)+

lemma file_use_held [preserve_intros]:
  "preserves held (runningSandboxID ctl n)" "preserves held (WriteFile ctl n p d)" "preserves held (ReadFile ctl n p)"
  "preserves held (ListFiles ctl n p)"
proof -
  show r: "preserves held (runningSandboxID ctl n)" for n
    unfolding runningSandboxID_def [abs_def] by (intro preserve_intros; simp)
  show "preserves held (WriteFile ctl n p d)" "preserves held (ReadFile ctl n p)" "preserves held (ListFiles ctl n p)"
    unfolding WriteFile_def [abs_def] ReadFile_def [abs_def] ListFiles_def [abs_def]
    by (intro preserve_intros r frames; simp)+
qed

lemmas session_store_quiet = sessions_quiet [THEN conjunct1] sessions_quiet [THEN conjunct2, THEN conjunct1]
  sessions_quiet [THEN conjunct2, THEN conjunct2, THEN conjunct1] sessions_quiet [THEN conjunct2, THEN conjunct2, THEN conjunct2]

lemma session_held [preserve_intros]:
  "preserves held (StartSession ctl n)" "preserves held (EndSession ctl i)" "preserves held (ListSessions ctl n)"
  "preserves held (ExecInSession ctl i cfg)"
proof -
  have g: "preserves held (generateSessionID n)" for n
    by (simp add: preserves_def generateSessionID_def)
  have d: "preserves held (\<lambda>s. on_ps a (sessions_add k s))" if "quiet abs ok a" for k and a :: "('u, 'p) act"
    using on_ps_held [OF that] by (simp add: preserves_def)
  show "preserves held (StartSession ctl n)" "preserves held (EndSession ctl i)" "preserves held (ListSessions ctl n)"
    "preserves held (ExecInSession ctl i cfg)"
    unfolding StartSession_def [abs_def] EndSession_def [abs_def] ListSessions_def [abs_def] ExecInSession_def [abs_def]
    by (intro preserve_intros d g session_store_quiet; simp)+
qed

lemma cleanup_held: "held s \<Longrightarrow> held (cleanup_members ctl n failed members s)"
  by (induction members arbitrary: s) (auto simp: request_held(4) [unfolded preserves_def])

lemma create_members_held: "preserves held (create_members ctl n t members todo)"
proof (induction todo)
  case Nil
  show ?case by (rule preserves_eq [OF create_members.simps(1)]) (rule preserve_intros)
next
  case (Cons m todo)
  have undo: "held s \<Longrightarrow> held (snd (on_rt (rt_DeleteNetwork (ct_runtime ctl) x) (cleanup_members ctl n failed members s)))" for s x failed
    using on_rt_held [OF delete_net_frame] cleanup_held by (simp add: preserves_def)
  show ?case
    by (rule preserves_eq [OF create_members.simps(2)]) (intro preserve_intros request_held Cons.IH undo; assumption)
qed

lemma each_member_held: "(\<And>n. preserves held (op n)) \<Longrightarrow> preserves held (each_member op verb name members first)"
proof (induction members arbitrary: first)
  case Nil
  show ?case by (rule preserves_eq [OF each_member.simps(1)]) (rule preserve_intros)
next
  case (Cons m members)
  show ?case
    by (rule preserves_eq [OF each_member.simps(2)]) (intro preserve_intros Cons)
qed

lemma matrix_held [preserve_intros]:
  "preserves held (CreateMatrix ctl n members t)" "preserves held (StopMatrix ctl n)" "preserves held (StartMatrix ctl n)"
  "preserves held (DestroyMatrix ctl n)" "preserves held (GetMatrix ctl n)" "preserves held (ListMatrices ctl)"
proof -
  have q: "preserves held (matrix_quota ctl t members)" for t members
    using matrix_quota_frame by (intro preservesI) (force simp: held_def simp del: view_inv.simps)
  have d: "preserves held (\<lambda>s. on_ps (kv_Delete ms n) (snd (on_rt (rt_DeleteNetwork (ct_runtime ctl) x) s)))" for n x
    using on_rt_held [OF delete_net_frame] on_ps_held [OF matrix_store_quiet(3)] by (simp add: preserves_def)
  show "preserves held (CreateMatrix ctl n members t)" "preserves held (StopMatrix ctl n)" "preserves held (StartMatrix ctl n)"
    "preserves held (DestroyMatrix ctl n)" "preserves held (GetMatrix ctl n)" "preserves held (ListMatrices ctl)"
    unfolding CreateMatrix_def [abs_def] StopMatrix_def [abs_def] StartMatrix_def [abs_def] DestroyMatrix_def [abs_def]
      GetMatrix_def [abs_def] ListMatrices_def [abs_def] store option.case
    by (intro preserve_intros q d matrix_list create_members_held each_member_held request_held create_net_frame; assumption)+
qed

section \<open>Handlers\<close>

abbreviation hw :: "('w, 'p, 'x) Api Web \<Rightarrow> bool" where
  "hw s \<equiv> held (ap_ctrl (wb_app s))"

lemma on_ctrl_hw [preserve_intros]: "preserves held a \<Longrightarrow> preserves hw (on_ctrl a)"
  by (rule preservesI) (auto simp: on_ctrl_def dest: preservesD split: prod.splits)

lemma web_now_hw [preserve_intros]: "preserves hw web_now"
  by (simp add: preserves_def web_now_def)

lemma path_value_hw [preserve_intros]: "(\<And>v. preserves hw (k v r)) \<Longrightarrow> preserves hw (path_value key what k r)"
  unfolding path_value_def [abs_def] by (intro preserve_intros; assumption?)

lemma answer_with_hw [preserve_intros]: "preserves held a \<Longrightarrow> preserves hw (answer_with good bad body a r)"
  unfolding answer_with_def [abs_def] by (intro preserve_intros; assumption)

lemma exec_answer_hw [preserve_intros]: "preserves held a \<Longrightarrow> preserves hw (exec_answer fs a r)"
  unfolding exec_answer_def [abs_def] by (intro preserve_intros; assumption)

lemma sandbox_handlers [preserve_intros]:
  "preserves hw (handleCreateSandbox d ctl r)" "preserves hw (handleListSandboxes ctl r)" "preserves hw (handleGetSandbox ctl r)"
  "preserves hw (handleStartSandbox ctl r)" "preserves hw (handleStopSandbox ctl r)" "preserves hw (handleDestroySandbox ctl r)"
  "preserves hw (handleExecSandbox d' fs ctl r)" "preserves hw (handleStatsSandbox ctl r)"
  "preserves hw (handleCreateSnapshot d'' ctl r)" "preserves hw (handleListSnapshots ctl r)"
  unfolding handleCreateSandbox_def [abs_def] handleListSandboxes_def [abs_def] handleGetSandbox_def handleStartSandbox_def
    handleStopSandbox_def handleDestroySandbox_def handleExecSandbox_def handleStatsSandbox_def handleCreateSnapshot_def
    handleListSnapshots_def
  by (intro preserve_intros request_held; assumption)+

lemma matrix_handlers [preserve_intros]:
  "preserves hw (handleCreateMatrix d ctl r)" "preserves hw (handleListMatrices ctl r)" "preserves hw (handleGetMatrix ctl r)"
  "preserves hw (handleStartMatrix ctl r)" "preserves hw (handleStopMatrix ctl r)" "preserves hw (handleDestroyMatrix ctl r)"
  "preserves hw (handleShardTask d' m ctl r)" "preserves hw (handleCollectResults d'' res wk ctl r)"
  unfolding handleCreateMatrix_def [abs_def] handleListMatrices_def [abs_def] handleGetMatrix_def handleStartMatrix_def
    handleStopMatrix_def handleDestroyMatrix_def handleShardTask_def handleCollectResults_def [abs_def]
  by (intro preserve_intros; simp add: preserves_def split: option.split prod.split)+

lemma session_handlers [preserve_intros]:
  "preserves hw (handleStartSession d ctl r)" "preserves hw (handleListSessions ctl r)" "preserves hw (handleEndSession ctl r)"
  "preserves hw (handleExecInSession d' fs ctl r)"
  unfolding handleStartSession_def [abs_def] handleListSessions_def [abs_def] handleEndSession_def handleExecInSession_def
  by (intro preserve_intros; assumption)+

lemma unreadable_held: "preserves held (WriteFile (unreadable ctl) n p d)"
proof -
  have f: "runningSandboxID (unreadable ctl) n = runningSandboxID ctl n" for n
    by (simp add: runningSandboxID_def [abs_def] unreadable_def)
  show ?thesis
    unfolding WriteFile_def [abs_def] f by (intro preserve_intros; simp add: keeps_def unreadable_def)
qed

lemma file_handlers [preserve_intros]:
  "preserves hw (handleUploadFile d b ctl r)" "preserves hw (handleDownloadFile ctl r)" "preserves hw (handleListFiles ctl r)"
  unfolding handleUploadFile_def handleDownloadFile_def handleListFiles_def write_content_def Let_def
  by (intro preserve_intros; (assumption | simp add: unreadable_held file_use_held split: option.split))+

lemma member_services_held: "preserves held (member_services ctl n members)"
proof (induction members)
  case Nil
  show ?case by (rule preserves_eq [OF member_services.simps(1)]) (rule preserve_intros)
next
  case (Cons m members)
  have i: "preserves held (\<lambda>s. if b then on_rt (rt_Info (ct_runtime ctl) j) s else (x, s))" for b j x
    by (intro preserve_intros info_frame; assumption)
  show ?case
    by (rule preserves_eq [OF member_services.simps(2)]) (intro preserve_intros i Cons; assumption)
qed

lemma port_handlers [preserve_intros]:
  "preserves hw (handleListPorts ctl r)" "preserves hw (handleListMatrixServices ctl r)"
  unfolding handleListPorts_def handleListMatrixServices_def
  by (intro preserve_intros member_services_held info_frame; assumption)+

lemmas team_store_quiet = teams_quiet [THEN conjunct1] teams_quiet [THEN conjunct2, THEN conjunct1]
  teams_quiet [THEN conjunct2, THEN conjunct2, THEN conjunct1] teams_quiet [THEN conjunct2, THEN conjunct2, THEN conjunct2]

lemma with_team_hw: "sv_teams sv = Some ts \<Longrightarrow> (\<And>t. preserves hw (k t r)) \<Longrightarrow> preserves hw (with_team ts k r)"
  unfolding with_team_def by (intro preserve_intros team_store_quiet; assumption)

lemma save_team_hw: "sv_teams sv = Some ts \<Longrightarrow> preserves hw (save_team ts t r)"
  unfolding save_team_def by (intro preserve_intros team_store_quiet; assumption)

lemma team_handlers [preserve_intros]:
  assumes "sv_teams sv = Some ts"
  shows "preserves hw (handleCreateTeam d ts r)" "preserves hw (handleListTeams ts r)" "preserves hw (handleGetTeam ts r)"
    "preserves hw (handleUpdateTeam d' ts r)" "preserves hw (handleDeleteTeam ts r)" "preserves hw (handleListTeamMembers ts r)"
    "preserves hw (handleAddTeamMember d'' ts r)" "preserves hw (handleRemoveTeamMember ts r)"
    "sv_quota sv = Some qm \<Longrightarrow> preserves hw (handleGetTeamUsage ts qm r)"
  unfolding handleCreateTeam_def [abs_def] handleListTeams_def handleGetTeam_def handleUpdateTeam_def handleDeleteTeam_def
    handleListTeamMembers_def handleAddTeamMember_def handleRemoveTeamMember_def handleGetTeamUsage_def
  by (intro preserve_intros with_team_hw save_team_hw team_store_quiet usage_quiet assms; (rule assms | assumption))+

section \<open>Images, code, streams\<close>

lemma Build_held: "preserves held (on_rt (Build \<lparr>bd_runtime = ct_runtime ctl, bd_committer = rl_committer l\<rparr> host short path))"
proof (rule preservesI)
  fix s r s' assume s: "held s" and b: "on_rt (Build \<lparr>bd_runtime = ct_runtime ctl, bd_committer = rl_committer l\<rparr> host short path) s = (r, s')"
  then obtain w where w: "Build \<lparr>bd_runtime = ct_runtime ctl, bd_committer = rl_committer l\<rparr> host short path (c_rt s) = (r, w)" "s' = s\<lparr>c_rt := w\<rparr>"
    by (auto simp: iface_simps)
  have u: "used (c_rt s) \<subseteq> used w" using Build_used [OF w(1) committer] .
  have "live w = live (c_rt s)"
  proof (cases "rl_committer l")
    case None
    with w show ?thesis by (auto simp: Build_def)
  next
    case (Some k)
    then have "rl_committer l = Some com" using committer by auto
    with w show ?thesis using Build_frame by simp
  qed
  with s u show "held s'" by (auto simp: w held_def view_of_def ids_known_def) blast
qed

lemma image_handlers [preserve_intros]:
  "preserves hw (handleBuildImage d (rl_committer l) short ctl r)" "preserves hw (handleListImages (rl_committer l) ctl r)"
proof -
  show "preserves hw (handleBuildImage d (rl_committer l) short ctl r)"
    unfolding handleBuildImage_def [abs_def] by (intro preserve_intros Build_held; assumption)
  have "keeps (\<lambda>w. (live w, used w)) (ListBuiltImages \<lparr>bd_runtime = ct_runtime ctl, bd_committer = rl_committer l\<rparr>)"
    using committer images_frame
    by (intro keepsI) (auto simp: ListBuiltImages_def dest!: keepsD split: option.splits prod.splits sum.splits)
  then show "preserves hw (handleListImages (rl_committer l) ctl r)"
    unfolding handleListImages_def [abs_def] by (intro preserve_intros; assumption)
qed

lemma exec_in_held: "preserves held (execInSandbox fs ctl n cmd)"
  unfolding execInSandbox_def [abs_def] by (intro preserve_intros; assumption)

lemma inline_files_held: "preserves held (inline_files fs ctl n rfs)"
proof (induction rfs)
  case Nil
  show ?case by (rule preserves_eq [OF inline_files.simps(1)]) (rule preserve_intros)
next
  case (Cons f rfs)
  have r: "preserves held (readFileBase64 fs ctl n path)" for path
    unfolding readFileBase64_def [abs_def] by (intro preserve_intros exec_in_held; assumption)
  obtain name path sz where f: "f = (name, path, sz)" by (metis prod_cases3)
  have r': "preserves held (\<lambda>s. if b then (case readFileBase64 fs ctl n path s of (Inl e, s1) \<Rightarrow> (x, s1) | (Inr v, s1) \<Rightarrow> (y v, s1)) else (x, s))"
    for b x y by (intro preserve_intros r; assumption)
  show ?case unfolding f
    by (rule preserves_eq [OF inline_files.simps(2)]) (unfold Let_def, intro preserve_intros r' Cons; assumption)
qed

lemma Execute_held [preserve_intros]: "preserves held (Execute fs parse ctl req)"
proof -
  have f: "preserves held (failure t m)" "preserves held (finished t m x)" for t m x
    unfolding failure_def [abs_def] finished_def [abs_def] by (intro preserve_intros)+
  have w: "preserves held (writeCode fs ctl n p code)" for n p code
    unfolding writeCode_def [abs_def] by (intro preserve_intros exec_in_held; assumption)
  have o: "preserves held (collectOutputFiles fs parse ctl n)" for n
    unfolding collectOutputFiles_def [abs_def] by (intro preserve_intros exec_in_held inline_files_held; assumption)
  have u: "preserves held (run_code fs parse ctl n lang t)" for n lang t
    unfolding run_code_def [abs_def] by (intro preserve_intros exec_in_held f o; assumption)
  have a: "preserves held b \<Longrightarrow> preserves held (\<lambda>s. apfst g (b s))" for g and b :: "('u, ('w, 'p) cstate) act"
    by (simp add: preserves_def)
  show ?thesis
    unfolding Execute_def [abs_def] by (intro preserve_intros exec_in_held f w u a; assumption)
qed

lemma interpret_handler [preserve_intros]: "preserves hw (handleInterpret d fs parse ctl r)"
  unfolding handleInterpret_def [abs_def] by (intro preserve_intros; assumption)

lemma stream_held: "preserves held (handleExecStream fs k ctl n)"
  unfolding handleExecStream_def [abs_def] by (intro preserve_intros; simp add: preserves_def)

section \<open>The autoscaler\<close>

definition fixed :: "string set \<times> string set \<Rightarrow> 'w Autoscaler \<Rightarrow> bool" where
  "fixed v a \<longleftrightarrow> (live (az_world a), used (az_world a)) = v"

lemma scale_steps_frame:
  "(live (snd (snd (scaleSandbox (ct_runtime ctl) cfg x z w))), used (snd (snd (scaleSandbox (ct_runtime ctl) cfg x z w)))) = (live w, used w)"
  "(live (snd (snd (expand_one (ct_runtime ctl) cfg z w))), used (snd (snd (expand_one (ct_runtime ctl) cfg z w)))) = (live w, used w)"
  "(live (snd (snd (shrink_one (ct_runtime ctl) cfg x z w))), used (snd (snd (shrink_one (ct_runtime ctl) cfg x z w)))) = (live w, used w)"
  "(live (snd (snd (pause_one (ct_runtime ctl) z w))), used (snd (snd (pause_one (ct_runtime ctl) z w)))) = (live w, used w)"
proof -
  show s: "(live (snd (snd (scaleSandbox (ct_runtime ctl) cfg x z w))), used (snd (snd (scaleSandbox (ct_runtime ctl) cfg x z w)))) = (live w, used w)"
    for cfg x z w using keepsD [OF update_frame]
    by (auto simp: scaleSandbox_def split: option.splits prod.splits sum.splits)
  show "(live (snd (snd (expand_one (ct_runtime ctl) cfg z w))), used (snd (snd (expand_one (ct_runtime ctl) cfg z w)))) = (live w, used w)"
    using keepsD [OF unpause_frame] s by (auto simp: expand_one_def Let_def split: prod.splits sum.splits)
  show "(live (snd (snd (shrink_one (ct_runtime ctl) cfg x z w))), used (snd (snd (shrink_one (ct_runtime ctl) cfg x z w)))) = (live w, used w)"
    using s by (auto simp: shrink_one_def Let_def)
  show "(live (snd (snd (pause_one (ct_runtime ctl) z w))), used (snd (snd (pause_one (ct_runtime ctl) z w)))) = (live w, used w)"
    using keepsD [OF pause_frame] by (auto simp: pause_one_def split: prod.splits sum.splits)
qed

lemma each_sandbox_frame:
  assumes "\<And>z w. (live (snd (snd (f z w))), used (snd (snd (f z w)))) = (live w, used w)"
  shows "(live (snd (snd (each_sandbox f m w))), used (snd (snd (each_sandbox f m w)))) = (live w, used w)"
proof (induction m arbitrary: w)
  case (Cons e m)
  obtain k z where e: "e = (k, z)" by fastforce
  obtain b z' w1 where f: "f z w = (b, z', w1)" by (metis prod_cases3)
  with assms [of z w] Cons.IH [of w1] show ?case unfolding e by (auto split: prod.splits)
qed simp

lemma over_sandboxes_fixed:
  assumes "\<And>z w. (live (snd (snd (f z w))), used (snd (snd (f z w)))) = (live w, used w)"
  shows "preserves (fixed v) (over_sandboxes f)"
proof (rule preservesI)
  fix a r a' assume v: "fixed v a" and o: "over_sandboxes f a = (r, a')"
  obtain b m w where e: "each_sandbox f (az_sandboxes a) (az_world a) = (b, m, w)" by (metis prod_cases3)
  then have "live w = live (az_world a)" "used w = used (az_world a)"
    using each_sandbox_frame [of f "az_sandboxes a" "az_world a", OF assms] by simp_all
  with e v o show "fixed v a'" by (auto simp: over_sandboxes_def fixed_def)
qed

lemma expandAll_fixed: "preserves (fixed v) (expandAll (ct_runtime ctl))"
  using over_sandboxes_fixed [OF scale_steps_frame(2)] by (simp add: expandAll_def preserves_def)

lemma scale_handlers_fixed:
  assumes "\<And>a. z = Some a \<Longrightarrow> fixed v a"
  shows "\<And>a. snd (handleAutoscaleStatus (ct_runtime ctl) r z) = Some a \<Longrightarrow> fixed v a"
    and "\<And>a. snd (handleAutoscaleEnable r z) = Some a \<Longrightarrow> fixed v a"
    and "\<And>a. snd (handleAutoscaleDisable (ct_runtime ctl) r z) = Some a \<Longrightarrow> fixed v a"
    and "\<And>a. snd (handleSetPriority d r z) = Some a \<Longrightarrow> fixed v a"
proof -
  note defs = with_scaler_def fixed_def
  show "fixed v a" if "snd (handleAutoscaleStatus (ct_runtime ctl) r z) = Some a" for a
    using that assms keepsD [OF host_frame]
    by (auto simp: handleAutoscaleStatus_def Status_scaler_def defs split: option.splits prod.splits sum.splits)
  show "fixed v a" if "snd (handleAutoscaleEnable r z) = Some a" for a
    using that assms by (auto simp: handleAutoscaleEnable_def end_request_def Start_scaler_def defs split: option.splits if_splits)
  show "fixed v a" if "snd (handleAutoscaleDisable (ct_runtime ctl) r z) = Some a" for a
  proof (cases z)
    case (Some y)
    then have y: "fixed v y" using assms by blast
    obtain b y' where s: "Stop_scaler (ct_runtime ctl) y = (b, y')" by fastforce
    have "fixed v (y\<lparr>az_running := False, az_loop := None\<rparr>)" using y by (simp add: fixed_def)
    then have "fixed v y'" using s y preservesD [OF expandAll_fixed] by (auto simp: Stop_scaler_def split: if_splits)
    then show ?thesis using that Some s by (auto simp: handleAutoscaleDisable_def with_scaler_def)
  qed (use that in \<open>simp add: handleAutoscaleDisable_def with_scaler_def\<close>)
  show "fixed v a" if "snd (handleSetPriority d r z) = Some a" for a
    using that assms
    by (auto simp: handleSetPriority_def SetPriority_def Let_def defs split: option.splits sum.splits if_splits)
qed

section \<open>The routes\<close>

abbreviation hall :: "('w, 'p, 'x) World Web \<Rightarrow> bool" where
  "hall s \<equiv> held (ctrl_of (wb_app s))"

definition on_part :: "('w, 'p, 'x) World Web \<Rightarrow> ('w, 'p, 'x) Api Web" where
  "on_part s = \<lparr>wb_rbac = wb_rbac s, wb_audit = wb_audit s, wb_clock = wb_clock s, wb_tick = wb_tick s, wb_app = wd_api (wb_app s)\<rparr>"

lemma on_api_hall:
  assumes "preserves hw (h r)"
  shows "preserves hall (on_api f h r)"
proof (rule preservesI)
  fix s x s' assume s: "hall s" and h: "on_api f h r s = (x, s')"
  obtain resp s1 where a: "h r (on_part s) = (resp, s1)" by fastforce
  have "hw (on_part s)" using s by (simp add: on_part_def ctrl_of_def)
  then have "hw s1" using preservesD [OF assms _ a] by blast
  with h a show "hall s'" by (auto simp: on_api_def part_handler_def on_part_def ctrl_of_def)
qed

lemma on_login_hall: "preserves hall (on_login_part h r)"
  by (rule preservesI) (auto simp: on_login_part_def part_handler_def ctrl_of_def split: prod.splits)

lemma collect_hall: "preserves hall (collect_route l' ctl r)"
proof (rule preservesI)
  fix s x s' assume s: "hall s" and h: "collect_route l' ctl r s = (x, s')"
  obtain resp s1 where a: "handleCollectResults (rl_collect l') (rl_task_result l') (rl_wakes l') ctl r (on_part s) = (resp, s1)"
    by fastforce
  have "hw (on_part s)" using s by (simp add: on_part_def ctrl_of_def)
  then have "hw s1" using preservesD [OF matrix_handlers(8) _ a] by blast
  with h a show "hall s'" by (auto simp: collect_route_def on_part_def ctrl_of_def)
qed

lemma stream_hall: "preserves hall (stream_route l' ctl r)"
  using stream_held
  by (intro preservesI) (fastforce simp: stream_route_def ctrl_of_def set_ctrl_def dest: preservesD split: prod.splits)

lemma on_scaler_hall:
  assumes "\<And>v r z a. (\<And>b. z = Some b \<Longrightarrow> fixed v b) \<Longrightarrow> snd (h r z) = Some a \<Longrightarrow> fixed v a"
  shows "preserves hall (on_scaler h r)"
proof (rule preservesI)
  fix s x s' assume s: "hall s" and h: "on_scaler h r s = (x, s')"
  let ?c = "ctrl_of (wb_app s)" 
  let ?z = "map_option (\<lambda>a. a\<lparr>az_world := c_rt ?c\<rparr>) (wd_scaler (wb_app s))"
  obtain resp a where a: "h r ?z = (resp, a)" by fastforce
  show "hall s'"
  proof (cases a)
    case None
    with h a s show ?thesis by (auto simp: on_scaler_def Let_def)
  next
    case (Some a1)
    have "fixed (live (c_rt ?c), used (c_rt ?c)) b" if "?z = Some b" for b
      using that by (auto simp: fixed_def)
    with assms a Some have "fixed (live (c_rt ?c), used (c_rt ?c)) a1" by (metis snd_conv)
    with h a s Some show ?thesis
      by (auto simp: on_scaler_def Let_def fixed_def ctrl_of_def set_ctrl_def held_def view_of_def)
  qed
qed

lemma scale_routes_hall:
  "preserves hall (on_scaler (handleAutoscaleStatus (ct_runtime ctl)) r)" "preserves hall (on_scaler handleAutoscaleEnable r)"
  "preserves hall (on_scaler (handleAutoscaleDisable (ct_runtime ctl)) r)" "preserves hall (on_scaler (handleSetPriority d) r)"
  by (rule on_scaler_hall, erule scale_handlers_fixed [rotated], blast)+

definition sound_routes :: "('w, 'p, 'x) rest_handler Route list \<Rightarrow> bool" where
  "sound_routes rs \<longleftrightarrow> (\<forall>x \<in> set rs. \<forall>r. preserves hall (rt_Handler x r))"

lemma sound_routes_simps [simp]:
  "sound_routes []" "sound_routes (xs @ ys) \<longleftrightarrow> sound_routes xs \<and> sound_routes ys"
  "sound_routes (route m p h # rs) \<longleftrightarrow> (\<forall>r. preserves hall (h r)) \<and> sound_routes rs"
  by (auto simp: sound_routes_def route_def)

lemma plain_hall: "preserves hall (plain_handler st b r)" "preserves hall (handleHealth r)" "preserves hall (handleVersion v r)"
  by (simp_all add: preserves_def plain_handler_def handleHealth_def handleVersion_def)

lemma routes_sound: "sound_routes (registerRoutes l sv)"
proof -
  have b: "sound_routes (base_routes l ctl)" by (simp add: base_routes_def plain_hall)
  have s: "sound_routes (sandbox_routes l ctl)" "sound_routes (sandbox_tool_routes l ctl)"
    by (simp_all add: sandbox_routes_def sandbox_tool_routes_def on_api_hall sandbox_handlers)
  have m: "sound_routes (matrix_routes l ctl)" "sound_routes (task_routes l ctl)"
    by (simp_all add: matrix_routes_def task_routes_def on_api_hall matrix_handlers collect_hall)
  have f: "sound_routes (file_routes l ctl)"
    by (simp add: file_routes_def on_api_hall file_handlers port_handlers stream_hall)
  have i: "sound_routes (image_routes l ctl)" "sound_routes (session_routes l ctl)"
    by (simp_all add: image_routes_def session_routes_def on_api_hall image_handlers interpret_handler session_handlers)
  have o: "sound_routes (oidc_routes l (sv_oidc sv))"
    by (cases "sv_oidc sv") (simp_all add: oidc_routes_def on_login_hall)
  have z: "sound_routes (scale_routes l ctl b)" for b
    by (simp add: scale_routes_def scale_routes_hall)
  have t: "sound_routes (team_routes l (sv_teams sv) (sv_quota sv))"
    by (cases "sv_teams sv"; cases "sv_quota sv") (simp_all add: team_routes_def on_api_hall team_handlers)
  show ?thesis unfolding registerRoutes_def Let_def by (simp add: b s m f i o z t)
qed

lemma dispatch_hall: "preserves hall (dispatch segs (registerRoutes l sv) r)"
  by (rule dispatch_preserves) (rule routes_sound [unfolded sound_routes_def, rule_format])

text \<open>The middleware touches the audit log and the clock, nothing behind the server.\<close>

lemma recordAudit_hall: "hall (recordAudit marshal u r result detail s) = hall s"
  by (simp add: recordAudit_def web_now_def split: option.splits)

lemma preserves_get: "(\<And>x. preserves I (f x)) \<Longrightarrow> preserves I (\<lambda>s. f (g s) s)"
  by (simp add: preserves_def)

lemma Handler_hall:
  assumes "\<And>r. preserves hall (next_handler r)"
  shows "preserves hall (Handler marshal jwt next_handler r)"
proof -
  have a: "preserves hall (refuse marshal u r d st m)" for u r d st m
    by (simp add: preserves_def refuse_def recordAudit_hall)
  have n: "preserves hall (\<lambda>s. next_handler r (recordAudit marshal u r' res d s))" for r u r' res d
    using assms by (simp add: preserves_def recordAudit_hall)
  have w: "preserves hall web_now" by (simp add: preserves_def web_now_def)
  have j: "preserves hall (jwt_auth marshal rbac cl next_handler r)" "preserves hall (legacy_auth marshal rbac tok next_handler r)"
    for rbac cl tok r
    unfolding jwt_auth_def [abs_def] legacy_auth_def [abs_def] by (intro preserve_intros a n; assumption)+
  have c: "preserves hall (check_token marshal jwt rbac tok next_handler r)" for rbac tok r
    unfolding check_token_def [abs_def] by (intro preserve_intros w j; assumption)
  have m: "preserves hall (AuthMiddleware marshal jwt next_handler r)" for r
    unfolding AuthMiddleware_def [abs_def] Let_def
    by (rule preserves_get [where g = wb_rbac]) (intro preserve_intros a c assms; assumption)
  have js: "preserves hall (jsonContentTypeMiddleware (AuthMiddleware marshal jwt next_handler) r)" for r
    unfolding jsonContentTypeMiddleware_def [abs_def] by (intro preserve_intros m; assumption)
  have co: "preserves hall (corsMiddleware (jsonContentTypeMiddleware (AuthMiddleware marshal jwt next_handler)) r)"
    unfolding corsMiddleware_def [abs_def] Let_def by (intro preserve_intros js; assumption)
  then show ?thesis by (simp add: Handler_def chainMiddleware_def)
qed

lemma serve_http_hall: "preserves hall (serve_http marshal jwt segs l sv r)"
  unfolding serve_http_def by (rule Handler_hall) (rule dispatch_hall)

end

section \<open>Every request has one route\<close>

text \<open>Two patterns clash when some request matches both.\<close>

fun overlap :: "seg list \<Rightarrow> seg list \<Rightarrow> bool" where
  "overlap [] [] = True"
| "overlap (Lit a # ps) (Lit b # qs) = (a = b \<and> overlap ps qs)"
| "overlap (_ # ps) (_ # qs) = overlap ps qs"
| "overlap _ _ = False"

lemma match_tail: "match_segs (p # ps) (x # xs) = Some v \<Longrightarrow> \<exists>w. match_segs ps xs = Some w"
  by (cases p) (auto split: if_splits)

lemma match_both: "match_segs ps xs \<noteq> None \<Longrightarrow> match_segs qs xs \<noteq> None \<Longrightarrow> overlap ps qs"
proof (induction ps qs arbitrary: xs rule: overlap.induct)
  case (2 a ps b qs)
  then show ?case by (cases xs) (auto split: if_splits)
qed (case_tac xs; auto split: if_splits dest!: match_tail; fail)+

definition clash :: "string \<times> seg list \<Rightarrow> string \<times> seg list \<Rightarrow> bool" where
  "clash x y \<longleftrightarrow> (fst x = fst y \<or> {fst x, fst y} = {''GET'', ''HEAD''}) \<and> overlap (snd x) (snd y)"

definition route_key :: "'h Route \<Rightarrow> string \<times> seg list" where
  "route_key x = (rt_Method x, rt_Path x)"

lemma route_key_route [simp]: "route_key (route m p h) = (m, pattern p)"
  by (simp add: route_key_def route_def)

definition fits :: "(Request \<Rightarrow> string list) \<Rightarrow> Request \<Rightarrow> 'h Route \<Rightarrow> bool" where
  "fits segs r x \<longleftrightarrow> method_matches (rt_Method x) (rq_Method r) \<and> match_segs (rt_Path x) (segs r) \<noteq> None"

lemma fits_clash: "fits segs r x \<Longrightarrow> fits segs r y \<Longrightarrow> clash (route_key x) (route_key y)"
  using match_both by (auto simp: fits_def clash_def route_key_def method_matches_def)

lemma one_fits:
  assumes "sorted_wrt (\<lambda>a b. \<not> clash a b) (map route_key rs)"
  shows "length (filter (fits segs r) rs) \<le> 1"
  using assms
proof (induction rs)
  case (Cons x rs)
  show ?case
  proof (cases "fits segs r x")
    case True
    then have "filter (fits segs r) rs = []" using Cons.prems fits_clash [OF True] by (auto simp: filter_empty_conv)
    then show ?thesis by simp
  qed (use Cons in simp)
qed simp

text \<open>The keys of the routes that are always there, and of the optional groups.\<close>

definition fixed_keys :: "(string \<times> seg list) list" where
  "fixed_keys = map (\<lambda>(m, p). (m, pattern p))
     [(''GET'', ''/api/v1/health''), (''GET'', ''/api/v1/version''), (''GET'', ''/metrics''),
      (''POST'', ''/api/v1/sandboxes''), (''GET'', ''/api/v1/sandboxes''), (''GET'', ''/api/v1/sandboxes/{name}''),
      (''POST'', ''/api/v1/sandboxes/{name}/start''), (''POST'', ''/api/v1/sandboxes/{name}/stop''),
      (''DELETE'', ''/api/v1/sandboxes/{name}''), (''POST'', ''/api/v1/sandboxes/{name}/exec''),
      (''GET'', ''/api/v1/sandboxes/{name}/stats''), (''POST'', ''/api/v1/sandboxes/{name}/snapshots''),
      (''GET'', ''/api/v1/sandboxes/{name}/snapshots''), (''POST'', ''/api/v1/matrices''), (''GET'', ''/api/v1/matrices''),
      (''GET'', ''/api/v1/matrices/{name}''), (''POST'', ''/api/v1/matrices/{name}/start''),
      (''POST'', ''/api/v1/matrices/{name}/stop''), (''DELETE'', ''/api/v1/matrices/{name}''),
      (''POST'', ''/api/v1/matrices/{name}/shard''), (''POST'', ''/api/v1/matrices/{name}/collect''),
      (''PUT'', ''/api/v1/sandboxes/{name}/files''), (''GET'', ''/api/v1/sandboxes/{name}/files''),
      (''GET'', ''/api/v1/sandboxes/{name}/files/list''), (''GET'', ''/api/v1/sandboxes/{name}/exec/stream''),
      (''GET'', ''/api/v1/sandboxes/{name}/ports''), (''GET'', ''/api/v1/matrices/{name}/services''),
      (''POST'', ''/api/v1/images/build''), (''GET'', ''/api/v1/images''), (''POST'', ''/api/v1/sandboxes/{name}/interpret''),
      (''POST'', ''/api/v1/sessions''), (''GET'', ''/api/v1/sessions''), (''POST'', ''/api/v1/sessions/{id}/end''),
      (''POST'', ''/api/v1/sessions/{id}/exec'')]"

definition optional_keys :: "(string \<times> seg list) list list" where
  "optional_keys = map (map (\<lambda>(m, p). (m, pattern p)))
     [[(''GET'', ''/api/v1/auth/oidc/login''), (''GET'', ''/api/v1/auth/oidc/callback''),
       (''POST'', ''/api/v1/auth/token/refresh''), (''GET'', ''/api/v1/auth/userinfo'')],
      [(''GET'', ''/api/v1/autoscale/status''), (''POST'', ''/api/v1/autoscale/enable''),
       (''POST'', ''/api/v1/autoscale/disable''), (''PUT'', ''/api/v1/sandboxes/{name}/priority'')],
      [(''POST'', ''/api/v1/teams''), (''GET'', ''/api/v1/teams''), (''GET'', ''/api/v1/teams/{name}''),
       (''PUT'', ''/api/v1/teams/{name}''), (''DELETE'', ''/api/v1/teams/{name}''), (''GET'', ''/api/v1/teams/{name}/members''),
       (''POST'', ''/api/v1/teams/{name}/members''), (''DELETE'', ''/api/v1/teams/{name}/members/{user}'')],
      [(''GET'', ''/api/v1/teams/{name}/usage'')]]"

lemma no_clash: "sorted_wrt (\<lambda>a b. \<not> clash a b) (fixed_keys @ concat optional_keys)"
  by code_simp

lemma routes_keys:
  "map route_key (registerRoutes l sv) = fixed_keys @
     (if sv_oidc sv = None then [] else optional_keys ! 0) @ (if sv_has_scaler sv then optional_keys ! 1 else []) @
     (if sv_teams sv = None then [] else optional_keys ! 2 @ (if sv_quota sv = None then [] else optional_keys ! 3))"
proof -
  have f: "map route_key (base_routes l c @ sandbox_routes l c @ sandbox_tool_routes l c @ matrix_routes l c @ task_routes l c @
      file_routes l c @ image_routes l c @ session_routes l c) = fixed_keys" for c
    by (simp add: base_routes_def sandbox_routes_def sandbox_tool_routes_def matrix_routes_def task_routes_def file_routes_def
        image_routes_def session_routes_def fixed_keys_def)
  have o: "map route_key (oidc_routes l x) = (if x = None then [] else optional_keys ! 0)" for x
    by (cases x) (simp_all add: oidc_routes_def optional_keys_def)
  have z: "map route_key (scale_routes l c b) = (if b then optional_keys ! 1 else [])" for c b
    by (simp add: scale_routes_def optional_keys_def)
  have t: "map route_key (team_routes l x q) =
      (if x = None then [] else optional_keys ! 2 @ (if q = None then [] else optional_keys ! 3))" for x q
    by (cases x; cases q) (simp_all add: team_routes_def optional_keys_def)
  show ?thesis using f [of "sv_ctrl sv"] by (simp add: registerRoutes_def Let_def o z t)
qed

text \<open>Whatever is configured, a request matches at most one of the registered patterns, so the router never has to choose.\<close>

theorem unique_route: "length (filter (fits segs r) (registerRoutes l sv)) \<le> 1"
proof (rule one_fits)
  have o: "concat optional_keys = optional_keys ! 0 @ optional_keys ! 1 @ optional_keys ! 2 @ optional_keys ! 3"
    by (simp add: optional_keys_def)
  show "sorted_wrt (\<lambda>a b. \<not> clash a b) (map route_key (registerRoutes l sv))"
    using no_clash unfolding routes_keys o by (auto simp: sorted_wrt_append)
qed

end
