(* ===== verification/Site.thy ===== *)
theory Site
  imports RestSpec
begin

text \<open>
  A complete installation: the REST server over the controller of \<open>Deployment\<close>, with teams, sessions, image building and the
  autoscaler on the Docker backend. The contract of the REST server is interpreted on it, and
  sequences of HTTP requests are evaluated against it.
\<close>

section \<open>The backend\<close>

text \<open>The calls of the Docker client that \<open>docker_daemon\<close> leaves open.\<close>

locale whole_daemon = docker_daemon dc live used
  for dc :: "'d DockerClient" and live :: "'d \<Rightarrow> string set" and used :: "'d \<Rightarrow> string set" +
  assumes rest_keep:
      "keeps (\<lambda>w. (live w, used w)) (dc_ContainerStats dc i)"
      "keeps (\<lambda>w. (live w, used w)) (dc_ContainerCommit dc i ref cm)"
      "keeps (\<lambda>w. (live w, used w)) (dc_ImageList dc f)"
      "keeps (\<lambda>w. (live w, used w)) (dc_CopyToContainer dc i p es)"
      "keeps (\<lambda>w. (live w, used w)) (dc_CopyFromContainer dc i p)"
      "keeps (\<lambda>w. (live w, used w)) (dc_ContainerPause dc i)"
      "keeps (\<lambda>w. (live w, used w)) (dc_ContainerUnpause dc i)"
      "keeps (\<lambda>w. (live w, used w)) (dc_ContainerUpdate dc i qt pr mem)"
      "keeps (\<lambda>w. (live w, used w)) (dc_Info dc)"
begin

lemmas keep' = rest_keep [THEN keepsD] rest_keep [THEN map_err_keeps, THEN keepsD]

lemma docker_is_whole: "whole_runtime (docker_runtime dc h oci) live used"
proof -
  have "whole_runtime_axioms (docker_runtime dc h oci) live used"
  proof (unfold_locales, goal_cases)
    case 1 then show ?case
      by (intro keepsI) (auto simp: docker_runtime_def docker_Stats_def dest!: keep' split: prod.splits sum.splits)
  next
    case 2 then show ?case
      by (intro keepsI) (auto simp: docker_runtime_def docker_Snapshot_def dest!: keep keep' split: prod.splits sum.splits)
  next
    case 3 then show ?case
      by (intro keepsI) (auto simp: docker_runtime_def docker_ListSnapshots_def dest!: keep keep' split: prod.splits sum.splits)
  next
    case 5 then show ?case
      by (intro keepsI)
        (auto simp: docker_runtime_def docker_CopyFromContainer_def dest!: keep' split: prod.splits sum.splits list.splits)
  next
    case 9 then show ?case
      by (intro keepsI) (auto simp: docker_runtime_def docker_HostInfo_def dest!: keep' split: prod.splits sum.splits)
  qed (simp_all add: docker_runtime_def docker_CopyToContainer_def docker_UpdateResources_def rest_keep)
  with docker_is_runtime show ?thesis by (rule whole_runtime.intro)
qed

end

sublocale whole_daemon \<subseteq> whole_runtime "docker_runtime dc h oci" live used for h oci
  by (rule docker_is_whole)

interpretation wsim: whole_daemon sim_client sim_live sim_used
  by unfold_locales (simp_all add: sim_client_def keeps_def)

section \<open>The stores\<close>

text \<open>An operation on one of the other disks keeps the sandbox records, and all disks good when it keeps its own good.\<close>

lemma lens_quiet:
  assumes "\<And>d. P d \<Longrightarrow> P (snd (a d))" and "\<And>p. persist_ok p \<Longrightarrow> P (g p)"
    and "\<And>p x. persist_ok p \<Longrightarrow> P x \<Longrightarrow> persist_ok (u x p) \<and> records (u x p) = records p"
  shows "quiet records persist_ok (lens g u a)"
proof (rule quietI)
  fix p r p' assume p: "persist_ok p" and l: "lens g u a p = (r, p')"
  obtain x where "a (g p) = (r, x)" "p' = u x p" using l by (auto simp: lens_eq)
  with assms(1) [OF assms(2) [OF p]] assms(3) [OF p, of x] show "persist_ok p' \<and> records p' = records p" by simp
qed

lemma reliable_keeps_ok:
  assumes "reliable_store get lst save del key a P" and "P d"
  shows "P (snd (get n d))" "P (snd (lst d))" "P (snd (save v d))" "P (snd (del n d))"
proof -
  note K = reliable_store.axioms(1) [OF assms(1), THEN atomic_store.axioms(1)]
  show "P (snd (get n d))" "P (snd (lst d))"
    using kv_store.get_frame [OF K assms(2)] kv_store.list_frame [OF K assms(2)] by (metis prod.collapse)+
  obtain r d' where s: "save v d = (r, d')" by fastforce
  show "P (snd (save v d))"
    using kv_store.save_done [OF K assms(2)] kv_store.save_failed [OF K assms(2)] s by (cases r) auto
  obtain r d' where s: "del n d = (r, d')" by fastforce
  show "P (snd (del n d))"
    using kv_store.del_done [OF K assms(2)] kv_store.del_failed [OF K assms(2)] s by (cases r) auto
qed

lemma other_disks:
  "persist_ok p \<Longrightarrow> fs_good session_key x \<Longrightarrow> persist_ok (p\<lparr>pd_sessions := x\<rparr>) \<and> records (p\<lparr>pd_sessions := x\<rparr>) = records p"
  "persist_ok p \<Longrightarrow> fs_good team_key y \<Longrightarrow> persist_ok (p\<lparr>pd_teams := y\<rparr>) \<and> records (p\<lparr>pd_teams := y\<rparr>) = records p"
  "persist_ok p \<Longrightarrow> fs_good matrix_key z \<Longrightarrow> persist_ok (p\<lparr>pd_matrices := z\<rparr>) \<and> records (p\<lparr>pd_matrices := z\<rparr>) = records p"
  "persist_ok p \<Longrightarrow> fs_good session_key (pd_sessions p)" "persist_ok p \<Longrightarrow> fs_good team_key (pd_teams p)"
  "persist_ok p \<Longrightarrow> fs_good matrix_key (pd_matrices p)"
  by (simp_all add: persist_ok_def records_def)

lemma session_disk_quiet:
  "quiet records persist_ok (kv_Get sessions_in n)" "quiet records persist_ok (kv_List sessions_in)"
  "quiet records persist_ok (kv_Save sessions_in v)" "quiet records persist_ok (ss_ListBySandbox sessions_in n)"
proof -
  note r = reliable_keeps_ok [OF file_store_reliable(3)]
  note q = lens_quiet [where P = "fs_good session_key", OF _ other_disks(4,1)]
  show "quiet records persist_ok (kv_Get sessions_in n)" "quiet records persist_ok (kv_List sessions_in)"
    "quiet records persist_ok (kv_Save sessions_in v)"
    using r by (auto simp: sessions_in_def file_session_store_def intro!: q)
  have "fs_good session_key (snd (FileSessionStore_ListBySandbox n d))" if "fs_good session_key d" for d
    using fs_list_good [OF that, of "''sessions''" "\<lambda>s. se_Sandbox s = n"] that
    by (auto simp: FileSessionStore_ListBySandbox_def)
  then show "quiet records persist_ok (ss_ListBySandbox sessions_in n)"
    by (auto simp: sessions_in_def intro!: q)
qed

lemma team_disk_quiet:
  "quiet records persist_ok (kv_Get teams_in n)" "quiet records persist_ok (kv_List teams_in)"
  "quiet records persist_ok (kv_Save teams_in t)" "quiet records persist_ok (kv_Delete teams_in n)"
  using reliable_keeps_ok [OF file_store_reliable(4)]
  by (auto simp: teams_in_def kv_on_def intro!: lens_quiet [where P = "fs_good team_key", OF _ other_disks(5,2)])

lemma matrix_list_quiet: "quiet records persist_ok (kv_List matrices_in)"
  using reliable_keeps_ok [OF file_store_reliable(2)]
  by (auto simp: matrices_in_def kv_on_def intro!: lens_quiet [where P = "fs_good matrix_key", OF _ other_disks(6,3)])

lemma usage_disk_quiet: "quiet records persist_ok (GetUsage quota_manager t)"
  using reads_only by (intro quietI) (fastforce simp: GetUsage_def quota_manager_def Let_def)

section \<open>The installation\<close>

definition site_server :: "HostEnv \<Rightarrow> (simd, persist) RestServer" where
  "site_server host = \<lparr>sv_ctrl = deployed host, sv_oidc = None, sv_teams = Some teams_in, sv_quota = Some quota_manager,
     sv_has_scaler = True\<rparr>"

text \<open>Bodies are not JSON here but the one string that matters.\<close>

definition site_libs :: "simd RestLibs" where
  "site_libs =
     \<lparr>rl_sandbox = (\<lambda>b _. Inr \<lparr>cs_Name = b, cs_Blueprint = ''go.yaml'', cs_Workspace = '''', cs_Team = ''red''\<rparr>),
      rl_command = (\<lambda>b _. Inr [b]), rl_string = (\<lambda>_ b _. Inr b),
      rl_matrix = (\<lambda>b _. Inr \<lparr>cm_Name = b, cm_Members = [\<lparr>mm_Name = ''x'', mm_Blueprint = ''go.yaml''\<rparr>,
        \<lparr>mm_Name = ''y'', mm_Blueprint = ''go.yaml''\<rparr>], cm_Team = ''''\<rparr>),
      rl_shard = (\<lambda>b _. Inl (ExtErr ''no tasks'')), rl_collect = (\<lambda>b _. Inl (ExtErr ''no task'')),
      rl_upload = (\<lambda>b _. Inr (''/tmp/f'', b)),
      rl_team = (\<lambda>b _. Inl (ExtErr ''no team'')), rl_team_patch = (\<lambda>b _. Inr (Some b, None)),
      rl_member = (\<lambda>b _. Inr (b, RoleViewer)), rl_interpret = (\<lambda>b _. Inr (''python'', b, 0)), rl_priority = (\<lambda>b _. Inr 1),
      rl_base64 = Inr, rl_marshal_task = (\<lambda>t. tk_ID t), rl_task_result = (\<lambda>x. Inl (ExtErr ''no result'')),
      rl_files = (\<lambda>x. Inr []), rl_frames = (\<lambda>out err. [(True, out), (False, err)]), rl_wakes = (\<lambda>n. []),
      rl_committer = Some (docker_committer sim_client), rl_short = ''1a2b3c4d'', rl_upgrade = (\<lambda>r. None),
      rl_version = [(''version'', ''dev'')], rl_metrics = ''''\<rparr>"

interpretation site: rest_env "site_server host" site_libs sim_live sim_used records persist_ok matrices_in matrix_records
  "docker_committer sim_client" for host
proof -
  have ctl: "sv_ctrl (site_server host) = deployed host" by (simp add: site_server_def)
  have rt: "ct_runtime (deployed host) = docker_runtime sim_client sim_dockerhost ''''" by (simp add: deployed_def)
  have "rest_env_axioms (site_server host) site_libs sim_live sim_used records persist_ok matrices_in (docker_committer sim_client)"
  proof (unfold_locales, goal_cases)
    case 1 then show ?case by (rule matrix_list_quiet)
  next
    case (2 ss n v)
    then have "ss = sessions_in" by (simp add: site_server_def deployed_def)
    then show ?case using session_disk_quiet by simp
  next
    case (3 ts n tm)
    then have "ts = teams_in" by (simp add: site_server_def)
    then show ?case using team_disk_quiet by simp
  next
    case (4 qm n)
    then have "qm = quota_manager" by (simp add: site_server_def)
    then show ?case using usage_disk_quiet by simp
  next
    case 5 then show ?case by (simp add: site_libs_def)
  next
    case 6 then show ?case using wsim.rest_keep(3) by (simp add: docker_committer_def docker_ListImages_def [abs_def])
  qed
  moreover have "matrix_env (sv_ctrl (site_server host)) sim_live sim_used records persist_ok matrices_in matrix_records"
    unfolding ctl by (rule depm.matrix_env_axioms)
  moreover have "whole_runtime (ct_runtime (sv_ctrl (site_server host))) sim_live sim_used"
    unfolding ctl rt by (rule wsim.docker_is_whole)
  moreover have "image_building (ct_runtime (sv_ctrl (site_server host))) sim_live sim_used (docker_committer sim_client)"
    unfolding ctl rt by (rule dbuild.image_building_axioms)
  ultimately show "rest_env (site_server host) site_libs sim_live sim_used records persist_ok matrices_in matrix_records
      (docker_committer sim_client)"
    by (simp add: rest_env_def)
qed

section \<open>Sequences of requests\<close>

definition run_requests ::
  "(AuditEntry \<Rightarrow> string res) \<Rightarrow> (JWTLib \<times> JWTService) option \<Rightarrow> (Request \<Rightarrow> string list) \<Rightarrow> 'w RestLibs \<Rightarrow>
   ('w, 'p) RestServer \<Rightarrow> Request list \<Rightarrow> ('w, 'p, 'x) World Web \<Rightarrow> ('w, 'p, 'x) World Web" where
  "run_requests marshal jwt segs l sv rs s = fold (\<lambda>r s. snd (serve_http marshal jwt segs l sv r s)) rs s"

definition site_start :: "(simd, persist, unit) World Web" where
  "site_start = \<lparr>wb_rbac = None, wb_audit = None, wb_clock = int, wb_tick = 1,
     wb_app = \<lparr>wd_api = \<lparr>ap_ctrl = boot, ap_gateway = None\<rparr>,
       wd_login = \<lparr>ls_states = [], ls_rand = (\<lambda>n. Inr ''r''), ls_draw = 0\<rparr>,
       wd_scaler = Some (New_autoscaler DefaultConfig (c_rt boot))\<rparr>\<rparr>"

definition site_request :: "string \<Rightarrow> string \<Rightarrow> string \<Rightarrow> Request" where
  "site_request meth path b = \<lparr>rq_Method = meth, rq_Path = path, rq_Header = [], rq_Query = [], rq_PathValue = [],
     rq_Body = Some b, rq_claims = None, rq_user = None\<rparr>"

text \<open>A request that is served: \<open>POST /api/v1/sandboxes\<close> without access control.\<close>

lemma matching_at:
  assumes "rs = as @ x # bs" and "\<forall>a \<in> set as. \<not> fits segs r a" and "fits segs r x"
  shows "matching segs rs r = Some (x, the (match_segs (rt_Path x) (segs r)))"
proof -
  have "filter (\<lambda>x. method_matches (rt_Method x) (rq_Method r) \<and> match_segs (rt_Path x) (segs r) \<noteq> None) as = []"
    using assms(2) by (simp add: filter_empty_conv fits_def)
  then show ?thesis using assms(3) unfolding matching_def assms(1) fits_def by simp
qed

definition path_segments :: "Request \<Rightarrow> string list" where
  "path_segments r = tl (Split (rq_Path r) slash)"

definition create_a :: Request where
  "create_a = site_request ''POST'' ''/api/v1/sandboxes'' ''a''"

lemma create_a_served:
  "snd (serve_http no_json None path_segments site_libs (site_server demo_host) create_a site_start) =
     site_start\<lparr>wb_app := (wb_app site_start)\<lparr>wd_api := (wd_api (wb_app site_start))\<lparr>ap_ctrl := demo_created\<rparr>\<rparr>\<rparr>"
proof -
  let ?c = "sv_ctrl (site_server demo_host)" and ?rs = "registerRoutes site_libs (site_server demo_host)"
  let ?x = "route ''POST'' ''/api/v1/sandboxes'' (on_api BApi (handleCreateSandbox (rl_sandbox site_libs) ?c))"
  have "?rs = base_routes site_libs ?c @ ?x # tl (sandbox_routes site_libs ?c) @ drop 9 ?rs"
    by (simp add: registerRoutes_def Let_def sandbox_routes_def base_routes_def)
  moreover have "\<forall>a \<in> set (base_routes site_libs ?c). \<not> fits path_segments create_a a"
    by (simp add: base_routes_def route_def fits_def create_a_def site_request_def method_matches_def)
  moreover have "match_segs (pattern ''/api/v1/sandboxes'') (path_segments create_a) = Some []" by code_simp
  ultimately have m: "matching path_segments ?rs create_a = Some (?x, [])"
    using matching_at [of ?rs "base_routes site_libs ?c" ?x _ path_segments create_a]
    by (simp add: route_def fits_def create_a_def site_request_def method_matches_def)
  have h: "handleCreateSandbox (rl_sandbox site_libs) ?c (create_a\<lparr>rq_PathValue := []\<rparr>)
      \<lparr>wb_rbac = None, wb_audit = None, wb_clock = int, wb_tick = 1, wb_app = wd_api (wb_app site_start)\<rparr> =
      (jsonResponse StatusCreated (JSandbox (Some demo_box)),
       \<lparr>wb_rbac = None, wb_audit = None, wb_clock = int, wb_tick = 1, wb_app = (wd_api (wb_app site_start))\<lparr>ap_ctrl := demo_created\<rparr>\<rparr>)"
  proof -
    have "create_options \<lparr>cs_Name = ''a'', cs_Blueprint = ''go.yaml'', cs_Workspace = [], cs_Team = ''red''\<rparr> = demo_options ''a''"
      by (simp add: create_options_def demo_options_def)
    then show ?thesis
      by (simp add: handleCreateSandbox_def decodeJSON_def create_a_def site_request_def site_libs_def site_server_def site_start_def
          on_ctrl_def demo_Create maxRequestBodySize_def)
  qed
  have r: "rq_Method create_a = ''POST''" "rq_Path create_a = ''/api/v1/sandboxes''" "rq_Header create_a = []"
    by (simp_all add: create_a_def site_request_def)
  have d: "snd (dispatch path_segments ?rs create_a site_start) =
      site_start\<lparr>wb_app := (wb_app site_start)\<lparr>wd_api := (wd_api (wb_app site_start))\<lparr>ap_ctrl := demo_created\<rparr>\<rparr>\<rparr>"
    using h by (simp add: dispatch_def m route_def on_api_def part_handler_def site_start_def)
  have n: "wb_rbac site_start = None" by (simp add: site_start_def)
  have j: "snd (case p of (resp, s) \<Rightarrow> (g resp, s)) = snd p" for g :: "rest_body Response \<Rightarrow> rest_body Response"
    and p :: "rest_body Response \<times> (simd, persist, unit) World Web" by (cases p) simp
  show ?thesis
    by (simp add: serve_http_def Handler_def chainMiddleware_def corsMiddleware_def jsonContentTypeMiddleware_def
      AuthMiddleware_def r n j d Let_def)
qed


end
