(* ===== verification/Dashboard.thy ===== *)
theory Dashboard
  imports Site
begin

text \<open>
  \<open>internal/web/dashboard.go\<close>: the web dashboard, a second server over the controller, without access control. The embedded files,
  JSON and the WebSocket library are the fields of \<open>DashLibs\<close>; the frames of an output are cut as in \<open>Handlers\<close>.
\<close>

section \<open>Payloads\<close>

record sandboxJSON =
  dj_Name :: string
  dj_State :: string
  dj_Blueprint :: string
  dj_RuntimeID :: string
  dj_IP :: string
  dj_CreatedAt :: gtime
  dj_StartedAt :: "gtime option"
  dj_ReadyAt :: "gtime option"
  dj_StoppedAt :: "gtime option"
  dj_Message :: string
  dj_ProbeError :: string
  dj_Labels :: "string gomap"
  dj_Resources :: Resources

record matrixJSON =
  dm_Name :: string
  dm_State :: string
  dm_Members :: "MatrixMember list"
  dm_CreatedAt :: gtime
  dm_Sharding :: "ShardingConfig option"
  dm_Aggregation :: "AggregationConfig option"
  dm_Results :: "TaskResult list"

record sessionJSON =
  dn_ID :: string
  dn_Sandbox :: string
  dn_State :: string
  dn_StartedAt :: "gtime option"
  dn_EndedAt :: "gtime option"
  dn_ExecCount :: int

datatype dash_body =
    DMap "string gomap" | DSandboxes "sandboxJSON list" | DMatrices "matrixJSON list" | DSessions "sessionJSON list"
  | DExec int string string | DStream "wsExecEvent list" | DText string | DHijacked

type_synonym ('w, 'p) dash_handler = "Request \<Rightarrow> (dash_body Response, ('w, 'p) cstate) act"

text \<open>\<open>dl_upgrade\<close>: what the first message of the upgraded connection is decoded to, if the upgrade succeeds.\<close>

record DashLibs =
  dl_static :: "string \<Rightarrow> dash_body Response"
  dl_index :: "string res"
  dl_command :: "string \<Rightarrow> bool \<Rightarrow> string res"
  dl_upgrade :: "Request \<Rightarrow> string res option"
  dl_frames :: "string \<Rightarrow> string \<Rightarrow> (bool \<times> string) list"

definition writeJSON :: "int \<Rightarrow> dash_body \<Rightarrow> dash_body Response" where
  "writeJSON status v = \<lparr>rs_Status = status, rs_Header = [(''Content-Type'', ''application/json'')], rs_Body = Payload v\<rparr>"

definition dash_error :: "int \<Rightarrow> string \<Rightarrow> dash_body Response" where
  "dash_error status msg = writeJSON status (DMap [(''error'', msg)])"

text \<open>\<open>http.Error\<close>\<close>

definition http_error :: "int \<Rightarrow> string \<Rightarrow> dash_body Response" where
  "http_error status msg = \<lparr>rs_Status = status, rs_Header = [(''Content-Type'', ''text/plain; charset=utf-8'')], rs_Body = Payload (DText msg)\<rparr>"

definition truncateID :: "string \<Rightarrow> string" where
  "truncateID i = (if length i > 12 then take 12 i else i)"

section \<open>Lists\<close>

definition sandbox_json :: "Sandbox \<Rightarrow> sandboxJSON" where
  "sandbox_json sb =
     \<lparr>dj_Name = om_Name (sb_Metadata sb), dj_State = state_text (st_State (sb_Status sb)), dj_Blueprint = sp_BlueprintRef (sb_Spec sb),
      dj_RuntimeID = truncateID (st_RuntimeID (sb_Status sb)), dj_IP = st_IP (sb_Status sb), dj_CreatedAt = om_CreatedAt (sb_Metadata sb),
      dj_StartedAt = st_StartedAt (sb_Status sb), dj_ReadyAt = st_ReadyAt (sb_Status sb), dj_StoppedAt = st_StoppedAt (sb_Status sb),
      dj_Message = st_Message (sb_Status sb), dj_ProbeError = st_ProbeError (sb_Status sb), dj_Labels = om_Labels (sb_Metadata sb),
      dj_Resources = sp_Resources (sb_Spec sb)\<rparr>"

definition matrix_json :: "Matrix \<Rightarrow> matrixJSON" where
  "matrix_json mx =
     \<lparr>dm_Name = om_Name (mx_Metadata mx), dm_State = matrix_state_text (mx_State mx), dm_Members = mx_Members mx,
      dm_CreatedAt = om_CreatedAt (mx_Metadata mx), dm_Sharding = mx_Sharding mx, dm_Aggregation = mx_Aggregation mx,
      dm_Results = mx_Results mx\<rparr>"

definition session_json :: "Session \<Rightarrow> sessionJSON" where
  "session_json se =
     \<lparr>dn_ID = om_Name (se_Metadata se), dn_Sandbox = se_Sandbox se, dn_State = session_state_text (se_State se),
      dn_StartedAt = se_StartedAt se, dn_EndedAt = se_EndedAt se, dn_ExecCount = se_ExecCount se\<rparr>"

definition dash_ListSandboxes :: "('w, 'p) Controller \<Rightarrow> ('w, 'p) dash_handler" where
  "dash_ListSandboxes c r s =
     (case List c s of
        (Inl e, s1) \<Rightarrow> (dash_error StatusInternalServerError (err_text e), s1)
      | (Inr sandboxes, s1) \<Rightarrow> (writeJSON StatusOK (DSandboxes (map sandbox_json sandboxes)), s1))"

definition dash_ListMatrices :: "('w, 'p) Controller \<Rightarrow> ('w, 'p) dash_handler" where
  "dash_ListMatrices c r s =
     (case ListMatrices c s of
        (Inl e, s1) \<Rightarrow>
          (if Contains (err_text e) ''not configured'' then writeJSON StatusOK (DMatrices [])
           else dash_error StatusInternalServerError (err_text e), s1)
      | (Inr matrices, s1) \<Rightarrow> (writeJSON StatusOK (DMatrices (map matrix_json matrices)), s1))"

definition dash_ListSessions :: "('w, 'p) Controller \<Rightarrow> ('w, 'p) dash_handler" where
  "dash_ListSessions c r s =
     (case ListSessions c [] s of
        (Inl e, s1) \<Rightarrow>
          (if Contains (err_text e) ''not configured'' then writeJSON StatusOK (DSessions [])
           else dash_error StatusInternalServerError (err_text e), s1)
      | (Inr sessions, s1) \<Rightarrow> (writeJSON StatusOK (DSessions (map session_json sessions)), s1))"

section \<open>Operations on a sandbox\<close>

definition dash_operation :: "string \<Rightarrow> (string \<Rightarrow> (unit res, ('w, 'p) cstate) act) \<Rightarrow> ('w, 'p) dash_handler" where
  "dash_operation done op r s =
     (let name = gm_str (rq_PathValue r) ''name'' in
      if name = [] then (dash_error StatusBadRequest ''sandbox name required'', s)
      else case op name s of
        (Inl e, s1) \<Rightarrow> (dash_error StatusInternalServerError (err_text e), s1)
      | (Inr _, s1) \<Rightarrow> (writeJSON StatusOK (DMap [(''status'', done), (''name'', name)]), s1))"

definition dash_StopSandbox :: "('w, 'p) Controller \<Rightarrow> ('w, 'p) dash_handler" where
  "dash_StopSandbox c = dash_operation ''stopped'' (Stop c)"

definition dash_StartSandbox :: "('w, 'p) Controller \<Rightarrow> ('w, 'p) dash_handler" where
  "dash_StartSandbox c = dash_operation ''started'' (Start c)"

definition dash_DestroySandbox :: "('w, 'p) Controller \<Rightarrow> ('w, 'p) dash_handler" where
  "dash_DestroySandbox c = dash_operation ''destroyed'' (Destroy c)"

section \<open>Running a command\<close>

definition dash_limit :: nat where
  "dash_limit = 10485760"

definition dash_exec ::
  "DashLibs \<Rightarrow> ('w, 'p) Controller \<Rightarrow> string \<Rightarrow> string \<Rightarrow> ((int \<times> string \<times> string) res, ('w, 'p) cstate) act" where
  "dash_exec l c name command s =
     (case Exec c name (exec_config [''sh'', ''-c'', command]) s of
        ((result, Some e), s1) \<Rightarrow> (Inl e, s1)
      | ((result, None), s1) \<Rightarrow>
          (case std_copy dash_limit (dl_frames l (er_Stdout result) (er_Stderr result)) [] [] of (out, err) \<Rightarrow>
           (Inr (er_ExitCode result, out, err), s1)))"

definition stream_events :: "(int \<times> string \<times> string) res \<Rightarrow> wsExecEvent list" where
  "stream_events r =
     (case r of
        Inl e \<Rightarrow> [event ''error'' (err_text e) 0]
      | Inr (code, out, err) \<Rightarrow>
          (if out \<noteq> [] then [event ''stdout'' out 0] else []) @ (if err \<noteq> [] then [event ''stderr'' err 0] else []) @
          [event ''exit'' [] code])"

text \<open>The events the server writes; errors of writing are ignored.\<close>

definition dash_ExecWS :: "DashLibs \<Rightarrow> ('w, 'p) Controller \<Rightarrow> ('w, 'p) dash_handler" where
  "dash_ExecWS l c r s =
     (let name = gm_str (rq_PathValue r) ''name'';
          stream = (\<lambda>es. \<lparr>rs_Status = 101, rs_Header = [], rs_Body = Payload (DStream es)\<rparr>) in
      if name = [] then (http_error StatusBadRequest ''sandbox name required'', s)
      else case dl_upgrade l r of
        None \<Rightarrow> (\<lparr>rs_Status = StatusBadRequest, rs_Header = [], rs_Body = Payload DHijacked\<rparr>, s)
      | Some (Inl e) \<Rightarrow> (stream [event ''error'' (err_text e) 0], s)
      | Some (Inr command) \<Rightarrow>
          if command = [] then (stream [event ''error'' ''command is required'' 0], s)
          else case dash_exec l c name command s of (res, s1) \<Rightarrow> (stream (stream_events res), s1))"

definition dash_ExecREST :: "DashLibs \<Rightarrow> ('w, 'p) Controller \<Rightarrow> ('w, 'p) dash_handler" where
  "dash_ExecREST l c r s =
     (let name = gm_str (rq_PathValue r) ''name'';
          body = (case rq_Body r of None \<Rightarrow> [] | Some b \<Rightarrow> b) in
      if name = [] then (dash_error StatusBadRequest ''sandbox name required'', s)
      else case dl_command l (take maxRequestBodySize body) (length body > maxRequestBodySize) of
        Inl _ \<Rightarrow> (dash_error StatusBadRequest ''invalid request'', s)
      | Inr command \<Rightarrow>
          if command = [] then (dash_error StatusBadRequest ''command is required'', s)
          else case dash_exec l c name command s of
            (Inl e, s1) \<Rightarrow> (dash_error StatusInternalServerError (err_text e), s1)
          | (Inr (code, out, err), s1) \<Rightarrow> (writeJSON StatusOK (DExec code out err), s1))"

section \<open>Routes\<close>

definition dash_routes :: "DashLibs \<Rightarrow> ('w, 'p) Controller \<Rightarrow> ('w, 'p) dash_handler Route list" where
  "dash_routes l c =
     [route ''GET'' ''/api/dashboard/sandboxes'' (dash_ListSandboxes c),
      route ''GET'' ''/api/dashboard/matrices'' (dash_ListMatrices c),
      route ''GET'' ''/api/dashboard/sessions'' (dash_ListSessions c),
      route ''POST'' ''/api/dashboard/sandboxes/{name}/stop'' (dash_StopSandbox c),
      route ''POST'' ''/api/dashboard/sandboxes/{name}/start'' (dash_StartSandbox c),
      route ''DELETE'' ''/api/dashboard/sandboxes/{name}'' (dash_DestroySandbox c),
      route ''GET'' ''/api/dashboard/sandboxes/{name}/exec'' (dash_ExecWS l c),
      route ''POST'' ''/api/dashboard/sandboxes/{name}/exec'' (dash_ExecREST l c)]"

text \<open>The page at the root. The patterns \<open>GET /static/\<close> and \<open>GET /\<close> end in a slash and match every path below; the routes above are
  more specific and come first.\<close>

definition dash_index :: "DashLibs \<Rightarrow> Request \<Rightarrow> dash_body Response" where
  "dash_index l r =
     (if rq_Path r \<noteq> ''/'' then http_error StatusNotFound ''404 page not found''
      else case dl_index l of
        Inl _ \<Rightarrow> http_error StatusInternalServerError ''dashboard not found''
      | Inr data \<Rightarrow> \<lparr>rs_Status = StatusOK, rs_Header = [(''Content-Type'', ''text/html; charset=utf-8'')], rs_Body = Payload (DText data)\<rparr>)"

definition dash_serve :: "DashLibs \<Rightarrow> (Request \<Rightarrow> string list) \<Rightarrow> ('w, 'p) Controller \<Rightarrow> ('w, 'p) dash_handler" where
  "dash_serve l segments c r s =
     (case matching segments (dash_routes l c) r of
        Some (x, vars) \<Rightarrow> rt_Handler x (r\<lparr>rq_PathValue := vars\<rparr>) s
      | None \<Rightarrow>
          (if \<not> method_matches ''GET'' (rq_Method r) then http_error 405 ''Method Not Allowed''
           else if HasPrefix (rq_Path r) ''/static/'' then dl_static l (TrimPrefix (rq_Path r) ''/static/'')
           else dash_index l r, s))"

section \<open>The invariant\<close>

context rest_env
begin

lemma dash_exec_held [preserve_intros]: "preserves held (dash_exec dl ctl n cmd)"
  unfolding dash_exec_def by (intro preserve_intros; assumption?)

lemma dash_operation_held: "(\<And>n. preserves held (op n)) \<Longrightarrow> preserves held (dash_operation done op r)"
  unfolding dash_operation_def [abs_def] Let_def by (intro preserve_intros; assumption)

lemma dash_handlers_held:
  "preserves held (dash_ListSandboxes ctl r)" "preserves held (dash_ListMatrices ctl r)" "preserves held (dash_ListSessions ctl r)"
  "preserves held (dash_ExecWS dl ctl r)" "preserves held (dash_ExecREST dl ctl r)"
  unfolding dash_ListSandboxes_def [abs_def] dash_ListMatrices_def [abs_def] dash_ListSessions_def [abs_def] dash_ExecWS_def [abs_def]
    dash_ExecREST_def [abs_def] Let_def
  by (intro preserve_intros; assumption?)+

lemma dash_changes_held:
  "preserves held (dash_StopSandbox ctl r)" "preserves held (dash_StartSandbox ctl r)" "preserves held (dash_DestroySandbox ctl r)"
  unfolding dash_StopSandbox_def dash_StartSandbox_def dash_DestroySandbox_def
  by (intro dash_operation_held request_held)+

lemma dash_routes_held: "x \<in> set (dash_routes dl ctl) \<Longrightarrow> preserves held (rt_Handler x r)"
  unfolding dash_routes_def route_def using dash_handlers_held dash_changes_held by auto

lemma dash_serve_held: "preserves held (dash_serve dl segs ctl r)"
proof (cases "matching segs (dash_routes dl ctl) r")
  case None
  then show ?thesis by (simp add: dash_serve_def [abs_def] preserves_def)
next
  case (Some xv)
  obtain x vars where x: "xv = (x, vars)" by fastforce
  with Some have "x \<in> set (dash_routes dl ctl)"
    by (auto simp: matching_def split: list.splits dest!: arg_cong [of _ _ set])
  from dash_routes_held [OF this] Some x show ?thesis by (simp add: dash_serve_def [abs_def])
qed

end

definition dash_run :: "DashLibs \<Rightarrow> (Request \<Rightarrow> string list) \<Rightarrow> ('w, 'p) Controller \<Rightarrow> Request list \<Rightarrow> ('w, 'p) cstate \<Rightarrow> ('w, 'p) cstate" where
  "dash_run l segments c rs s = fold (\<lambda>r s. snd (dash_serve l segments c r s)) rs s"

text \<open>C35. Every sequence of requests to the dashboard keeps the invariant between records, containers and gauge.\<close>

theorem dashboard_invariant:
  assumes "rest_env sv l live used recs ok ms mrecs com" and "ok (c_ps s)" and "view_inv (view_of live used recs s)"
  shows "view_inv (view_of live used recs (dash_run dl segs (sv_ctrl sv) rs s))"
proof -
  let ?I = "rest_env.held live used recs ok"
  note held = rest_env.held_def [OF assms(1)]
  have "?I s" using assms(2,3) by (simp add: held)
  from preserves_fold [where I = ?I, OF rest_env.dash_serve_held [OF assms(1)] this]
  have "?I (dash_run dl segs (sv_ctrl sv) rs s)" by (simp add: dash_run_def)
  then show ?thesis by (simp add: held)
qed

definition demo_dash :: DashLibs where
  "demo_dash = \<lparr>dl_static = (\<lambda>p. http_error StatusNotFound p), dl_index = Inr ''page'', dl_command = (\<lambda>b _. Inr b),
     dl_upgrade = (\<lambda>r. None), dl_frames = (\<lambda>out err. [(True, out), (False, err)])\<rparr>"

definition stop_a :: Request where
  "stop_a = site_request ''POST'' ''/api/dashboard/sandboxes/a/stop'' []"

theorem dashboard_invariant_witness:
  "view_inv (view_of sim_live sim_used records (dash_run demo_dash path_segments (sv_ctrl (site_server demo_host)) [stop_a] demo_created)) \<and>
   c_SandboxesActive (dash_run demo_dash path_segments (sv_ctrl (site_server demo_host)) [stop_a] demo_created) = 0"
proof
  have "demo_created = perform (deployed demo_host) (ReqCreate (demo_options ''a'')) boot" by (simp add: demo_created_def)
  then have "view_inv (view_of sim_live sim_used records demo_created) \<and> persist_ok (c_ps demo_created)"
    using controller_reliable.perform_effect [OF dep.controller_reliable_axioms boot_ok] effect_inv boot_inv by metis
  then show "view_inv (view_of sim_live sim_used records
      (dash_run demo_dash path_segments (sv_ctrl (site_server demo_host)) [stop_a] demo_created))"
    by (intro dashboard_invariant [OF site.rest_env_axioms]) simp_all
  show "c_SandboxesActive (dash_run demo_dash path_segments (sv_ctrl (site_server demo_host)) [stop_a] demo_created) = 0"
    by code_simp
qed

end
