(* ===== verification/ClientSdk.thy ===== *)
theory ClientSdk
  imports Interpreter GoFloat
begin

text \<open>
  \<open>sdk/go\<close>: the Go client of the REST API. A \<open>Client\<close> holds the function \<open>Do\<close> of its \<open>http.Client\<close>, which is a parameter, as are
  \<open>http.NewRequest\<close>'s check of the URL, \<open>json.Marshal\<close> and, for every type that is decoded, \<open>json.Unmarshal\<close>. The escaping of
  \<open>net/url\<close> is written out, since the names of sandboxes go through it. The shell commands the client has run in a sandbox are
  read back by \<open>sh_lex\<close>, the token recognition of the POSIX shell.
\<close>

section \<open>Escaping\<close>

definition upper_hex :: "nat \<Rightarrow> char" where
  "upper_hex n = (if n < 10 then char_of (48 + n) else char_of (55 + n))"

definition percent :: char where
  "percent = CHR 0x25"

definition escape_byte :: "char \<Rightarrow> string" where
  "escape_byte c = (let n = of_char c :: nat in [percent, upper_hex (n div 16), upper_hex (n mod 16)])"

definition unreserved :: "char \<Rightarrow> bool" where
  "unreserved c \<longleftrightarrow> (let n = of_char c :: nat in 97 \<le> n \<and> n \<le> 122 \<or> 65 \<le> n \<and> n \<le> 90 \<or> 48 \<le> n \<and> n \<le> 57) \<or>
     c \<in> set ''-_.~''"

text \<open>\<open>url.PathEscape\<close> and \<open>url.QueryEscape\<close>\<close>

definition PathEscape :: "string \<Rightarrow> string" where
  "PathEscape s = concat (map (\<lambda>c. if unreserved c \<or> c \<in> set ''$&+=:@'' then [c] else escape_byte c) s)"

definition QueryEscape :: "string \<Rightarrow> string" where
  "QueryEscape s = concat (map (\<lambda>c. if unreserved c then [c] else if c = CHR '' '' then ''+'' else escape_byte c) s)"

section \<open>Data\<close>

record ClientSandbox =
  cb_Name :: string
  cb_State :: string
  cb_Blueprint :: string
  cb_RuntimeID :: string
  cb_IP :: string
  cb_CreatedAt :: string

record ClientExecResult =
  ce_ExitCode :: int
  ce_Stdout :: string
  ce_Stderr :: string

record ClientStats =
  ck_CPUUsage :: f64
  ck_MemoryUsage :: nat
  ck_MemoryLimit :: nat

record SnapshotResult =
  sr_SnapshotID :: string
  sr_Tag :: string

record ClientSnapshot =
  cp_ID :: string
  cp_Tag :: string
  cp_CreatedAt :: string
  cp_Size :: int

record ClientMember =
  cj_Name :: string
  cj_Blueprint :: string

record ClientMatrix =
  cx_Name :: string
  cx_State :: string
  cx_Members :: "ClientMember list"

record ClientSession =
  cn_ID :: string
  cn_Sandbox :: string
  cn_State :: string
  cn_ExecCount :: int

record ClientFileInfo =
  fi_Name :: string
  fi_Path :: string
  fi_Size :: int
  fi_IsDir :: bool
  fi_ModTime :: string

record VersionInfo =
  vi_Version :: string
  vi_Commit :: string
  vi_BuildDate :: string
  vi_GoVersion :: string
  vi_OS :: string
  vi_Arch :: string

record HealthResponse =
  hr_Status :: string

record apiSandbox =
  as_Name :: string
  as_CreatedAt :: string
  as_BlueprintRef :: string
  as_State :: string
  as_RuntimeID :: string
  as_IP :: string

definition parseSandbox :: "apiSandbox \<Rightarrow> ClientSandbox" where
  "parseSandbox a = \<lparr>cb_Name = as_Name a, cb_State = as_State a, cb_Blueprint = as_BlueprintRef a,
     cb_RuntimeID = as_RuntimeID a, cb_IP = as_IP a, cb_CreatedAt = as_CreatedAt a\<rparr>"

text \<open>The zero values of the types a response is decoded into.\<close>

definition zero_api :: apiSandbox where
  "zero_api = \<lparr>as_Name = [], as_CreatedAt = [], as_BlueprintRef = [], as_State = [], as_RuntimeID = [], as_IP = []\<rparr>"

definition zero_exec :: ClientExecResult where
  "zero_exec = \<lparr>ce_ExitCode = 0, ce_Stdout = [], ce_Stderr = []\<rparr>"

definition zero_stats :: ClientStats where
  "zero_stats = \<lparr>ck_CPUUsage = Fin 0, ck_MemoryUsage = 0, ck_MemoryLimit = 0\<rparr>"

definition zero_snapshot :: SnapshotResult where
  "zero_snapshot = \<lparr>sr_SnapshotID = [], sr_Tag = []\<rparr>"

definition zero_matrix :: ClientMatrix where
  "zero_matrix = \<lparr>cx_Name = [], cx_State = [], cx_Members = []\<rparr>"

definition zero_session :: ClientSession where
  "zero_session = \<lparr>cn_ID = [], cn_Sandbox = [], cn_State = [], cn_ExecCount = 0\<rparr>"

definition zero_version :: VersionInfo where
  "zero_version = \<lparr>vi_Version = [], vi_Commit = [], vi_BuildDate = [], vi_GoVersion = [], vi_OS = [], vi_Arch = []\<rparr>"

text \<open>Errors: \<open>Error\<close>, \<open>NotFoundError\<close>, \<open>NotRunningError\<close>, and the others.\<close>

datatype sdk_error = ApiError int string | NotFoundError string | NotRunningError string | OtherError goerr

definition sdk_error_text :: "sdk_error \<Rightarrow> string" where
  "sdk_error_text e =
     (case e of
        ApiError code msg \<Rightarrow> err_text (Errorf ''sandboxmatrix API error (%d): %s'' [AInt code, AStr msg])
      | NotFoundError msg \<Rightarrow> err_text (Errorf ''not found: %s'' [AStr msg])
      | NotRunningError msg \<Rightarrow> err_text (Errorf ''not running: %s'' [AStr msg])
      | OtherError err \<Rightarrow> err_text err)"

section \<open>The client\<close>

datatype sdk_body = BodyMap "string gomap" | BodyCommand "string list" | BodyMatrix string "ClientMember list"

record OutRequest =
  oq_Method :: string
  oq_URL :: string
  oq_Header :: "string gomap"
  oq_Body :: "string option"

record InResponse =
  ip_Status :: int
  ip_Body :: "string res"

record SdkLibs =
  sk_marshal :: "sdk_body \<Rightarrow> string res"
  sk_new_request :: "string \<Rightarrow> string \<Rightarrow> unit res"
  sk_error :: "string \<Rightarrow> string res"
  sk_health :: "string \<Rightarrow> HealthResponse res"
  sk_version :: "string \<Rightarrow> VersionInfo res"
  sk_sandbox :: "string \<Rightarrow> apiSandbox res"
  sk_sandboxes :: "string \<Rightarrow> apiSandbox list res"
  sk_exec :: "string \<Rightarrow> ClientExecResult res"
  sk_stats :: "string \<Rightarrow> ClientStats res"
  sk_snapshot :: "string \<Rightarrow> SnapshotResult res"
  sk_snapshots :: "string \<Rightarrow> ClientSnapshot list res"
  sk_matrix :: "string \<Rightarrow> ClientMatrix res"
  sk_matrices :: "string \<Rightarrow> ClientMatrix list res"
  sk_session :: "string \<Rightarrow> ClientSession res"
  sk_sessions :: "string \<Rightarrow> ClientSession list res"
  sk_files :: "string \<Rightarrow> ClientFileInfo list res"

record 'n Client =
  cl_baseURL :: string
  cl_token :: string
  cl_Do :: "OutRequest \<Rightarrow> (InResponse res, 'n) act"

type_synonym ('a, 'n) call = "(sdk_error + 'a, 'n) act"

definition WithToken :: "string \<Rightarrow> 'n Client \<Rightarrow> 'n Client" where
  "WithToken token c = c\<lparr>cl_token := token\<rparr>"

definition WithHTTPClient :: "(OutRequest \<Rightarrow> (InResponse res, 'n) act) \<Rightarrow> 'n Client \<Rightarrow> 'n Client" where
  "WithHTTPClient hc c = c\<lparr>cl_Do := hc\<rparr>"

text \<open>\<open>hc\<close> is a new \<open>http.Client\<close> with a timeout of 30 seconds.\<close>

definition NewClient ::
  "(OutRequest \<Rightarrow> (InResponse res, 'n) act) \<Rightarrow> string \<Rightarrow> ('n Client \<Rightarrow> 'n Client) list \<Rightarrow> 'n Client" where
  "NewClient hc baseURL opts =
     fold (\<lambda>opt c. opt c) opts
       \<lparr>cl_baseURL = rev (dropWhile (\<lambda>c. c = slash) (rev baseURL)), cl_token = [], cl_Do = hc\<rparr>"

definition request_headers :: "'n Client \<Rightarrow> string gomap" where
  "request_headers c =
     (''Content-Type'', ''application/json'') # (if cl_token c \<noteq> [] then [(''Authorization'', ''Bearer '' @ cl_token c)] else [])"

definition response_error :: "SdkLibs \<Rightarrow> int \<Rightarrow> string \<Rightarrow> sdk_error" where
  "response_error l status body =
     (let msg = (case sk_error l body of Inr m \<Rightarrow> if m \<noteq> [] then m else body | Inl _ \<Rightarrow> body) in
      if status = StatusNotFound then NotFoundError msg else ApiError status msg)"

text \<open>\<open>dst = None\<close> discards the body; otherwise the decoder and the zero value it starts from.\<close>

definition sdk_request ::
  "SdkLibs \<Rightarrow> 'n Client \<Rightarrow> string \<Rightarrow> string \<Rightarrow> sdk_body option \<Rightarrow> (string \<Rightarrow> 'a res) option \<Rightarrow> 'a \<Rightarrow> ('a, 'n) call" where
  "sdk_request l c meth path body dst zero n =
     (let url = cl_baseURL c @ ''/api/v1'' @ path in
      case (case body of None \<Rightarrow> Inr None | Some b \<Rightarrow> map_sum id Some (sk_marshal l b)) of
        Inl e \<Rightarrow> (Inl (OtherError (Errorf ''marshal request body: %w'' [AErr e])), n)
      | Inr data \<Rightarrow>
          case sk_new_request l meth url of
            Inl e \<Rightarrow> (Inl (OtherError (Errorf ''create request: %w'' [AErr e])), n)
          | Inr _ \<Rightarrow>
              case cl_Do c \<lparr>oq_Method = meth, oq_URL = url, oq_Header = request_headers c, oq_Body = data\<rparr> n of
                (Inl e, n1) \<Rightarrow> (Inl (OtherError (Errorf ''do request: %w'' [AErr e])), n1)
              | (Inr resp, n1) \<Rightarrow>
                  (case ip_Body resp of
                     Inl e \<Rightarrow> (Inl (OtherError (Errorf ''read response: %w'' [AErr e])), n1)
                   | Inr text \<Rightarrow>
                       if ip_Status resp \<ge> 400 then (Inl (response_error l (ip_Status resp) text), n1)
                       else case dst of
                         None \<Rightarrow> (Inr zero, n1)
                       | Some decode \<Rightarrow>
                           if text = [] then (Inr zero, n1)
                           else case decode text of
                             Inl e \<Rightarrow> (Inl (OtherError (Errorf ''decode response: %w'' [AErr e])), n1)
                           | Inr v \<Rightarrow> (Inr v, n1)))"

definition sdk_command :: "SdkLibs \<Rightarrow> 'n Client \<Rightarrow> string \<Rightarrow> string \<Rightarrow> (unit, 'n) call" where
  "sdk_command l c meth path = sdk_request l c meth path None None ()"

definition sdk_fetch :: "SdkLibs \<Rightarrow> 'n Client \<Rightarrow> string \<Rightarrow> (string \<Rightarrow> 'a res) \<Rightarrow> 'a \<Rightarrow> ('a, 'n) call" where
  "sdk_fetch l c path decode zero = sdk_request l c ''GET'' path None (Some decode) zero"

definition sdk_post :: "SdkLibs \<Rightarrow> 'n Client \<Rightarrow> string \<Rightarrow> sdk_body \<Rightarrow> (string \<Rightarrow> 'a res) \<Rightarrow> 'a \<Rightarrow> ('a, 'n) call" where
  "sdk_post l c path body decode zero = sdk_request l c ''POST'' path (Some body) (Some decode) zero"

section \<open>Operations\<close>

definition Health :: "SdkLibs \<Rightarrow> 'n Client \<Rightarrow> (HealthResponse, 'n) call" where
  "Health l c = sdk_fetch l c ''/health'' (sk_health l) \<lparr>hr_Status = []\<rparr>"

definition Version :: "SdkLibs \<Rightarrow> 'n Client \<Rightarrow> (VersionInfo, 'n) call" where
  "Version l c = sdk_fetch l c ''/version'' (sk_version l) zero_version"

definition CreateSandbox :: "SdkLibs \<Rightarrow> 'n Client \<Rightarrow> string \<Rightarrow> string \<Rightarrow> string \<Rightarrow> (ClientSandbox, 'n) call" where
  "CreateSandbox l c name blueprint workspace n =
     apfst (map_sum id parseSandbox)
       (sdk_post l c ''/sandboxes''
         (BodyMap ([(''name'', name), (''blueprint'', blueprint)] @ (if workspace \<noteq> [] then [(''workspace'', workspace)] else [])))
         (sk_sandbox l) zero_api n)"

definition sandbox_path :: "string \<Rightarrow> string \<Rightarrow> string" where
  "sandbox_path name rest = ''/sandboxes/'' @ PathEscape name @ rest"

definition GetSandbox :: "SdkLibs \<Rightarrow> 'n Client \<Rightarrow> string \<Rightarrow> (ClientSandbox, 'n) call" where
  "GetSandbox l c name n = apfst (map_sum id parseSandbox) (sdk_fetch l c (sandbox_path name []) (sk_sandbox l) zero_api n)"

definition ListSandboxes :: "SdkLibs \<Rightarrow> 'n Client \<Rightarrow> (ClientSandbox list, 'n) call" where
  "ListSandboxes l c n = apfst (map_sum id (map parseSandbox)) (sdk_fetch l c ''/sandboxes'' (sk_sandboxes l) [] n)"

definition StartSandbox :: "SdkLibs \<Rightarrow> 'n Client \<Rightarrow> string \<Rightarrow> (unit, 'n) call" where
  "StartSandbox l c name = sdk_command l c ''POST'' (sandbox_path name ''/start'')"

definition StopSandbox :: "SdkLibs \<Rightarrow> 'n Client \<Rightarrow> string \<Rightarrow> (unit, 'n) call" where
  "StopSandbox l c name = sdk_command l c ''POST'' (sandbox_path name ''/stop'')"

definition DestroySandbox :: "SdkLibs \<Rightarrow> 'n Client \<Rightarrow> string \<Rightarrow> (unit, 'n) call" where
  "DestroySandbox l c name = sdk_command l c ''DELETE'' (sandbox_path name [])"

definition ExecRaw :: "SdkLibs \<Rightarrow> 'n Client \<Rightarrow> string \<Rightarrow> string list \<Rightarrow> (ClientExecResult, 'n) call" where
  "ExecRaw l c name command = sdk_post l c (sandbox_path name ''/exec'') (BodyCommand command) (sk_exec l) zero_exec"

definition SdkExec :: "SdkLibs \<Rightarrow> 'n Client \<Rightarrow> string \<Rightarrow> string \<Rightarrow> (ClientExecResult, 'n) call" where
  "SdkExec l c name command =
     sdk_post l c (sandbox_path name ''/exec'') (BodyCommand [''sh'', ''-c'', command]) (sk_exec l) zero_exec"

definition SdkStats :: "SdkLibs \<Rightarrow> 'n Client \<Rightarrow> string \<Rightarrow> (ClientStats, 'n) call" where
  "SdkStats l c name = sdk_fetch l c (sandbox_path name ''/stats'') (sk_stats l) zero_stats"

definition CreateSnapshot :: "SdkLibs \<Rightarrow> 'n Client \<Rightarrow> string \<Rightarrow> string \<Rightarrow> (SnapshotResult, 'n) call" where
  "CreateSnapshot l c name tag =
     sdk_post l c (sandbox_path name ''/snapshots'') (BodyMap (if tag \<noteq> [] then [(''tag'', tag)] else [])) (sk_snapshot l) zero_snapshot"

definition SdkListSnapshots :: "SdkLibs \<Rightarrow> 'n Client \<Rightarrow> string \<Rightarrow> (ClientSnapshot list, 'n) call" where
  "SdkListSnapshots l c name = sdk_fetch l c (sandbox_path name ''/snapshots'') (sk_snapshots l) []"

definition SdkCreateMatrix :: "SdkLibs \<Rightarrow> 'n Client \<Rightarrow> string \<Rightarrow> ClientMember list \<Rightarrow> (ClientMatrix, 'n) call" where
  "SdkCreateMatrix l c name members = sdk_post l c ''/matrices'' (BodyMatrix name members) (sk_matrix l) zero_matrix"

definition matrix_path :: "string \<Rightarrow> string \<Rightarrow> string" where
  "matrix_path name rest = ''/matrices/'' @ PathEscape name @ rest"

definition SdkGetMatrix :: "SdkLibs \<Rightarrow> 'n Client \<Rightarrow> string \<Rightarrow> (ClientMatrix, 'n) call" where
  "SdkGetMatrix l c name = sdk_fetch l c (matrix_path name []) (sk_matrix l) zero_matrix"

definition SdkListMatrices :: "SdkLibs \<Rightarrow> 'n Client \<Rightarrow> (ClientMatrix list, 'n) call" where
  "SdkListMatrices l c = sdk_fetch l c ''/matrices'' (sk_matrices l) []"

definition SdkStartMatrix :: "SdkLibs \<Rightarrow> 'n Client \<Rightarrow> string \<Rightarrow> (unit, 'n) call" where
  "SdkStartMatrix l c name = sdk_command l c ''POST'' (matrix_path name ''/start'')"

definition SdkStopMatrix :: "SdkLibs \<Rightarrow> 'n Client \<Rightarrow> string \<Rightarrow> (unit, 'n) call" where
  "SdkStopMatrix l c name = sdk_command l c ''POST'' (matrix_path name ''/stop'')"

definition SdkDestroyMatrix :: "SdkLibs \<Rightarrow> 'n Client \<Rightarrow> string \<Rightarrow> (unit, 'n) call" where
  "SdkDestroyMatrix l c name = sdk_command l c ''DELETE'' (matrix_path name [])"

definition SdkStartSession :: "SdkLibs \<Rightarrow> 'n Client \<Rightarrow> string \<Rightarrow> (ClientSession, 'n) call" where
  "SdkStartSession l c sandbox = sdk_post l c ''/sessions'' (BodyMap [(''sandbox'', sandbox)]) (sk_session l) zero_session"

definition SdkListSessions :: "SdkLibs \<Rightarrow> 'n Client \<Rightarrow> string \<Rightarrow> (ClientSession list, 'n) call" where
  "SdkListSessions l c sandbox =
     sdk_fetch l c (''/sessions'' @ (if sandbox \<noteq> [] then ''?sandbox='' @ QueryEscape sandbox else [])) (sk_sessions l) []"

definition SdkEndSession :: "SdkLibs \<Rightarrow> 'n Client \<Rightarrow> string \<Rightarrow> (unit, 'n) call" where
  "SdkEndSession l c i = sdk_command l c ''POST'' (''/sessions/'' @ PathEscape i @ ''/end'')"

section \<open>Files\<close>

abbreviation eol :: char where
  "eol \<equiv> CHR 0x0A"

abbreviation backslash :: char where
  "backslash \<equiv> CHR 0x5C"

abbreviation dquote :: char where
  "dquote \<equiv> CHR 0x22"

text \<open>Every quote is replaced by a quote, a backslash and two quotes.\<close>

definition escape_quotes :: "string \<Rightarrow> string" where
  "escape_quotes s = concat (map (\<lambda>c. if c = quote then [quote, backslash, quote, quote] else [c]) s)"

definition shellQuote :: "string \<Rightarrow> string" where
  "shellQuote s = [quote] @ escape_quotes s @ [quote]"

definition pathDir :: "string \<Rightarrow> string" where
  "pathDir p =
     (let upto = rev (dropWhile (\<lambda>c. c \<noteq> slash) (rev p)) in
      if length upto \<le> 1 then ''/'' else butlast upto)"

definition write_file_command :: "string \<Rightarrow> string \<Rightarrow> string" where
  "write_file_command path data =
     ''mkdir -p '' @ shellQuote (pathDir path) @ '' && echo '' @ [quote] @ base64_encode data @ [quote] @
     '' | base64 -d > '' @ shellQuote path"

definition exit_error :: "string \<Rightarrow> ClientExecResult \<Rightarrow> sdk_error" where
  "exit_error what result =
     ApiError 0 (err_text (Errorf (what @ '' failed (exit %d): %s'') [AInt (ce_ExitCode result), AStr (ce_Stderr result)]))"

text \<open>\<open>content\<close> is what reading the reader to its end yields.\<close>

definition SdkWriteFile :: "SdkLibs \<Rightarrow> 'n Client \<Rightarrow> string \<Rightarrow> string \<Rightarrow> string res \<Rightarrow> (unit, 'n) call" where
  "SdkWriteFile l c sandbox path content n =
     (case content of
        Inl e \<Rightarrow> (Inl (OtherError (Errorf ''read content: %w'' [AErr e])), n)
      | Inr data \<Rightarrow>
          (case SdkExec l c sandbox (write_file_command path data) n of
             (Inl e, n1) \<Rightarrow> (Inl e, n1)
           | (Inr result, n1) \<Rightarrow>
               (if ce_ExitCode result \<noteq> 0 then Inl (exit_error ''write file'' result) else Inr (), n1)))"

definition read_file_command :: "string \<Rightarrow> string" where
  "read_file_command path = ''base64 '' @ shellQuote path"

definition decode_output :: "string \<Rightarrow> string option" where
  "decode_output out = base64_decode (concat (Fields out))"

definition SdkReadFile :: "SdkLibs \<Rightarrow> 'n Client \<Rightarrow> string \<Rightarrow> string \<Rightarrow> (string, 'n) call" where
  "SdkReadFile l c sandbox path n =
     (case SdkExec l c sandbox (read_file_command path) n of
        (Inl e, n1) \<Rightarrow> (Inl e, n1)
      | (Inr result, n1) \<Rightarrow>
          (if ce_ExitCode result \<noteq> 0 then Inl (exit_error ''read file'' result)
           else case decode_output (ce_Stdout result) of
             None \<Rightarrow> Inl (OtherError (ExtErr ''illegal base64 data''))
           | Some data \<Rightarrow> Inr data, n1))"

text \<open>The Python program, with \<open>~\<close> for a quote.\<close>

definition quoted :: "string \<Rightarrow> string" where
  "quoted s = map (\<lambda>c. if c = CHR 0x7E then quote else c) s"

definition list_files_command :: "string \<Rightarrow> string" where
  "list_files_command path =
     ''python3 -c '' @ [dquote, eol] @
     ''import os, json, sys'' @ [eol] @
     ''entries = []'' @ [eol] @
     ''d = '' @ [quote] @ escape_quotes path @ [quote, eol] @
     ''for name in sorted(os.listdir(d)):'' @ [eol] @
     ''    full = os.path.join(d, name)'' @ [eol] @
     ''    try:'' @ [eol] @
     ''        st = os.stat(full)'' @ [eol] @
     quoted ''        entries.append({~name~: name, ~path~: full, ~size~: st.st_size, ~isDir~: os.path.isdir(full)})'' @ [eol] @
     ''    except: pass'' @ [eol] @
     ''print(json.dumps(entries))'' @ [eol] @
     [dquote] @ '' 2>/dev/null''"

definition ls_command :: "string \<Rightarrow> string" where
  "ls_command path = ''ls -1p '' @ shellQuote path @ '' 2>/dev/null''"

definition ls_entry :: "string \<Rightarrow> string \<Rightarrow> ClientFileInfo" where
  "ls_entry dir line =
     (let name = TrimSuffix line ''/'' in
      \<lparr>fi_Name = name, fi_Path = (if HasSuffix dir ''/'' then dir else dir @ ''/'') @ name, fi_Size = 0,
       fi_IsDir = HasSuffix line ''/'', fi_ModTime = []\<rparr>)"

definition parseLsOutput :: "string \<Rightarrow> string \<Rightarrow> ClientFileInfo list" where
  "parseLsOutput dir out = map (ls_entry dir) (filter (\<lambda>line. line \<noteq> []) (map TrimSpace (Split out eol)))"

definition SdkListFiles :: "SdkLibs \<Rightarrow> 'n Client \<Rightarrow> string \<Rightarrow> string \<Rightarrow> (ClientFileInfo list, 'n) call" where
  "SdkListFiles l c sandbox path n =
     (case SdkExec l c sandbox (list_files_command path) n of
        (Inl e, n1) \<Rightarrow> (Inl e, n1)
      | (Inr result, n1) \<Rightarrow>
          let stdout = TrimSpace (ce_Stdout result) in
          if ce_ExitCode result \<noteq> 0 \<or> stdout = [] then
            (case SdkExec l c sandbox (ls_command path) n1 of
               (Inl e, n2) \<Rightarrow> (Inl e, n2)
             | (Inr result2, n2) \<Rightarrow>
                 (if ce_ExitCode result2 \<noteq> 0 then Inl (exit_error ''list files'' result2)
                  else Inr (parseLsOutput path (ce_Stdout result2)), n2))
          else
            (case sk_files l stdout of
               Inl e \<Rightarrow> Inl (OtherError (Errorf ''parse file listing: %w'' [AErr e]))
             | Inr files \<Rightarrow> Inr files, n1))"

section \<open>What the shell reads\<close>

text \<open>Token recognition of the POSIX shell, for commands without expansions (\<open>None\<close>) and comments: a word is a run of
  unquoted characters, escaped characters and quoted strings; an operator is one or two operator characters.\<close>

datatype token = Word string | Op string

datatype quoting = Plain | Single | Double

definition add_char :: "char \<Rightarrow> string option \<Rightarrow> string option" where
  "add_char c w = Some ((case w of None \<Rightarrow> [] | Some v \<Rightarrow> v) @ [c])"

definition open_word :: "string option \<Rightarrow> string option" where
  "open_word w = Some (case w of None \<Rightarrow> [] | Some v \<Rightarrow> v)"

definition end_word :: "string option \<Rightarrow> token list \<Rightarrow> token list" where
  "end_word w ts = (case w of None \<Rightarrow> ts | Some v \<Rightarrow> Word v # ts)"

fun sh_lex :: "quoting \<Rightarrow> string option \<Rightarrow> string \<Rightarrow> token list option" where
  "sh_lex Plain w [] = Some (end_word w [])"
| "sh_lex Single w [] = None"
| "sh_lex Double w [] = None"
| "sh_lex Single w (c # cs) = (if c = quote then sh_lex Plain w cs else sh_lex Single (add_char c w) cs)"
| "sh_lex Double w (c # cs) =
     (if c = dquote then sh_lex Plain w cs
      else if c \<in> set ''$`'' then None
      else if c = backslash then
        (case cs of
           [] \<Rightarrow> None
         | d # ds \<Rightarrow>
             if d = eol then sh_lex Double w ds
             else if d \<in> set ''$`'' \<union> {dquote, backslash} then sh_lex Double (add_char d w) ds
             else sh_lex Double (add_char d (add_char c w)) ds)
      else sh_lex Double (add_char c w) cs)"
| "sh_lex Plain w (c # cs) =
     (if c = CHR '' '' \<or> c = CHR 0x09 then map_option (end_word w) (sh_lex Plain None cs)
      else if c = quote then sh_lex Single (open_word w) cs
      else if c = dquote then sh_lex Double (open_word w) cs
      else if c = backslash then
        (case cs of [] \<Rightarrow> None | d # ds \<Rightarrow> if d = eol then sh_lex Plain w ds else sh_lex Plain (add_char d w) ds)
      else if c \<in> set ''$`*?[#~!'' then None
      else if c \<in> set ''&|;<>()'' \<union> {eol} then
        (case cs of
           [] \<Rightarrow> Some (end_word w [Op [c]])
         | d # ds \<Rightarrow>
             if d = c \<and> c \<in> set ''&|;<>'' then map_option (\<lambda>ts. end_word w (Op [c, d] # ts)) (sh_lex Plain None ds)
             else map_option (\<lambda>ts. end_word w (Op [c] # ts)) (sh_lex Plain None (d # ds)))
      else sh_lex Plain (add_char c w) cs)"

definition sh_tokens :: "string \<Rightarrow> token list option" where
  "sh_tokens = sh_lex Plain None"

lemma end_word_None [simp]: "end_word None ts = ts"
  by (simp add: end_word_def)

section \<open>Commands are read as meant\<close>

lemma lex_single:
  assumes "quote \<notin> set s"
  shows "sh_lex Single (Some v) (s @ quote # rest) = sh_lex Plain (Some (v @ s)) rest"
  using assms by (induction s arbitrary: v) (auto simp: add_char_def)

lemma lex_escaped:
  "sh_lex Single (Some v) (escape_quotes s @ quote # rest) = sh_lex Plain (Some (v @ s)) rest"
proof (induction s arbitrary: v)
  case (Cons c s)
  then show ?case
    by (cases "c = quote") (simp_all add: escape_quotes_def add_char_def open_word_def quote_def)
qed (simp add: escape_quotes_def)

lemma lex_shellQuote:
  "sh_lex Plain None (shellQuote s @ rest) = sh_lex Plain (Some s) rest"
  using lex_escaped [of "[]" s rest] by (simp add: shellQuote_def open_word_def quote_def)

lemma lex_quoted:
  "quote \<notin> set s \<Longrightarrow> sh_lex Plain None (quote # s @ quote # rest) = sh_lex Plain (Some s) rest"
  using lex_single [of s "[]" rest] by (simp add: open_word_def quote_def)

text \<open>The steps over literal characters, blanks and operators.\<close>

definition literal :: "char \<Rightarrow> bool" where
  "literal c \<longleftrightarrow> c \<notin> set '' $`*?[#~!&|;<>()'' \<union> {CHR 0x09, eol, backslash, dquote, CHR 0x27}"

lemma lex_literal: "literal c \<Longrightarrow> sh_lex Plain w (c # cs) = sh_lex Plain (add_char c w) cs"
  by (simp add: literal_def quote_def)

lemma lex_blank: "sh_lex Plain w (CHR '' '' # cs) = map_option (end_word w) (sh_lex Plain None cs)"
  by simp

lemma lex_operator:
  "sh_lex Plain w (CHR ''>'' # CHR '' '' # cs) = map_option (\<lambda>ts. end_word w (Op ''>'' # ts)) (sh_lex Plain None cs)"
  "sh_lex Plain w (CHR ''|'' # CHR '' '' # cs) = map_option (\<lambda>ts. end_word w (Op ''|'' # ts)) (sh_lex Plain None cs)"
  "sh_lex Plain w (CHR ''>'' # CHR 0x2F # cs) = map_option (\<lambda>ts. end_word w (Op ''>'' # ts)) (sh_lex Plain None (CHR 0x2F # cs))"
  "sh_lex Plain w (CHR ''&'' # CHR ''&'' # cs) = map_option (\<lambda>ts. end_word w (Op ''&&'' # ts)) (sh_lex Plain None cs)"
  by (simp_all add: quote_def option.map_comp comp_def)

lemmas lex_steps = lex_literal lex_blank lex_operator lex_shellQuote lex_shellQuote [where rest = "[]", simplified]
  lex_quoted [OF base64_unquoted] add_char_def end_word_def sh_tokens_def


text \<open>Listing the files of a directory is different: the path stands between double quotes, where escaping single quotes is of no
  use.\<close>

definition listed_path :: string where
  "listed_path = ''/tmp'' @ [dquote] @ ''; rm -rf /workspace; '' @ [dquote]"

text \<open>The path of a listing is read as part of the command: one that contains a double quote ends the program and has the shell
  run what follows.\<close>

theorem list_files_runs_path:
  "\<exists>pre post. sh_tokens (list_files_command listed_path) =
     Some (pre @ [Op '';'', Word ''rm'', Word ''-rf'', Word ''/workspace'', Op '';''] @ post)"
proof -
  let ?op = "[Op '';'', Word ''rm'', Word ''-rf'', Word ''/workspace'', Op '';'']"
  have "(case sh_tokens (list_files_command listed_path) of None \<Rightarrow> False | Some ts \<Rightarrow> take 5 (drop 3 ts) = ?op)" by code_simp
  then obtain ts where ts: "sh_tokens (list_files_command listed_path) = Some ts" "take 5 (drop 3 ts) = ?op"
    by (auto split: option.splits)
  have "ts = take 3 ts @ take 5 (drop 3 ts) @ drop 5 (drop 3 ts)" by (simp only: append_take_drop_id)
  with ts show ?thesis by metis
qed

text \<open>What is read comes back decoded, however the output is broken into lines.\<close>

lemma Fields_acc_flat:
  "\<not> list_ex is_space acc \<Longrightarrow> concat (Fields_acc s acc) = rev acc @ filter (\<lambda>c. \<not> is_space c) s"
  by (induction s acc rule: Fields_acc.induct) (auto simp: list_ex_iff)

lemma b64_char_no_space [simp]: "n < 64 \<Longrightarrow> \<not> is_space (b64_char n)" "\<not> is_space (CHR ''='')"
proof -
  have "b64_val c = None" if "is_space c" for c
    using that by (auto simp: is_space_def b64_val_def)
  then show "n < 64 \<Longrightarrow> \<not> is_space (b64_char n)" by (metis b64_val_char option.distinct(1))
qed (simp add: is_space_def)

lemma decode_wrapped:
  assumes "filter (\<lambda>c. \<not> is_space c) out = base64_encode data"
  shows "decode_output out = Some data"
  using Fields_acc_flat [of "[]" out] assms by (simp add: decode_output_def Fields_def base64_round_trip)

lemma base64_unspaced: "filter (\<lambda>c. \<not> is_space c) (base64_encode s) = base64_encode s"
  by (induction s rule: base64_encode.induct) (simp_all add: Let_def)

theorem read_back:
  assumes "SdkExec l c sandbox (read_file_command path) n = (Inr result, n1)" and "ce_ExitCode result = 0"
    and "filter (\<lambda>c. \<not> is_space c) (ce_Stdout result) = base64_encode data"
  shows "SdkReadFile l c sandbox path n = (Inr data, n1)"
  using assms decode_wrapped by (simp add: SdkReadFile_def)

end
