(* ===== verification/ClientSpec.thy ===== *)
theory ClientSpec
  imports ClientSdk Site
begin

text \<open>
  The client of \<open>ClientSdk\<close> and the server of \<open>Rest\<close> connected: what the client asks for is what the controller does. The names of
  sandboxes are escaped by the client and unescaped by the router, so they arrive as they are.
\<close>

section \<open>Escaped names\<close>

definition hex_val :: "char \<Rightarrow> nat option" where
  "hex_val c = (let n = of_char c :: nat in
     if 48 \<le> n \<and> n \<le> 57 then Some (n - 48) else if 65 \<le> n \<and> n \<le> 70 then Some (n - 55)
     else if 97 \<le> n \<and> n \<le> 102 then Some (n - 87) else None)"

text \<open>\<open>url.PathUnescape\<close>; the router takes a segment that is not validly escaped as it is.\<close>

fun PathUnescape :: "string \<Rightarrow> string option" where
  "PathUnescape [] = Some []"
| "PathUnescape (c # cs) =
     (if c = percent then
        (case cs of
           a # b # ds \<Rightarrow>
             (case (hex_val a, hex_val b) of
                (Some x, Some y) \<Rightarrow> map_option ((#) (char_of (16 * x + y))) (PathUnescape ds)
              | _ \<Rightarrow> None)
         | _ \<Rightarrow> None)
      else map_option ((#) c) (PathUnescape cs))"

definition unescaped :: "string \<Rightarrow> string" where
  "unescaped s = (case PathUnescape s of None \<Rightarrow> s | Some t \<Rightarrow> t)"

lemma hex_val_upper [simp]: "n < 16 \<Longrightarrow> hex_val (upper_hex n) = Some n"
  unfolding upper_hex_def hex_val_def by (auto simp: Let_def of_char_of split: if_splits)

lemma upper_hex_plain: "n < 16 \<Longrightarrow> upper_hex n \<noteq> slash"
proof
  assume n: "n < 16" "upper_hex n = slash"
  have "hex_val slash = None" by (simp add: hex_val_def)
  then show False using hex_val_upper [OF n(1)] n(2) by simp
qed

lemma unescape_byte: "PathUnescape (escape_byte c @ cs) = map_option ((#) c) (PathUnescape cs)"
proof -
  have "(of_char c :: nat) div 16 < 16" using of_char_less [of c] by linarith
  then show ?thesis by (simp add: escape_byte_def Let_def)
qed

definition segment_char :: "char \<Rightarrow> bool" where
  "segment_char c \<longleftrightarrow> unreserved c \<or> c \<in> set ''$&+=:@''"

lemma segment_char_plain: "segment_char c \<Longrightarrow> c \<noteq> percent \<and> c \<noteq> slash"
  by (auto simp: segment_char_def unreserved_def percent_def Let_def)

lemma PathEscape_simps [simp]:
  "PathEscape [] = []"
  "PathEscape (c # cs) = (if segment_char c then c # PathEscape cs else escape_byte c @ PathEscape cs)"
  by (simp_all add: PathEscape_def segment_char_def)

lemma PathUnescape_Escape: "PathUnescape (PathEscape s) = Some s"
  by (induction s) (auto simp: unescape_byte dest: segment_char_plain)

lemma unescaped_Escape [simp]: "unescaped (PathEscape s) = s"
  by (simp add: unescaped_def PathUnescape_Escape)

lemma PathEscape_no_slash: "slash \<notin> set (PathEscape s)"
proof (induction s)
  case (Cons c s)
  have "(of_char c :: nat) div 16 < 16" using of_char_less [of c] by linarith
  then have "slash \<notin> set (escape_byte c)"
    using upper_hex_plain [of "of_char c div 16"] upper_hex_plain [of "of_char c mod 16"]
    by (auto simp: escape_byte_def percent_def Let_def)
  with Cons segment_char_plain show ?case by auto
qed simp

section \<open>The connection\<close>

text \<open>The server sees the escaped path up to a query; \<open>parse_query\<close> is \<open>url.ParseQuery\<close> and \<open>enc\<close> writes the body of a response. A
  response with status 0 stands for a closed connection.\<close>

definition escaped_path :: "string \<Rightarrow> string" where
  "escaped_path target = takeWhile (\<lambda>c. c \<noteq> CHR ''?'') target"

text \<open>The router redirects a request whose path is not clean (\<open>cleanPath\<close> of \<open>net/http\<close>); \<open>redirect\<close> is what becomes of it.\<close>

definition router_clean :: "string \<Rightarrow> string" where
  "router_clean p =
     (let q = Clean (if IsAbs p then p else slash # p) in if HasSuffix p ''/'' \<and> q \<noteq> ''/'' then q @ ''/'' else q)"

definition received :: "(string \<Rightarrow> string gomap) \<Rightarrow> string \<Rightarrow> OutRequest \<Rightarrow> Request" where
  "received parse_query target rq =
     \<lparr>rq_Method = oq_Method rq, rq_Path = unescaped (escaped_path target), rq_Header = oq_Header rq,
      rq_Query = parse_query (drop (length (escaped_path target) + 1) target), rq_PathValue = [],
      rq_Body = Some (case oq_Body rq of None \<Rightarrow> [] | Some b \<Rightarrow> b), rq_claims = None, rq_user = None\<rparr>"

definition connected ::
  "(AuditEntry \<Rightarrow> string res) \<Rightarrow> (JWTLib \<times> JWTService) option \<Rightarrow> 'w RestLibs \<Rightarrow> ('w, 'p) RestServer \<Rightarrow>
   (rest_body body \<Rightarrow> string) \<Rightarrow> (string \<Rightarrow> string gomap) \<Rightarrow>
   (OutRequest \<Rightarrow> (InResponse res, ('w, 'p, 'x) World Web) act) \<Rightarrow> string \<Rightarrow>
   OutRequest \<Rightarrow> (InResponse res, ('w, 'p, 'x) World Web) act" where
  "connected marshal jwt l sv enc parse_query redirect base rq s =
     (if HasPrefix (oq_URL rq) base then
        let target = drop (length base) (oq_URL rq); path = escaped_path target; segs = map unescaped (tl (Split path slash)) in
        if router_clean path \<noteq> path then redirect rq s
        else case serve_http marshal jwt (\<lambda>_. segs) l sv (received parse_query target rq) s of
          (resp, s1) \<Rightarrow>
            (if rs_Status resp = 0 then Inl (ExtErr ''EOF'')
             else Inr \<lparr>ip_Status = rs_Status resp, ip_Body = Inr (enc (rs_Body resp))\<rparr>, s1)
      else (Inl (ExtErr ''no such host''), s))"

section \<open>A request reaches its handler\<close>

lemma matching_one:
  assumes "x \<in> set rs" and "fits segs r x" and "length (filter (fits segs r) rs) \<le> 1"
  shows "matching segs rs r = Some (x, the (match_segs (rt_Path x) (segs r)))"
proof -
  obtain y where "filter (fits segs r) rs = [y]"
    using assms by (cases "filter (fits segs r) rs") (auto simp: filter_empty_conv)
  moreover have "x \<in> set (filter (fits segs r) rs)" using assms by simp
  ultimately have "filter (fits segs r) rs = [x]" by simp
  then show ?thesis by (simp add: matching_def fits_def [abs_def])
qed

lemma dispatch_to:
  assumes "route m p h \<in> set (registerRoutes l sv)" and "rq_Method r = m" and "match_segs (pattern p) (segs r) = Some vars"
  shows "dispatch segs (registerRoutes l sv) r s = h (r\<lparr>rq_PathValue := vars\<rparr>) s"
proof -
  have "fits segs r (route m p h)" using assms(2,3) by (simp add: fits_def route_def method_matches_def)
  from matching_one [OF assms(1) this unique_route] show ?thesis
    using assms(3) by (simp add: dispatch_def route_def)
qed

text \<open>Without access control the middleware only adds headers.\<close>

lemma serve_open:
  assumes "wb_rbac s = None" and "rq_Method r \<noteq> ''OPTIONS''"
    and "dispatch segs (registerRoutes l sv) r s = (resp, s')"
  shows "\<exists>h. serve_http marshal jwt segs l sv r s = (resp\<lparr>rs_Header := h\<rparr>, s')"
  using assms
  by (auto simp: serve_http_def Handler_def chainMiddleware_def corsMiddleware_def jsonContentTypeMiddleware_def AuthMiddleware_def Let_def)

section \<open>Clean paths\<close>

definition rooted :: "string list \<Rightarrow> string" where
  "rooted es = concat (map ((#) slash) es)"

definition plain_elem :: "string \<Rightarrow> bool" where
  "plain_elem e \<longleftrightarrow> e \<notin> {[], ''.'', ''..''} \<and> slash \<notin> set e \<and> CHR ''?'' \<notin> set e"

lemma fold_clean_plain: "list_all plain_elem es \<Longrightarrow> fold (clean_step r) es st = rev es @ st"
  by (induction es arbitrary: st) (simp_all add: plain_elem_def clean_step_def)

lemma join_rooted: "es \<noteq> [] \<Longrightarrow> slash # join_slash es = rooted es"
proof (induction es rule: join_slash.induct)
  case (3 e f es)
  then show ?case by (simp add: rooted_def)
qed (simp_all add: rooted_def)

lemma Split_rooted:
  assumes "list_all plain_elem es" and "es \<noteq> []"
  shows "Split (rooted es) slash = [] # es"
proof -
  have "join_slash ([] # es) = rooted es" using join_rooted [OF assms(2)] assms(2) by (cases es) simp_all
  moreover have "\<forall>e \<in> set ([] # es). slash \<notin> set e" using assms(1) by (auto simp: list_all_iff plain_elem_def)
  ultimately show ?thesis using Split_join_slash [of "[] # es"] by simp
qed

lemma rooted_not_slash_ended:
  assumes "list_all plain_elem es" and "es \<noteq> []"
  shows "\<not> HasSuffix (rooted es) ''/''"
proof -
  obtain as e where es: "es = as @ [e]" using assms(2) by (cases es rule: rev_cases) auto
  with assms(1) have "e \<noteq> []" "slash \<notin> set e" by (simp_all add: plain_elem_def)
  then obtain e1 c where "e = e1 @ [c]" "c \<noteq> slash" by (cases e rule: rev_cases) auto
  then show ?thesis by (auto simp: es rooted_def HasSuffix_iff)
qed

lemma router_clean_rooted:
  assumes "list_all plain_elem es" and "es \<noteq> []"
  shows "router_clean (rooted es) = rooted es"
proof -
  have a: "IsAbs (rooted es)" using assms(2) by (cases es) (simp_all add: rooted_def IsAbs_def HasPrefix_def)
  have "clean_elems True (Split (rooted es) slash) = es"
    unfolding Split_rooted [OF assms] clean_elems_def
    using fold_clean_plain [OF assms(1), of True "[]"] by (simp add: clean_step_def)
  then have "Clean (rooted es) = rooted es"
    using a join_rooted [OF assms(2)] by (simp add: Clean_def Let_def)
  then show ?thesis using a rooted_not_slash_ended [OF assms] by (simp add: router_clean_def)
qed

lemma escaped_path_rooted: "list_all plain_elem es \<Longrightarrow> escaped_path (rooted es) = rooted es"
  by (auto simp: escaped_path_def rooted_def takeWhile_eq_all_conv list_all_iff plain_elem_def)

lemma segment_char_no_query: "segment_char c \<Longrightarrow> c \<noteq> CHR ''?''"
  by (auto simp: segment_char_def unreserved_def Let_def)

lemma hex_query: "hex_val (CHR ''?'') = None"
  by (simp add: hex_val_def)

lemma PathEscape_no_query: "CHR ''?'' \<notin> set (PathEscape s)"
proof (induction s)
  case (Cons c s)
  have h: "upper_hex n \<noteq> CHR ''?''" if "n < 16" for n
    using that by (metis hex_val_upper option.distinct(1) hex_query)
  have "(of_char c :: nat) div 16 < 16" using of_char_less [of c] by linarith
  then have "CHR ''?'' \<notin> set (escape_byte c)"
    using h [of "of_char c div 16"] h [of "of_char c mod 16"] by (auto simp: escape_byte_def percent_def Let_def)
  with Cons segment_char_no_query show ?case by auto
qed simp

lemma PathEscape_plain: "name \<notin> {[], ''.'', ''..''} \<Longrightarrow> plain_elem (PathEscape name)"
proof -
  assume n: "name \<notin> {[], ''.'', ''..''}"
  have "PathEscape name \<noteq> e" if "e \<in> {[], ''.'', ''..''}" for e
  proof
    assume "PathEscape name = e"
    then have "name = unescaped e" using unescaped_Escape [of name] by simp
    moreover have "unescaped e = e" using that by (auto simp: unescaped_def percent_def)
    ultimately show False using n that by simp
  qed
  then show ?thesis using PathEscape_no_slash PathEscape_no_query unfolding plain_elem_def by blast
qed

section \<open>From the client to the controller\<close>

text \<open>An operation of the controller as the client sees it.\<close>

definition relayed ::
  "(rest_body body \<Rightarrow> string) \<Rightarrow> (unit res, ('w, 'p) cstate) act \<Rightarrow> (unit, ('w, 'p, 'x) World Web) call" where
  "relayed enc a s =
     (case a (ctrl_of (wb_app s)) of (r, k) \<Rightarrow>
       (case r of
          Inr _ \<Rightarrow> Inr ()
        | Inl e \<Rightarrow> Inl (ApiError StatusInternalServerError (if err_text e = [] then enc (ErrorBody []) else err_text e)),
        s\<lparr>wb_app := set_ctrl k (wb_app s)\<rparr>))"

definition at_sandbox :: "string list \<Rightarrow> string list" where
  "at_sandbox rest = [''api'', ''v1'', ''sandboxes''] @ rest"

lemma sandbox_url: "''/api/v1'' @ sandbox_path name (rooted rest) = rooted (at_sandbox (PathEscape name # rest))"
  by (simp add: sandbox_path_def rooted_def at_sandbox_def)

lemma served_plainly:
  fixes s :: "('w, 'p, 'x) World Web"
  assumes "route m pat (on_api BApi (path_value ''name'' what (\<lambda>n. answer_with StatusOK StatusInternalServerError (body n) (a n))))
      \<in> set (registerRoutes l sv :: ('w, 'p, 'x) rest_handler Route list)"
    and "match_segs (pattern pat) (segs r) = Some [(''name'', name)]" and "rq_Method r = m" and "m \<noteq> ''OPTIONS''"
    and "wb_rbac s = None" and "name \<noteq> []" and "a name (ctrl_of (wb_app s)) = (x, k)"
  shows "\<exists>h. serve_http marshal jwt segs l sv r s =
    (\<lparr>rs_Status = (case x of Inl e \<Rightarrow> StatusInternalServerError | Inr _ \<Rightarrow> StatusOK), rs_Header = h,
      rs_Body = (case x of Inl e \<Rightarrow> ErrorBody (err_text e) | Inr v \<Rightarrow> Payload (BApi (body name v)))\<rparr>,
     s\<lparr>wb_app := set_ctrl k (wb_app s)\<rparr>)"
proof -
  define resp :: "rest_body Response" where "resp = \<lparr>rs_Status = (case x of Inl e \<Rightarrow> StatusInternalServerError | Inr _ \<Rightarrow> StatusOK),
    rs_Header = [], rs_Body = (case x of Inl e \<Rightarrow> ErrorBody (err_text e) | Inr v \<Rightarrow> Payload (BApi (body name v)))\<rparr>"
  have "dispatch segs (registerRoutes l sv) r s = (resp, s\<lparr>wb_app := set_ctrl k (wb_app s)\<rparr>)"
    using assms(6,7) trans [OF dispatch_to [where segs = segs and r = r and s = s, OF assms(1,3,2)]]
    by (cases x) (simp_all add: on_api_def part_handler_def path_value_def gm_str_def answer_with_def on_ctrl_def ctrl_of_def fails_def
        errorResponse_def jsonResponse_def map_body_def resp_def set_ctrl_def Let_def)
  from serve_open [OF assms(5) _ this] obtain h where
    "serve_http marshal jwt segs l sv r s = (resp\<lparr>rs_Header := h\<rparr>, s\<lparr>wb_app := set_ctrl k (wb_app s)\<rparr>)"
    using assms(3,4) by blast
  then show ?thesis unfolding resp_def by auto
qed

lemma command_relayed:
  fixes s :: "('w, 'p, 'x) World Web"
  assumes "route m pat (on_api BApi (path_value ''name'' what (\<lambda>n. answer_with StatusOK StatusInternalServerError (body n) (a n))))
      \<in> set (registerRoutes l sv :: ('w, 'p, 'x) rest_handler Route list)"
    and "match_segs (pattern pat) (at_sandbox (name # rest)) = Some [(''name'', name)]" and "m \<noteq> ''OPTIONS''"
    and "list_all plain_elem rest" and "map unescaped rest = rest"
    and "cl_Do c = connected marshal jwt l sv enc pq rd (cl_baseURL c)" and "wb_rbac s = None" and "name \<notin> {[], ''.'', ''..''}"
    and "\<And>m u. sk_new_request lb m u = Inr ()" and "\<And>m. sk_error lb (enc (ErrorBody m)) = Inr m"
  shows "sdk_command lb c m (sandbox_path name (rooted rest)) s = relayed enc (a name) s"
proof -
  let ?es = "at_sandbox (PathEscape name # rest)"
  have plain: "list_all plain_elem ?es" "?es \<noteq> []"
    using assms(4) PathEscape_plain [OF assms(8)] by (simp_all add: at_sandbox_def plain_elem_def)
  have segs: "map unescaped (tl (Split (escaped_path (rooted ?es)) slash)) = at_sandbox (name # rest)"
    unfolding escaped_path_rooted [OF plain(1)] Split_rooted [OF plain]
    by (simp add: at_sandbox_def assms(5)) (simp add: unescaped_def percent_def)
  obtain x k where x: "a name (ctrl_of (wb_app s)) = (x, k)" by fastforce
  let ?rq = "\<lparr>oq_Method = m, oq_URL = cl_baseURL c @ rooted ?es, oq_Header = request_headers c, oq_Body = None\<rparr>"
  let ?r = "received pq (rooted ?es) ?rq"
  have "name \<noteq> []" "rq_Method ?r = m" using assms(8) by (simp_all add: received_def)
  from served_plainly [OF assms(1) _ this(2) assms(3,7) this(1) x, where segs = "\<lambda>_. at_sandbox (name # rest)"] assms(2)
  obtain h where h: "serve_http marshal jwt (\<lambda>_. at_sandbox (name # rest)) l sv ?r s =
    (\<lparr>rs_Status = (case x of Inl e \<Rightarrow> StatusInternalServerError | Inr _ \<Rightarrow> StatusOK), rs_Header = h,
      rs_Body = (case x of Inl e \<Rightarrow> ErrorBody (err_text e) | Inr v \<Rightarrow> Payload (BApi (body name v)))\<rparr>,
     s\<lparr>wb_app := set_ctrl k (wb_app s)\<rparr>)" by blast
  have clean: "router_clean (escaped_path (rooted ?es)) = escaped_path (rooted ?es)"
    using escaped_path_rooted [OF plain(1)] router_clean_rooted [OF plain] by simp
  have do: "cl_Do c ?rq s = (Inr \<lparr>ip_Status = (case x of Inl e \<Rightarrow> StatusInternalServerError | Inr _ \<Rightarrow> StatusOK),
      ip_Body = Inr (enc (case x of Inl e \<Rightarrow> ErrorBody (err_text e) | Inr v \<Rightarrow> Payload (BApi (body name v))))\<rparr>,
      s\<lparr>wb_app := set_ctrl k (wb_app s)\<rparr>)"
    using clean segs h by (cases x) (simp_all add: assms(6) connected_def Let_def)
  show ?thesis
    unfolding sdk_command_def sdk_request_def Let_def sandbox_url
    using do assms(9,10) x by (cases x) (simp_all add: relayed_def response_error_def Let_def)
qed


section \<open>A small connection\<close>

definition plain_text :: "rest_body body \<Rightarrow> string" where
  "plain_text b = (case b of ErrorBody m \<Rightarrow> m | _ \<Rightarrow> ''ok'')"

definition undecoded :: "string \<Rightarrow> 'a res" where
  "undecoded text = Inl (ExtErr ''not decoded'')"

definition demo_sdk :: SdkLibs where
  "demo_sdk = \<lparr>sk_marshal = (\<lambda>b. Inr ''body''), sk_new_request = (\<lambda>m u. Inr ()), sk_error = Inr, sk_health = undecoded,
     sk_version = undecoded, sk_sandbox = undecoded, sk_sandboxes = undecoded, sk_exec = undecoded, sk_stats = undecoded,
     sk_snapshot = undecoded, sk_snapshots = undecoded, sk_matrix = undecoded, sk_matrices = undecoded, sk_session = undecoded,
     sk_sessions = undecoded, sk_files = undecoded\<rparr>"

definition demo_connection :: "OutRequest \<Rightarrow> (InResponse res, (simd, persist, unit) World Web) act" where
  "demo_connection = connected no_json None site_libs (site_server demo_host) plain_text (\<lambda>_. []) (\<lambda>_ s. (Inl (ExtErr ''redirected''), s))
     ''http://localhost''"

definition demo_client :: "(simd, persist, unit) World Web Client" where
  "demo_client = NewClient demo_connection ''http://localhost/'' [WithToken ''t'']"

definition site_with_a :: "(simd, persist, unit) World Web" where
  "site_with_a = site_start\<lparr>wb_app := (wb_app site_start)\<lparr>wd_api := (wd_api (wb_app site_start))\<lparr>ap_ctrl := demo_created\<rparr>\<rparr>\<rparr>"


end
