(* ===== verification/McpSpec.thy ===== *)
theory McpSpec
  imports Mcp Site
begin

text \<open>
  The invariant of the controller under the tools of the MCP server: with the lemmas of \<open>RestSpec\<close> on the operations of the
  controller, each tool is shown to preserve it, so that a controller that serves REST clients and agents keeps it too.
\<close>

context rest_env
begin

abbreviation aw :: "('w, 'p, 'x) Api \<Rightarrow> bool" where
  "aw s \<equiv> held (ap_ctrl s)"

lemma api_ctrl_aw [preserve_intros]: "preserves held a \<Longrightarrow> preserves aw (api_ctrl a)"
  by (rule preservesI) (auto simp: api_ctrl_def dest: preservesD split: prod.splits)

lemma require_arg_aw [preserve_intros]: "(\<And>v. preserves aw (k v args)) \<Longrightarrow> preserves aw (require_arg key k args)"
  unfolding require_arg_def [abs_def] by (intro preserve_intros; assumption?)

lemma with_gateway_aw [preserve_intros]: "preserves aw (with_gateway f)"
  by (rule preservesI) (auto simp: with_gateway_def split: option.splits prod.splits)

lemma tool_done_aw [preserve_intros]: "preserves held a \<Longrightarrow> preserves aw (tool_done v p n a args)"
  unfolding tool_done_def [abs_def] by (intro preserve_intros; assumption)

lemma sandbox_rows_held [preserve_intros]: "preserves held (sandbox_rows sbs)"
proof (induction sbs)
  case Nil
  show ?case by (rule preserves_eq [OF sandbox_rows.simps(1)]) (rule preserve_intros)
next
  case (Cons sb sbs)
  show ?case by (rule preserves_eq [OF sandbox_rows.simps(2)]) (intro preserve_intros Cons)
qed

lemma sandbox_tools_aw [preserve_intros]:
  "preserves aw (tool_SandboxCreate ml ctl args)" "preserves aw (tool_SandboxList ctl args)" "preserves aw (tool_SandboxExec ml ctl args)"
  "preserves aw (tool_SandboxStop ctl args)" "preserves aw (tool_SandboxStart ctl args)" "preserves aw (tool_SandboxDestroy ctl args)"
  "preserves aw (tool_SandboxStats ctl args)"
  unfolding tool_SandboxCreate_def tool_SandboxList_def [abs_def] tool_SandboxExec_def tool_SandboxStop_def tool_SandboxStart_def
    tool_SandboxDestroy_def tool_SandboxStats_def
  by (intro preserve_intros request_held; assumption)+

lemma file_tools_aw [preserve_intros]:
  "preserves aw (tool_CodeInterpret ml ctl args)" "preserves aw (tool_SandboxPorts ctl args)"
  "preserves aw (tool_SandboxWriteFile ctl args)" "preserves aw (tool_SandboxReadFile ml ctl args)"
  unfolding tool_CodeInterpret_def tool_SandboxPorts_def tool_SandboxWriteFile_def tool_SandboxReadFile_def
  by (intro preserve_intros info_frame; assumption)+

lemma build_tool_aw: "ml_committer ml = rl_committer l \<Longrightarrow> preserves aw (tool_BlueprintBuild ml ctl args)"
  unfolding tool_BlueprintBuild_def by (simp only:) (intro preserve_intros Build_held; assumption)

lemma message_tools_aw [preserve_intros]:
  "preserves aw (tool_A2ASend args)" "preserves aw (tool_A2AReceive ml args)" "preserves aw (tool_A2ABroadcast args)"
  "preserves aw (tool_MatrixShardTask ml ctl args)" "preserves aw (tool_MatrixCollectResults ml ctl args)"
  unfolding tool_A2ASend_def tool_A2AReceive_def tool_A2ABroadcast_def tool_MatrixShardTask_def tool_MatrixCollectResults_def [abs_def]
  by (intro preserve_intros; simp add: preserves_def split: option.split prod.split)+

text \<open>What others do while a tool waits has to keep the invariant as well.\<close>

definition harmless :: "('w, 'p) McpLibs \<Rightarrow> bool" where
  "harmless ml \<longleftrightarrow> (\<forall>d f s. RTick f \<in> set (ml_waits ml d) \<longrightarrow> held s \<longrightarrow> held (f s))"

lemma ready_loop_held:
  "(\<And>f s. RTick f \<in> set es \<Longrightarrow> held s \<Longrightarrow> held (f s)) \<Longrightarrow> held s \<Longrightarrow> held (snd (ready_loop ctl n t es s))"
proof (induction ctl n t es s rule: ready_loop.induct)
  case (4 name timeout others es s)
  obtain r s1 where g: "Get ctl name (others s) = (r, s1)" by fastforce
  have "held s1" using preservesD [OF st_reads_held(3) _ g] 4(2,3) by simp
  with 4(1) [OF g [symmetric]] 4(2) g show ?case by (auto split: option.split)
qed auto

lemma ready_wait_aw: "harmless ml \<Longrightarrow> preserves aw (tool_SandboxReadyWait ml ctl args)"
proof -
  assume h: "harmless ml"
  have "preserves held (ready_loop ctl n t (ml_waits ml d))" for n t d
    using h ready_loop_held unfolding harmless_def preserves_def by blast
  then show ?thesis
    unfolding tool_SandboxReadyWait_def [abs_def] Let_def by (intro preserve_intros; assumption)
qed

lemma with_answer_aw: "preserves aw (t args) \<Longrightarrow> preserves aw (with_answer t args)"
  by (simp add: preserves_def with_answer_def)

lemma tools_aw:
  assumes "ml_committer ml = rl_committer l" and "harmless ml" and "t \<in> set (registerTools ml ctl)"
  shows "preserves aw (tl_Handler t args)"
  using assms(3) unfolding registerTools_def set_append Un_iff
  by (elim disjE) (auto simp: sandbox_tools_def a2a_tools_def matrix_tools_def file_tools_def code_tools_def NewTool_def
    intro!: with_answer_aw preserve_intros build_tool_aw ready_wait_aw assms(1,2))

lemma call_tool_aw:
  assumes "ml_committer ml = rl_committer l" and "harmless ml"
  shows "preserves (aw :: ('w, 'p, 'x) Api \<Rightarrow> bool) (call_tool ml ctl name args)"
proof (cases "find (\<lambda>t. tl_Name t = name) (registerTools ml ctl :: ('w, 'p, 'x) Tool list)")
  case None
  then show ?thesis by (simp add: call_tool_def preserves_def)
next
  case (Some t)
  then have "t \<in> set (registerTools ml ctl)" by (auto simp: find_Some_iff in_set_conv_nth)
  from tools_aw [OF assms this, of args] Some show ?thesis by (simp add: call_tool_def preserves_def)
qed

end

section \<open>Sequences of calls\<close>

definition run_calls :: "('w, 'p) McpLibs \<Rightarrow> ('w, 'p) Controller \<Rightarrow> (string \<times> jarg gomap) list \<Rightarrow> ('w, 'p, 'x) Api \<Rightarrow> ('w, 'p, 'x) Api" where
  "run_calls ml c calls s = fold (\<lambda>x s. snd (call_tool ml c (fst x) (snd x) s)) calls s"

text \<open>C25. Every sequence of tool calls, with any names and arguments, keeps the invariant between records, containers and
  gauge, as long as what others do while a tool waits keeps it.\<close>

theorem tool_calls_invariant:
  assumes "rest_env sv l live used recs ok ms mrecs com" and "ml_committer ml = rl_committer l"
    and "\<And>d f c. RTick f \<in> set (ml_waits ml d) \<Longrightarrow> ok (c_ps c) \<and> view_inv (view_of live used recs c) \<Longrightarrow>
      ok (c_ps (f c)) \<and> view_inv (view_of live used recs (f c))"
    and "ok (c_ps (ap_ctrl s))" and "view_inv (view_of live used recs (ap_ctrl s))"
  shows "view_inv (view_of live used recs (ap_ctrl (run_calls ml (sv_ctrl sv) calls s)))"
proof -
  let ?I = "\<lambda>s. rest_env.held live used recs ok (ap_ctrl s)"
  note held = rest_env.held_def [OF assms(1)]
  have h: "rest_env.harmless live used recs ok ml"
    unfolding rest_env.harmless_def [OF assms(1)] held using assms(3) by blast
  let ?a = "\<lambda>x. call_tool ml (sv_ctrl sv) (fst x) (snd x)"
  have p: "preserves ?I (?a x)" for x
    by (rule rest_env.call_tool_aw [OF assms(1,2) h])
  have "?I s" using assms(4,5) by (simp add: held)
  from preserves_fold [where I = ?I and a = ?a and xs = calls, OF p this]
  have "?I (run_calls ml (sv_ctrl sv) calls s)" by (simp add: run_calls_def)
  then show ?thesis by (simp add: held)
qed

theorem tool_calls_invariant_witness:
  "view_inv (view_of sim_live sim_used records (ap_ctrl (run_calls (demo_libs\<lparr>ml_waits := (\<lambda>d. [RTick id, RDeadline])\<rparr>)
     (sv_ctrl (site_server demo_host)) [(''sandbox_stop'', [(''name'', JStr ''a'')]), (''sandbox_list'', [])]
     \<lparr>ap_ctrl = demo_created, ap_gateway = (None :: unit Gateway option)\<rparr>)))"
proof (rule tool_calls_invariant [OF site.rest_env_axioms])
  show "ml_committer (demo_libs\<lparr>ml_waits := (\<lambda>d. [RTick id, RDeadline])\<rparr>) = rl_committer site_libs"
    by (simp add: demo_libs_def site_libs_def)
  have "demo_created = perform (deployed demo_host) (ReqCreate (demo_options ''a'')) boot"
    by (simp add: demo_created_def)
  then have "view_inv (view_of sim_live sim_used records demo_created) \<and> persist_ok (c_ps demo_created)"
    using controller_reliable.perform_effect [OF dep.controller_reliable_axioms boot_ok] effect_inv boot_inv by metis
  then show "persist_ok (c_ps (ap_ctrl \<lparr>ap_ctrl = demo_created, ap_gateway = (None :: unit Gateway option)\<rparr>))"
    "view_inv (view_of sim_live sim_used records (ap_ctrl \<lparr>ap_ctrl = demo_created, ap_gateway = (None :: unit Gateway option)\<rparr>))"
    by simp_all
qed auto

end
