(* ===== verification/CliServer.thy ===== *)
theory CliServer
  imports CliAuth Dashboard ClientSpec McpSpec
begin

text \<open>
  How the commands put the program together: \<open>internal/cli/root.go\<close>, \<open>server.go\<close>, \<open>mcp.go\<close> and \<open>dashboard.go\<close>. What the process opens
  (the backend, the stores in their files) is the record \<open>Opened\<close>; the gauges of a new process are zero. A server runs until it
  fails or a signal comes: the requests it has answered by then are a list.
\<close>

section \<open>Opening the backend and the stores\<close>

record ('w, 'p) Opened =
  op_docker :: "'w Runtime res"
  op_sandboxes :: "'p Store res"
  op_sessions :: "'p SessionStore res"
  op_matrices :: "'p MatrixStore res"
  op_teams :: "'p TeamStore res"
  op_host :: HostEnv
  op_net :: "'w NetEnv"

definition bare_controller ::
  "('w, 'p) Opened \<Rightarrow> 'w Runtime \<Rightarrow> 'p Store \<Rightarrow> 'p SessionStore \<Rightarrow> 'p MatrixStore \<Rightarrow> ('w, 'p) Controller" where
  "bare_controller o1 rt store sessions matrices =
     \<lparr>ct_runtime = rt, ct_store = store, ct_sessions = Some sessions, ct_matrices = Some matrices, ct_quotaChecker = None,
      ct_host = op_host o1, ct_net = op_net o1\<rparr>"

definition open_controller :: "('w, 'p) Opened \<Rightarrow> ('w, 'p) Controller res" where
  "open_controller o1 =
     (case op_docker o1 of
        Inl e \<Rightarrow> Inl (no_docker e)
      | Inr rt \<Rightarrow>
          (case op_sandboxes o1 of
             Inl e \<Rightarrow> Inl (wrapped ''initialize state store'' e)
           | Inr store \<Rightarrow>
               (case op_sessions o1 of
                  Inl e \<Rightarrow> Inl (wrapped ''initialize session store'' e)
                | Inr sessions \<Rightarrow>
                    (case op_matrices o1 of
                       Inl e \<Rightarrow> Inl (wrapped ''initialize matrix store'' e)
                     | Inr matrices \<Rightarrow> Inr (bare_controller o1 rt store sessions matrices)))))"

text \<open>\<open>initController\<close>: a failed reconciliation is a warning. The text is what was written to the terminal.\<close>

definition initController :: "('w, 'p) Opened \<Rightarrow> ((string \<times> ('w, 'p) Controller) res, ('w, 'p) cstate) act" where
  "initController o1 s =
     (case open_controller o1 of
        Inl e \<Rightarrow> (Inl e, s)
      | Inr c \<Rightarrow>
          (case Reconcile c s of
             (Inl e, s1) \<Rightarrow> (Inr (printf ''warning: state reconciliation failed: %v'' [AErr e], c), s1)
           | (Inr _, s1) \<Rightarrow> (Inr ([], c), s1)))"

text \<open>A new process: the records and the containers are those of before, the gauges and counters are new.\<close>

definition new_process :: "('w, 'p) cstate \<Rightarrow> ('w, 'p) cstate" where
  "new_process s = s\<lparr>c_SandboxesActive := 0, c_SessionsActive := 0, c_OpsTotal := [], c_ExecTotal := []\<rparr>"

definition with_controller ::
  "('w, 'p) Opened \<Rightarrow> (('w, 'p) Controller \<Rightarrow> ('w, 'p) cstate cli) \<Rightarrow> ('w, 'p) cstate cli" where
  "with_controller o1 run s =
     (case initController o1 (new_process s) of
        (Inl e, s1) \<Rightarrow> (cli_err e, s1)
      | (Inr (warning, c), s1) \<Rightarrow> (case run c s1 of ((out, err), s2) \<Rightarrow> ((warning @ out, err), s2)))"

section \<open>The MCP server and the dashboard\<close>

definition mcp_serve ::
  "('w, 'p) Opened \<Rightarrow> ('w, 'p) McpLibs \<Rightarrow> 'x Gateway \<Rightarrow> (string \<times> jarg gomap) list \<Rightarrow> goerr option \<Rightarrow> ('w, 'p) cstate cli" where
  "mcp_serve o1 l gateway calls stdio =
     with_controller o1 (\<lambda>c s. (([], stdio), ap_ctrl (run_calls l c calls \<lparr>ap_ctrl = s, ap_gateway = Some gateway\<rparr>)))"

definition dashboard_command ::
  "('w, 'p) Opened \<Rightarrow> DashLibs \<Rightarrow> (Request \<Rightarrow> string list) \<Rightarrow> unit res \<Rightarrow> Request list \<Rightarrow> goerr option \<Rightarrow> ('w, 'p) cstate cli" where
  "dashboard_command o1 l segments listen rs shutdown =
     with_controller o1 (\<lambda>c s.
       case listen of Inl e \<Rightarrow> (cli_err (wrapped ''start dashboard'' e), s) | Inr _ \<Rightarrow> (([], shutdown), dash_run l segments c rs s))"

section \<open>Durations as text\<close>

text \<open>\<open>time.ParseDuration\<close>: numbers with units, summed up.\<close>

definition unit_map :: "int gomap" where
  "unit_map = [(''ns'', 1), (''us'', 1000), ([CHR 0xC2, CHR 0xB5, CHR ''s''], 1000), ([CHR 0xCE, CHR 0xBC, CHR ''s''], 1000),
     (''ms'', 1000000), (''s'', 1000000000), (''m'', 60000000000), (''h'', 3600000000000)]"

definition digit_of :: "char \<Rightarrow> int option" where
  "digit_of c = (let n = of_char c in if 48 \<le> n \<and> n \<le> 57 then Some (n - 48) else None)"

fun leading_int :: "int \<Rightarrow> string \<Rightarrow> (int \<times> string) option" where
  "leading_int x [] = Some (x, [])"
| "leading_int x (c # cs) =
     (case digit_of c of
        None \<Rightarrow> Some (x, c # cs)
      | Some d \<Rightarrow> if x > 2 ^ 63 div 10 \<or> x * 10 + d > 2 ^ 63 then None else leading_int (x * 10 + d) cs)"

text \<open>Digits of a fraction that no longer fit are skipped.\<close>

fun leading_fraction :: "bool \<Rightarrow> int \<Rightarrow> f64 \<Rightarrow> string \<Rightarrow> int \<times> f64 \<times> string" where
  "leading_fraction ovf x scale [] = (x, scale, [])"
| "leading_fraction ovf x scale (c # cs) =
     (case digit_of c of
        None \<Rightarrow> (x, scale, c # cs)
      | Some d \<Rightarrow>
          if ovf \<or> x > (2 ^ 63 - 1) div 10 \<or> x * 10 + d > 2 ^ 63 then leading_fraction True x scale cs
          else leading_fraction False (x * 10 + d) (fmul scale (Fin 10)) cs)"

definition bad_duration :: "string \<Rightarrow> goerr" where
  "bad_duration s = Errorf ''time: invalid duration %q'' [AStr s]"

definition unit_char :: "char \<Rightarrow> bool" where
  "unit_char c \<longleftrightarrow> c \<noteq> CHR ''.'' \<and> digit_of c = None"

text \<open>One number with its unit: its value and what follows.\<close>

definition duration_part :: "string \<Rightarrow> (int \<times> string) option" where
  "duration_part s =
     (case leading_int 0 s of None \<Rightarrow> None | Some (v, s1) \<Rightarrow>
      case (case s1 of
          c # cs \<Rightarrow> if c = CHR ''.'' then (case leading_fraction False 0 (Fin 1) cs of (f, scale, s2) \<Rightarrow> (f, scale, s2, length s2 \<noteq> length cs))
            else (0, Fin 1, s1, False)
        | [] \<Rightarrow> (0, Fin 1, s1, False)) of
        (f, scale, s2, post) \<Rightarrow>
          let u = takeWhile unit_char s2; rest = dropWhile unit_char s2 in
          if length s1 = length s \<and> \<not> post then None
          else case gm_get unit_map u of
            None \<Rightarrow> None
          | Some unit \<Rightarrow>
              if v > 2 ^ 63 div unit then None
              else let w = v * unit + (if f > 0 then int64_of_f64 (fmul (f64_of_int f) (fdiv (f64_of_int unit) scale)) else 0) in
                if w > 2 ^ 63 then None else Some (w, rest))"

fun duration_sum :: "nat \<Rightarrow> int \<Rightarrow> string \<Rightarrow> int option" where
  "duration_sum fuel d [] = Some d"
| "duration_sum 0 d (c # cs) = None"
| "duration_sum (Suc fuel) d (c # cs) =
     (case duration_part (c # cs) of
        None \<Rightarrow> None
      | Some (w, rest) \<Rightarrow> if d + w > 2 ^ 63 then None else duration_sum fuel (d + w) rest)"

text \<open>Every part takes at least a digit or a dot, so the length of the text is fuel enough.\<close>

definition ParseDuration :: "string \<Rightarrow> int res" where
  "ParseDuration s =
     (let neg = HasPrefix s ''-''; t = (if neg \<or> HasPrefix s ''+'' then tl s else s) in
      if t = ''0'' then Inr 0
      else if t = [] then Inl (bad_duration s)
      else case duration_sum (length t) 0 t of
        None \<Rightarrow> Inl (bad_duration s)
      | Some d \<Rightarrow> if neg then Inr (- d) else if d > 2 ^ 63 - 1 then Inl (bad_duration s) else Inr d)"

lemma ParseDuration_hour: "ParseDuration ''1h'' = Inr hour"
  by code_simp

lemma ParseDuration_sum: "ParseDuration ''1h30m'' = Inr (hour + 1800000000000)"
  by code_simp

lemma ParseDuration_no_unit: "\<not> is_ok (ParseDuration ''90'')"
  by code_simp

lemma ParseDuration_too_long: "\<not> is_ok (ParseDuration ''2562048h'')"
  by code_simp

section \<open>The REST server\<close>

definition ttl :: "string \<Rightarrow> int" where
  "ttl s = (if s = [] then 0 else case ParseDuration s of Inl _ \<Rightarrow> 0 | Inr d \<Rightarrow> d)"

text \<open>Libraries of the login, and the key drawn for tokens when none is configured.\<close>

record ServerLibs =
  sl_oidc :: OIDCLib
  sl_jwt :: JWTLib
  sl_key :: string

definition oidc_config :: "OIDCServerConfig \<Rightarrow> OIDCConfig" where
  "oidc_config c =
     \<lparr>oc_Provider = oo_Provider c, oc_Issuer = oo_Issuer c, oc_ClientID = oo_ClientID c, oc_ClientSecret = oo_ClientSecret c,
      oc_RedirectURL = oo_RedirectURL c, oc_Scopes = oo_Scopes c\<rparr>"

definition jwt_service :: "ServerLibs \<Rightarrow> JWTServerConfig \<Rightarrow> JWTService" where
  "jwt_service sl j =
     NewJWTService (sl_key sl)
       \<lparr>jc_SigningKey = jt_SigningKey j, jc_Issuer = jt_Issuer j, jc_Audience = [], jc_AccessTokenTTL = ttl (jt_AccessTokenTTL j),
        jc_RefreshTokenTTL = ttl (jt_RefreshTokenTTL j)\<rparr>"

text \<open>A provider that cannot be set up is logged, and the server goes on without it.\<close>

definition oidc_option :: "ServerLibs \<Rightarrow> SmxConfig \<Rightarrow> OIDCHandlerConfig option" where
  "oidc_option sl cfg =
     (if \<not> oo_Enabled (cf_OIDC cfg) then None
      else case NewOIDCProvider (sl_oidc sl) (oidc_config (cf_OIDC cfg)) of
        Inl _ \<Rightarrow> None
      | Inr provider \<Rightarrow>
          Some \<lparr>oh_Lib = sl_oidc sl, oh_Provider = provider, oh_JWTLib = sl_jwt sl, oh_JWTService = jwt_service sl (cf_JWT cfg),
             oh_RoleMapping = oo_RoleMapping (cf_OIDC cfg)\<rparr>)"

record ('w, 'p, 'x) Started =
  sd_server :: "('w, 'p) RestServer"
  sd_jwt :: "(JWTLib \<times> JWTService) option"
  sd_web :: "('w, 'p, 'x) World Web"

text \<open>The options given to the server are the teams, the autoscaler and the login: neither an access control nor a gateway.\<close>

definition server_setup ::
  "('w, 'p) Opened \<Rightarrow> OtelLib \<Rightarrow> ServerLibs \<Rightarrow> SmxConfig res \<Rightarrow> (nat \<Rightarrow> gtime) \<Rightarrow> LoginState \<Rightarrow> ('w, 'p) cstate \<Rightarrow>
   ('w, 'p, 'x) Started res" where
  "server_setup o1 otel sl loaded clock login s =
     (let cfg = (case loaded of Inl _ \<Rightarrow> default_config | Inr c \<Rightarrow> c) in
      case InitTracing otel (cf_Tracing cfg) of
        Inl e \<Rightarrow> Inl (wrapped ''initialize tracing'' e)
      | Inr _ \<Rightarrow>
          (case open_controller o1 of
             Inl e \<Rightarrow> Inl e
           | Inr c \<Rightarrow>
               (case op_teams o1 of
                  Inl e \<Rightarrow> Inl (wrapped ''initialize team store'' e)
                | Inr teams \<Rightarrow>
                    let qm = \<lparr>qm_teams = teams, qm_sandboxes = ct_store c, qm_matrices = ct_matrices c, qm_sessions = ct_sessions c\<rparr>;
                        c1 = c\<lparr>ct_quotaChecker := Some (CheckQuota qm)\<rparr>;
                        oidc = oidc_option sl cfg;
                        on = sg_Enabled (cf_Autoscale cfg);
                        s1 = new_process s in
                    Inr \<lparr>sd_server = \<lparr>sv_ctrl = c1, sv_oidc = oidc, sv_teams = Some teams, sv_quota = Some qm, sv_has_scaler = on\<rparr>,
                      sd_jwt = map_option (\<lambda>x. (oh_JWTLib x, oh_JWTService x)) oidc,
                      sd_web = \<lparr>wb_rbac = None, wb_audit = None, wb_clock = clock, wb_tick = 0,
                        wb_app = \<lparr>wd_api = \<lparr>ap_ctrl = s1, ap_gateway = None\<rparr>, wd_login = login,
                          wd_scaler = (if on then Some (Start_scaler Background (New_autoscaler (cf_Autoscale cfg) (c_rt s1))) else None)\<rparr>\<rparr>\<rparr>)))"

definition serve_all ::
  "(AuditEntry \<Rightarrow> string res) \<Rightarrow> (Request \<Rightarrow> string list) \<Rightarrow> 'w RestLibs \<Rightarrow> ('w, 'p, 'x) Started \<Rightarrow> Request list \<Rightarrow> ('w, 'p, 'x) World Web" where
  "serve_all marshal segments l st rs =
     fold (\<lambda>r s. snd (serve_http marshal (sd_jwt st) segments l (sd_server st) r s)) rs (sd_web st)"

text \<open>How the command ends: the server failed, or a signal came and it was shut down, which also stops the autoscaler.\<close>

datatype ending = ServerFailed goerr | Signal "goerr option"

definition stop_scaling :: "'w Runtime \<Rightarrow> ('w, 'p, 'x) World \<Rightarrow> bool \<times> ('w, 'p, 'x) World" where
  "stop_scaling rt w =
     (case wd_scaler w of
        None \<Rightarrow> (True, w)
      | Some a \<Rightarrow>
          (case Stop_scaler rt (a\<lparr>az_world := c_rt (ctrl_of w)\<rparr>) of
             (fine, a1) \<Rightarrow> (fine, set_ctrl ((ctrl_of w)\<lparr>c_rt := az_world a1\<rparr>) w\<lparr>wd_scaler := Some a1\<rparr>)))"

definition server_end :: "'w Runtime \<Rightarrow> ending \<Rightarrow> ('w, 'p, 'x) World \<Rightarrow> goerr option \<times> ('w, 'p, 'x) World" where
  "server_end rt en w =
     (case en of
        ServerFailed e \<Rightarrow> (Some e, w)
      | Signal (Some e) \<Rightarrow> (Some (wrapped ''shutdown'' e), w)
      | Signal None \<Rightarrow> (case stop_scaling rt w of (fine, w1) \<Rightarrow> (if fine then None else Some (Panic ''autoscaler''), w1)))"

section \<open>What is running in the end\<close>

definition demo_opened :: "(simd, persist) Opened" where
  "demo_opened = \<lparr>op_docker = Inr (docker_runtime sim_client sim_dockerhost []), op_sandboxes = Inr sandboxes_in,
     op_sessions = Inr sessions_in, op_matrices = Inr matrices_in, op_teams = Inr teams_in, op_host = demo_host, op_net = sim_net\<rparr>"



text \<open>The gauge of active sandboxes belongs to a process, and no process counts the sandboxes it finds: the command that stops
  a sandbox which an earlier process started succeeds and leaves the gauge at minus one.\<close>

theorem gauge_negative_after_restart:
  "fst (with_controller demo_opened (sandbox_stop ''a'') demo_created) = prints (line (''Sandbox '' @ go_quote ''a'' @ '' stopped.'')) \<and>
   c_SandboxesActive (snd (with_controller demo_opened (sandbox_stop ''a'') demo_created)) = -1"
proof
  show "fst (with_controller demo_opened (sandbox_stop ''a'') demo_created) = prints (line (''Sandbox '' @ go_quote ''a'' @ '' stopped.''))"
    by code_simp
  show "c_SandboxesActive (snd (with_controller demo_opened (sandbox_stop ''a'') demo_created)) = -1"
    by code_simp
qed

end
