(* ===== verification/Spec2Isabelle.thy ===== *)
theory Spec2Isabelle
  imports DbSite CliPool CliServer
begin

text \<open>
  sandboxmatrix runs sandboxes (containers) for agents. A blueprint file describes a sandbox; the
  controller creates, stops, starts, destroys, snapshots and restores sandboxes through a container
  backend, keeps one record per sandbox in a state store, groups sandboxes into matrices on a network of
  their own, tracks sessions, waits for readiness probes and asks the quota manager of a team first.

  The theories, from the bottom up:

  \<^item> \<open>Prelude\<close>, \<open>GoStrings\<close>, \<open>GoFloat\<close>: what the code uses of the language and its standard library.
    Errors are values of \<open>goerr\<close> (a format string with its arguments, or an error of code outside the
    repository), \<open>(T, error)\<close> results are sums, an operation on a state is a function to a result and a
    new state, a Go map is an association list without repeated keys, \<open>int64\<close> sums wrap
    (\<open>wrap64\<close>), \<open>float64\<close> is the set of rationals with rounding to 53 bits, infinities and NaN.
  \<^item> \<open>ApiTypes\<close>: the records of \<open>pkg/api/v1alpha1/types.go\<close>.
  \<^item> \<open>RuntimeApi\<close>: the interface of a container backend (\<open>internal/runtime/runtime.go\<close>) as a record of
    operations, its contract as the locale \<open>container_runtime\<close>, and the Firecracker stub.
  \<^item> \<open>Stores\<close>, \<open>FileStores\<close> (\<open>internal/state\<close>): the locales \<open>kv_store\<close>, \<open>atomic_store\<close> and
    \<open>reliable_store\<close> state what clients rely on; the in-memory stores and the four JSON-file stores are
    shown to keep them. Every system call of a file store may fail; the writing of the file
    is also a step relation in which a crash may happen at any point.
  \<^item> \<open>BlueprintFiles\<close> (\<open>pkg/blueprint/parser.go\<close>): reading along \<open>extends\<close>, merging, validation.
  \<^item> \<open>Probe\<close> (\<open>internal/probe\<close>), \<open>Quota\<close> (\<open>internal/quota\<close>).
  \<^item> \<open>Docker\<close> (\<open>internal/runtime/docker\<close>, \<open>gvisor\<close>): the backend over the Docker client, whose
    contract is the locale \<open>docker_daemon\<close>; the backend keeps \<open>container_runtime\<close>.
  \<^item> \<open>Pool\<close> (\<open>internal/pool\<close>): containers created ahead of time, as whole operations and as a step relation
    that interleaves their critical sections.
  \<^item> \<open>Controller\<close>, \<open>SandboxOps\<close> (\<open>internal/controller\<close>): the operations, whole, over a backend, stores,
    a clock, a random source and the two gauges. The operations that change a sandbox run under one
    mutex, so each is one step.
  \<^item> \<open>ControllerSpec\<close>, \<open>Lifecycle\<close>, \<open>MatrixSpec\<close>: what the operations do, proved once in the locales
    \<open>controller_env\<close>, \<open>controller_reliable\<close> and \<open>matrix_env\<close> over the contracts of backend and stores:
    the effect of each request on records, containers and gauge, the invariant, the life cycle, the undoing
    of a failed matrix, reconciliation.
  \<^item> \<open>Gateway\<close>, \<open>Sharding\<close>, \<open>Aggregation\<close>: messages between agents (\<open>internal/agent/a2a\<close>), distribution of
    tasks and collection of results (\<open>internal/sharding\<close>, \<open>internal/aggregation\<close>).
  \<^item> \<open>Access\<close>, \<open>Tokens\<close>, \<open>Login\<close>: users, roles and the audit log (\<open>internal/auth/rbac.go\<close>, \<open>audit.go\<close>), JSON web
    tokens (\<open>jwt.go\<close>) and signing in with an identity provider (\<open>oidc.go\<close>, \<open>internal/server/oidc_handlers.go\<close>); the
    token, OAuth2 and OIDC libraries are parameters.
  \<^item> \<open>Server\<close>, \<open>Handlers\<close> (\<open>internal/server\<close>): the middleware every request goes through and the REST handlers over
    the controller, the gateway, the team store and the quota manager; the JSON decoder is a parameter.
  \<^item> \<open>Autoscale\<close> (\<open>internal/autoscale\<close>), \<open>Images\<close> (\<open>internal/image\<close>), \<open>Interpreter\<close> (\<open>internal/interpreter\<close>),
    \<open>Streaming\<close> (\<open>ws_handler.go\<close>), \<open>Registries\<close> (\<open>internal/network\<close>, \<open>internal/runtime/registry.go\<close>): the other parts of
    the server, with their handlers.
  \<^item> \<open>Rest\<close>, \<open>RestSpec\<close>, \<open>Site\<close> (\<open>server.go\<close>): the table of routes, the router, and a request through
    middleware and router. \<open>Preserve\<close> has one rule per construct of an operation for showing that it keeps an
    invariant; with them \<open>RestSpec\<close> carries the invariant of the controller through every handler, in the locale
    \<open>rest_env\<close>, which \<open>Site\<close> interprets on a complete installation.
  \<^item> \<open>GoFormat\<close>: what \<open>fmt\<close>, \<open>time\<close> and \<open>text/tabwriter\<close> do for the texts of the tools.
  \<^item> \<open>Mcp\<close>, \<open>McpSpec\<close> (\<open>internal/agent/mcp/server.go\<close>): the tools an agent calls, each with its declared parameters, over
    the controller, the gateway, the image builder and the interpreter; \<open>McpSpec\<close> works in \<open>rest_env\<close> too.
  \<^item> \<open>DbStores\<close>, \<open>DbSite\<close> (\<open>boltstore.go\<close>, \<open>etcdstore.go\<close>, \<open>distributed.go\<close> of \<open>internal/state\<close>): the stores in databases. The
    locales \<open>bolt_db\<close> and \<open>etcd_cluster\<close> say what is relied on (transactions; single-key operations whose answer may get
    lost), \<open>bolt_bucket\<close> and \<open>etcd_prefix\<close> derive the contracts of \<open>Stores\<close>, and all are interpreted on executable databases.
    \<open>DbSite\<close> runs the controller over the etcd store.
  \<^item> \<open>ClientSdk\<close>, \<open>ClientSpec\<close> (\<open>sdk/go\<close>): the Go client, the shell commands it sends read back by the token rules of the
    shell, and the client connected to the server of \<open>Rest\<close>.
  \<^item> \<open>Dashboard\<close> (\<open>internal/web\<close>): the routes of the dashboard, in the locale \<open>rest_env\<close> once more.
  \<^item> \<open>Settings\<close> (\<open>internal/config\<close>, \<open>internal/operator\<close>, \<open>tracing.go\<close>): the configuration file over the locale \<open>file_system\<close>.
  \<^item> \<open>Commands\<close>, \<open>CliAuth\<close>, \<open>CliPool\<close>, \<open>CliServer\<close> (\<open>internal/cli\<close>): the commands, each a function to what it prints, its error
    and the new state. \<open>CliAuth\<close> has the users file, the audit log and the teams (locale \<open>team_store\<close>, which extends \<open>kv_store\<close>);
    \<open>CliServer\<close> puts backend, stores, controller, teams, autoscaler and login together as the commands do.
  \<^item> \<open>Deployment\<close>: the controller with the file stores, the quota manager and the Docker backend over a
    small executable daemon; the locales above are interpreted on it, and the witnesses of the
    properties evaluate it.

  This theory holds the properties that span components; the properties of one component stand at the end of its
  theory. They cover: the invariant between records, containers and gauge; the absence of orphaned
  containers; the refinement of the life cycle; what a failed Create or CreateMatrix leaves; quota
  enforcement; crash safety of the state files; equivalence of file and memory stores; the exact set of
  blueprints that are read and accepted; the meaning of a ready verdict; exactness of the quota decision.

  Assumptions. The properties of the controller assume a store that does not fail and a backend
  that can remove a container it has (\<open>controller_reliable\<close>): the code ignores errors of those two calls
  on its clean-up paths. Nothing is assumed of the YAML decoder, the file system, the environment, the
  HTTP and TCP peers. The only fuel is that of \<open>duration_sum\<close>, the length of the text, of which every step takes at least one
  character; \<open>parseFileWithDepth\<close> ends because the depth grows to
  \<open>maxExtendsDepth\<close>, \<open>probe_loop\<close> because every round uses up a success or a failure; \<open>fillPool\<close>, which need
  not end, is a partial function, proved to return with a willing backend.

  Not modelled: the parsing of arguments and flags, log lines and spans, the static page of the dashboard, the goroutines of
  \<open>Pool.Warm\<close>, the closing of database handles. Requests that run at the same time are
  modelled as one after the other, except in \<open>Pool\<close> and \<open>Autoscale\<close>: the controller runs the operations that change a
  sandbox under one mutex.
\<close>

section \<open>Sequences of requests\<close>

definition demo_requests :: "request list" where
  "demo_requests = [ReqCreate (demo_options ''a''), ReqCreate (demo_options ''b''), ReqStop ''a'',
     ReqDestroy ''b'', ReqStart ''a'', ReqStop ''missing'']"

text \<open>The main invariant. Whatever sequence of Create, Stop, Start, Destroy and Restore requests is served,
  every record in state Running, Ready or Stopped names a container that exists, no two records name the same
  container, and the gauge \<open>SandboxesActive\<close> is the number of records in state Running or Ready.\<close>

theorem serve_invariant:
  assumes "controller_reliable c live used recs ok" and "ok (c_ps s)"
    and "view_inv (view_of live used recs s)"
  shows "view_inv (view_of live used recs (serve c reqs s))"
  using controller_reliable.serve_effects [OF assms(1,2)] assms(3) effects_inv by blast

theorem serve_invariant_witness:
  "view_inv (view_of sim_live sim_used records (serve (deployed demo_host) demo_requests boot)) \<and>
   c_SandboxesActive (serve (deployed demo_host) demo_requests boot) = 1"
proof
  show "view_inv (view_of sim_live sim_used records (serve (deployed demo_host) demo_requests boot))"
    by (rule serve_invariant [OF dep.controller_reliable_axioms boot_ok boot_inv])
  show "c_SandboxesActive (serve (deployed demo_host) demo_requests boot) = 1" by code_simp
qed



text \<open>C6. Refinement: every request changes the state of at most one sandbox, and that one along the abstract life
  cycle (created as Running, Ready or Error; Running or Ready to Stopped; Stopped to Running; anything to
  nothing); all other records stay as they are.\<close>

theorem perform_refines_lifecycle:
  assumes "controller_reliable c live used recs ok" and "ok (c_ps s)"
  shows "refines (recs (c_ps s)) (recs (c_ps (perform c req s)))"
  using effect_refines controller_reliable.perform_effect [OF assms] by (fastforce simp: view_of_def)

theorem perform_refines_lifecycle_witness:
  "refines (records (c_ps boot)) (records (c_ps (perform (deployed demo_host) (ReqCreate (demo_options ''a'')) boot)))"
  by (rule perform_refines_lifecycle [OF dep.controller_reliable_axioms boot_ok])

section \<open>Create, Stop, Start, Destroy\<close>

text \<open>A successful Create: the name was free, the record it returns is stored under it and is Running or Ready,
  it names a container with an ID never used before, and that container is the only new one.\<close>

theorem create_success:
  assumes "controller_reliable c live used recs ok" and "ok (c_ps s)"
    and "Create c opts s = ((Some sb, None), s')"
  shows "recs (c_ps s) (co_Name opts) = None \<and> recs (c_ps s') = (recs (c_ps s))(co_Name opts \<mapsto> sb) \<and>
    is_live sb \<and> sp_Team (sb_Spec sb) = co_Team opts \<and> rid sb \<notin> used (c_rt s) \<and>
    live (c_rt s') = insert (rid sb) (live (c_rt s)) \<and>
    c_SandboxesActive s' = c_SandboxesActive s + 1"
proof -
  have "(unchanged live used recs s s' \<and> snd (Some sb, None :: goerr option) \<noteq> None) \<or>
      (\<exists>sp. sp_Team sp = co_Team opts \<and> recs (c_ps s) (co_Name opts) = None \<and>
        launched live used recs (co_Name opts) sp s (Some sb, None) s')"
    by (rule controller_reliable.Create_run(2) [OF assms(1,3,2)])
  then show ?thesis by (auto simp: launched_def)
qed

theorem create_success_witness:
  "records (c_ps demo_created) ''a'' = Some demo_box \<and> is_live demo_box \<and> sp_Team (sb_Spec demo_box) = ''red'' \<and>
   sim_live (c_rt demo_created) = {rid demo_box} \<and> rid demo_box = ''c0''"
proof -
  have "rid demo_box = ''c0''" by code_simp
  moreover have "sim_live (c_rt boot) = {}" by (simp add: boot_def sim_live_def)
  ultimately show ?thesis
    using create_success [OF dep.controller_reliable_axioms boot_ok demo_Create]
    by (simp add: demo_options_def)
qed


definition boot_failing :: "(simd, persist) cstate" where
  "boot_failing = boot\<lparr>c_rt := (c_rt boot)\<lparr>sd_exit := (\<lambda>cmd. 1)\<rparr>\<rparr>"


text \<open>Stopping a sandbox and starting it again brings it back: the same container, the same
  specification, state Running; no other record, container or count has changed.\<close>

theorem stop_start_round_trip:
  assumes "controller_reliable c live used recs ok" and "ok (c_ps s)"
    and "Stop c n s = (Inr (), s1)" and "Start c n s1 = (Inr (), s2)"
  shows "\<exists>sb sb'. recs (c_ps s) n = Some sb \<and> is_live sb \<and> recs (c_ps s2) = (recs (c_ps s))(n \<mapsto> sb') \<and>
    sstate sb' = Running \<and> rid sb' = rid sb \<and> sb_Spec sb' = sb_Spec sb \<and> st_StoppedAt (sb_Status sb') = None \<and>
    live (c_rt s2) = live (c_rt s) \<and> c_SandboxesActive s2 = c_SandboxesActive s"
proof -
  note st = controller_reliable.Stop_run [OF assms(1,3,2), simplified]
  then obtain sb t where sb: "recs (c_ps s) n = Some sb" "is_live sb"
    "recs (c_ps s1) = (recs (c_ps s))(n \<mapsto> stopped_at t sb)" by auto
  note sa = controller_reliable.Start_run [OF assms(1,4), simplified]
  with st sb obtain t' where "recs (c_ps s2) = (recs (c_ps s))(n \<mapsto> started_at t' (stopped_at t sb))"
    by auto
  with st sa sb show ?thesis
    by (intro exI [of _ sb] exI [of _ "started_at t' (stopped_at t sb)"])
      (auto simp: started_at_def stopped_at_def)
qed

theorem stop_start_round_trip_witness:
  "\<exists>sb'. records (c_ps (snd (Start (deployed demo_host) ''a'' (snd (Stop (deployed demo_host) ''a'' demo_created)))))
      = (records (c_ps demo_created))(''a'' \<mapsto> sb') \<and> sstate sb' = Running"
proof -
  have "fst (Stop (deployed demo_host) ''a'' demo_created) = Inr ()"
    "fst (Start (deployed demo_host) ''a'' (snd (Stop (deployed demo_host) ''a'' demo_created))) = Inr ()"
    by code_simp+
  then show ?thesis
    using stop_start_round_trip [OF dep.controller_reliable_axioms created_ok] by (metis prod.collapse)
qed

text \<open>Destroying a sandbox that has a container succeeds, removes exactly that container and that
  record, and afterwards the sandbox can be neither read nor destroyed again.\<close>

theorem destroy_then_gone:
  assumes "controller_reliable c live used recs ok" and "ok (c_ps s)" and "view_inv (view_of live used recs s)"
    and "recs (c_ps s) n = Some sb" and "holds_container sb"
  shows "\<exists>s'. Destroy c n s = (Inr (), s') \<and> recs (c_ps s') = (recs (c_ps s))(n := None) \<and>
    live (c_rt s') = live (c_rt s) - {rid sb} \<and>
    c_SandboxesActive s' = c_SandboxesActive s - (if is_live sb then 1 else 0) \<and>
    \<not> is_ok (fst (Get c n s')) \<and> \<not> is_ok (fst (Destroy c n s'))"
proof -
  have "rid sb \<noteq> ''''" "rid sb \<in> live (c_rt s)"
    using assms(3-5) by (auto simp: view_of_def ids_held_def)
  with controller_reliable.Destroy_total [OF assms(1,2,4)] obtain s' where s': "Destroy c n s = (Inr (), s')"
    by blast
  note run = controller_reliable.Destroy_run [OF assms(1) s' assms(2)]
  then have "ok (c_ps s')" "recs (c_ps s') n = None" by auto
  from controller_reliable.absent [OF assms(1) this] run s' assms(4) \<open>rid sb \<noteq> ''''\<close>
  show ?thesis by auto
qed
theorem destroy_then_gone_witness:
  "\<exists>s'. Destroy (deployed demo_host) ''a'' demo_created = (Inr (), s') \<and> sim_live (c_rt s') = {}"
proof -
  have inv: "view_inv (view_of sim_live sim_used records demo_created)"
    using effects_inv [OF _ boot_inv] dep.perform_effect [OF boot_ok, of demo_host "ReqCreate (demo_options ''a'')"]
    by (simp add: demo_Create) (meson boot_inv effect_inv)
  have "records (c_ps demo_created) ''a'' = Some demo_box" "holds_container demo_box"
    "sim_live (c_rt demo_created) = {rid demo_box}"
    using dep.Create_run(2) [OF demo_Create boot_ok] live_holds
    by (auto simp: launched_def demo_options_def boot_def sim_live_def)
  with destroy_then_gone [OF dep.controller_reliable_axioms created_ok inv] show ?thesis by fastforce
qed

section \<open>Quotas\<close>

lemma Create_quota_checked:
  assumes "Create c opts s = ((Some sb, None), s')" and "ct_quotaChecker c = Some check" and "co_Team opts \<noteq> ''''"
  shows "\<exists>bp p p'. snd (kv_Get (ct_store c) (co_Name opts) (c_ps s)) = p \<and> check (co_Team opts) (quota_request bp) p = (Inr (), p')"
proof -
  obtain x s1 where x: "Create_check c opts s = (x, s1)" by fastforce
  then obtain bp where "x = Inr bp" using assms(1) by (cases x) (auto simp: Create_def)
  with x assms(2,3) show ?thesis
    by (fastforce simp: Create_check_def on_ps_def split: prod.splits sum.splits list.splits option.splits if_splits)
qed

text \<open>C7. Quota enforcement from end to end: when Create succeeds for a team that has a limit on sandboxes,
  the team has, with the new one, no more sandboxes than the limit.\<close>

theorem create_respects_quota:
  assumes "controller_reliable c live used records persist_ok"
    and "ct_store c = sandboxes_in" and "ct_quotaChecker c = Some (CheckQuota quota_manager)"
    and "persist_ok (c_ps s)" and "Create c opts s = ((Some sb, None), s')" and "co_Team opts \<noteq> ''''"
    and "fs_abs (pd_teams (c_ps s)) (co_Team opts) = Some tm" and "0 < rq_MaxSandboxes (t_Quota tm)"
    and "int (card (team_records (records (c_ps s)) (co_Team opts))) < 2 ^ 63 - 1"
  shows "int (card (team_records (records (c_ps s')) (co_Team opts))) \<le> rq_MaxSandboxes (t_Quota tm)"
proof -
  let ?T = "team_records (records (c_ps s)) (co_Team opts)"
  obtain bp p' where "CheckQuota quota_manager (co_Team opts) (quota_request bp) (c_ps s) = (Inr (), p')"
    using Create_quota_checked [OF assms(5,3,6)] reads_only(1) [OF assms(4), of "co_Name opts"] assms(2)
    by auto
  from CheckQuota_sandboxes [OF assms(4) this assms(7,8)]
  have "wrap64 (wrap64 (int (card ?T)) + 1) \<le> rq_MaxSandboxes (t_Quota tm)"
    by (simp add: quota_request_def Let_def)
  moreover have "in_int64 (int (card ?T) + 1)"
    using assms(9) by (simp add: in_int64_def)
  ultimately have le: "int (card ?T) + 1 \<le> rq_MaxSandboxes (t_Quota tm)"
    by (simp add: wrap64_add wrap64_id)
  have "(unchanged live used records s s' \<and> snd (Some sb, None :: goerr option) \<noteq> None) \<or>
      (\<exists>sp. sp_Team sp = co_Team opts \<and> records (c_ps s) (co_Name opts) = None \<and>
        launched live used records (co_Name opts) sp s (Some sb, None) s')"
    by (rule controller_reliable.Create_run(2) [OF assms(1,5,4)])
  then have "records (c_ps s') = (records (c_ps s))(co_Name opts \<mapsto> sb)" by (auto simp: launched_def)
  then have "team_records (records (c_ps s')) (co_Team opts) \<subseteq> insert (co_Name opts) ?T"
    by (auto simp: team_records_def split: if_splits)
  then have "card (team_records (records (c_ps s')) (co_Team opts)) \<le> Suc (card ?T)"
    using order_trans [OF card_mono [of "insert (co_Name opts) ?T"]] records_finite [OF assms(4)]
    by (simp add: card_insert_if)
  with le show ?thesis by linarith
qed

theorem create_respects_quota_witness:
  "card (team_records (records (c_ps demo_created)) ''red'') \<le> 2"
proof -
  have "team_records (records (c_ps boot)) ''red'' = {}"
    by (simp add: boot_def demo_persist_def records_def empty_disk_def fs_abs_def team_records_def)
  then have "int (card (team_records (records (c_ps demo_created)) (co_Team (demo_options ''a''))))
      \<le> rq_MaxSandboxes (t_Quota demo_team)"
    by (intro create_respects_quota [OF dep.controller_reliable_axioms _ _ boot_ok demo_Create])
      (simp_all add: deployed_def demo_options_def boot_def demo_persist_def fs_abs_def demo_team_def)
  then show ?thesis by (simp add: demo_options_def demo_team_def)
qed
section \<open>Matrices and reconciliation\<close>

definition pair :: "MatrixMember list" where
  "pair = [\<lparr>mm_Name = ''x'', mm_Blueprint = ''go.yaml''\<rparr>, \<lparr>mm_Name = ''y'', mm_Blueprint = ''none.yaml''\<rparr>]"



text \<open>A matrix that was created has a running sandbox for every member, none of which existed before, each
  with a container of its own, and is stored with its members in state Active.\<close>

theorem matrix_members_running:
  assumes "matrix_env c live used recs ok ms mrecs" and "ok (c_ps s)" and "distinct (map mm_Name members)"
    and "CreateMatrix c name members team s = (Inr mx, s')" and "m \<in> set members"
  shows "mrecs (c_ps s') name = Some mx \<and> mx_Members mx = members \<and> mx_State mx = MxActive \<and>
    recs (c_ps s) (member_sandbox name m) = None \<and>
    (\<exists>sb. recs (c_ps s') (member_sandbox name m) = Some sb \<and> is_live sb \<and> rid sb \<in> live (c_rt s') \<and>
       rid sb \<notin> live (c_rt s))"
proof -
  from matrix_env.CreateMatrix_run [OF assms(1,4,2,3)] obtain F where
    F: "extra F (view_of live used recs s) (view_of live used recs s')"
      "dom F = member_sandbox name ` set members" and mx: "mrecs (c_ps s') name = Some mx"
      "mx_Members mx = members" "mx_State mx = MxActive" by auto
  then obtain sb where sb: "F (member_sandbox name m) = Some sb" using assms(5) by (metis domD imageI)
  moreover have "recs (c_ps s) (member_sandbox name m) = None" "rid sb \<notin> live (c_rt s)"
    using F(1) sb by (auto simp: view_of_def extra.simps)
  ultimately show ?thesis using extra_found [of F] F(1) mx by (fastforce simp: view_of_def)
qed

definition twins :: "MatrixMember list" where
  "twins = [\<lparr>mm_Name = ''x'', mm_Blueprint = ''go.yaml''\<rparr>, \<lparr>mm_Name = ''y'', mm_Blueprint = ''go.yaml''\<rparr>]"

theorem matrix_members_running_witness:
  "\<exists>sb. records (c_ps (snd (CreateMatrix (deployed demo_host) ''m'' twins '''' boot))) ''m-y'' = Some sb \<and> is_live sb"
proof -
  let ?r = "CreateMatrix (deployed demo_host) ''m'' twins '''' boot"
  have "is_ok (fst ?r)" by code_simp
  then obtain mx where "?r = (Inr mx, snd ?r)" by (cases "fst ?r") (auto simp: prod_eq_iff)
  from matrix_members_running [OF depm.matrix_env_axioms boot_ok _ this, of "twins ! 1"] show ?thesis
    by (auto simp: twins_def member_sandbox_def)
qed

text \<open>The all-or-nothing property needs the distinct names: with a repeated name, the clean-up stops at the
  first member of that name and the sandboxes created before stay.\<close>

theorem duplicate_members_leak:
  "\<not> is_ok (fst (CreateMatrix (deployed demo_host) ''m'' (twins @ twins) '''' boot)) \<and>
   c_SandboxesActive (snd (CreateMatrix (deployed demo_host) ''m'' (twins @ twins) '''' boot)) = 2"
  by (rule conjI; code_simp)

text \<open>C12. Reconciliation at start-up: it succeeds when the backend lists its containers; every labelled container then
  has a record, the records that existed are kept as they are, every new one was made from a container, and
  nothing is done to the containers. Running it again on the same list changes no record.\<close>

theorem reconcile_tracks:
  assumes "controller_reliable c live used recs ok" and "ok (c_ps s)"
    and "rt_List (ct_runtime c) (c_rt s) = (Inr infos, w)"
  shows "\<exists>s'. Reconcile c s = (Inr (), s') \<and> tracked infos (recs (c_ps s)) (recs (c_ps s')) \<and>
    live (c_rt s') = live (c_rt s) \<and>
    (\<exists>s''. reconcile_each c infos s' = (Inr (), s'') \<and> recs (c_ps s'') = recs (c_ps s'))"
proof -
  let ?s1 = "s\<lparr>c_rt := w\<rparr>"
  have "live w = live (c_rt s)"
    using container_runtime.live_list assms(1,3)
    by (metis controller_env.axioms(1) controller_reliable.axioms(1) probe_env.axioms(1))
  moreover obtain s' where s': "reconcile_each c infos ?s1 = (Inr (), s')" "ok (c_ps s')" "c_rt s' = w"
    "tracked infos (recs (c_ps s)) (recs (c_ps s'))"
    using controller_reliable.reconcile_each_run [OF assms(1), of ?s1 infos] assms(2) by auto
  moreover obtain s'' where "reconcile_each c infos s' = (Inr (), s'')"
    "tracked infos (recs (c_ps s')) (recs (c_ps s''))"
    using controller_reliable.reconcile_each_run [OF assms(1) s'(2)] by blast
  ultimately show ?thesis using assms(3) tracked_again
    by (intro exI [of _ s']) (auto simp: Reconcile_def on_rt_def)
qed

definition forgotten :: "(simd, persist) cstate" where
  "forgotten = demo_created\<lparr>c_ps := c_ps boot\<rparr>"

theorem reconcile_tracks_witness:
  "\<exists>s'. Reconcile (deployed demo_host) forgotten = (Inr (), s') \<and> ''a'' \<in> dom (records (c_ps s'))"
proof -
  have l: "fst (rt_List (ct_runtime (deployed demo_host)) (c_rt forgotten)) = Inr [summary_info
      \<lparr>ks_ID = ''c0'', ks_Names = [''/smx-a''], ks_Image = ''golang'', ks_State = ''running'',
       ks_Labels = buildLabels (create_config demo_host demo_blueprint (demo_options ''a'') ''golang'')\<rparr>]"
    by code_simp
  have ok: "persist_ok (c_ps forgotten)" using boot_ok by (simp add: forgotten_def)
  have n: "container_name (summary_info
      \<lparr>ks_ID = ''c0'', ks_Names = [''/smx-a''], ks_Image = ''golang'', ks_State = ''running'',
       ks_Labels = buildLabels (create_config demo_host demo_blueprint (demo_options ''a'') ''golang'')\<rparr>) = ''a''"
    by code_simp
  from l have "rt_List (ct_runtime (deployed demo_host)) (c_rt forgotten) = (Inr [summary_info
      \<lparr>ks_ID = ''c0'', ks_Names = [''/smx-a''], ks_Image = ''golang'', ks_State = ''running'',
       ks_Labels = buildLabels (create_config demo_host demo_blueprint (demo_options ''a'') ''golang'')\<rparr>],
      snd (rt_List (ct_runtime (deployed demo_host)) (c_rt forgotten)))" by (simp add: prod_eq_iff)
  from reconcile_tracks [OF dep.controller_reliable_axioms ok this] n show ?thesis
    by (auto simp: tracked_def)
qed

text \<open>The containers the controller asks for are the ones reconciliation recognises: the labels the Docker backend
  gives to the container of a new sandbox hold the name of the sandbox, the blueprint and the mark by which
  the backend lists its containers.\<close>

theorem created_container_recognised:
  "container_name \<lparr>in_ID = i, in_Name = n, in_Image = img, in_State = st, in_IP = ip, in_Ports = ps,
     in_Labels = kc_Labels (container_config (create_config h bp opts im))\<rparr> = co_Name opts \<and>
   gm_str (kc_Labels (container_config (create_config h bp opts im))) ''sandboxmatrix/blueprint'' = om_Name (bp_Metadata bp) \<and>
   gm_str (kc_Labels (container_config (create_config h bp opts im))) ''sandboxmatrix/managed'' = ''true''"
  by (simp add: container_config_def buildLabels_def create_config_def Let_def gm_str_def)

end
